(* ===== verification/Prelude.thy ===== *)
theory Prelude
  imports Main "HOL-Library.Word"
begin

text \<open>
  What every component of the development shares: byte strings and machine
  integers, errors as values (a Go \<open>error\<close> or a run-time panic), checked
  slice and index expressions, the big-endian accessors of
  \<open>encoding/binary\<close>, and \<open>encoding/hex\<close>.  These model the Go language and its
  standard library, not code of the repository.

  The named collections are \<open>result_simps\<close> (sequencing of fallible code),
  \<open>slice_simps\<close> (checked slices) and \<open>byte_simps\<close> (fixed-width encodings).
\<close>

unbundle bit_operations_syntax

named_theorems result_simps "sequencing of fallible computations"
named_theorems slice_simps "checked index and slice expressions"
named_theorems byte_simps "big-endian encodings of machine words"

type_synonym u8 = "8 word"
type_synonym u16 = "16 word"
type_synonym u32 = "32 word"
type_synonym u64 = "64 word"
type_synonym bytes = "8 word list"


section \<open>Errors as values\<close>

text \<open>
  \<open>Panic\<close> is a run-time panic of the language; \<open>Errorf\<close> is a
  \<open>fmt.Errorf\<close> or \<open>errors.New\<close> value (its format string); \<open>Wrapf\<close> is a
  \<open>fmt.Errorf\<close> with \<open>%w\<close>; \<open>Sentinel\<close> is an exported error variable, by its
  name; \<open>HTTPErr\<close> carries an HTTP status with it.
\<close>

datatype error =
    Panic string
  | Errorf string
  | Wrapf string error
  | Sentinel string
  | HTTPErr nat string

type_synonym 'a result = "error + 'a"

fun errors_is :: "error \<Rightarrow> error \<Rightarrow> bool" where
  "errors_is (Wrapf s e) t = (Wrapf s e = t \<or> errors_is e t)"
| "errors_is e t = (e = t)"

definition rbind :: "'a result \<Rightarrow> ('a \<Rightarrow> 'b result) \<Rightarrow> 'b result" where
  "rbind r f = (case r of Inl e \<Rightarrow> Inl e | Inr x \<Rightarrow> f x)"

definition rwrap :: "string \<Rightarrow> 'a result \<Rightarrow> 'a result" where
  "rwrap s r = (case r of Inl (Panic p) \<Rightarrow> Inl (Panic p) | Inl e \<Rightarrow> Inl (Wrapf s e) | Inr x \<Rightarrow> Inr x)"

text \<open>\<open>%v\<close> of an error keeps its text only: what it wrapped cannot be recovered.\<close>

definition rmsg :: "string \<Rightarrow> 'a result \<Rightarrow> 'a result" where
  "rmsg s r = (case r of Inl (Panic p) \<Rightarrow> Inl (Panic p) | Inl e \<Rightarrow> Inl (Errorf s) | Inr x \<Rightarrow> Inr x)"

definition rguard :: "bool \<Rightarrow> error \<Rightarrow> unit result" where
  "rguard b e = (if b then Inr () else Inl e)"

definition panics :: "'a result \<Rightarrow> bool" where
  "panics r = (case r of Inl (Panic s) \<Rightarrow> True | _ \<Rightarrow> False)"

lemma rbind_simps [simp, result_simps]:
  "rbind (Inl e) f = Inl e"
  "rbind (Inr x) f = f x"
  by (simp_all add: rbind_def)

lemma rwrap_simps [simp, result_simps]:
  "rwrap s (Inr x) = Inr x"
  "rwrap s (Inl (Panic p)) = Inl (Panic p)"
  "rwrap s (Inl (Errorf m)) = Inl (Wrapf s (Errorf m))"
  "rwrap s (Inl (Wrapf m e)) = Inl (Wrapf s (Wrapf m e))"
  "rwrap s (Inl (Sentinel m)) = Inl (Wrapf s (Sentinel m))"
  "rwrap s (Inl (HTTPErr n m)) = Inl (Wrapf s (HTTPErr n m))"
  by (simp_all add: rwrap_def)

lemma rwrap_eq_Inr [simp, result_simps]: "rwrap s r = Inr x \<longleftrightarrow> r = Inr x"
  by (auto simp: rwrap_def split: sum.splits error.splits)

lemma rguard_simps [simp, result_simps]:
  "rguard True e = Inr ()"
  "rguard False e = Inl e"
  by (simp_all add: rguard_def)

lemma rbind_cong [fundef_cong]:
  "r = r' \<Longrightarrow> (\<And>x. r' = Inr x \<Longrightarrow> f x = g x) \<Longrightarrow> rbind r f = rbind r' g"
  by (cases r') auto

lemma rbind_eq_Inr: "rbind r f = Inr y \<longleftrightarrow> (\<exists>x. r = Inr x \<and> f x = Inr y)"
  by (cases r) auto

lemma rbind_eq_Inl:
  "rbind r f = Inl e \<longleftrightarrow> r = Inl e \<or> (\<exists>x. r = Inr x \<and> f x = Inl e)"
  by (cases r) auto

text \<open>\<open>rok r\<close>: the computation succeeds.\<close>

definition rok :: "'a result \<Rightarrow> bool" where
  "rok r = (case r of Inl e \<Rightarrow> False | Inr x \<Rightarrow> True)"

lemma rok_simps [simp, result_simps]: "rok (Inr x)" "\<not> rok (Inl e)"
  by (simp_all add: rok_def)

lemma rok_rbind: "rok r \<Longrightarrow> (\<And>x. r = Inr x \<Longrightarrow> rok (f x)) \<Longrightarrow> rok (rbind r f)"
  by (cases r) auto

lemma rokE: "rok r \<Longrightarrow> (\<And>x. r = Inr x \<Longrightarrow> P) \<Longrightarrow> P"
  by (cases r) auto

lemma rok_iff: "rok r \<longleftrightarrow> (\<exists>x. r = Inr x)"
  by (cases r) auto

lemma rok_not_panics [intro]: "rok r \<Longrightarrow> \<not> panics r"
  by (cases r) (auto simp: panics_def)

lemma panics_simps [simp, result_simps]:
  "\<not> panics (Inr x)"
  "panics (Inl (Panic s))"
  "\<not> panics (Inl (Errorf s))"
  "\<not> panics (Inl (Wrapf s e))"
  "\<not> panics (Inl (Sentinel s))"
  "\<not> panics (Inl (HTTPErr n s))"
  by (simp_all add: panics_def)

lemma rmsg_simps [simp, result_simps]:
  "rmsg s (Inr x) = Inr x"
  "rmsg s (Inl (Panic p)) = Inl (Panic p)"
  "rmsg s (Inl (Errorf m)) = Inl (Errorf s)"
  "rmsg s (Inl (Wrapf m e)) = Inl (Errorf s)"
  "rmsg s (Inl (Sentinel m)) = Inl (Errorf s)"
  "rmsg s (Inl (HTTPErr n m)) = Inl (Errorf s)"
  by (simp_all add: rmsg_def)

lemma rmsg_eq_Inr [simp, result_simps]: "rmsg s r = Inr x \<longleftrightarrow> r = Inr x"
  by (auto simp: rmsg_def split: sum.splits error.splits)

lemma panics_rmsg [simp]: "panics (rmsg s r) = panics r"
  by (auto simp: panics_def rmsg_def split: sum.splits error.splits)

lemma panics_rwrap [simp]: "panics (rwrap s r) = panics r"
  by (auto simp: panics_def rwrap_def split: sum.splits error.splits)


section \<open>Checked slices\<close>

text \<open>
  \<open>at b i\<close> is \<open>b[i]\<close> and \<open>slice b i j\<close> is \<open>b[i:j]\<close>; out of range both panic.
  (Go bounds a reslice by the capacity; the model uses the length, so it can
  only panic more often than the code.)
\<close>

definition at :: "'a list \<Rightarrow> nat \<Rightarrow> 'a result" where
  "at b i = (if i < length b then Inr (b ! i) else Inl (Panic ''index out of range''))"

definition slice :: "'a list \<Rightarrow> nat \<Rightarrow> nat \<Rightarrow> 'a list result" where
  "slice b i j = (if i \<le> j \<and> j \<le> length b then Inr (take (j - i) (drop i b))
                  else Inl (Panic ''slice bounds out of range''))"

lemma at_ok [simp, slice_simps]: "i < length b \<Longrightarrow> at b i = Inr (b ! i)"
  by (simp add: at_def)

lemma at_0_ok [simp, slice_simps]: "b \<noteq> [] \<Longrightarrow> at b 0 = Inr (b ! 0)"
  by (simp add: at_def)

lemma slice_ok [simp, slice_simps]:
  "i \<le> j \<Longrightarrow> j \<le> length b \<Longrightarrow> slice b i j = Inr (take (j - i) (drop i b))"
  by (simp add: slice_def)

lemma slice_length: "slice b i j = Inr c \<Longrightarrow> length c = j - i"
  by (auto simp: slice_def split: if_splits)

lemma list_update_numeral [simp]: "(x # xs)[numeral v := y] = x # xs[pred_numeral v := y]"
  by (simp add: numeral_eq_Suc)

text \<open>\<open>copy(dst[i:j], src)\<close>: as many bytes as fit in the window.\<close>

definition copy_into :: "bytes \<Rightarrow> nat \<Rightarrow> nat \<Rightarrow> bytes \<Rightarrow> bytes" where
  "copy_into dst i j src =
     (let n = min (j - i) (length src) in take i dst @ take n src @ drop (i + n) dst)"

lemma length_copy_into [simp]:
  "i \<le> j \<Longrightarrow> j \<le> length dst \<Longrightarrow> length (copy_into dst i j src) = length dst"
  by (auto simp: copy_into_def Let_def)

text \<open>\<open>copy(dst[i:], src)\<close>.\<close>

definition copy_from :: "bytes \<Rightarrow> nat \<Rightarrow> bytes \<Rightarrow> bytes" where
  "copy_from dst i src = copy_into dst i (length dst) src"

lemma copy_into_Cons [simp]:
  "copy_into (x # xs) (Suc i) (Suc j) src = x # copy_into xs i j src"
  "copy_into (x # xs) (numeral a) (numeral b) src = x # copy_into xs (pred_numeral a) (pred_numeral b) src"
  "copy_into (x # xs) (Suc i) (numeral b) src = x # copy_into xs i (pred_numeral b) src"
  by (simp_all add: copy_into_def Let_def numeral_eq_Suc)

lemma copy_into_0 [simp]: "length src = j \<Longrightarrow> copy_into xs 0 j src = src @ drop j xs"
  by (simp add: copy_into_def)

lemma copy_into_app [simp]:
  "length xs \<le> i \<Longrightarrow> copy_into (xs @ ys) i j src = xs @ copy_into ys (i - length xs) (j - length xs) src"
  by (simp add: copy_into_def min_def Let_def)

lemma copy_from_Cons [simp]:
  "copy_from (x # xs) (Suc i) src = x # copy_from xs i src"
  "copy_from (x # xs) (numeral a) src = x # copy_from xs (pred_numeral a) src"
  by (simp_all add: copy_from_def numeral_eq_Suc)

lemma copy_from_app [simp]:
  "length xs \<le> i \<Longrightarrow> copy_from (xs @ ys) i src = xs @ copy_from ys (i - length xs) src"
  by (simp add: copy_from_def)

lemma copy_from_0 [simp]: "copy_from (replicate (length src) 0) 0 src = src"
  by (simp add: copy_from_def)

lemma copy_from_0_Cons [simp]:
  "copy_from (x # xs) 0 (s # src) = s # copy_from xs 0 src" "copy_from xs 0 [] = xs"
  by (simp_all add: copy_from_def copy_into_def Let_def)

lemma length_copy_from [simp]: "i \<le> length dst \<Longrightarrow> length (copy_from dst i src) = length dst"
  by (simp add: copy_from_def)

lemma replicate_numeral [simp]: "replicate (numeral k) x = x # replicate (pred_numeral k) x"
  by (simp add: numeral_eq_Suc)

section \<open>Big-endian machine words\<close>

text \<open>
  \<open>be_bytes n w\<close> are the \<open>n\<close> octets of \<open>w\<close>, most significant first, and
  \<open>be_word\<close> reads them back: \<open>PutUint16\<close>/\<open>Uint16\<close> for \<open>n = 2\<close>,
  \<open>PutUint32\<close>/\<open>Uint32\<close> for \<open>n = 4\<close>.
\<close>

primrec be_bytes :: "nat \<Rightarrow> 'a::len word \<Rightarrow> bytes" where
  "be_bytes 0 w = []"
| "be_bytes (Suc n) w = ucast (drop_bit (8 * n) w) # be_bytes n w"

definition be_word :: "bytes \<Rightarrow> 'a::len word" where
  "be_word bs = foldl (\<lambda>acc b. push_bit 8 acc OR ucast b) 0 bs"

lemma length_be_bytes [simp, byte_simps]: "length (be_bytes n w) = n"
  by (induction n) auto

lemma be_word_Nil [simp]: "be_word [] = 0"
  by (simp add: be_word_def)

lemma be_word_snoc: "be_word (bs @ [b]) = (push_bit 8 (be_word bs) OR ucast b)"
  by (simp add: be_word_def)

lemma bit_be_word:
  "bit (be_word bs :: 'a::len word) i \<longleftrightarrow>
     i < LENGTH('a) \<and> i < 8 * length bs \<and> bit (rev bs ! (i div 8)) (i mod 8)"
proof (induction bs arbitrary: i rule: rev_induct)
  case Nil
  then show ?case by simp
next
  case (snoc b bs)
  show ?case
  proof (cases "i < 8")
    case True
    then show ?thesis
      by (auto simp: be_word_snoc bit_simps)
  next
    case False
    then have "i div 8 = Suc ((i - 8) div 8)" "i mod 8 = (i - 8) mod 8"
      by (auto simp: div_if mod_if)
    moreover have "\<not> bit b i"
      using False by (metis bit_imp_le_length len_num0 len_bit0 len_of_numeral_defs(2) linorder_not_less mult_2_right numeral_Bit0 mult.commute numeral_One one_add_one)
    ultimately show ?thesis
      using False by (auto simp: be_word_snoc bit_simps snoc.IH)
  qed
qed

lemma nth_be_bytes: "i < n \<Longrightarrow> be_bytes n w ! i = ucast (drop_bit (8 * (n - 1 - i)) w)"
  by (induction n arbitrary: i) (auto simp: nth_Cons split: nat.splits)

lemma bit_u8_less: "bit (b::8 word) i \<Longrightarrow> i < 8"
  using bit_imp_le_length [of b i] by simp

lemma unat_u8_less: "unat (b::8 word) < 256"
  by (rule order.strict_trans2 [OF unsigned_less]) simp

lemma unat_u16_less: "unat (w::16 word) < 65536"
  by (rule order.strict_trans2 [OF unsigned_less]) simp

lemma unat_u32_less: "unat (w::32 word) < 4294967296"
  by (rule order.strict_trans2 [OF unsigned_less]) simp

lemma be_word_be_bytes [simp, byte_simps]:
  "LENGTH('a) \<le> 8 * n \<Longrightarrow> be_word (be_bytes n (w::'a::len word)) = w"
proof (rule bit_word_eqI)
  fix i
  assume le: "LENGTH('a) \<le> 8 * n" and i: "i < LENGTH('a)"
  then have d: "i div 8 < n" by auto
  then have "n - 1 - (n - Suc (i div 8)) = i div 8" by auto
  with d have "rev (be_bytes n w) ! (i div 8) = ucast (drop_bit (8 * (i div 8)) w)"
    using nth_be_bytes [of "n - Suc (i div 8)" n w] by (simp add: rev_nth)
  then show "bit (be_word (be_bytes n w) :: 'a word) i = bit w i"
    using i le by (auto simp: bit_be_word bit_simps)
qed

lemma be_bytes_be_word:
  assumes "8 * length bs \<le> LENGTH('a::len)"
  shows "be_bytes (length bs) (be_word bs :: 'a word) = bs"
proof (rule nth_equalityI)
  fix i
  assume "i < length (be_bytes (length bs) (be_word bs :: 'a word))"
  then have i: "i < length bs" by simp
  let ?k = "length bs - 1 - i"
  have k: "rev bs ! ?k = bs ! i" "?k < length bs" using i by (auto simp: rev_nth)
  have "bit (be_bytes (length bs) (be_word bs :: 'a word) ! i) j = bit (bs ! i) j" if "j < 8" for j
  proof -
    have "(8 * ?k + j) div 8 = ?k" "(8 * ?k + j) mod 8 = j" using that by auto
    moreover have "8 * ?k + j < 8 * length bs" using k(2) that by linarith
    ultimately show ?thesis
      using i that assms k(1) by (simp add: nth_be_bytes bit_simps bit_be_word)
  qed
  then show "be_bytes (length bs) (be_word bs :: 'a word) ! i = bs ! i"
    by (intro bit_word_eqI) auto
qed simp

text \<open>Writing a word into a buffer, as \<open>binary.BigEndian.PutUintN(b[i:], w)\<close>.\<close>

definition put_be :: "nat \<Rightarrow> bytes \<Rightarrow> nat \<Rightarrow> 'a::len word \<Rightarrow> bytes" where
  "put_be n b i w = copy_into b i (i + n) (be_bytes n w)"

abbreviation put_u16 :: "bytes \<Rightarrow> nat \<Rightarrow> u16 \<Rightarrow> bytes" where
  "put_u16 \<equiv> put_be 2"

abbreviation put_u32 :: "bytes \<Rightarrow> nat \<Rightarrow> u32 \<Rightarrow> bytes" where
  "put_u32 \<equiv> put_be 4"

text \<open>Reading one: \<open>binary.BigEndian.Uint16\<close> panics on fewer than two octets,
  \<open>Uint32\<close> on fewer than four; neither looks at what follows.\<close>

definition get_u16 :: "bytes \<Rightarrow> u16 result" where
  "get_u16 b = rbind (slice b 0 2) (\<lambda>s. Inr (be_word s))"

definition get_u32 :: "bytes \<Rightarrow> u32 result" where
  "get_u32 b = rbind (slice b 0 4) (\<lambda>s. Inr (be_word s))"

lemma get_u16_ok [simp, slice_simps]: "2 \<le> length b \<Longrightarrow> get_u16 b = Inr (be_word (take 2 b))"
  by (simp add: get_u16_def)

lemma get_u32_ok [simp, slice_simps]: "4 \<le> length b \<Longrightarrow> get_u32 b = Inr (be_word (take 4 b))"
  by (simp add: get_u32_def)

lemma length_put_be [simp]: "i + n \<le> length b \<Longrightarrow> length (put_be n b i w) = length b"
  by (simp add: put_be_def)

lemma be_bytes_16: "be_bytes 2 w = [ucast (drop_bit 8 w), ucast w]"
  by (simp add: numeral_2_eq_2)

lemma be_bytes_32:
  "be_bytes 4 w = [ucast (drop_bit 24 w), ucast (drop_bit 16 w), ucast (drop_bit 8 w), ucast w]"
  by (simp add: eval_nat_numeral)

lemma unat_be_word2:
  "unat (be_word [a, b] :: 16 word) = 256 * unat a + unat b"
proof -
  have "(push_bit 8 (ucast a) OR ucast b :: 16 word) = push_bit 8 (ucast a) + ucast b"
    by (rule sym, rule disjunctive_add)
       (auto simp: bit_simps dest: bit_u8_less)
  moreover have "unat (push_bit 8 (ucast a) + ucast b :: 16 word) = 256 * unat a + unat b"
    using unat_u8_less [of a] unat_u8_less [of b]
    by (simp add: push_bit_eq_mult unat_word_ariths unsigned_ucast_eq take_bit_eq_mod)
  ultimately show ?thesis
    by (simp add: be_word_def)
qed

lemma unat_and_ffff: "unat (s AND 0xffff :: u32) = unat s mod 65536"
proof -
  have "unat (s AND 0xffff) = take_bit 16 (unat s)"
    unfolding unsigned_and_eq by (simp add: take_bit_eq_mask mask_eq_exp_minus_1)
  then show ?thesis by (simp add: take_bit_eq_mod)
qed

lemma unat_drop16: "unat (drop_bit 16 s :: u32) = unat s div 65536"
  by (simp only: unat_drop_bit_eq) (simp add: drop_bit_eq_div)

text \<open>\<open>uint16(n)\<close> of a length and back: exact below \<open>2^16\<close>.\<close>

lemma unat_u16_of_nat [simp]: "n < 65536 \<Longrightarrow> unat (of_nat n :: u16) = n"
  by (simp add: unat_of_nat)


section \<open>Hexadecimal strings\<close>

definition hex_digit :: "nat \<Rightarrow> char" where
  "hex_digit n = (''0123456789abcdef'' ! n)"

primrec hex_encode :: "bytes \<Rightarrow> string" where
  "hex_encode [] = []"
| "hex_encode (b # bs) = hex_digit (unat b div 16) # hex_digit (unat b mod 16) # hex_encode bs"

definition from_hex_char :: "char \<Rightarrow> nat option" where
  "from_hex_char c = (let n = of_char c :: nat in
     if 48 \<le> n \<and> n \<le> 57 then Some (n - 48)
     else if 97 \<le> n \<and> n \<le> 102 then Some (n - 97 + 10)
     else if 65 \<le> n \<and> n \<le> 70 then Some (n - 65 + 10)
     else None)"

text \<open>\<open>hex.DecodeString\<close>: the first bad digit is the error, an odd length
  only when all complete pairs were good.\<close>

fun hex_decode :: "string \<Rightarrow> bytes result" where
  "hex_decode [] = Inr []"
| "hex_decode [c] = (case from_hex_char c of None \<Rightarrow> Inl (Errorf ''invalid byte'')
                     | Some _ \<Rightarrow> Inl (Sentinel ''hex.ErrLength''))"
| "hex_decode (c # d # s) =
     (case from_hex_char c of None \<Rightarrow> Inl (Errorf ''invalid byte'') | Some h \<Rightarrow>
      (case from_hex_char d of None \<Rightarrow> Inl (Errorf ''invalid byte'') | Some l \<Rightarrow>
        rbind (hex_decode s) (\<lambda>bs. Inr (of_nat (16 * h + l) # bs))))"

lemma from_hex_char_digit: "n < 16 \<Longrightarrow> from_hex_char (hex_digit n) = Some n"
proof -
  assume "n < 16"
  then have "n \<in> set [0..<16]" by simp
  moreover have "\<forall>n \<in> set [0..<16]. from_hex_char (hex_digit n) = Some n" by code_simp
  ultimately show ?thesis by blast
qed

lemma hex_decode_encode [simp]: "hex_decode (hex_encode bs) = Inr bs"
proof (induction bs)
  case (Cons b bs)
  have "unat b div 16 < 16" using unat_u8_less [of b] by (auto simp: less_mult_imp_div_less)
  then show ?case using Cons by (simp add: from_hex_char_digit)
qed simp


section \<open>Decimal strings\<close>

text \<open>\<open>strconv.FormatInt(n, 10)\<close> and \<open>%d\<close> on non-negative numbers.\<close>

definition dec_digit :: "nat \<Rightarrow> char" where
  "dec_digit n = char_of (48 + n)"

fun dec :: "nat \<Rightarrow> string" where
  "dec n = (if n < 10 then [dec_digit n] else dec (n div 10) @ [dec_digit (n mod 10)])"

declare dec.simps [simp del]

definition digit_val :: "char \<Rightarrow> nat" where
  "digit_val c = of_char c - 48"

definition dec_val :: "string \<Rightarrow> nat" where
  "dec_val s = foldl (\<lambda>acc c. 10 * acc + digit_val c) 0 s"

lemma digit_val_dec_digit [simp]: "n < 10 \<Longrightarrow> digit_val (dec_digit n) = n"
  by (simp add: digit_val_def dec_digit_def)

lemma dec_val_dec [simp]: "dec_val (dec n) = n"
proof (induction n rule: dec.induct)
  case (1 n)
  show ?case
  proof (cases "n < 10")
    case True
    then show ?thesis by (simp add: dec.simps [of n] dec_val_def)
  next
    case False
    then show ?thesis
      using 1 by (subst dec.simps) (simp add: dec_val_def)
  qed
qed

lemma dec_inject [simp]: "dec m = dec n \<longleftrightarrow> m = n"
  by (metis dec_val_dec)

lemma dec_nonempty [simp]: "dec n \<noteq> []"
  by (subst dec.simps) simp

definition is_digit :: "char \<Rightarrow> bool" where
  "is_digit c = (let n = of_char c :: nat in 48 \<le> n \<and> n \<le> 57)"

lemma dec_digits: "list_all is_digit (dec n)"
proof (induction n rule: dec.induct)
  case (1 n)
  have d: "is_digit (dec_digit m)" if "m < 10" for m
    using that by (simp add: is_digit_def dec_digit_def)
  show ?case
    by (subst dec.simps) (use 1 d in auto)
qed

lemma is_digit_less: "is_digit c \<Longrightarrow> digit_val c < 10"
  by (auto simp: is_digit_def digit_val_def Let_def)

lemma from_hex_char_is_digit [simp]: "is_digit c \<Longrightarrow> from_hex_char c = Some (digit_val c)"
  by (simp add: is_digit_def from_hex_char_def digit_val_def Let_def)

lemma is_digit_not_F [simp]: "is_digit c \<Longrightarrow> c \<noteq> CHR ''F'' \<and> c \<noteq> CHR ''f'' \<and> c \<noteq> CHR ''-''"
  by (auto simp: is_digit_def Let_def)

end
