(* ===== verification/Netip.thy ===== *)
theory Netip
  imports Prelude
begin

text \<open>
  The part of Go's \<open>net/netip\<close> the program uses: \<open>netip.Addr\<close> with its three
  representations (the zero address, IPv4, IPv6 with a zone), conversion from and
  to octets, unmapping of IPv4-mapped addresses, the text form and its parser.  This is the
  language's standard library, so none of it is mapped to the repository.
\<close>

datatype addr = ZeroAddr | Addr4 u32 | Addr6 "128 word" string

definition AddrFromSlice :: "bytes \<Rightarrow> addr option" where
  "AddrFromSlice b =
     (if length b = 4 then Some (Addr4 (be_word b))
      else if length b = 16 then Some (Addr6 (be_word b) [])
      else None)"

fun Is4 :: "addr \<Rightarrow> bool" where
  "Is4 (Addr4 w) = True"
| "Is4 _ = False"

fun Is6 :: "addr \<Rightarrow> bool" where
  "Is6 (Addr6 w z) = True"
| "Is6 _ = False"

fun Is4In6 :: "addr \<Rightarrow> bool" where
  "Is4In6 (Addr6 w z) = (drop_bit 32 w = 0xffff)"
| "Is4In6 _ = False"

fun Unmap :: "addr \<Rightarrow> addr" where
  "Unmap (Addr6 w z) = (if Is4In6 (Addr6 w z) then Addr4 (ucast w) else Addr6 w z)"
| "Unmap a = a"

text \<open>\<open>As4\<close> panics on an IPv6 address that is not IPv4-mapped, and on the zero
  address; \<open>As16\<close> maps an IPv4 address and gives zeros for the zero address.\<close>

fun As4 :: "addr \<Rightarrow> bytes result" where
  "As4 (Addr4 w) = Inr (be_bytes 4 w)"
| "As4 (Addr6 w z) = (if Is4In6 (Addr6 w z) then Inr (be_bytes 4 (ucast w :: u32))
                      else Inl (Panic ''As4 called on IPv6 address''))"
| "As4 ZeroAddr = Inl (Panic ''As4 called on IP zero value'')"

fun As16 :: "addr \<Rightarrow> bytes" where
  "As16 (Addr4 w) = be_bytes 16 (push_bit 32 0xffff OR ucast w :: 128 word)"
| "As16 (Addr6 w z) = be_bytes 16 w"
| "As16 ZeroAddr = replicate 16 0"

section \<open>Text form\<close>

fun hex_nat :: "nat \<Rightarrow> string" where
  "hex_nat n = (if n < 16 then [hex_digit n] else hex_nat (n div 16) @ [hex_digit (n mod 16)])"

declare hex_nat.simps [simp del]

definition string4 :: "u32 \<Rightarrow> string" where
  "string4 w = (let b = be_bytes 4 w in
     dec (unat (b ! 0)) @ ''.'' @ dec (unat (b ! 1)) @ ''.'' @
     dec (unat (b ! 2)) @ ''.'' @ dec (unat (b ! 3)))"

definition groups6 :: "128 word \<Rightarrow> nat list" where
  "groups6 w = map (\<lambda>i. unat (ucast (drop_bit (16 * (7 - i)) w) :: u16)) [0..<8]"

fun zero_run :: "nat list \<Rightarrow> nat" where
  "zero_run (g # gs) = (if g = 0 then Suc (zero_run gs) else 0)"
| "zero_run [] = 0"

text \<open>The first longest run of at least two zero groups: start and end.\<close>

definition best_run :: "nat list \<Rightarrow> nat \<times> nat" where
  "best_run gs = foldl (\<lambda>(s, e) i. let l = zero_run (drop i gs) in
      if l \<ge> 2 \<and> l > e - s then (i, i + l) else (s, e)) (255, 255) [0..<8]"

definition join_groups :: "nat list \<Rightarrow> string" where
  "join_groups gs = (case gs of [] \<Rightarrow> [] | g # gs' \<Rightarrow>
      hex_nat g @ concat (map (\<lambda>x. '':'' @ hex_nat x) gs'))"

definition string6 :: "128 word \<Rightarrow> string" where
  "string6 w = (let gs = groups6 w; (s, e) = best_run gs in
     if s = 255 then join_groups gs
     else join_groups (take s gs) @ ''::'' @ join_groups (drop e gs))"

fun addr_string :: "addr \<Rightarrow> string" where
  "addr_string ZeroAddr = ''invalid IP''"
| "addr_string (Addr4 w) = string4 w"
| "addr_string (Addr6 w z) =
     (if drop_bit 32 w = 0xffff then ''::ffff:'' @ string4 (ucast w) else string6 w)
     @ (if z = [] then [] else ''%'' @ z)"

section \<open>Parsing\<close>

text \<open>\<open>netip.ParseAddr\<close>.  \<open>parse4\<close> holds the current octet, its number of digits and the octets
  read; \<open>parse6\<close> the groups still allowed, the rest of the text, the position of the ellipsis and
  the octets read.\<close>

definition bad_addr :: error where "bad_addr = Errorf ''ParseAddr''"

fun parse4 :: "string \<Rightarrow> nat \<Rightarrow> nat \<Rightarrow> bytes \<Rightarrow> bytes result" where
  "parse4 [] v n fs = (if length fs < 3 then Inl bad_addr else Inr (fs @ [of_nat v]))"
| "parse4 (c # s) v n fs =
     (if is_digit c then
        if n = 1 \<and> v = 0 then Inl bad_addr
        else let v' = v * 10 + digit_val c in
          if v' > 255 then Inl bad_addr else parse4 s v' (Suc n) fs
      else if c = CHR ''.'' then
        if n = 0 \<or> s = [] then Inl bad_addr
        else if length fs = 3 then Inl bad_addr
        else parse4 s 0 0 (fs @ [of_nat v])
      else Inl bad_addr)"

definition hex_value :: "string \<Rightarrow> nat" where
  "hex_value s = foldl (\<lambda>a c. 16 * a + (case from_hex_char c of None \<Rightarrow> 0 | Some d \<Rightarrow> d)) 0 s"

fun parse6 :: "nat \<Rightarrow> string \<Rightarrow> nat option \<Rightarrow> bytes \<Rightarrow> (bytes \<times> nat option \<times> string) result" where
  "parse6 0 s ell ip = Inr (ip, ell, s)"
| "parse6 (Suc k) s ell ip =
     (let d = takeWhile (\<lambda>c. from_hex_char c \<noteq> None) s; r = drop (length d) s in
      if length d > 4 \<or> d = [] then Inl bad_addr
      else if r \<noteq> [] \<and> hd r = CHR ''.'' then
        if (ell = None \<and> length ip \<noteq> 12) \<or> length ip + 4 > 16 then Inl bad_addr
        else rbind (parse4 s 0 0 []) (\<lambda>f. Inr (ip @ f, ell, []))
      else let ip' = ip @ be_bytes 2 (of_nat (hex_value d) :: u16) in
        case r of
          [] \<Rightarrow> Inr (ip', ell, [])
        | c # s' \<Rightarrow>
            if c \<noteq> CHR '':'' \<or> s' = [] then Inl bad_addr
            else if hd s' = CHR '':'' then
              if ell \<noteq> None then Inl bad_addr
              else if tl s' = [] then Inr (ip', Some (length ip'), [])
              else parse6 k (tl s') (Some (length ip')) ip'
            else parse6 k s' ell ip')"

definition expand6 :: "bytes \<times> nat option \<times> string \<Rightarrow> bytes result" where
  "expand6 t = (case t of (ip, ell, s) \<Rightarrow>
     if s \<noteq> [] then Inl bad_addr
     else if length ip < 16 then
       case ell of None \<Rightarrow> Inl bad_addr
       | Some e \<Rightarrow> Inr (take e ip @ replicate (16 - length ip) 0 @ drop e ip)
     else if ell \<noteq> None then Inl bad_addr else Inr ip)"

definition parseIPv6 :: "string \<Rightarrow> addr result" where
  "parseIPv6 inp =
     (let s = takeWhile (\<lambda>c. c \<noteq> CHR ''%'') inp; z = drop (length s) inp; zone = tl z in
      if z \<noteq> [] \<and> zone = [] then Inl bad_addr
      else if take 2 s = ''::'' then
        if drop 2 s = [] then Inr (Addr6 0 zone)
        else rbind (parse6 8 (drop 2 s) (Some 0) []) (\<lambda>t. rbind (expand6 t) (\<lambda>ip. Inr (Addr6 (be_word ip) zone)))
      else rbind (parse6 8 s None []) (\<lambda>t. rbind (expand6 t) (\<lambda>ip. Inr (Addr6 (be_word ip) zone))))"

definition ParseAddr :: "string \<Rightarrow> addr result" where
  "ParseAddr s = (case find (\<lambda>c. c \<in> {CHR ''.'', CHR '':'', CHR ''%''}) s of
     None \<Rightarrow> Inl bad_addr
   | Some c \<Rightarrow> if c = CHR ''.'' then rbind (parse4 s 0 0 []) (\<lambda>f. Inr (Addr4 (be_word f)))
               else if c = CHR '':'' then parseIPv6 s
               else Inl bad_addr)"

section \<open>Facts\<close>

lemma length_As16 [simp]: "length (As16 a) = 16"
  by (cases a) simp_all

lemma As4_Addr4 [simp]: "Is4 a \<Longrightarrow> \<exists>b. As4 a = Inr b \<and> length b = 4"
  by (cases a) auto

lemma AddrFromSlice_be4 [simp]: "AddrFromSlice (be_bytes 4 (w::u32)) = Some (Addr4 w)"
  by (simp add: AddrFromSlice_def)

lemma AddrFromSlice_be16 [simp]: "AddrFromSlice (be_bytes 16 (w::128 word)) = Some (Addr6 w [])"
  by (simp add: AddrFromSlice_def)

lemma Is4_cases: "Is4 a \<Longrightarrow> (\<And>w. a = Addr4 w \<Longrightarrow> P) \<Longrightarrow> P"
  by (cases a) auto

lemma Is6_cases: "Is6 a \<Longrightarrow> (\<And>w z. a = Addr6 w z \<Longrightarrow> P) \<Longrightarrow> P"
  by (cases a) auto

text \<open>An address parsed as IPv4 prints back, and the parser reads what the printer wrote.\<close>

lemma dec_cases:
  "n < 256 \<Longrightarrow> dec n =
     (if n < 10 then [dec_digit n]
      else if n < 100 then [dec_digit (n div 10), dec_digit (n mod 10)]
      else [dec_digit (n div 100), dec_digit (n div 10 mod 10), dec_digit (n mod 10)])"
proof -
  assume n: "n < 256"
  consider "n < 10" | "10 \<le> n" "n < 100" | "100 \<le> n" by linarith
  then show ?thesis
  proof cases
    case 2
    then have "n div 10 < 10" by auto
    with 2 show ?thesis by (simp add: dec.simps [of n] dec.simps [of "n div 10"])
  next
    case 3
    with n have "\<not> n div 10 < 10" "n div 10 div 10 < 10" "n div 10 div 10 = n div 100"
      by (auto simp: div_mult2_eq [symmetric])
    with 3 show ?thesis
      by (simp add: dec.simps [of n] dec.simps [of "n div 10"] dec.simps [of "n div 100"])
  qed (simp add: dec.simps)
qed

lemma is_digit_dec_digit [simp]: "m < 10 \<Longrightarrow> is_digit (dec_digit m)"
  by (simp add: is_digit_def dec_digit_def)

lemma is_digit_dot [simp]: "\<not> is_digit (CHR ''.'')"
  by (simp add: is_digit_def)

lemma parse4_dec:
  assumes "n < 256"
  shows "\<exists>k. 0 < k \<and> parse4 (dec n @ s) 0 0 fs = parse4 s n k fs"
proof -
  have "parse4 (dec n @ s) 0 0 fs = parse4 s n (length (dec n)) fs"
  proof (cases "n < 100")
    case True
    then have "n div 10 < 10" "n div 10 * 10 + n mod 10 = n" "n < 10 \<or> n div 10 \<noteq> 0" by auto
    with True assms show ?thesis by (auto simp: dec_cases Let_def)
  next
    case False
    have small: "\<not> 255 < n div 10" "\<not> 255 < n div 100" using assms by auto
    have "n div 100 * 10 + n div 10 mod 10 = n div 10"
      using div_mult_mod_eq [of "n div 10" 10] by (simp add: div_mult2_eq [symmetric])
    moreover from False have "0 < n div 100" "n div 10 \<le> 255" "n div 100 < 10" "n div 10 * 10 + n mod 10 = n" using assms by auto
    ultimately show ?thesis using False assms by (simp add: dec_cases Let_def small)
  qed
  then show ?thesis by (metis dec_nonempty length_greater_0_conv)
qed

lemma parse4_string4: "parse4 (string4 w) 0 0 [] = Inr (be_bytes 4 w)"
proof -
  define b where "b = be_bytes 4 w"
  have bs: "b = [b ! 0, b ! 1, b ! 2, b ! 3]" by (simp add: b_def eval_nat_numeral)
  have step: "parse4 (dec (unat x) @ CHR ''.'' # c # s) 0 0 fs = parse4 (c # s) 0 0 (fs @ [x])"
    if "length fs < 3" for x c s fs
    using parse4_dec [OF unat_u8_less, of x "CHR ''.'' # c # s" fs] that by auto
  have last: "parse4 (dec (unat x)) 0 0 fs = Inr (fs @ [x])" if "length fs = 3" for x fs
    using parse4_dec [OF unat_u8_less, of x "[]" fs] that by auto
  have ne: "\<exists>c s. dec (unat x) @ r = c # s" for x r
    using dec_nonempty by (cases "dec (unat x)") auto
  have sn: "parse4 (dec (unat x) @ ''.'' @ dec (unat y) @ r) 0 0 fs = parse4 (dec (unat y) @ r) 0 0 (fs @ [x])"
    if "length fs < 3" for x y r fs
    using ne [of y r] step [OF that] by (metis append_Cons append_Nil)
  have "parse4 (string4 w) 0 0 [] = Inr [b ! 0, b ! 1, b ! 2, b ! 3]"
    unfolding string4_def Let_def b_def [symmetric]
    using sn [of "[]" "b ! 0" "b ! 1"] sn [of "[b ! 0]" "b ! 1" "b ! 2"]
      sn [of "[b ! 0, b ! 1]" "b ! 2" "b ! 3" "[]"] last [of "[b ! 0, b ! 1, b ! 2]" "b ! 3"]
    by simp
  then show ?thesis using bs b_def by simp
qed

theorem ParseAddr_string4 [simp]: "ParseAddr (string4 w) = Inr (Addr4 w)"
proof -
  let ?P = "\<lambda>c. c \<in> {CHR ''.'', CHR '':'', CHR ''%''}"
  have skip: "find ?P (xs @ s) = find ?P s" if "\<forall>c \<in> set xs. \<not> ?P c" for xs s
    using that by (induction xs) auto
  have f: "find ?P (dec n @ s) = find ?P s" for n s
    using dec_digits [of n] by (intro skip) (auto simp: list_all_iff is_digit_def)
  have "find ?P (string4 w) = Some (CHR ''.'')"
    by (simp only: string4_def Let_def f) simp
  then show ?thesis by (simp add: ParseAddr_def parse4_string4)
qed

end
