(* ===== verification/Gtpu_IP.thy ===== *)
theory Gtpu_IP
  imports Netip
begin

text \<open>
  The inner IP packets sent through the tunnels: \<open>internal/gtpu/ip.go\<close> and
  \<open>internal/gtpu/ip6.go\<close>.  Packets are built by writing into zeroed buffers, the
  checksum by the code's 32-bit accumulation and carry folding.
\<close>

definition protoICMP :: u8 where "protoICMP = 1"
definition protoUDP :: u8 where "protoUDP = 17"
definition icmpEchoReply :: u8 where "icmpEchoReply = 0"
definition icmpEchoRequest :: u8 where "icmpEchoRequest = 8"
definition ipTTL :: u8 where "ipTTL = 64"
definition protoICMPv6 :: u8 where "protoICMPv6 = 58"
definition icmpv6EchoRequest :: u8 where "icmpv6EchoRequest = 128"
definition icmpv6EchoReply :: u8 where "icmpv6EchoReply = 129"
definition ipv6HopLimit :: u8 where "ipv6HopLimit = 64"

lemmas ip_const_defs =
  protoICMP_def protoUDP_def icmpEchoReply_def icmpEchoRequest_def ipTTL_def
  protoICMPv6_def icmpv6EchoRequest_def icmpv6EchoReply_def ipv6HopLimit_def


section \<open>Internet checksum\<close>

fun sum_pairs :: "bytes \<Rightarrow> u32 \<Rightarrow> u32" where
  "sum_pairs (a # b # bs) s = sum_pairs bs (s + ucast (be_word [a, b] :: u16))"
| "sum_pairs _ s = s"

definition sum32 :: "bytes \<Rightarrow> u32" where
  "sum32 b = (let s = sum_pairs b 0 in
     if length b mod 2 = 1 then s + push_bit 8 (ucast (last b)) else s)"

lemma fold_carry_unat:
  "unat ((s AND 0xffff) + drop_bit 16 s :: u32) = unat s mod 65536 + unat s div 65536"
proof -
  have "unat s < 4294967296" by (rule order.strict_trans2 [OF unsigned_less]) simp
  then have "unat s mod 65536 + unat s div 65536 < 4294967296" by linarith
  then show ?thesis by (simp add: unat_word_ariths unat_and_ffff unat_drop16)
qed

lemma drop16_zero: "drop_bit 16 (s :: u32) = 0 \<longleftrightarrow> unat s < 65536"
proof -
  have "drop_bit 16 s = 0 \<longleftrightarrow> unat s div 65536 = 0" by (simp only: unat_drop16 [symmetric] unat_eq_0)
  then show ?thesis by (simp add: div_eq_0_iff)
qed

function fold_carry :: "u32 \<Rightarrow> u32" where
  "fold_carry s = (if drop_bit 16 s \<noteq> 0 then fold_carry ((s AND 0xffff) + drop_bit 16 s) else s)"
  by pat_completeness auto
termination
proof (relation "measure unat")
  fix s :: u32
  assume "drop_bit 16 s \<noteq> 0"
  then have "\<not> unat s < 65536" by (simp only: drop16_zero not_False_eq_True)
  then have "unat s mod 65536 + unat s div 65536 < unat s"
    using div_mult_mod_eq [of "unat s" 65536] div_greater_zero_iff [of "unat s" 65536] by linarith
  then show "((s AND 0xffff) + drop_bit 16 s, s) \<in> measure unat"
    by (simp only: in_measure fold_carry_unat)
qed simp

declare fold_carry.simps [simp del]

definition onesComplementSum :: "bytes \<Rightarrow> u16" where
  "onesComplementSum b = NOT (ucast (fold_carry (sum32 b)))"


section \<open>Builders\<close>

definition buildIPv4 :: "u8 \<Rightarrow> addr \<Rightarrow> addr \<Rightarrow> bytes \<Rightarrow> bytes result" where
  "buildIPv4 proto src dst l4 =
     (let total = 20 + length l4;
          ip = replicate total 0;
          ip = ip[0 := 0x45];
          ip = put_u16 ip 2 (of_nat total);
          ip = ip[8 := ipTTL];
          ip = ip[9 := proto] in
      rbind (As4 src) (\<lambda>s. rbind (As4 dst) (\<lambda>d.
        let ip = copy_into ip 12 16 s;
            ip = copy_into ip 16 20 d;
            ip = put_u16 ip 10 (onesComplementSum (take 20 ip))
        in Inr (copy_from ip 20 l4))))"

text \<open>The code's constructions of the ICMP and UDP parts, before the checksum.\<close>

definition icmp_echo :: "u8 \<Rightarrow> u16 \<Rightarrow> u16 \<Rightarrow> bytes \<Rightarrow> bytes" where
  "icmp_echo typ ident seq payload =
     (let icmp = replicate (8 + length payload) 0;
          icmp = icmp[0 := typ];
          icmp = put_u16 icmp 4 ident;
          icmp = put_u16 icmp 6 seq
      in copy_from icmp 8 payload)"

definition udp_datagram :: "u16 \<Rightarrow> u16 \<Rightarrow> bytes \<Rightarrow> bytes" where
  "udp_datagram srcPort dstPort payload =
     (let udp = replicate (8 + length payload) 0;
          udp = put_u16 udp 0 srcPort;
          udp = put_u16 udp 2 dstPort;
          udp = put_u16 udp 4 (of_nat (length udp))
      in copy_from udp 8 payload)"

definition pseudo6 :: "addr \<Rightarrow> addr \<Rightarrow> u8 \<Rightarrow> bytes \<Rightarrow> bytes" where
  "pseudo6 src dst nextHeader upper =
     (let pseudo = replicate (40 + length upper) 0;
          pseudo = copy_into pseudo 0 16 (As16 src);
          pseudo = copy_into pseudo 16 32 (As16 dst);
          pseudo = put_u32 pseudo 32 (of_nat (length upper));
          pseudo = pseudo[39 := nextHeader]
      in copy_from pseudo 40 upper)"

definition checksum6 :: "addr \<Rightarrow> addr \<Rightarrow> u8 \<Rightarrow> bytes \<Rightarrow> u16" where
  "checksum6 src dst nextHeader upper = onesComplementSum (pseudo6 src dst nextHeader upper)"

definition buildIPv6 :: "u8 \<Rightarrow> addr \<Rightarrow> addr \<Rightarrow> bytes \<Rightarrow> bytes" where
  "buildIPv6 nextHeader src dst upper =
     (let ip = replicate (40 + length upper) 0;
          ip = ip[0 := 0x60];
          ip = put_u16 ip 4 (of_nat (length upper));
          ip = ip[6 := nextHeader];
          ip = ip[7 := ipv6HopLimit];
          ip = copy_into ip 8 24 (As16 src);
          ip = copy_into ip 24 40 (As16 dst)
      in copy_from ip 40 upper)"

definition buildICMPv6Echo :: "addr \<Rightarrow> addr \<Rightarrow> u16 \<Rightarrow> u16 \<Rightarrow> bytes \<Rightarrow> bytes" where
  "buildICMPv6Echo src dst ident seq payload =
     (let icmp = icmp_echo icmpv6EchoRequest ident seq payload;
          icmp = put_u16 icmp 2 (checksum6 src dst protoICMPv6 icmp)
      in buildIPv6 protoICMPv6 src dst icmp)"

definition buildUDPv6 :: "addr \<Rightarrow> addr \<Rightarrow> u16 \<Rightarrow> u16 \<Rightarrow> bytes \<Rightarrow> bytes" where
  "buildUDPv6 src dst srcPort dstPort payload =
     (let udp = udp_datagram srcPort dstPort payload;
          cs = checksum6 src dst protoUDP udp;
          cs = (if cs = 0 then 0xffff else cs);
          udp = put_u16 udp 6 cs
      in buildIPv6 protoUDP src dst udp)"

definition BuildICMPEcho :: "addr \<Rightarrow> addr \<Rightarrow> u16 \<Rightarrow> u16 \<Rightarrow> bytes \<Rightarrow> bytes result" where
  "BuildICMPEcho src dst ident seq payload =
     (if Is4 src \<and> Is4 dst then
        (let icmp = icmp_echo icmpEchoRequest ident seq payload;
             icmp = put_u16 icmp 2 (onesComplementSum icmp)
         in buildIPv4 protoICMP src dst icmp)
      else if Is6 src \<and> Is6 dst then Inr (buildICMPv6Echo src dst ident seq payload)
      else Inl (Errorf ''ICMP echo requires matching IPv4 or IPv6 addresses''))"

definition BuildUDP :: "addr \<Rightarrow> addr \<Rightarrow> u16 \<Rightarrow> u16 \<Rightarrow> bytes \<Rightarrow> bytes result" where
  "BuildUDP src dst srcPort dstPort payload =
     (if Is4 src \<and> Is4 dst then buildIPv4 protoUDP src dst (udp_datagram srcPort dstPort payload)
      else if Is6 src \<and> Is6 dst then Inr (buildUDPv6 src dst srcPort dstPort payload)
      else Inl (Errorf ''UDP build requires matching IPv4 or IPv6 addresses''))"


section \<open>Parsers\<close>

record InnerPacket =
  Src :: string
  Dst :: string
  Protocol :: u8
  ICMPType :: u8
  ICMPID :: u16
  ICMPSeq :: u16
  UDPSrcPort :: u16
  UDPDstPort :: u16
  ipPayload :: string

text \<open>\<open>src, _ := netip.AddrFromSlice(b)\<close>: the zero address when it is not one.\<close>

definition addr_or_zero :: "bytes \<Rightarrow> addr" where
  "addr_or_zero b = (case AddrFromSlice b of Some a \<Rightarrow> a | None \<Rightarrow> ZeroAddr)"

definition sub_u16 :: "bytes \<Rightarrow> nat \<Rightarrow> u16 result" where
  "sub_u16 b i = rbind (slice b i (i + 2)) get_u16"

text \<open>The \<open>switch\<close> on the protocol, the same in both parsers but for the ICMP number.\<close>

definition parse_l4 :: "u8 \<Rightarrow> u8 \<Rightarrow> bytes \<Rightarrow> InnerPacket \<Rightarrow> InnerPacket result" where
  "parse_l4 icmp proto l4 p =
     (if proto = icmp then
        (if length l4 \<ge> 8 then
           rbind (at l4 0) (\<lambda>t. rbind (sub_u16 l4 4) (\<lambda>i. rbind (sub_u16 l4 6) (\<lambda>q.
             Inr (p\<lparr> ICMPType := t, ICMPID := i, ICMPSeq := q \<rparr>))))
         else Inr p)
      else if proto = protoUDP then
        (if length l4 \<ge> 8 then
           rbind (sub_u16 l4 0) (\<lambda>s. rbind (sub_u16 l4 2) (\<lambda>d.
           rbind (slice l4 8 (length l4)) (\<lambda>pl.
             Inr (p\<lparr> UDPSrcPort := s, UDPDstPort := d, ipPayload := hex_encode pl \<rparr>))))
         else Inr p)
      else Inr p)"

definition inner0 :: "addr \<Rightarrow> addr \<Rightarrow> u8 \<Rightarrow> InnerPacket" where
  "inner0 src dst proto = \<lparr> Src = addr_string src, Dst = addr_string dst, Protocol = proto,
     ICMPType = 0, ICMPID = 0, ICMPSeq = 0, UDPSrcPort = 0, UDPDstPort = 0, ipPayload = [] \<rparr>"

definition ParseIPv4 :: "bytes \<Rightarrow> InnerPacket result" where
  "ParseIPv4 b =
     (if length b < 20 then Inl (Errorf ''not an IPv4 packet'')
      else rbind (at b 0) (\<lambda>b0.
        if drop_bit 4 b0 \<noteq> 4 then Inl (Errorf ''not an IPv4 packet'')
        else
          let ihl = unat (b0 AND 0x0f) * 4 in
          if length b < ihl then Inl (Errorf ''IPv4 header truncated'')
          else rbind (slice b 12 16) (\<lambda>s. rbind (slice b 16 20) (\<lambda>d. rbind (at b 9) (\<lambda>proto.
               rbind (slice b ihl (length b)) (\<lambda>l4.
                 parse_l4 protoICMP proto l4
                   (inner0 (addr_or_zero s) (addr_or_zero d) proto)))))))"

definition ParseIPv6 :: "bytes \<Rightarrow> InnerPacket result" where
  "ParseIPv6 b =
     (if length b < 40 then Inl (Errorf ''not an IPv6 packet'')
      else rbind (at b 0) (\<lambda>b0.
        if drop_bit 4 b0 \<noteq> 6 then Inl (Errorf ''not an IPv6 packet'')
        else rbind (slice b 8 24) (\<lambda>s. rbind (slice b 24 40) (\<lambda>d. rbind (at b 6) (\<lambda>proto.
             rbind (slice b 40 (length b)) (\<lambda>l4.
               parse_l4 protoICMPv6 proto l4
                 (inner0 (addr_or_zero s) (addr_or_zero d) proto)))))))"

definition ParseInner :: "bytes \<Rightarrow> InnerPacket result" where
  "ParseInner b =
     (if length b < 1 then Inl (Errorf ''empty packet'')
      else rbind (at b 0) (\<lambda>b0.
        if drop_bit 4 b0 = 4 then ParseIPv4 b
        else if drop_bit 4 b0 = 6 then ParseIPv6 b
        else Inl (Errorf ''unknown IP version'')))"

definition IsICMPEchoReply :: "InnerPacket \<Rightarrow> bool" where
  "IsICMPEchoReply p = ((Protocol p = protoICMP \<and> ICMPType p = icmpEchoReply) \<or>
                        (Protocol p = protoICMPv6 \<and> ICMPType p = icmpv6EchoReply))"


section \<open>The checksum as arithmetic\<close>

text \<open>\<open>nsum\<close> is the sum of the 16-bit words as a number, \<open>csum\<close> its ones' complement
  reduction: what the 32-bit accumulator and the carry folding compute, since no packet
  is long enough for the accumulator to wrap.\<close>

fun nsum :: "bytes \<Rightarrow> nat" where
  "nsum (a # b # bs) = 256 * unat a + unat b + nsum bs"
| "nsum [a] = 256 * unat a"
| "nsum [] = 0"

lemma nsum_append: "even (length xs) \<Longrightarrow> nsum (xs @ ys) = nsum xs + nsum ys"
  by (induction xs rule: nsum.induct) auto

lemma nsum_bound: "nsum b \<le> 65535 * ((length b + 1) div 2)"
proof (induction b rule: nsum.induct)
  case (1 a b bs)
  then show ?case using unat_u8_less [of a] unat_u8_less [of b] by simp
next
  case (2 a)
  then show ?case using unat_u8_less [of a] by simp
qed simp

lemma unat_shift8: "unat (push_bit 8 (ucast (a :: u8)) :: u32) = 256 * unat a"
  using unat_u8_less [of a]
  by (simp add: push_bit_eq_mult unat_word_ariths unsigned_ucast_eq take_bit_eq_mod)

lemma sum_pairs_unat:
  "unat s + nsum b < 4294967296 \<Longrightarrow>
   unat (if odd (length b) then sum_pairs b s + push_bit 8 (ucast (last b)) else sum_pairs b s)
     = unat s + nsum b"
proof (induction b s rule: sum_pairs.induct)
  case (1 a b bs s)
  have w: "unat (ucast (be_word [a, b] :: u16) :: u32) = 256 * unat a + unat b"
    using unat_be_word2 [of a b] unat_u8_less [of a] unat_u8_less [of b]
    by (simp add: unsigned_ucast_eq take_bit_eq_mod)
  have s: "unat (s + ucast (be_word [a, b] :: u16)) = unat s + 256 * unat a + unat b"
    using 1(2) w by (simp add: unat_word_ariths)
  have "bs = [] \<Longrightarrow> last (a # b # bs) = b" by simp
  with 1 s show ?case
    by (cases "bs = []") auto
next
qed (simp_all add: unat_word_ariths unat_shift8)

lemma sum32_unat: "nsum b < 4294967296 \<Longrightarrow> unat (sum32 b) = nsum b"
  using sum_pairs_unat [of 0 b] by (simp add: sum32_def Let_def odd_iff_mod_2_eq_one)

lemma fold_carry_props:
  "unat (fold_carry s) < 65536 \<and> unat (fold_carry s) mod 65535 = unat s mod 65535 \<and>
   (unat (fold_carry s) = 0 \<longleftrightarrow> unat s = 0)"
proof (induction s rule: fold_carry.induct)
  case (1 s)
  show ?case
  proof (cases "drop_bit 16 s = 0")
    case True
    then show ?thesis by (simp add: fold_carry.simps [of s] drop16_zero)
  next
    case False
    let ?s' = "(s AND 0xffff) + drop_bit 16 s"
    have u: "unat ?s' = unat s mod 65536 + unat s div 65536" by (rule fold_carry_unat)
    have "unat s = unat ?s' + 65535 * (unat s div 65536)"
      unfolding u using div_mult_mod_eq [of "unat s" 65536] by linarith
    then have m: "unat ?s' mod 65535 = unat s mod 65535" by (metis mod_mult_self2)
    have z: "unat ?s' = 0 \<longleftrightarrow> unat s = 0" 
      unfolding u using div_mult_mod_eq [of "unat s" 65536] by auto
    have f: "fold_carry s = fold_carry ?s'" using False by (subst fold_carry.simps) simp
    from 1 [OF False] m z show ?thesis unfolding f by metis
  qed
qed

definition csum :: "nat \<Rightarrow> nat" where
  "csum n = (if n = 0 then 0 else if n mod 65535 = 0 then 65535 else n mod 65535)"

lemma fold_carry_csum: "unat (fold_carry s) = csum (unat s)"
proof -
  let ?f = "unat (fold_carry s)"
  have "?f < 65536" "?f mod 65535 = unat s mod 65535" "?f = 0 \<longleftrightarrow> unat s = 0"
    using fold_carry_props [of s] by blast+
  moreover from \<open>?f < 65536\<close> have "?f mod 65535 = (if ?f = 65535 then 0 else ?f)" by auto
  ultimately show ?thesis by (auto simp: csum_def split: if_splits)
qed

lemma unat_not16: "unat (NOT (w :: u16)) = 65535 - unat w"
proof -
  have "NOT w = 0xffff - w" by (simp add: not_eq_complement)
  moreover have "w \<le> 0xffff"
    using unat_u16_less [of w] by (simp add: word_le_nat_alt)
  ultimately show ?thesis by (simp add: unat_sub)
qed

lemma unat_onesComplementSum:
  assumes "nsum b < 4294967296"
  shows "unat (onesComplementSum b) = 65535 - csum (nsum b)"
proof -
  have "csum (nsum b) < 65536" by (auto simp: csum_def intro: less_trans [OF mod_less_divisor])
  moreover have "unat (ucast (fold_carry (sum32 b)) :: u16) = csum (nsum b)"
    using fold_carry_csum [of "sum32 b"] sum32_unat [OF assms] calculation
    by (simp add: unsigned_ucast_eq take_bit_eq_mod)
  ultimately show ?thesis
    by (simp add: onesComplementSum_def unat_not16)
qed

lemma csum_complement:
  assumes "c = 65535 - csum n \<or> (c = 65535 \<and> csum n = 65535)"
  shows "csum (n + c) = 65535"
proof (cases "n = 0")
  case True
  with assms show ?thesis by (auto simp: csum_def)
next
  case False
  show ?thesis
  proof (cases "n mod 65535 = 0")
    case m: True
    with assms False show ?thesis by (auto simp: csum_def)
  next
    case m: False
    have "n mod 65535 < 65535" by simp
    with assms m False have c: "c = 65535 - n mod 65535" unfolding csum_def by presburger
    have "n + c = 65535 * (n div 65535 + 1)"
      unfolding c using div_mult_mod_eq [of n 65535] \<open>n mod 65535 < 65535\<close>
      by (simp only: distrib_left mult.commute)
    then have "(n + c) mod 65535 = 0" "n + c \<noteq> 0" using False by (simp_all only: mod_mult_self1_is_0)
    then show ?thesis by (simp add: csum_def)
  qed
qed

text \<open>Filling a zero checksum field (at an even offset) with the complement, or with all ones
  where the complement is zero, makes the whole verify.\<close>

lemma checksum_insert:
  assumes "even (length pre)" "length pre + 2 + length suf < 131000"
    and "cs = onesComplementSum (pre @ [0, 0] @ suf) \<or>
         (cs = 0xffff \<and> onesComplementSum (pre @ [0, 0] @ suf) = 0)"
  shows "onesComplementSum (pre @ be_bytes 2 cs @ suf) = 0"
proof -
  obtain c0 c1 where c: "be_bytes 2 cs = [c0, c1]" by (simp add: be_bytes_16)
  have cs: "256 * unat c0 + unat c1 = unat cs"
    unfolding unat_be_word2 [symmetric] by (simp flip: c)
  let ?z = "pre @ [0, 0] @ suf" and ?f = "pre @ be_bytes 2 cs @ suf"
  have nz: "nsum ?z = nsum pre + nsum suf" using assms(1) by (simp add: nsum_append)
  have nf: "nsum ?f = nsum ?z + unat cs" unfolding nz using assms(1) by (simp add: nsum_append c cs)
  have bz: "nsum ?z < 4294967296" and bf: "nsum ?f < 4294967296"
    using nsum_bound [of ?z] nsum_bound [of ?f] assms(2) by auto
  have uz: "unat (onesComplementSum ?z) = 65535 - csum (nsum ?z)" by (rule unat_onesComplementSum [OF bz])
  have le: "csum (nsum ?z) \<le> 65535" by (auto simp: csum_def intro: less_imp_le)
  have "unat cs = 65535 - csum (nsum ?z) \<or> (unat cs = 65535 \<and> csum (nsum ?z) = 65535)"
    using assms(3) uz le by auto
  then have "csum (nsum ?f) = 65535" unfolding nf by (rule csum_complement)
  then have "unat (onesComplementSum ?f) = 0" using unat_onesComplementSum [OF bf] by simp
  then show ?thesis by (simp only: unat_eq_0)
qed

section \<open>What the builders write\<close>

lemma icmp_echo_layout:
  "icmp_echo typ ident seq pl = [typ, 0, 0, 0] @ be_bytes 2 ident @ be_bytes 2 seq @ pl"
  by (simp add: icmp_echo_def Let_def put_be_def be_bytes_16 replicate_add)

lemma udp_datagram_layout:
  "udp_datagram sp dp pl =
     be_bytes 2 sp @ be_bytes 2 dp @ be_bytes 2 (of_nat (8 + length pl) :: u16) @ [0, 0] @ pl"
  by (simp add: udp_datagram_def Let_def put_be_def be_bytes_16 replicate_add)

lemma pseudo6_layout:
  "pseudo6 src dst nh upper =
     As16 src @ As16 dst @ be_bytes 4 (of_nat (length upper) :: u32) @ [0, 0, 0, nh] @ upper"
  by (simp add: pseudo6_def Let_def put_be_def be_bytes_32 replicate_add list_update_append
    )

lemma buildIPv6_layout:
  "buildIPv6 nh src dst upper =
     [0x60, 0, 0, 0] @ be_bytes 2 (of_nat (length upper) :: u16) @ [nh, ipv6HopLimit]
     @ As16 src @ As16 dst @ upper"
  by (simp add: buildIPv6_def Let_def put_be_def be_bytes_16 replicate_add list_update_append)

definition ipv4_header :: "u8 \<Rightarrow> u32 \<Rightarrow> u32 \<Rightarrow> nat \<Rightarrow> bytes \<Rightarrow> bytes" where
  "ipv4_header proto s d n cs =
     [0x45, 0] @ be_bytes 2 (of_nat n :: u16) @ [0, 0, 0, 0, ipTTL, proto] @ cs
     @ be_bytes 4 s @ be_bytes 4 d"

lemma length_ipv4_header: "length cs = 2 \<Longrightarrow> length (ipv4_header proto s d n cs) = 20"
  by (simp add: ipv4_header_def)

lemma buildIPv4_layout:
  "buildIPv4 proto (Addr4 s) (Addr4 d) l4 =
     Inr (ipv4_header proto s d (20 + length l4)
            (be_bytes 2 (onesComplementSum (ipv4_header proto s d (20 + length l4) [0, 0]))) @ l4)"
  by (simp add: buildIPv4_def ipv4_header_def Let_def put_be_def be_bytes_16 be_bytes_32
      replicate_add list_update_append)
lemmas ip_layouts = icmp_echo_layout udp_datagram_layout pseudo6_layout buildIPv6_layout

lemma icmp_echo_filled:
  "put_u16 (icmp_echo typ ident seq pl) 2 cs =
     [typ, 0] @ be_bytes 2 cs @ be_bytes 2 ident @ be_bytes 2 seq @ pl"
  by (simp add: icmp_echo_layout put_be_def be_bytes_16)

lemma udp_datagram_filled:
  "put_u16 (udp_datagram sp dp pl) 6 cs =
     be_bytes 2 sp @ be_bytes 2 dp @ be_bytes 2 (of_nat (8 + length pl) :: u16) @ be_bytes 2 cs @ pl"
  by (simp add: udp_datagram_layout put_be_def be_bytes_16)


section \<open>Builders and parsers\<close>

lemma udp_datagram_zero:
  "udp_datagram sp dp pl =
     be_bytes 2 sp @ be_bytes 2 dp @ be_bytes 2 (of_nat (8 + length pl) :: u16)
     @ be_bytes 2 (0 :: u16) @ pl"
  by (simp add: udp_datagram_layout be_bytes_16)

lemma buildIPv4_ok: "Is4 src \<Longrightarrow> Is4 dst \<Longrightarrow> rok (buildIPv4 proto src dst l4)"
  by (auto elim!: Is4_cases simp: buildIPv4_layout)

definition same_family :: "addr \<Rightarrow> addr \<Rightarrow> bool" where
  "same_family src dst = ((Is4 src \<and> Is4 dst) \<or> (Is6 src \<and> Is6 dst))"

text \<open>Both packet builders succeed exactly when source and destination are of the same
  family, and never panic: the family test guards every \<open>As4\<close>.\<close>

theorem Build_total:
  "rok (BuildUDP src dst sp dp pl) = same_family src dst \<and>
   rok (BuildICMPEcho src dst ident seq pl) = same_family src dst \<and>
   \<not> panics (BuildUDP src dst sp dp pl) \<and> \<not> panics (BuildICMPEcho src dst ident seq pl)"
  using rok_not_panics [OF buildIPv4_ok]
  by (auto simp: BuildUDP_def BuildICMPEcho_def same_family_def Let_def buildIPv4_ok)

lemma parse_l4_udp:
  fixes n cs :: u16
  assumes "icmp \<noteq> protoUDP"
  shows "parse_l4 icmp protoUDP (be_bytes 2 sp @ be_bytes 2 dp @ be_bytes 2 n @ be_bytes 2 cs @ pl) p =
     Inr (p\<lparr> UDPSrcPort := sp, UDPDstPort := dp, ipPayload := hex_encode pl \<rparr>)"
  using assms not_sym [OF assms] by (simp add: parse_l4_def sub_u16_def)

lemma parse_l4_icmp:
  "parse_l4 icmp icmp ([t, 0] @ be_bytes 2 cs @ be_bytes 2 i @ be_bytes 2 q @ pl) p =
     Inr (p\<lparr> ICMPType := t, ICMPID := i, ICMPSeq := q \<rparr>)" for cs :: u16
  by (simp add: parse_l4_def sub_u16_def)

lemma ParseInner_IPv4:
  "length cs = 2 \<Longrightarrow> ParseInner (ipv4_header proto s d n cs @ l4) =
     parse_l4 protoICMP proto l4 (inner0 (Addr4 s) (Addr4 d) proto)"
  by (simp add: ipv4_header_def ParseInner_def ParseIPv4_def addr_or_zero_def nth_append)

lemma ParseInner_IPv6:
  "ParseInner (buildIPv6 nh (Addr6 s z) (Addr6 d z') upper) =
     parse_l4 protoICMPv6 nh upper (inner0 (Addr6 s []) (Addr6 d []) nh)"
  by (simp add: buildIPv6_layout ParseInner_def ParseIPv6_def addr_or_zero_def nth_append)

text \<open>The text form of an address as a received packet shows it: the zone is not on the wire.\<close>

fun wire_string :: "addr \<Rightarrow> string" where
  "wire_string (Addr6 w z) = addr_string (Addr6 w [])"
| "wire_string a = addr_string a"

text \<open>A UDP packet built for the tunnel parses back, over IPv4 and IPv6, to its addresses,
  protocol 17, its ports and its payload in hexadecimal, whatever the payload length.\<close>

theorem ParseInner_BuildUDP:
  assumes "BuildUDP src dst sp dp pl = Inr b"
  shows "ParseInner b = Inr \<lparr> Src = wire_string src, Dst = wire_string dst, Protocol = protoUDP,
     ICMPType = 0, ICMPID = 0, ICMPSeq = 0, UDPSrcPort = sp, UDPDstPort = dp,
     ipPayload = hex_encode pl \<rparr>"
proof -
  have i: "protoICMP \<noteq> protoUDP" "protoICMPv6 \<noteq> protoUDP" by (simp_all add: ip_const_defs)
  consider (v4) s d where "src = Addr4 s" "dst = Addr4 d"
    | (v6) s z d z' where "src = Addr6 s z" "dst = Addr6 d z'"
    using assms by (cases src; cases dst) (auto simp: BuildUDP_def)
  then show ?thesis
  proof cases
    case v4
    with assms show ?thesis
      by (auto simp: BuildUDP_def buildIPv4_layout ParseInner_IPv4 udp_datagram_zero
          parse_l4_udp [OF i(1)] inner0_def)
  next
    case v6
    with assms show ?thesis
      by (auto simp: BuildUDP_def buildUDPv6_def Let_def ParseInner_IPv6 udp_datagram_filled
          parse_l4_udp [OF i(2)] inner0_def)
  qed
qed

text \<open>An echo request, taken apart.\<close>

lemma echo_parses:
  assumes "BuildICMPEcho src dst ident seq pl = Inr b"
  shows "ParseInner b = Inr \<lparr> Src = wire_string src, Dst = wire_string dst,
     Protocol = (if Is4 src then protoICMP else protoICMPv6),
     ICMPType = (if Is4 src then icmpEchoRequest else icmpv6EchoRequest),
     ICMPID = ident, ICMPSeq = seq, UDPSrcPort = 0, UDPDstPort = 0, ipPayload = [] \<rparr>"
proof -
  have "same_family src dst" using assms by (auto simp: BuildICMPEcho_def same_family_def split: if_splits)
  then show ?thesis
    using assms
    by (auto simp: same_family_def BuildICMPEcho_def buildIPv4_layout ParseInner_IPv4
        buildICMPv6Echo_def Let_def ParseInner_IPv6 icmp_echo_filled
        parse_l4_icmp [simplified] inner0_def elim!: Is4_cases Is6_cases)
qed

text \<open>C25. An ICMP echo request parses back to its addresses, its protocol number (1 or 58),
  the echo-request type of its family, its identifier and its sequence number.\<close>

theorem ParseInner_BuildICMPEcho:
  assumes "BuildICMPEcho src dst ident seq pl = Inr b"
  shows "ParseInner b = Inr \<lparr> Src = wire_string src, Dst = wire_string dst,
     Protocol = (if Is4 src then protoICMP else protoICMPv6),
     ICMPType = (if Is4 src then icmpEchoRequest else icmpv6EchoRequest),
     ICMPID = ident, ICMPSeq = seq, UDPSrcPort = 0, UDPDstPort = 0, ipPayload = [] \<rparr>"
  by (rule echo_parses [OF assms])

theorem ParseInner_BuildUDP_witness:
  "\<exists>b. BuildUDP (Addr4 0x0a000001) (Addr4 0x0a000002) 4096 53 [7] = Inr b \<and> ParseInner b =
   Inr \<lparr> Src = ''10.0.0.1'', Dst = ''10.0.0.2'', Protocol = 17, ICMPType = 0, ICMPID = 0,
         ICMPSeq = 0, UDPSrcPort = 4096, UDPDstPort = 53, ipPayload = ''07'' \<rparr>"
proof -
  obtain b where b: "BuildUDP (Addr4 0x0a000001) (Addr4 0x0a000002) 4096 53 [7] = Inr b"
    by (simp add: BuildUDP_def buildIPv4_layout)
  have w: "wire_string (Addr4 0x0a000001) = ''10.0.0.1''"
    "wire_string (Addr4 0x0a000002) = ''10.0.0.2''" "hex_encode [7] = ''07''"
    by code_simp+
  show ?thesis
    using ParseInner_BuildUDP [OF b] b unfolding w by (simp add: protoUDP_def)
qed


section \<open>The built checksums verify\<close>

lemma ipv4_header_checksum:
  "onesComplementSum (ipv4_header proto s d n
     (be_bytes 2 (onesComplementSum (ipv4_header proto s d n [0, 0])))) = 0"
  using checksum_insert [of "[0x45, 0] @ be_bytes 2 (of_nat n :: u16) @ [0, 0, 0, 0, ipTTL, proto]"
      "be_bytes 4 s @ be_bytes 4 d"]
  by (simp add: ipv4_header_def)

lemma icmp_checksum:
  assumes "length pl < 65536"
  shows "onesComplementSum (put_u16 (icmp_echo typ ident seq pl) 2
           (onesComplementSum (icmp_echo typ ident seq pl))) = 0"
  using assms checksum_insert [of "[typ, 0]" "be_bytes 2 ident @ be_bytes 2 seq @ pl"]
  by (simp add: icmp_echo_filled) (simp add: icmp_echo_layout)

lemma pseudo6_checksum:
  assumes "even (length pre)" "length pre + 2 + length suf < 65600"
    and "c0 = checksum6 src dst nh (pre @ [0, 0] @ suf)"
    and "cs = c0 \<or> (cs = 0xffff \<and> c0 = 0)"
  shows "onesComplementSum (pseudo6 src dst nh (pre @ be_bytes 2 cs @ suf)) = 0"
  using assms(1,2,4)
    checksum_insert [of "As16 src @ As16 dst @
      be_bytes 4 (of_nat (length (pre @ [0, 0] @ suf)) :: u32) @ [0, 0, 0, nh] @ pre" suf cs]
  by (simp add: pseudo6_layout assms(3) checksum6_def)

text \<open>The IPv4 header checksum and the ICMP checksum of a built echo request verify: the
  ones' complement sum over the finished header, and over the finished ICMP message, is zero
  (RFC 1071), with no wrap of the 32-bit accumulator.\<close>

theorem BuildICMPEcho_checksums4:
  assumes "BuildICMPEcho src dst ident seq pl = Inr b" "Is4 src" "length pl < 65536"
  shows "onesComplementSum (take 20 b) = 0 \<and> onesComplementSum (drop 20 b) = 0"
  using assms
  by (cases src; cases dst)
     (auto simp: BuildICMPEcho_def buildIPv4_layout Let_def length_ipv4_header ipv4_header_checksum
       icmp_checksum)

theorem BuildICMPEcho_checksums4_witness:
  "\<exists>b. BuildICMPEcho (Addr4 0x0a000001) (Addr4 0x0a000002) 1 2 [7] = Inr b \<and>
       onesComplementSum (take 20 b) = 0 \<and> onesComplementSum (drop 20 b) = 0"
proof -
  obtain b where b: "BuildICMPEcho (Addr4 0x0a000001) (Addr4 0x0a000002) 1 2 [7] = Inr b"
    by (simp add: BuildICMPEcho_def buildIPv4_layout Let_def)
  then show ?thesis using BuildICMPEcho_checksums4 [OF b] by simp
qed

text \<open>The UDP checksum over IPv6 verifies over the pseudo-header, and its field is never
  zero, which IPv6 forbids.\<close>

theorem BuildUDP_checksum6:
  assumes "BuildUDP src dst sp dp pl = Inr b" "Is6 src" "length pl < 65536"
  shows "onesComplementSum (pseudo6 src dst protoUDP (drop 40 b)) = 0 \<and>
         take 2 (drop 46 b) \<noteq> [0, 0]"
proof -
  let ?c0 = "checksum6 src dst protoUDP (udp_datagram sp dp pl)"
  let ?cs = "if ?c0 = 0 then 0xffff else ?c0"
  let ?u = "be_bytes 2 sp @ be_bytes 2 dp @ be_bytes 2 (of_nat (8 + length pl) :: u16)
     @ be_bytes 2 ?cs @ pl"
  have b: "b = buildIPv6 protoUDP src dst ?u"
    using assms(1,2) by (cases src) (auto simp: BuildUDP_def buildUDPv6_def Let_def udp_datagram_filled
        split: if_splits)
  then have d: "drop 40 b = ?u" by (simp add: buildIPv6_layout)
  have "onesComplementSum (pseudo6 src dst protoUDP ?u) = 0"
    using assms(3) pseudo6_checksum [of "be_bytes 2 sp @ be_bytes 2 dp @
      be_bytes 2 (of_nat (8 + length pl) :: u16)" pl ?c0 src dst protoUDP ?cs]
    by (simp add: udp_datagram_layout)
  moreover have "take 2 (drop 46 b) = be_bytes 2 ?cs"
  proof -
    have "drop 46 b = drop 6 (drop 40 b)" by simp
    also have "\<dots> = drop 6 ?u" by (simp only: d)
    finally show ?thesis by simp
  qed
  moreover have "be_bytes 2 ?cs \<noteq> [0, 0]"
  proof
    assume "be_bytes 2 ?cs = [0, 0]"
    then have "be_word (be_bytes 2 ?cs) = (be_word [0, 0] :: u16)" by simp
    moreover have "be_word [0, 0] = (0 :: u16)" by (simp add: be_word_def)
    ultimately have "?cs = 0" by simp
    then show False by (simp split: if_splits)
  qed
  ultimately show ?thesis using d by simp
qed

theorem BuildUDP_checksum6_witness:
  "\<exists>b. BuildUDP (Addr6 1 []) (Addr6 2 []) 4096 53 [7] = Inr b \<and>
       onesComplementSum (pseudo6 (Addr6 1 []) (Addr6 2 []) protoUDP (drop 40 b)) = 0 \<and>
       take 2 (drop 46 b) \<noteq> [0, 0]"
proof -
  obtain b where b: "BuildUDP (Addr6 1 []) (Addr6 2 []) 4096 53 [7] = Inr b"
    by (simp add: BuildUDP_def)
  then show ?thesis using BuildUDP_checksum6 [OF b] by simp
qed

theorem ParseInner_BuildICMPEcho_witness:
  "\<exists>b. BuildICMPEcho (Addr6 1 ''eth0'') (Addr6 2 []) 1 2 [7] = Inr b \<and>
     ParseInner b = Inr \<lparr> Src = ''::1'', Dst = ''::2'', Protocol = 58, ICMPType = 128,
        ICMPID = 1, ICMPSeq = 2, UDPSrcPort = 0, UDPDstPort = 0, ipPayload = [] \<rparr>"
proof -
  obtain b where b: "BuildICMPEcho (Addr6 1 ''eth0'') (Addr6 2 []) 1 2 [7] = Inr b"
    by (simp add: BuildICMPEcho_def)
  have "wire_string (Addr6 1 ''eth0'') = ''::1''" "wire_string (Addr6 2 []) = ''::2''"
    by code_simp+
  note w = this
  show ?thesis
    using ParseInner_BuildICMPEcho [OF b] b unfolding w
    by (simp add: ip_const_defs)
qed

end
