(* ===== verification/Gtpu_Message.thy ===== *)
theory Gtpu_Message
  imports Netip
begin

text \<open>
  GTP-U messages (TS 29.281): \<open>internal/gtpu/message.go\<close>.  The encoders write
  into a zeroed buffer as the Go code does; the decoder is the code's two loops
  (extension headers, information elements) over checked slices, so that a
  run-time panic would be a value of the model.
\<close>

definition MsgEchoRequest :: u8 where "MsgEchoRequest = 1"
definition MsgEchoResponse :: u8 where "MsgEchoResponse = 2"
definition MsgErrorIndication :: u8 where "MsgErrorIndication = 26"
definition MsgGPDU :: u8 where "MsgGPDU = 255"

definition flagsGPDU :: u8 where "flagsGPDU = 0x30"
definition flagsWithSeq :: u8 where "flagsWithSeq = 0x32"
definition flagsWithExt :: u8 where "flagsWithExt = 0x34"
definition extPDUSessionContainer :: u8 where "extPDUSessionContainer = 0x85"
definition pduTypeDL :: u8 where "pduTypeDL = 0"
definition pduTypeUL :: u8 where "pduTypeUL = 1"

definition ieRecovery :: u8 where "ieRecovery = 14"
definition ieTEIDDataI :: u8 where "ieTEIDDataI = 16"
definition iePeerAddress :: u8 where "iePeerAddress = 133"

lemmas gtpu_const_defs =
  MsgEchoRequest_def MsgEchoResponse_def MsgErrorIndication_def MsgGPDU_def
  flagsGPDU_def flagsWithSeq_def flagsWithExt_def extPDUSessionContainer_def
  pduTypeDL_def pduTypeUL_def ieRecovery_def ieTEIDDataI_def iePeerAddress_def

definition tvValueLengths :: "u8 \<Rightarrow> nat option" where
  "tvValueLengths = [ieRecovery \<mapsto> 1, ieTEIDDataI \<mapsto> 4]"

record PDUSessionContainer =
  PDUType :: u8
  QFI :: u8
  RQI :: "bool option"

text \<open>\<open>Message\<close>; a nil pointer is \<open>None\<close>.\<close>

record Message =
  mType :: u8
  mTEID :: u32
  mSeq :: u16
  mHasSeq :: bool
  mPayload :: bytes
  mPDUSession :: "PDUSessionContainer option"
  mRecovery :: "u8 option"
  mTEIDDataI :: "u32 option"
  mPeerAddress :: string


section \<open>Encoders\<close>

definition EncodeGPDU :: "u32 \<Rightarrow> bytes \<Rightarrow> bytes" where
  "EncodeGPDU teid tpdu =
     (let out = replicate (8 + length tpdu) 0;
          out = out[0 := flagsGPDU];
          out = out[1 := MsgGPDU];
          out = put_u16 out 2 (of_nat (length out - 8));
          out = put_u32 out 4 teid
      in copy_from out 8 tpdu)"

definition EncodeGPDUWithQFI :: "u32 \<Rightarrow> u8 \<Rightarrow> bytes \<Rightarrow> bytes" where
  "EncodeGPDUWithQFI teid qfi tpdu =
     (let out = replicate (16 + length tpdu) 0;
          out = out[0 := flagsWithExt];
          out = out[1 := MsgGPDU];
          out = put_u16 out 2 (of_nat (length out - 8));
          out = put_u32 out 4 teid;
          out = out[11 := extPDUSessionContainer];
          out = out[12 := 0x01];
          out = out[13 := push_bit 4 pduTypeUL];
          out = out[14 := qfi AND 0x3f];
          out = out[15 := 0]
      in copy_from out 16 tpdu)"

definition EncodeEchoRequest :: "u16 \<Rightarrow> bytes" where
  "EncodeEchoRequest seq =
     (let out = replicate 12 0;
          out = out[0 := flagsWithSeq];
          out = out[1 := MsgEchoRequest];
          out = put_u16 out 2 (of_nat (length out - 8))
      in put_u16 out 8 seq)"


section \<open>Decoder\<close>

definition decodePDUSessionContainer :: "bytes \<Rightarrow> PDUSessionContainer option result" where
  "decodePDUSessionContainer b =
     (if length b < 2 then Inr None
      else rbind (at b 0) (\<lambda>b0. rbind (at b 1) (\<lambda>b1.
        let pt = drop_bit 4 b0 in
        Inr (Some \<lparr> PDUType = pt, QFI = b1 AND 0x3f,
                    RQI = (if pt = pduTypeDL then Some (b1 AND 0x40 \<noteq> 0) else None) \<rparr>))))"

definition setIE :: "Message \<Rightarrow> u8 \<Rightarrow> bytes \<Rightarrow> Message result" where
  "setIE m ieType v =
     (if ieType = ieRecovery then
        rbind (at v 0) (\<lambda>c. Inr (m\<lparr> mRecovery := Some c \<rparr>))
      else if ieType = ieTEIDDataI then
        rbind (get_u32 v) (\<lambda>t. Inr (m\<lparr> mTEIDDataI := Some t \<rparr>))
      else if ieType = iePeerAddress then
        (case AddrFromSlice v of
           Some a \<Rightarrow> Inr (m\<lparr> mPeerAddress := addr_string (Unmap a) \<rparr>)
         | None \<Rightarrow> Inr m)
      else Inr m)"

function (sequential) decodeIEs_loop :: "bytes \<Rightarrow> nat \<Rightarrow> Message \<Rightarrow> Message result" where
  "decodeIEs_loop b i m =
     (if \<not> i < length b then Inr m
      else rbind (at b i) (\<lambda>ieType.
        if ieType AND 0x80 = 0 then
          (case tvValueLengths ieType of
             None \<Rightarrow> Inr m
           | Some n \<Rightarrow>
               if i + 1 + n > length b then Inr m
               else rbind (slice b (i + 1) (i + 1 + n)) (\<lambda>v.
                    rbind (setIE m ieType v) (\<lambda>m'. decodeIEs_loop b (i + (1 + n)) m')))
        else if i + 3 > length b then Inr m
        else rbind (slice b (i + 1) (i + 3)) (\<lambda>l.
             rbind (get_u16 l) (\<lambda>n16.
               let n = unat n16 in
               if i + 3 + n > length b then Inr m
               else rbind (slice b (i + 3) (i + 3 + n)) (\<lambda>v.
                    rbind (setIE m ieType v) (\<lambda>m'. decodeIEs_loop b (i + (3 + n)) m'))))))"
  by pat_completeness auto
termination by (relation "measure (\<lambda>(b, i, m). length b - i)") auto

declare decodeIEs_loop.simps [simp del]

definition decodeIEs :: "Message \<Rightarrow> bytes \<Rightarrow> Message result" where
  "decodeIEs m b = decodeIEs_loop b 0 m"

text \<open>The extension-header loop of \<open>Decode\<close>: the message and \<open>payloadStart\<close>
  when it stops.\<close>

function (sequential) ext_loop :: "bytes \<Rightarrow> u8 \<Rightarrow> nat \<Rightarrow> Message \<Rightarrow> (Message \<times> nat) result" where
  "ext_loop b nextExt payloadStart m =
     (if nextExt = 0 then Inr (m, payloadStart)
      else if payloadStart \<ge> length b then Inr (m, payloadStart)
      else rbind (at b payloadStart) (\<lambda>l.
        let extLen = unat l * 4 in
        if extLen = 0 \<or> payloadStart + extLen > length b then Inr (m, payloadStart)
        else rbind (if nextExt = extPDUSessionContainer
                    then rbind (slice b (payloadStart + 1) (payloadStart + extLen - 1)) (\<lambda>c.
                         rbind (decodePDUSessionContainer c) (\<lambda>p. Inr (m\<lparr> mPDUSession := p \<rparr>)))
                    else Inr m) (\<lambda>m'.
             rbind (at b (payloadStart + extLen - 1)) (\<lambda>next'.
               ext_loop b next' (payloadStart + extLen) m'))))"
  by pat_completeness auto
termination by (relation "measure (\<lambda>(b, e, s, m). length b - s)") auto

declare ext_loop.simps [simp del]

definition Decode :: "bytes \<Rightarrow> Message result" where
  "Decode b =
     (if length b < 8 then Inl (Errorf ''gtp-u message too short'')
      else rbind (at b 0) (\<lambda>flags.
        if drop_bit 5 flags \<noteq> 1 then Inl (Errorf ''unsupported GTP version'')
        else rbind (at b 1) (\<lambda>typ.
             rbind (rbind (slice b 4 8) get_u32) (\<lambda>teid.
             rbind (rbind (slice b 2 4) get_u16) (\<lambda>len16.
               let m = \<lparr> mType = typ, mTEID = teid, mSeq = 0, mHasSeq = False, mPayload = [],
                         mPDUSession = None, mRecovery = None, mTEIDDataI = None,
                         mPeerAddress = [] \<rparr>;
                   len = unat len16 in
               rbind
                 (if flags AND 0x07 \<noteq> 0 then
                    (if length b < 12
                     then Inl (Errorf ''gtp-u message with flags but truncated'')
                     else rbind
                       (if flags AND 0x02 \<noteq> 0
                        then rbind (rbind (slice b 8 10) get_u16) (\<lambda>sq.
                               Inr (m\<lparr> mSeq := sq, mHasSeq := True \<rparr>))
                        else Inr m) (\<lambda>m1.
                       rbind (at b 11) (\<lambda>nextExt. ext_loop b nextExt 12 m1)))
                  else Inr (m, 8)) (\<lambda>(m2, payloadStart).
               let end0 = 8 + len;
                   end1 = (if end0 > length b then length b else end0);
                   start = (if payloadStart > end1 then end1 else payloadStart) in
               rbind (slice b start end1) (\<lambda>pl.
               let m3 = m2\<lparr> mPayload := pl \<rparr> in
               if mType m3 \<noteq> MsgGPDU then decodeIEs m3 pl else Inr m3)))))))"


section \<open>What the encoders write\<close>

lemma EncodeGPDU_layout:
  "EncodeGPDU teid tpdu =
     [flagsGPDU, MsgGPDU] @ be_bytes 2 (of_nat (length tpdu) :: u16) @ be_bytes 4 teid @ tpdu"
  by (simp add: EncodeGPDU_def Let_def put_be_def be_bytes_16 be_bytes_32 replicate_add)

lemma EncodeGPDUWithQFI_layout:
  "EncodeGPDUWithQFI teid qfi tpdu =
     [flagsWithExt, MsgGPDU] @ be_bytes 2 (of_nat (8 + length tpdu) :: u16) @ be_bytes 4 teid
     @ [0, 0, 0, extPDUSessionContainer, 1, 0x10, qfi AND 0x3f, 0] @ tpdu"
  by (simp add: EncodeGPDUWithQFI_def Let_def put_be_def be_bytes_16 be_bytes_32
      replicate_add pduTypeUL_def)

lemma EncodeEchoRequest_layout:
  "EncodeEchoRequest seq =
     [flagsWithSeq, MsgEchoRequest] @ be_bytes 2 (4 :: u16) @ be_bytes 4 (0 :: u32)
     @ be_bytes 2 seq @ [0, 0]"
  by (simp add: EncodeEchoRequest_def Let_def put_be_def be_bytes_16 be_bytes_32 replicate_add)

lemmas gtpu_layouts = EncodeGPDU_layout EncodeGPDUWithQFI_layout EncodeEchoRequest_layout


section \<open>The decoder's loops do not panic\<close>

lemma decodePDUSessionContainer_ok: "rok (decodePDUSessionContainer b)"
  by (cases "b = []") (simp_all add: decodePDUSessionContainer_def Let_def)

lemma setIE_ok:
  "ieType = ieRecovery \<Longrightarrow> v \<noteq> [] \<Longrightarrow> rok (setIE m ieType v)"
  "ieType = ieTEIDDataI \<Longrightarrow> 4 \<le> length v \<Longrightarrow> rok (setIE m ieType v)"
  "ieType \<noteq> ieRecovery \<Longrightarrow> ieType \<noteq> ieTEIDDataI \<Longrightarrow> rok (setIE m ieType v)"
  by (auto simp: setIE_def gtpu_const_defs split: option.splits)

lemma setIE_TV: "tvValueLengths t = Some n \<Longrightarrow> length v = n \<Longrightarrow> rok (setIE m t v)"
  by (cases "t = ieRecovery")
     (auto simp: tvValueLengths_def gtpu_const_defs setIE_def split: if_splits)

lemma setIE_TLV: "t AND 0x80 \<noteq> 0 \<Longrightarrow> rok (setIE m t v)"
  by (rule setIE_ok(3)) (auto simp: gtpu_const_defs)

lemma decodeIEs_loop_ok: "rok (decodeIEs_loop b i m)"
proof (induction b i m rule: decodeIEs_loop.induct)
  case (1 b i m)
  note IH = this
  show ?case
  proof (cases "i < length b")
    case False
    then show ?thesis by (simp add: decodeIEs_loop.simps)
  next
    case i: True
    show ?thesis
    proof (cases "b ! i AND 0x80 = 0")
      case tv: True
      show ?thesis
      proof (cases "tvValueLengths (b ! i)")
        case None
        with i tv show ?thesis by (simp add: decodeIEs_loop.simps [of b i])
      next
        case (Some n)
        with i tv IH(1) show ?thesis
          by (subst decodeIEs_loop.simps) (auto intro!: rok_rbind setIE_TV)
      qed
    next
      case tlv: False
      with i IH(2) show ?thesis
        by (subst decodeIEs_loop.simps) (auto simp: Let_def intro!: rok_rbind setIE_TLV)
    qed
  qed
qed

lemma ext_loop_ok: "rok (ext_loop b e s m)"
proof (induction b e s m rule: ext_loop.induct)
  case (1 b e s m)
  show ?case
    by (subst ext_loop.simps)
       (auto simp: Let_def intro!: rok_rbind 1 decodePDUSessionContainer_ok)
qed


section \<open>Decode\<close>

definition gtpu_wellformed :: "bytes \<Rightarrow> bool" where
  "gtpu_wellformed b = (8 \<le> length b \<and> drop_bit 5 (b ! 0) = 1 \<and>
                         (b ! 0 AND 0x07 \<noteq> 0 \<longrightarrow> 12 \<le> length b))"

lemma Decode_ok: "gtpu_wellformed b \<Longrightarrow> rok (Decode b)"
proof -
  assume w: "gtpu_wellformed b"
  then have len: "8 \<le> length b" "b \<noteq> []" by (auto simp: gtpu_wellformed_def)
  then show ?thesis
    using w by (auto simp: Decode_def gtpu_wellformed_def Let_def decodeIEs_def
        intro!: rok_rbind ext_loop_ok decodeIEs_loop_ok)
qed

lemma Decode_err: "\<not> gtpu_wellformed b \<Longrightarrow> \<exists>s. Decode b = Inl (Errorf s)"
  by (cases "length b < 8"; cases "b = []")
     (auto simp: Decode_def gtpu_wellformed_def Let_def rbind_def not_less
        intro!: exI split: sum.splits)

text \<open>C23. \<open>Decode\<close> never panics, whatever arrives on the socket: it returns a message
  exactly when the datagram has the eight mandatory octets, version 1 and, when one of the
  S, PN or E flags is set, the four optional octets; on anything else it returns an error.
  The extension-header loop and the information-element loop end on every input.\<close>

theorem Decode_total:
  "(\<exists>m. Decode b = Inr m) = gtpu_wellformed b \<and> \<not> panics (Decode b)"
proof (cases "gtpu_wellformed b")
  case True
  then show ?thesis using Decode_ok [of b] by (auto simp: rok_iff)
next
  case False
  then obtain s where "Decode b = Inl (Errorf s)" using Decode_err by blast
  with False show ?thesis by simp
qed


section \<open>Round trips\<close>

lemma ext_loop_stop: "ext_loop b 0 s m = Inr (m, s)"
  by (simp add: ext_loop.simps)

lemma take_drop_app: "length xs = n \<Longrightarrow> take n (xs @ ys) = xs \<and> drop n (xs @ ys) = ys"
  by auto

text \<open>A G-PDU without extension headers (the S1-U uplink) decodes to the same TEID and
  payload, as long as the payload fits the 16-bit length field.\<close>

theorem Decode_EncodeGPDU:
  assumes "length tpdu < 65536"
  shows "Decode (EncodeGPDU teid tpdu) =
    Inr \<lparr> mType = MsgGPDU, mTEID = teid, mSeq = 0, mHasSeq = False, mPayload = tpdu,
          mPDUSession = None, mRecovery = None, mTEIDDataI = None, mPeerAddress = [] \<rparr>"
proof -
  obtain l0 l1 where l: "be_bytes 2 (of_nat (length tpdu) :: u16) = [l0, l1]"
    by (simp add: be_bytes_16)
  obtain t0 t1 t2 t3 where t: "be_bytes 4 teid = [t0, t1, t2, t3]"
    by (simp add: be_bytes_32)
  have len: "be_word [l0, l1] = (of_nat (length tpdu) :: u16)" by (simp flip: l)
  have tw: "be_word [t0, t1, t2, t3] = teid" by (simp flip: t)
  show ?thesis
    using assms by (simp add: EncodeGPDU_layout l t Decode_def Let_def len tw gtpu_const_defs)
qed

theorem Decode_EncodeGPDU_witness:
  "length [1, 2, 3 :: u8] < 65536 \<and>
   Decode (EncodeGPDU 7 [1, 2, 3]) =
    Inr \<lparr> mType = MsgGPDU, mTEID = 7, mSeq = 0, mHasSeq = False, mPayload = [1, 2, 3],
          mPDUSession = None, mRecovery = None, mTEIDDataI = None, mPeerAddress = [] \<rparr>"
  using Decode_EncodeGPDU [of "[1, 2, 3]" 7] by simp

lemma Decode_container_gpdu:
  assumes "8 + length tpdu < 65536"
  shows "Decode ([flagsWithExt, MsgGPDU] @ be_bytes 2 (of_nat (8 + length tpdu) :: u16) @ be_bytes 4 teid
     @ [0, 0, 0, extPDUSessionContainer, 1, 0x10, qfi AND 0x3f, 0] @ tpdu) =
    Inr \<lparr> mType = MsgGPDU, mTEID = teid, mSeq = 0, mHasSeq = False, mPayload = tpdu,
          mPDUSession = Some \<lparr> PDUType = 1, QFI = qfi AND 0x3f, RQI = None \<rparr>,
          mRecovery = None, mTEIDDataI = None, mPeerAddress = [] \<rparr>"
proof -
  obtain l0 l1 where l: "be_bytes 2 (of_nat (8 + length tpdu) :: u16) = [l0, l1]"
    by (simp add: be_bytes_16)
  obtain t0 t1 t2 t3 where t: "be_bytes 4 teid = [t0, t1, t2, t3]"
    by (simp add: be_bytes_32)
  have len: "be_word [l0, l1] = (of_nat (8 + length tpdu) :: u16)" by (simp flip: l)
  have tw: "be_word [t0, t1, t2, t3] = teid" by (simp flip: t)
  have n: "unat (of_nat (8 + length tpdu) :: u16) = 8 + length tpdu"
    using assms by (simp only: unat_u16_of_nat)
  show ?thesis
    using assms
    by (simp add: l t Decode_def Let_def len tw n gtpu_const_defs
        ext_loop.simps [of _ "0x85"] ext_loop_stop decodePDUSessionContainer_def del: of_nat_add)
qed

text \<open>C24. The N3 uplink G-PDU carries one PDU Session Container: decoding yields the TEID,
  an uplink container with the six-bit QFI and no RQI, and the payload unchanged.\<close>

theorem Decode_EncodeGPDUWithQFI:
  assumes "8 + length tpdu < 65536"
  shows "Decode (EncodeGPDUWithQFI teid qfi tpdu) =
    Inr \<lparr> mType = MsgGPDU, mTEID = teid, mSeq = 0, mHasSeq = False, mPayload = tpdu,
          mPDUSession = Some \<lparr> PDUType = 1, QFI = qfi AND 0x3f, RQI = None \<rparr>,
          mRecovery = None, mTEIDDataI = None, mPeerAddress = [] \<rparr>"
  unfolding EncodeGPDUWithQFI_layout by (rule Decode_container_gpdu [OF assms])

theorem Decode_EncodeGPDUWithQFI_witness:
  "8 + length [9 :: u8] < 65536 \<and>
   Decode (EncodeGPDUWithQFI 7 0x45 [9]) =
    Inr \<lparr> mType = MsgGPDU, mTEID = 7, mSeq = 0, mHasSeq = False, mPayload = [9],
          mPDUSession = Some \<lparr> PDUType = 1, QFI = 5, RQI = None \<rparr>,
          mRecovery = None, mTEIDDataI = None, mPeerAddress = [] \<rparr>"
  using Decode_EncodeGPDUWithQFI [of "[9]" 7 "0x45"] by simp

text \<open>An Echo Request decodes to its sequence number, with no payload.\<close>

theorem Decode_EncodeEchoRequest:
  "Decode (EncodeEchoRequest seq) =
    Inr \<lparr> mType = MsgEchoRequest, mTEID = 0, mSeq = seq, mHasSeq = True, mPayload = [],
          mPDUSession = None, mRecovery = None, mTEIDDataI = None, mPeerAddress = [] \<rparr>"
proof -
  obtain s0 s1 where s: "be_bytes 2 seq = [s0, s1]"
    by (simp add: be_bytes_16)
  have sw: "be_word [s0, s1] = seq" by (simp flip: s)
  have c: "be_bytes 2 (4 :: u16) = [0, 4]" "be_bytes 4 (0 :: u32) = [0, 0, 0, 0]"
    "be_word [0, 4] = (4 :: u16)" "be_word [0, 0, 0, 0] = (0 :: u32)"
    by (simp_all add: be_bytes_16 be_bytes_32 be_word_def)
  show ?thesis
    by (simp add: EncodeEchoRequest_layout s c Decode_def Let_def sw gtpu_const_defs ext_loop_stop
        decodeIEs_def decodeIEs_loop.simps)
qed

end
