(* ===== verification/Mailbox.thy ===== *)
theory Mailbox
  imports Prelude
begin

text \<open>
  The receive side shared by the SCTP transports (\<open>internal/transport/framed.go\<close>)
  and the GTP-U endpoint (\<open>internal/gtpu/transport.go\<close>): a receiver goroutine
  appends decoded messages to keyed queues and broadcasts, and a caller waits, holding
  the lock between wake-ups, until a queue has what it wants or its context is done.

  The network is an explicit script of events.  \<open>Arrive ds\<close> is what the receiver
  processes between two scans of a waiter (one datagram, several, or none: a spurious
  wake-up); \<open>Deadline\<close> is the expiry of the waiter's context.  A script that ends is
  a deadline too, because every context in the program carries a timeout.
\<close>

datatype net_event = Arrive "bytes list" | Deadline

text \<open>The loop both files share: scan; else fail when the context is done; else sleep
  until the next event.  The third component is what has not happened yet.\<close>

fun wait_loop ::
  "('b \<Rightarrow> ('m \<times> 'b) option) \<Rightarrow> (bytes \<Rightarrow> 'b \<Rightarrow> 'b) \<Rightarrow> error \<Rightarrow> net_event list \<Rightarrow> 'b
    \<Rightarrow> 'm result \<times> 'b \<times> net_event list" where
  "wait_loop scan recv e [] b =
     (case scan b of Some (m, b') \<Rightarrow> (Inr m, b', []) | None \<Rightarrow> (Inl e, b, []))"
| "wait_loop scan recv e (Deadline # evs) b =
     (case scan b of Some (m, b') \<Rightarrow> (Inr m, b', Deadline # evs) | None \<Rightarrow> (Inl e, b, evs))"
| "wait_loop scan recv e (Arrive ds # evs) b =
     (case scan b of Some (m, b') \<Rightarrow> (Inr m, b', Arrive ds # evs)
      | None \<Rightarrow> wait_loop scan recv e evs (fold recv ds b))"

fun arrivals :: "net_event list \<Rightarrow> bytes list" where
  "arrivals [] = []"
| "arrivals (Arrive ds # evs) = ds @ arrivals evs"
| "arrivals (Deadline # evs) = arrivals evs"

text \<open>What a wait amounts to: the events it consumes are delivered in order, and its
  result is the scan of the box they leave; it fails only at the deadline.\<close>

lemma wait_loop_spec:
  "wait_loop scan recv e evs b = (r, b', evs') \<Longrightarrow>
   \<exists>ds. arrivals evs = ds @ arrivals evs' \<and>
     ((\<exists>m. scan (fold recv ds b) = Some (m, b') \<and> r = Inr m) \<or>
      (scan (fold recv ds b) = None \<and> r = Inl e \<and> b' = fold recv ds b))"
proof (induction scan recv e evs b rule: wait_loop.induct)
  case (1 scan recv e b)
  then show ?case by (intro exI [of _ "[]"]) (auto split: option.split_asm)
next
  case (2 scan recv e evs b)
  then show ?case by (intro exI [of _ "[]"]) (auto split: option.split_asm)
next
  case (3 scan recv e ds evs b)
  show ?case
  proof (cases "scan b")
    case None
    with 3(2) have "wait_loop scan recv e evs (fold recv ds b) = (r, b', evs')" by simp
    from 3(1) [OF None this] obtain ds' where
      "arrivals evs = ds' @ arrivals evs' \<and>
       ((\<exists>m. scan (fold recv ds' (fold recv ds b)) = Some (m, b') \<and> r = Inr m) \<or>
        (scan (fold recv ds' (fold recv ds b)) = None \<and> r = Inl e \<and>
         b' = fold recv ds' (fold recv ds b)))" ..
    then show ?thesis by (intro exI [of _ "ds @ ds'"]) simp
  next
    case (Some p)
    with 3(2) show ?thesis by (intro exI [of _ "[]"]) (auto split: prod.split_asm)
  qed
qed

lemma wait_loop_hit:
  "scan b = Some (m, b') \<Longrightarrow> wait_loop scan recv e evs b = (Inr m, b', evs)"
  by (cases "(scan, recv, e, evs, b)" rule: wait_loop.cases) auto

lemma wait_loop_Inr:
  assumes "wait_loop scan recv e evs b = (Inr m, b', evs')"
  obtains ds where "scan (fold recv ds b) = Some (m, b')" "arrivals evs = ds @ arrivals evs'"
  using wait_loop_spec [OF assms] by auto

lemma wait_loop_Inl:
  assumes "wait_loop scan recv e evs b = (Inl err, b', evs')"
  obtains ds where "scan (fold recv ds b) = None" "b' = fold recv ds b" "err = e"
    "arrivals evs = ds @ arrivals evs'"
  using wait_loop_spec [OF assms] by auto


section \<open>The contract of a keyed mailbox\<close>

text \<open>The messages under one key among those a list of datagrams decodes to, in order.\<close>

definition decoded_under :: "('m \<Rightarrow> 'k) \<Rightarrow> (bytes \<Rightarrow> 'm option) \<Rightarrow> 'k \<Rightarrow> bytes list \<Rightarrow> 'm list" where
  "decoded_under key decode k ds = filter (\<lambda>m. key m = k) (List.map_filter decode ds)"

locale mailbox =
  fixes ok :: "'b \<Rightarrow> bool"
    and queue :: "'b \<Rightarrow> 'k \<Rightarrow> 'm list"
    and key :: "'m \<Rightarrow> 'k"
    and deliver :: "'m \<Rightarrow> 'b \<Rightarrow> 'b"
    and p :: "'m \<Rightarrow> bool"
    and ks :: "'k list"
    and scan :: "'b \<Rightarrow> ('m \<times> 'b) option"
    and decode :: "bytes \<Rightarrow> 'm option"
    and recv :: "bytes \<Rightarrow> 'b \<Rightarrow> 'b"
  assumes ok_deliver: "ok b \<Longrightarrow> ok (deliver m b)"
    and ok_scan: "ok b \<Longrightarrow> scan b = Some (m, b') \<Longrightarrow> ok b'"
    and queue_deliver: "ok b \<Longrightarrow> queue (deliver m b) k = queue b k @ (if key m = k then [m] else [])"
    and scan_None: "ok b \<Longrightarrow> scan b = None \<Longrightarrow> k \<in> set ks \<Longrightarrow> m \<in> set (queue b k) \<Longrightarrow> \<not> p m"
    and scan_Some: "ok b \<Longrightarrow> scan b = Some (m, b') \<Longrightarrow>
      \<exists>ks1 k ks2 xs ys. ks = ks1 @ k # ks2 \<and> (\<forall>k' \<in> set ks1. \<forall>x \<in> set (queue b k'). \<not> p x) \<and>
        queue b k = xs @ m # ys \<and> (\<forall>x \<in> set xs. \<not> p x) \<and> p m \<and>
        queue b' = (queue b)(k := xs @ ys)"
    and recv_decode: "ok b \<Longrightarrow> recv d b = (case decode d of None \<Rightarrow> b | Some m \<Rightarrow> deliver m b)"
begin

abbreviation decoded :: "'k \<Rightarrow> bytes list \<Rightarrow> 'm list" where
  "decoded \<equiv> decoded_under key decode"

lemma decoded_Cons:
  "decoded k (d # ds) = (case decode d of Some m \<Rightarrow> if key m = k then [m] else [] | None \<Rightarrow> []) @ decoded k ds"
  by (auto simp: decoded_under_def List.map_filter_def split: option.splits)

lemma ok_recv: "ok b \<Longrightarrow> ok (recv d b)"
  by (simp add: recv_decode ok_deliver split: option.splits)

lemma ok_recv_all: "ok b \<Longrightarrow> ok (fold recv ds b)"
  by (induction ds arbitrary: b) (simp_all add: ok_recv)

lemma queue_recv:
  "ok b \<Longrightarrow> queue (recv d b) k = queue b k @ decoded k [d]"
  by (simp add: recv_decode decoded_Cons queue_deliver decoded_under_def List.map_filter_def split: option.splits)

lemma queue_recv_all: "ok b \<Longrightarrow> queue (fold recv ds b) k = queue b k @ decoded k ds"
proof (induction ds arbitrary: b)
  case Nil
  then show ?case by (simp add: decoded_under_def List.map_filter_def)
next
  case (Cons d ds)
  from Cons.prems have "queue (fold recv ds (recv d b)) k = queue (recv d b) k @ decoded k ds"
    by (intro Cons.IH ok_recv)
  then show ?case
    using Cons.prems by (simp add: queue_recv decoded_Cons [of k d ds] decoded_Cons [of k d "[]"])
       (simp add: decoded_under_def List.map_filter_def)
qed

text \<open>A wait that succeeds took the first match, in priority order of the keys, from the
  queues extended by what arrived; it removed just that message.\<close>

lemma wait_success:
  assumes ok: "ok b" and w: "wait_loop scan recv e evs b = (Inr m, b', evs')"
  shows "\<exists>ds k xs ys. arrivals evs = ds @ arrivals evs' \<and> k \<in> set ks \<and> p m \<and>
    queue b k @ decoded k ds = xs @ m # ys \<and> (\<forall>x \<in> set xs. \<not> p x) \<and>
    (\<forall>j. queue b' j = (if j = k then xs @ ys else queue b j @ decoded j ds))"
proof -
  from wait_loop_Inr [OF w] obtain ds where
    pk: "scan (fold recv ds b) = Some (m, b')" and a: "arrivals evs = ds @ arrivals evs'" .
  from scan_Some [OF ok_recv_all [OF ok] pk] obtain ks1 k ks2 xs ys where
    "ks = ks1 @ k # ks2" "queue (fold recv ds b) k = xs @ m # ys" "\<forall>x \<in> set xs. \<not> p x" "p m"
    "queue b' = (queue (fold recv ds b))(k := xs @ ys)"
    by blast
  with a show ?thesis by (intro exI [of _ ds] exI [of _ k] exI [of _ xs] exI [of _ ys])
      (auto simp: queue_recv_all [OF ok])
qed

text \<open>A wait that fails lost nothing: the queues hold what they held and what arrived,
  and none of it, under the keys waited for, matches.\<close>

lemma wait_failure:
  assumes ok: "ok b" and w: "wait_loop scan recv e evs b = (Inl err, b', evs')"
  shows "err = e \<and> (\<exists>ds. arrivals evs = ds @ arrivals evs' \<and>
    (\<forall>j. queue b' j = queue b j @ decoded j ds) \<and>
    (\<forall>k \<in> set ks. \<forall>x \<in> set (queue b k @ decoded k ds). \<not> p x))"
proof -
  from wait_loop_Inl [OF w] obtain ds where
    "scan (fold recv ds b) = None" "b' = fold recv ds b" "err = e" "arrivals evs = ds @ arrivals evs'" .
  then show ?thesis
    by (auto simp: queue_recv_all [OF ok] intro!: exI [of _ ds] dest: scan_None [OF ok_recv_all [OF ok]])
qed

text \<open>A wait returns as soon as a match is there: if what is queued or what arrives before
  any deadline has a match under one of the keys, the wait succeeds.\<close>

lemma wait_live:
  assumes "ok b" "k \<in> set ks" "m \<in> set (queue b k @ decoded k (concat dss))" "p m"
  shows "\<exists>m' b' evs'. wait_loop scan recv e (map Arrive dss @ evs) b = (Inr m', b', evs')"
  using assms
proof (induction dss arbitrary: b)
  case Nil
  then have "scan b \<noteq> None"
    using scan_None [of b k m] by (intro notI) (auto simp: decoded_under_def List.map_filter_def)
  then obtain q where "scan b = Some q" by blast
  then obtain m' b' where "scan b = Some (m', b')" by (cases q) simp
  then show ?case by (simp add: wait_loop_hit)
next
  case (Cons ds dss)
  show ?case
  proof (cases "scan b")
    case None
    have "decoded k (concat (ds # dss)) = decoded k ds @ decoded k (concat dss)"
      by (simp add: decoded_under_def List.map_filter_def)
    then have "m \<in> set (queue (fold recv ds b) k @ decoded k (concat dss))"
      using Cons.prems queue_recv_all [of b ds k] by auto
    from Cons.IH [OF ok_recv_all [OF Cons.prems(1)] Cons.prems(2) this Cons.prems(4)] None
    show ?thesis by simp
  qed auto
qed

end

end
