(* ===== verification/Gtpu_Endpoint.thy ===== *)
theory Gtpu_Endpoint
  imports Gtpu_Message Mailbox
begin

text \<open>
  The N3/S1-U endpoint: \<open>internal/gtpu/transport.go\<close>.  G-PDUs queue by TEID, control
  messages by type.  The UDP socket is the operating system's: binding and the outcome of
  a write are parameters, \<open>ep_sent\<close> logs what was written and to whom.
\<close>

record Endpoint =
  ep_local :: bytes
  ep_sent :: "(string \<times> bytes) list"
  ep_closed :: bool
  gpdus :: "u32 \<rightharpoonup> Message list"
  control :: "u8 \<rightharpoonup> Message list"

definition gpdus_at :: "Endpoint \<Rightarrow> u32 \<Rightarrow> Message list" where
  "gpdus_at e teid = (case gpdus e teid of None \<Rightarrow> [] | Some q \<Rightarrow> q)"

definition control_at :: "Endpoint \<Rightarrow> u8 \<Rightarrow> Message list" where
  "control_at e typ = (case control e typ of None \<Rightarrow> [] | Some q \<Rightarrow> q)"

text \<open>\<open>listenUDP\<close> yields the bound local address.\<close>

definition Listen :: "(string \<Rightarrow> bytes result) \<Rightarrow> string \<Rightarrow> Endpoint result" where
  "Listen listenUDP localIP =
     rbind (rwrap ''listen gtp-u'' (listenUDP localIP)) (\<lambda>a.
       Inr \<lparr> ep_local = a, ep_sent = [], ep_closed = False, gpdus = Map.empty, control = Map.empty \<rparr>)"

definition deliver_message :: "Message \<Rightarrow> Endpoint \<Rightarrow> Endpoint" where
  "deliver_message msg e =
     (if mType msg = MsgGPDU
      then e\<lparr> gpdus := (gpdus e)(mTEID msg \<mapsto> gpdus_at e (mTEID msg) @ [msg]) \<rparr>
      else e\<lparr> control := (control e)(mType msg \<mapsto> control_at e (mType msg) @ [msg]) \<rparr>)"

definition receive_datagram :: "bytes \<Rightarrow> Endpoint \<Rightarrow> Endpoint" where
  "receive_datagram cp e =
     (if length cp = 0 then e
      else case Decode cp of Inl err \<Rightarrow> e | Inr msg \<Rightarrow> deliver_message msg e)"

definition sendTo ::
  "(string \<Rightarrow> bytes \<Rightarrow> unit result) \<Rightarrow> string \<Rightarrow> bytes \<Rightarrow> Endpoint \<Rightarrow> unit result \<times> Endpoint" where
  "sendTo writeUDP remoteIP data e =
     (if ep_closed e then (Inl (Errorf ''gtp-u endpoint is closed''), e)
      else case writeUDP remoteIP data of
        Inl err \<Rightarrow> (Inl (Wrapf ''gtp-u write'' err), e)
      | Inr _ \<Rightarrow> (Inr (), e\<lparr> ep_sent := ep_sent e @ [(remoteIP, data)] \<rparr>))"

definition SendUplink where
  "SendUplink writeUDP remoteIP ulTeid qfi innerIP e =
     sendTo writeUDP remoteIP (EncodeGPDUWithQFI ulTeid qfi innerIP) e"

definition SendUplinkPlain where
  "SendUplinkPlain writeUDP remoteIP ulTeid innerIP e =
     sendTo writeUDP remoteIP (EncodeGPDU ulTeid innerIP) e"

definition SendEchoRequest where
  "SendEchoRequest writeUDP remoteIP seq e = sendTo writeUDP remoteIP (EncodeEchoRequest seq) e"

text \<open>One scan of \<open>WaitForDownlink\<close> (an emptied queue's key is deleted) and of
  \<open>WaitForControl\<close> (it is kept, empty).\<close>

definition scan_gpdus :: "u32 \<Rightarrow> Endpoint \<Rightarrow> (Message \<times> Endpoint) option" where
  "scan_gpdus dlTeid e =
     (case gpdus_at e dlTeid of
        [] \<Rightarrow> None
      | pkt # pkts \<Rightarrow>
          let g = (gpdus e)(dlTeid \<mapsto> pkts);
              g' = (if length pkts = 0 then g(dlTeid := None) else g)
          in Some (pkt, e\<lparr> gpdus := g' \<rparr>))"

definition scan_control :: "u8 \<Rightarrow> Endpoint \<Rightarrow> (Message \<times> Endpoint) option" where
  "scan_control msgType e =
     (case control_at e msgType of
        [] \<Rightarrow> None
      | msg # msgs \<Rightarrow> Some (msg, e\<lparr> control := (control e)(msgType \<mapsto> msgs) \<rparr>))"

definition WaitForDownlink :: "u32 \<Rightarrow> net_event list \<Rightarrow> Endpoint \<Rightarrow> Message result \<times> Endpoint \<times> net_event list" where
  "WaitForDownlink dlTeid evs e =
     wait_loop (scan_gpdus dlTeid) receive_datagram (Errorf ''timeout waiting for downlink'') evs e"

definition WaitForControl :: "u8 \<Rightarrow> net_event list \<Rightarrow> Endpoint \<Rightarrow> Message result \<times> Endpoint \<times> net_event list" where
  "WaitForControl msgType evs e =
     wait_loop (scan_control msgType) receive_datagram
       (Errorf ''timeout waiting for GTP-U message type'') evs e"

definition LocalIP :: "Endpoint \<Rightarrow> string" where
  "LocalIP e = (case AddrFromSlice (ep_local e) of Some a \<Rightarrow> addr_string (Unmap a) | None \<Rightarrow> [])"

definition CloseEndpoint :: "unit result \<Rightarrow> Endpoint \<Rightarrow> unit result \<times> Endpoint" where
  "CloseEndpoint conn_close e = (if ep_closed e then (Inr (), e) else (conn_close, e\<lparr> ep_closed := True \<rparr>))"


section \<open>The endpoint is two mailboxes\<close>

datatype channel = TunnelCh u32 | ControlCh u8

fun channel_queue :: "Endpoint \<Rightarrow> channel \<Rightarrow> Message list" where
  "channel_queue e (TunnelCh t) = gpdus_at e t"
| "channel_queue e (ControlCh c) = control_at e c"

definition channel_of :: "Message \<Rightarrow> channel" where
  "channel_of m = (if mType m = MsgGPDU then TunnelCh (mTEID m) else ControlCh (mType m))"

definition decode_datagram :: "bytes \<Rightarrow> Message option" where
  "decode_datagram cp = (if cp = [] then None else case Decode cp of Inl e \<Rightarrow> None | Inr m \<Rightarrow> Some m)"

lemma channel_queue_deliver:
  "channel_queue (deliver_message m e) c = channel_queue e c @ (if channel_of m = c then [m] else [])"
  by (cases c) (auto simp: deliver_message_def channel_of_def gpdus_at_def control_at_def)

lemma receive_datagram_decode:
  "receive_datagram d e = (case decode_datagram d of None \<Rightarrow> e | Some m \<Rightarrow> deliver_message m e)"
  by (auto simp: receive_datagram_def decode_datagram_def split: sum.splits)

lemma channel_queue_ext:
  "(\<And>t. gpdus_at e' t = f (TunnelCh t)) \<Longrightarrow> (\<And>c. control_at e' c = f (ControlCh c)) \<Longrightarrow>
   channel_queue e' = f"
proof (rule ext)
  fix c
  assume "\<And>t. gpdus_at e' t = f (TunnelCh t)" "\<And>c. control_at e' c = f (ControlCh c)"
  then show "channel_queue e' c = f c" by (cases c) auto
qed

lemma scan_gpdus_None: "scan_gpdus t e = None \<Longrightarrow> gpdus_at e t = []"
  by (auto simp: scan_gpdus_def Let_def split: list.splits)

lemma scan_gpdus_Some:
  "scan_gpdus t e = Some (m, e') \<Longrightarrow>
   \<exists>q. gpdus_at e t = m # q \<and> channel_queue e' = (channel_queue e)(TunnelCh t := q)"
  by (cases "gpdus_at e t")
     (auto simp: scan_gpdus_def Let_def gpdus_at_def control_at_def
       intro!: channel_queue_ext split: if_splits)

lemma scan_control_None: "scan_control c e = None \<Longrightarrow> control_at e c = []"
  by (auto simp: scan_control_def split: list.splits)

lemma scan_control_Some:
  "scan_control c e = Some (m, e') \<Longrightarrow>
   \<exists>q. control_at e c = m # q \<and> channel_queue e' = (channel_queue e)(ControlCh c := q)"
  by (cases "control_at e c")
     (auto simp: scan_control_def gpdus_at_def control_at_def intro!: channel_queue_ext)

interpretation tun: mailbox "\<lambda>e. True" channel_queue channel_of deliver_message
  "\<lambda>m. True" "[TunnelCh teid]" "scan_gpdus teid" decode_datagram receive_datagram
  for teid
proof (unfold_locales, goal_cases)
  case (5 b m b')
  then obtain q where "gpdus_at b teid = m # q" "channel_queue b' = (channel_queue b)(TunnelCh teid := q)"
    using scan_gpdus_Some [of teid b m b'] by auto
  then show ?case
    by (intro exI [of _ "[]"] exI [of _ "TunnelCh teid"] exI [of _ q]) simp
qed (auto simp: channel_queue_deliver receive_datagram_decode dest: scan_gpdus_None)

interpretation ctl: mailbox "\<lambda>e. True" channel_queue channel_of deliver_message
  "\<lambda>m. True" "[ControlCh cty]" "scan_control cty" decode_datagram receive_datagram
  for cty
proof (unfold_locales, goal_cases)
  case (5 b m b')
  then obtain q where "control_at b cty = m # q" "channel_queue b' = (channel_queue b)(ControlCh cty := q)"
    using scan_control_Some [of cty b m b'] by auto
  then show ?case
    by (intro exI [of _ "[]"] exI [of _ "ControlCh cty"] exI [of _ q]) simp
qed (auto simp: channel_queue_deliver receive_datagram_decode dest: scan_control_None)

text \<open>\<open>WaitForDownlink\<close> returns the oldest G-PDU of its tunnel, among those queued and
  those that arrive, and takes it out; every other tunnel and every control queue keeps what
  it had and gains what arrived for it.\<close>

theorem WaitForDownlink_fifo:
  assumes "WaitForDownlink teid evs e = (Inr m, e', evs')"
  shows "\<exists>ds q. arrivals evs = ds @ arrivals evs' \<and>
    gpdus_at e teid @ decoded_under channel_of decode_datagram (TunnelCh teid) ds = m # q \<and>
    gpdus_at e' teid = q \<and>
    (\<forall>c. c \<noteq> TunnelCh teid \<longrightarrow>
       channel_queue e' c = channel_queue e c @ decoded_under channel_of decode_datagram c ds)"
proof -
  from tun.wait_success [OF TrueI assms [unfolded WaitForDownlink_def]]
  obtain ds ys where "arrivals evs = ds @ arrivals evs'"
    "gpdus_at e teid @ decoded_under channel_of decode_datagram (TunnelCh teid) ds = m # ys"
    "\<forall>j. channel_queue e' j = (if j = TunnelCh teid then ys
       else channel_queue e j @ decoded_under channel_of decode_datagram j ds)"
    by auto
  then show ?thesis
    by (intro exI [of _ ds] exI [of _ ys]) (auto dest: spec [of _ "TunnelCh teid"])
qed

text \<open>\<open>WaitForControl\<close> has the same contract on the queue of its message type.\<close>

theorem WaitForControl_fifo:
  assumes "WaitForControl c evs e = (Inr m, e', evs')"
  shows "\<exists>ds q. arrivals evs = ds @ arrivals evs' \<and>
    control_at e c @ decoded_under channel_of decode_datagram (ControlCh c) ds = m # q \<and>
    control_at e' c = q \<and>
    (\<forall>j. j \<noteq> ControlCh c \<longrightarrow>
       channel_queue e' j = channel_queue e j @ decoded_under channel_of decode_datagram j ds)"
proof -
  from ctl.wait_success [OF TrueI assms [unfolded WaitForControl_def]]
  obtain ds ys where "arrivals evs = ds @ arrivals evs'"
    "control_at e c @ decoded_under channel_of decode_datagram (ControlCh c) ds = m # ys"
    "\<forall>j. channel_queue e' j = (if j = ControlCh c then ys
       else channel_queue e j @ decoded_under channel_of decode_datagram j ds)"
    by auto
  then show ?thesis
    by (intro exI [of _ ds] exI [of _ ys]) (auto dest: spec [of _ "ControlCh c"])
qed


section \<open>Concrete runs\<close>

definition sample_gpdu :: "bytes \<Rightarrow> Message" where
  "sample_gpdu pl = \<lparr> mType = MsgGPDU, mTEID = 7, mSeq = 0, mHasSeq = False, mPayload = pl,
     mPDUSession = None, mRecovery = None, mTEIDDataI = None, mPeerAddress = [] \<rparr>"

definition sample_endpoint :: Endpoint where
  "sample_endpoint = \<lparr> ep_local = [10, 0, 0, 1], ep_sent = [], ep_closed = False,
     gpdus = [7 \<mapsto> [sample_gpdu [1], sample_gpdu [2]]], control = [2 \<mapsto> [(sample_gpdu [])\<lparr> mType := 2 \<rparr>]] \<rparr>"

theorem WaitForDownlink_fifo_witness:
  "\<exists>ds q. arrivals [Arrive [[0]]] = ds @ arrivals [Arrive [[0]]] \<and>
    gpdus_at sample_endpoint 7 @ decoded_under channel_of decode_datagram (TunnelCh 7) ds = sample_gpdu [1] # q \<and>
    gpdus_at (sample_endpoint\<lparr> gpdus := [7 \<mapsto> [sample_gpdu [2]]] \<rparr>) 7 = q \<and>
    (\<forall>c. c \<noteq> TunnelCh 7 \<longrightarrow>
       channel_queue (sample_endpoint\<lparr> gpdus := [7 \<mapsto> [sample_gpdu [2]]] \<rparr>) c =
       channel_queue sample_endpoint c @ decoded_under channel_of decode_datagram c ds)"
  by (rule WaitForDownlink_fifo)
     (simp add: WaitForDownlink_def sample_endpoint_def scan_gpdus_def gpdus_at_def)

theorem WaitForControl_fifo_witness:
  "\<exists>ds q. arrivals [Arrive [[0]]] = ds @ arrivals [Arrive [[0]]] \<and>
    control_at sample_endpoint 2 @ decoded_under channel_of decode_datagram (ControlCh 2) ds =
      ((sample_gpdu [])\<lparr> mType := 2 \<rparr>) # q \<and>
    control_at (sample_endpoint\<lparr> control := [2 \<mapsto> []] \<rparr>) 2 = q \<and>
    (\<forall>j. j \<noteq> ControlCh 2 \<longrightarrow>
       channel_queue (sample_endpoint\<lparr> control := [2 \<mapsto> []] \<rparr>) j =
       channel_queue sample_endpoint j @ decoded_under channel_of decode_datagram j ds)"
  by (rule WaitForControl_fifo)
     (simp add: WaitForControl_def sample_endpoint_def scan_control_def control_at_def)


section \<open>An uplink received at the other end\<close>

text \<open>C21. What \<open>SendUplink\<close> writes to the socket, received by an endpoint with nothing queued
  on that tunnel, is exactly what \<open>WaitForDownlink\<close> returns there: same payload, same QFI.\<close>

theorem uplink_reaches_peer:
  assumes "SendUplink w ip teid qfi pl e = (Inr (), e1)" "8 + length pl < 65536"
    and "gpdus_at e2 teid = []"
  shows "\<exists>d m e3. ep_sent e1 = ep_sent e @ [(ip, d)] \<and>
    WaitForDownlink teid [Arrive [d], Deadline] e2 = (Inr m, e3, [Deadline]) \<and>
    mPayload m = pl \<and> mTEID m = teid \<and> map_option QFI (mPDUSession m) = Some (qfi AND 0x3f)"
proof -
  let ?d = "EncodeGPDUWithQFI teid qfi pl"
  obtain m where m: "Decode ?d = Inr m" "mType m = MsgGPDU" "mTEID m = teid" "mPayload m = pl"
    "map_option QFI (mPDUSession m) = Some (qfi AND 0x3f)"
    unfolding EncodeGPDUWithQFI_layout Decode_container_gpdu [OF assms(2)] by simp
  have "ep_sent e1 = ep_sent e @ [(ip, ?d)]"
    using assms(1) by (auto simp: SendUplink_def sendTo_def split: if_splits sum.splits)
  moreover have "receive_datagram ?d e2 = deliver_message m e2"
    using m by (simp add: receive_datagram_def EncodeGPDUWithQFI_layout)
  moreover have "gpdus_at (deliver_message m e2) teid = [m]"
    using assms(3) m by (simp add: deliver_message_def gpdus_at_def)
  ultimately show ?thesis
    using assms(3) m by (simp add: WaitForDownlink_def scan_gpdus_def Let_def)
qed

theorem uplink_reaches_peer_witness:
  "\<exists>d m e3. ep_sent (sample_endpoint\<lparr> ep_sent := [(''10.0.0.2'', EncodeGPDUWithQFI 9 5 [1, 2])] \<rparr>) =
      ep_sent sample_endpoint @ [(''10.0.0.2'', d)] \<and>
    WaitForDownlink 9 [Arrive [d], Deadline] sample_endpoint = (Inr m, e3, [Deadline]) \<and>
    mPayload m = [1, 2] \<and> mTEID m = 9 \<and> map_option QFI (mPDUSession m) = Some (5 AND 0x3f)"
  by (rule uplink_reaches_peer [where w = "\<lambda>a b. Inr ()"])
     (simp_all add: SendUplink_def sendTo_def sample_endpoint_def gpdus_at_def)

end
