(* ===== verification/Framed_Transport.thy ===== *)
theory Framed_Transport
  imports Mailbox
begin

text \<open>
  The SCTP transports: \<open>internal/transport/framed.go\<close>, with \<open>ngap.go\<close> and
  \<open>s1ap.go\<close>, which instantiate it.  The generic struct \<open>framed[T]\<close> is the record
  \<open>framed\<close>; \<open>decode\<close> and \<open>key\<close> are fields of it, as in the code.  The SCTP
  library is outside the repository: dialling and the outcome of a write are
  parameters, and \<open>conn_sent\<close> logs what was handed to it with stream and PPID.
\<close>

definition ErrSend :: error where "ErrSend = Sentinel ''sctp send''"
definition ErrTimeout :: error where "ErrTimeout = Sentinel ''timeout waiting for message''"

record 'm framed =
  conn_sent :: "(bytes \<times> u16 \<times> u32) list"
  ppid :: u32
  decode :: "bytes \<Rightarrow> 'm result"
  key :: "'m \<Rightarrow> string"
  closed :: bool
  frames :: "string \<rightharpoonup> 'm list"

definition frames_at :: "'m framed \<Rightarrow> string \<Rightarrow> 'm list" where
  "frames_at t k = (case frames t k of None \<Rightarrow> [] | Some q \<Rightarrow> q)"

definition dialFramed ::
  "(string \<Rightarrow> unit result) \<Rightarrow> (string \<Rightarrow> string \<Rightarrow> unit result) \<Rightarrow> unit result \<Rightarrow>
   string \<Rightarrow> string \<Rightarrow> u32 \<Rightarrow> (bytes \<Rightarrow> 'm result) \<Rightarrow> ('m \<Rightarrow> string) \<Rightarrow> 'm framed result" where
  "dialFramed resolve dial subscribe localAddr remoteAddr pp decd k =
     rbind (rwrap ''resolve'' (resolve remoteAddr)) (\<lambda>_.
     rbind (rwrap ''dial'' (dial localAddr remoteAddr)) (\<lambda>_.
     rbind (rwrap ''subscribe SCTP events'' subscribe) (\<lambda>_.
       Inr \<lparr> conn_sent = [], ppid = pp, decode = decd, key = k, closed = False,
             frames = Map.empty \<rparr>)))"

text \<open>One turn of \<open>runReceiver\<close>: an empty read and an undecodable frame are dropped.\<close>

definition deliver_frame :: "'m \<Rightarrow> 'm framed \<Rightarrow> 'm framed" where
  "deliver_frame m t = t\<lparr> frames := (frames t)(key t m \<mapsto> frames_at t (key t m) @ [m]) \<rparr>"

definition receive_frame :: "bytes \<Rightarrow> 'm framed \<Rightarrow> 'm framed" where
  "receive_frame cp t =
     (if length cp = 0 then t
      else case decode t cp of Inl e \<Rightarrow> t | Inr resp \<Rightarrow> deliver_frame resp t)"

definition Send ::
  "(bytes \<Rightarrow> u16 \<Rightarrow> u32 \<Rightarrow> unit result) \<Rightarrow> bytes \<Rightarrow> bool \<Rightarrow> 'm framed \<Rightarrow> unit result \<times> 'm framed" where
  "Send sctp_write data nonUE t =
     (if closed t then (Inl (Wrapf ''transport is closed'' ErrSend), t)
      else
        let streamID = (if nonUE then 0 else 1) in
        case sctp_write data streamID (ppid t) of
          Inl e \<Rightarrow> (Inl (Wrapf ''write'' ErrSend), t)
        | Inr _ \<Rightarrow> (Inr (), t\<lparr> conn_sent := conn_sent t @ [(data, streamID, ppid t)] \<rparr>))"

text \<open>The inner loop of the scan over one queue: the first match and the queue without it
  (\<open>slices.Delete(frames, i, i+1)\<close>).\<close>

fun pick_first :: "('m \<Rightarrow> bool) \<Rightarrow> 'm list \<Rightarrow> ('m \<times> 'm list) option" where
  "pick_first p [] = None"
| "pick_first p (x # xs) =
     (if p x then Some (x, xs)
      else case pick_first p xs of None \<Rightarrow> None | Some (m, ys) \<Rightarrow> Some (m, x # ys))"

fun scan_frames :: "('m \<Rightarrow> bool) \<Rightarrow> string list \<Rightarrow> 'm framed \<Rightarrow> ('m \<times> 'm framed) option" where
  "scan_frames p [] t = None"
| "scan_frames p (msgType # msgTypes) t =
     (case pick_first p (frames_at t msgType) of
        Some (resp, rest) \<Rightarrow>
          let fs = (frames t)(msgType \<mapsto> rest);
              fs' = (if length rest = 0 then fs(msgType := None) else fs)
          in Some (resp, t\<lparr> frames := fs' \<rparr>)
      | None \<Rightarrow> scan_frames p msgTypes t)"

text \<open>\<open>match\<close> is an optional function value: nil matches everything.\<close>

definition WaitForMessageMatching ::
  "('m \<Rightarrow> bool) option \<Rightarrow> string list \<Rightarrow> net_event list \<Rightarrow> 'm framed
    \<Rightarrow> 'm result \<times> 'm framed \<times> net_event list" where
  "WaitForMessageMatching match messageTypes evs t =
     wait_loop (scan_frames (\<lambda>m. case match of None \<Rightarrow> True | Some f \<Rightarrow> f m) messageTypes)
       receive_frame (Wrapf ''messageTypes'' ErrTimeout) evs t"

definition WaitForMessage ::
  "string list \<Rightarrow> net_event list \<Rightarrow> 'm framed \<Rightarrow> 'm result \<times> 'm framed \<times> net_event list" where
  "WaitForMessage messageTypes = WaitForMessageMatching None messageTypes"

text \<open>A second \<open>Close\<close> does nothing; the connection's own close error is a parameter.\<close>

definition Close :: "unit result \<Rightarrow> 'm framed \<Rightarrow> unit result \<times> 'm framed" where
  "Close conn_close t = (if closed t then (Inr (), t) else (conn_close, t\<lparr> closed := True \<rparr>))"


section \<open>The transport is a mailbox\<close>

lemma frames_at_deliver:
  "frames_at (deliver_frame m t) k = frames_at t k @ (if key t m = k then [m] else [])"
  by (simp add: frames_at_def deliver_frame_def)

lemma static_deliver [simp]:
  "key (deliver_frame m t) = key t" "decode (deliver_frame m t) = decode t"
  by (simp_all add: deliver_frame_def)

lemma pick_first_None: "pick_first p xs = None \<longleftrightarrow> (\<forall>x \<in> set xs. \<not> p x)"
  by (induction xs) (auto split: option.splits)

lemma pick_first_Some:
  "pick_first p q = Some (m, r) \<Longrightarrow>
   \<exists>xs ys. q = xs @ m # ys \<and> r = xs @ ys \<and> (\<forall>x \<in> set xs. \<not> p x) \<and> p m"
proof (induction q arbitrary: r)
  case (Cons x q)
  show ?case
  proof (cases "p x")
    case True
    with Cons.prems show ?thesis by (intro exI [of _ "[]"] exI [of _ q]) simp
  next
    case False
    with Cons.prems obtain r' where "pick_first p q = Some (m, r')" "r = x # r'"
      by (auto split: option.splits)
    with Cons.IH [of r'] obtain xs ys where
      "q = xs @ m # ys" "r' = xs @ ys" "\<forall>x \<in> set xs. \<not> p x" "p m" by blast
    with False \<open>r = x # r'\<close> show ?thesis by (intro exI [of _ "x # xs"] exI [of _ ys]) auto
  qed
qed simp

lemma scan_frames_None:
  "scan_frames p ks t = None \<Longrightarrow> k \<in> set ks \<Longrightarrow> m \<in> set (frames_at t k) \<Longrightarrow> \<not> p m"
  by (induction p ks t rule: scan_frames.induct)
     (auto simp: Let_def pick_first_None split: option.splits prod.splits)

lemma scan_frames_static:
  "scan_frames p ks t = Some (m, t') \<Longrightarrow>
   key t' = key t \<and> decode t' = decode t \<and> closed t' = closed t \<and> conn_sent t' = conn_sent t \<and> ppid t' = ppid t"
  by (induction p ks t rule: scan_frames.induct) (auto simp: Let_def split: option.splits prod.splits)

lemma scan_frames_Some:
  "scan_frames p ks t = Some (m, t') \<Longrightarrow>
   \<exists>ks1 k ks2 xs ys. ks = ks1 @ k # ks2 \<and> (\<forall>k' \<in> set ks1. \<forall>x \<in> set (frames_at t k'). \<not> p x) \<and>
     frames_at t k = xs @ m # ys \<and> (\<forall>x \<in> set xs. \<not> p x) \<and> p m \<and>
     frames_at t' = (frames_at t)(k := xs @ ys)"
proof (induction p ks t rule: scan_frames.induct)
  case (2 p k ks t)
  show ?case
  proof (cases "pick_first p (frames_at t k)")
    case None
    with 2(2) have "scan_frames p ks t = Some (m, t')" by simp
    from 2(1) [OF None this] obtain ks1 k' ks2 xs ys where
      "ks = ks1 @ k' # ks2" "\<forall>k \<in> set ks1. \<forall>x \<in> set (frames_at t k). \<not> p x"
      "frames_at t k' = xs @ m # ys" "\<forall>x \<in> set xs. \<not> p x" "p m"
      "frames_at t' = (frames_at t)(k' := xs @ ys)" by blast
    with None show ?thesis
      by (intro exI [of _ "k # ks1"] exI [of _ k'] exI [of _ ks2] exI [of _ xs] exI [of _ ys])
         (auto simp: pick_first_None)
  next
    case (Some a)
    with 2(2) obtain rest where pf: "pick_first p (frames_at t k) = Some (m, rest)"
      by (cases a) (auto simp: Let_def)
    from pick_first_Some [OF this] obtain xs ys where
      "frames_at t k = xs @ m # ys" "rest = xs @ ys" "\<forall>x \<in> set xs. \<not> p x" "p m" by blast
    moreover have "frames_at t' = (frames_at t)(k := rest)"
      using 2(2) pf by (auto simp: Let_def frames_at_def fun_eq_iff split: if_splits)
    ultimately show ?thesis
      by (intro exI [of _ "[]"] exI [of _ k] exI [of _ ks] exI [of _ xs] exI [of _ ys]) auto
  qed
qed simp

definition decode_frame :: "(bytes \<Rightarrow> 'm result) \<Rightarrow> bytes \<Rightarrow> 'm option" where
  "decode_frame d cp = (if cp = [] then None else case d cp of Inl e \<Rightarrow> None | Inr m \<Rightarrow> Some m)"

interpretation frm: mailbox "\<lambda>t. key t = k0 \<and> decode t = d0" frames_at k0 deliver_frame
  p ks "scan_frames p ks" "decode_frame d0" receive_frame
  for k0 :: "'m \<Rightarrow> string" and d0 :: "bytes \<Rightarrow> 'm result" and p ks
proof (unfold_locales, goal_cases)
  case (2 b m b')
  then show ?case using scan_frames_static [of p ks b m b'] by simp
next
  case (3 b m k)
  then show ?case by (simp add: frames_at_deliver)
next
  case (4 b k m)
  then show ?case using scan_frames_None [of p ks b k m] by simp
next
  case (5 b m b')
  then show ?case using scan_frames_Some [of p ks b m b'] by simp
next
  case (6 b d)
  then show ?case by (auto simp: receive_frame_def decode_frame_def split: sum.splits)
qed simp

definition matches :: "('m \<Rightarrow> bool) option \<Rightarrow> 'm \<Rightarrow> bool" where
  "matches match m = (case match of None \<Rightarrow> True | Some f \<Rightarrow> f m)"

lemma WaitForMessageMatching_loop:
  "WaitForMessageMatching match ks evs t =
     wait_loop (scan_frames (matches match) ks) receive_frame (Wrapf ''messageTypes'' ErrTimeout) evs t"
  by (simp add: WaitForMessageMatching_def matches_def [abs_def])


text \<open>C26. A wait that fails reports the timeout sentinel, and only because nothing it could
  return is there: what was queued or arrived is still queued, in order, and none of it under
  the requested types matches.\<close>

theorem Wait_timeout_loses_nothing:
  assumes "WaitForMessageMatching match types evs t = (Inl err, t', evs')"
  shows "errors_is err ErrTimeout \<and> (\<exists>ds. arrivals evs = ds @ arrivals evs' \<and>
    (\<forall>j. frames_at t' j = frames_at t j @ decoded_under (key t) (decode_frame (decode t)) j ds) \<and>
    (\<forall>k \<in> set types. \<forall>x \<in> set (frames_at t' k). \<not> matches match x))"
proof -
  from frm.wait_failure [of t "key t" "decode t", OF _ assms [unfolded WaitForMessageMatching_loop]]
  obtain ds where e: "err = Wrapf ''messageTypes'' ErrTimeout" and
    ds: "arrivals evs = ds @ arrivals evs'"
    "\<forall>j. frames_at t' j = frames_at t j @ decoded_under (key t) (decode_frame (decode t)) j ds"
    "\<forall>k \<in> set types. \<forall>x \<in> set (frames_at t k @ decoded_under (key t) (decode_frame (decode t)) k ds).
        \<not> matches match x"
    by auto
  from ds have "\<forall>k \<in> set types. \<forall>x \<in> set (frames_at t' k). \<not> matches match x" by simp
  with ds(1,2) show ?thesis by (auto simp: e ErrTimeout_def intro!: exI [of _ ds])
qed



section \<open>Concrete runs\<close>

text \<open>A transport whose frames are their own decoding, keyed by their first octet.\<close>

definition sample_transport :: "bytes framed" where
  "sample_transport = \<lparr> conn_sent = [], ppid = 60, decode = Inr,
     key = (\<lambda>b. if hd b = 1 then ''A'' else ''B''), closed = False, frames = Map.empty \<rparr>"

lemmas run_simps = WaitForMessageMatching_def sample_transport_def receive_frame_def deliver_frame_def
  frames_at_def


theorem Wait_timeout_loses_nothing_witness:
  "errors_is (Wrapf ''messageTypes'' ErrTimeout) ErrTimeout \<and>
   (\<exists>ds. arrivals [Arrive [[2, 9]], Deadline, Arrive [[1, 1]]] = ds @ arrivals [Arrive [[1, 1]]] \<and>
    (\<forall>j. frames_at (sample_transport\<lparr> frames := [''B'' \<mapsto> [[2, 9]]] \<rparr>) j =
      frames_at sample_transport j
        @ decoded_under (key sample_transport) (decode_frame (decode sample_transport)) j ds) \<and>
    (\<forall>k \<in> set [''A'']. \<forall>x \<in> set (frames_at (sample_transport\<lparr> frames := [''B'' \<mapsto> [[2, 9]]] \<rparr>) k).
       \<not> matches None x))"
  by (rule Wait_timeout_loses_nothing [where types = "[''A'']" and t = sample_transport]) (simp add: run_simps)



section \<open>Sending\<close>

text \<open>A send on an open transport hands the PDU to SCTP exactly once, on stream 0 for
  non-UE-associated signalling and stream 1 otherwise, with the transport's PPID; a failing
  write and a closed transport are reported as the send sentinel and write nothing.  Sending
  never touches the receive queues.\<close>

theorem Send_behaviour:
  "(case Send w data nonUE t of (r, t') \<Rightarrow>
     frames t' = frames t \<and> closed t' = closed t \<and>
     rok r = (\<not> closed t \<and> rok (w data (if nonUE then 0 else 1) (ppid t))) \<and>
     conn_sent t' = conn_sent t @ (if rok r then [(data, if nonUE then 0 else 1, ppid t)] else []) \<and>
     (case r of Inr _ \<Rightarrow> True | Inl e \<Rightarrow> errors_is e ErrSend))"
  by (auto simp: Send_def Let_def ErrSend_def split: sum.splits)

end
