(* ===== verification/Crypto_Suci.thy ===== *)
theory Crypto_Suci
  imports Prelude
begin

text \<open>
  Subscriber identifiers: \<open>internal/crypto/suci.go\<close> and \<open>suci_encode.go\<close>.  A Go
  string is a list of octets; the identifiers handled here are ASCII.  The elliptic
  curves, AES, HMAC-SHA-256 and the randomness are fields of \<open>suci_crypto\<close>, a parameter:
  the model fixes how the code composes them, not what they compute.
\<close>

definition PrefixSUCI :: string where "PrefixSUCI = ''suci''"
definition SupiTypeIMSI :: string where "SupiTypeIMSI = ''0''"
definition NullScheme :: string where "NullScheme = ''0''"
definition ProfileAScheme :: string where "ProfileAScheme = ''1''"
definition ProfileBScheme :: string where "ProfileBScheme = ''2''"

definition profileAMacKeyLen :: nat where "profileAMacKeyLen = 32"
definition profileAEncKeyLen :: nat where "profileAEncKeyLen = 16"
definition profileAIcbLen :: nat where "profileAIcbLen = 16"
definition profileAMacLen :: nat where "profileAMacLen = 8"
definition profileAHashLen :: nat where "profileAHashLen = 32"
definition profileBMacKeyLen :: nat where "profileBMacKeyLen = 32"
definition profileBEncKeyLen :: nat where "profileBEncKeyLen = 16"
definition profileBIcbLen :: nat where "profileBIcbLen = 16"
definition profileBMacLen :: nat where "profileBMacLen = 8"
definition profileBHashLen :: nat where "profileBHashLen = 32"

lemmas profile_defs =
  profileAMacKeyLen_def profileAEncKeyLen_def profileAIcbLen_def profileAMacLen_def profileAHashLen_def
  profileBMacKeyLen_def profileBEncKeyLen_def profileBIcbLen_def profileBMacLen_def profileBHashLen_def

record 'pub HomeNetworkPublicKey =
  ProtectionScheme :: string
  PublicKey :: "'pub option"
  PublicKeyID :: string

record Suci =
  SupiType :: string
  sMcc :: string
  sMnc :: string
  sRoutingIndicator :: string
  sProtectionScheme :: string
  sPublicKeyID :: string
  SchemeOutput :: string
  Raw :: string

text \<open>The cryptography used: key generation, public key octets (for P-256 the
  compressed form, which may fail), key agreement (a nil peer key panics), SHA-256, its
  HMAC, and AES-128 in counter mode.\<close>

record ('priv, 'pub) suci_crypto =
  x25519_generate :: "'priv result"
  p256_generate :: "'priv result"
  public_bytes :: "'priv \<Rightarrow> bytes"
  compressed_bytes :: "'priv \<Rightarrow> bytes result"
  ecdh :: "'priv \<Rightarrow> 'pub \<Rightarrow> bytes result"
  sha256 :: "bytes \<Rightarrow> bytes"
  hmac_sha256_raw :: "bytes \<Rightarrow> bytes \<Rightarrow> bytes"
  aes_ctr_raw :: "bytes \<Rightarrow> bytes \<Rightarrow> bytes \<Rightarrow> bytes result"


section \<open>Matching a SUCI string\<close>

text \<open>The regular expression \<open>suciRegex\<close> reads dash-separated fields, none of which but the
  NAI can contain a dash, so matching is splitting and testing the fields.\<close>

fun split_dash :: "string \<Rightarrow> string list" where
  "split_dash [] = [[]]"
| "split_dash (c # s) = (if c = CHR ''-'' then [] # split_dash s
     else (case split_dash s of [] \<Rightarrow> [[c]] | p # ps \<Rightarrow> (c # p) # ps))"

definition digits_between :: "nat \<Rightarrow> nat \<Rightarrow> string \<Rightarrow> bool" where
  "digits_between lo hi s = (lo \<le> length s \<and> length s \<le> hi \<and> list_all is_digit s)"

definition is_key_id :: "string \<Rightarrow> bool" where
  "is_key_id s = (digits_between 1 2 s \<or>
     (digits_between 3 3 s \<and> 100 \<le> dec_val s \<and> dec_val s \<le> 255))"

definition is_hex_string :: "string \<Rightarrow> bool" where
  "is_hex_string s = (s \<noteq> [] \<and> list_all (\<lambda>c. from_hex_char c \<noteq> None) s)"

definition suci_tail_ok :: "string \<Rightarrow> string \<Rightarrow> string \<Rightarrow> string \<Rightarrow> bool" where
  "suci_tail_ok ri ps pk out = (digits_between 1 4 ri \<and> ps \<in> {''0'', ''1'', ''2''} \<and>
     is_key_id pk \<and> is_hex_string out)"

fun join_dash :: "string list \<Rightarrow> string" where
  "join_dash [] = []"
| "join_dash [p] = p"
| "join_dash (p # q # ps) = p @ ''-'' @ join_dash (q # ps)"

definition ParseSuci :: "string \<Rightarrow> Suci option" where
  "ParseSuci input =
     (case split_dash input of
        [pre, t, mcc, mnc, ri, ps, pk, out] \<Rightarrow>
          if pre = ''suci'' \<and> t = ''0'' \<and> digits_between 3 3 mcc \<and> digits_between 2 3 mnc
             \<and> suci_tail_ok ri ps pk out
          then Some \<lparr> SupiType = ''0-'' @ mcc @ ''-'' @ mnc, sMcc = mcc, sMnc = mnc,
                 sRoutingIndicator = ri, sProtectionScheme = ps, sPublicKeyID = pk,
                 SchemeOutput = out, Raw = input \<rparr>
          else if pre = ''suci'' \<and> t = ''1'' \<and> CHR 0x0A \<notin> set (mcc @ mnc) \<and> suci_tail_ok ri ps pk out
          then Some \<lparr> SupiType = ''1-'' @ mcc @ ''-'' @ mnc, sMcc = [], sMnc = [],
                 sRoutingIndicator = ri, sProtectionScheme = ps, sPublicKeyID = pk,
                 SchemeOutput = out, Raw = input \<rparr>
          else None
      | pre # t # rest \<Rightarrow>
          (case rev rest of
             out # pk # ps # ri # n # nai \<Rightarrow>
               if pre = ''suci'' \<and> t = ''1'' \<and> CHR 0x0A \<notin> set (concat (n # nai)) \<and> suci_tail_ok ri ps pk out
               then Some \<lparr> SupiType = ''1-'' @ join_dash (rev (n # nai)), sMcc = [], sMnc = [],
                      sRoutingIndicator = ri, sProtectionScheme = ps, sPublicKeyID = pk,
                      SchemeOutput = out, Raw = input \<rparr>
               else None
           | _ \<Rightarrow> None)
      | _ \<Rightarrow> None)"


section \<open>TBCD\<close>

text \<open>The in-place swap loop of \<open>Tbcd\<close>.\<close>

fun swap_pairs :: "'a list \<Rightarrow> 'a list" where
  "swap_pairs (a # b # s) = b # a # swap_pairs s"
| "swap_pairs s = s"

definition Tbcd :: "string \<Rightarrow> string result" where
  "Tbcd v =
     (let vb = (if even (length v) then v else v @ ''F'');
          vb = swap_pairs vb in
      if vb = [] then Inl (Panic ''index out of range'')
      else if last vb = CHR ''F'' \<or> last vb = CHR ''f'' then Inr (butlast vb)
      else Inr vb)"


section \<open>Concealment\<close>

definition ansiX963KDF ::
  "('priv, 'pub) suci_crypto \<Rightarrow> bytes \<Rightarrow> bytes \<Rightarrow> nat \<Rightarrow> nat \<Rightarrow> nat \<Rightarrow> bytes" where
  "ansiX963KDF c sharedKey publicKey encKeyLen macKeyLen hashLen =
     (let kdfRounds = (encKeyLen + macKeyLen + hashLen - 1) div hashLen in
      concat (map (\<lambda>i. sha256 c (sharedKey @ be_bytes 4 (of_nat (1 + i) :: u32) @ publicKey))
                  [0..<kdfRounds]))"

definition hmacSha256 :: "('priv, 'pub) suci_crypto \<Rightarrow> bytes \<Rightarrow> bytes \<Rightarrow> nat \<Rightarrow> bytes result" where
  "hmacSha256 c input macKey macLen = slice (hmac_sha256_raw c macKey input) 0 macLen"

definition aes128ctr :: "('priv, 'pub) suci_crypto \<Rightarrow> bytes \<Rightarrow> bytes \<Rightarrow> bytes \<Rightarrow> bytes result" where
  "aes128ctr c input encKey icb = rwrap ''AES128 CTR error'' (aes_ctr_raw c encKey icb input)"

text \<open>The part both profiles share, after the ephemeral key, the shared key and the octets of
  the ephemeral public key are known.\<close>

definition profile_conceal ::
  "('priv, 'pub) suci_crypto \<Rightarrow> string \<Rightarrow> bytes \<Rightarrow> bytes \<Rightarrow> nat \<Rightarrow> nat \<Rightarrow> nat \<Rightarrow> nat \<Rightarrow> nat \<Rightarrow> string result" where
  "profile_conceal c msin sharedKey ephemeralPub encKeyLen macKeyLen icbLen macLen hashLen =
     rbind (rbind (Tbcd msin) hex_decode) (\<lambda>plainBCD.
       let kdfKey = ansiX963KDF c sharedKey ephemeralPub encKeyLen macKeyLen hashLen in
       rbind (slice kdfKey 0 encKeyLen) (\<lambda>encKey.
       rbind (slice kdfKey encKeyLen (encKeyLen + icbLen)) (\<lambda>iv.
       rbind (slice kdfKey (length kdfKey - macKeyLen) (length kdfKey)) (\<lambda>macKey.
       rbind (aes128ctr c plainBCD encKey iv) (\<lambda>cipherText.
       rbind (hmacSha256 c cipherText macKey macLen) (\<lambda>mac.
         Inr (hex_encode (ephemeralPub @ cipherText @ mac))))))))"

text \<open>\<open>ECDH\<close> dereferences its argument: a nil key panics.\<close>

definition ecdh_ptr :: "('priv, 'pub) suci_crypto \<Rightarrow> 'priv \<Rightarrow> 'pub option \<Rightarrow> bytes result" where
  "ecdh_ptr c priv pk = (case pk of None \<Rightarrow> Inl (Panic ''nil pointer dereference'')
     | Some k \<Rightarrow> rwrap ''failed to compute ECDH'' (ecdh c priv k))"

definition profileAEncrypt :: "('priv, 'pub) suci_crypto \<Rightarrow> string \<Rightarrow> 'pub option \<Rightarrow> string result" where
  "profileAEncrypt c msin hnPubkey =
     rbind (rwrap ''failed to generate ephemeral X25519 key'' (x25519_generate c)) (\<lambda>priv.
     rbind (ecdh_ptr c priv hnPubkey) (\<lambda>sharedKey.
       profile_conceal c msin sharedKey (public_bytes c priv)
         profileAEncKeyLen profileAMacKeyLen profileAIcbLen profileAMacLen profileAHashLen))"

definition profileBEncrypt :: "('priv, 'pub) suci_crypto \<Rightarrow> string \<Rightarrow> 'pub option \<Rightarrow> string result" where
  "profileBEncrypt c msin hnPubkey =
     rbind (rwrap ''failed to generate ephemeral P256 key'' (p256_generate c)) (\<lambda>priv.
     rbind (ecdh_ptr c priv hnPubkey) (\<lambda>sharedKey.
     rbind (rwrap ''failed to unmarshal ephemeral public key'' (compressed_bytes c priv)) (\<lambda>ephemeralPub.
       profile_conceal c msin sharedKey ephemeralPub
         profileBEncKeyLen profileBMacKeyLen profileBIcbLen profileBMacLen profileBHashLen)))"

text \<open>The result is a pointer: nil (\<open>None\<close>) when the string it built does not match.\<close>

definition CipherSuci ::
  "('priv, 'pub) suci_crypto \<Rightarrow> string \<Rightarrow> string \<Rightarrow> string \<Rightarrow> string \<Rightarrow> 'pub HomeNetworkPublicKey
    \<Rightarrow> Suci option result" where
  "CipherSuci c msin mcc mnc routingIndicator profile =
     (if length msin + length mcc + length mnc < 14 then Inl (Errorf ''supi length must be 15'')
      else
        rbind
          (if ProtectionScheme profile = NullScheme then Inr msin
           else if ProtectionScheme profile = ProfileAScheme then
             rwrap ''profile A encryption failed'' (profileAEncrypt c msin (PublicKey profile))
           else if ProtectionScheme profile = ProfileBScheme then
             rwrap ''profile B encryption failed'' (profileBEncrypt c msin (PublicKey profile))
           else Inl (Errorf ''unsupported protection scheme''))
          (\<lambda>schemeOutput.
             Inr (ParseSuci (PrefixSUCI @ ''-'' @ SupiTypeIMSI @ ''-'' @ mcc @ ''-'' @ mnc @ ''-''
               @ routingIndicator @ ''-'' @ ProtectionScheme profile @ ''-''
               @ PublicKeyID profile @ ''-'' @ schemeOutput))))"


section \<open>suci\_encode.go\<close>

definition ParseSUPI :: "string \<Rightarrow> int \<Rightarrow> (string \<times> string \<times> string) result" where
  "ParseSUPI supi mncLength =
     (let prefix = ''imsi-'' in
      if length supi < length prefix + 10 then Inl (Errorf ''SUPI too short'')
      else if take (length prefix) supi \<noteq> prefix then Inl (Errorf ''SUPI must start with imsi-'')
      else
        let digits = drop (length prefix) supi in
        if length digits < 15 then Inl (Errorf ''IMSI must be at least 15 digits'')
        else
          let mncLength = (if mncLength < 2 \<or> mncLength > 3 then 2 else mncLength);
              n = nat mncLength in
          rbind (slice digits 0 3) (\<lambda>mcc.
          rbind (slice digits 3 (3 + n)) (\<lambda>mnc.
          rbind (slice digits (3 + n) (length digits)) (\<lambda>msin. Inr (mcc, mnc, msin)))))"

text \<open>\<open>strconv.ParseUint(s, 10, 8)\<close>.\<close>

definition parse_uint8 :: "string \<Rightarrow> nat result" where
  "parse_uint8 s =
     (if s = [] \<or> \<not> list_all is_digit s then Inl (Errorf ''invalid syntax'')
      else if dec_val s > 255 then Inl (Errorf ''value out of range'')
      else Inr (dec_val s))"

text \<open>On ASCII strings, which is all a digit string contains.\<close>

definition reverseStr :: "string \<Rightarrow> string" where
  "reverseStr s = foldl (\<lambda>aux v. [v] @ aux) [] s"

definition getMccAndMncInOctets :: "string \<Rightarrow> string \<Rightarrow> bytes result" where
  "getMccAndMncInOctets mccStr mncStr =
     (let mcc = reverseStr mccStr; mnc = reverseStr mncStr in
      rbind (at mcc 1) (\<lambda>c1. rbind (at mcc 2) (\<lambda>c2. rbind (at mcc 0) (\<lambda>c0.
      rbind (at mnc 0) (\<lambda>n0. rbind (at mnc 1) (\<lambda>n1.
      if length mnc = 2 then hex_decode [c1, c2, CHR ''f'', c0, n0, n1]
      else rbind (at mnc 2) (\<lambda>n2. hex_decode [c1, c2, n0, c0, n1, n2])))))))"

definition getRoutingIndicatorInOctets :: "string \<Rightarrow> bytes result" where
  "getRoutingIndicatorInOctets routingIndicator =
     (let routingIndicator = (if length routingIndicator = 0 then ''0'' else routingIndicator) in
      if length routingIndicator > 4 then Inl (Errorf ''routing indicator must be 4 digits maximum'')
      else hex_decode (swap_pairs (routingIndicator @ replicate (4 - length routingIndicator) (CHR ''F''))))"

definition EncodeSuci ::
  "('priv, 'pub) suci_crypto \<Rightarrow> string \<Rightarrow> string \<Rightarrow> string \<Rightarrow> string \<Rightarrow> 'pub HomeNetworkPublicKey
    \<Rightarrow> bytes result" where
  "EncodeSuci c msin mcc mnc routingIndicator hnPubKey =
     rbind (rmsg ''invalid protection scheme'' (parse_uint8 (ProtectionScheme hnPubKey))) (\<lambda>protScheme.
     rbind (rmsg ''invalid public key ID'' (parse_uint8 (PublicKeyID hnPubKey))) (\<lambda>hnPubKeyId.
     rbind
       (if protScheme = 0 then rmsg ''TBCD encoding error'' (rbind (Tbcd msin) hex_decode)
        else
          rbind (rmsg ''SUCI cipher error'' (CipherSuci c msin mcc mnc routingIndicator hnPubKey)) (\<lambda>suci.
          case suci of
            None \<Rightarrow> Inl (Panic ''nil pointer dereference'')
          | Some su \<Rightarrow> rmsg ''scheme output decode error'' (hex_decode (SchemeOutput su))))
       (\<lambda>schemeOutput.
          let buffer = replicate (8 + length schemeOutput) 0;
              buffer = buffer[0 := 1] in
          rbind (getMccAndMncInOctets mcc mnc) (\<lambda>plmnID.
          let buffer = copy_from buffer 1 plmnID in
          rbind (getRoutingIndicatorInOctets routingIndicator) (\<lambda>routingInd.
          let buffer = copy_from buffer 4 routingInd;
              buffer = buffer[6 := of_nat protScheme];
              buffer = buffer[7 := of_nat hnPubKeyId]
          in Inr (copy_from buffer 8 schemeOutput))))))"

definition DeriveSNN :: "string \<Rightarrow> string \<Rightarrow> string" where
  "DeriveSNN mcc mnc =
     (if length mnc = 2 then ''5G:mnc0'' @ mnc @ ''.mcc'' @ mcc @ ''.3gppnetwork.org''
      else ''5G:mnc'' @ mnc @ ''.mcc'' @ mcc @ ''.3gppnetwork.org'')"

definition BuildSuciString ::
  "string \<Rightarrow> string \<Rightarrow> string \<Rightarrow> string \<Rightarrow> string \<Rightarrow> bytes \<Rightarrow> string result" where
  "BuildSuciString mcc mnc routingIndicator protScheme pubKeyID suciBuffer =
     rbind (slice suciBuffer 8 (length suciBuffer)) (\<lambda>tail.
       Inr (''suci-0-'' @ mcc @ ''-'' @ mnc @ ''-'' @ routingIndicator @ ''-'' @ protScheme @ ''-''
            @ pubKeyID @ ''-'' @ hex_encode tail))"

text \<open>Public key parsing: the compressed form of a P-256 key is expanded first.  The curve
  routines are parameters.\<close>

definition ParseX25519PublicKey :: "(bytes \<Rightarrow> 'pub result) \<Rightarrow> bytes \<Rightarrow> 'pub result" where
  "ParseX25519PublicKey newX25519 raw = newX25519 raw"

definition ParseP256PublicKey ::
  "(bytes \<Rightarrow> bytes option) \<Rightarrow> (bytes \<Rightarrow> 'pub result) \<Rightarrow> bytes \<Rightarrow> 'pub result" where
  "ParseP256PublicKey uncompress newP256 raw =
     (if length raw = 33 \<and> (raw ! 0 = 0x02 \<or> raw ! 0 = 0x03) then
        (case uncompress raw of
           None \<Rightarrow> Inl (Errorf ''invalid compressed P-256 public key'')
         | Some raw' \<Rightarrow> newP256 raw')
      else newP256 raw)"


section \<open>TBCD is an involution on digit strings\<close>

lemma length_swap_pairs [simp]: "length (swap_pairs s) = length s"
  by (induction s rule: swap_pairs.induct) auto

lemma swap_swap [simp]: "swap_pairs (swap_pairs s) = s"
  by (induction s rule: swap_pairs.induct) auto

lemma set_swap_pairs [simp]: "set (swap_pairs s) = set s"
  by (induction s rule: swap_pairs.induct) auto

lemma swap_pairs_Nil [simp]: "swap_pairs s = [] \<longleftrightarrow> s = []"
  by (induction s rule: swap_pairs.induct) auto

lemma last_swap_pairs: "even (length s) \<Longrightarrow> s \<noteq> [] \<Longrightarrow> last (swap_pairs s) = last (butlast s)"
proof (induction s rule: swap_pairs.induct)
  case (1 a b s)
  show ?case
  proof (cases s)
    case (Cons c s')
    with 1 have "s' \<noteq> []" by auto
    with 1 Cons show ?thesis by simp
  qed simp
qed auto

definition tbcd_padded :: "string \<Rightarrow> string" where
  "tbcd_padded s = (if even (length s) then s else s @ ''F'')"

lemma tbcd_padded_even: "even (length (tbcd_padded s))"
  by (simp add: tbcd_padded_def)

lemma Tbcd_digits:
  assumes "list_all is_digit s" "s \<noteq> []"
  shows "Tbcd s = Inr (swap_pairs (tbcd_padded s))"
proof -
  have ne: "tbcd_padded s \<noteq> []" using assms(2) by (simp add: tbcd_padded_def)
  have "butlast (tbcd_padded s) \<noteq> []"
    using assms(2) tbcd_padded_even [of s] by (cases s; cases "tl s") (auto simp: tbcd_padded_def)
  moreover have "set (butlast (tbcd_padded s)) \<subseteq> set s"
    by (auto simp: tbcd_padded_def dest: in_set_butlastD)
  ultimately have "is_digit (last (butlast (tbcd_padded s)))"
    using assms(1) last_in_set unfolding list_all_iff by blast
  then have "is_digit (last (swap_pairs (tbcd_padded s)))"
    using ne by (simp add: last_swap_pairs tbcd_padded_even)
  with ne show ?thesis
    by (auto simp: Tbcd_def Let_def simp flip: tbcd_padded_def)
qed

text \<open>\<open>Tbcd\<close> swaps digit pairs and pads with F; applied to its own result on a string of
  decimal digits it gives the string back.\<close>

theorem Tbcd_involution:
  assumes "list_all is_digit s" "s \<noteq> []"
  shows "rbind (Tbcd s) Tbcd = Inr s"
proof -
  have "Tbcd (swap_pairs (tbcd_padded s)) = Inr s"
  proof (cases "even (length s)")
    case True
    moreover have "is_digit (last s)" using assms by (auto simp: list_all_iff)
    ultimately show ?thesis using assms(2) by (simp add: Tbcd_def Let_def tbcd_padded_def)
  next
    case False
    then show ?thesis by (simp add: Tbcd_def Let_def tbcd_padded_def)
  qed
  then show ?thesis by (simp add: Tbcd_digits [OF assms])
qed

theorem Tbcd_involution_witness: "rbind (Tbcd ''0000007'') Tbcd = Inr ''0000007''"
  by (rule Tbcd_involution) (simp_all add: is_digit_def)

lemma ParseSUPI_ok:
  "15 \<le> length d \<Longrightarrow> ParseSUPI (''imsi-'' @ d) n =
     (let k = if n = 3 then 3 else 2 in Inr (take 3 d, take k (drop 3 d), drop (3 + k) d))"
proof -
  assume d: "15 \<le> length d"
  consider "n = 3" | "n = 2" | "n < 2" | "n > 3" by linarith
  then show ?thesis using d by cases (simp_all add: ParseSUPI_def Let_def)
qed

lemma ParseSUPI_err:
  "(\<nexists>d. supi = ''imsi-'' @ d \<and> 15 \<le> length d) \<Longrightarrow> \<exists>e. ParseSUPI supi n = Inl (Errorf e)"
proof -
  assume n: "\<nexists>d. supi = ''imsi-'' @ d \<and> 15 \<le> length d"
  have "take 5 supi \<noteq> ''imsi-'' \<or> length supi < 20"
  proof (rule ccontr)
    assume "\<not> ?thesis"
    then have t: "take 5 supi = ''imsi-''" and l: "20 \<le> length supi" by auto
    have "supi = ''imsi-'' @ drop 5 supi"
      using append_take_drop_id [of 5 supi] by (simp add: t)
    moreover have "15 \<le> length (drop 5 supi)" using l unfolding length_drop by linarith
    ultimately show False using n by blast
  qed
  moreover have "length ''imsi-'' = 5" by simp
  ultimately show ?thesis
    unfolding ParseSUPI_def Let_def \<open>length ''imsi-'' = 5\<close> by auto
qed

text \<open>\<open>ParseSUPI\<close> accepts exactly the strings \<open>imsi-\<close> followed by at least fifteen
  octets, and then splits them without loss: a three-digit MCC, an MNC of the requested
  length (two when the request is neither 2 nor 3), the rest as MSIN.\<close>

theorem ParseSUPI_spec:
  "(ParseSUPI supi n = Inr (mcc, mnc, msin)) =
     (supi = ''imsi-'' @ mcc @ mnc @ msin \<and> length mcc = 3 \<and>
      length mnc = (if n = 3 then 3 else 2) \<and> 15 \<le> length (mcc @ mnc @ msin))"
proof (cases "\<exists>d. supi = ''imsi-'' @ d \<and> 15 \<le> length d")
  case True
  then obtain d where d: "supi = ''imsi-'' @ d" "15 \<le> length d" by blast
  have sp: "take 3 d @ take k (drop 3 d) @ drop (3 + k) d = d" for k
    by (metis append_take_drop_id drop_drop add.commute)
  then show ?thesis
    using d(2) sp [of 3] sp [of 2] unfolding d(1) ParseSUPI_ok [OF d(2)] Let_def
    by (auto; metis)
next
  case False
  with ParseSUPI_err [of supi n] show ?thesis by auto
qed

section \<open>What the null scheme encodes\<close>

text \<open>Reading BCD octets back, low nibble first, skipping the filler (TS 24.501, 9.11.3.4).\<close>

definition nibbles :: "u8 \<Rightarrow> nat list" where
  "nibbles b = [unat b mod 16, unat b div 16]"

definition bcd_read :: "bytes \<Rightarrow> nat list" where
  "bcd_read bs = filter (\<lambda>d. d \<noteq> 15) (concat (map nibbles bs))"

text \<open>The PLMN order: the third MNC digit sits in the high nibble of the second octet.\<close>

definition plmn_read :: "bytes \<Rightarrow> nat list \<times> nat list" where
  "plmn_read b = (case concat (map nibbles b) of
      [a, b, c, n3, n1, n2] \<Rightarrow> ([a, b, c], if n3 = 15 then [n1, n2] else [n1, n2, n3])
    | _ \<Rightarrow> ([], []))"

definition hex_val :: "char \<Rightarrow> nat" where
  "hex_val c = (case from_hex_char c of Some n \<Rightarrow> n | None \<Rightarrow> 0)"

lemma hex_val_simps [simp]:
  "is_digit c \<Longrightarrow> hex_val c = digit_val c" "hex_val CHR ''F'' = 15" "hex_val CHR ''f'' = 15"
  by (simp add: hex_val_def) (simp_all add: hex_val_def from_hex_char_def)

lemma from_hex_char_F [simp]: "from_hex_char CHR ''F'' = Some 15" "from_hex_char CHR ''f'' = Some 15"
  by (simp_all add: from_hex_char_def)

lemma from_hex_char_less: "from_hex_char c = Some n \<Longrightarrow> n < 16"
  by (auto simp: from_hex_char_def Let_def split: if_splits)

lemma nibbles_pair:
  "h < 16 \<Longrightarrow> l < 16 \<Longrightarrow> nibbles (of_nat (16 * h + l)) = [l, h]"
  by (simp add: nibbles_def unat_of_nat del: of_nat_add of_nat_mult)

lemma nibbles_filler: "l < 16 \<Longrightarrow> nibbles (of_nat (240 + l)) = [l, 15]"
  using nibbles_pair [of 15 l] by simp

lemma hex_decode_nibbles:
  "even (length s) \<Longrightarrow> list_all (\<lambda>c. from_hex_char c \<noteq> None) s \<Longrightarrow>
   \<exists>bs. hex_decode s = Inr bs \<and> 2 * length bs = length s \<and>
        concat (map nibbles bs) = map hex_val (swap_pairs s)"
proof (induction s rule: hex_decode.induct)
  case (3 c d s)
  then obtain h l where hl: "from_hex_char c = Some h" "from_hex_char d = Some l" by auto
  with 3 obtain bs where "hex_decode s = Inr bs" "2 * length bs = length s"
    "concat (map nibbles bs) = map hex_val (swap_pairs s)"
    by auto
  moreover note hl
  moreover from this have "nibbles (of_nat (16 * h + l)) = [l, h]"
    by (intro nibbles_pair) (auto dest: from_hex_char_less)
  ultimately show ?case by (auto simp: hex_val_def)
qed auto

lemma digits_hex: "list_all is_digit s \<Longrightarrow> list_all (\<lambda>c. from_hex_char c \<noteq> None) s"
  by (auto simp: list_all_iff)

lemma digits_map_filter:
  "list_all is_digit s \<Longrightarrow> filter (\<lambda>d. d \<noteq> 15) (map hex_val s) = map digit_val s"
proof (induction s)
  case (Cons c s)
  then have "digit_val c < 10" using is_digit_less [of c] by simp
  with Cons show ?case by simp
qed simp

lemma Tbcd_octets:
  assumes "list_all is_digit s" "s \<noteq> []"
  shows "\<exists>bs. rbind (Tbcd s) hex_decode = Inr bs \<and> length bs = (length s + 1) div 2 \<and>
    bcd_read bs = map digit_val s"
proof -
  let ?p = "tbcd_padded s"
  have h: "list_all (\<lambda>c. from_hex_char c \<noteq> None) (swap_pairs ?p)"
    using digits_hex [OF assms(1)] by (auto simp: list_all_iff tbcd_padded_def)
  have "even (length (swap_pairs ?p))" by (simp add: tbcd_padded_even)
  from hex_decode_nibbles [OF this h] obtain bs where
    bs: "hex_decode (swap_pairs ?p) = Inr bs" "2 * length bs = length ?p"
    "concat (map nibbles bs) = map hex_val ?p" by auto
  have "bcd_read bs = map digit_val s"
    unfolding bcd_read_def bs(3)
    using digits_map_filter [OF assms(1)] by (simp add: tbcd_padded_def)
  moreover have "length bs = (length s + 1) div 2"
    using bs(2) by (auto simp: tbcd_padded_def split: if_splits)
  ultimately show ?thesis using bs(1) by (simp add: Tbcd_digits [OF assms])
qed

lemma reverseStr_rev [simp]: "reverseStr s = rev s"
proof -
  have "foldl (\<lambda>aux v. [v] @ aux) acc s = rev s @ acc" for acc
    by (induction s arbitrary: acc) auto
  from this [of "[]"] show ?thesis by (simp add: reverseStr_def)
qed

lemma digits3:
  assumes "length s = 3" "list_all is_digit s"
  obtains a b c where "s = [a, b, c]" "is_digit a" "is_digit b" "is_digit c"
  using assms by (auto simp: length_Suc_conv numeral_3_eq_3)

lemma digits2:
  assumes "length s = 2" "list_all is_digit s"
  obtains a b where "s = [a, b]" "is_digit a" "is_digit b"
  using assms by (auto simp: length_Suc_conv numeral_2_eq_2)

lemma plmn_octets:
  assumes mcc: "length mcc = 3" "list_all is_digit mcc"
    and mnc: "length mnc = 2 \<or> length mnc = 3" "list_all is_digit mnc"
  shows "\<exists>p0 p1 p2. getMccAndMncInOctets mcc mnc = Inr [p0, p1, p2] \<and>
    plmn_read [p0, p1, p2] = (map digit_val mcc, map digit_val mnc)"
proof -
  obtain a b c where m: "mcc = [a, b, c]" "is_digit a" "is_digit b" "is_digit c"
    using mcc by (rule digits3)
  note less = this(2-4)[THEN is_digit_less]
  show ?thesis
  proof (cases "length mnc = 2")
    case True
    then obtain d e where "mnc = [d, e]" "is_digit d" "is_digit e" using mnc(2) by (rule digits2)
    with m less is_digit_less [of d] is_digit_less [of e] show ?thesis
      by (simp add: getMccAndMncInOctets_def plmn_read_def nibbles_pair nibbles_filler del: of_nat_add of_nat_mult)
  next
    case False
    with mnc(1) have "length mnc = 3" by simp
    then obtain d e f where "mnc = [d, e, f]" "is_digit d" "is_digit e" "is_digit f"
      using mnc(2) by (rule digits3)
    with m less is_digit_less [of d] is_digit_less [of e] is_digit_less [of f] show ?thesis
      by (simp add: getMccAndMncInOctets_def plmn_read_def nibbles_pair nibbles_filler del: of_nat_add of_nat_mult)
  qed
qed

lemma routing_octets:
  assumes "list_all is_digit ri" "ri \<noteq> []" "length ri \<le> 4"
  shows "\<exists>r0 r1. getRoutingIndicatorInOctets ri = Inr [r0, r1] \<and> bcd_read [r0, r1] = map digit_val ri"
proof -
  let ?p = "ri @ replicate (4 - length ri) (CHR ''F'')"
  have l: "length ?p = 4" using assms(3) by simp
  then have "even (length (swap_pairs ?p))" by (simp del: length_append)
  moreover have "list_all (\<lambda>c. from_hex_char c \<noteq> None) (swap_pairs ?p)"
    using digits_hex [OF assms(1)] by (auto simp: list_all_iff)
  ultimately obtain bs where bs: "hex_decode (swap_pairs ?p) = Inr bs" "2 * length bs = length ?p"
    "concat (map nibbles bs) = map hex_val ?p"
    using hex_decode_nibbles [of "swap_pairs ?p"] by auto
  have "bcd_read bs = map digit_val ri"
    unfolding bcd_read_def bs(3) using digits_map_filter [OF assms(1)]
    by (simp add: filter_empty_conv)
  moreover obtain r0 r1 where "bs = [r0, r1]"
  proof -
    have "length bs = 2" using bs(2) l by linarith
    then show thesis using that by (auto simp: length_Suc_conv numeral_2_eq_2)
  qed
  ultimately show ?thesis
    using bs(1) assms(2,3) by (simp add: getRoutingIndicatorInOctets_def Let_def)
qed

text \<open>With the null scheme, the SUCI octets carry the subscriber exactly: type 1, the
  PLMN digits, the routing indicator, scheme 0, the key identifier and the MSIN can all be
  read back, and the length is eight plus half the MSIN, rounded up.\<close>

theorem EncodeSuci_null_scheme:
  assumes "length mcc = 3" "list_all is_digit mcc"
    and "length mnc = 2 \<or> length mnc = 3" "list_all is_digit mnc"
    and "list_all is_digit msin" "msin \<noteq> []"
    and "list_all is_digit ri" "ri \<noteq> []" "length ri \<le> 4"
    and "parse_uint8 (ProtectionScheme pk) = Inr 0" "parse_uint8 (PublicKeyID pk) = Inr k"
  shows "\<exists>b. EncodeSuci c msin mcc mnc ri pk = Inr b \<and>
     length b = 8 + (length msin + 1) div 2 \<and> b ! 0 = 1 \<and>
     plmn_read (take 3 (drop 1 b)) = (map digit_val mcc, map digit_val mnc) \<and>
     bcd_read (take 2 (drop 4 b)) = map digit_val ri \<and> b ! 6 = 0 \<and> b ! 7 = of_nat k \<and>
     bcd_read (drop 8 b) = map digit_val msin"
proof -
  obtain out where o: "rbind (Tbcd msin) hex_decode = Inr out" "length out = (length msin + 1) div 2"
    "bcd_read out = map digit_val msin"
    using Tbcd_octets [OF assms(5,6)] by blast
  obtain p0 p1 p2 where p: "getMccAndMncInOctets mcc mnc = Inr [p0, p1, p2]"
    "plmn_read [p0, p1, p2] = (map digit_val mcc, map digit_val mnc)"
    using plmn_octets [OF assms(1-4)] by blast
  obtain r0 r1 where r: "getRoutingIndicatorInOctets ri = Inr [r0, r1]"
    "bcd_read [r0, r1] = map digit_val ri"
    using routing_octets [OF assms(7-9)] by blast
  have "EncodeSuci c msin mcc mnc ri pk = Inr ([1, p0, p1, p2, r0, r1, 0, of_nat k] @ out)"
    using o p r assms(10,11)
    by (simp add: EncodeSuci_def Let_def replicate_add)
  then show ?thesis using o p r by simp
qed

text \<open>Under a concealing scheme a missing home-network key is not an error value: the code
  dereferences the nil key and panics, whatever the other arguments.\<close>

theorem EncodeSuci_nil_key_panics:
  assumes "ProtectionScheme pk = ProfileAScheme" "parse_uint8 (PublicKeyID pk) = Inr k" "PublicKey pk = None"
    and "14 \<le> length msin + length mcc + length mnc" "x25519_generate c = Inr priv"
  shows "panics (EncodeSuci c msin mcc mnc ri pk)"
proof -
  have "parse_uint8 ''1'' = Inr 1" by (simp add: parse_uint8_def is_digit_def dec_val_def digit_val_def)
  with assms show ?thesis
    by (simp add: EncodeSuci_def CipherSuci_def NullScheme_def ProfileAScheme_def profileAEncrypt_def
        ecdh_ptr_def)
qed

section \<open>The home network recovers a concealed MSIN\<close>

text \<open>Documented behaviour of the cryptographic library: digest lengths, and AES in counter
  mode being its own inverse for a fixed key and counter block.\<close>

definition crypto_ok :: "('priv, 'pub) suci_crypto \<Rightarrow> bool" where
  "crypto_ok c = ((\<forall>x. length (sha256 c x) = 32) \<and> (\<forall>k x. length (hmac_sha256_raw c k x) = 32) \<and>
     (\<forall>k iv x y. aes_ctr_raw c k iv x = Inr y \<longrightarrow> length y = length x \<and> aes_ctr_raw c k iv y = Inr x))"

text \<open>Deconcealment as the home network does it (TS 33.501, C.3.3): split the scheme output,
  derive the keys from its own key agreement \<open>hn\<close>, check the MAC, decrypt.\<close>

definition deconceal :: "('priv, 'pub) suci_crypto \<Rightarrow> (bytes \<Rightarrow> bytes) \<Rightarrow> nat \<Rightarrow> bytes \<Rightarrow> bytes option" where
  "deconceal c hn n b =
     (let eph = take n b; ct = take (length b - n - 8) (drop n b); mac = drop (length b - 8) b;
          kdf = ansiX963KDF c (hn eph) eph 16 32 32 in
      if take 8 (hmac_sha256_raw c (drop 32 kdf) ct) \<noteq> mac then None
      else (case aes_ctr_raw c (take 16 kdf) (take 16 (drop 16 kdf)) ct of Inr p \<Rightarrow> Some p | Inl e \<Rightarrow> None))"

lemma crypto_ok_lengths:
  "crypto_ok c \<Longrightarrow> length (sha256 c x) = 32" "crypto_ok c \<Longrightarrow> length (hmac_sha256_raw c k x) = 32"
  unfolding crypto_ok_def by blast+

lemma length_kdf: "crypto_ok c \<Longrightarrow> length (ansiX963KDF c sh eph 16 32 32) = 64"
  by (simp add: ansiX963KDF_def crypto_ok_lengths Let_def upt_rec)

lemma conceal_deconceal:
  assumes c: "crypto_ok c" and r: "profile_conceal c msin sh eph 16 32 16 8 32 = Inr out" and hn: "hn eph = sh"
  shows "\<exists>b p. hex_decode out = Inr b \<and> rbind (Tbcd msin) hex_decode = Inr p \<and>
    deconceal c hn (length eph) b = Some p"
proof -
  let ?kdf = "ansiX963KDF c sh eph 16 32 32"
  note len = length_kdf [OF c, of sh eph]
  have sl: "slice ?kdf 0 16 = Inr (take 16 ?kdf)" "slice ?kdf 16 32 = Inr (take 16 (drop 16 ?kdf))"
    "slice ?kdf 32 64 = Inr (drop 32 ?kdf)"
    using len by simp_all
  have mac: "slice (hmac_sha256_raw c k x) 0 8 = Inr (take 8 (hmac_sha256_raw c k x))" for k x
    using c by (simp add: crypto_ok_lengths)
  from r obtain p where p: "rbind (Tbcd msin) hex_decode = Inr p"
    unfolding profile_conceal_def rbind_eq_Inr [of "rbind (Tbcd msin) hex_decode"] by blast
  from r obtain ct where
    ct: "aes_ctr_raw c (take 16 ?kdf) (take 16 (drop 16 ?kdf)) p = Inr ct"
    and out: "out = hex_encode (eph @ ct @ take 8 (hmac_sha256_raw c (drop 32 ?kdf) ct))"
    unfolding profile_conceal_def p aes128ctr_def hmacSha256_def
    by (cases "aes_ctr_raw c (take 16 ?kdf) (take 16 (drop 16 ?kdf)) p") (auto simp: Let_def len sl mac rwrap_def split: error.splits)
  have "aes_ctr_raw c (take 16 ?kdf) (take 16 (drop 16 ?kdf)) ct = Inr p"
    using c ct unfolding crypto_ok_def by blast
  moreover have "length (take 8 (hmac_sha256_raw c (drop 32 ?kdf) ct)) = 8"
    using c by (simp add: crypto_ok_lengths)
  ultimately show ?thesis
    using p hn by (auto simp: out deconceal_def Let_def)
qed


text \<open>Profile B (P-256) likewise, with the compressed ephemeral key on the wire.\<close>

theorem profileB_deconceals:
  assumes "crypto_ok c" "p256_generate c = Inr priv" "ecdh c priv pk = Inr sh"
    and "compressed_bytes c priv = Inr eph" "hn eph = sh" "profileBEncrypt c msin (Some pk) = Inr out"
  shows "\<exists>b p. hex_decode out = Inr b \<and> rbind (Tbcd msin) hex_decode = Inr p \<and>
    deconceal c hn (length eph) b = Some p"
  using assms(2,3,4,6) conceal_deconceal [where msin = msin and out = out and hn = hn and eph = eph, OF assms(1) _ assms(5)]
  by (simp add: profileBEncrypt_def ecdh_ptr_def profile_defs)


section \<open>Concrete runs\<close>

text \<open>A toy instance of the cryptography: the digest is constant, the cipher complements.\<close>

definition toy_crypto :: "(nat, nat) suci_crypto" where
  "toy_crypto = \<lparr> x25519_generate = Inr 5, p256_generate = Inr 6, public_bytes = (\<lambda>p. [of_nat p, 1]),
     compressed_bytes = (\<lambda>p. Inr [2, of_nat p]), ecdh = (\<lambda>p q. Inr [of_nat (p + q)]),
     sha256 = (\<lambda>b. replicate 32 3), hmac_sha256_raw = (\<lambda>k b. replicate 32 4),
     aes_ctr_raw = (\<lambda>k iv b. Inr (map (\<lambda>x. NOT x) b)) \<rparr>"

lemma toy_ok: "crypto_ok toy_crypto"
  by (simp add: crypto_ok_def toy_crypto_def comp_def)

lemma toy_profiles:
  "\<exists>out. profileAEncrypt toy_crypto ''12345'' (Some 7) = Inr out"
  "\<exists>out. profileBEncrypt toy_crypto ''12345'' (Some 7) = Inr out"
proof -
  have "rok (profileAEncrypt toy_crypto ''12345'' (Some 7))" "rok (profileBEncrypt toy_crypto ''12345'' (Some 7))"
    by code_simp+
  then show
    "\<exists>out. profileAEncrypt toy_crypto ''12345'' (Some 7) = Inr out"
    "\<exists>out. profileBEncrypt toy_crypto ''12345'' (Some 7) = Inr out"
    by (simp_all add: rok_iff)
qed

theorem EncodeSuci_null_scheme_witness:
  "\<exists>b. EncodeSuci toy_crypto ''0000000003'' ''208'' ''93'' ''17''
       \<lparr> ProtectionScheme = ''0'', PublicKey = None, PublicKeyID = ''27'' \<rparr> = Inr b \<and>
     length b = 8 + (length ''0000000003'' + 1) div 2 \<and> b ! 0 = 1 \<and>
     plmn_read (take 3 (drop 1 b)) = (map digit_val ''208'', map digit_val ''93'') \<and>
     bcd_read (take 2 (drop 4 b)) = map digit_val ''17'' \<and> b ! 6 = 0 \<and> b ! 7 = of_nat 27 \<and>
     bcd_read (drop 8 b) = map digit_val ''0000000003''"
  by (rule EncodeSuci_null_scheme)
     (simp_all add: is_digit_def parse_uint8_def dec_val_def digit_val_def)

theorem EncodeSuci_nil_key_panics_witness:
  "panics (EncodeSuci toy_crypto ''0000000003'' ''208'' ''93'' ''17''
       \<lparr> ProtectionScheme = ''1'', PublicKey = None, PublicKeyID = ''27'' \<rparr>)"
  by (rule EncodeSuci_nil_key_panics [where k = 27 and priv = 5])
     (simp_all add: is_digit_def parse_uint8_def dec_val_def digit_val_def ProfileAScheme_def toy_crypto_def)


theorem profileB_deconceals_witness:
  "\<exists>out b p. profileBEncrypt toy_crypto ''12345'' (Some 7) = Inr out \<and> hex_decode out = Inr b \<and>
     rbind (Tbcd ''12345'') hex_decode = Inr p \<and> deconceal toy_crypto (\<lambda>e. [13]) 2 b = Some p"
proof -
  obtain out where o: "profileBEncrypt toy_crypto ''12345'' (Some 7) = Inr out"
    using toy_profiles by blast
  have f: "p256_generate toy_crypto = Inr 6" "ecdh toy_crypto 6 7 = Inr [13]"
    "compressed_bytes toy_crypto 6 = Inr [2, 6]"
    by (simp_all add: toy_crypto_def)
  have l: "length [2, 6 :: u8] = 2" by simp
  show ?thesis
    using profileB_deconceals [where hn = "\<lambda>e. [13]", OF toy_ok f refl o] o
    unfolding l by blast
qed

end
