(* ===== verification/Crypto_AKA.thy ===== *)
theory Crypto_AKA
  imports Crypto_Suci
begin

text \<open>
  Authentication and key agreement on the UE side: \<open>internal/crypto/errors.go\<close>,
  \<open>aka_5g.go\<close>, \<open>aka_eps.go\<close>, \<open>auts.go\<close>, \<open>keys_5g.go\<close> and \<open>keys_eps.go\<close>.  MILENAGE and
  the key derivation function belong to the library \<open>free5gc/util\<close>: they are the fields of
  \<open>aka_lib\<close>, a parameter of every definition that calls them.
\<close>

definition ErrMACFailure :: error where "ErrMACFailure = Sentinel ''AUTN MAC failure''"
definition ErrSQNOutOfRange :: error where "ErrSQNOutOfRange = Sentinel ''SQN out of range''"

text \<open>\<open>GenerateKeysWithAUTN\<close> gives SQN, AK, IK, CK, RES; \<open>GetKDFValue\<close> takes a key, the FC
  code in hexadecimal and the list of parameters and their lengths.\<close>

record aka_lib =
  GenerateKeysWithAUTN :: "bytes \<Rightarrow> bytes \<Rightarrow> bytes \<Rightarrow> bytes \<Rightarrow> (bytes \<times> bytes \<times> bytes \<times> bytes \<times> bytes) result"
  GenerateAUTS :: "bytes \<Rightarrow> bytes \<Rightarrow> bytes \<Rightarrow> bytes \<Rightarrow> bytes result"
  GetKDFValue :: "bytes \<Rightarrow> string \<Rightarrow> bytes list \<Rightarrow> bytes result"
  KDFLen :: "bytes \<Rightarrow> bytes"
  FC_RES_STAR :: string
  FC_KAUSF :: string
  FC_KSEAF :: string
  FC_KAMF :: string
  FC_ALGORITHM :: string

definition fcKasme :: string where "fcKasme = ''10''"
definition fcAlgorithmKD :: string where "fcAlgorithmKD = ''15''"
definition algTypeNASEnc :: u8 where "algTypeNASEnc = 0x01"
definition algTypeNASInt :: u8 where "algTypeNASInt = 0x02"

definition string_bytes :: "string \<Rightarrow> bytes" where
  "string_bytes s = map of_char s"

text \<open>\<open>bytes.Compare\<close>: lexicographic, a proper prefix is smaller.\<close>

fun bytes_compare :: "bytes \<Rightarrow> bytes \<Rightarrow> int" where
  "bytes_compare [] [] = 0"
| "bytes_compare [] (b # bs) = -1"
| "bytes_compare (a # as) [] = 1"
| "bytes_compare (a # as) (b # bs) = (if a < b then -1 else if b < a then 1 else bytes_compare as bs)"


section \<open>5G\<close>

record AKA5GResult =
  RESStar :: bytes
  rKamf :: bytes

text \<open>\<open>supiRegexp\<close>: the leftmost \<open>imsi-\<close> or \<open>supi-\<close> followed by five digits or more, of
  which at most fifteen are captured.\<close>

fun supiRegexp :: "string \<Rightarrow> string option" where
  "supiRegexp [] = None"
| "supiRegexp (c # s) =
     (let ds = take 15 (takeWhile is_digit (drop 5 (c # s))) in
      if take 5 (c # s) \<in> {''imsi-'', ''supi-''} \<and> 5 \<le> length ds then Some ds else supiRegexp s)"

definition computeResStar :: "aka_lib \<Rightarrow> bytes \<Rightarrow> string \<Rightarrow> bytes \<Rightarrow> bytes \<Rightarrow> bytes result" where
  "computeResStar L key snName rand res =
     rbind (GetKDFValue L key (FC_RES_STAR L)
              [string_bytes snName, KDFLen L (string_bytes snName), rand, KDFLen L rand, res, KDFLen L res])
       (\<lambda>kdfVal. slice kdfVal (length kdfVal div 2) (length kdfVal))"

definition deriveKamf :: "aka_lib \<Rightarrow> bytes \<Rightarrow> string \<Rightarrow> bytes \<Rightarrow> bytes \<Rightarrow> bytes result" where
  "deriveKamf L key snName imsi sqnXorAK =
     rbind (rwrap ''derive Kausf'' (GetKDFValue L key (FC_KAUSF L)
              [string_bytes snName, KDFLen L (string_bytes snName), sqnXorAK, KDFLen L sqnXorAK])) (\<lambda>Kausf.
     rbind (rwrap ''derive Kseaf'' (GetKDFValue L Kausf (FC_KSEAF L)
              [string_bytes snName, KDFLen L (string_bytes snName)])) (\<lambda>Kseaf.
     let abba = [0x00, 0x00] in
     rwrap ''derive Kamf'' (GetKDFValue L Kseaf (FC_KAMF L) [imsi, KDFLen L imsi, abba, KDFLen L abba])))"

definition Compute5GAKA ::
  "aka_lib \<Rightarrow> string \<Rightarrow> string \<Rightarrow> string \<Rightarrow> string \<Rightarrow> string \<Rightarrow> string \<Rightarrow> bytes \<Rightarrow> bytes \<Rightarrow> AKA5GResult result" where
  "Compute5GAKA L k opc sqn supi mcc mnc rand autn =
     (let snn = DeriveSNN mcc mnc in
      rbind (rwrap ''decode OPc'' (hex_decode opc)) (\<lambda>opcBytes.
      rbind (rwrap ''decode K'' (hex_decode k)) (\<lambda>kBytes.
      rbind (rwrap ''decode SQN'' (hex_decode sqn)) (\<lambda>sqnBytes.
      if length autn < 6 then Inl (Errorf ''AUTN too short'')
      else case GenerateKeysWithAUTN L opcBytes kBytes rand autn of
        Inl e \<Rightarrow> Inl ErrMACFailure
      | Inr (sqnHn, ak, IK, CK, RES) \<Rightarrow>
          if bytes_compare sqnBytes sqnHn > 0 then Inl ErrSQNOutOfRange
          else case supiRegexp supi of
            None \<Rightarrow> Inl (Errorf ''invalid SUPI format'')
          | Some digits \<Rightarrow>
              let imsi = string_bytes digits; sqnXorAK = take 6 autn; key = CK @ IK in
              rbind (rwrap ''derive Kamf'' (deriveKamf L key snn imsi sqnXorAK)) (\<lambda>kamf.
              rbind (rwrap ''derive RES*'' (computeResStar L key snn rand RES)) (\<lambda>resStar.
                Inr \<lparr> RESStar = resStar, rKamf = kamf \<rparr>))))))"

text \<open>A derived key is octets 16 to 31 of the KDF's output, copied into a \<open>[16]byte\<close>.\<close>

definition Derive5GNASKeys :: "aka_lib \<Rightarrow> bytes \<Rightarrow> u8 \<Rightarrow> u8 \<Rightarrow> (bytes \<times> bytes) result" where
  "Derive5GNASKeys L kamf cipheringAlg integrityAlg =
     rbind (rwrap ''derive K_NASenc'' (GetKDFValue L kamf (FC_ALGORITHM L)
              [[algTypeNASEnc], KDFLen L [algTypeNASEnc], [cipheringAlg], KDFLen L [cipheringAlg]])) (\<lambda>enc.
     rbind (rwrap ''derive K_NASint'' (GetKDFValue L kamf (FC_ALGORITHM L)
              [[algTypeNASInt], KDFLen L [algTypeNASInt], [integrityAlg], KDFLen L [integrityAlg]])) (\<lambda>intg.
     rbind (slice enc 16 32) (\<lambda>knasEnc. rbind (slice intg 16 32) (\<lambda>knasInt.
       Inr (knasEnc, knasInt)))))"


section \<open>EPS\<close>

record AKAEPSResult =
  rRES :: bytes
  rKasme :: bytes

definition tbcdPLMN :: "string \<Rightarrow> string \<Rightarrow> bytes result" where
  "tbcdPLMN mcc mnc =
     (if length mcc \<noteq> 3 \<or> (length mnc \<noteq> 2 \<and> length mnc \<noteq> 3) then Inl (Errorf ''invalid PLMN'')
      else if \<not> list_all is_digit (mcc @ mnc) then Inl (Errorf ''non-digit in plmn'')
      else
        let d = map digit_val (mcc @ mnc);
            b = (\<lambda>hi lo. of_nat (push_bit 4 hi OR lo)) in
        if length mnc = 2 then Inr [b (d ! 1) (d ! 0), b 0xF (d ! 2), b (d ! 4) (d ! 3)]
        else Inr [b (d ! 1) (d ! 0), b (d ! 5) (d ! 2), b (d ! 4) (d ! 3)])"

definition ComputeEPSAKA ::
  "aka_lib \<Rightarrow> string \<Rightarrow> string \<Rightarrow> string \<Rightarrow> string \<Rightarrow> string \<Rightarrow> bytes \<Rightarrow> bytes \<Rightarrow> AKAEPSResult result" where
  "ComputeEPSAKA L k opc sqn mcc mnc rand autn =
     rbind (rwrap ''decode OPc'' (hex_decode opc)) (\<lambda>opcBytes.
     rbind (rwrap ''decode K'' (hex_decode k)) (\<lambda>kBytes.
     rbind (rwrap ''decode SQN'' (hex_decode sqn)) (\<lambda>sqnBytes.
     if length autn < 6 then Inl (Errorf ''AUTN too short'')
     else case GenerateKeysWithAUTN L opcBytes kBytes rand autn of
       Inl e \<Rightarrow> Inl ErrMACFailure
     | Inr (sqnHn, ak, IK, CK, RES) \<Rightarrow>
         if bytes_compare sqnBytes sqnHn > 0 then Inl ErrSQNOutOfRange
         else rbind (tbcdPLMN mcc mnc) (\<lambda>snid.
           let sqnXorAK = take 6 autn; key = CK @ IK in
           rbind (rwrap ''derive K_ASME'' (GetKDFValue L key fcKasme
                    [snid, KDFLen L snid, sqnXorAK, KDFLen L sqnXorAK])) (\<lambda>kasme.
             Inr \<lparr> rRES = RES, rKasme = kasme \<rparr>)))))"

definition DeriveEPSNASKeys :: "aka_lib \<Rightarrow> bytes \<Rightarrow> u8 \<Rightarrow> u8 \<Rightarrow> (bytes \<times> bytes) result" where
  "DeriveEPSNASKeys L kasme cipheringAlg integrityAlg =
     rbind (rwrap ''derive K_NASenc'' (GetKDFValue L kasme fcAlgorithmKD
              [[algTypeNASEnc], KDFLen L [algTypeNASEnc], [cipheringAlg], KDFLen L [cipheringAlg]])) (\<lambda>enc.
     rbind (rwrap ''derive K_NASint'' (GetKDFValue L kasme fcAlgorithmKD
              [[algTypeNASInt], KDFLen L [algTypeNASInt], [integrityAlg], KDFLen L [integrityAlg]])) (\<lambda>intg.
     rbind (slice enc 16 32) (\<lambda>knasEnc. rbind (slice intg 16 32) (\<lambda>knasInt.
       Inr (knasEnc, knasInt)))))"

definition ComputeAUTS :: "aka_lib \<Rightarrow> string \<Rightarrow> string \<Rightarrow> string \<Rightarrow> bytes \<Rightarrow> bytes result" where
  "ComputeAUTS L k opc sqn rand =
     rbind (rwrap ''decode OPc'' (hex_decode opc)) (\<lambda>opcBytes.
     rbind (rwrap ''decode K'' (hex_decode k)) (\<lambda>kBytes.
     rbind (rwrap ''decode SQN'' (hex_decode sqn)) (\<lambda>sqnBytes.
       rwrap ''generate AUTS'' (GenerateAUTS L opcBytes kBytes rand sqnBytes))))"


section \<open>The two PLMN encoders agree\<close>

lemma push_or_nat: "lo < 16 \<Longrightarrow> push_bit 4 (hi :: nat) OR lo = 16 * hi + lo"
proof -
  assume lo: "lo < 16"
  then have "take_bit 4 lo = lo" by (simp add: take_bit_eq_mod)
  then have "bit lo i \<Longrightarrow> i < 4" for i by (metis bit_take_bit_iff)
  then have "\<not> bit lo i" if "4 \<le> i" for i using that by fastforce
  then have "push_bit 4 hi OR lo = push_bit 4 hi + lo"
    by (intro sym [OF disjunctive_add]) (auto simp: bit_push_bit_iff)
  then show ?thesis by (simp add: push_bit_eq_mult)
qed

lemma filler_or_nat: "lo < 16 \<Longrightarrow> 240 OR lo = (240 + lo :: nat)"
  using push_or_nat [of lo 15] by (simp add: push_bit_eq_mult)

text \<open>On digit strings of the lengths a PLMN has, the EPS encoder \<open>tbcdPLMN\<close> and the SUCI
  encoder \<open>getMccAndMncInOctets\<close> produce the same octets.\<close>

theorem plmn_encoders_agree:
  assumes "length mcc = 3" "length mnc = 2 \<or> length mnc = 3" "list_all is_digit (mcc @ mnc)"
  shows "tbcdPLMN mcc mnc = getMccAndMncInOctets mcc mnc"
proof -
  have d: "list_all is_digit mcc" "list_all is_digit mnc" using assms(3) by auto
  obtain a b c where m: "mcc = [a, b, c]" "is_digit a" "is_digit b" "is_digit c"
    using assms(1) d(1) by (rule digits3)
  note less = this(2-4)[THEN is_digit_less]
  show ?thesis
  proof (cases "length mnc = 2")
    case True
    then obtain d e where n: "mnc = [d, e]" "is_digit d" "is_digit e" using d(2) by (rule digits2)
    with m less is_digit_less [of d] is_digit_less [of e] show ?thesis
      by (simp add: tbcdPLMN_def getMccAndMncInOctets_def push_or_nat filler_or_nat Let_def)
  next
    case False
    with assms(2) have "length mnc = 3" by simp
    then obtain d e f where "mnc = [d, e, f]" "is_digit d" "is_digit e" "is_digit f"
      using d(2) by (rule digits3)
    with m less is_digit_less [of d] is_digit_less [of e] is_digit_less [of f] show ?thesis
      by (simp add: tbcdPLMN_def getMccAndMncInOctets_def push_or_nat filler_or_nat Let_def)
  qed
qed

theorem plmn_encoders_agree_witness: "tbcdPLMN ''001'' ''01'' = getMccAndMncInOctets ''001'' ''01''"
  by (rule plmn_encoders_agree) (simp_all add: is_digit_def)

section \<open>Outcomes of the AKA computations\<close>

definition be_nat :: "bytes \<Rightarrow> nat" where
  "be_nat bs = foldl (\<lambda>acc b. 256 * acc + unat b) 0 bs"

lemma be_nat_Cons: "be_nat (b # bs) = unat b * 256 ^ length bs + be_nat bs"
proof -
  have "foldl (\<lambda>acc b. 256 * acc + unat b) a bs = a * 256 ^ length bs + be_nat bs" for a
    unfolding be_nat_def
    by (induction bs rule: rev_induct) (simp_all add: algebra_simps)
  from this [of "unat b"] show ?thesis by (simp add: be_nat_def)
qed

lemma be_nat_less: "be_nat bs < 256 ^ length bs"
proof (induction bs)
  case Nil
  then show ?case by (simp add: be_nat_def)
next
  case (Cons b bs)
  have "unat b * 256 ^ length bs + be_nat bs < (unat b + 1) * 256 ^ length bs"
    using Cons by simp
  also have "\<dots> \<le> 256 * 256 ^ length bs"
    using unat_u8_less [of b] by (intro mult_right_mono) auto
  finally show ?case by (simp add: be_nat_Cons)
qed

text \<open>On equally long octet strings \<open>bytes.Compare\<close> compares the numbers they encode.\<close>

lemma bytes_compare_be_nat:
  "length as = length bs \<Longrightarrow> (bytes_compare as bs > 0) = (be_nat as > be_nat bs)"
proof (induction as bs rule: bytes_compare.induct)
  case (4 a as b bs)
  have lt: "unat x * 256 ^ length bs + be_nat xs < unat y * 256 ^ length bs + be_nat ys"
    if "x < y" "length xs = length bs" "length ys = length bs" for x y :: u8 and xs ys
  proof -
    have "unat x + 1 \<le> unat y" using that(1) by (simp add: word_less_nat_alt)
    then have "(unat x + 1) * 256 ^ length bs \<le> unat y * 256 ^ length bs" by (intro mult_right_mono) auto
    then show ?thesis using be_nat_less [of xs] that(2) by simp
  qed
  consider "a < b" | "b < a" | "a = b" by (metis linorder_neqE)
  then show ?case
  proof cases
    case 1
    then show ?thesis using 4(2) lt [of a b as bs] by (simp add: be_nat_Cons)
  next
    case 2
    then have "\<not> a < b" by simp
    then show ?thesis using 2 4(2) lt [of b a bs as] by (simp add: be_nat_Cons)
  next
    case 3
    then show ?thesis using 4 by (simp add: be_nat_Cons)
  qed
qed auto

lemma bytes_compare_le:
  "length as = length bs \<Longrightarrow> \<not> 0 < bytes_compare as bs \<Longrightarrow> be_nat as \<le> be_nat bs"
  using bytes_compare_be_nat [of as bs] by linarith

lemma sentinel_simps [simp]: "ErrMACFailure \<noteq> Wrapf s e" "ErrMACFailure \<noteq> Errorf s" "ErrMACFailure \<noteq> ErrSQNOutOfRange"
  "ErrSQNOutOfRange \<noteq> ErrMACFailure" "Errorf s \<noteq> ErrMACFailure" "Errorf s \<noteq> ErrSQNOutOfRange"
  "ErrSQNOutOfRange \<noteq> Wrapf s e" "ErrSQNOutOfRange \<noteq> Errorf s" "ErrMACFailure \<noteq> Panic s" "ErrSQNOutOfRange \<noteq> Panic s"
  by (simp_all add: ErrMACFailure_def ErrSQNOutOfRange_def)

lemma rwrap_not_sentinel [simp]:
  "rwrap s r \<noteq> Inl ErrMACFailure" "rwrap s r \<noteq> Inl ErrSQNOutOfRange"
  by (auto simp: rwrap_def ErrMACFailure_def ErrSQNOutOfRange_def split: sum.splits error.splits)

text \<open>C10. The 5G AKA result is trustworthy: an answer is computed only after MILENAGE has
  accepted the network's AUTN under the subscriber's key, and only when the network's
  sequence number, as a number, is not behind the UE's (both having the usual length).\<close>

theorem Compute5GAKA_success:
  assumes "Compute5GAKA L k opc sqn supi mcc mnc rnd autn = Inr r"
  shows "\<exists>opcB kB sqnB sqnHn ak ik ck res ds.
     hex_decode opc = Inr opcB \<and> hex_decode k = Inr kB \<and> hex_decode sqn = Inr sqnB \<and> 6 \<le> length autn \<and>
     GenerateKeysWithAUTN L opcB kB rnd autn = Inr (sqnHn, ak, ik, ck, res) \<and>
     (length sqnB = length sqnHn \<longrightarrow> be_nat sqnB \<le> be_nat sqnHn) \<and>
     supiRegexp supi = Some ds \<and>
     deriveKamf L (ck @ ik) (DeriveSNN mcc mnc) (string_bytes ds) (take 6 autn) = Inr (rKamf r) \<and>
     computeResStar L (ck @ ik) (DeriveSNN mcc mnc) rnd res = Inr (RESStar r)"
proof -
  from assms obtain opcB kB sqnB where h: "hex_decode opc = Inr opcB" "hex_decode k = Inr kB"
    "hex_decode sqn = Inr sqnB"
    unfolding Compute5GAKA_def Let_def rbind_eq_Inr rwrap_eq_Inr by blast
  have l: "6 \<le> length autn" by (rule ccontr) (use assms h in \<open>simp add: Compute5GAKA_def\<close>)
  obtain sqnHn ak ik ck res where g: "GenerateKeysWithAUTN L opcB kB rnd autn = Inr (sqnHn, ak, ik, ck, res)"
    using assms h l
    by (cases "GenerateKeysWithAUTN L opcB kB rnd autn") (auto simp: Compute5GAKA_def Let_def)
  have c: "\<not> 0 < bytes_compare sqnB sqnHn"
    by (rule notI) (use assms h l g in \<open>simp add: Compute5GAKA_def Let_def\<close>)
  obtain ds where d: "supiRegexp supi = Some ds"
    using assms h l g c by (cases "supiRegexp supi") (auto simp: Compute5GAKA_def Let_def)
  have "deriveKamf L (ck @ ik) (DeriveSNN mcc mnc) (string_bytes ds) (take 6 autn) = Inr (rKamf r) \<and>
     computeResStar L (ck @ ik) (DeriveSNN mcc mnc) rnd res = Inr (RESStar r)"
    using assms h l g c d by (auto simp: Compute5GAKA_def Let_def rbind_eq_Inr)
  with h l g d bytes_compare_le [OF _ c] show ?thesis by blast
qed

text \<open>C29. The two authentication failures are told apart: with well-formed key material and an
  AUTN of six octets or more, \<open>ErrMACFailure\<close> is returned exactly when MILENAGE rejects the
  AUTN, and \<open>ErrSQNOutOfRange\<close> exactly when it accepts it with a sequence number behind the
  UE's.\<close>

theorem Compute5GAKA_failures:
  assumes "hex_decode opc = Inr opcB" "hex_decode k = Inr kB" "hex_decode sqn = Inr sqnB" "6 \<le> length autn"
    and "\<And>s q. GenerateKeysWithAUTN L opcB kB rnd autn = Inr (s, q) \<Longrightarrow> length s = length sqnB"
  shows "(Compute5GAKA L k opc sqn supi mcc mnc rnd autn = Inl ErrMACFailure) =
           (\<not> rok (GenerateKeysWithAUTN L opcB kB rnd autn)) \<and>
         (Compute5GAKA L k opc sqn supi mcc mnc rnd autn = Inl ErrSQNOutOfRange) =
           (\<exists>sqnHn p. GenerateKeysWithAUTN L opcB kB rnd autn = Inr (sqnHn, p) \<and> be_nat sqnHn < be_nat sqnB)"
proof (cases "GenerateKeysWithAUTN L opcB kB rnd autn")
  case (Inl e)
  with assms(1-4) show ?thesis by (simp add: Compute5GAKA_def)
next
  case (Inr p)
  obtain sqnHn ak ik ck res where p: "p = (sqnHn, ak, ik, ck, res)" by (cases p) auto
  have l: "length sqnB = length sqnHn" using assms(5) Inr p by simp
  show ?thesis
    using assms(1-4) Inr p bytes_compare_be_nat [OF l]
    by (auto simp: Compute5GAKA_def Let_def rbind_eq_Inl split: option.splits)
qed

text \<open>A toy instance of the library for the concrete runs: the KDF returns 32 octets, MILENAGE
  accepts an AUTN whose last octet is 1.\<close>

definition toy_aka :: aka_lib where
  "toy_aka = \<lparr> GenerateKeysWithAUTN = (\<lambda>opc k r a. if last a = 1 then Inr (take 6 a, [0], [1], [2], [3])
        else Inl (Errorf ''mac'')),
     GenerateAUTS = (\<lambda>opc k r s. Inr (s @ r)), GetKDFValue = (\<lambda>k fc ps. Inr (replicate 32 (hd k))),
     KDFLen = (\<lambda>p. be_bytes 2 (of_nat (length p) :: u16)), FC_RES_STAR = ''6B'', FC_KAUSF = ''6A'',
     FC_KSEAF = ''6C'', FC_KAMF = ''6D'', FC_ALGORITHM = ''69'' \<rparr>"

definition toy_autn :: bytes where "toy_autn = [0, 0, 0, 0, 0, 5, 0, 1]"

lemma toy_hex: "hex_decode ''000000000009'' = Inr [0, 0, 0, 0, 0, 9]" "hex_decode ''000000000004'' = Inr [0, 0, 0, 0, 0, 4]"
    "hex_decode ''00'' = Inr [0]"
  by code_simp+

theorem Compute5GAKA_failures_witness:
  "(Compute5GAKA toy_aka ''00'' ''00'' ''000000000009'' ''imsi-208930000000003'' ''208'' ''93'' [] toy_autn = Inl ErrMACFailure) =
           (\<not> rok (GenerateKeysWithAUTN toy_aka [0] [0] [] toy_autn)) \<and>
   (Compute5GAKA toy_aka ''00'' ''00'' ''000000000009'' ''imsi-208930000000003'' ''208'' ''93'' [] toy_autn = Inl ErrSQNOutOfRange) =
           (\<exists>sqnHn p. GenerateKeysWithAUTN toy_aka [0] [0] [] toy_autn = Inr (sqnHn, p) \<and>
              be_nat sqnHn < be_nat [0, 0, 0, 0, 0, 9])"
  by (rule Compute5GAKA_failures [OF toy_hex(3) toy_hex(3) toy_hex(1)]) (simp_all add: toy_aka_def toy_autn_def)

lemma toy_aka_run:
  "rok (Compute5GAKA toy_aka ''00'' ''00'' ''000000000004'' ''imsi-208930000000003'' ''208'' ''93'' [] toy_autn)"
  by code_simp

theorem Compute5GAKA_success_witness:
  "\<exists>r opcB kB sqnB sqnHn ak ik ck res ds.
     Compute5GAKA toy_aka ''00'' ''00'' ''000000000004'' ''imsi-208930000000003'' ''208'' ''93'' [] toy_autn = Inr r \<and>
     hex_decode ''00'' = Inr opcB \<and> hex_decode ''00'' = Inr kB \<and> hex_decode ''000000000004'' = Inr sqnB \<and>
     6 \<le> length toy_autn \<and>
     GenerateKeysWithAUTN toy_aka opcB kB [] toy_autn = Inr (sqnHn, ak, ik, ck, res) \<and>
     (length sqnB = length sqnHn \<longrightarrow> be_nat sqnB \<le> be_nat sqnHn) \<and>
     supiRegexp ''imsi-208930000000003'' = Some ds \<and>
     deriveKamf toy_aka (ck @ ik) (DeriveSNN ''208'' ''93'') (string_bytes ds) (take 6 toy_autn) = Inr (rKamf r) \<and>
     computeResStar toy_aka (ck @ ik) (DeriveSNN ''208'' ''93'') [] res = Inr (RESStar r)"
proof -
  obtain r where r: "Compute5GAKA toy_aka ''00'' ''00'' ''000000000004'' ''imsi-208930000000003'' ''208'' ''93'' [] toy_autn = Inr r"
    using toy_aka_run by (auto simp: rok_iff)
  from r Compute5GAKA_success [OF r] show ?thesis by blast
qed

end
