(* ===== verification/Nas5gs.thy ===== *)
theory Nas5gs
  imports Netip
begin

text \<open>
  5GS NAS on the UE side: \<open>internal/nas5gs/types.go\<close>, \<open>security.go\<close>, \<open>decode.go\<close> and the
  decoding half of \<open>pdu_session.go\<close>.  The codec and the NAS algorithms are the library
  \<open>free5gc/nas\<close>, a parameter: \<open>nas5_lib\<close> has its routines, and a decoded library message
  is seen through the accessors the code calls, as the records \<open>gmm_view\<close> and
  \<open>gsm_view\<close>.  The library's numeric constants are those of TS 24.501.
\<close>

section \<open>Responses\<close>

record GUTI5GJSON =
  gjMCC :: string
  gjMNC :: string
  gjAMFRegionID :: int
  gjAMFSetID :: int
  gjAMFPointer :: int
  gj5GTMSI :: string

record NASResponse =
  nMessageType :: string
  nSecurityHeaderType :: string
  nRAND :: string
  nAUTN :: string
  nABBAContents :: string
  nNgKSI :: "int option"
  nEAPMessage :: string
  nSelectedCipheringAlgorithm :: "int option"
  nSelectedIntegrityAlgorithm :: "int option"
  nReplayedUESecurityCapabilities :: string
  nIMEISVRequested :: bool
  nGUTI :: "GUTI5GJSON option"
  nTAIList :: string
  nPDUSessionStatus :: string
  nPDUSessionID :: "int option"
  nPDUSessionType :: "int option"
  nSSCMode :: "int option"
  nPDUAddress :: string
  nPTI :: "int option"
  nAccessTypePresent :: "bool option"
  nSessionAMBRUplink :: "int option"
  nSessionAMBRDownlink :: "int option"
  nAuthorizedQoSRules :: string
  nAlwaysOnIndication :: "int option"
  n5GMMCause :: "int option"
  n5GSMCause :: "int option"
  nIdentityType :: "int option"
  nConfigurationUpdateAckRequested :: bool
  nInnerNASMessageType :: string
  nRawHex :: string

definition empty_response :: "string \<Rightarrow> NASResponse" where
  "empty_response raw = \<lparr> nMessageType = [], nSecurityHeaderType = [], nRAND = [], nAUTN = [],
     nABBAContents = [], nNgKSI = None, nEAPMessage = [], nSelectedCipheringAlgorithm = None,
     nSelectedIntegrityAlgorithm = None, nReplayedUESecurityCapabilities = [], nIMEISVRequested = False,
     nGUTI = None, nTAIList = [], nPDUSessionStatus = [], nPDUSessionID = None, nPDUSessionType = None,
     nSSCMode = None, nPDUAddress = [], nPTI = None, nAccessTypePresent = None,
     nSessionAMBRUplink = None, nSessionAMBRDownlink = None, nAuthorizedQoSRules = [],
     nAlwaysOnIndication = None, n5GMMCause = None, n5GSMCause = None, nIdentityType = None,
     nConfigurationUpdateAckRequested = False, nInnerNASMessageType = [], nRawHex = raw \<rparr>"

section \<open>What the code sees of a library message\<close>

text \<open>The 5G-GUTI through its getters: digits, AMF region, set and pointer, TMSI.\<close>

record guti_view =
  gvLen :: nat
  gvMCC :: "nat list"
  gvMNC :: "nat list"
  gvRegion :: u8
  gvSet :: u16
  gvPointer :: u8
  gvTMSI :: bytes

record auth_view =
  avRAND :: bytes
  avAUTN :: bytes
  avABBALen :: nat
  avABBA :: bytes
  avKSI :: u8
  avEAP :: "(nat \<times> bytes) option"

record smc_view =
  svCiphering :: u8
  svIntegrity :: u8
  svKSI :: u8
  svReplayedLen :: nat
  svReplayed :: bytes
  svIMEISV :: bool

record dl_nas_view =
  dvCause :: "u8 option"
  dvPayload :: bytes
  dvPayloadType :: u8

text \<open>Each optional message body is a pointer of the library struct.\<close>

record gmm_view =
  gmType :: u8
  gmAuth :: "auth_view option"
  gmIdentity :: "u8 option"
  gmSMC :: "smc_view option"
  gmRegAccept :: "(guti_view option \<times> (nat \<times> bytes) option) option"
  gmRegReject :: "u8 option"
  gmSvcAccept :: "(nat \<times> bytes) option option"
  gmSvcReject :: "u8 option"
  gmStatus :: "u8 option"
  gmConfigUpdate :: "u8 option option"
  gmDLNAS :: "dl_nas_view option"

record est_accept_view =
  eaSessionID :: u8
  eaPTI :: u8
  eaType :: u8
  eaSSCMode :: u8
  eaAddress :: "bytes option"
  eaAMBRUp :: bytes
  eaAMBRDown :: bytes
  eaRulesLen :: nat
  eaRules :: bytes
  eaAPSI :: "u8 option"
  eaCause :: "u8 option"

record gsm_view =
  smType :: u8
  smEstAccept :: "est_accept_view option"
  smEstReject :: "u8 option"
  smRelCommand :: "(u8 \<times> u8) option"
  smModReject :: "u8 option"
  smStatus :: "u8 option"

text \<open>\<open>PlainNasDecode\<close> yields a 5GMM message, a 5GSM message (its type) or neither;
  \<open>reencode\<close> is the decode and encode that \<open>Protect\<close> performs with a security header set;
  \<open>nas_encrypt\<close> and \<open>nas_mac\<close> take algorithm, key, COUNT, bearer, direction and octets.\<close>

record nas5_lib =
  get_sht :: "bytes \<Rightarrow> u8"
  plain_decode :: "bytes \<Rightarrow> (gmm_view option \<times> u8 option) result"
  gsm_decode :: "bytes \<Rightarrow> gsm_view option result"
  reencode_decode :: "bytes \<Rightarrow> unit result"
  reencode_encode :: "bytes \<Rightarrow> u8 \<Rightarrow> bytes result"
  nas_encrypt :: "u8 \<Rightarrow> bytes \<Rightarrow> u32 \<Rightarrow> u8 \<Rightarrow> u8 \<Rightarrow> bytes \<Rightarrow> bytes result"
  nas_mac :: "u8 \<Rightarrow> bytes \<Rightarrow> u32 \<Rightarrow> u8 \<Rightarrow> u8 \<Rightarrow> bytes \<Rightarrow> bytes result"

definition SHTPlain5 :: u8 where "SHTPlain5 = 0"
definition SHTIntegrity5 :: u8 where "SHTIntegrity5 = 1"
definition SHTCiphered5 :: u8 where "SHTCiphered5 = 2"
definition SHTIntegrityNew5 :: u8 where "SHTIntegrityNew5 = 3"
definition SHTCipheredNew5 :: u8 where "SHTCipheredNew5 = 4"
definition Epd5GSMobilityManagementMessage :: u8 where "Epd5GSMobilityManagementMessage = 0x7e"
definition Bearer3GPP :: u8 where "Bearer3GPP = 1"
definition DirectionUplink :: u8 where "DirectionUplink = 0"
definition DirectionDownlink :: u8 where "DirectionDownlink = 1"

lemmas sht5_defs = SHTPlain5_def SHTIntegrity5_def SHTCiphered5_def SHTIntegrityNew5_def SHTCipheredNew5_def

section \<open>security.go\<close>

definition ErrMACMismatch :: error where "ErrMACMismatch = Sentinel ''nas: NAS-MAC mismatch''"

definition SecurityHeader :: "nas5_lib \<Rightarrow> bytes \<Rightarrow> u8 result" where
  "SecurityHeader L message =
     (if length message < 2 then Inl (Errorf ''nas: NAS PDU too short'')
      else Inr (get_sht L message AND 0x0f))"

definition PeekProtectedPayload :: "bytes \<Rightarrow> bytes result" where
  "PeekProtectedPayload message =
     (if length message < 7 then Inl (Errorf ''nas: secured NAS too short'')
      else slice message 7 (length message))"

definition ciphered :: "u8 \<Rightarrow> bool" where
  "ciphered sht = (sht = SHTCiphered5 \<or> sht = SHTCipheredNew5)"

definition Protect ::
  "nas5_lib \<Rightarrow> bytes \<Rightarrow> u8 \<Rightarrow> u32 \<Rightarrow> u8 \<Rightarrow> u8 \<Rightarrow> bytes \<Rightarrow> bytes \<Rightarrow> bytes result" where
  "Protect L plain sht count cipheringAlg integrityAlg knasEnc knasInt =
     rbind (rwrap ''nas: plain NAS decode'' (reencode_decode L plain)) (\<lambda>_.
     rbind (rwrap ''nas: plain NAS encode'' (reencode_encode L plain sht)) (\<lambda>payload.
     rbind (if ciphered sht
            then rwrap ''nas: NAS encrypt'' (nas_encrypt L cipheringAlg knasEnc count Bearer3GPP DirectionUplink payload)
            else Inr payload) (\<lambda>payload.
     let payload = [ucast (count AND 0xff)] @ payload in
     rbind (rwrap ''nas: NAS MAC'' (nas_mac L integrityAlg knasInt count Bearer3GPP DirectionUplink payload)) (\<lambda>mac.
     let payload = mac @ payload in
     Inr ([Epd5GSMobilityManagementMessage, sht] @ payload)))))"

text \<open>The result is the pair the code returns: a slice (nil is \<open>None\<close>) and an error.\<close>

definition Unprotect ::
  "nas5_lib \<Rightarrow> bytes \<Rightarrow> u32 \<Rightarrow> u8 \<Rightarrow> u8 \<Rightarrow> bytes \<Rightarrow> bytes \<Rightarrow> bytes option \<times> error option" where
  "Unprotect L message count cipheringAlg integrityAlg knasEnc knasInt =
     (if length message < 7 then (None, Some (Errorf ''nas: secured NAS too short''))
      else
        let receivedMAC = take 4 (drop 2 message);
            macInput = drop 6 message in
        case nas_mac L integrityAlg knasInt count Bearer3GPP DirectionDownlink macInput of
          Inl e \<Rightarrow> (None, Some (Wrapf ''nas: NAS MAC'' e))
        | Inr mac \<Rightarrow>
            (case (if ciphered (get_sht L message AND 0x0f)
                   then nas_encrypt L cipheringAlg knasEnc count Bearer3GPP DirectionDownlink (drop 1 macInput)
                   else Inr (drop 1 macInput)) of
               Inl e \<Rightarrow> (None, Some (Wrapf ''nas: NAS decrypt'' e))
             | Inr inner \<Rightarrow>
                 if mac \<noteq> receivedMAC then (Some inner, Some ErrMACMismatch) else (Some inner, None)))"

definition SecurityHeaderTypeString :: "u8 \<Rightarrow> string" where
  "SecurityHeaderTypeString t =
     (if t = SHTPlain5 then ''plain''
      else if t = SHTIntegrity5 then ''integrity_protected''
      else if t = SHTCiphered5 then ''integrity_protected_and_ciphered''
      else if t = SHTIntegrityNew5 then ''integrity_protected_with_new_5g_nas_security_context''
      else if t = SHTCipheredNew5 then ''integrity_protected_and_ciphered_with_new_5g_nas_security_context''
      else ''unknown('' @ dec (unat t) @ '')'')"


section \<open>decode.go\<close>

text \<open>Message type names, with the type values of TS 24.501, tables 9.7.1 and 9.7.2.\<close>

definition gmmMessageTypeName :: "u8 \<Rightarrow> string" where
  "gmmMessageTypeName t = (case map_of
      [(65, ''registration_request''),
       (66, ''registration_accept''),
       (67, ''registration_complete''),
       (68, ''registration_reject''),
       (86, ''authentication_request''),
       (87, ''authentication_response''),
       (88, ''authentication_reject''),
       (90, ''authentication_result''),
       (91, ''identity_request''),
       (92, ''identity_response''),
       (93, ''security_mode_command''),
       (94, ''security_mode_complete''),
       (95, ''security_mode_reject''),
       (76, ''service_request''),
       (78, ''service_accept''),
       (77, ''service_reject''),
       (69, ''deregistration_request''),
       (70, ''deregistration_accept''),
       (71, ''deregistration_request_ue_terminated''),
       (72, ''deregistration_accept_ue_terminated''),
       (104, ''dl_nas_transport''),
       (103, ''ul_nas_transport''),
       (84, ''configuration_update_command''),
       (85, ''configuration_update_complete''),
       (100, ''status_5gmm'')] t of
      Some n \<Rightarrow> n
    | None \<Rightarrow> ''gmm_message_0x'' @ hex_nat (unat t))"

definition gsmMessageTypeName :: "u8 \<Rightarrow> string" where
  "gsmMessageTypeName t = (case map_of
      [(193, ''pdu_session_establishment_request''),
       (194, ''pdu_session_establishment_accept''),
       (195, ''pdu_session_establishment_reject''),
       (201, ''pdu_session_modification_request''),
       (202, ''pdu_session_modification_reject''),
       (203, ''pdu_session_modification_command''),
       (209, ''pdu_session_release_request''),
       (210, ''pdu_session_release_reject''),
       (211, ''pdu_session_release_command''),
       (212, ''pdu_session_release_complete''),
       (214, ''5gsm_status'')] t of
      Some n \<Rightarrow> n
    | None \<Rightarrow> ''gsm_message_0x'' @ hex_nat (unat t))"

definition int_of :: "'a::len word \<Rightarrow> int" where "int_of w = uint w"

definition guti5GStructured :: "guti_view \<Rightarrow> GUTI5GJSON" where
  "guti5GStructured g = \<lparr> gjMCC = concat (map dec (gvMCC g)),
     gjMNC = concat (map dec (take 2 (gvMNC g))) @
             (if gvMNC g ! 2 \<noteq> 0x0f then dec (gvMNC g ! 2) else []),
     gjAMFRegionID = int_of (gvRegion g), gjAMFSetID = int_of (gvSet g),
     gjAMFPointer = int_of (gvPointer g), gj5GTMSI = hex_encode (gvTMSI g) \<rparr>"

text \<open>The re-encoding sets the fields of a fresh GUTI, all zero: digits are set only for the
  lengths the code tests, a TMSI that is not hexadecimal leaves zeros.  The library's setters keep
  the bits of the field: four for a digit, ten for the AMF set, six for the pointer.\<close>

definition digit_of :: "string \<Rightarrow> nat \<Rightarrow> nat" where
  "digit_of s i = unat ((of_char (s ! i) - 48 :: u8) AND 0x0f)"

definition GUTI5GFromStructured :: "GUTI5GJSON option \<Rightarrow> guti_view option" where
  "GUTI5GFromStructured so = (case so of None \<Rightarrow> None | Some s \<Rightarrow>
     (let mcc = (if length (gjMCC s) = 3 then map (digit_of (gjMCC s)) [0, 1, 2] else [0, 0, 0]);
          mnc = (if length (gjMNC s) = 2 then map (digit_of (gjMNC s)) [0, 1] @ [0x0f]
                 else if length (gjMNC s) = 3 then map (digit_of (gjMNC s)) [0, 1, 2] else [0, 0, 0]);
          tmsi = (case hex_decode (gj5GTMSI s) of Inr b \<Rightarrow> copy_from [0, 0, 0, 0] 0 b | Inl e \<Rightarrow> [0, 0, 0, 0])
      in Some \<lparr> gvLen = 11, gvMCC = mcc, gvMNC = mnc, gvRegion = of_int (gjAMFRegionID s),
           gvSet = of_int (gjAMFSetID s) AND 0x3ff,
           gvPointer = of_int (gjAMFPointer s) AND 0x3f, gvTMSI = tmsi \<rparr>))"

definition decodeConfigurationUpdateCommand :: "gmm_view \<Rightarrow> NASResponse \<Rightarrow> NASResponse" where
  "decodeConfigurationUpdateCommand m r = (case gmConfigUpdate m of
      Some (Some ack) \<Rightarrow> if ack \<noteq> 0 then r\<lparr> nConfigurationUpdateAckRequested := True \<rparr> else r
    | _ \<Rightarrow> r)"

definition decodeAuthenticationRequest :: "gmm_view \<Rightarrow> NASResponse \<Rightarrow> NASResponse result" where
  "decodeAuthenticationRequest m r = (case gmAuth m of None \<Rightarrow> Inr r | Some a \<Rightarrow>
     (let r = r\<lparr> nRAND := hex_encode (avRAND a), nAUTN := hex_encode (avAUTN a) \<rparr> in
      rbind (if avABBALen a > 0
             then rbind (slice (avABBA a) 0 (avABBALen a)) (\<lambda>b. Inr (r\<lparr> nABBAContents := hex_encode b \<rparr>))
             else Inr r) (\<lambda>r.
      let r = r\<lparr> nNgKSI := Some (int_of (avKSI a)) \<rparr> in
      case avEAP a of
        None \<Rightarrow> Inr r
      | Some (eapLen, buf) \<Rightarrow>
          if eapLen > 0 then rbind (slice buf 0 eapLen) (\<lambda>b. Inr (r\<lparr> nEAPMessage := hex_encode b \<rparr>))
          else Inr r)))"

definition decodeIdentityRequest :: "gmm_view \<Rightarrow> NASResponse \<Rightarrow> NASResponse" where
  "decodeIdentityRequest m r = (case gmIdentity m of None \<Rightarrow> r
     | Some t \<Rightarrow> r\<lparr> nIdentityType := Some (int_of t) \<rparr>)"

definition decodeRegistrationReject :: "gmm_view \<Rightarrow> NASResponse \<Rightarrow> NASResponse" where
  "decodeRegistrationReject m r = (case gmRegReject m of None \<Rightarrow> r
     | Some c \<Rightarrow> r\<lparr> n5GMMCause := Some (int_of c) \<rparr>)"

definition decodeServiceReject :: "gmm_view \<Rightarrow> NASResponse \<Rightarrow> NASResponse" where
  "decodeServiceReject m r = (case gmSvcReject m of None \<Rightarrow> r
     | Some c \<Rightarrow> r\<lparr> n5GMMCause := Some (int_of c) \<rparr>)"

definition decodeStatus5GMM :: "gmm_view \<Rightarrow> NASResponse \<Rightarrow> NASResponse" where
  "decodeStatus5GMM m r = (case gmStatus m of None \<Rightarrow> r
     | Some c \<Rightarrow> r\<lparr> n5GMMCause := Some (int_of c) \<rparr>)"

definition decodeSecurityModeCommand :: "gmm_view \<Rightarrow> NASResponse \<Rightarrow> NASResponse" where
  "decodeSecurityModeCommand m r = (case gmSMC m of None \<Rightarrow> r | Some s \<Rightarrow>
     (let r = r\<lparr> nSelectedCipheringAlgorithm := Some (int_of (svCiphering s)),
                 nSelectedIntegrityAlgorithm := Some (int_of (svIntegrity s)),
                 nNgKSI := Some (int_of (svKSI s)) \<rparr>;
          r = (if svReplayedLen s > 0
               then r\<lparr> nReplayedUESecurityCapabilities := hex_encode (svReplayed s) \<rparr> else r)
      in if svIMEISV s then r\<lparr> nIMEISVRequested := True \<rparr> else r))"

definition decodeRegistrationAccept :: "gmm_view \<Rightarrow> NASResponse \<Rightarrow> NASResponse" where
  "decodeRegistrationAccept m r = (case gmRegAccept m of None \<Rightarrow> r | Some (guti, tai) \<Rightarrow>
     (let r = (case guti of None \<Rightarrow> r | Some g \<Rightarrow>
                 if gvLen g > 0 \<and> gvLen g \<le> 11 then r\<lparr> nGUTI := Some (guti5GStructured g) \<rparr> else r)
      in case tai of None \<Rightarrow> r | Some (n, buf) \<Rightarrow>
           if n > 0 \<and> n \<le> length buf then r\<lparr> nTAIList := hex_encode (take n buf) \<rparr> else r))"

definition decodeServiceAccept :: "gmm_view \<Rightarrow> NASResponse \<Rightarrow> NASResponse" where
  "decodeServiceAccept m r = (case gmSvcAccept m of
      Some (Some (n, buf)) \<Rightarrow>
        if n > 0 \<and> n \<le> length buf then r\<lparr> nPDUSessionStatus := hex_encode (take n buf) \<rparr> else r
    | _ \<Rightarrow> r)"

section \<open>pdu\_session.go, decoding\<close>

definition ipv4_text :: "bytes \<Rightarrow> nat \<Rightarrow> string result" where
  "ipv4_text b i = rbind (at b i) (\<lambda>b0. rbind (at b (i + 1)) (\<lambda>b1. rbind (at b (i + 2)) (\<lambda>b2.
     rbind (at b (i + 3)) (\<lambda>b3. Inr (dec (unat b0) @ ''.'' @ dec (unat b1) @ ''.'' @
       dec (unat b2) @ ''.'' @ dec (unat b3))))))"

definition decodePDUSessionEstablishmentAccept :: "NASResponse \<Rightarrow> est_accept_view option \<Rightarrow> NASResponse result" where
  "decodePDUSessionEstablishmentAccept r mo = (case mo of None \<Rightarrow> Inr r | Some m \<Rightarrow>
     (let r = r\<lparr> nPDUSessionID := Some (int_of (eaSessionID m)), nPTI := Some (int_of (eaPTI m)),
                 nPDUSessionType := Some (int_of (eaType m)), nSSCMode := Some (int_of (eaSSCMode m)) \<rparr> in
      rbind (case eaAddress m of None \<Rightarrow> Inr r | Some a \<Rightarrow>
               if eaType m = 1 then rbind (ipv4_text a 0) (\<lambda>t. Inr (r\<lparr> nPDUAddress := t \<rparr>))
               else if eaType m = 2 then Inr (r\<lparr> nPDUAddress := hex_encode a \<rparr>)
               else if eaType m = 3 then rbind (ipv4_text a 8) (\<lambda>t. Inr (r\<lparr> nPDUAddress := t \<rparr>))
               else Inr r) (\<lambda>r.
      rbind (at (eaAMBRUp m) 0) (\<lambda>u0. rbind (at (eaAMBRUp m) 1) (\<lambda>u1.
      rbind (at (eaAMBRDown m) 0) (\<lambda>d0. rbind (at (eaAMBRDown m) 1) (\<lambda>d1.
      let r = r\<lparr> nSessionAMBRUplink := Some (int_of (be_word [u0, u1] :: u16)),
                 nSessionAMBRDownlink := Some (int_of (be_word [d0, d1] :: u16)) \<rparr> in
      rbind (if eaRulesLen m > 0
             then rbind (slice (eaRules m) 0 (eaRulesLen m)) (\<lambda>b. Inr (r\<lparr> nAuthorizedQoSRules := hex_encode b \<rparr>))
             else Inr r) (\<lambda>r.
      let r = (case eaAPSI m of None \<Rightarrow> r | Some a \<Rightarrow> r\<lparr> nAlwaysOnIndication := Some (int_of a) \<rparr>);
          r = (case eaCause m of None \<Rightarrow> r | Some c \<Rightarrow> r\<lparr> n5GSMCause := Some (int_of c) \<rparr>)
      in Inr r))))))))"

definition serviceLevelAAContainerIEI :: u8 where "serviceLevelAAContainerIEI = 0x72"

text \<open>The loop of \<open>releaseCommandHasAccessType\<close> over the optional part.\<close>

function access_type_loop :: "bytes \<Rightarrow> bool" where
  "access_type_loop opt =
     (case opt of
        [] \<Rightarrow> False
      | iei # rest \<Rightarrow>
          if iei \<ge> 0x80 then (if drop_bit 4 iei = 0xd then True else access_type_loop rest)
          else
            let lenOctets = (if iei = 0x78 \<or> iei = 0x7b \<or> iei = serviceLevelAAContainerIEI then 2 else 1) in
            if length opt < 1 + lenOctets then False
            else
              let contents = (if lenOctets = 2 then unat (be_word (take 2 rest) :: u16) else unat (rest ! 0));
                  skip = 1 + lenOctets + contents in
              if length opt < skip then False else access_type_loop (drop skip opt))"
  by pat_completeness auto
termination
  by (relation "measure length") (auto simp: Let_def split: if_splits)

declare access_type_loop.simps [simp del]

definition releaseCommandHasAccessType :: "bytes \<Rightarrow> bool" where
  "releaseCommandHasAccessType raw = (if length raw < 5 then False else access_type_loop (drop 5 raw))"

definition decodePDUSessionReleaseCommand :: "NASResponse \<Rightarrow> (u8 \<times> u8) option \<Rightarrow> bytes \<Rightarrow> NASResponse" where
  "decodePDUSessionReleaseCommand r mo raw = (case mo of None \<Rightarrow> r | Some (pti, cause) \<Rightarrow>
     r\<lparr> nPTI := Some (int_of pti), n5GSMCause := Some (int_of cause),
        nAccessTypePresent := Some (releaseCommandHasAccessType raw) \<rparr>)"

definition decodePDUSessionEstablishmentReject :: "NASResponse \<Rightarrow> u8 option \<Rightarrow> NASResponse" where
  "decodePDUSessionEstablishmentReject r mo = (case mo of None \<Rightarrow> r
     | Some c \<Rightarrow> r\<lparr> n5GSMCause := Some (int_of c) \<rparr>)"

section \<open>Dispatch\<close>

definition decodeDLNASTransport :: "nas5_lib \<Rightarrow> gmm_view \<Rightarrow> NASResponse \<Rightarrow> NASResponse result" where
  "decodeDLNASTransport L m r = (case gmDLNAS m of None \<Rightarrow> Inr r | Some d \<Rightarrow>
     (let r = (case dvCause d of None \<Rightarrow> r | Some c \<Rightarrow> r\<lparr> n5GMMCause := Some (int_of c) \<rparr>) in
      if length (dvPayload d) = 0 then Inr r
      else if dvPayloadType d \<noteq> 1 then Inr r
      else rbind (rwrap ''nas: decode DL NAS transport payload'' (gsm_decode L (dvPayload d))) (\<lambda>io.
        case io of None \<Rightarrow> Inr r | Some inner \<Rightarrow>
          let r = r\<lparr> nInnerNASMessageType := gsmMessageTypeName (smType inner) \<rparr> in
          if smType inner = 194 then decodePDUSessionEstablishmentAccept r (smEstAccept inner)
          else if smType inner = 195 then Inr (decodePDUSessionEstablishmentReject r (smEstReject inner))
          else if smType inner = 211 then Inr (decodePDUSessionReleaseCommand r (smRelCommand inner) (dvPayload d))
          else if smType inner = 202 then
            Inr (case smModReject inner of None \<Rightarrow> r | Some c \<Rightarrow> r\<lparr> n5GSMCause := Some (int_of c) \<rparr>)
          else if smType inner = 214 then
            Inr (case smStatus inner of None \<Rightarrow> r | Some c \<Rightarrow> r\<lparr> n5GSMCause := Some (int_of c) \<rparr>)
          else Inr r)))"

definition decodeGmm :: "nas5_lib \<Rightarrow> gmm_view \<Rightarrow> NASResponse \<Rightarrow> NASResponse result" where
  "decodeGmm L m r =
     (let t = gmType m; r = r\<lparr> nMessageType := gmmMessageTypeName t \<rparr> in
      if t = 86 then decodeAuthenticationRequest m r
      else if t = 91 then Inr (decodeIdentityRequest m r)
      else if t = 93 then Inr (decodeSecurityModeCommand m r)
      else if t = 66 then Inr (decodeRegistrationAccept m r)
      else if t = 68 then Inr (decodeRegistrationReject m r)
      else if t = 78 then Inr (decodeServiceAccept m r)
      else if t = 77 then Inr (decodeServiceReject m r)
      else if t = 100 then Inr (decodeStatus5GMM m r)
      else if t = 84 then Inr (decodeConfigurationUpdateCommand m r)
      else if t = 104 then decodeDLNASTransport L m r
      else Inr r)"

definition unknownMessageType :: "u8 option \<Rightarrow> string result" where
  "unknownMessageType gsm = (case gsm of
      None \<Rightarrow> Inl (Errorf ''nas: decoded message carries neither a 5GMM nor a 5GSM message'')
    | Some t \<Rightarrow> Inr (''gsm_message_0x'' @ hex_nat (unat t)))"

definition DecodeNAS :: "nas5_lib \<Rightarrow> bytes \<Rightarrow> NASResponse result" where
  "DecodeNAS L d =
     (if length d = 0 then Inl (Errorf ''nas: empty NAS PDU'')
      else
        let sht = get_sht L d AND 0x0f;
            r = (empty_response (hex_encode d))\<lparr> nSecurityHeaderType := SecurityHeaderTypeString sht \<rparr> in
        if sht \<noteq> SHTPlain5 then Inr (r\<lparr> nMessageType := ''secured_nas'' \<rparr>)
        else rbind (rwrap ''nas: plain NAS decode'' (plain_decode L d)) (\<lambda>(gmm, gsm).
          case gmm of
            None \<Rightarrow> rbind (unknownMessageType gsm) (\<lambda>t. Inr (r\<lparr> nMessageType := t \<rparr>))
          | Some m \<Rightarrow> decodeGmm L m r))"

section \<open>Properties of the security wrapper\<close>

text \<open>What the network sends: its side of TS 24.501, 9.1.1, with the direction downlink.\<close>

definition network_protect ::
  "nas5_lib \<Rightarrow> bytes \<Rightarrow> u8 \<Rightarrow> u32 \<Rightarrow> u8 \<Rightarrow> u8 \<Rightarrow> bytes \<Rightarrow> bytes \<Rightarrow> bytes result" where
  "network_protect L plain sht count ea ia kenc kint =
     rbind (if ciphered sht then nas_encrypt L ea kenc count Bearer3GPP DirectionDownlink plain else Inr plain)
       (\<lambda>ct. rbind (nas_mac L ia kint count Bearer3GPP DirectionDownlink (ucast count # ct)) (\<lambda>mac.
         Inr ([Epd5GSMobilityManagementMessage, sht] @ mac @ ucast count # ct)))"

text \<open>Documented behaviour of the library: the header type is the second octet, a NAS-MAC has
  four octets, and the NAS ciphers are stream ciphers, so encrypting twice gives the input.\<close>

definition nas_lib_ok :: "nas5_lib \<Rightarrow> bool" where
  "nas_lib_ok L = ((\<forall>m. 2 \<le> length m \<longrightarrow> get_sht L m = m ! 1) \<and>
     (\<forall>a k c b d x y. nas_mac L a k c b d x = Inr y \<longrightarrow> length y = 4) \<and>
     (\<forall>a k c b d x y. nas_encrypt L a k c b d x = Inr y \<longrightarrow> nas_encrypt L a k c b d y = Inr x))"

lemma nas_lib_okD:
  assumes "nas_lib_ok L"
  shows "2 \<le> length m \<Longrightarrow> get_sht L m = m ! 1"
    and "nas_mac L a k c b d x = Inr y \<Longrightarrow> length y = 4"
    and "nas_encrypt L a k c b d x = Inr y \<Longrightarrow> nas_encrypt L a k c b d y = Inr x"
  using assms unfolding nas_lib_ok_def by blast+

lemma unprotect_network:
  assumes "nas_lib_ok L" "sht AND 0x0f = sht"
    and "network_protect L plain sht count ea ia kenc kint = Inr m"
  shows "Unprotect L m count ea ia kenc kint = (Some plain, None) \<and>
    (\<forall>bad. length bad = 4 \<longrightarrow> bad \<noteq> take 4 (drop 2 m) \<longrightarrow>
       Unprotect L (take 2 m @ bad @ drop 6 m) count ea ia kenc kint = (Some plain, Some ErrMACMismatch))"
proof -
  obtain ct where ct: "(if ciphered sht then nas_encrypt L ea kenc count Bearer3GPP DirectionDownlink plain
      else Inr plain) = Inr ct"
    using assms(3) unfolding network_protect_def by (auto simp: rbind_eq_Inr)
  then obtain mac where mac: "nas_mac L ia kint count Bearer3GPP DirectionDownlink (ucast count # ct) = Inr mac"
    and m: "m = [Epd5GSMobilityManagementMessage, sht] @ mac @ ucast count # ct"
    using assms(3) unfolding network_protect_def by (auto simp: rbind_eq_Inr)
  have l: "length mac = 4" by (rule nas_lib_okD(2) [OF assms(1) mac])
  have dec: "(if ciphered sht then nas_encrypt L ea kenc count Bearer3GPP DirectionDownlink ct else Inr ct) = Inr plain"
  proof (cases "ciphered sht")
    case True
    then show ?thesis using nas_lib_okD(3) [OF assms(1), of ea kenc count Bearer3GPP DirectionDownlink plain ct] ct
      by simp
  next
    case False
    then show ?thesis using ct by simp
  qed
  have un: "Unprotect L ([Epd5GSMobilityManagementMessage, sht] @ x @ ucast count # ct) count ea ia kenc kint =
      (Some plain, if mac \<noteq> x then Some ErrMACMismatch else None)" if x: "length x = 4" for x
  proof -
    have g: "get_sht L (Epd5GSMobilityManagementMessage # sht # y) AND 15 = sht" for y
      using nas_lib_okD(1) [OF assms(1)] assms(2) by simp
    show ?thesis using x mac dec by (cases "ciphered sht") (simp_all add: Unprotect_def Let_def g)
  qed
  from un [OF l] have "Unprotect L m count ea ia kenc kint = (Some plain, None)" by (simp add: m)
  moreover have "Unprotect L (take 2 m @ bad @ drop 6 m) count ea ia kenc kint = (Some plain, Some ErrMACMismatch)"
    if "length bad = 4" "bad \<noteq> take 4 (drop 2 m)" for bad
    using un [OF that(1)] that(2) l by (simp add: m)
  ultimately show ?thesis by blast
qed

lemma network_protect_shape:
  assumes "nas_lib_ok L" "network_protect L plain sht count ea ia kenc kint = Inr m"
  obtains mac ct where "m = [Epd5GSMobilityManagementMessage, sht] @ mac @ ucast count # ct" "length mac = 4"
proof -
  from assms(2) obtain mac ct where
    "nas_mac L ia kint count Bearer3GPP DirectionDownlink (ucast count # ct) = Inr mac"
    "m = [Epd5GSMobilityManagementMessage, sht] @ mac @ ucast count # ct"
    unfolding network_protect_def by (auto simp: rbind_eq_Inr)
  then show ?thesis using that nas_lib_okD(2) [OF assms(1)] by blast
qed

text \<open>C11. \<open>Unprotect\<close> inverts the network's protection under the same keys and COUNT, and an
  altered NAS-MAC is always noticed: the message is recovered as well, but with
  \<open>ErrMACMismatch\<close>.\<close>

theorem Unprotect_network_protect:
  assumes "nas_lib_ok L" "sht AND 0x0f = sht"
    and "network_protect L plain sht count ea ia kenc kint = Inr m"
  shows "Unprotect L m count ea ia kenc kint = (Some plain, None) \<and>
    (\<forall>bad. length bad = 4 \<longrightarrow> bad \<noteq> take 4 (drop 2 m) \<longrightarrow>
       Unprotect L (take 2 m @ bad @ drop 6 m) count ea ia kenc kint = (Some plain, Some ErrMACMismatch))"
  by (rule unprotect_network [OF assms])

text \<open>An instance of the library: the cipher complements every octet, the MAC is the algorithm
  and the low octet of the COUNT, the re-encoding replaces the second octet.\<close>

definition toy_nas5 :: nas5_lib where
  "toy_nas5 = \<lparr> get_sht = (\<lambda>m. if length m < 2 then 0 else m ! 1), plain_decode = (\<lambda>m. Inr (None, None)),
     gsm_decode = (\<lambda>m. Inr None), reencode_decode = (\<lambda>m. Inr ()), reencode_encode = (\<lambda>m s. Inr m),
     nas_encrypt = (\<lambda>a k c b d x. Inr (map NOT x)),
     nas_mac = (\<lambda>a k c b d x. Inr [a, ucast c, b, d]) \<rparr>"

lemma toy_nas5_ok: "nas_lib_ok toy_nas5"
  by (auto simp: nas_lib_ok_def toy_nas5_def comp_def)

lemma Unprotect_network_protect_witness:
  "Unprotect toy_nas5 [0x7e, 2, 1, 5, 1, 1, 5, NOT 9] 5 2 1 [] [] = (Some [9], None) \<and>
   Unprotect toy_nas5 [0x7e, 2, 1, 5, 0, 1, 5, NOT 9] 5 2 1 [] [] = (Some [9], Some ErrMACMismatch)"
proof -
  have "network_protect toy_nas5 [9] 2 5 2 1 [] [] = Inr [0x7e, 2, 1, 5, 1, 1, 5, NOT 9]"
    by (simp add: network_protect_def toy_nas5_def ciphered_def sht5_defs Epd5GSMobilityManagementMessage_def
        Bearer3GPP_def DirectionDownlink_def)
  from Unprotect_network_protect [OF toy_nas5_ok _ this] show ?thesis
    by (auto dest: spec [of _ "[1, 5, 0, 1]"])
qed

lemma protect_layout:
  assumes "Protect L plain sht count ea ia kenc kint = Inr m"
  shows "\<exists>payload ct mac. reencode_encode L plain sht = Inr payload \<and>
    (if ciphered sht then nas_encrypt L ea kenc count Bearer3GPP DirectionUplink payload else Inr payload) = Inr ct \<and>
    nas_mac L ia kint count Bearer3GPP DirectionUplink (ucast count # ct) = Inr mac \<and>
    m = [0x7e, sht] @ mac @ ucast count # ct"
proof -
  have low: "ucast (count AND 0xff) = (ucast count :: u8)"
  proof -
    have "count AND 0xff = take_bit 8 count" by (simp add: take_bit_eq_mask mask_eq_exp_minus_1)
    then show ?thesis by (simp only:) (rule bit_word_eqI, auto simp: bit_simps)
  qed
  show ?thesis
    using assms
    by (auto simp: Protect_def rbind_eq_Inr Let_def low Epd5GSMobilityManagementMessage_def split: if_splits)
qed

text \<open>An uplink message is the protocol discriminator, the header type, four octets of MAC,
  the low octet of the COUNT, and the re-encoded message, enciphered exactly for the two
  ciphering header types; the MAC covers the sequence number and the ciphertext.\<close>

theorem Protect_layout:
  assumes "Protect L plain sht count ea ia kenc kint = Inr m"
  shows "\<exists>payload ct mac. reencode_encode L plain sht = Inr payload \<and>
    (if ciphered sht then nas_encrypt L ea kenc count Bearer3GPP DirectionUplink payload else Inr payload) = Inr ct \<and>
    nas_mac L ia kint count Bearer3GPP DirectionUplink (ucast count # ct) = Inr mac \<and>
    m = [0x7e, sht] @ mac @ ucast count # ct"
  by (rule protect_layout [OF assms])

lemma Protect_layout_witness:
  "Protect toy_nas5 [9] 2 0x105 2 1 [] [] = Inr [0x7e, 2, 1, 5, 1, 0, 5, NOT 9] \<and>
   (\<exists>payload. reencode_encode toy_nas5 [9] 2 = Inr payload)"
proof -
  have "Protect toy_nas5 [9] 2 0x105 2 1 [] [] = Inr [0x7e, 2, 1, 5, 1, 0, 5, NOT 9]"
    by (simp add: Protect_def toy_nas5_def ciphered_def sht5_defs Epd5GSMobilityManagementMessage_def
        Bearer3GPP_def DirectionUplink_def)
  from this Protect_layout [OF this] show ?thesis by blast
qed

section \<open>GUTI round trip\<close>

text \<open>A 5G-GUTI as the standard has it: decimal digits (a third MNC digit or the filler), four
  octets of TMSI, eleven octets of contents.\<close>

definition guti_ok :: "guti_view \<Rightarrow> bool" where
  "guti_ok g = (gvLen g = 11 \<and> length (gvMCC g) = 3 \<and> length (gvMNC g) = 3 \<and> length (gvTMSI g) = 4 \<and>
     list_all (\<lambda>d. d < 10) (gvMCC g) \<and> list_all (\<lambda>d. d < 10) (take 2 (gvMNC g)) \<and>
     (gvMNC g ! 2 < 10 \<or> gvMNC g ! 2 = 15) \<and> gvSet g < 1024 \<and> gvPointer g < 64)"

lemma dec_small: "n < 10 \<Longrightarrow> dec n = [dec_digit n]"
  by (subst dec.simps) simp

lemma digit_of_dec_digit: "d < 10 \<Longrightarrow> unat ((of_char (dec_digit d) - 48 :: u8) AND 15) = d"
proof -
  assume "d < 10"
  then have "d \<in> set [0..<10]" by simp
  moreover have "\<forall>d \<in> set [0..<10]. unat ((of_char (dec_digit d) - 48 :: u8) AND 15) = d" by code_simp
  ultimately show ?thesis by blast
qed

lemma and_field:
  "(s :: u16) < 1024 \<Longrightarrow> s AND 0x3ff = s" "(p :: u8) < 64 \<Longrightarrow> p AND 0x3f = p"
proof -
  have m: "s AND 0x3ff = take_bit 10 s" "p AND 0x3f = take_bit 6 p"
    by (simp_all add: take_bit_eq_mask mask_eq_exp_minus_1)
  show "s < 1024 \<Longrightarrow> s AND 0x3ff = s" "p < 64 \<Longrightarrow> p AND 0x3f = p"
    unfolding m by (simp_all add: word_unat_eq_iff word_less_nat_alt unsigned_take_bit_eq take_bit_nat_eq_self)
qed

text \<open>C31. \<open>GUTI5GFromStructured\<close> is the inverse of \<open>guti5GStructured\<close> on every well-formed
  5G-GUTI, with two or three MNC digits.\<close>

theorem guti_roundtrip:
  assumes "guti_ok g"
  shows "GUTI5GFromStructured (Some (guti5GStructured g)) = Some g"
proof -
  obtain a b c where mcc: "gvMCC g = [a, b, c]" using assms by (auto simp: guti_ok_def length_Suc_conv numeral_3_eq_3)
  obtain d e f where mnc: "gvMNC g = [d, e, f]" using assms by (auto simp: guti_ok_def length_Suc_conv numeral_3_eq_3)
  have tm: "copy_from [0, 0, 0, 0] 0 (gvTMSI g) = gvTMSI g"
    using assms by (auto simp: guti_ok_def length_Suc_conv eval_nat_numeral copy_from_def copy_into_def)
  have small: "a < 10" "b < 10" "c < 10" "d < 10" "e < 10" "f < 10 \<or> f = 15"
    using assms mcc mnc by (auto simp: guti_ok_def)
  have len: "gvLen g = 11" "gvSet g AND 0x3ff = gvSet g" "gvPointer g AND 0x3f = gvPointer g"
    using assms by (simp_all add: guti_ok_def and_field)
  from small(6) show ?thesis
    using small(1-5) mcc mnc tm len
    by (cases g, elim disjE)
      (simp_all add: GUTI5GFromStructured_def guti5GStructured_def Let_def dec_small digit_of_def
        digit_of_dec_digit int_of_def del: hex_encode.simps hex_decode.simps)
qed


lemma guti_roundtrip_witness:
  "GUTI5GFromStructured (Some (guti5GStructured \<lparr> gvLen = 11, gvMCC = [0, 0, 1], gvMNC = [0, 1, 15],
     gvRegion = 202, gvSet = 1016, gvPointer = 0, gvTMSI = [0, 0, 0, 1] \<rparr>)) =
   Some \<lparr> gvLen = 11, gvMCC = [0, 0, 1], gvMNC = [0, 1, 15], gvRegion = 202, gvSet = 1016,
     gvPointer = 0, gvTMSI = [0, 0, 0, 1] \<rparr>"
  by (rule guti_roundtrip) (simp add: guti_ok_def)

section \<open>Information elements of a release command\<close>

text \<open>The optional part as the standard codes it: half octet elements, and elements with a length
  of one or two octets.\<close>

datatype info_elem = Half u8 | Tlv u8 bytes | Tlve u8 bytes

primrec encode_ie :: "info_elem \<Rightarrow> bytes" where
  "encode_ie (Half b) = [b]"
| "encode_ie (Tlv i c) = i # of_nat (length c) # c"
| "encode_ie (Tlve i c) = i # be_bytes 2 (of_nat (length c) :: u16) @ c"

primrec ie_ok :: "info_elem \<Rightarrow> bool" where
  "ie_ok (Half b) = (0x80 \<le> b)"
| "ie_ok (Tlv i c) = (i < 0x80 \<and> i \<notin> {0x78, 0x7b, 0x72} \<and> length c < 256)"
| "ie_ok (Tlve i c) = (i \<in> {0x78, 0x7b, 0x72} \<and> length c < 65536)"

primrec is_access_type :: "info_elem \<Rightarrow> bool" where
  "is_access_type (Half b) = (drop_bit 4 b = 0xd)"
| "is_access_type (Tlv i c) = False"
| "is_access_type (Tlve i c) = False"

lemma access_type_step:
  "ie_ok e \<Longrightarrow> access_type_loop (encode_ie e @ rest) = (is_access_type e \<or> access_type_loop rest)"
proof (cases e)
  case (Half b)
  assume "ie_ok e"
  with Half show ?thesis by (subst access_type_loop.simps) simp
next
  case (Tlv i c)
  assume "ie_ok e"
  with Tlv show ?thesis
    by (subst access_type_loop.simps) (simp add: serviceLevelAAContainerIEI_def unat_of_nat word_le_nat_alt word_less_nat_alt)
next
  case (Tlve i c)
  assume "ie_ok e"
  with Tlve show ?thesis
    by (subst access_type_loop.simps)
      (auto simp add: serviceLevelAAContainerIEI_def unat_of_nat word_le_nat_alt Let_def)
qed

text \<open>C32. On every release command whose optional elements are coded as the standard says,
  whatever their number, order and contents, \<open>releaseCommandHasAccessType\<close> tells whether an
  Access type element is among them; element contents are never taken for elements.\<close>

theorem access_type_found:
  assumes "length header = 5" "list_all ie_ok ies"
  shows "releaseCommandHasAccessType (header @ concat (map encode_ie ies)) = list_ex is_access_type ies"
proof -
  have "access_type_loop (concat (map encode_ie ies)) = list_ex is_access_type ies"
    using assms(2) by (induction ies) (simp_all add: access_type_step access_type_loop.simps [of "[]"])
  with assms(1) show ?thesis by (simp add: releaseCommandHasAccessType_def)
qed

lemma access_type_found_witness:
  "releaseCommandHasAccessType ([0x2e, 1, 1, 0xd3, 36] @
     concat (map encode_ie [Tlv 0x37 [0xd1], Tlve 0x78 [0xd1, 0xd1], Half 0xd1])) = True"
  by (subst access_type_found) simp_all

end
