(* ===== verification/Store.thy ===== *)
theory Store
  imports Crypto_Suci Nas5gs
begin

text \<open>
  The in-memory store: \<open>internal/store\<close>.  A context object is a record, a map of pointers
  a map of records; a pointer held by a handler is the identifier under which the object is
  stored.  The mutexes make each operation atomic, so each is one function.  Counters that
  no run can exhaust (\<open>int64\<close>) are integers; the 32-bit eNB counter keeps its width.
\<close>

section \<open>UE contexts, 5G\<close>

record MobileIdentity5GS =
  miBuffer :: bytes
  miLen :: u16

record UESecurityCapability =
  scIei :: u8
  scLen :: u8
  scBuffer :: bytes

record PDUSessionInfo =
  psPDUSessionID :: u8
  psDNN :: string
  psN3GNBIP :: string
  psDLTeid :: u32
  psQFI :: u8
  psULTeid :: u32
  psUPFIP :: string
  psUEIP :: string

text \<open>\<open>uGuti\<close> is the 5G-GUTI as the library's getters show it, \<open>uPDUSessions\<close> the sessions by
  identity.\<close>

record UEContext =
  uID :: string
  uSUPI :: string
  uMsin :: string
  uMCC :: string
  uMNC :: string
  uRoutingIndicator :: string
  uK :: string
  uOPc :: string
  uAMF :: string
  uSQN :: string
  uProtectionScheme :: string
  uPublicKeyID :: string
  uPublicKeyHex :: string
  uSuci :: MobileIdentity5GS
  uSuciString :: string
  uRANUENGAPID :: int
  uAMFUENGAPID :: int
  uSecurityCapability :: "UESecurityCapability option"
  uCipheringAlg :: u8
  uIntegrityAlg :: u8
  uKnasEnc :: bytes
  uKnasInt :: bytes
  uKamf :: bytes
  uNgKsi :: u8
  uULCount :: u32
  uDLCount :: u32
  uSecurityActive :: bool
  uLastUplinkNAS :: bytes
  uRAND :: bytes
  uAUTN :: bytes
  uDNN :: string
  uPDUSessionID :: u8
  uPDUSessionType :: u8
  uSST :: int
  uSD :: string
  uPDUSessions :: "u8 \<rightharpoonup> PDUSessionInfo"
  uGuti :: "guti_view option"
  uIMEISV :: string

record CreateUEOpts =
  oSUPI :: string
  oK :: string
  oOPc :: string
  oAMF :: string
  oSQN :: string
  oSST :: int
  oSD :: string
  oDNN :: string
  oRoutingIndicator :: string
  oProtectionScheme :: string
  oPublicKeyID :: string
  oPublicKeyHex :: string
  oPDUSessionID :: u8
  oPDUSessionType :: u8
  oIMEISV :: string
  oUESecurityCapability :: string

definition DefaultUESecurityCapability :: bytes where
  "DefaultUESecurityCapability = [0xE0, 0xE0]"

text \<open>The IEI constant is the one of TS 24.501, table 8.2.6.1.1.\<close>

definition RegistrationRequestUESecurityCapabilityType :: u8 where
  "RegistrationRequestUESecurityCapabilityType = 0x2E"

definition or_default :: "string \<Rightarrow> string \<Rightarrow> string" where
  "or_default d s = (if s = [] then d else s)"

text \<open>The curve constructors of the standard library, for the home-network key.\<close>

record 'pub key_lib =
  newX25519 :: "bytes \<Rightarrow> 'pub result"
  uncompressP256 :: "bytes \<Rightarrow> bytes option"
  newP256 :: "bytes \<Rightarrow> 'pub result"

definition home_key :: "'pub key_lib \<Rightarrow> string \<Rightarrow> string \<Rightarrow> 'pub option result" where
  "home_key kl protScheme keyHex =
     (if protScheme \<noteq> ''0'' \<and> keyHex \<noteq> [] then
        rbind (rmsg ''invalid public_key_hex'' (hex_decode keyHex)) (\<lambda>pubKeyBytes.
          if protScheme = ''1'' then
            rbind (rmsg ''invalid X25519 public key'' (ParseX25519PublicKey (newX25519 kl) pubKeyBytes)) (\<lambda>k. Inr (Some k))
          else if protScheme = ''2'' then
            rbind (rmsg ''invalid P-256 public key''
              (ParseP256PublicKey (uncompressP256 kl) (newP256 kl) pubKeyBytes)) (\<lambda>k. Inr (Some k))
          else Inr None)
      else Inr None)"

definition NewUEContext ::
  "('priv, 'pub) suci_crypto \<Rightarrow> 'pub key_lib \<Rightarrow> string \<Rightarrow> int \<Rightarrow> int \<Rightarrow> CreateUEOpts \<Rightarrow> UEContext result" where
  "NewUEContext c kl ident ranUeNgapID mncLength opts =
     rbind (ParseSUPI (oSUPI opts) mncLength) (\<lambda>(mcc, mnc, msin).
     let protScheme = or_default ''0'' (oProtectionScheme opts);
         pubKeyID = or_default ''0'' (oPublicKeyID opts);
         routingInd = or_default ''0'' (oRoutingIndicator opts);
         amf = or_default ''8000'' (oAMF opts);
         sqn = or_default ''000000000000'' (oSQN opts) in
     rbind (home_key kl protScheme (oPublicKeyHex opts)) (\<lambda>pubKey.
     let hnPubKey = \<lparr> ProtectionScheme = protScheme, PublicKey = pubKey, PublicKeyID = pubKeyID \<rparr> in
     rbind (rmsg ''failed to encode SUCI'' (EncodeSuci c msin mcc mnc routingInd hnPubKey)) (\<lambda>suciBuffer.
     rbind (BuildSuciString mcc mnc routingInd protScheme pubKeyID suciBuffer) (\<lambda>suciStr.
     rbind (if oUESecurityCapability opts \<noteq> []
            then rwrap ''decode ue_security_capability'' (hex_decode (oUESecurityCapability opts))
            else Inr DefaultUESecurityCapability) (\<lambda>capBuf.
     Inr \<lparr> uID = ident, uSUPI = oSUPI opts, uMsin = msin, uMCC = mcc, uMNC = mnc,
           uRoutingIndicator = routingInd, uK = oK opts, uOPc = oOPc opts, uAMF = amf, uSQN = sqn,
           uProtectionScheme = protScheme, uPublicKeyID = pubKeyID, uPublicKeyHex = oPublicKeyHex opts,
           uSuci = \<lparr> miBuffer = suciBuffer, miLen = of_nat (length suciBuffer) \<rparr>,
           uSuciString = suciStr, uRANUENGAPID = ranUeNgapID, uAMFUENGAPID = 0,
           uSecurityCapability = Some \<lparr> scIei = RegistrationRequestUESecurityCapabilityType,
             scLen = of_nat (length capBuf), scBuffer = capBuf \<rparr>,
           uCipheringAlg = 0, uIntegrityAlg = 0, uKnasEnc = replicate 16 0, uKnasInt = replicate 16 0,
           uKamf = [], uNgKsi = 0, uULCount = 0, uDLCount = 0, uSecurityActive = False,
           uLastUplinkNAS = [], uRAND = [], uAUTN = [], uDNN = oDNN opts,
           uPDUSessionID = oPDUSessionID opts, uPDUSessionType = oPDUSessionType opts,
           uSST = oSST opts, uSD = oSD opts, uPDUSessions = Map.empty, uGuti = None,
           uIMEISV = oIMEISV opts \<rparr>)))))"

text \<open>The NAS COUNT operations: the value returned and the updated context.\<close>

definition next_dl :: "u32 \<Rightarrow> u8 \<Rightarrow> u32" where
  "next_dl dl sequenceNumber =
     (if (ucast (dl AND 0xff) :: u8) > sequenceNumber
      then (dl AND 0xffffff00) + 0x100 + ucast sequenceNumber
      else (dl AND 0xffffff00) + ucast sequenceNumber)"

definition NextUL :: "UEContext \<Rightarrow> u32 \<times> UEContext" where
  "NextUL u = (let c = uULCount u in (c, u\<lparr> uULCount := c + 1 \<rparr>))"

definition NextDL :: "u8 \<Rightarrow> UEContext \<Rightarrow> u32 \<times> UEContext" where
  "NextDL sequenceNumber u =
     (let d = next_dl (uDLCount u) sequenceNumber in (d, u\<lparr> uDLCount := d \<rparr>))"


section \<open>UE contexts, EPS\<close>

record EPSBearer =
  ebEBI :: u8
  ebPTI :: u8
  ebAPN :: string
  ebUEIP :: string
  ebULTeid :: u32
  ebSGWIP :: string
  ebDLTeid :: u32

text \<open>A nil slice is \<open>None\<close> for \<open>vUENetworkCapability\<close>, where the code tells it apart.\<close>

record UEEPSContext =
  vID :: string
  vIMSI :: string
  vIMEISV :: string
  vK :: string
  vOPc :: string
  vAMF :: string
  vSQN :: string
  vENBUES1APID :: u32
  vMMEUES1APID :: u32
  vUENetworkCapability :: "bytes option"
  vRAND :: bytes
  vAUTN :: bytes
  vKasme :: bytes
  vKnasEnc :: bytes
  vKnasInt :: bytes
  vCipheringAlg :: u8
  vIntegrityAlg :: u8
  vULCount :: u32
  vDLCount :: u32
  vSecurityActive :: bool
  vLastUplinkNAS :: "bytes option"
  vEPSBearerID :: u8
  vPTI :: u8
  vERABID :: u8
  vKSI :: u8
  vULTeid :: u32
  vSGWIP :: string
  vDLTeid :: u32
  vUEIP :: string
  vBearers :: "u8 \<rightharpoonup> EPSBearer"
  vGUTIMCC :: string
  vGUTIMNC :: string
  vGUTIGroupID :: u16
  vGUTICode :: u8
  vGUTIMTMSI :: u32

record CreateUEEPSOpts =
  oeIMSI :: string
  oeIMEISV :: string
  oeK :: string
  oeOPc :: string
  oeAMF :: string
  oeSQN :: string

definition NewUEEPSContext :: "string \<Rightarrow> u32 \<Rightarrow> CreateUEEPSOpts \<Rightarrow> UEEPSContext" where
  "NewUEEPSContext ident enbUES1APID opts =
     \<lparr> vID = ident, vIMSI = oeIMSI opts, vIMEISV = oeIMEISV opts, vK = oeK opts, vOPc = oeOPc opts,
       vAMF = oeAMF opts, vSQN = oeSQN opts, vENBUES1APID = enbUES1APID, vMMEUES1APID = 0,
       vUENetworkCapability = None, vRAND = [], vAUTN = [], vKasme = [],
       vKnasEnc = replicate 16 0, vKnasInt = replicate 16 0, vCipheringAlg = 0, vIntegrityAlg = 0,
       vULCount = 0, vDLCount = 0, vSecurityActive = False, vLastUplinkNAS = None, vEPSBearerID = 0,
       vPTI = 0, vERABID = 0, vKSI = 0, vULTeid = 0, vSGWIP = [], vDLTeid = 0, vUEIP = [],
       vBearers = Map.empty, vGUTIMCC = [], vGUTIMNC = [], vGUTIGroupID = 0, vGUTICode = 0,
       vGUTIMTMSI = 0 \<rparr>"

definition NextUL_EPS :: "UEEPSContext \<Rightarrow> u32 \<times> UEEPSContext" where
  "NextUL_EPS u = (let c = vULCount u in (c, u\<lparr> vULCount := c + 1 \<rparr>))"

definition NextDL_EPS :: "u8 \<Rightarrow> UEEPSContext \<Rightarrow> u32 \<times> UEEPSContext" where
  "NextDL_EPS sequenceNumber u =
     (let d = next_dl (vDLCount u) sequenceNumber in (d, u\<lparr> vDLCount := d \<rparr>))"


section \<open>gNB and eNB contexts\<close>

record SliceConfig =
  slSST :: int
  slSD :: string

record GNBContext =
  gID :: string
  gMCC :: string
  gMNC :: string
  gSST :: int
  gSD :: string
  gTAC :: string
  gGNBID :: string
  gGNBIDBitLength :: int
  gName :: string
  gN3Addr :: string
  gSlices :: "SliceConfig list"
  gues :: "string \<rightharpoonup> UEContext"
  gnextRanUeID :: int

definition NewGNBContext ::
  "string \<Rightarrow> string \<Rightarrow> string \<Rightarrow> string \<Rightarrow> string \<Rightarrow> int \<Rightarrow> string \<Rightarrow> int \<Rightarrow> string \<Rightarrow> SliceConfig list \<Rightarrow> GNBContext" where
  "NewGNBContext ident mcc mnc tac gnbID gnbIDBitLength name sst sd slices =
     \<lparr> gID = ident, gMCC = mcc, gMNC = mnc, gSST = sst, gSD = sd, gTAC = tac, gGNBID = gnbID,
       gGNBIDBitLength = gnbIDBitLength, gName = name, gN3Addr = [], gSlices = slices,
       gues = Map.empty, gnextRanUeID = 0 \<rparr>"

definition AllocateRANUENGAPID :: "GNBContext \<Rightarrow> int \<times> GNBContext" where
  "AllocateRANUENGAPID g = (let n = gnextRanUeID g + 1 in (n, g\<lparr> gnextRanUeID := n \<rparr>))"

definition CreateUE :: "UEContext \<Rightarrow> GNBContext \<Rightarrow> GNBContext" where
  "CreateUE ue g = g\<lparr> gues := (gues g)(uID ue \<mapsto> ue) \<rparr>"

definition GetUE :: "string \<Rightarrow> GNBContext \<Rightarrow> UEContext option" where
  "GetUE ueID g = gues g ueID"

definition DeleteUE :: "string \<Rightarrow> GNBContext \<Rightarrow> bool \<times> GNBContext" where
  "DeleteUE ueID g = (if gues g ueID = None then (False, g) else (True, g\<lparr> gues := (gues g)(ueID := None) \<rparr>))"

record ENBContext =
  eID :: string
  eMCC :: string
  eMNC :: string
  eTAC :: string
  eENBID :: string
  eENBIDBitLength :: int
  eName :: string
  eN3Addr :: string
  eues :: "string \<rightharpoonup> UEEPSContext"
  enextENBUEID :: u32

definition NewENBContext ::
  "string \<Rightarrow> string \<Rightarrow> string \<Rightarrow> string \<Rightarrow> string \<Rightarrow> int \<Rightarrow> string \<Rightarrow> ENBContext" where
  "NewENBContext ident mcc mnc tac enbID enbIDBitLength name =
     \<lparr> eID = ident, eMCC = mcc, eMNC = mnc, eTAC = tac, eENBID = enbID,
       eENBIDBitLength = enbIDBitLength, eName = name, eN3Addr = [], eues = Map.empty, enextENBUEID = 0 \<rparr>"

definition AllocateENBUES1APID :: "ENBContext \<Rightarrow> u32 \<times> ENBContext" where
  "AllocateENBUES1APID e = (let n = enextENBUEID e + 1 in (n, e\<lparr> enextENBUEID := n \<rparr>))"

definition CreateUE_EPS :: "UEEPSContext \<Rightarrow> ENBContext \<Rightarrow> ENBContext" where
  "CreateUE_EPS ue e = e\<lparr> eues := (eues e)(vID ue \<mapsto> ue) \<rparr>"

definition GetUE_EPS :: "string \<Rightarrow> ENBContext \<Rightarrow> UEEPSContext option" where
  "GetUE_EPS ueID e = eues e ueID"

definition DeleteUE_EPS :: "string \<Rightarrow> ENBContext \<Rightarrow> bool \<times> ENBContext" where
  "DeleteUE_EPS ueID e = (if eues e ueID = None then (False, e) else (True, e\<lparr> eues := (eues e)(ueID := None) \<rparr>))"


section \<open>The store\<close>

record Store =
  gnbs :: "string \<rightharpoonup> GNBContext"
  enbs :: "string \<rightharpoonup> ENBContext"
  nextID :: nat

definition New :: Store where
  "New = \<lparr> gnbs = Map.empty, enbs = Map.empty, nextID = 0 \<rparr>"

definition CreateGNB ::
  "string \<Rightarrow> string \<Rightarrow> string \<Rightarrow> string \<Rightarrow> int \<Rightarrow> string \<Rightarrow> int \<Rightarrow> string \<Rightarrow> SliceConfig list \<Rightarrow> Store \<Rightarrow> GNBContext \<times> Store" where
  "CreateGNB mcc mnc tac gnbID bitLen name sst sd slices s =
     (let n = nextID s + 1;
          ident = dec n;
          gnb = NewGNBContext ident mcc mnc tac gnbID bitLen name sst sd slices
      in (gnb, s\<lparr> nextID := n, gnbs := (gnbs s)(ident \<mapsto> gnb) \<rparr>))"

definition GetGNB :: "string \<Rightarrow> Store \<Rightarrow> GNBContext result" where
  "GetGNB ident s = (case gnbs s ident of None \<Rightarrow> Inl (Errorf ''gnb not found'') | Some g \<Rightarrow> Inr g)"

definition DeleteGNB :: "string \<Rightarrow> Store \<Rightarrow> unit result \<times> Store" where
  "DeleteGNB ident s = (if gnbs s ident = None then (Inl (Errorf ''gnb not found''), s)
     else (Inr (), s\<lparr> gnbs := (gnbs s)(ident := None) \<rparr>))"

definition CreateENB ::
  "string \<Rightarrow> string \<Rightarrow> string \<Rightarrow> string \<Rightarrow> int \<Rightarrow> string \<Rightarrow> Store \<Rightarrow> ENBContext \<times> Store" where
  "CreateENB mcc mnc tac enbID bitLen name s =
     (let n = nextID s + 1;
          ident = dec n;
          enb = NewENBContext ident mcc mnc tac enbID bitLen name
      in (enb, s\<lparr> nextID := n, enbs := (enbs s)(ident \<mapsto> enb) \<rparr>))"

definition GetENB :: "string \<Rightarrow> Store \<Rightarrow> ENBContext result" where
  "GetENB ident s = (case enbs s ident of None \<Rightarrow> Inl (Errorf ''enb not found'') | Some e \<Rightarrow> Inr e)"

definition DeleteENB :: "string \<Rightarrow> Store \<Rightarrow> unit result \<times> Store" where
  "DeleteENB ident s = (if enbs s ident = None then (Inl (Errorf ''enb not found''), s)
     else (Inr (), s\<lparr> enbs := (enbs s)(ident := None) \<rparr>))"

text \<open>Writing back an object reached through a pointer held by a handler; nothing happens to
  the store when the object is no longer in it.\<close>

definition update_gnb :: "string \<Rightarrow> (GNBContext \<Rightarrow> GNBContext) \<Rightarrow> Store \<Rightarrow> Store" where
  "update_gnb ident f s = s\<lparr> gnbs := (gnbs s)(ident := map_option f (gnbs s ident)) \<rparr>"

definition update_enb :: "string \<Rightarrow> (ENBContext \<Rightarrow> ENBContext) \<Rightarrow> Store \<Rightarrow> Store" where
  "update_enb ident f s = s\<lparr> enbs := (enbs s)(ident := map_option f (enbs s ident)) \<rparr>"

text \<open>\<open>MigrateUE\<close>: source and target are two objects of the store, or the same one.\<close>

definition MigrateUE :: "string \<Rightarrow> string \<Rightarrow> UEContext \<Rightarrow> int option \<Rightarrow> int option \<Rightarrow> Store \<Rightarrow> Store" where
  "MigrateUE src target ue ranUeNgapID amfUeNgapID s =
     (let s1 = update_gnb src (\<lambda>g. snd (DeleteUE (uID ue) g)) s;
          ue1 = (case ranUeNgapID of None \<Rightarrow> ue | Some r \<Rightarrow> ue\<lparr> uRANUENGAPID := r \<rparr>);
          ue2 = (case amfUeNgapID of None \<Rightarrow> ue1 | Some a \<Rightarrow> ue1\<lparr> uAMFUENGAPID := a \<rparr>)
      in update_gnb target (CreateUE ue2) s1)"

definition MigrateUE_EPS :: "string \<Rightarrow> string \<Rightarrow> UEEPSContext \<Rightarrow> u32 option \<Rightarrow> u32 option \<Rightarrow> Store \<Rightarrow> Store" where
  "MigrateUE_EPS src target ue mmeUES1APID enbUES1APID s =
     (let s1 = update_enb src (\<lambda>e. snd (DeleteUE_EPS (vID ue) e)) s;
          ue1 = (case mmeUES1APID of None \<Rightarrow> ue | Some m \<Rightarrow> ue\<lparr> vMMEUES1APID := m \<rparr>);
          ue2 = (case enbUES1APID of None \<Rightarrow> ue1 | Some e \<Rightarrow> ue1\<lparr> vENBUES1APID := e \<rparr>)
      in update_enb target (CreateUE_EPS ue2) s1)"

section \<open>NAS COUNT arithmetic\<close>

lemma and_high24: "(dl :: u32) AND 0xffffff00 = push_bit 8 (drop_bit 8 dl)"
proof -
  have h: "(0xffffff00 :: u32) = NOT (mask 8)" by (simp add: mask_eq_exp_minus_1)
  show ?thesis unfolding h by (intro bit_word_eqI) (auto simp: bit_simps)
qed

lemma unat_and_high24: "unat ((dl :: u32) AND 0xffffff00) = unat dl div 256 * 256"
proof -
  have "unat dl div 256 * 256 < 4294967296"
    using unat_u32_less [of dl] div_mult_mod_eq [of "unat dl" 256] by linarith
  moreover have "unat (drop_bit 8 dl) = unat dl div 256"
    by (simp only: unat_drop_bit_eq) (simp add: drop_bit_eq_div)
  ultimately show ?thesis
    by (simp add: and_high24 push_bit_eq_mult unat_word_ariths mult.commute)
qed

lemma unat_low8: "unat (ucast ((dl :: u32) AND 0xff) :: u8) = unat dl mod 256"
proof -
  have "dl AND 0xff = take_bit 8 dl" by (simp add: take_bit_eq_mask mask_eq_exp_minus_1)
  moreover have "unat (take_bit 8 dl) = unat dl mod 256"
    by (simp only: unsigned_take_bit_eq) (simp add: take_bit_eq_mod)
  ultimately show ?thesis by (simp add: unsigned_ucast_eq take_bit_eq_mod)
qed

lemma unat_ucast_u8_u32 [simp]: "unat (ucast (q :: u8) :: u32) = unat q"
  using unat_u8_less [of q] by (simp add: unsigned_ucast_eq take_bit_eq_mod)

lemma unat_next_dl:
  "unat (next_dl dl q) = (let base = unat dl div 256 * 256 in
     if unat q < unat dl mod 256 then (base + 256 + unat q) mod 4294967296 else base + unat q)"
proof -
  have b: "unat dl div 256 * 256 + unat q < 4294967296"
  proof -
    have "unat dl div 256 < 16777216" using unat_u32_less [of dl] by auto
    then show ?thesis using unat_u8_less [of q] by linarith
  qed
  show ?thesis
  proof (cases "unat q < unat dl mod 256")
    case True
    then have "q < ucast (dl AND 0xff)" by (simp only: word_less_nat_alt unat_low8)
    with True show ?thesis
      by (simp add: next_dl_def Let_def unat_word_ariths unat_and_high24) (simp add: mod_simps)
  next
    case False
    then have "\<not> q < ucast (dl AND 0xff)" by (simp only: word_less_nat_alt unat_low8 not_False_eq_True)
    with False b show ?thesis
      by (simp add: next_dl_def Let_def unat_word_ariths unat_and_high24)
  qed
qed

text \<open>The reconstruction of a COUNT from its low octet is right as long as fewer than 256
  messages were lost.\<close>

lemma next_dl_sync:
  assumes "unat dl \<le> unat c" "unat c < unat dl + 256" "unat dl + 256 \<le> 4294967296"
  shows "next_dl dl (ucast c) = c"
proof -
  have q: "unat (ucast c :: u8) = unat c mod 256" by (simp add: unsigned_ucast_eq take_bit_eq_mod)
  let ?d = "unat dl" and ?c = "unat c"
  obtain k r j t where k: "k = ?d div 256" and r: "r = ?d mod 256" and j: "j = ?c div 256" and t: "t = ?c mod 256"
    by blast
  have c: "j * 256 + t = ?c" and d: "k * 256 + r = ?d" and lt: "r < 256" "t < 256"
    by (simp_all add: k r j t)
  have jk: "j = (if t < r then k + 1 else k)"
  proof (cases "t < r")
    case True
    have "j \<noteq> k + 1 \<Longrightarrow> j \<le> k \<or> k + 2 \<le> j" by linarith
    with True assms(1,2) c d lt show ?thesis by auto
  next
    case False
    have "j \<noteq> k \<Longrightarrow> j + 1 \<le> k \<or> k + 1 \<le> j" by linarith
    with False assms(1,2) c d lt show ?thesis by auto
  qed
  have cl: "?c < 4294967296" by (rule unat_u32_less)
  have "unat (next_dl dl (ucast c)) = ?c"
  proof (cases "t < r")
    case True
    then have "k * 256 + 256 + t = ?c" using jk c by simp
    with True cl show ?thesis by (simp add: unat_next_dl Let_def q flip: k r t)
  next
    case False
    then have "k * 256 + t = ?c" using jk c by simp
    with False show ?thesis by (simp add: unat_next_dl Let_def q flip: k r t)
  qed
  then show ?thesis by (simp only: word_unat_eq_iff)
qed

lemma next_dl_seq: "ucast (next_dl dl q) = q"
proof -
  have m: "(n mod 4294967296) mod 256 = n mod 256" for n :: nat
    by (rule mod_mod_cancel) simp
  have n: "(k * 256 + 256 + u) mod 256 = u" "(k * 256 + u) mod 256 = u" if "u < 256" for k u :: nat
  proof -
    have "k * 256 + 256 + u = (k + 1) * 256 + u" by simp
    with that show "(k * 256 + 256 + u) mod 256 = u" by (simp only: mod_mult_self3 mod_less)
    from that show "(k * 256 + u) mod 256 = u" by (simp only: mod_mult_self3 mod_less)
  qed
  have "unat (next_dl dl q) mod 256 = unat q"
    unfolding unat_next_dl Let_def using n [OF unat_u8_less [of q]] by (simp add: m)
  then have "unat (ucast (next_dl dl q) :: u8) = unat q"
    by (simp add: unsigned_ucast_eq take_bit_eq_mod)
  then show ?thesis by (simp only: word_unat_eq_iff)
qed

text \<open>The contract the NAS code relies on, for either kind of UE context.\<close>

locale nas_count =
  fixes ul :: "'u \<Rightarrow> u32" and dl :: "'u \<Rightarrow> u32"
    and next_ul :: "'u \<Rightarrow> u32 \<times> 'u" and next_dl_of :: "u8 \<Rightarrow> 'u \<Rightarrow> u32 \<times> 'u"
  assumes ul_law: "next_ul u = (n, u') \<Longrightarrow> n = ul u \<and> ul u' = ul u + 1 \<and> dl u' = dl u"
    and dl_law: "next_dl_of q u = (n, u') \<Longrightarrow> n = next_dl (dl u) q \<and> dl u' = n \<and> ul u' = ul u"
begin

fun uls :: "nat \<Rightarrow> 'u \<Rightarrow> u32 list" where
  "uls 0 u = []"
| "uls (Suc k) u = fst (next_ul u) # uls k (snd (next_ul u))"

lemma uls_counts: "uls k u = map (\<lambda>i. ul u + of_nat i) [0..<k]"
proof (induction k arbitrary: u)
  case (Suc k)
  obtain n u' where n: "next_ul u = (n, u')" by (cases "next_ul u")
  have "map (\<lambda>i. ul u' + of_nat i) [0..<k] = map (\<lambda>i. ul u + of_nat i) (map Suc [0..<k])"
    using ul_law [OF n] by (simp add: ac_simps)
  then show ?case
    using Suc [of u'] ul_law [OF n] n by (simp add: upt_conv_Cons map_Suc_upt del: upt_Suc)
qed simp

text \<open>No COUNT is reused before the counter wraps: \<open>2 ^ 32\<close> consecutive ones are distinct.\<close>

lemma uls_distinct: "k \<le> 4294967296 \<Longrightarrow> distinct (uls k u)"
proof -
  assume k: "k \<le> 4294967296"
  have "inj_on (\<lambda>i. ul u + of_nat i) {0..<k}"
  proof (rule inj_onI)
    fix i j
    assume "i \<in> {0..<k}" "j \<in> {0..<k}" and e: "ul u + of_nat i = ul u + of_nat j"
    then have "i < 4294967296" "j < 4294967296" using k by auto
    moreover from e have "unat (of_nat i :: u32) = unat (of_nat j :: u32)" by simp
    ultimately show "i = j" by (simp add: unat_of_nat)
  qed
  then show ?thesis by (simp add: uls_counts distinct_map)
qed

text \<open>A receiver that has missed fewer than 256 downlink messages recovers the sender's COUNT
  from the sequence number octet and is in step afterwards.\<close>

lemma dl_sync:
  assumes "unat (dl u) \<le> unat c" "unat c < unat (dl u) + 256" "unat (dl u) + 256 \<le> 4294967296"
  shows "\<exists>u'. next_dl_of (ucast c) u = (c, u') \<and> dl u' = c \<and> ul u' = ul u"
proof -
  obtain n u' where n: "next_dl_of (ucast c) u = (n, u')" by (cases "next_dl_of (ucast c) u")
  with dl_law [OF n] next_dl_sync [OF assms] show ?thesis by auto
qed

end

interpretation cnt5: nas_count uULCount uDLCount NextUL NextDL
  by unfold_locales (auto simp: NextUL_def NextDL_def Let_def)

interpretation cnt4: nas_count vULCount vDLCount NextUL_EPS NextDL_EPS
  by unfold_locales (auto simp: NextUL_EPS_def NextDL_EPS_def Let_def)


fun ul_counts :: "nat \<Rightarrow> UEContext \<Rightarrow> u32 list" where
  "ul_counts 0 u = []"
| "ul_counts (Suc k) u = (case NextUL u of (n, u') \<Rightarrow> n # ul_counts k u')"

lemma ul_counts_uls: "ul_counts k u = cnt5.uls k u"
  by (induction k arbitrary: u) (simp_all add: case_prod_beta)



definition sample_ue :: "string \<Rightarrow> UEContext" where
  "sample_ue ident = \<lparr> uID = ident, uSUPI = ''imsi-001010000000001'', uMsin = ''0000000001'', uMCC = ''001'',
     uMNC = ''01'', uRoutingIndicator = ''0'', uK = ''00'', uOPc = ''00'', uAMF = ''8000'',
     uSQN = ''000000000000'', uProtectionScheme = ''0'', uPublicKeyID = ''0'', uPublicKeyHex = [],
     uSuci = \<lparr> miBuffer = [], miLen = 0 \<rparr>, uSuciString = [], uRANUENGAPID = 1, uAMFUENGAPID = 0,
     uSecurityCapability = None, uCipheringAlg = 0, uIntegrityAlg = 0, uKnasEnc = [], uKnasInt = [],
     uKamf = [], uNgKsi = 0, uULCount = 0, uDLCount = 0, uSecurityActive = False, uLastUplinkNAS = [],
     uRAND = [], uAUTN = [], uDNN = [], uPDUSessionID = 0, uPDUSessionType = 0, uSST = 0, uSD = [],
     uPDUSessions = Map.empty, uGuti = None, uIMEISV = [] \<rparr>"

definition sample_ue_eps :: "string \<Rightarrow> UEEPSContext" where
  "sample_ue_eps ident = NewUEEPSContext ident 1
     \<lparr> oeIMSI = ''001010000000001'', oeIMEISV = [], oeK = ''00'', oeOPc = ''00'', oeAMF = [], oeSQN = [] \<rparr>"




section \<open>Tables of contexts\<close>

text \<open>What every table of the store promises its clients: a lookup sees the last insertion
  under its identifier, and a removal removes exactly one.\<close>

locale keyed_table =
  fixes look :: "'s \<Rightarrow> string \<Rightarrow> 'v option"
    and ins :: "'v \<Rightarrow> 's \<Rightarrow> 's"
    and rem :: "string \<Rightarrow> 's \<Rightarrow> 's"
    and ident :: "'v \<Rightarrow> string"
  assumes look_ins: "look (ins v s) = (look s)(ident v \<mapsto> v)"
    and look_rem: "look (rem k s) = (look s)(k := None)"
begin

lemma rem_ins: "look s (ident v) = None \<Longrightarrow> look (rem (ident v) (ins v s)) = look s"
  by (auto simp: look_ins look_rem)

text \<open>Moving an entry between two tables loses what the target had under that identifier,
  and nothing else.\<close>

lemma move:
  assumes "ident v = k"
  shows "look (rem k s) k = None \<and> look (ins v t) k = Some v \<and>
    (\<forall>j. j \<noteq> k \<longrightarrow> look (rem k s) j = look s j \<and> look (ins v t) j = look t j)"
  using assms by (auto simp: look_ins look_rem)

end

locale counted_table = keyed_table +
  fixes counter :: "'s \<Rightarrow> nat" and alloc :: "'a \<Rightarrow> 's \<Rightarrow> 'v \<times> 's"
  assumes alloc_law: "alloc a s = (v, s') \<Longrightarrow>
      ident v = dec (Suc (counter s)) \<and> counter s' = Suc (counter s) \<and> look s' = (look s)(ident v \<mapsto> v)"
    and counter_rem: "counter (rem k s) = counter s"
begin

definition bounded :: "'s \<Rightarrow> bool" where
  "bounded s = (dom (look s) \<subseteq> dec ` {1..counter s})"

lemma alloc_fresh:
  assumes "bounded s" "alloc a s = (v, s')"
  shows "look s (ident v) = None"
proof (rule ccontr)
  assume "look s (ident v) \<noteq> None"
  then obtain n where "n \<le> counter s" "ident v = dec n"
    using assms(1) by (auto simp: bounded_def dom_def)
  then show False using alloc_law [OF assms(2)] by simp
qed

lemma bounded_alloc: "bounded s \<Longrightarrow> alloc a s = (v, s') \<Longrightarrow> bounded s'"
  by (frule alloc_law) (auto simp: bounded_def)

lemma bounded_rem: "bounded s \<Longrightarrow> bounded (rem k s)"
  by (auto simp: bounded_def look_rem counter_rem)

end

interpretation ues5: keyed_table gues CreateUE "\<lambda>k g. snd (DeleteUE k g)" uID
  by unfold_locales (auto simp: CreateUE_def DeleteUE_def fun_upd_idem)

interpretation ues4: keyed_table eues CreateUE_EPS "\<lambda>k e. snd (DeleteUE_EPS k e)" vID
  by unfold_locales (auto simp: CreateUE_EPS_def DeleteUE_EPS_def fun_upd_idem)

interpretation gtab: counted_table gnbs "\<lambda>g s. s\<lparr> gnbs := (gnbs s)(gID g \<mapsto> g) \<rparr>"
  "\<lambda>k s. snd (DeleteGNB k s)" gID nextID
  "\<lambda>(mcc, mnc, tac, gid, bl, name, sst, sd, sl). CreateGNB mcc mnc tac gid bl name sst sd sl"
  by unfold_locales
     (auto simp: DeleteGNB_def CreateGNB_def NewGNBContext_def Let_def fun_upd_idem split: prod.splits)

interpretation etab: counted_table enbs "\<lambda>e s. s\<lparr> enbs := (enbs s)(eID e \<mapsto> e) \<rparr>"
  "\<lambda>k s. snd (DeleteENB k s)" eID nextID
  "\<lambda>(mcc, mnc, tac, eid, bl, name). CreateENB mcc mnc tac eid bl name"
  by unfold_locales
     (auto simp: DeleteENB_def CreateENB_def NewENBContext_def Let_def fun_upd_idem split: prod.splits)


section \<open>Reachable stores\<close>

text \<open>The operations handlers perform on the store.  An update through a pointer changes a
  context but never its identifier.\<close>

inductive store_step :: "Store \<Rightarrow> Store \<Rightarrow> bool" where
  create_gnb: "CreateGNB mcc mnc tac gid bl name sst sd sl s = (g, s') \<Longrightarrow> store_step s s'"
| create_enb: "CreateENB mcc mnc tac eid bl name s = (e, s') \<Longrightarrow> store_step s s'"
| delete_gnb: "DeleteGNB k s = (r, s') \<Longrightarrow> store_step s s'"
| delete_enb: "DeleteENB k s = (r, s') \<Longrightarrow> store_step s s'"
| pointer_gnb: "(\<And>g. gID (f g) = gID g) \<Longrightarrow> store_step s (update_gnb k f s)"
| pointer_enb: "(\<And>e. eID (f e) = eID e) \<Longrightarrow> store_step s (update_enb k f s)"

inductive store_reachable :: "Store \<Rightarrow> bool" where
  start: "store_reachable New"
| step: "store_reachable s \<Longrightarrow> store_step s s' \<Longrightarrow> store_reachable s'"

definition store_inv :: "Store \<Rightarrow> bool" where
  "store_inv s = (dom (gnbs s) \<subseteq> dec ` {1..nextID s} \<and> dom (enbs s) \<subseteq> dec ` {1..nextID s} \<and>
     dom (gnbs s) \<inter> dom (enbs s) = {} \<and>
     (\<forall>k g. gnbs s k = Some g \<longrightarrow> gID g = k) \<and> (\<forall>k e. enbs s k = Some e \<longrightarrow> eID e = k))"

lemma dec_next_notin: "A \<subseteq> dec ` {1..n} \<Longrightarrow> dec (Suc n) \<notin> A"
  by auto

lemma dec_grow: "A \<subseteq> dec ` {1..n} \<Longrightarrow> insert (dec (Suc n)) A \<subseteq> dec ` {1..Suc n}"
  by (auto simp del: image_Suc_atLeastAtMost)

lemma store_inv_ids:
  "store_inv s \<Longrightarrow> gnbs s k = Some g \<Longrightarrow> gID g = k"
  "store_inv s \<Longrightarrow> enbs s k = Some e \<Longrightarrow> eID e = k"
  unfolding store_inv_def by blast+

lemma store_inv_shrink:
  assumes "store_inv s" "nextID s' = nextID s" "dom (gnbs s') \<subseteq> dom (gnbs s)" "dom (enbs s') \<subseteq> dom (enbs s)"
    and "\<And>k g. gnbs s' k = Some g \<Longrightarrow> gID g = k" "\<And>k e. enbs s' k = Some e \<Longrightarrow> eID e = k"
  shows "store_inv s'"
proof -
  have i: "dom (gnbs s) \<subseteq> dec ` {1..nextID s}" "dom (enbs s) \<subseteq> dec ` {1..nextID s}"
    "dom (gnbs s) \<inter> dom (enbs s) = {}"
    using assms(1) unfolding store_inv_def by blast+
  have "dom (gnbs s') \<subseteq> dec ` {1..nextID s'}" "dom (enbs s') \<subseteq> dec ` {1..nextID s'}"
    unfolding assms(2) by (rule order_trans [OF assms(3) i(1)]) (rule order_trans [OF assms(4) i(2)])
  moreover have "dom (gnbs s') \<inter> dom (enbs s') = {}" using assms(3,4) i(3) by blast
  ultimately show ?thesis using assms(5,6) unfolding store_inv_def by blast
qed

lemma store_inv_step: "store_step s s' \<Longrightarrow> store_inv s \<Longrightarrow> store_inv s'"
proof (induction rule: store_step.induct)
  case (create_gnb mcc mnc tac gid bl name sst sd sl s g s')
  then have c: "gID g = dec (Suc (nextID s))" "gnbs s' = (gnbs s)(dec (Suc (nextID s)) \<mapsto> g)"
    "enbs s' = enbs s" "nextID s' = Suc (nextID s)"
    by (auto simp: CreateGNB_def NewGNBContext_def Let_def)
  have i: "dom (gnbs s) \<subseteq> dec ` {1..nextID s}" "dom (enbs s) \<subseteq> dec ` {1..nextID s}"
    using create_gnb(2) by (auto simp: store_inv_def)
  note n = dec_next_notin [OF i(2)] dec_grow [OF i(1)] dec_grow [OF i(2)]
  show ?case using create_gnb(2) n c(1) unfolding store_inv_def c(2-4) by auto
next
  case (create_enb mcc mnc tac eid bl name s e s')
  then have c: "eID e = dec (Suc (nextID s))" "enbs s' = (enbs s)(dec (Suc (nextID s)) \<mapsto> e)"
    "gnbs s' = gnbs s" "nextID s' = Suc (nextID s)"
    by (auto simp: CreateENB_def NewENBContext_def Let_def)
  have i: "dom (gnbs s) \<subseteq> dec ` {1..nextID s}" "dom (enbs s) \<subseteq> dec ` {1..nextID s}"
    using create_enb(2) by (auto simp: store_inv_def)
  note n = dec_next_notin [OF i(1)] dec_grow [OF i(1)] dec_grow [OF i(2)]
  show ?case using create_enb(2) n c(1) unfolding store_inv_def c(2-4) by auto
next
  case (delete_gnb k s r s')
  then show ?case
    by (intro store_inv_shrink [of s s']) (auto simp: store_inv_ids DeleteGNB_def split: if_splits)
next
  case (delete_enb k s r s')
  then show ?case
    by (intro store_inv_shrink [of s s']) (auto simp: store_inv_ids DeleteENB_def split: if_splits)
next
  case (pointer_gnb f s k)
  then show ?case
    by (intro store_inv_shrink [of s "update_gnb k f s"])
       (auto simp: store_inv_ids update_gnb_def split: if_splits)
next
  case (pointer_enb f s k)
  then show ?case
    by (intro store_inv_shrink [of s "update_enb k f s"])
       (auto simp: store_inv_ids update_enb_def split: if_splits)
qed

lemma store_inv_reachable: "store_reachable s \<Longrightarrow> store_inv s"
proof (induction rule: store_reachable.induct)
  case start
  then show ?case by (simp add: store_inv_def New_def)
next
  case (step s s')
  then show ?case by (blast intro: store_inv_step)
qed

text \<open>In every store the program can reach, creating a gNB uses an identifier that no gNB
  and no eNB has: the new gNB is found under it, every other gNB and every eNB is untouched,
  and deleting it again restores the table.  The two kinds share one counter.\<close>

theorem CreateGNB_fresh:
  assumes "store_reachable s" "CreateGNB mcc mnc tac gid bl name sst sd sl s = (g, s')"
  shows "gnbs s (gID g) = None \<and> enbs s (gID g) = None \<and> GetGNB (gID g) s' = Inr g \<and>
    (\<forall>k. k \<noteq> gID g \<longrightarrow> gnbs s' k = gnbs s k) \<and> enbs s' = enbs s \<and>
    gnbs (snd (DeleteGNB (gID g) s')) = gnbs s"
proof -
  note inv = store_inv_reachable [OF assms(1)]
  have law: "gID g = dec (Suc (nextID s))" "gnbs s' = (gnbs s)(gID g \<mapsto> g)" "enbs s' = enbs s"
    using assms(2) by (auto simp: CreateGNB_def NewGNBContext_def Let_def)
  have "gID g \<notin> dom (gnbs s)" "gID g \<notin> dom (enbs s)"
    using inv unfolding law(1) by (auto simp: store_inv_def dest: dec_next_notin)
  then have f: "gnbs s (gID g) = None" "enbs s (gID g) = None" by (auto simp: dom_def)
  moreover have "gnbs (snd (DeleteGNB (gID g) s')) = gnbs s"
    using law(2) f(1) by (auto simp: gtab.look_rem)
  ultimately show ?thesis using law by (simp add: GetGNB_def)
qed

theorem CreateGNB_fresh_witness:
  "\<exists>g s'. CreateGNB ''001'' ''01'' ''000001'' ''000001'' 24 ''gnb'' 1 [] [] New = (g, s') \<and>
    gnbs New (gID g) = None \<and> enbs New (gID g) = None \<and> GetGNB (gID g) s' = Inr g \<and>
    (\<forall>k. k \<noteq> gID g \<longrightarrow> gnbs s' k = gnbs New k) \<and> enbs s' = enbs New \<and>
    gnbs (snd (DeleteGNB (gID g) s')) = gnbs New"
proof -
  obtain g s' where c: "CreateGNB ''001'' ''01'' ''000001'' ''000001'' 24 ''gnb'' 1 [] [] New = (g, s')"
    by (cases "CreateGNB ''001'' ''01'' ''000001'' ''000001'' 24 ''gnb'' 1 [] [] New")
  from CreateGNB_fresh [OF store_reachable.start c] c show ?thesis by blast
qed

section \<open>Moving a UE between gNBs\<close>

lemma update_gnb_simps [simp]:
  "gnbs (update_gnb k f s) = (gnbs s)(k := map_option f (gnbs s k))"
  "enbs (update_gnb k f s) = enbs s" "nextID (update_gnb k f s) = nextID s"
  by (simp_all add: update_gnb_def)

lemma update_enb_simps [simp]:
  "enbs (update_enb k f s) = (enbs s)(k := map_option f (enbs s k))"
  "gnbs (update_enb k f s) = gnbs s" "nextID (update_enb k f s) = nextID s"
  by (simp_all add: update_enb_def)

definition migrated :: "int option \<Rightarrow> int option \<Rightarrow> UEContext \<Rightarrow> UEContext" where
  "migrated r a ue = ue\<lparr> uRANUENGAPID := (case r of None \<Rightarrow> uRANUENGAPID ue | Some x \<Rightarrow> x),
                         uAMFUENGAPID := (case a of None \<Rightarrow> uAMFUENGAPID ue | Some x \<Rightarrow> x) \<rparr>"

lemma MigrateUE_migrated:
  "MigrateUE src target ue r a s =
     update_gnb target (CreateUE (migrated r a ue)) (update_gnb src (\<lambda>g. snd (DeleteUE (uID ue) g)) s)"
  by (simp add: MigrateUE_def migrated_def Let_def split: option.splits)

text \<open>C16. \<open>MigrateUE\<close> moves one UE between two gNBs: it disappears from the source, appears in
  the target with the new NGAP identifiers and everything else unchanged, no other UE of
  either gNB changes, and a UE the target already had under the same identifier is replaced.\<close>

theorem MigrateUE_moves:
  assumes "gnbs s src = Some g" "gnbs s target = Some t" "src \<noteq> target" "GetUE (uID ue) g = Some ue"
  shows "\<exists>g' t'. gnbs (MigrateUE src target ue r a s) = (gnbs s)(src \<mapsto> g', target \<mapsto> t') \<and>
     GetUE (uID ue) g' = None \<and> GetUE (uID ue) t' = Some (migrated r a ue) \<and>
     (\<forall>k. k \<noteq> uID ue \<longrightarrow> GetUE k g' = GetUE k g \<and> GetUE k t' = GetUE k t)"
proof -
  have "uID (migrated r a ue) = uID ue" by (simp add: migrated_def)
  note mv = ues5.move [OF this, of g t]
  show ?thesis
    using assms mv
    by (intro exI [of _ "snd (DeleteUE (uID ue) g)"] exI [of _ "CreateUE (migrated r a ue) t"])
       (auto simp: MigrateUE_migrated GetUE_def fun_eq_iff)
qed

definition sample_gnb :: "string \<Rightarrow> UEContext list \<Rightarrow> GNBContext" where
  "sample_gnb ident us = (NewGNBContext ident ''001'' ''01'' ''000001'' ''000001'' 24 ''gnb'' 1 [] [])
     \<lparr> gues := map_of (map (\<lambda>u. (uID u, u)) us), gnextRanUeID := int (length us) \<rparr>"

definition sample_store :: Store where
  "sample_store = \<lparr> gnbs = [''1'' \<mapsto> sample_gnb ''1'' [sample_ue ''1''], ''2'' \<mapsto> sample_gnb ''2'' []],
     enbs = Map.empty, nextID = 2 \<rparr>"

theorem MigrateUE_moves_witness:
  "\<exists>g' t'. gnbs (MigrateUE ''1'' ''2'' (sample_ue ''1'') (Some 7) None sample_store) =
       (gnbs sample_store)(''1'' \<mapsto> g', ''2'' \<mapsto> t') \<and>
     GetUE (uID (sample_ue ''1'')) g' = None \<and>
     GetUE (uID (sample_ue ''1'')) t' = Some (migrated (Some 7) None (sample_ue ''1'')) \<and>
     (\<forall>k. k \<noteq> uID (sample_ue ''1'') \<longrightarrow>
        GetUE k g' = GetUE k (sample_gnb ''1'' [sample_ue ''1'']) \<and> GetUE k t' = GetUE k (sample_gnb ''2'' []))"
  by (rule MigrateUE_moves)
     (simp_all add: sample_store_def sample_gnb_def GetUE_def sample_ue_def)

end
