(* ===== verification/Naseps.thy ===== *)
theory Naseps
  imports Netip
begin

text \<open>
  EPS NAS on the UE side, the reading half of \<open>internal/naseps\<close>: \<open>types.go\<close>,
  \<open>security.go\<close>, \<open>decode.go\<close> and the decoder of \<open>esm.go\<close>.  The message codec and the
  security algorithms are the library \<open>ellanetworks/core/nas\<close>, a parameter: \<open>eps_lib\<close> holds the
  routines the code calls, and a parsed library message is a record of the fields the code
  reads.  Numeric constants of the library are those of TS 24.301, tables 9.3.1, 9.8.1, 9.8.2.
\<close>

section \<open>Library interface\<close>

record GUTI_EPS =
  guMCC :: string
  guMNC :: string
  guGroupID :: u16
  guCode :: u8
  guMTMSI :: u32

record eps_auth_request =
  earRAND :: bytes
  earAUTN :: bytes
  earKSI :: u8

record eps_smc =
  esCiphering :: u8
  esIntegrity :: u8
  esIMEISV :: bool
  esKSI :: u8
  esReplayed :: bytes

record eps_attach_accept =
  eacResult :: u8
  eacTAIList :: bytes
  eacCause :: "u8 option"
  eacGUTI :: "GUTI_EPS option"
  eacESM :: bytes

record eps_tau_accept =
  etResult :: u8
  etCause :: "u8 option"
  etGUTI :: "GUTI_EPS option"

record eps_default_bearer =
  edEBI :: u8
  edPTI :: u8
  edPDNAddress :: bytes
  edAPN :: bytes
  edQoS :: bytes
  edCause :: "u8 option"

record eps_esm_cause =
  ecEBI :: u8
  ecPTI :: u8
  ecCause :: u8

record eps_modify_bearer =
  emEBI :: u8
  emPTI :: u8
  emAPNAMBR :: bytes

datatype integrity = NullIntegrity | SNOW3GIntegrity | AESCMACIntegrity
datatype cipher = NullCipher | SNOW3GCipher | AESCTRCipher
datatype direction = DirUplink | DirDownlink

text \<open>Only the parsers that are called; the ESM messages that carry an identity, a transaction
  and a cause share one view.  \<open>lprotect\<close> and \<open>lunprotect\<close> take the message, the COUNT, the
  direction, the integrity and the ciphering key, and the two algorithms.\<close>

record eps_lib =
  peek_type :: "bytes \<Rightarrow> u8 result"
  peek_esm_type :: "bytes \<Rightarrow> u8 result"
  parse_auth_request :: "bytes \<Rightarrow> eps_auth_request result"
  parse_smc :: "bytes \<Rightarrow> eps_smc result"
  parse_attach_accept :: "bytes \<Rightarrow> eps_attach_accept result"
  parse_attach_reject :: "bytes \<Rightarrow> u8 result"
  parse_tau_accept :: "bytes \<Rightarrow> eps_tau_accept result"
  parse_identity_request :: "bytes \<Rightarrow> u8 result"
  parse_default_bearer :: "bytes \<Rightarrow> eps_default_bearer result"
  parse_pdn_connectivity_reject :: "bytes \<Rightarrow> eps_esm_cause result"
  parse_pdn_disconnect_reject :: "bytes \<Rightarrow> eps_esm_cause result"
  parse_deactivate :: "bytes \<Rightarrow> eps_esm_cause result"
  parse_modify :: "bytes \<Rightarrow> eps_modify_bearer result"
  parse_esm_status :: "bytes \<Rightarrow> eps_esm_cause result"
  parse_protected :: "bytes \<Rightarrow> bytes result"
  lprotect :: "bytes \<Rightarrow> u8 \<Rightarrow> u32 \<Rightarrow> direction \<Rightarrow> bytes \<Rightarrow> bytes \<Rightarrow> integrity \<Rightarrow> cipher \<Rightarrow> bytes result"
  lunprotect :: "bytes \<Rightarrow> u32 \<Rightarrow> direction \<Rightarrow> bytes \<Rightarrow> bytes \<Rightarrow> integrity \<Rightarrow> cipher
    \<Rightarrow> bytes option \<times> error option"

definition PDEMM :: u8 where "PDEMM = 7"
definition PDESM :: u8 where "PDESM = 2"

section \<open>security.go\<close>

definition SHTPlain :: u8 where "SHTPlain = 0"
definition SHTIntegrityProtected :: u8 where "SHTIntegrityProtected = 1"
definition SHTIntegrityProtectedCiphered :: u8 where "SHTIntegrityProtectedCiphered = 2"
definition SHTIntegrityProtectedNewContext :: u8 where "SHTIntegrityProtectedNewContext = 3"
definition SHTIntegrityProtectedCipheredNew :: u8 where "SHTIntegrityProtectedCipheredNew = 4"
definition SHTServiceRequest :: u8 where "SHTServiceRequest = 12"

lemmas sht_eps_defs = SHTPlain_def SHTIntegrityProtected_def SHTIntegrityProtectedCiphered_def
  SHTIntegrityProtectedNewContext_def SHTIntegrityProtectedCipheredNew_def SHTServiceRequest_def

definition integrityFor :: "u8 \<Rightarrow> integrity result" where
  "integrityFor eia = (if eia = 0 then Inr NullIntegrity
     else if eia = 1 then Inr SNOW3GIntegrity
     else if eia = 2 then Inr AESCMACIntegrity
     else Inl (Errorf ''naseps: unsupported integrity algorithm''))"

definition cipherFor :: "u8 \<Rightarrow> cipher result" where
  "cipherFor eea = (if eea = 0 then Inr NullCipher
     else if eea = 1 then Inr SNOW3GCipher
     else if eea = 2 then Inr AESCTRCipher
     else Inl (Errorf ''naseps: unsupported ciphering algorithm''))"

fun SecurityHeader_EPS :: "bytes \<Rightarrow> u8 result" where
  "SecurityHeader_EPS [] = Inl (Errorf ''naseps: empty NAS message'')"
| "SecurityHeader_EPS (b0 # b) =
     (if b0 AND 0x0F \<noteq> PDEMM then Inl (Errorf ''naseps: not an EMM message'')
      else Inr (drop_bit 4 b0))"

definition PeekProtectedPayload_EPS :: "eps_lib \<Rightarrow> bytes \<Rightarrow> bytes result" where
  "PeekProtectedPayload_EPS L b = parse_protected L b"

definition Protect_EPS ::
  "eps_lib \<Rightarrow> bytes \<Rightarrow> u8 \<Rightarrow> u32 \<Rightarrow> u8 \<Rightarrow> u8 \<Rightarrow> bytes \<Rightarrow> bytes \<Rightarrow> bytes result" where
  "Protect_EPS L plain sht count cipheringAlg integrityAlg knasEnc knasInt =
     rbind (integrityFor integrityAlg) (\<lambda>integ.
     rbind (cipherFor cipheringAlg) (\<lambda>ciph.
     lprotect L plain sht count DirUplink knasInt knasEnc integ ciph))"

definition Unprotect_EPS ::
  "eps_lib \<Rightarrow> bytes \<Rightarrow> u32 \<Rightarrow> u8 \<Rightarrow> u8 \<Rightarrow> bytes \<Rightarrow> bytes \<Rightarrow> bytes option \<times> error option" where
  "Unprotect_EPS L b count cipheringAlg integrityAlg knasEnc knasInt =
     (case integrityFor integrityAlg of Inl e \<Rightarrow> (None, Some e) | Inr integ \<Rightarrow>
     (case cipherFor cipheringAlg of Inl e \<Rightarrow> (None, Some e) | Inr ciph \<Rightarrow>
     lunprotect L b count DirDownlink knasInt knasEnc integ ciph))"

section \<open>types.go\<close>

record EPSQoSJSON =
  qQCI :: int
  qRawHex :: string

record GUTIJSON =
  juMCC :: string
  juMNC :: string
  juMMEGroupID :: int
  juMMECode :: int
  juMTMSI :: string

record NASResponse_EPS =
  xMessageType :: string
  xSecurityHeaderType :: string
  xRAND :: string
  xAUTN :: string
  xNASKeySetIdentifier :: "int option"
  xSelectedCipheringAlgorithm :: "int option"
  xSelectedIntegrityAlgorithm :: "int option"
  xReplayedUESecurityCapabilities :: string
  xIMEISVRequested :: bool
  xGUTI :: "GUTIJSON option"
  xTAIList :: string
  xEPSAttachResult :: "int option"
  xEPSUpdateResult :: "int option"
  xEPSBearerIdentity :: "int option"
  xBearerPTI :: "int option"
  xEPSQoS :: "EPSQoSJSON option"
  xPDNAddress :: string
  xAPN :: string
  xAPNAMBR :: string
  xBearerESMCause :: "int option"
  xEMMCause :: "int option"
  xESMCause :: "int option"
  xIdentityType :: "int option"
  xRawHex :: string

definition empty_response_EPS :: "string \<Rightarrow> NASResponse_EPS" where
  "empty_response_EPS raw = \<lparr> xMessageType = [], xSecurityHeaderType = [], xRAND = [], xAUTN = [],
     xNASKeySetIdentifier = None, xSelectedCipheringAlgorithm = None, xSelectedIntegrityAlgorithm = None,
     xReplayedUESecurityCapabilities = [], xIMEISVRequested = False, xGUTI = None, xTAIList = [],
     xEPSAttachResult = None, xEPSUpdateResult = None, xEPSBearerIdentity = None, xBearerPTI = None,
     xEPSQoS = None, xPDNAddress = [], xAPN = [], xAPNAMBR = [], xBearerESMCause = None,
     xEMMCause = None, xESMCause = None, xIdentityType = None, xRawHex = raw \<rparr>"

section \<open>decode.go\<close>

definition SecurityHeaderTypeString_EPS :: "u8 \<Rightarrow> string" where
  "SecurityHeaderTypeString_EPS t =
     (if t = SHTPlain then ''plain''
      else if t = SHTIntegrityProtected then ''integrity_protected''
      else if t = SHTIntegrityProtectedCiphered then ''integrity_protected_and_ciphered''
      else if t = SHTIntegrityProtectedNewContext then ''integrity_protected_with_new_eps_security_context''
      else if t = SHTIntegrityProtectedCipheredNew then
        ''integrity_protected_and_ciphered_with_new_eps_security_context''
      else if t = SHTServiceRequest then ''service_request''
      else ''unknown('' @ dec (unat t) @ '')'')"

definition emmMessageTypeName :: "u8 \<Rightarrow> string" where
  "emmMessageTypeName t = (case map_of
      [(0x52, ''authentication_request''),
       (0x54, ''authentication_reject''),
       (0x5d, ''security_mode_command''),
       (0x42, ''attach_accept''),
       (0x44, ''attach_reject''),
       (0x55, ''identity_request''),
       (0x49, ''tracking_area_update_accept''),
       (0x4b, ''tracking_area_update_reject''),
       (0x4e, ''service_reject''),
       (0x60, ''emm_status''),
       (0x45, ''detach_request''),
       (0x46, ''detach_accept'')] t of
      Some n \<Rightarrow> n
    | None \<Rightarrow> ''emm_message_0x'' @ hex_nat (unat t))"

text \<open>A decoding routine fills the response; on an error it leaves what was set before.\<close>

type_synonym filler = "NASResponse_EPS \<Rightarrow> NASResponse_EPS \<times> error option"

definition on_parse :: "'m result \<Rightarrow> ('m \<Rightarrow> NASResponse_EPS \<Rightarrow> NASResponse_EPS) \<Rightarrow> filler" where
  "on_parse p f r = (case p of Inl e \<Rightarrow> (r, Some e) | Inr m \<Rightarrow> (f m r, None))"

definition decodeAuthenticationRequest_EPS :: "eps_lib \<Rightarrow> bytes \<Rightarrow> filler" where
  "decodeAuthenticationRequest_EPS L b = on_parse (parse_auth_request L b) (\<lambda>m r.
     r\<lparr> xRAND := hex_encode (earRAND m), xAUTN := hex_encode (earAUTN m),
        xNASKeySetIdentifier := Some (uint (earKSI m)) \<rparr>)"

definition decodeSecurityModeCommand_EPS :: "eps_lib \<Rightarrow> bytes \<Rightarrow> filler" where
  "decodeSecurityModeCommand_EPS L b = on_parse (parse_smc L b) (\<lambda>m r.
     r\<lparr> xSelectedCipheringAlgorithm := Some (uint (esCiphering m)),
        xSelectedIntegrityAlgorithm := Some (uint (esIntegrity m)),
        xNASKeySetIdentifier := Some (uint (esKSI m)),
        xReplayedUESecurityCapabilities := hex_encode (esReplayed m),
        xIMEISVRequested := esIMEISV m \<rparr>)"

definition guti_json :: "GUTI_EPS \<Rightarrow> GUTIJSON" where
  "guti_json g = \<lparr> juMCC = guMCC g, juMNC = guMNC g, juMMEGroupID = uint (guGroupID g),
     juMMECode = uint (guCode g), juMTMSI = hex_encode (be_bytes 4 (guMTMSI g)) \<rparr>"

definition set_cause :: "u8 option \<Rightarrow> NASResponse_EPS \<Rightarrow> NASResponse_EPS" where
  "set_cause c r = (case c of None \<Rightarrow> r | Some c \<Rightarrow> r\<lparr> xEMMCause := Some (uint c) \<rparr>)"

definition set_guti :: "GUTI_EPS option \<Rightarrow> NASResponse_EPS \<Rightarrow> NASResponse_EPS" where
  "set_guti g r = (case g of None \<Rightarrow> r | Some g \<Rightarrow> r\<lparr> xGUTI := Some (guti_json g) \<rparr>)"

definition decodeDefaultBearer :: "eps_lib \<Rightarrow> bytes \<Rightarrow> filler" where
  "decodeDefaultBearer L container = on_parse (parse_default_bearer L container) (\<lambda>m r.
     let r = r\<lparr> xEPSBearerIdentity := Some (uint (edEBI m)), xBearerPTI := Some (uint (edPTI m)),
                xPDNAddress := hex_encode (edPDNAddress m), xAPN := hex_encode (edAPN m) \<rparr>;
         r = (case edQoS m of [] \<Rightarrow> r
              | q # qs \<Rightarrow> r\<lparr> xEPSQoS := Some \<lparr> qQCI = uint q, qRawHex = hex_encode (q # qs) \<rparr> \<rparr>)
     in case edCause m of None \<Rightarrow> r | Some c \<Rightarrow> r\<lparr> xBearerESMCause := Some (uint c) \<rparr>)"

definition decodeAttachAccept :: "eps_lib \<Rightarrow> bytes \<Rightarrow> filler" where
  "decodeAttachAccept L b = on_parse (parse_attach_accept L b) (\<lambda>m r.
     let r = r\<lparr> xEPSAttachResult := Some (uint (eacResult m)) \<rparr>;
         r = (if eacTAIList m \<noteq> [] then r\<lparr> xTAIList := hex_encode (eacTAIList m) \<rparr> else r);
         r = set_guti (eacGUTI m) (set_cause (eacCause m) r)
     in if eacESM m \<noteq> [] then fst (decodeDefaultBearer L (eacESM m) r) else r)"

definition decodeAttachReject :: "eps_lib \<Rightarrow> bytes \<Rightarrow> filler" where
  "decodeAttachReject L b = on_parse (parse_attach_reject L b) (\<lambda>c r. r\<lparr> xEMMCause := Some (uint c) \<rparr>)"

definition decodeTAUAccept :: "eps_lib \<Rightarrow> bytes \<Rightarrow> filler" where
  "decodeTAUAccept L b = on_parse (parse_tau_accept L b) (\<lambda>m r.
     set_guti (etGUTI m) (set_cause (etCause m) (r\<lparr> xEPSUpdateResult := Some (uint (etResult m)) \<rparr>)))"

definition decodeIdentityRequest_EPS :: "eps_lib \<Rightarrow> bytes \<Rightarrow> filler" where
  "decodeIdentityRequest_EPS L b = on_parse (parse_identity_request L b)
     (\<lambda>t r. r\<lparr> xIdentityType := Some (uint t) \<rparr>)"

section \<open>esm.go, decoding\<close>

definition msgBearerResourceAllocationReject :: u8 where "msgBearerResourceAllocationReject = 0xD5"
definition msgBearerResourceModificationReject :: u8 where "msgBearerResourceModificationReject = 0xD7"

definition esmMessageTypeName :: "u8 \<Rightarrow> string" where
  "esmMessageTypeName t = (case map_of
      [(0xc1, ''activate_default_eps_bearer_context_request''),
       (0xd1, ''pdn_connectivity_reject''),
       (0xd3, ''pdn_disconnect_reject''),
       (0xcd, ''deactivate_eps_bearer_context_request''),
       (0xc9, ''modify_eps_bearer_context_request''),
       (0xe8, ''esm_status''),
       (msgBearerResourceAllocationReject, ''bearer_resource_allocation_reject''),
       (msgBearerResourceModificationReject, ''bearer_resource_modification_reject'')] t of
      Some n \<Rightarrow> n
    | None \<Rightarrow> ''esm_message_0x'' @ hex_nat (unat t))"

definition setESM :: "int \<Rightarrow> int \<Rightarrow> u8 option \<Rightarrow> NASResponse_EPS \<Rightarrow> NASResponse_EPS" where
  "setESM ebi pti cause r =
     (let r = r\<lparr> xEPSBearerIdentity := Some ebi, xBearerPTI := Some pti \<rparr> in
      case cause of None \<Rightarrow> r | Some c \<Rightarrow> r\<lparr> xESMCause := Some (uint c) \<rparr>)"

definition set_esm_cause :: "eps_esm_cause \<Rightarrow> NASResponse_EPS \<Rightarrow> NASResponse_EPS" where
  "set_esm_cause m = setESM (uint (ecEBI m)) (uint (ecPTI m)) (Some (ecCause m))"

definition decodeBearerResourceReject :: "bytes \<Rightarrow> filler" where
  "decodeBearerResourceReject plain r =
     (case plain of
        b0 # b1 # b2 # b3 # bs \<Rightarrow> (setESM (uint (drop_bit 4 b0)) (uint b1) (Some b3) r, None)
      | _ \<Rightarrow> (r, Some (Errorf ''bearer resource reject is %d octets, want at least 4'')))"

text \<open>In an ESM message every parse error discards the response.\<close>

definition esm_filler :: "eps_lib \<Rightarrow> u8 \<Rightarrow> bytes \<Rightarrow> string \<times> filler" where
  "esm_filler L mt plain =
     (if mt = 0xc1 then (''naseps: parse activate default EPS bearer context request'', decodeDefaultBearer L plain)
      else if mt = 0xd1 then (''naseps: parse PDN connectivity reject'',
        on_parse (parse_pdn_connectivity_reject L plain) set_esm_cause)
      else if mt = 0xd3 then (''naseps: parse PDN disconnect reject'',
        on_parse (parse_pdn_disconnect_reject L plain) set_esm_cause)
      else if mt = 0xcd then (''naseps: parse deactivate EPS bearer context request'',
        on_parse (parse_deactivate L plain) set_esm_cause)
      else if mt = 0xc9 then (''naseps: parse modify EPS bearer context request'',
        on_parse (parse_modify L plain) (\<lambda>m r.
          let r = r\<lparr> xEPSBearerIdentity := Some (uint (emEBI m)), xBearerPTI := Some (uint (emPTI m)) \<rparr>
          in if emAPNAMBR m \<noteq> [] then r\<lparr> xAPNAMBR := hex_encode (emAPNAMBR m) \<rparr> else r))
      else if mt = 0xe8 then (''naseps: parse ESM status'', on_parse (parse_esm_status L plain) set_esm_cause)
      else if mt = msgBearerResourceAllocationReject then
        (''naseps: parse bearer resource allocation reject'', decodeBearerResourceReject plain)
      else if mt = msgBearerResourceModificationReject then
        (''naseps: parse bearer resource modification reject'', decodeBearerResourceReject plain)
      else ('''', \<lambda>r. (r, None)))"

definition decodeESM :: "eps_lib \<Rightarrow> bytes \<Rightarrow> NASResponse_EPS \<Rightarrow> NASResponse_EPS option \<times> error option" where
  "decodeESM L plain r = (case peek_esm_type L plain of
      Inl e \<Rightarrow> (None, Some (Wrapf ''naseps: peek ESM message type'' e))
    | Inr mt \<Rightarrow>
        (let (msg, fill) = esm_filler L mt plain in
         case fill (r\<lparr> xMessageType := esmMessageTypeName mt \<rparr>) of
           (r', None) \<Rightarrow> (Some r', None)
         | (r', Some e) \<Rightarrow> (None, Some (Wrapf msg e))))"

section \<open>Dispatch\<close>

text \<open>An EMM parse error is returned together with the response filled so far.\<close>

definition emm_filler :: "eps_lib \<Rightarrow> u8 \<Rightarrow> bytes \<Rightarrow> filler" where
  "emm_filler L mt plain =
     (if mt = 0x52 then decodeAuthenticationRequest_EPS L plain
      else if mt = 0x5d then decodeSecurityModeCommand_EPS L plain
      else if mt = 0x42 then decodeAttachAccept L plain
      else if mt = 0x44 then decodeAttachReject L plain
      else if mt = 0x55 then decodeIdentityRequest_EPS L plain
      else if mt = 0x49 then decodeTAUAccept L plain
      else if mt = 0x4b \<or> mt = 0x4e then
        (\<lambda>r. (if 3 \<le> length plain then r\<lparr> xEMMCause := Some (uint (plain ! 2)) \<rparr> else r, None))
      else (\<lambda>r. (r, None)))"

fun DecodeNAS_EPS :: "eps_lib \<Rightarrow> bytes \<Rightarrow> NASResponse_EPS option \<times> error option" where
  "DecodeNAS_EPS L [] = (None, Some (Errorf ''naseps: empty NAS message''))"
| "DecodeNAS_EPS L (p0 # ps) =
     (let plain = p0 # ps; r = empty_response_EPS (hex_encode plain) in
      if p0 AND 0x0F = PDESM then decodeESM L plain r
      else
        let r = r\<lparr> xSecurityHeaderType := SecurityHeaderTypeString_EPS (drop_bit 4 p0) \<rparr> in
        case peek_type L plain of
          Inl e \<Rightarrow> (None, Some (Wrapf ''naseps: peek message type'' e))
        | Inr mt \<Rightarrow>
            (let (r', e) = emm_filler L mt plain (r\<lparr> xMessageType := emmMessageTypeName mt \<rparr>)
             in (Some r', e)))"

end
