(* ===== verification/Api_Types.thy ===== *)
theory Api_Types
  imports Store Naseps Framed_Transport
begin

text \<open>
  Requests and errors of the HTTP API: the bodies of the two UE message endpoints
  (\<open>internal/api/gnb_ue_types.go\<close>, \<open>enb_ue_types.go\<close>), \<open>errors.go\<close> and \<open>wait.go\<close>.  A JSON body is
  the record it decodes to; a pointer field is an option, and an \<open>omitempty\<close> field that is absent
  is the zero value.
\<close>

section \<open>Message requests\<close>

record SNSSAIJSON =
  snSST :: int
  snSD :: string

record DRBStatusTransferInput =
  dsDRBID :: int
  dsULPDCPSN :: int
  dsULHFN :: int
  dsDLPDCPSN :: int
  dsDLHFN :: int

record SendGNBUENGAPRequest =
  rqMessageType :: string
  rqRegistrationType :: "u8 option"
  rqRawNASPDU :: "string option"
  rqRRCEstablishmentCauseOverride :: "int option"
  rqUEContextRequestOverride :: "int option"
  rqAMFUENGAPIDOverride :: "int option"
  rqRANUENGAPIDOverride :: "int option"
  rqResStarOverride :: "string option"
  rqInnerSMPayload :: "string option"
  rqReleaseCause :: "int option"
  rqSwitchOff :: "u8 option"
  rqServiceType :: "u8 option"
  rqRequestTypeOverride :: "u8 option"
  rqPTI :: "u8 option"
  rqAlwaysOnRequested :: "bool option"
  rqFiveGSMCause :: "u8 option"
  rqNgKSI :: "u8 option"
  rqMobileIdentityOverride :: "string option"
  rqNonCurrentNativeNASKSI :: "u8 option"
  rqCapability5GMM :: "string option"
  rqUESecurityCapabilityOverride :: "string option"
  rqRequestedNSSAI :: "SNSSAIJSON list"
  rqLastVisitedRegisteredTAI :: "string option"
  rqS1UENetworkCapability :: "string option"
  rqUplinkDataStatus :: "string option"
  rqPDUSessionStatus :: "string option"
  rqMICOIndication :: "u8 option"
  rqUEStatus :: "string option"
  rqAdditionalGUTI :: "string option"
  rqAllowedPDUSessionStatus :: "string option"
  rqUEsUsageSetting :: "u8 option"
  rqRequestedDRXParameters :: "u8 option"
  rqEPSNASMessageContainer :: "string option"
  rqLADNIndication :: "string option"
  rqPayloadContainer :: "string option"
  rqNetworkSlicingIndication :: "u8 option"
  rqUpdateType5GS :: "string option"
  rqNASMessageContainer :: "string option"
  rqEPSBearerContextStatus :: "string option"
  rqFollowOnRequest :: "u8 option"
  rqFiveGMMCause :: "u8 option"
  rqTargetGNBID :: "string option"
  rqPDUSessionIDs :: "int list"
  rqHandoverCancelCause :: "int option"
  rqHandoverRequiredCause :: "int option"
  rqStatusTransferDRBs :: "DRBStatusTransferInput list"
  rqPDUSessionIDOverride :: "u8 option"
  rqExistingConnection :: bool
  rqReestablish :: bool
  rqCorruptMAC :: bool
  rqNASCountOverride :: "u32 option"
  rqReplayLast :: bool
  rqTimeoutMs :: int
  rqUERadioCapability :: "string option"

record SendENBUES1APRequest =
  sqMessageType :: string
  sqPDNType :: u8
  sqAttachType :: u8
  sqForeignGUTI :: bool
  sqUENetworkCapabilityOverride :: "string option"
  sqOldPTMSISignature :: "string option"
  sqAdditionalGUTI :: "string option"
  sqLastVisitedRegisteredTAI :: "string option"
  sqDRXParameter :: "string option"
  sqMSNetworkCapability :: "string option"
  sqOldLocationAreaID :: "string option"
  sqTMSIStatus :: "u8 option"
  sqMobileStationClassmark2 :: "string option"
  sqMobileStationClassmark3 :: "string option"
  sqSupportedCodecs :: "string option"
  sqAdditionalUpdateType :: "u8 option"
  sqVoiceDomainPreference :: "string option"
  sqDeviceProperties :: "u8 option"
  sqOldGUTIType :: "u8 option"
  sqMSNetworkFeatureSupport :: "u8 option"
  sqTMSIBasedNRIContainer :: "string option"
  sqT3324Value :: "string option"
  sqT3412ExtendedValue :: "string option"
  sqExtendedDRXParameters :: "string option"
  sqUEAdditionalSecurityCapability :: "string option"
  sqUEStatus :: "string option"
  sqAdditionalInformationRequested :: "string option"
  sqN1UENetworkCapability :: "string option"
  sqUERadioCapabilityIDAvailability :: "string option"
  sqRequestedWUSAssistance :: "string option"
  sqDRXParameterNBS1Mode :: "string option"
  sqRequestedIMSIOffset :: "string option"
  sqRawNASPDU :: "string option"
  sqCorruptMAC :: bool
  sqExistingConnection :: bool
  sqReestablish :: bool
  sqMMEUES1APIDOverride :: "u32 option"
  sqENBUES1APIDOverride :: "u32 option"
  sqRRCEstablishmentCauseOverride :: "int option"
  sqReplayLast :: bool
  sqSwitchOff :: bool
  sqReleaseCause :: "int option"
  sqUERadioCapability :: "string option"
  sqMTMSIOverride :: "u32 option"
  sqNASCountOverride :: "u32 option"
  sqEPSUpdateType :: u8
  sqAPN :: string
  sqPTI :: "u8 option"
  sqRequestEBI :: "u8 option"
  sqLinkedEBI :: "u8 option"
  sqEPSBearerIdentity :: "u8 option"
  sqESMCause :: "u8 option"
  sqWithholdAccept :: bool
  sqRESOverride :: "string option"
  sqEMMCause :: "int option"
  sqTargetENBID :: "string option"
  sqHandoverRequiredCause :: "int option"
  sqHandoverCancelCause :: "int option"
  sqStatusTransferContainer :: "string option"
  sqTimeoutMs :: int

section \<open>errors.go\<close>

definition httpErrorf :: "nat \<Rightarrow> string \<Rightarrow> error" where
  "httpErrorf status msg = HTTPErr status msg"

text \<open>\<open>errors.As\<close> for a \<open>*statusError\<close>: the first one in the chain.\<close>

fun as_status :: "error \<Rightarrow> nat option" where
  "as_status (HTTPErr n s) = Some n"
| "as_status (Wrapf s e) = as_status e"
| "as_status e = None"

definition statusForError :: "error \<Rightarrow> nat" where
  "statusForError e = (case as_status e of Some n \<Rightarrow> n
     | None \<Rightarrow> if errors_is e ErrTimeout then 504
               else if errors_is e ErrSend then 502
               else 500)"

section \<open>wait.go\<close>

text \<open>A \<open>time.Duration\<close> is a signed 64-bit number of nanoseconds.\<close>

definition waitTimeout :: "int \<Rightarrow> 64 word" where
  "waitTimeout timeoutMs = (if timeoutMs > 0 then word_of_int timeoutMs * 1000000 else 5 * 1000000000)"

record AwaitRequest =
  aqMessageTypes :: "string list"
  aqTimeoutMs :: int

record parsedAwaitRequest =
  pqMessageTypes :: "string list"
  pqTimeout :: "64 word"

text \<open>A refused request is answered by the status and message of the error.\<close>

definition decodeAwaitRequest :: "AwaitRequest result \<Rightarrow> parsedAwaitRequest result" where
  "decodeAwaitRequest body = (case body of
      Inl e \<Rightarrow> Inl (httpErrorf 400 ''invalid request body'')
    | Inr req \<Rightarrow> if length (aqMessageTypes req) = 0 then Inl (httpErrorf 400 ''message_types is required'')
        else Inr \<lparr> pqMessageTypes = aqMessageTypes req, pqTimeout = waitTimeout (aqTimeoutMs req) \<rparr>)"

end
