(* ===== verification/Api_Security.thy ===== *)
theory Api_Security
  imports Api_Types Crypto_AKA
begin

text \<open>
  The NAS security layer of the handlers: \<open>internal/api/gnb_security.go\<close> and
  \<open>enb_security.go\<close>.  Each function takes the UE context it is given by pointer and returns it
  updated, also when it fails.  A request that is nil is \<open>None\<close>.  A panic inside a decoder
  leaves the function; any other decoding error is dropped, as in the code.
\<close>

definition try_decode :: "'a result \<Rightarrow> 'a option result" where
  "try_decode r = (case r of Inl (Panic p) \<Rightarrow> Inl (Panic p) | Inl e \<Rightarrow> Inr None | Inr x \<Rightarrow> Inr (Some x))"

definition flip_octet :: "nat \<Rightarrow> bytes \<Rightarrow> bytes" where
  "flip_octet i b = b[i := (b ! i) XOR 0xff]"

section \<open>5G\<close>

definition is_new_context :: "u8 \<Rightarrow> bool" where
  "is_new_context sht = (sht = SHTIntegrityNew5 \<or> sht = SHTCipheredNew5)"

definition uplink_count :: "u32 option \<Rightarrow> u32 \<Rightarrow> u32" where
  "uplink_count override count = (case override of None \<Rightarrow> count | Some c \<Rightarrow> c)"

definition encodeGNBUplinkNAS ::
  "nas5_lib \<Rightarrow> bytes \<Rightarrow> u8 \<Rightarrow> SendGNBUENGAPRequest option \<Rightarrow> UEContext \<Rightarrow> bytes result \<times> UEContext" where
  "encodeGNBUplinkNAS L plain sht req ue =
     (if \<not> uSecurityActive ue \<and> length (uKamf ue) = 0
      then (Inl (Errorf ''no security context available''), ue)
      else
        let ue0 = (if is_new_context sht then ue\<lparr> uULCount := 0, uDLCount := 0 \<rparr> else ue);
            (n, ue1) = NextUL ue0;
            count = uplink_count (Option.bind req rqNASCountOverride) n in
        case Protect L plain sht count (uCipheringAlg ue1) (uIntegrityAlg ue1) (uKnasEnc ue1) (uKnasInt ue1) of
          Inl e \<Rightarrow> (Inl e, ue1)
        | Inr p \<Rightarrow>
            let corrupt = (case req of None \<Rightarrow> False | Some r \<Rightarrow> rqCorruptMAC r \<and> 7 \<le> length p);
                protected = (if corrupt then flip_octet 2 p else p)
            in (Inr protected, ue1\<lparr> uLastUplinkNAS := protected \<rparr>))"

definition establishGNBSecurityContext ::
  "aka_lib \<Rightarrow> NASResponse option \<Rightarrow> UEContext \<Rightarrow> unit result \<times> UEContext" where
  "establishGNBSecurityContext A smc ue =
     (case smc of None \<Rightarrow> (Inr (), ue) | Some r \<Rightarrow>
     (case (nSelectedCipheringAlgorithm r, nSelectedIntegrityAlgorithm r) of
        (Some c, Some i) \<Rightarrow>
          (let ue1 = ue\<lparr> uCipheringAlg := of_int c, uIntegrityAlg := of_int i \<rparr> in
           case Derive5GNASKeys A (uKamf ue1) (uCipheringAlg ue1) (uIntegrityAlg ue1) of
             Inl (Panic p) \<Rightarrow> (Inl (Panic p), ue1)
           | Inl e \<Rightarrow> (Inr (), ue1)
           | Inr (knasEnc, knasInt) \<Rightarrow>
               (Inr (), ue1\<lparr> uKnasEnc := knasEnc, uKnasInt := knasInt, uDLCount := 0, uSecurityActive := True \<rparr>))
      | _ \<Rightarrow> (Inr (), ue)))"

definition annotateGNBSecurityHeaderType ::
  "NASResponse option \<Rightarrow> u8 \<Rightarrow> bytes \<Rightarrow> NASResponse option" where
  "annotateGNBSecurityHeaderType resp sht message = (case resp of None \<Rightarrow> None | Some r \<Rightarrow>
     Some (r\<lparr> nSecurityHeaderType := SecurityHeaderTypeString sht, nRawHex := hex_encode message \<rparr>))"

text \<open>The Security Mode Command step: its contents are read before they are verified, because
  the keys depend on them.\<close>

definition new_context_step :: "aka_lib \<Rightarrow> nas5_lib \<Rightarrow> bytes \<Rightarrow> UEContext \<Rightarrow> unit result \<times> UEContext" where
  "new_context_step A L message ue = (case PeekProtectedPayload message of
      Inl e \<Rightarrow> (Inr (), ue)
    | Inr inner \<Rightarrow> (case try_decode (DecodeNAS L inner) of
          Inl p \<Rightarrow> (Inl p, ue)
        | Inr None \<Rightarrow> (Inr (), ue)
        | Inr (Some smc) \<Rightarrow> establishGNBSecurityContext A (Some smc) ue))"

definition decodeGNBDownlinkNAS ::
  "aka_lib \<Rightarrow> nas5_lib \<Rightarrow> bytes \<Rightarrow> UEContext \<Rightarrow> (NASResponse option \<times> bool option) result \<times> UEContext" where
  "decodeGNBDownlinkNAS A L message ue =
     (case SecurityHeader L message of Inl e \<Rightarrow> (Inr (None, None), ue) | Inr sht \<Rightarrow>
      if sht = SHTPlain5 then (rbind (try_decode (DecodeNAS L message)) (\<lambda>resp. Inr (resp, None)), ue)
      else if length message < 7 then (Inr (None, None), ue)
      else
        let (count, ue1) = NextDL (message ! 6) ue;
            (st, ue2) = (if is_new_context sht then new_context_step A L message ue1 else (Inr (), ue1)) in
        case st of Inl p \<Rightarrow> (Inl p, ue2) | Inr _ \<Rightarrow>
        if \<not> uSecurityActive ue2 then
          (case PeekProtectedPayload message of Inl e \<Rightarrow> (Inr (None, None), ue2) | Inr inner \<Rightarrow>
             (rbind (try_decode (DecodeNAS L inner)) (\<lambda>resp.
                Inr (annotateGNBSecurityHeaderType resp sht message, None)), ue2))
        else
          (case Unprotect L message count (uCipheringAlg ue2) (uIntegrityAlg ue2) (uKnasEnc ue2) (uKnasInt ue2) of
             (None, _) \<Rightarrow> (Inr (None, None), ue2)
           | (Some plain, verr) \<Rightarrow>
               (rbind (try_decode (DecodeNAS L plain)) (\<lambda>resp.
                  Inr (annotateGNBSecurityHeaderType resp sht message, Some (verr = None))), ue2)))"

section \<open>EPS\<close>

definition encodeENBUplinkNAS ::
  "eps_lib \<Rightarrow> bytes \<Rightarrow> u8 \<Rightarrow> SendENBUES1APRequest option \<Rightarrow> UEEPSContext \<Rightarrow> bytes result \<times> UEEPSContext" where
  "encodeENBUplinkNAS L plain sht req ue =
     (if \<not> vSecurityActive ue \<and> length (vKasme ue) = 0
      then (Inl (Errorf ''no security context available''), ue)
      else
        let (n, ue1) = NextUL_EPS ue;
            count = uplink_count (Option.bind req sqNASCountOverride) n in
        case Protect_EPS L plain sht count (vCipheringAlg ue1) (vIntegrityAlg ue1) (vKnasEnc ue1) (vKnasInt ue1) of
          Inl e \<Rightarrow> (Inl e, ue1)
        | Inr p \<Rightarrow>
            let corrupt = (case req of None \<Rightarrow> False | Some r \<Rightarrow> sqCorruptMAC r \<and> 6 \<le> length p)
            in (Inr (if corrupt then flip_octet 1 p else p), ue1))"

definition epsDLSequenceNumber :: "bytes \<Rightarrow> u8" where
  "epsDLSequenceNumber nasBytes = (if length nasBytes \<le> 5 then 0 else nasBytes ! 5)"

definition annotateENBSecurityHeaderType ::
  "NASResponse_EPS option \<Rightarrow> bytes \<Rightarrow> NASResponse_EPS option" where
  "annotateENBSecurityHeaderType nas downlink = (case nas of None \<Rightarrow> None | Some r \<Rightarrow>
     (case SecurityHeader_EPS downlink of
        Inl e \<Rightarrow> Some r
      | Inr sht \<Rightarrow> Some (r\<lparr> xSecurityHeaderType := SecurityHeaderTypeString_EPS sht \<rparr>)))"

definition establishENBSecurityContext ::
  "aka_lib \<Rightarrow> NASResponse_EPS option \<Rightarrow> UEEPSContext \<Rightarrow> unit result \<times> UEEPSContext" where
  "establishENBSecurityContext A smc ue =
     (case smc of None \<Rightarrow> (Inr (), ue) | Some r \<Rightarrow>
     (case (xSelectedCipheringAlgorithm r, xSelectedIntegrityAlgorithm r) of
        (Some c, Some i) \<Rightarrow>
          (let ue1 = ue\<lparr> vCipheringAlg := of_int c, vIntegrityAlg := of_int i \<rparr> in
           case DeriveEPSNASKeys A (vKasme ue1) (vCipheringAlg ue1) (vIntegrityAlg ue1) of
             Inl (Panic p) \<Rightarrow> (Inl (Panic p), ue1)
           | Inl e \<Rightarrow> (Inr (), ue1)
           | Inr (knasEnc, knasInt) \<Rightarrow>
               (Inr (), ue1\<lparr> vKnasEnc := knasEnc, vKnasInt := knasInt, vULCount := 0, vDLCount := 0,
                  vSecurityActive := True \<rparr>))
      | _ \<Rightarrow> (Inr (), ue)))"

definition new_context_step_EPS :: "aka_lib \<Rightarrow> eps_lib \<Rightarrow> bytes \<Rightarrow> UEEPSContext \<Rightarrow> unit result \<times> UEEPSContext" where
  "new_context_step_EPS A L message ue = (case PeekProtectedPayload_EPS L message of
      Inl e \<Rightarrow> (Inr (), ue)
    | Inr inner \<Rightarrow> (case DecodeNAS_EPS L inner of
          (smc, None) \<Rightarrow> establishENBSecurityContext A smc ue
        | (smc, Some e) \<Rightarrow> (Inr (), ue)))"

definition is_new_context_EPS :: "u8 \<Rightarrow> bool" where
  "is_new_context_EPS sht = (sht = SHTIntegrityProtectedNewContext \<or> sht = SHTIntegrityProtectedCipheredNew)"

definition decodeENBDownlinkNAS ::
  "aka_lib \<Rightarrow> eps_lib \<Rightarrow> bytes \<Rightarrow> UEEPSContext \<Rightarrow> (NASResponse_EPS option \<times> bool option) result \<times> UEEPSContext" where
  "decodeENBDownlinkNAS A L message ue =
     (case SecurityHeader_EPS message of Inl e \<Rightarrow> (Inr (None, None), ue) | Inr sht \<Rightarrow>
      if sht = SHTPlain then (Inr (annotateENBSecurityHeaderType (fst (DecodeNAS_EPS L message)) message, None), ue)
      else if length message < 6 then (Inr (None, None), ue)
      else
        let (count, ue1) = NextDL_EPS (epsDLSequenceNumber message) ue;
            (st, ue2) = (if is_new_context_EPS sht then new_context_step_EPS A L message ue1 else (Inr (), ue1)) in
        case st of Inl p \<Rightarrow> (Inl p, ue2) | Inr _ \<Rightarrow>
        if \<not> vSecurityActive ue2 then
          (case PeekProtectedPayload_EPS L message of Inl e \<Rightarrow> (Inr (None, None), ue2) | Inr inner \<Rightarrow>
             (Inr (annotateENBSecurityHeaderType (fst (DecodeNAS_EPS L inner)) message, None), ue2))
        else
          (case Unprotect_EPS L message count (vCipheringAlg ue2) (vIntegrityAlg ue2) (vKnasEnc ue2) (vKnasInt ue2) of
             (None, _) \<Rightarrow> (Inr (None, None), ue2)
           | (Some plain, verr) \<Rightarrow>
               (Inr (annotateENBSecurityHeaderType (fst (DecodeNAS_EPS L plain)) message, Some (verr = None)), ue2)))"

section \<open>Downlink messages of an active context\<close>

lemma unprotect_shape:
  assumes "nas_lib_ok L" "length mac = 4"
  shows "SecurityHeader L ([e, sht] @ mac @ c # ct) = Inr (sht AND 0x0f)"
  using nas_lib_okD(1) [OF assms(1)] assms(2) by (simp add: SecurityHeader_def)

lemma decode_active:
  assumes "SecurityHeader L m = Inr sht" "sht \<noteq> SHTPlain5" "\<not> is_new_context sht" "7 \<le> length m"
    and "uSecurityActive ue" "NextDL (m ! 6) ue = (c, ue1)"
    and "Unprotect L m c (uCipheringAlg ue1) (uIntegrityAlg ue1) (uKnasEnc ue1) (uKnasInt ue1) = (Some plain, verr)"
    and "uSecurityActive ue1" "DecodeNAS L plain = Inr r"
  shows "decodeGNBDownlinkNAS A L m ue =
    (Inr (annotateGNBSecurityHeaderType (Some r) sht m, Some (verr = None)), ue1)"
  using assms by (simp add: decodeGNBDownlinkNAS_def try_decode_def)

lemma NextDL_fields [simp]:
  "uCipheringAlg (snd (NextDL q u)) = uCipheringAlg u" "uIntegrityAlg (snd (NextDL q u)) = uIntegrityAlg u"
  "uKnasEnc (snd (NextDL q u)) = uKnasEnc u" "uKnasInt (snd (NextDL q u)) = uKnasInt u"
  "uSecurityActive (snd (NextDL q u)) = uSecurityActive u" "uKamf (snd (NextDL q u)) = uKamf u"
  by (simp_all add: NextDL_def Let_def)

lemma NextDL_pair: "NextDL q u = (next_dl (uDLCount u) q, u\<lparr> uDLCount := next_dl (uDLCount u) q \<rparr>)"
  by (simp add: NextDL_def Let_def)

definition dl_window :: "u32 \<Rightarrow> u32 \<Rightarrow> bool" where
  "dl_window d c = (unat d \<le> unat c \<and> unat c < unat d + 256 \<and> unat d + 256 \<le> 4294967296)"

lemma next_dl_window: "dl_window d c \<Longrightarrow> next_dl d (ucast c) = c"
  unfolding dl_window_def by (rule next_dl_sync) simp_all

text \<open>C7. A protected downlink message whose COUNT lies in the window is verified and surfaced
  with its contents, header type and octets, and its COUNT becomes the context's.  With any
  other NAS-MAC the same contents are surfaced, reported as not verified; the COUNT is taken
  over all the same.\<close>

theorem downlink_verified:
  assumes "nas_lib_ok L" "sht AND 0x0f = sht" "sht \<noteq> SHTPlain5" "\<not> is_new_context sht" "uSecurityActive ue"
    and "dl_window (uDLCount ue) c"
    and "network_protect L plain sht c (uCipheringAlg ue) (uIntegrityAlg ue) (uKnasEnc ue) (uKnasInt ue) = Inr m"
    and "DecodeNAS L plain = Inr r"
  shows "decodeGNBDownlinkNAS A L m ue =
      (Inr (annotateGNBSecurityHeaderType (Some r) sht m, Some True), ue\<lparr> uDLCount := c \<rparr>) \<and>
    (\<forall>bad. length bad = 4 \<longrightarrow> bad \<noteq> take 4 (drop 2 m) \<longrightarrow>
      decodeGNBDownlinkNAS A L (take 2 m @ bad @ drop 6 m) ue =
      (Inr (annotateGNBSecurityHeaderType (Some r) sht (take 2 m @ bad @ drop 6 m), Some False), ue\<lparr> uDLCount := c \<rparr>))"
proof -
  note un = unprotect_network [OF assms(1,2,7)]
  obtain mac ct where m: "m = [Epd5GSMobilityManagementMessage, sht] @ mac @ ucast c # ct" "length mac = 4"
    by (rule network_protect_shape [OF assms(1,7)])
  have dec: "decodeGNBDownlinkNAS A L ([Epd5GSMobilityManagementMessage, sht] @ x @ ucast c # ct) ue =
      (Inr (annotateGNBSecurityHeaderType (Some r) sht ([Epd5GSMobilityManagementMessage, sht] @ x @ ucast c # ct),
         Some (verr = None)), ue\<lparr> uDLCount := c \<rparr>)"
    if "length x = 4" "Unprotect L ([Epd5GSMobilityManagementMessage, sht] @ x @ ucast c # ct) c (uCipheringAlg ue)
      (uIntegrityAlg ue) (uKnasEnc ue) (uKnasInt ue) = (Some plain, verr)" for x verr
  proof (rule decode_active [where c = c and plain = plain])
    show "SecurityHeader L ([Epd5GSMobilityManagementMessage, sht] @ x @ ucast c # ct) = Inr sht"
      using unprotect_shape [OF assms(1) that(1), where sht = sht] assms(2) by simp
    show "NextDL (([Epd5GSMobilityManagementMessage, sht] @ x @ ucast c # ct) ! 6) ue = (c, ue\<lparr> uDLCount := c \<rparr>)"
      using that(1) by (simp add: NextDL_pair next_dl_window [OF assms(6)] nth_append)
  qed (use that assms in simp_all)
  have "decodeGNBDownlinkNAS A L m ue =
      (Inr (annotateGNBSecurityHeaderType (Some r) sht m, Some True), ue\<lparr> uDLCount := c \<rparr>)"
    using dec [OF m(2), of None] un m by simp
  moreover have "decodeGNBDownlinkNAS A L (take 2 m @ bad @ drop 6 m) ue =
      (Inr (annotateGNBSecurityHeaderType (Some r) sht (take 2 m @ bad @ drop 6 m), Some False), ue\<lparr> uDLCount := c \<rparr>)"
    if "length bad = 4" "bad \<noteq> take 4 (drop 2 m)" for bad
    using dec [OF that(1), of "Some ErrMACMismatch"] un that m by simp
  ultimately show ?thesis by blast
qed

section \<open>Security mode command\<close>

text \<open>The algorithm's NAS-MAC over some octets differs from the one for COUNT 0 under every other
  COUNT, as it does for the non-null integrity algorithms.\<close>

definition mac_binds_count :: "nas5_lib \<Rightarrow> u8 \<Rightarrow> bytes \<Rightarrow> bytes \<Rightarrow> bool" where
  "mac_binds_count L ia k x = (\<forall>c. \<exists>y. nas_mac L ia k c Bearer3GPP DirectionDownlink x = Inr y \<and>
     (c \<noteq> 0 \<longrightarrow> nas_mac L ia k 0 Bearer3GPP DirectionDownlink x \<noteq> Inr y))"

lemma next_dl_0_iff:
  assumes "unat d + 256 \<le> 4294967296"
  shows "next_dl d 0 = 0 \<longleftrightarrow> d = 0"
proof -
  have "unat (next_dl d 0) = 0 \<longleftrightarrow> unat d = 0"
  proof (cases "unat d mod 256 = 0")
    case True
    then have "unat d div 256 * 256 = unat d" using div_mult_mod_eq [of "unat d" 256] by linarith
    with True show ?thesis by (simp add: unat_next_dl Let_def)
  next
    case False
    then have "unat d div 256 * 256 + 256 < 4294967296" "unat d \<noteq> 0"
      using assms div_mult_mod_eq [of "unat d" 256] by (linarith, metis mod_0)
    with False show ?thesis by (simp add: unat_next_dl Let_def)
  qed
  then show ?thesis by (simp add: unat_eq_zero)
qed

lemma establish_context:
  assumes "nSelectedCipheringAlgorithm r = Some (uint ca)" "nSelectedIntegrityAlgorithm r = Some (uint ia)"
    and "Derive5GNASKeys A (uKamf ue) ca ia = Inr (kenc, kint)"
  shows "establishGNBSecurityContext A (Some r) ue =
    (Inr (), ue\<lparr> uCipheringAlg := ca, uIntegrityAlg := ia, uKnasEnc := kenc, uKnasInt := kint, uDLCount := 0,
       uSecurityActive := True \<rparr>)"
  using assms by (simp add: establishGNBSecurityContext_def Let_def)


text \<open>Concrete instances: a library whose NAS-MAC is the COUNT, one Security Mode Command that
  selects NEA2 and NIA1, and what it decodes to.\<close>

definition count_nas5 :: nas5_lib where
  "count_nas5 = toy_nas5\<lparr> nas_mac := (\<lambda>a k c b d x. Inr (be_bytes 4 c)),
     plain_decode := (\<lambda>m. Inr (Some \<lparr> gmType = 93, gmAuth = None, gmIdentity = None,
       gmSMC = Some \<lparr> svCiphering = 2, svIntegrity = 1, svKSI = 3, svReplayedLen = 0, svReplayed = [], svIMEISV = False \<rparr>,
       gmRegAccept = None, gmRegReject = None, gmSvcAccept = None, gmSvcReject = None, gmStatus = None,
       gmConfigUpdate = None, gmDLNAS = None \<rparr>, None)) \<rparr>"

definition smc_response :: NASResponse where
  "smc_response = (empty_response ''7e00'')\<lparr> nSecurityHeaderType := ''plain'', nMessageType := ''security_mode_command'',
     nSelectedCipheringAlgorithm := Some 2, nSelectedIntegrityAlgorithm := Some 1, nNgKSI := Some 3 \<rparr>"

lemma count_nas5_ok: "nas_lib_ok count_nas5"
  by (auto simp: nas_lib_ok_def count_nas5_def toy_nas5_def comp_def)

lemma count_nas5_decode: "DecodeNAS count_nas5 [0x7e, 0] = Inr smc_response"
  by (simp add: DecodeNAS_def count_nas5_def toy_nas5_def decodeGmm_def decodeSecurityModeCommand_def smc_response_def
      gmmMessageTypeName_def SecurityHeaderTypeString_def sht5_defs int_of_def hex_digit_def)

lemma toy_aka_keys: "uKamf ue = [7] \<Longrightarrow>
    Derive5GNASKeys toy_aka (uKamf ue) 2 1 = Inr (replicate 16 7, replicate 16 7)"
  by (simp add: Derive5GNASKeys_def toy_aka_def slice_def eval_nat_numeral)

lemma downlink_verified_witness:
  "decodeGNBDownlinkNAS toy_aka count_nas5 [0x7e, 2, 0, 0, 1, 2, 2, NOT 0x7e, NOT 0]
      ((sample_ue ''1'')\<lparr> uSecurityActive := True, uDLCount := 0xff \<rparr>) =
    (Inr (annotateGNBSecurityHeaderType (Some smc_response) 2 [0x7e, 2, 0, 0, 1, 2, 2, NOT 0x7e, NOT 0], Some True),
     (sample_ue ''1'')\<lparr> uSecurityActive := True, uDLCount := 0x102 \<rparr>)"
proof -
  have n: "network_protect count_nas5 [0x7e, 0] 2 0x102 0 0 [] [] = Inr [0x7e, 2, 0, 0, 1, 2, 2, NOT 0x7e, NOT 0]"
    by (simp add: network_protect_def count_nas5_def toy_nas5_def ciphered_def sht5_defs
        Epd5GSMobilityManagementMessage_def, code_simp)
  show ?thesis
    using downlink_verified [OF count_nas5_ok _ _ _ _ _ _ count_nas5_decode, of 2
        "(sample_ue ''1'')\<lparr> uSecurityActive := True, uDLCount := 0xff \<rparr>" "0x102"] n
    by (simp add: sample_ue_def sht5_defs is_new_context_def dl_window_def)
qed


section \<open>Uplink messages\<close>

text \<open>The network's side of the uplink: the recovered octets and whether the NAS-MAC is right.\<close>

definition network_receive ::
  "nas5_lib \<Rightarrow> bytes \<Rightarrow> u32 \<Rightarrow> u8 \<Rightarrow> u8 \<Rightarrow> bytes \<Rightarrow> bytes \<Rightarrow> (bytes \<times> bool) result" where
  "network_receive L m count ea ia kenc kint =
     rbind (nas_mac L ia kint count Bearer3GPP DirectionUplink (drop 6 m)) (\<lambda>mac.
     rbind (if ciphered (m ! 1) then nas_encrypt L ea kenc count Bearer3GPP DirectionUplink (drop 7 m)
            else Inr (drop 7 m)) (\<lambda>p.
     Inr (p, mac = take 4 (drop 2 m))))"

definition wants_corruption :: "SendGNBUENGAPRequest option \<Rightarrow> bool" where
  "wants_corruption req = (case req of None \<Rightarrow> False | Some r \<Rightarrow> rqCorruptMAC r)"

definition uplink_base :: "u8 \<Rightarrow> UEContext \<Rightarrow> u32" where
  "uplink_base sht ue = (if is_new_context sht then 0 else uULCount ue)"

lemma xor_ff_neq: "(x :: u8) XOR 0xff \<noteq> x"
proof
  assume "x XOR 0xff = x"
  then have "bit (x XOR 0xff) 0 = bit x 0" by simp
  then show False by (simp add: bit_simps)
qed

text \<open>C3. Every uplink message the encoder produces is accepted by a network with the same keys
  under the COUNT it was sent with (the context's own, 0 with a new security context, or the
  one the request forces), and gives it the re-encoded message; with \<open>corrupt_mac\<close> it is always
  rejected.  The context's uplink COUNT advances by one either way and the message is kept for
  a replay; nothing else changes but the COUNT reset of a new context.\<close>

theorem uplink_verified_by_network:
  assumes "nas_lib_ok L" "encodeGNBUplinkNAS L plain sht req ue = (Inr m, ue')"
  shows "(\<exists>payload. reencode_encode L plain sht = Inr payload \<and>
      network_receive L m (uplink_count (Option.bind req rqNASCountOverride) (uplink_base sht ue)) (uCipheringAlg ue) (uIntegrityAlg ue)
        (uKnasEnc ue) (uKnasInt ue) = Inr (payload, \<not> wants_corruption req)) \<and>
    ue' = ue\<lparr> uULCount := uplink_base sht ue + 1, uDLCount := (if is_new_context sht then 0 else uDLCount ue), uLastUplinkNAS := m \<rparr>"
proof -
  let ?c = "uplink_count (Option.bind req rqNASCountOverride) (uplink_base sht ue)"
  have act: "\<not> (\<not> uSecurityActive ue \<and> length (uKamf ue) = 0)"
    using assms(2) by (auto simp: encodeGNBUplinkNAS_def)
  obtain p where p: "Protect L plain sht ?c (uCipheringAlg ue) (uIntegrityAlg ue) (uKnasEnc ue) (uKnasInt ue) = Inr p"
    and mp: "m = (if wants_corruption req \<and> 7 \<le> length p then flip_octet 2 p else p)"
    and ue': "ue' = ue\<lparr> uULCount := uplink_base sht ue + 1, uDLCount := (if is_new_context sht then 0 else uDLCount ue), uLastUplinkNAS := m \<rparr>"
  proof -
    show thesis
      using assms(2) act that
      by (cases req; cases "is_new_context sht")
        (auto simp: encodeGNBUplinkNAS_def NextUL_def Let_def uplink_base_def wants_corruption_def split: sum.splits if_splits)
  qed
  from protect_layout [OF p] obtain payload ct mac where
    r: "reencode_encode L plain sht = Inr payload"
    and ct: "(if ciphered sht then nas_encrypt L (uCipheringAlg ue) (uKnasEnc ue) ?c Bearer3GPP DirectionUplink payload
              else Inr payload) = Inr ct"
    and mac: "nas_mac L (uIntegrityAlg ue) (uKnasInt ue) ?c Bearer3GPP DirectionUplink (ucast ?c # ct) = Inr mac"
    and pm: "p = [0x7e, sht] @ mac @ ucast ?c # ct" by blast
  have l: "length mac = 4" by (rule nas_lib_okD(2) [OF assms(1) mac])
  obtain m0 ms where m0: "mac = m0 # ms" "length ms = 3" using l by (cases mac) auto
  obtain mac' where m: "m = [0x7e, sht] @ mac' @ ucast ?c # ct" "length mac' = 4" "(mac' = mac) = (\<not> wants_corruption req)"
  proof (cases "wants_corruption req")
    case True
    then have "m = [0x7e, sht] @ ((m0 XOR 0xff) # ms) @ ucast ?c # ct"
      using mp pm m0 by (simp add: flip_octet_def numeral_2_eq_2)
    then show ?thesis using that [of "(m0 XOR 0xff) # ms"] True m0 xor_ff_neq by simp
  next
    case False
    then show ?thesis using that [of mac] mp pm l by simp
  qed
  have dec: "(if ciphered sht then nas_encrypt L (uCipheringAlg ue) (uKnasEnc ue) ?c Bearer3GPP DirectionUplink ct
      else Inr ct) = Inr payload"
  proof (cases "ciphered sht")
    case True
    then show ?thesis
      using ct nas_lib_okD(3) [OF assms(1), of "uCipheringAlg ue" "uKnasEnc ue" ?c Bearer3GPP DirectionUplink payload ct]
      by simp
  next
    case False
    then show ?thesis using ct by simp
  qed
  have "network_receive L m ?c (uCipheringAlg ue) (uIntegrityAlg ue) (uKnasEnc ue) (uKnasInt ue) =
      Inr (payload, \<not> wants_corruption req)"
    using m mac dec by (auto simp: network_receive_def)
  with r ue' show ?thesis by blast
qed

text \<open>Requests with every field absent.\<close>

definition no_options :: SendGNBUENGAPRequest where
  "no_options = \<lparr> rqMessageType = [], rqRegistrationType = None, rqRawNASPDU = None, 
     rqRRCEstablishmentCauseOverride = None, rqUEContextRequestOverride = None, 
     rqAMFUENGAPIDOverride = None, rqRANUENGAPIDOverride = None, rqResStarOverride = None, 
     rqInnerSMPayload = None, rqReleaseCause = None, rqSwitchOff = None, rqServiceType = None, 
     rqRequestTypeOverride = None, rqPTI = None, rqAlwaysOnRequested = None, rqFiveGSMCause = None, 
     rqNgKSI = None, rqMobileIdentityOverride = None, rqNonCurrentNativeNASKSI = None, 
     rqCapability5GMM = None, rqUESecurityCapabilityOverride = None, rqRequestedNSSAI = [], 
     rqLastVisitedRegisteredTAI = None, rqS1UENetworkCapability = None, rqUplinkDataStatus = None, 
     rqPDUSessionStatus = None, rqMICOIndication = None, rqUEStatus = None, rqAdditionalGUTI = None, 
     rqAllowedPDUSessionStatus = None, rqUEsUsageSetting = None, rqRequestedDRXParameters = None, 
     rqEPSNASMessageContainer = None, rqLADNIndication = None, rqPayloadContainer = None, 
     rqNetworkSlicingIndication = None, rqUpdateType5GS = None, rqNASMessageContainer = None, 
     rqEPSBearerContextStatus = None, rqFollowOnRequest = None, rqFiveGMMCause = None, 
     rqTargetGNBID = None, rqPDUSessionIDs = [], rqHandoverCancelCause = None, 
     rqHandoverRequiredCause = None, rqStatusTransferDRBs = [], rqPDUSessionIDOverride = None, 
     rqExistingConnection = False, rqReestablish = False, rqCorruptMAC = False, 
     rqNASCountOverride = None, rqReplayLast = False, rqTimeoutMs = 0, rqUERadioCapability = None \<rparr>"

definition no_options_EPS :: SendENBUES1APRequest where
  "no_options_EPS = \<lparr> sqMessageType = [], sqPDNType = 0, sqAttachType = 0, sqForeignGUTI = False, 
     sqUENetworkCapabilityOverride = None, sqOldPTMSISignature = None, sqAdditionalGUTI = None, 
     sqLastVisitedRegisteredTAI = None, sqDRXParameter = None, sqMSNetworkCapability = None, 
     sqOldLocationAreaID = None, sqTMSIStatus = None, sqMobileStationClassmark2 = None, 
     sqMobileStationClassmark3 = None, sqSupportedCodecs = None, sqAdditionalUpdateType = None, 
     sqVoiceDomainPreference = None, sqDeviceProperties = None, sqOldGUTIType = None, 
     sqMSNetworkFeatureSupport = None, sqTMSIBasedNRIContainer = None, sqT3324Value = None, 
     sqT3412ExtendedValue = None, sqExtendedDRXParameters = None, 
     sqUEAdditionalSecurityCapability = None, sqUEStatus = None, 
     sqAdditionalInformationRequested = None, sqN1UENetworkCapability = None, 
     sqUERadioCapabilityIDAvailability = None, sqRequestedWUSAssistance = None, 
     sqDRXParameterNBS1Mode = None, sqRequestedIMSIOffset = None, sqRawNASPDU = None, 
     sqCorruptMAC = False, sqExistingConnection = False, sqReestablish = False, 
     sqMMEUES1APIDOverride = None, sqENBUES1APIDOverride = None, 
     sqRRCEstablishmentCauseOverride = None, sqReplayLast = False, sqSwitchOff = False, 
     sqReleaseCause = None, sqUERadioCapability = None, sqMTMSIOverride = None, 
     sqNASCountOverride = None, sqEPSUpdateType = 0, sqAPN = [], sqPTI = None, sqRequestEBI = None, 
     sqLinkedEBI = None, sqEPSBearerIdentity = None, sqESMCause = None, sqWithholdAccept = False, 
     sqRESOverride = None, sqEMMCause = None, sqTargetENBID = None, sqHandoverRequiredCause = None, 
     sqHandoverCancelCause = None, sqStatusTransferContainer = None, sqTimeoutMs = 0 \<rparr>"


lemma uplink_verified_by_network_witness:
  "let req = no_options\<lparr> rqCorruptMAC := True, rqNASCountOverride := Some 9 \<rparr>;
       ue = (sample_ue ''1'')\<lparr> uSecurityActive := True, uULCount := 4 \<rparr>;
       m = [0x7e, 2, 0xff, 0, 0, 9, 9, NOT 1, NOT 2]
   in encodeGNBUplinkNAS count_nas5 [1, 2] 2 (Some req) ue = (Inr m, ue\<lparr> uULCount := 5, uLastUplinkNAS := m \<rparr>) \<and>
      network_receive count_nas5 m 9 0 0 [] [] = Inr ([1, 2], False)"
proof -
  let ?req = "no_options\<lparr> rqCorruptMAC := True, rqNASCountOverride := Some 9 \<rparr>"
  let ?ue = "(sample_ue ''1'')\<lparr> uSecurityActive := True, uULCount := 4 \<rparr>"
  let ?m = "[0x7e, 2, 0xff, 0, 0, 9, 9, NOT 1, NOT 2] :: bytes"
  have b: "be_bytes 4 (9 :: u32) = [0, 0, 0, 9]" by code_simp
  have "Protect count_nas5 [1, 2] 2 9 0 0 [] [] = Inr [0x7e, 2, 0, 0, 0, 9, 9, NOT 1, NOT 2]"
    by (simp add: count_nas5_def toy_nas5_def Protect_def ciphered_def sht5_defs b
        Epd5GSMobilityManagementMessage_def del: be_bytes.simps)
  then have "encodeGNBUplinkNAS count_nas5 [1, 2] 2 (Some ?req) ?ue = (Inr ?m, ?ue\<lparr> uULCount := 5, uLastUplinkNAS := ?m \<rparr>)"
    by (simp add: encodeGNBUplinkNAS_def NextUL_def sht5_defs
        is_new_context_def uplink_count_def sample_ue_def no_options_def flip_octet_def numeral_2_eq_2 Let_def)
  with uplink_verified_by_network [OF count_nas5_ok this] show ?thesis
    by (simp add: Let_def wants_corruption_def uplink_base_def uplink_count_def is_new_context_def sht5_defs
        no_options_def sample_ue_def count_nas5_def toy_nas5_def)
qed

section \<open>Security mode command, EPS\<close>

text \<open>The EPS side: a genuine Security Mode Command sent under COUNT 0 establishes the
  context and resets both COUNTs, and here too it is reported as verified exactly when the old
  downlink COUNT was 0.  Of the library it assumes that the message verifies under COUNT 0
  and under no other.\<close>

theorem smc_establishes_context_EPS:
  assumes "SecurityHeader_EPS m = Inr SHTIntegrityProtectedNewContext" "6 \<le> length m" "m ! 5 = 0"
    and "parse_protected L m = Inr smc" "DecodeNAS_EPS L smc = (Some r, None)"
    and "xSelectedCipheringAlgorithm r = Some (uint ca)" "xSelectedIntegrityAlgorithm r = Some (uint ia)"
    and "integrityFor ia = Inr integ" "cipherFor ca = Inr ciph"
    and "DeriveEPSNASKeys A (vKasme ue) ca ia = Inr (kenc, kint)"
    and "lunprotect L m 0 DirDownlink kint kenc integ ciph = (Some smc, None)"
    and "\<forall>c. c \<noteq> 0 \<longrightarrow> snd (lunprotect L m c DirDownlink kint kenc integ ciph) \<noteq> None"
    and "unat (vDLCount ue) + 256 \<le> 4294967296"
  shows "\<exists>resp v. decodeENBDownlinkNAS A L m ue = (Inr (resp, v),
      ue\<lparr> vCipheringAlg := ca, vIntegrityAlg := ia, vKnasEnc := kenc, vKnasInt := kint, vULCount := 0, vDLCount := 0,
          vSecurityActive := True \<rparr>) \<and> (v = Some True) = (vDLCount ue = 0)"
proof -
  let ?n = "next_dl (vDLCount ue) 0"
  let ?u = "lunprotect L m ?n DirDownlink kint kenc integ ciph"
  have est: "establishENBSecurityContext A (Some r) (ue\<lparr> vDLCount := ?n \<rparr>) = (Inr (),
      ue\<lparr> vCipheringAlg := ca, vIntegrityAlg := ia, vKnasEnc := kenc, vKnasInt := kint, vULCount := 0, vDLCount := 0,
          vSecurityActive := True \<rparr>)"
    using assms(6,7,10) by (simp add: establishENBSecurityContext_def Let_def)
  have d: "decodeENBDownlinkNAS A L m ue = ((case ?u of (None, _) \<Rightarrow> Inr (None, None)
      | (Some plain, verr) \<Rightarrow> Inr (annotateENBSecurityHeaderType (fst (DecodeNAS_EPS L plain)) m, Some (verr = None))),
      ue\<lparr> vCipheringAlg := ca, vIntegrityAlg := ia, vKnasEnc := kenc, vKnasInt := kint, vULCount := 0, vDLCount := 0,
          vSecurityActive := True \<rparr>)"
    using assms(1-5,8,9) est
    by (simp add: decodeENBDownlinkNAS_def NextDL_EPS_def Let_def epsDLSequenceNumber_def is_new_context_EPS_def
        new_context_step_EPS_def PeekProtectedPayload_EPS_def Unprotect_EPS_def sht_eps_defs split: prod.split option.split)
  have n: "?n = 0 \<longleftrightarrow> vDLCount ue = 0" by (rule next_dl_0_iff [OF assms(13)])
  show ?thesis
  proof (cases "vDLCount ue = 0")
    case True
    then show ?thesis using d n assms(11) by simp
  next
    case False
    with n assms(12) have "snd ?u \<noteq> None" by simp
    then show ?thesis using d False by (cases ?u) (auto split: option.split)
  qed
qed


definition not_used :: "'a result" where "not_used = Inl (Errorf ''unused'')"

text \<open>An instance of the EPS library: only Security Mode Commands parse, and a protected message
  verifies under COUNT 0 only.\<close>

definition toy_eps :: eps_lib where
  "toy_eps = \<lparr> peek_type = (\<lambda>m. Inr (m ! 1)), peek_esm_type = (\<lambda>m. not_used), parse_auth_request = (\<lambda>m. not_used),
     parse_smc = (\<lambda>m. Inr \<lparr> esCiphering = 2, esIntegrity = 1, esIMEISV = False, esKSI = 3, esReplayed = [] \<rparr>),
     parse_attach_accept = (\<lambda>m. not_used), parse_attach_reject = (\<lambda>m. not_used), parse_tau_accept = (\<lambda>m. not_used),
     parse_identity_request = (\<lambda>m. not_used), parse_default_bearer = (\<lambda>m. not_used),
     parse_pdn_connectivity_reject = (\<lambda>m. not_used), parse_pdn_disconnect_reject = (\<lambda>m. not_used), parse_deactivate = (\<lambda>m. not_used),
     parse_modify = (\<lambda>m. not_used), parse_esm_status = (\<lambda>m. not_used), parse_protected = (\<lambda>m. Inr (drop 6 m)),
     lprotect = (\<lambda>p s c d ki ke i a. Inr p),
     lunprotect = (\<lambda>m c d ki ke i a. (Some (drop 6 m), if c = 0 then None else Some (Errorf ''mac''))) \<rparr>"

lemma smc_establishes_context_EPS_witness:
  "\<exists>resp v. decodeENBDownlinkNAS toy_aka toy_eps [0x37, 0, 0, 0, 0, 0, 0x07, 0x5d]
      ((sample_ue_eps ''1'')\<lparr> vKasme := [7], vDLCount := 5 \<rparr>) = (Inr (resp, v),
      (sample_ue_eps ''1'')\<lparr> vKasme := [7], vCipheringAlg := 2, vIntegrityAlg := 1, vKnasEnc := replicate 16 7,
         vKnasInt := replicate 16 7, vULCount := 0, vDLCount := 0, vSecurityActive := True \<rparr>) \<and> v \<noteq> Some True"
proof -
  let ?m = "[0x37, 0, 0, 0, 0, 0, 0x07, 0x5d] :: bytes"
  let ?ue = "(sample_ue_eps ''1'')\<lparr> vKasme := [7], vDLCount := 5 \<rparr>"
  obtain r where r: "DecodeNAS_EPS toy_eps [0x07, 0x5d] = (Some r, None)" "xSelectedCipheringAlgorithm r = Some 2"
    "xSelectedIntegrityAlgorithm r = Some 1"
    by (simp add: toy_eps_def emm_filler_def decodeSecurityModeCommand_EPS_def on_parse_def PDESM_def Let_def)
  have d: "drop_bit 4 (0x37 :: u8) = 3" by code_simp
  have "\<exists>resp v. decodeENBDownlinkNAS toy_aka toy_eps ?m ?ue = (Inr (resp, v),
      ?ue\<lparr> vCipheringAlg := 2, vIntegrityAlg := 1, vKnasEnc := replicate 16 7, vKnasInt := replicate 16 7,
          vULCount := 0, vDLCount := 0, vSecurityActive := True \<rparr>) \<and> (v = Some True) = (vDLCount ?ue = 0)"
  proof (rule smc_establishes_context_EPS [OF _ _ _ _ r(1)])
    show "SecurityHeader_EPS ?m = Inr SHTIntegrityProtectedNewContext" by (simp add: PDEMM_def sht_eps_defs d)
    show "DeriveEPSNASKeys toy_aka (vKasme ?ue) 2 1 = Inr (replicate 16 7, replicate 16 7)"
      by (simp add: DeriveEPSNASKeys_def toy_aka_def slice_def eval_nat_numeral)
    show "integrityFor 1 = Inr SNOW3GIntegrity" "cipherFor 2 = Inr AESCTRCipher"
      by (simp_all add: integrityFor_def cipherFor_def)
  qed (use r in \<open>simp_all add: toy_eps_def\<close>)
  then show ?thesis by simp
qed

end
