(* ===== verification/Ngap_Types.thy ===== *)
theory Ngap_Types
  imports Prelude
begin

text \<open>
  The JSON view of NGAP: \<open>internal/ngap/types.go\<close>.  A struct is a record whose fields carry
  a prefix of the struct; a pointer is an option, a slice a list (an option of a
  list where the code tells nil from empty), a 64-bit integer an
  \<open>int\<close>, octets of a raw JSON value a byte string.
\<close>

record COUNTValueJSON =
  cv_PDCPSN :: int
  cv_HFN :: int

record DRBStatusTransferItemJSON =
  dj_DRBID :: int
  dj_ULCount :: "COUNTValueJSON option"
  dj_DLCount :: "COUNTValueJSON option"

record RANStatusTransferJSON =
  rs_DRBs :: "DRBStatusTransferItemJSON list"

record UESecurityCapabilitiesJSON =
  uc_NREncryption :: string
  uc_NRIntegrity :: string
  uc_EUTRAEncryption :: string
  uc_EUTRAIntegrity :: string

record PDUSessionSetupItemJSON =
  pi_PDUSessionID :: int
  pi_ULTeid :: u32
  pi_TransportLayerAddress :: string
  pi_TransportLayerAddressIPv6 :: string

record GlobalGNBIDJSON =
  gg_PLMNIdentity :: string
  gg_GNBID :: string
  gg_GNBIDBitLength :: int

record GlobalRANNodeIDJSON =
  gn_Present :: string
  gn_GlobalGNBID :: "GlobalGNBIDJSON option"

record SliceSupportJSON =
  ss_SST :: string
  ss_SD :: string

record BroadcastPLMNItemJSON =
  bp_PLMNIdentity :: string
  bp_SliceSupport :: "SliceSupportJSON list"

record SupportedTAItemJSON =
  ti_TAC :: string
  ti_BroadcastPLMNs :: "BroadcastPLMNItemJSON list"

record SupportedTAListJSON =
  tl_Items :: "SupportedTAItemJSON list"

record NRCGIJSON =
  nc_PLMNIdentity :: string
  nc_NRCellIdentity :: string

record TAIJSON =
  ta_PLMNIdentity :: string
  ta_TAC :: string

record UserLocationInformationNRJSON =
  un_NRCGI :: NRCGIJSON
  un_TAI :: TAIJSON

record UserLocationInformationJSON =
  ul_Present :: string
  ul_NR :: "UserLocationInformationNRJSON option"

record FiveGSTMSIJSON =
  ft_AMFSetID :: string
  ft_AMFPointer :: string
  ft_FiveGTMSI :: string

record PagingJSON =
  pg_FiveGSTMSI :: "FiveGSTMSIJSON option"

record SecurityContextJSON =
  sc_NextHopChainingCount :: int
  sc_NextHop :: string

record CauseJSON =
  cj_Group :: string
  cj_Value :: int

record ServedGUAMIJSON =
  sg_PLMNIdentity :: string
  sg_AMFRegionID :: string
  sg_AMFSetID :: string
  sg_AMFPointer :: string

record PLMNSupportJSON =
  ps_PLMNIdentity :: string
  ps_SliceSupport :: "SliceSupportJSON list"

record IECriticalityDiagnosticJSON =
  ic_IECriticality :: string
  ic_IEID :: int
  ic_TypeOfError :: string

record CriticalityDiagnosticsJSON =
  cd_ProcedureCode :: "int option"
  cd_TriggeringMessage :: "string option"
  cd_ProcedureCriticality :: "string option"
  cd_IEsCriticalityDiagnostics :: "IECriticalityDiagnosticJSON list"

record AllowedNSSAIItemJSON =
  an_SST :: string
  an_SD :: string

record MobilityRestrictionListJSON =
  mr_ServingPLMN :: string
  mr_EquivalentPLMNs :: "string list"
  mr_RATRestrictions :: "string list"
  mr_ForbiddenAreaInformation :: "string list"
  mr_ServiceAreaInformation :: "string list"

record UEAggregateMaxBitRateJSON =
  ub_DL :: int
  ub_UL :: int

record IE =
  ie_ID :: int
  ie_Criticality :: string
  ie_Value :: bytes
  ie_GlobalRANNodeID :: "GlobalRANNodeIDJSON option"
  ie_RANNodeName :: "string option"
  ie_SupportedTAList :: "SupportedTAListJSON option"
  ie_DefaultPagingDRX :: "int option"
  ie_RANUENGAPID :: "int option"
  ie_AMFUENGAPID :: "int option"
  ie_NasPDU :: "string option"
  ie_UserLocationInformation :: "UserLocationInformationJSON option"
  ie_RRCEstablishmentCause :: "int option"
  ie_FiveGSTMSI :: "FiveGSTMSIJSON option"
  ie_UEContextRequest :: "int option"
  ie_Cause :: "CauseJSON option"
  ie_AMFName :: "string option"
  ie_ServedGUAMIList :: "ServedGUAMIJSON list"
  ie_RelativeAMFCapacity :: "int option"
  ie_PLMNSupportList :: "PLMNSupportJSON list"
  ie_UERetentionInformation :: "int option"
  ie_CriticalityDiagnostics :: "CriticalityDiagnosticsJSON option"
  ie_TimeToWait :: "string option"
  ie_AMFSetID :: "string option"
  ie_AllowedNSSAI :: "AllowedNSSAIItemJSON list option"
  ie_SelectedPLMNIdentity :: "string option"
  ie_OldAMF :: "string option"
  ie_RANPagingPriority :: "int option"
  ie_MobilityRestrictionList :: "MobilityRestrictionListJSON option"
  ie_IndexToRFSP :: "int option"
  ie_UEAggregateMaxBitRate :: "UEAggregateMaxBitRateJSON option"
  ie_UERadioCapability :: "string option"
  ie_PDUSessionSetupItems :: "PDUSessionSetupItemJSON list"
  ie_PDUSessionIDs :: "int list"
  ie_ReleasePDUSessionIDs :: "int list"
  ie_NextHopChainingCount :: "int option"
  ie_NextHop :: "string option"
  ie_UESecurityCapabilities :: "UESecurityCapabilitiesJSON option"
  ie_RANStatusTransfer :: "RANStatusTransferJSON option"
  ie_SourceToTargetContainer :: "string option"

record NGAPMessage =
  gm_ProcedureCode :: int
  gm_PDUType :: string
  gm_Criticality :: string
  gm_IEs :: "IE list"

record ResetConnectionJSON =
  rc_AMFUENGAPID :: "int option"
  rc_RANUENGAPID :: "int option"

record UnknownIEJSON =
  ui_ID :: int
  ui_Criticality :: string
  ui_ValueHex :: string

record NGAPResponse =
  nr_PDUType :: string
  nr_MessageType :: string
  nr_RawHex :: string
  nr_GlobalRANNodeID :: "GlobalRANNodeIDJSON option"
  nr_RANNodeName :: "string option"
  nr_SupportedTAList :: "SupportedTAListJSON option"
  nr_DefaultPagingDRX :: "int option"
  nr_RANUENGAPID :: "int option"
  nr_AMFUENGAPID :: "int option"
  nr_NasPDU :: "string option"
  nr_UserLocationInformation :: "UserLocationInformationJSON option"
  nr_RRCEstablishmentCause :: "int option"
  nr_Paging :: "PagingJSON option"
  nr_UEContextRequest :: "int option"
  nr_Cause :: "CauseJSON option"
  nr_AMFName :: "string option"
  nr_ServedGUAMIList :: "ServedGUAMIJSON list"
  nr_RelativeAMFCapacity :: "int option"
  nr_PLMNSupportList :: "PLMNSupportJSON list"
  nr_UERetentionInformation :: "int option"
  nr_CriticalityDiagnostics :: "CriticalityDiagnosticsJSON option"
  nr_TimeToWait :: "string option"
  nr_AMFSetID :: "string option"
  nr_AllowedNSSAI :: "AllowedNSSAIItemJSON list"
  nr_SelectedPLMNIdentity :: "string option"
  nr_OldAMF :: "string option"
  nr_RANPagingPriority :: "int option"
  nr_MobilityRestrictionList :: "MobilityRestrictionListJSON option"
  nr_IndexToRFSP :: "int option"
  nr_UEAggregateMaxBitRate :: "UEAggregateMaxBitRateJSON option"
  nr_UERadioCapability :: "string option"
  nr_PDUSessionSetupItems :: "PDUSessionSetupItemJSON list"
  nr_PDUSessionIDs :: "int list"
  nr_ReleasePDUSessionIDs :: "int list"
  nr_SecurityContext :: "SecurityContextJSON option"
  nr_UESecurityCapabilities :: "UESecurityCapabilitiesJSON option"
  nr_RANStatusTransfer :: "RANStatusTransferJSON option"
  nr_SourceToTargetContainer :: "string option"
  nr_ResetConnections :: "ResetConnectionJSON list"
  nr_UnknownIEs :: "UnknownIEJSON list"

end
