(* ===== verification/Ngap_Pdu.thy ===== *)
theory Ngap_Pdu
  imports Ngap_Types Netip
begin

text \<open>
  The NGAP PDU as the ASN.1 library presents it (\<open>ngapType\<close>): the outer choice, the procedure
  code, the message chosen inside and its list of information elements, each with its identity,
  its criticality and the one alternative of its CHOICE that is set.  The library's codec
  (\<open>ngap.Encoder\<close>, \<open>ngap.Decoder\<close>, \<open>aper.MarshalWithParams\<close>) is third-party code and a parameter.
\<close>

section \<open>Values\<close>

text \<open>\<open>aper.Enumerated\<close> is a 64-bit unsigned integer, \<open>aper.BitString\<close> octets with a bit length.\<close>

type_synonym enumerated = u64

definition Enumerated :: "int \<Rightarrow> enumerated" where "Enumerated v = word_of_int v"

record BitString =
  bsBytes :: bytes
  bsBitLength :: int

datatype cause =
    RadioNetwork enumerated
  | Transport enumerated
  | Nas enumerated
  | Protocol enumerated
  | Misc enumerated
  | OtherCause int

record snssai =
  snsSST :: bytes
  snsSD :: "bytes option"

record user_location_nr =
  ulnPLMN :: bytes
  ulnCell :: BitString
  ulnTAIPLMN :: bytes
  ulnTAC :: bytes

record five_g_s_tmsi =
  tmsSetID :: BitString
  tmsPointer :: BitString
  tmsTMSI :: bytes

record guami =
  guaPLMN :: bytes
  guaRegion :: BitString
  guaSetID :: BitString
  guaPointer :: BitString

record security_caps =
  capNREnc :: BitString
  capNRInt :: BitString
  capEUTRAEnc :: BitString
  capEUTRAInt :: BitString

record drb_status =
  drbID :: int
  drbUL :: "(int \<times> int) option"
  drbDL :: "(int \<times> int) option"

record crit_diagnostics =
  crdProcedure :: "int option"
  crdTriggering :: "enumerated option"
  crdCriticality :: "enumerated option"
  crdIEs :: "(enumerated \<times> int \<times> enumerated) list option"

record gtp_tunnel =
  tunAddress :: BitString
  tunTEID :: bytes

datatype ue_ids = UEPair int int | UEAMF int | UEOther int

text \<open>The alternatives of an information element's value: one per pointer of the \<open>IEsValue\<close>
  structs that the program reads or sets.  \<open>VAbsent\<close>: no alternative is set (the library decoder
  dropped an identity its CHOICE does not have); \<open>VOther\<close>: an alternative the program never looks
  at.\<close>

datatype (plugins only: code) ie_value =
    VAbsent
  | VOther int bytes
  | VAMFUENGAPID int
  | VRANUENGAPID int
  | VSourceAMFUENGAPID int
  | VNASPDU bytes
  | VUserLocationInformation user_location_nr
  | VCause cause
  | VGlobalRANNodeID bytes BitString
  | VRANNodeName string
  | VSupportedTAList "(bytes \<times> (bytes \<times> snssai list) list) list"
  | VDefaultPagingDRX enumerated
  | VUERetentionInformation enumerated
  | VRRCEstablishmentCause enumerated
  | VFiveGSTMSI five_g_s_tmsi
  | VUEContextRequest enumerated
  | VAMFSetID BitString
  | VAllowedNSSAI "snssai list"
  | VHandoverType enumerated
  | VTargetID bytes BitString bytes bytes
  | VResourceListHORqd "(int \<times> bytes) list"
  | VSourceToTarget bytes
  | VTargetToSource bytes
  | VAdmittedList "(int \<times> bytes) list"
  | VFailedToSetupListHOAck "(int \<times> bytes) list"
  | VRANStatusTransfer "drb_status list"
  | VUESecurityCapabilities security_caps
  | VToBeSwitchedDLList "(int \<times> bytes) list"
  | VFailedToSetupListPSReq "(int \<times> bytes) list"
  | VResetAll enumerated
  | VResetPart "(int option \<times> int option) list"
  | VSetupListSURes "(int \<times> bytes) list"
  | VUERadioCapability bytes
  | VSwitchedList "(int \<times> bytes) list"
  | VReleasedListPSAck "(int \<times> bytes) list"
  | VReleasedListPSFail "(int \<times> bytes) list"
  | VSecurityContext int BitString
  | VHandoverList "(int \<times> bytes) list"
  | VToReleaseListHOCmd "(int \<times> bytes) list"
  | VLogicalConnectionList "(int option \<times> int option) list"
  | VModifyListModReq "(int \<times> bytes option) list"
  | VUEPagingIdentity "five_g_s_tmsi option"
  | VCriticalityDiagnostics crit_diagnostics
  | VSetupListHOReq "(int \<times> bytes) list"
  | VUEAggregateMaximumBitRate int int
  | VSetupListCxtReq "(int \<times> bytes option \<times> bytes) list"
  | VSetupListSUReq "(int \<times> bytes option \<times> bytes) list"
  | VOldAMF string
  | VRANPagingPriority int
  | VMobilityRestrictionList bytes "bytes list option"
  | VIndexToRFSP int
  | VAMFName string
  | VServedGUAMIList "guami list"
  | VRelativeAMFCapacity int
  | VPLMNSupportList "(bytes \<times> snssai list) list"
  | VTimeToWait enumerated
  | VUENGAPIDs ue_ids

record protocol_ie =
  pieId :: int
  pieCriticality :: enumerated
  pieValue :: ie_value

section \<open>PDUs\<close>

datatype pdu_kind = InitiatingMessage | SuccessfulOutcome | UnsuccessfulOutcome | OtherPDU int

datatype (plugins only: code) message =
    NGSetupRequest | InitialUEMessage | UplinkNASTransport | NGReset | ErrorIndication
  | HandoverRequired | HandoverCancel | UplinkRANStatusTransfer | HandoverNotify
  | PathSwitchRequest | UERadioCapabilityInfoIndication | UEContextReleaseRequest
  | DownlinkNASTransport | InitialContextSetupRequest | PDUSessionResourceSetupRequest
  | PDUSessionResourceReleaseCommand | PDUSessionResourceModifyRequest | HandoverRequest
  | UEContextReleaseCommand | Paging | DownlinkRANStatusTransfer
  | NGSetupResponse | NGResetAcknowledge | HandoverCommand | HandoverCancelAcknowledge
  | InitialContextSetupResponse | PDUSessionResourceSetupResponse | UEContextReleaseComplete
  | PathSwitchRequestAcknowledge | HandoverRequestAcknowledge | PDUSessionResourceReleaseResponse
  | NGSetupFailure | HandoverPreparationFailure | PathSwitchRequestFailure
  | InitialContextSetupFailure | HandoverFailure
  | OtherMessage int

text \<open>\<open>pduIEs\<close> is \<open>None\<close> when the pointer to the message is nil.\<close>

record NGAPPDU =
  pduPresent :: pdu_kind
  pduProcedure :: int
  pduCriticality :: enumerated
  pduMessage :: message
  pduIEs :: "protocol_ie list option"

text \<open>The information elements inside a transfer the core sends, and the transfers the program
  marshals.\<close>

record transfer_ie =
  tieId :: int
  tieULNGUUPTNL :: "gtp_tunnel option option"

datatype transfer =
    PDUSessionResourceSetupResponseTransfer gtp_tunnel "int list"
  | HandoverRequiredTransfer
  | HandoverRequestAcknowledgeTransfer gtp_tunnel "int list"
  | HandoverResourceAllocationUnsuccessfulTransfer cause
  | PathSwitchRequestTransfer gtp_tunnel "int list"
  | PathSwitchRequestSetupFailedTransfer cause

text \<open>The third-party code: \<open>ngap.Encoder\<close>, \<open>ngap.Decoder\<close>, \<open>aper.MarshalWithParams\<close> of a transfer
  and of one alternative of a message's CHOICE, \<open>aper.UnmarshalWithParams\<close> of a setup request
  transfer, and \<open>ngapConvert.HexToBitString\<close>.\<close>

record ngap_lib =
  Encoder :: "NGAPPDU \<Rightarrow> bytes result"
  Decoder :: "bytes \<Rightarrow> NGAPPDU result"
  MarshalTransfer :: "transfer \<Rightarrow> bytes result"
  MarshalValue :: "message \<Rightarrow> ie_value \<Rightarrow> bytes result"
  UnmarshalSetupRequest :: "bytes \<Rightarrow> transfer_ie list result"
  HexToBitString :: "string \<Rightarrow> int \<Rightarrow> BitString"

section \<open>Constants of the specification\<close>

abbreviation (input) CriticalityReject :: enumerated where "CriticalityReject \<equiv> 0"
abbreviation (input) CriticalityIgnore :: enumerated where "CriticalityIgnore \<equiv> 1"
abbreviation (input) CriticalityNotify :: enumerated where "CriticalityNotify \<equiv> 2"

text \<open>Protocol IE identities.\<close>

abbreviation (input) ID_AllowedNSSAI :: int where "ID_AllowedNSSAI \<equiv> 0"
abbreviation (input) ID_AMFName :: int where "ID_AMFName \<equiv> 1"
abbreviation (input) ID_AMFSetID :: int where "ID_AMFSetID \<equiv> 3"
abbreviation (input) ID_AMFUENGAPID :: int where "ID_AMFUENGAPID \<equiv> 10"
abbreviation (input) ID_Cause :: int where "ID_Cause \<equiv> 15"
abbreviation (input) ID_CriticalityDiagnostics :: int where "ID_CriticalityDiagnostics \<equiv> 19"
abbreviation (input) ID_DefaultPagingDRX :: int where "ID_DefaultPagingDRX \<equiv> 21"
abbreviation (input) ID_FiveGSTMSI :: int where "ID_FiveGSTMSI \<equiv> 26"
abbreviation (input) ID_GlobalRANNodeID :: int where "ID_GlobalRANNodeID \<equiv> 27"
abbreviation (input) ID_HandoverType :: int where "ID_HandoverType \<equiv> 29"
abbreviation (input) ID_IndexToRFSP :: int where "ID_IndexToRFSP \<equiv> 31"
abbreviation (input) ID_MobilityRestrictionList :: int where "ID_MobilityRestrictionList \<equiv> 36"
abbreviation (input) ID_NASPDU :: int where "ID_NASPDU \<equiv> 38"
abbreviation (input) ID_OldAMF :: int where "ID_OldAMF \<equiv> 48"
abbreviation (input) ID_PDUSessionResourceAdmittedList :: int where "ID_PDUSessionResourceAdmittedList \<equiv> 53"
abbreviation (input) ID_PDUSessionResourceFailedToSetupListHOAck :: int where "ID_PDUSessionResourceFailedToSetupListHOAck \<equiv> 56"
abbreviation (input) ID_PDUSessionResourceFailedToSetupListPSReq :: int where "ID_PDUSessionResourceFailedToSetupListPSReq \<equiv> 57"
abbreviation (input) ID_PDUSessionResourceHandoverList :: int where "ID_PDUSessionResourceHandoverList \<equiv> 59"
abbreviation (input) ID_PDUSessionResourceListHORqd :: int where "ID_PDUSessionResourceListHORqd \<equiv> 61"
abbreviation (input) ID_PDUSessionResourceModifyListModReq :: int where "ID_PDUSessionResourceModifyListModReq \<equiv> 64"
abbreviation (input) ID_PDUSessionResourceReleasedListPSAck :: int where "ID_PDUSessionResourceReleasedListPSAck \<equiv> 68"
abbreviation (input) ID_PDUSessionResourceReleasedListPSFail :: int where "ID_PDUSessionResourceReleasedListPSFail \<equiv> 69"
abbreviation (input) ID_PDUSessionResourceSetupListCxtReq :: int where "ID_PDUSessionResourceSetupListCxtReq \<equiv> 71"
abbreviation (input) ID_PDUSessionResourceSetupListHOReq :: int where "ID_PDUSessionResourceSetupListHOReq \<equiv> 73"
abbreviation (input) ID_PDUSessionResourceSetupListSUReq :: int where "ID_PDUSessionResourceSetupListSUReq \<equiv> 74"
abbreviation (input) ID_PDUSessionResourceSetupListSURes :: int where "ID_PDUSessionResourceSetupListSURes \<equiv> 75"
abbreviation (input) ID_PDUSessionResourceToBeSwitchedDLList :: int where "ID_PDUSessionResourceToBeSwitchedDLList \<equiv> 76"
abbreviation (input) ID_PDUSessionResourceSwitchedList :: int where "ID_PDUSessionResourceSwitchedList \<equiv> 77"
abbreviation (input) ID_PDUSessionResourceToReleaseListHOCmd :: int where "ID_PDUSessionResourceToReleaseListHOCmd \<equiv> 78"
abbreviation (input) ID_PLMNSupportList :: int where "ID_PLMNSupportList \<equiv> 80"
abbreviation (input) ID_RANNodeName :: int where "ID_RANNodeName \<equiv> 82"
abbreviation (input) ID_RANPagingPriority :: int where "ID_RANPagingPriority \<equiv> 83"
abbreviation (input) ID_RANStatusTransferTransparentContainer :: int where "ID_RANStatusTransferTransparentContainer \<equiv> 84"
abbreviation (input) ID_RANUENGAPID :: int where "ID_RANUENGAPID \<equiv> 85"
abbreviation (input) ID_RelativeAMFCapacity :: int where "ID_RelativeAMFCapacity \<equiv> 86"
abbreviation (input) ID_ResetType :: int where "ID_ResetType \<equiv> 88"
abbreviation (input) ID_RRCEstablishmentCause :: int where "ID_RRCEstablishmentCause \<equiv> 90"
abbreviation (input) ID_SecurityContext :: int where "ID_SecurityContext \<equiv> 93"
abbreviation (input) ID_ServedGUAMIList :: int where "ID_ServedGUAMIList \<equiv> 96"
abbreviation (input) ID_SourceAMFUENGAPID :: int where "ID_SourceAMFUENGAPID \<equiv> 100"
abbreviation (input) ID_SourceToTargetTransparentContainer :: int where "ID_SourceToTargetTransparentContainer \<equiv> 101"
abbreviation (input) ID_SupportedTAList :: int where "ID_SupportedTAList \<equiv> 102"
abbreviation (input) ID_TargetID :: int where "ID_TargetID \<equiv> 105"
abbreviation (input) ID_TargetToSourceTransparentContainer :: int where "ID_TargetToSourceTransparentContainer \<equiv> 106"
abbreviation (input) ID_TimeToWait :: int where "ID_TimeToWait \<equiv> 107"
abbreviation (input) ID_UEAggregateMaximumBitRate :: int where "ID_UEAggregateMaximumBitRate \<equiv> 110"
abbreviation (input) ID_UEAssociatedLogicalNGConnectionList :: int where "ID_UEAssociatedLogicalNGConnectionList \<equiv> 111"
abbreviation (input) ID_UEContextRequest :: int where "ID_UEContextRequest \<equiv> 112"
abbreviation (input) ID_UENGAPIDs :: int where "ID_UENGAPIDs \<equiv> 114"
abbreviation (input) ID_UEPagingIdentity :: int where "ID_UEPagingIdentity \<equiv> 115"
abbreviation (input) ID_UERadioCapability :: int where "ID_UERadioCapability \<equiv> 117"
abbreviation (input) ID_UESecurityCapabilities :: int where "ID_UESecurityCapabilities \<equiv> 119"
abbreviation (input) ID_UserLocationInformation :: int where "ID_UserLocationInformation \<equiv> 121"
abbreviation (input) ID_ULNGUUPTNLInformation :: int where "ID_ULNGUUPTNLInformation \<equiv> 139"
abbreviation (input) ID_UERetentionInformation :: int where "ID_UERetentionInformation \<equiv> 147"

text \<open>Procedure codes.\<close>

abbreviation (input) Proc_ErrorIndication :: int where "Proc_ErrorIndication \<equiv> 9"
abbreviation (input) Proc_HandoverCancel :: int where "Proc_HandoverCancel \<equiv> 10"
abbreviation (input) Proc_HandoverNotification :: int where "Proc_HandoverNotification \<equiv> 11"
abbreviation (input) Proc_HandoverPreparation :: int where "Proc_HandoverPreparation \<equiv> 12"
abbreviation (input) Proc_HandoverResourceAllocation :: int where "Proc_HandoverResourceAllocation \<equiv> 13"
abbreviation (input) Proc_InitialContextSetup :: int where "Proc_InitialContextSetup \<equiv> 14"
abbreviation (input) Proc_InitialUEMessage :: int where "Proc_InitialUEMessage \<equiv> 15"
abbreviation (input) Proc_NGReset :: int where "Proc_NGReset \<equiv> 20"
abbreviation (input) Proc_NGSetup :: int where "Proc_NGSetup \<equiv> 21"
abbreviation (input) Proc_PathSwitchRequest :: int where "Proc_PathSwitchRequest \<equiv> 25"
abbreviation (input) Proc_PDUSessionResourceRelease :: int where "Proc_PDUSessionResourceRelease \<equiv> 28"
abbreviation (input) Proc_PDUSessionResourceSetup :: int where "Proc_PDUSessionResourceSetup \<equiv> 29"
abbreviation (input) Proc_UEContextRelease :: int where "Proc_UEContextRelease \<equiv> 41"
abbreviation (input) Proc_UEContextReleaseRequest :: int where "Proc_UEContextReleaseRequest \<equiv> 42"
abbreviation (input) Proc_UERadioCapabilityInfoIndication :: int where "Proc_UERadioCapabilityInfoIndication \<equiv> 44"
abbreviation (input) Proc_UplinkNASTransport :: int where "Proc_UplinkNASTransport \<equiv> 46"
abbreviation (input) Proc_UplinkRANStatusTransfer :: int where "Proc_UplinkRANStatusTransfer \<equiv> 49"

text \<open>Enumerations.\<close>

abbreviation (input) PagingDRXPresentV128 :: int where "PagingDRXPresentV128 \<equiv> 2"
abbreviation (input) PagingDRXPresentV256 :: int where "PagingDRXPresentV256 \<equiv> 3"
abbreviation (input) RRCEstablishmentCausePresentMoSignalling :: int where
  "RRCEstablishmentCausePresentMoSignalling \<equiv> 3"
abbreviation (input) UEContextRequestPresentRequested :: int where "UEContextRequestPresentRequested \<equiv> 0"

section \<open>Causes\<close>

definition CauseRadioNetworkHandoverDesirableForRadioReason :: int where
  "CauseRadioNetworkHandoverDesirableForRadioReason = 16"

definition CauseRadioNetworkHandoverCancelled :: int where "CauseRadioNetworkHandoverCancelled = 5"

definition CauseRadioNetworkHOFailureInTarget :: int where "CauseRadioNetworkHOFailureInTarget = 7"

definition CauseRadioNetworkRadioResourcesNotAvailable :: int where
  "CauseRadioNetworkRadioResourcesNotAvailable = 22"

definition CauseRadioNetworkUserInactivity :: int where "CauseRadioNetworkUserInactivity = 20"

definition CauseMiscOMIntervention :: int where "CauseMiscOMIntervention = 3"

text \<open>An \<open>int64\<close> survives the trip through \<open>aper.Enumerated\<close>.\<close>

lemma sint_Enumerated: "- (2 ^ 63) \<le> v \<Longrightarrow> v < 2 ^ 63 \<Longrightarrow> sint (Enumerated v) = v"
  by (simp add: Enumerated_def signed_of_int signed_take_bit_int_eq_self_iff)

end
