(* ===== verification/Ngap_Build.thy ===== *)
theory Ngap_Build
  imports Ngap_Pdu Crypto_AKA
begin

text \<open>
  Encoding of the messages the simulated gNB sends: \<open>internal/ngap/encode.go\<close>, \<open>helpers.go\<close>,
  \<open>ue_messages.go\<close>, \<open>handover.go\<close>, \<open>path_switch.go\<close> and \<open>reset.go\<close>.  NG Setup and the initial UE
  message go through the generic JSON message and \<open>Encode\<close>; the others are built directly.

  A \<open>Build\<close> function is its PDU, then the library's encoder: \<open>X_pdu\<close> is the code up to
  \<open>return ngap.Encoder(pdu)\<close>.  The local \<open>add\<close> of the code, which appends an IE and returns the
  place of its value, is \<open>new_ie\<close> in the list of IEs.
\<close>

section \<open>Helpers\<close>

definition parseTAC :: "string \<Rightarrow> bytes result" where
  "parseTAC tacStr = rmsg ''could not decode tac to bytes'' (hex_decode tacStr)"

definition encodePLMN :: "string \<Rightarrow> string \<Rightarrow> bytes result" where
  "encodePLMN mcc mnc =
     (if length mcc \<noteq> 3 then Inl (Errorf ''mcc must be 3 digits'')
      else if length mnc \<noteq> 2 \<and> length mnc \<noteq> 3 then Inl (Errorf ''mnc must be 2 or 3 digits'')
      else if \<not> list_all is_digit (mcc @ mnc) then Inl (Errorf ''non-digit in plmn'')
      else
        let d = map digit_val (mcc @ mnc);
            b = (\<lambda>hi lo. of_nat (push_bit 4 hi OR lo)) in
        Inr [b (d ! 1) (d ! 0),
             if length mnc = 2 then b 0xF (d ! 2) else b (d ! 5) (d ! 2),
             b (d ! 4) (d ! 3)])"

definition nrCellIdentity :: "string \<Rightarrow> BitString result" where
  "nrCellIdentity gnbID = rbind (rmsg ''could not get NRCellIdentity'' (hex_decode gnbID)) (\<lambda>nci.
     Inr \<lparr> bsBytes = nci @ [0, 0], bsBitLength = 36 \<rparr>)"

fun parseCriticality :: "string \<Rightarrow> enumerated" where
  "parseCriticality s =
     (if s = ''reject'' then CriticalityReject
      else if s = ''ignore'' then CriticalityIgnore
      else if s = ''notify'' then CriticalityNotify
      else CriticalityIgnore)"

definition new_ie :: "int \<Rightarrow> enumerated \<Rightarrow> ie_value \<Rightarrow> protocol_ie" where
  "new_ie i c v = \<lparr> pieId = i, pieCriticality = c, pieValue = v \<rparr>"

definition new_pdu :: "pdu_kind \<Rightarrow> int \<Rightarrow> enumerated \<Rightarrow> message \<Rightarrow> protocol_ie list \<Rightarrow> NGAPPDU" where
  "new_pdu k p c m ies =
     \<lparr> pduPresent = k, pduProcedure = p, pduCriticality = c, pduMessage = m, pduIEs = Some ies \<rparr>"

lemma new_pdu_simps [simp]:
  "pduPresent (new_pdu k p c m ies) = k" "pduProcedure (new_pdu k p c m ies) = p"
  "pduCriticality (new_pdu k p c m ies) = c" "pduMessage (new_pdu k p c m ies) = m"
  "pduIEs (new_pdu k p c m ies) = Some ies"
  by (simp_all add: new_pdu_def)

lemma new_ie_simps [simp]:
  "pieId (new_ie i c v) = i" "pieCriticality (new_ie i c v) = c" "pieValue (new_ie i c v) = v"
  by (simp_all add: new_ie_def)

text \<open>\<open>require p m f\<close>: a pointer that must not be nil.\<close>

definition require :: "string \<Rightarrow> 'a option \<Rightarrow> ('a \<Rightarrow> 'b result) \<Rightarrow> 'b result" where
  "require m p f = (case p of None \<Rightarrow> Inl (Errorf m) | Some x \<Rightarrow> f x)"

text \<open>The body of a \<open>for\<close> loop that appends to a list and returns at the first error.\<close>

fun collect :: "('a \<Rightarrow> 'b result) \<Rightarrow> 'a list \<Rightarrow> 'b list result" where
  "collect f [] = Inr []"
| "collect f (x # xs) = rbind (f x) (\<lambda>y. rbind (collect f xs) (\<lambda>ys. Inr (y # ys)))"

lemma collect_ok [result_simps]: "(\<And>x. x \<in> set xs \<Longrightarrow> f x = Inr (g x)) \<Longrightarrow> collect f xs = Inr (map g xs)"
  by (induction xs) auto

lemma collect_map: "collect f (map g xs) = collect (f \<circ> g) xs"
  by (induction xs) auto

lemma collect_Inr: "collect f xs = Inr ys \<longleftrightarrow> list_all2 (\<lambda>x y. f x = Inr y) xs ys"
  by (induction xs arbitrary: ys) (auto simp: rbind_eq_Inr list_all2_Cons1)

lemma collect_Inl: "collect f xs = Inl e \<Longrightarrow> \<exists>x \<in> set xs. f x = Inl e"
  by (induction xs) (auto simp: rbind_eq_Inl)

section \<open>Slices of a PLMN\<close>

definition build_snssai :: "string \<Rightarrow> string \<Rightarrow> string \<Rightarrow> string \<Rightarrow> snssai result" where
  "build_snssai esst esd sst sd =
     rbind (rwrap esst (hex_decode sst)) (\<lambda>sstBytes.
       if sd \<noteq> [] then rbind (rwrap esd (hex_decode sd)) (\<lambda>sdBytes. Inr \<lparr> snsSST = sstBytes, snsSD = Some sdBytes \<rparr>)
       else Inr \<lparr> snsSST = sstBytes, snsSD = None \<rparr>)"

definition build_plmn_item :: "BroadcastPLMNItemJSON \<Rightarrow> (bytes \<times> snssai list) result" where
  "build_plmn_item bplmn =
     rbind (rwrap ''decode broadcast plmn'' (hex_decode (bp_PLMNIdentity bplmn))) (\<lambda>plmnBytes.
     rbind (collect (\<lambda>s. build_snssai ''decode sst'' ''decode sd'' (ss_SST s) (ss_SD s)) (bp_SliceSupport bplmn)) (\<lambda>slices.
       Inr (plmnBytes, slices)))"

definition build_ta_item :: "SupportedTAItemJSON \<Rightarrow> (bytes \<times> (bytes \<times> snssai list) list) result" where
  "build_ta_item taItem =
     rbind (rwrap ''decode tac'' (hex_decode (ti_TAC taItem))) (\<lambda>tacBytes.
     rbind (collect build_plmn_item (ti_BroadcastPLMNs taItem)) (\<lambda>plmns. Inr (tacBytes, plmns)))"

section \<open>NG Setup and the initial UE message from JSON\<close>

definition build_global_ran_node_id :: "ngap_lib \<Rightarrow> IE \<Rightarrow> ie_value result" where
  "build_global_ran_node_id L ie =
     require ''global_ran_node_id is required'' (ie_GlobalRANNodeID ie) (\<lambda>node.
     require ''global_gnb_id is required'' (gn_GlobalGNBID node) (\<lambda>gnbIDData.
     rbind (rwrap ''decode plmn_identity'' (hex_decode (gg_PLMNIdentity gnbIDData))) (\<lambda>plmnBytes.
       let bitLen = (if gg_GNBIDBitLength gnbIDData = 0 then 24 else gg_GNBIDBitLength gnbIDData) in
       Inr (VGlobalRANNodeID plmnBytes (HexToBitString L (gg_GNBID gnbIDData) bitLen)))))"

definition buildNGSetupRequestIE :: "ngap_lib \<Rightarrow> IE \<Rightarrow> protocol_ie result" where
  "buildNGSetupRequestIE L ie =
     rbind
       (if ie_ID ie = ID_GlobalRANNodeID then build_global_ran_node_id L ie
        else if ie_ID ie = ID_RANNodeName then
          require ''ran_node_name is required'' (ie_RANNodeName ie) (\<lambda>n. Inr (VRANNodeName n))
        else if ie_ID ie = ID_SupportedTAList then
          require ''supported_ta_list is required'' (ie_SupportedTAList ie) (\<lambda>l.
            rbind (collect build_ta_item (tl_Items l)) (\<lambda>items. Inr (VSupportedTAList items)))
        else if ie_ID ie = ID_DefaultPagingDRX then
          Inr (VDefaultPagingDRX (case ie_DefaultPagingDRX ie of
            Some d \<Rightarrow> Enumerated d | None \<Rightarrow> Enumerated PagingDRXPresentV128))
        else if ie_ID ie = ID_UERetentionInformation then
          Inr (VUERetentionInformation (case ie_UERetentionInformation ie of
            Some r \<Rightarrow> Enumerated r | None \<Rightarrow> 0))
        else Inl (Errorf ''unsupported NGSetupRequest IE id''))
       (\<lambda>v. Inr (new_ie (ie_ID ie) (parseCriticality (ie_Criticality ie)) v))"

definition build_user_location :: "UserLocationInformationJSON \<Rightarrow> user_location_nr result" where
  "build_user_location u = (case ul_NR u of
     None \<Rightarrow> Inr \<lparr> ulnPLMN = [], ulnCell = \<lparr> bsBytes = [], bsBitLength = 0 \<rparr>, ulnTAIPLMN = [], ulnTAC = [] \<rparr>
   | Some nr \<Rightarrow>
       rbind (rwrap ''decode nrcgi plmn'' (hex_decode (nc_PLMNIdentity (un_NRCGI nr)))) (\<lambda>plmnBytes.
       rbind (rwrap ''decode nr_cell_identity'' (nrCellIdentity (nc_NRCellIdentity (un_NRCGI nr)))) (\<lambda>cell.
       rbind (rwrap ''decode tai plmn'' (hex_decode (ta_PLMNIdentity (un_TAI nr)))) (\<lambda>taiPlmn.
       rbind (rwrap ''decode tai tac'' (parseTAC (ta_TAC (un_TAI nr)))) (\<lambda>tac.
         Inr \<lparr> ulnPLMN = plmnBytes, ulnCell = cell, ulnTAIPLMN = taiPlmn, ulnTAC = tac \<rparr>)))))"

definition build_tmsi :: "FiveGSTMSIJSON \<Rightarrow> five_g_s_tmsi result" where
  "build_tmsi t =
     rbind (rwrap ''decode amf_set_id'' (hex_decode (ft_AMFSetID t))) (\<lambda>s.
     rbind (rwrap ''decode amf_pointer'' (hex_decode (ft_AMFPointer t))) (\<lambda>p.
     rbind (rwrap ''decode five_g_tmsi'' (hex_decode (ft_FiveGTMSI t))) (\<lambda>m.
       Inr \<lparr> tmsSetID = \<lparr> bsBytes = s, bsBitLength = 10 \<rparr>,
             tmsPointer = \<lparr> bsBytes = p, bsBitLength = 6 \<rparr>, tmsTMSI = m \<rparr>)))"

definition buildInitialUEMessageIE :: "IE \<Rightarrow> protocol_ie result" where
  "buildInitialUEMessageIE ie =
     rbind
       (if ie_ID ie = ID_RANUENGAPID then
          require ''ran_ue_ngap_id is required'' (ie_RANUENGAPID ie) (\<lambda>v. Inr (VRANUENGAPID v))
        else if ie_ID ie = ID_NASPDU then
          require ''nas_pdu is required'' (ie_NasPDU ie) (\<lambda>h.
            rbind (rwrap ''decode nas_pdu hex'' (hex_decode h)) (\<lambda>b. Inr (VNASPDU b)))
        else if ie_ID ie = ID_UserLocationInformation then
          require ''user_location_information is required'' (ie_UserLocationInformation ie) (\<lambda>u.
            rbind (build_user_location u) (\<lambda>l. Inr (VUserLocationInformation l)))
        else if ie_ID ie = ID_RRCEstablishmentCause then
          Inr (VRRCEstablishmentCause (case ie_RRCEstablishmentCause ie of
            Some c \<Rightarrow> Enumerated c | None \<Rightarrow> Enumerated RRCEstablishmentCausePresentMoSignalling))
        else if ie_ID ie = ID_FiveGSTMSI then
          require ''five_g_s_tmsi is required'' (ie_FiveGSTMSI ie) (\<lambda>t.
            rbind (build_tmsi t) (\<lambda>m. Inr (VFiveGSTMSI m)))
        else if ie_ID ie = ID_UEContextRequest then
          Inr (VUEContextRequest (case ie_UEContextRequest ie of
            Some c \<Rightarrow> Enumerated c | None \<Rightarrow> Enumerated UEContextRequestPresentRequested))
        else if ie_ID ie = ID_AMFSetID then
          require ''amf_set_id_ie is required'' (ie_AMFSetID ie) (\<lambda>s.
            rbind (rwrap ''decode amf_set_id'' (hex_decode s)) (\<lambda>b.
              Inr (VAMFSetID \<lparr> bsBytes = b, bsBitLength = 10 \<rparr>)))
        else if ie_ID ie = ID_AllowedNSSAI then
          require ''allowed_nssai is required'' (ie_AllowedNSSAI ie) (\<lambda>items.
            rbind (collect (\<lambda>i. build_snssai ''decode allowed_nssai sst'' ''decode allowed_nssai sd''
                                      (an_SST i) (an_SD i)) items) (\<lambda>l. Inr (VAllowedNSSAI l)))
        else Inl (Errorf ''unsupported InitialUEMessage IE id''))
       (\<lambda>v. Inr (new_ie (ie_ID ie) (parseCriticality (ie_Criticality ie)) v))"

definition buildNGSetupRequest :: "ngap_lib \<Rightarrow> NGAPMessage \<Rightarrow> NGAPPDU result" where
  "buildNGSetupRequest L msg =
     rbind (collect (\<lambda>ie. rwrap ''IE id'' (buildNGSetupRequestIE L ie)) (gm_IEs msg)) (\<lambda>ies.
       Inr (new_pdu InitiatingMessage Proc_NGSetup CriticalityReject NGSetupRequest ies))"

definition buildInitialUEMessage :: "NGAPMessage \<Rightarrow> NGAPPDU result" where
  "buildInitialUEMessage msg =
     rbind (collect (\<lambda>ie. rwrap ''IE id'' (buildInitialUEMessageIE ie)) (gm_IEs msg)) (\<lambda>ies.
       Inr (new_pdu InitiatingMessage Proc_InitialUEMessage CriticalityIgnore InitialUEMessage ies))"

definition buildPDU :: "ngap_lib \<Rightarrow> NGAPMessage \<Rightarrow> NGAPPDU result" where
  "buildPDU L msg =
     (if gm_ProcedureCode msg = Proc_NGSetup then buildNGSetupRequest L msg
      else if gm_ProcedureCode msg = Proc_InitialUEMessage then buildInitialUEMessage msg
      else Inl (Errorf ''unsupported procedure code''))"

definition Encode_NGAP :: "ngap_lib \<Rightarrow> NGAPMessage \<Rightarrow> bytes result" where
  "Encode_NGAP L msg = rbind (buildPDU L msg) (Encoder L)"

section \<open>NG Setup and the initial UE message from parameters\<close>

record NGSetupSlice =
  nslSST :: int
  nslSD :: string

record NGSetupRequestParams =
  nspMCC :: string
  nspMNC :: string
  nspTAC :: string
  nspGNBID :: string
  nspGNBIDBitLength :: int
  nspName :: string
  nspSST :: int
  nspSD :: string
  nspSlices :: "NGSetupSlice list"
  nspDefaultPagingDRX :: "int option"

definition empty_IE :: IE where
  "empty_IE = \<lparr> ie_ID = 0, ie_Criticality = [], ie_Value = [], ie_GlobalRANNodeID = None,
     ie_RANNodeName = None, ie_SupportedTAList = None, ie_DefaultPagingDRX = None,
     ie_RANUENGAPID = None, ie_AMFUENGAPID = None, ie_NasPDU = None, ie_UserLocationInformation = None,
     ie_RRCEstablishmentCause = None, ie_FiveGSTMSI = None, ie_UEContextRequest = None, ie_Cause = None,
     ie_AMFName = None, ie_ServedGUAMIList = [], ie_RelativeAMFCapacity = None, ie_PLMNSupportList = [],
     ie_UERetentionInformation = None, ie_CriticalityDiagnostics = None, ie_TimeToWait = None,
     ie_AMFSetID = None, ie_AllowedNSSAI = None, ie_SelectedPLMNIdentity = None, ie_OldAMF = None,
     ie_RANPagingPriority = None, ie_MobilityRestrictionList = None, ie_IndexToRFSP = None,
     ie_UEAggregateMaxBitRate = None, ie_UERadioCapability = None, ie_PDUSessionSetupItems = [],
     ie_PDUSessionIDs = [], ie_ReleasePDUSessionIDs = [], ie_NextHopChainingCount = None,
     ie_NextHop = None, ie_UESecurityCapabilities = None, ie_RANStatusTransfer = None,
     ie_SourceToTargetContainer = None \<rparr>"

definition json_ie :: "int \<Rightarrow> string \<Rightarrow> IE" where
  "json_ie i c = empty_IE\<lparr> ie_ID := i, ie_Criticality := c \<rparr>"

text \<open>\<open>fmt.Sprintf("%02x", byte(sst))\<close> is \<open>slice_sst\<close>.\<close>

definition slice_sst :: "int \<Rightarrow> string" where "slice_sst sst = hex_encode [word_of_int sst]"

definition setup_slices :: "NGSetupRequestParams \<Rightarrow> SliceSupportJSON list" where
  "setup_slices p =
     (if nspSlices p \<noteq> [] then map (\<lambda>s. \<lparr> ss_SST = slice_sst (nslSST s), ss_SD = nslSD s \<rparr>) (nspSlices p)
      else [\<lparr> ss_SST = slice_sst (nspSST p), ss_SD = nspSD p \<rparr>])"

definition BuildNGSetupRequest :: "NGSetupRequestParams \<Rightarrow> NGAPMessage result" where
  "BuildNGSetupRequest p =
     rbind (rwrap ''PLMN'' (encodePLMN (nspMCC p) (nspMNC p))) (\<lambda>plmnID.
     let plmnHex = hex_encode plmnID; sliceSupport = setup_slices p in
     rbind (case nspDefaultPagingDRX p of
              None \<Rightarrow> Inr PagingDRXPresentV128
            | Some d \<Rightarrow> if d < 0 \<or> d > PagingDRXPresentV256 then Inl (Errorf ''default_paging_drx must be 0..3'')
                        else Inr d) (\<lambda>pagingDRX.
       Inr \<lparr> gm_ProcedureCode = Proc_NGSetup, gm_PDUType = ''initiating_message'', gm_Criticality = ''reject'',
             gm_IEs =
               [(json_ie ID_GlobalRANNodeID ''reject'')\<lparr> ie_GlobalRANNodeID := Some
                   \<lparr> gn_Present = ''global_gnb_id'', gn_GlobalGNBID = Some
                      \<lparr> gg_PLMNIdentity = plmnHex, gg_GNBID = nspGNBID p, gg_GNBIDBitLength = nspGNBIDBitLength p \<rparr> \<rparr> \<rparr>,
                (json_ie ID_RANNodeName ''ignore'')\<lparr> ie_RANNodeName := Some (nspName p) \<rparr>,
                (json_ie ID_SupportedTAList ''reject'')\<lparr> ie_SupportedTAList := Some
                   \<lparr> tl_Items = [\<lparr> ti_TAC = nspTAC p, ti_BroadcastPLMNs =
                       [\<lparr> bp_PLMNIdentity = plmnHex, bp_SliceSupport = sliceSupport \<rparr>] \<rparr>] \<rparr> \<rparr>,
                (json_ie ID_DefaultPagingDRX ''ignore'')\<lparr> ie_DefaultPagingDRX := Some pagingDRX \<rparr>] \<rparr>))"

record InitialUEMessageOverrides =
  ioRRCEstablishmentCause :: "int option"
  ioUEContextRequest :: "int option"
  ioRANUENGAPID :: "int option"

record FiveGSTMSIFromGUTI =
  fgAMFSetID :: string
  fgAMFPointer :: string
  fgFiveGTMSI :: string

record InitialUEMessageParams =
  ipRANUENGAPID :: int
  ipNASPDU :: bytes
  ipMCC :: string
  ipMNC :: string
  ipTAC :: string
  ipGNBID :: string
  ipGUTI :: "FiveGSTMSIFromGUTI option"
  ipOverrides :: "InitialUEMessageOverrides option"

text \<open>\<open>if p.Overrides != nil \<and>\<and> p.Overrides.F != nil\<close>: the override, or the default.\<close>

definition override :: "'a option \<Rightarrow> ('a \<Rightarrow> 'b option) \<Rightarrow> 'b \<Rightarrow> 'b" where
  "override ov f d = (case ov of None \<Rightarrow> d | Some r \<Rightarrow> (case f r of None \<Rightarrow> d | Some v \<Rightarrow> v))"

definition BuildInitialUEMessage :: "InitialUEMessageParams \<Rightarrow> NGAPMessage result" where
  "BuildInitialUEMessage p =
     rbind (rwrap ''PLMN'' (encodePLMN (ipMCC p) (ipMNC p))) (\<lambda>plmnID.
     let plmnHex = hex_encode plmnID;
         effectiveRanID = override (ipOverrides p) ioRANUENGAPID (ipRANUENGAPID p);
         rrcCause = override (ipOverrides p) ioRRCEstablishmentCause RRCEstablishmentCausePresentMoSignalling;
         ueContextReq = override (ipOverrides p) ioUEContextRequest UEContextRequestPresentRequested in
       Inr \<lparr> gm_ProcedureCode = Proc_InitialUEMessage, gm_PDUType = ''initiating_message'',
             gm_Criticality = ''ignore'',
             gm_IEs =
               [(json_ie ID_RANUENGAPID ''reject'')\<lparr> ie_RANUENGAPID := Some effectiveRanID \<rparr>,
                (json_ie ID_NASPDU ''reject'')\<lparr> ie_NasPDU := Some (hex_encode (ipNASPDU p)) \<rparr>,
                (json_ie ID_UserLocationInformation ''reject'')\<lparr> ie_UserLocationInformation := Some
                   \<lparr> ul_Present = ''nr'', ul_NR = Some
                      \<lparr> un_NRCGI = \<lparr> nc_PLMNIdentity = plmnHex, nc_NRCellIdentity = ipGNBID p \<rparr>,
                        un_TAI = \<lparr> ta_PLMNIdentity = plmnHex, ta_TAC = ipTAC p \<rparr> \<rparr> \<rparr> \<rparr>,
                (json_ie ID_RRCEstablishmentCause ''ignore'')\<lparr> ie_RRCEstablishmentCause := Some rrcCause \<rparr>]
               @ (case ipGUTI p of None \<Rightarrow> [] | Some g \<Rightarrow>
                    [(json_ie ID_FiveGSTMSI ''reject'')\<lparr> ie_FiveGSTMSI := Some
                       \<lparr> ft_AMFSetID = fgAMFSetID g, ft_AMFPointer = fgAMFPointer g, ft_FiveGTMSI = fgFiveGTMSI g \<rparr> \<rparr>])
               @ (if override (ipOverrides p) ioUEContextRequest 0 \<ge> 0
                  then [(json_ie ID_UEContextRequest ''ignore'')\<lparr> ie_UEContextRequest := Some ueContextReq \<rparr>]
                  else []) \<rparr>)"

section \<open>Messages built directly\<close>

text \<open>The two identities most messages begin with.\<close>

definition id_ies :: "enumerated \<Rightarrow> int \<Rightarrow> int \<Rightarrow> protocol_ie list" where
  "id_ies c amfUeNgapID ranUeNgapID =
     [new_ie ID_AMFUENGAPID c (VAMFUENGAPID amfUeNgapID), new_ie ID_RANUENGAPID c (VRANUENGAPID ranUeNgapID)]"

definition radio_cause :: "int \<Rightarrow> protocol_ie" where
  "radio_cause c = new_ie ID_Cause CriticalityIgnore (VCause (RadioNetwork (Enumerated c)))"

definition location_ie :: "bytes \<Rightarrow> BitString \<Rightarrow> bytes \<Rightarrow> protocol_ie" where
  "location_ie plmnID nrCellID tacBytes =
     new_ie ID_UserLocationInformation CriticalityIgnore (VUserLocationInformation
       \<lparr> ulnPLMN = plmnID, ulnCell = nrCellID, ulnTAIPLMN = plmnID, ulnTAC = tacBytes \<rparr>)"

record UplinkNASTransportOverrides =
  uoAMFUENGAPID :: "int option"
  uoRANUENGAPID :: "int option"

record UplinkNASTransportParams =
  upAMFUENGAPID :: int
  upRANUENGAPID :: int
  upNASPDU :: bytes
  upMCC :: string
  upMNC :: string
  upTAC :: string
  upGNBID :: string
  upOverrides :: "UplinkNASTransportOverrides option"

definition UplinkNASTransport_pdu :: "UplinkNASTransportParams \<Rightarrow> NGAPPDU result" where
  "UplinkNASTransport_pdu p =
     (let amfUeNgapID = override (upOverrides p) uoAMFUENGAPID (upAMFUENGAPID p);
          ranUeNgapID = override (upOverrides p) uoRANUENGAPID (upRANUENGAPID p) in
      rbind (rwrap ''PLMN'' (encodePLMN (upMCC p) (upMNC p))) (\<lambda>plmnID.
      rbind (rwrap ''NRCellIdentity'' (nrCellIdentity (upGNBID p))) (\<lambda>nrCellID.
      rbind (rwrap ''TAC'' (parseTAC (upTAC p))) (\<lambda>tacBytes.
        Inr (new_pdu InitiatingMessage Proc_UplinkNASTransport CriticalityIgnore UplinkNASTransport
               (id_ies CriticalityReject amfUeNgapID ranUeNgapID
                @ [new_ie ID_NASPDU CriticalityReject (VNASPDU (upNASPDU p)),
                   location_ie plmnID nrCellID tacBytes]))))))"

definition BuildUplinkNASTransport :: "ngap_lib \<Rightarrow> UplinkNASTransportParams \<Rightarrow> bytes result" where
  "BuildUplinkNASTransport L p = rbind (UplinkNASTransport_pdu p) (Encoder L)"

text \<open>The tunnel of a transfer: the four octets of the TEID, and the address at its own width (an
  IPv4-mapped IPv6 address stays 128 bits).\<close>

definition tunnel :: "u32 \<Rightarrow> string \<Rightarrow> gtp_tunnel result" where
  "tunnel teid ip =
     rbind (rwrap ''parse DL IP'' (ParseAddr ip)) (\<lambda>addr.
     rbind (if Is4 addr then As4 addr else Inr (As16 addr)) (\<lambda>ipBytes.
       Inr \<lparr> tunAddress = \<lparr> bsBytes = ipBytes, bsBitLength = int (length ipBytes * 8) \<rparr>,
             tunTEID = be_bytes 4 teid \<rparr>))"

definition buildPDUSessionResourceSetupResponseTransfer :: "ngap_lib \<Rightarrow> u32 \<Rightarrow> string \<Rightarrow> bytes result" where
  "buildPDUSessionResourceSetupResponseTransfer L teid ip =
     rbind (tunnel teid ip) (\<lambda>t.
       rwrap ''marshal PDUSessionResourceSetupResponseTransfer''
         (MarshalTransfer L (PDUSessionResourceSetupResponseTransfer t [1])))"

record PDUSessionResourceSetupResponseParams =
  srAMFUENGAPID :: int
  srRANUENGAPID :: int
  srPDUSessionID :: int
  srDLTeid :: u32
  srDLIP :: string

definition PDUSessionResourceSetupResponse_pdu ::
  "ngap_lib \<Rightarrow> PDUSessionResourceSetupResponseParams \<Rightarrow> NGAPPDU result" where
  "PDUSessionResourceSetupResponse_pdu L p =
     rbind (buildPDUSessionResourceSetupResponseTransfer L (srDLTeid p) (srDLIP p)) (\<lambda>transfer.
       Inr (new_pdu SuccessfulOutcome Proc_PDUSessionResourceSetup CriticalityReject PDUSessionResourceSetupResponse
              (id_ies CriticalityIgnore (srAMFUENGAPID p) (srRANUENGAPID p)
               @ [new_ie ID_PDUSessionResourceSetupListSURes CriticalityIgnore
                    (VSetupListSURes [(srPDUSessionID p, transfer)])])))"

definition BuildPDUSessionResourceSetupResponse ::
  "ngap_lib \<Rightarrow> PDUSessionResourceSetupResponseParams \<Rightarrow> bytes result" where
  "BuildPDUSessionResourceSetupResponse L p = rbind (PDUSessionResourceSetupResponse_pdu L p) (Encoder L)"

definition BuildUERadioCapabilityInfoIndication :: "ngap_lib \<Rightarrow> int \<Rightarrow> int \<Rightarrow> bytes \<Rightarrow> bytes result" where
  "BuildUERadioCapabilityInfoIndication L amfUeNgapID ranUeNgapID radioCapability =
     Encoder L (new_pdu InitiatingMessage Proc_UERadioCapabilityInfoIndication CriticalityIgnore
       UERadioCapabilityInfoIndication
       (id_ies CriticalityReject amfUeNgapID ranUeNgapID
        @ [new_ie ID_UERadioCapability CriticalityIgnore (VUERadioCapability radioCapability)]))"

definition ErrorIndication_pdu :: "int \<Rightarrow> int \<Rightarrow> int \<Rightarrow> NGAPPDU" where
  "ErrorIndication_pdu amfUeNgapID ranUeNgapID causeRadioNetwork =
     new_pdu InitiatingMessage Proc_ErrorIndication CriticalityIgnore ErrorIndication
       (id_ies CriticalityIgnore amfUeNgapID ranUeNgapID @ [radio_cause causeRadioNetwork])"

definition BuildErrorIndication :: "ngap_lib \<Rightarrow> int \<Rightarrow> int \<Rightarrow> int \<Rightarrow> bytes result" where
  "BuildErrorIndication L amfUeNgapID ranUeNgapID causeRadioNetwork =
     Encoder L (ErrorIndication_pdu amfUeNgapID ranUeNgapID causeRadioNetwork)"

definition BuildPDUSessionResourceReleaseResponse :: "ngap_lib \<Rightarrow> int \<Rightarrow> int \<Rightarrow> bytes result" where
  "BuildPDUSessionResourceReleaseResponse L amfUeNgapID ranUeNgapID =
     Encoder L (new_pdu SuccessfulOutcome Proc_PDUSessionResourceRelease CriticalityReject
       PDUSessionResourceReleaseResponse (id_ies CriticalityIgnore amfUeNgapID ranUeNgapID))"

definition BuildInitialContextSetupResponse :: "ngap_lib \<Rightarrow> int \<Rightarrow> int \<Rightarrow> bytes result" where
  "BuildInitialContextSetupResponse L amfUeNgapID ranUeNgapID =
     Encoder L (new_pdu SuccessfulOutcome Proc_InitialContextSetup CriticalityReject
       InitialContextSetupResponse (id_ies CriticalityIgnore amfUeNgapID ranUeNgapID))"

definition BuildUEContextReleaseComplete :: "ngap_lib \<Rightarrow> int \<Rightarrow> int \<Rightarrow> bytes result" where
  "BuildUEContextReleaseComplete L amfUeNgapID ranUeNgapID =
     Encoder L (new_pdu SuccessfulOutcome Proc_UEContextRelease CriticalityReject
       UEContextReleaseComplete (id_ies CriticalityIgnore amfUeNgapID ranUeNgapID))"

definition BuildUEContextReleaseRequest :: "ngap_lib \<Rightarrow> int \<Rightarrow> int \<Rightarrow> int \<Rightarrow> bytes result" where
  "BuildUEContextReleaseRequest L amfUeNgapID ranUeNgapID causeRadioNetwork =
     Encoder L (new_pdu InitiatingMessage Proc_UEContextReleaseRequest CriticalityReject
       UEContextReleaseRequest
       (id_ies CriticalityReject amfUeNgapID ranUeNgapID @ [radio_cause causeRadioNetwork]))"

section \<open>Handover\<close>

record HandoverAdmittedSession =
  haPDUSessionID :: int
  haDLTeid :: u32
  haDLIP :: string
  haRawTransfer :: "bytes option"

record HandoverRequiredParams =
  hqAMFUENGAPID :: int
  hqRANUENGAPID :: int
  hqTargetGNBID :: string
  hqTargetMCC :: string
  hqTargetMNC :: string
  hqTargetTAC :: string
  hqPDUSessionIDs :: "int list"
  hqCauseRadioNetwork :: int

definition HandoverRequired_pdu :: "ngap_lib \<Rightarrow> HandoverRequiredParams \<Rightarrow> NGAPPDU result" where
  "HandoverRequired_pdu L p =
     rbind (rwrap ''target PLMN'' (encodePLMN (hqTargetMCC p) (hqTargetMNC p))) (\<lambda>plmnID.
     rbind (rwrap ''target TAC'' (parseTAC (hqTargetTAC p))) (\<lambda>tacBytes.
     rbind (rwrap ''marshal HandoverRequiredTransfer'' (MarshalTransfer L HandoverRequiredTransfer)) (\<lambda>transfer.
       Inr (new_pdu InitiatingMessage Proc_HandoverPreparation CriticalityReject HandoverRequired
              (id_ies CriticalityReject (hqAMFUENGAPID p) (hqRANUENGAPID p)
               @ [new_ie ID_HandoverType CriticalityReject (VHandoverType 0),
                  radio_cause (hqCauseRadioNetwork p),
                  new_ie ID_TargetID CriticalityReject
                    (VTargetID plmnID (HexToBitString L (hqTargetGNBID p) 24) plmnID tacBytes),
                  new_ie ID_PDUSessionResourceListHORqd CriticalityReject
                    (VResourceListHORqd (map (\<lambda>i. (i, transfer)) (hqPDUSessionIDs p))),
                  new_ie ID_SourceToTargetTransparentContainer CriticalityReject (VSourceToTarget [0])])))))"

definition BuildHandoverRequired :: "ngap_lib \<Rightarrow> HandoverRequiredParams \<Rightarrow> bytes result" where
  "BuildHandoverRequired L p = rbind (HandoverRequired_pdu L p) (Encoder L)"

record HandoverRequestAcknowledgeParams =
  hkAMFUENGAPID :: int
  hkRANUENGAPID :: int
  hkSessions :: "HandoverAdmittedSession list"
  hkFailed :: "int list"

definition buildHandoverResourceAllocationUnsuccessfulTransfer :: "ngap_lib \<Rightarrow> bytes result" where
  "buildHandoverResourceAllocationUnsuccessfulTransfer L =
     rwrap ''marshal HandoverResourceAllocationUnsuccessfulTransfer''
       (MarshalTransfer L (HandoverResourceAllocationUnsuccessfulTransfer
          (RadioNetwork (Enumerated CauseRadioNetworkRadioResourcesNotAvailable))))"

definition buildHandoverRequestAcknowledgeTransfer :: "ngap_lib \<Rightarrow> u32 \<Rightarrow> string \<Rightarrow> bytes result" where
  "buildHandoverRequestAcknowledgeTransfer L teid ip =
     rbind (tunnel teid ip) (\<lambda>t.
       rwrap ''marshal HandoverRequestAcknowledgeTransfer''
         (MarshalTransfer L (HandoverRequestAcknowledgeTransfer t [1])))"

text \<open>\<open>failed_ies\<close>: the list of sessions that failed, present only when there is one; the transfer
  inside it is marshalled only then.\<close>

definition failed_ies :: "int list \<Rightarrow> bytes result \<Rightarrow> (bytes \<Rightarrow> protocol_ie) \<Rightarrow> protocol_ie list result" where
  "failed_ies failed transfer mk =
     (if failed \<noteq> [] then rbind transfer (\<lambda>t. Inr [mk t]) else Inr [])"

definition HandoverRequestAcknowledge_pdu ::
  "ngap_lib \<Rightarrow> HandoverRequestAcknowledgeParams \<Rightarrow> NGAPPDU result" where
  "HandoverRequestAcknowledge_pdu L p =
     rbind (collect (\<lambda>s. rbind (case haRawTransfer s of Some t \<Rightarrow> Inr t
                                | None \<Rightarrow> buildHandoverRequestAcknowledgeTransfer L (haDLTeid s) (haDLIP s)) (\<lambda>t.
                       Inr (haPDUSessionID s, t))) (hkSessions p)) (\<lambda>admitted.
     rbind (failed_ies (hkFailed p) (buildHandoverResourceAllocationUnsuccessfulTransfer L) (\<lambda>t.
              new_ie ID_PDUSessionResourceFailedToSetupListHOAck CriticalityIgnore
                (VFailedToSetupListHOAck (map (\<lambda>i. (i, t)) (hkFailed p))))) (\<lambda>failedList.
       Inr (new_pdu SuccessfulOutcome Proc_HandoverResourceAllocation CriticalityReject HandoverRequestAcknowledge
              (id_ies CriticalityIgnore (hkAMFUENGAPID p) (hkRANUENGAPID p)
               @ [new_ie ID_PDUSessionResourceAdmittedList CriticalityIgnore (VAdmittedList admitted)]
               @ failedList
               @ [new_ie ID_TargetToSourceTransparentContainer CriticalityReject (VTargetToSource [0])]))))"

definition BuildHandoverRequestAcknowledge ::
  "ngap_lib \<Rightarrow> HandoverRequestAcknowledgeParams \<Rightarrow> bytes result" where
  "BuildHandoverRequestAcknowledge L p = rbind (HandoverRequestAcknowledge_pdu L p) (Encoder L)"

definition BuildHandoverFailure :: "ngap_lib \<Rightarrow> int \<Rightarrow> int \<Rightarrow> bytes result" where
  "BuildHandoverFailure L amfUeNgapID causeRadioNetwork =
     Encoder L (new_pdu UnsuccessfulOutcome Proc_HandoverResourceAllocation CriticalityReject HandoverFailure
       [new_ie ID_AMFUENGAPID CriticalityIgnore (VAMFUENGAPID amfUeNgapID), radio_cause causeRadioNetwork])"

definition BuildInitialContextSetupFailure :: "ngap_lib \<Rightarrow> int \<Rightarrow> int \<Rightarrow> int \<Rightarrow> bytes result" where
  "BuildInitialContextSetupFailure L amfUeNgapID ranUeNgapID causeRadioNetwork =
     Encoder L (new_pdu UnsuccessfulOutcome Proc_InitialContextSetup CriticalityReject InitialContextSetupFailure
       (id_ies CriticalityReject amfUeNgapID ranUeNgapID @ [radio_cause causeRadioNetwork]))"

definition BuildHandoverCancel :: "ngap_lib \<Rightarrow> int \<Rightarrow> int \<Rightarrow> int \<Rightarrow> bytes result" where
  "BuildHandoverCancel L amfUeNgapID ranUeNgapID causeRadioNetwork =
     Encoder L (new_pdu InitiatingMessage Proc_HandoverCancel CriticalityReject HandoverCancel
       (id_ies CriticalityReject amfUeNgapID ranUeNgapID @ [radio_cause causeRadioNetwork]))"

record DRBStatusTransferItem =
  dtDRBID :: int
  dtULPDCPSN :: int
  dtULHFN :: int
  dtDLPDCPSN :: int
  dtDLHFN :: int

definition drb_item :: "DRBStatusTransferItem \<Rightarrow> drb_status" where
  "drb_item d = \<lparr> drbID = dtDRBID d, drbUL = Some (dtULPDCPSN d, dtULHFN d), drbDL = Some (dtDLPDCPSN d, dtDLHFN d) \<rparr>"

definition BuildUplinkRANStatusTransfer ::
  "ngap_lib \<Rightarrow> int \<Rightarrow> int \<Rightarrow> DRBStatusTransferItem list \<Rightarrow> bytes result" where
  "BuildUplinkRANStatusTransfer L amfUeNgapID ranUeNgapID drbs =
     Encoder L (new_pdu InitiatingMessage Proc_UplinkRANStatusTransfer CriticalityReject UplinkRANStatusTransfer
       (id_ies CriticalityReject amfUeNgapID ranUeNgapID
        @ [new_ie ID_RANStatusTransferTransparentContainer CriticalityReject
             (VRANStatusTransfer (map drb_item drbs))]))"

record HandoverNotifyParams =
  hnAMFUENGAPID :: int
  hnRANUENGAPID :: int
  hnMCC :: string
  hnMNC :: string
  hnTAC :: string
  hnGNBID :: string

definition HandoverNotify_pdu :: "HandoverNotifyParams \<Rightarrow> NGAPPDU result" where
  "HandoverNotify_pdu p =
     rbind (rwrap ''PLMN'' (encodePLMN (hnMCC p) (hnMNC p))) (\<lambda>plmnID.
     rbind (rwrap ''TAC'' (parseTAC (hnTAC p))) (\<lambda>tacBytes.
     rbind (rwrap ''NRCellIdentity'' (nrCellIdentity (hnGNBID p))) (\<lambda>nrCellID.
       Inr (new_pdu InitiatingMessage Proc_HandoverNotification CriticalityIgnore HandoverNotify
              (id_ies CriticalityReject (hnAMFUENGAPID p) (hnRANUENGAPID p)
               @ [location_ie plmnID nrCellID tacBytes])))))"

definition BuildHandoverNotify :: "ngap_lib \<Rightarrow> HandoverNotifyParams \<Rightarrow> bytes result" where
  "BuildHandoverNotify L p = rbind (HandoverNotify_pdu p) (Encoder L)"

section \<open>Path switch\<close>

record PathSwitchSession =
  pwPDUSessionID :: int
  pwDLTeid :: u32
  pwDLIP :: string
  pwRawTransfer :: "bytes option"

record UESecurityCapabilities =
  usNREncryption :: bytes
  usNRIntegrity :: bytes
  usEUTRAEncryption :: bytes
  usEUTRAIntegrity :: bytes

record PathSwitchRequestParams =
  pqRANUENGAPID :: int
  pqSourceAMFUENGAPID :: int
  pqMCC :: string
  pqMNC :: string
  pqTAC :: string
  pqGNBID :: string
  pqSecCaps :: UESecurityCapabilities
  pqSessions :: "PathSwitchSession list"
  pqFailed :: "int list"
  pqOmitIEs :: "int list"

definition buildPathSwitchRequestTransfer :: "ngap_lib \<Rightarrow> u32 \<Rightarrow> string \<Rightarrow> bytes result" where
  "buildPathSwitchRequestTransfer L teid ip =
     rbind (tunnel teid ip) (\<lambda>t.
       rwrap ''marshal PathSwitchRequestTransfer'' (MarshalTransfer L (PathSwitchRequestTransfer t [1])))"

definition buildPathSwitchRequestSetupFailedTransfer :: "ngap_lib \<Rightarrow> bytes result" where
  "buildPathSwitchRequestSetupFailedTransfer L =
     rwrap ''marshal PathSwitchRequestSetupFailedTransfer''
       (MarshalTransfer L (PathSwitchRequestSetupFailedTransfer
          (RadioNetwork (Enumerated CauseRadioNetworkRadioResourcesNotAvailable))))"

definition secBitString :: "bytes \<Rightarrow> BitString" where
  "secBitString b = \<lparr> bsBytes = b, bsBitLength = int (length b * 8) \<rparr>"

text \<open>The IEs before \<open>OmitIEs\<close> is applied, and the filter.\<close>

definition path_switch_ies :: "ngap_lib \<Rightarrow> PathSwitchRequestParams \<Rightarrow> protocol_ie list result" where
  "path_switch_ies L p =
     rbind (rwrap ''PLMN'' (encodePLMN (pqMCC p) (pqMNC p))) (\<lambda>plmnID.
     rbind (rwrap ''TAC'' (parseTAC (pqTAC p))) (\<lambda>tacBytes.
     rbind (rwrap ''NRCellIdentity'' (nrCellIdentity (pqGNBID p))) (\<lambda>nrCellID.
     rbind (collect (\<lambda>s. rbind (case pwRawTransfer s of Some t \<Rightarrow> Inr t
                                | None \<Rightarrow> buildPathSwitchRequestTransfer L (pwDLTeid s) (pwDLIP s)) (\<lambda>t.
                       Inr (pwPDUSessionID s, t))) (pqSessions p)) (\<lambda>switched.
     rbind (failed_ies (pqFailed p) (buildPathSwitchRequestSetupFailedTransfer L) (\<lambda>t.
              new_ie ID_PDUSessionResourceFailedToSetupListPSReq CriticalityIgnore
                (VFailedToSetupListPSReq (map (\<lambda>i. (i, t)) (pqFailed p))))) (\<lambda>failedList.
       Inr ([new_ie ID_RANUENGAPID CriticalityReject (VRANUENGAPID (pqRANUENGAPID p)),
             new_ie ID_SourceAMFUENGAPID CriticalityReject (VSourceAMFUENGAPID (pqSourceAMFUENGAPID p)),
             location_ie plmnID nrCellID tacBytes,
             new_ie ID_UESecurityCapabilities CriticalityIgnore (VUESecurityCapabilities
               \<lparr> capNREnc = secBitString (usNREncryption (pqSecCaps p)),
                 capNRInt = secBitString (usNRIntegrity (pqSecCaps p)),
                 capEUTRAEnc = secBitString (usEUTRAEncryption (pqSecCaps p)),
                 capEUTRAInt = secBitString (usEUTRAIntegrity (pqSecCaps p)) \<rparr>),
             new_ie ID_PDUSessionResourceToBeSwitchedDLList CriticalityReject (VToBeSwitchedDLList switched)]
            @ failedList))))))"

definition omit_ies :: "int list \<Rightarrow> protocol_ie list \<Rightarrow> protocol_ie list" where
  "omit_ies omit ies = (if omit \<noteq> [] then filter (\<lambda>ie. pieId ie \<notin> set omit) ies else ies)"

definition PathSwitchRequest_pdu :: "ngap_lib \<Rightarrow> PathSwitchRequestParams \<Rightarrow> NGAPPDU result" where
  "PathSwitchRequest_pdu L p =
     rbind (path_switch_ies L p) (\<lambda>ies.
       Inr (new_pdu InitiatingMessage Proc_PathSwitchRequest CriticalityReject PathSwitchRequest
              (omit_ies (pqOmitIEs p) ies)))"

definition BuildPathSwitchRequest :: "ngap_lib \<Rightarrow> PathSwitchRequestParams \<Rightarrow> bytes result" where
  "BuildPathSwitchRequest L p = rbind (PathSwitchRequest_pdu L p) (Encoder L)"

section \<open>Reset\<close>

record NGResetConnection =
  nrcAMFUENGAPID :: "int option"
  nrcRANUENGAPID :: "int option"

definition BuildNGReset :: "ngap_lib \<Rightarrow> bool \<Rightarrow> NGResetConnection list \<Rightarrow> bytes result" where
  "BuildNGReset L all connections =
     Encoder L (new_pdu InitiatingMessage Proc_NGReset CriticalityReject NGReset
       [new_ie ID_Cause CriticalityIgnore (VCause (Misc (Enumerated CauseMiscOMIntervention))),
        new_ie ID_ResetType CriticalityReject
          (if all then VResetAll 0
           else VResetPart (map (\<lambda>c. (nrcAMFUENGAPID c, nrcRANUENGAPID c)) connections))])"

end
