(* ===== verification/Ngap_Decode.thy ===== *)
theory Ngap_Decode
  imports Ngap_Build
begin

text \<open>
  Decoding of the messages the core network sends to the simulated gNB:
  \<open>internal/ngap/decode.go\<close>.  Each message decoder is the loop over its IEs; the loop's \<open>switch\<close>
  on the identity is a table of cases (\<open>decode_ies\<close>), whose default keeps the IE as unknown.  A
  case whose pointer is nil leaves the response as it is.
\<close>

section \<open>Names\<close>

definition criticalityName :: "enumerated \<Rightarrow> string" where
  "criticalityName c =
     (if c = CriticalityReject then ''reject''
      else if c = CriticalityIgnore then ''ignore''
      else if c = CriticalityNotify then ''notify''
      else ''ignore'')"

definition triggeringMessageName :: "enumerated \<Rightarrow> string" where
  "triggeringMessageName v =
     (if v = 0 then ''initiating_message''
      else if v = 1 then ''successful_outcome''
      else if v = 2 then ''unsuccessful_outcome''
      else ''unknown'')"

definition typeOfErrorName :: "enumerated \<Rightarrow> string" where
  "typeOfErrorName v = (if v = 0 then ''not_understood'' else if v = 1 then ''missing'' else ''unknown'')"

definition timeToWaitName :: "enumerated \<Rightarrow> string" where
  "timeToWaitName t =
     (if t = 0 then ''v1s'' else if t = 1 then ''v2s'' else if t = 2 then ''v5s''
      else if t = 3 then ''v10s'' else if t = 4 then ''v20s'' else if t = 5 then ''v60s''
      else ''TimeToWait('' @ dec (unat t) @ '')'')"

text \<open>\<open>%d\<close> of a signed integer.\<close>

definition dec_int :: "int \<Rightarrow> string" where
  "dec_int i = (if i < 0 then CHR ''-'' # dec (nat (- i)) else dec (nat i))"

definition procedure_name :: "int \<Rightarrow> string" where
  "procedure_name procedureCode = ''ProcedureCode('' @ dec_int procedureCode @ '')''"

definition initiatingMessageName :: "message \<Rightarrow> int \<Rightarrow> string" where
  "initiatingMessageName msgType procedureCode = (case msgType of
     DownlinkNASTransport \<Rightarrow> ''DownlinkNASTransport''
   | InitialContextSetupRequest \<Rightarrow> ''InitialContextSetupRequest''
   | PDUSessionResourceSetupRequest \<Rightarrow> ''PDUSessionResourceSetupRequest''
   | PDUSessionResourceReleaseCommand \<Rightarrow> ''PDUSessionResourceReleaseCommand''
   | PDUSessionResourceModifyRequest \<Rightarrow> ''PDUSessionResourceModifyRequest''
   | HandoverRequest \<Rightarrow> ''HandoverRequest''
   | UEContextReleaseCommand \<Rightarrow> ''UEContextReleaseCommand''
   | Paging \<Rightarrow> ''Paging''
   | DownlinkRANStatusTransfer \<Rightarrow> ''DownlinkRANStatusTransfer''
   | ErrorIndication \<Rightarrow> ''ErrorIndication''
   | NGSetupRequest \<Rightarrow> ''NGSetupRequest''
   | NGReset \<Rightarrow> ''NGReset''
   | InitialUEMessage \<Rightarrow> ''InitialUEMessage''
   | UplinkNASTransport \<Rightarrow> ''UplinkNASTransport''
   | _ \<Rightarrow> procedure_name procedureCode)"

definition successfulOutcomeName :: "message \<Rightarrow> int \<Rightarrow> string" where
  "successfulOutcomeName msgType procedureCode = (case msgType of
     NGSetupResponse \<Rightarrow> ''NGSetupResponse''
   | NGResetAcknowledge \<Rightarrow> ''NGResetAcknowledge''
   | HandoverCommand \<Rightarrow> ''HandoverCommand''
   | HandoverCancelAcknowledge \<Rightarrow> ''HandoverCancelAcknowledge''
   | InitialContextSetupResponse \<Rightarrow> ''InitialContextSetupResponse''
   | PDUSessionResourceSetupResponse \<Rightarrow> ''PDUSessionResourceSetupResponse''
   | UEContextReleaseComplete \<Rightarrow> ''UEContextReleaseComplete''
   | PathSwitchRequestAcknowledge \<Rightarrow> ''PathSwitchRequestAcknowledge''
   | _ \<Rightarrow> procedure_name procedureCode)"

definition unsuccessfulOutcomeName :: "message \<Rightarrow> int \<Rightarrow> string" where
  "unsuccessfulOutcomeName msgType procedureCode = (case msgType of
     NGSetupFailure \<Rightarrow> ''NGSetupFailure''
   | HandoverPreparationFailure \<Rightarrow> ''HandoverPreparationFailure''
   | PathSwitchRequestFailure \<Rightarrow> ''PathSwitchRequestFailure''
   | InitialContextSetupFailure \<Rightarrow> ''InitialContextSetupFailure''
   | _ \<Rightarrow> procedure_name procedureCode)"

section \<open>Values\<close>

text \<open>\<open>unmodeledIEHex\<close>: the octets of the alternative that is set, empty when none is or when it
  cannot be marshalled.\<close>

definition unmodeledIEHex :: "ngap_lib \<Rightarrow> message \<Rightarrow> ie_value \<Rightarrow> string" where
  "unmodeledIEHex L m v =
     (if v = VAbsent then []
      else case MarshalValue L m v of Inl e \<Rightarrow> [] | Inr octets \<Rightarrow> hex_encode octets)"

definition unknownIE :: "ngap_lib \<Rightarrow> message \<Rightarrow> protocol_ie \<Rightarrow> UnknownIEJSON" where
  "unknownIE L m ie =
     \<lparr> ui_ID = pieId ie, ui_Criticality = criticalityName (pieCriticality ie),
       ui_ValueHex = unmodeledIEHex L m (pieValue ie) \<rparr>"

definition decode_snssai :: "snssai \<Rightarrow> string \<times> string" where
  "decode_snssai s = (hex_encode (snsSST s), case snsSD s of None \<Rightarrow> [] | Some d \<Rightarrow> hex_encode d)"

definition decodeAllowedNSSAI :: "snssai list \<Rightarrow> AllowedNSSAIItemJSON list" where
  "decodeAllowedNSSAI l = map (\<lambda>s. \<lparr> an_SST = fst (decode_snssai s), an_SD = snd (decode_snssai s) \<rparr>) l"

definition decodeUESecurityCapabilities :: "security_caps \<Rightarrow> UESecurityCapabilitiesJSON" where
  "decodeUESecurityCapabilities c =
     \<lparr> uc_NREncryption = hex_encode (bsBytes (capNREnc c)),
       uc_NRIntegrity = hex_encode (bsBytes (capNRInt c)),
       uc_EUTRAEncryption = hex_encode (bsBytes (capEUTRAEnc c)),
       uc_EUTRAIntegrity = hex_encode (bsBytes (capEUTRAInt c)) \<rparr>"

definition decodeCause :: "cause \<Rightarrow> CauseJSON" where
  "decodeCause c = (case c of
     RadioNetwork v \<Rightarrow> \<lparr> cj_Group = ''radio_network'', cj_Value = sint v \<rparr>
   | Transport v \<Rightarrow> \<lparr> cj_Group = ''transport'', cj_Value = sint v \<rparr>
   | Nas v \<Rightarrow> \<lparr> cj_Group = ''nas'', cj_Value = sint v \<rparr>
   | Protocol v \<Rightarrow> \<lparr> cj_Group = ''protocol'', cj_Value = sint v \<rparr>
   | Misc v \<Rightarrow> \<lparr> cj_Group = ''misc'', cj_Value = sint v \<rparr>
   | OtherCause p \<Rightarrow> \<lparr> cj_Group = [], cj_Value = 0 \<rparr>)"

definition decodeCriticalityDiagnostics :: "crit_diagnostics \<Rightarrow> CriticalityDiagnosticsJSON" where
  "decodeCriticalityDiagnostics d =
     \<lparr> cd_ProcedureCode = crdProcedure d,
       cd_TriggeringMessage = map_option triggeringMessageName (crdTriggering d),
       cd_ProcedureCriticality = map_option criticalityName (crdCriticality d),
       cd_IEsCriticalityDiagnostics = (case crdIEs d of None \<Rightarrow> [] | Some l \<Rightarrow>
         map (\<lambda>(c, i, t). \<lparr> ic_IECriticality = criticalityName c, ic_IEID = i, ic_TypeOfError = typeOfErrorName t \<rparr>) l) \<rparr>"

definition decodeRANStatusTransferContainer :: "drb_status list \<Rightarrow> RANStatusTransferJSON" where
  "decodeRANStatusTransferContainer l =
     \<lparr> rs_DRBs = map (\<lambda>i.
         \<lparr> dj_DRBID = drbID i,
           dj_ULCount = map_option (\<lambda>(sn, hfn). \<lparr> cv_PDCPSN = sn, cv_HFN = hfn \<rparr>) (drbUL i),
           dj_DLCount = map_option (\<lambda>(sn, hfn). \<lparr> cv_PDCPSN = sn, cv_HFN = hfn \<rparr>) (drbDL i) \<rparr>) l \<rparr>"

definition decodeFiveGSTMSI :: "five_g_s_tmsi \<Rightarrow> FiveGSTMSIJSON" where
  "decodeFiveGSTMSI t =
     \<lparr> ft_AMFSetID = hex_encode (bsBytes (tmsSetID t)), ft_AMFPointer = hex_encode (bsBytes (tmsPointer t)),
       ft_FiveGTMSI = hex_encode (tmsTMSI t) \<rparr>"

text \<open>\<open>decodeULTunnel\<close>: the first usable tunnel of the transfer; the address is 4, 16 or 20 octets,
  any other length leaves both texts empty.\<close>

definition tunnel_addresses :: "bytes \<Rightarrow> string \<times> string" where
  "tunnel_addresses b =
     (let v4 = (\<lambda>x. case AddrFromSlice x of Some a \<Rightarrow> addr_string a | None \<Rightarrow> []);
          v6 = (\<lambda>x. case AddrFromSlice x of Some a \<Rightarrow> addr_string (Unmap a) | None \<Rightarrow> []) in
      if length b = 4 then (v4 b, [])
      else if length b = 16 then ([], v6 b)
      else if length b = 20 then (v4 (take 4 b), v6 (take 16 (drop 4 b)))
      else ([], []))"

fun first_tunnel :: "transfer_ie list \<Rightarrow> (u32 \<times> string \<times> string) option" where
  "first_tunnel [] = None"
| "first_tunnel (ie # ies) =
     (if tieId ie \<noteq> ID_ULNGUUPTNLInformation then first_tunnel ies
      else case tieULNGUUPTNL ie of
        None \<Rightarrow> first_tunnel ies
      | Some None \<Rightarrow> first_tunnel ies
      | Some (Some gt) \<Rightarrow>
          if length (tunTEID gt) < 4 then first_tunnel ies
          else Some (be_word (take 4 (tunTEID gt)), tunnel_addresses (bsBytes (tunAddress gt))))"

definition decodeULTunnel :: "ngap_lib \<Rightarrow> bytes \<Rightarrow> (u32 \<times> string \<times> string) option" where
  "decodeULTunnel L transfer =
     (case UnmarshalSetupRequest L transfer of Inl e \<Rightarrow> None | Inr ies \<Rightarrow> first_tunnel ies)"

definition setup_item :: "ngap_lib \<Rightarrow> int \<Rightarrow> bytes \<Rightarrow> PDUSessionSetupItemJSON" where
  "setup_item L sid transfer = (case decodeULTunnel L transfer of
     None \<Rightarrow> \<lparr> pi_PDUSessionID = sid, pi_ULTeid = 0, pi_TransportLayerAddress = [], pi_TransportLayerAddressIPv6 = [] \<rparr>
   | Some (teid, ipv4, ipv6) \<Rightarrow>
       \<lparr> pi_PDUSessionID = sid, pi_ULTeid = teid, pi_TransportLayerAddress = ipv4, pi_TransportLayerAddressIPv6 = ipv6 \<rparr>)"

section \<open>The loop over the elements\<close>

type_synonym ie_case = "ie_value \<Rightarrow> NGAPResponse \<Rightarrow> NGAPResponse"

definition add_unknown :: "ngap_lib \<Rightarrow> message \<Rightarrow> protocol_ie \<Rightarrow> NGAPResponse \<Rightarrow> NGAPResponse" where
  "add_unknown L m ie r = r\<lparr> nr_UnknownIEs := nr_UnknownIEs r @ [unknownIE L m ie] \<rparr>"

definition decode_ie :: "ngap_lib \<Rightarrow> message \<Rightarrow> (int \<times> ie_case) list \<Rightarrow> protocol_ie \<Rightarrow> NGAPResponse \<Rightarrow> NGAPResponse" where
  "decode_ie L m cases ie r = (case map_of cases (pieId ie) of
     None \<Rightarrow> add_unknown L m ie r
   | Some f \<Rightarrow> f (pieValue ie) r)"

definition decode_ies :: "ngap_lib \<Rightarrow> message \<Rightarrow> (int \<times> ie_case) list \<Rightarrow> protocol_ie list \<Rightarrow> NGAPResponse \<Rightarrow> NGAPResponse" where
  "decode_ies L m cases ies r = fold (decode_ie L m cases) ies r"

text \<open>The cases the messages share.\<close>

definition set_amf_id :: ie_case where
  "set_amf_id v r = (case v of
     VAMFUENGAPID v \<Rightarrow> r\<lparr> nr_AMFUENGAPID := Some v \<rparr>
   | _ \<Rightarrow> r)"

definition set_ran_id :: ie_case where
  "set_ran_id v r = (case v of
     VRANUENGAPID v \<Rightarrow> r\<lparr> nr_RANUENGAPID := Some v \<rparr>
   | _ \<Rightarrow> r)"

definition set_cause_NGAP :: ie_case where
  "set_cause_NGAP v r = (case v of
     VCause c \<Rightarrow> r\<lparr> nr_Cause := Some (decodeCause c) \<rparr>
   | _ \<Rightarrow> r)"

definition set_nas_pdu :: ie_case where
  "set_nas_pdu v r = (case v of
     VNASPDU b \<Rightarrow> r\<lparr> nr_NasPDU := Some (hex_encode b) \<rparr>
   | _ \<Rightarrow> r)"

definition set_diagnostics :: ie_case where
  "set_diagnostics v r = (case v of
     VCriticalityDiagnostics d \<Rightarrow> r\<lparr> nr_CriticalityDiagnostics := Some (decodeCriticalityDiagnostics d) \<rparr>
   | _ \<Rightarrow> r)"

definition set_ambr :: ie_case where
  "set_ambr v r = (case v of
     VUEAggregateMaximumBitRate dl ul \<Rightarrow> r\<lparr> nr_UEAggregateMaxBitRate := Some \<lparr> ub_DL = dl, ub_UL = ul \<rparr> \<rparr>
   | _ \<Rightarrow> r)"

definition set_security_context :: ie_case where
  "set_security_context v r = (case v of
     VSecurityContext ncc nh \<Rightarrow> r\<lparr> nr_SecurityContext := Some \<lparr> sc_NextHopChainingCount = ncc, sc_NextHop = hex_encode (bsBytes nh) \<rparr> \<rparr>
   | _ \<Rightarrow> r)"

definition set_security_caps :: ie_case where
  "set_security_caps v r = (case v of
     VUESecurityCapabilities c \<Rightarrow> r\<lparr> nr_UESecurityCapabilities := Some (decodeUESecurityCapabilities c) \<rparr>
   | _ \<Rightarrow> r)"

definition set_allowed_nssai :: ie_case where
  "set_allowed_nssai v r = (case v of
     VAllowedNSSAI l \<Rightarrow> r\<lparr> nr_AllowedNSSAI := decodeAllowedNSSAI l \<rparr>
   | _ \<Rightarrow> r)"

abbreviation ue_id_cases :: "(int \<times> ie_case) list" where
  "ue_id_cases \<equiv> [(ID_AMFUENGAPID, set_amf_id), (ID_RANUENGAPID, set_ran_id)]"

section \<open>Successful outcomes\<close>

definition append_switched :: ie_case where
  "append_switched v r = (case v of
     VSwitchedList l \<Rightarrow> r\<lparr> nr_PDUSessionIDs := nr_PDUSessionIDs r @ map fst l \<rparr>
   | _ \<Rightarrow> r)"

definition append_released_ack :: ie_case where
  "append_released_ack v r = (case v of
     VReleasedListPSAck l \<Rightarrow> r\<lparr> nr_ReleasePDUSessionIDs := nr_ReleasePDUSessionIDs r @ map fst l \<rparr>
   | _ \<Rightarrow> r)"

definition decodePathSwitchRequestAcknowledge ::
  "ngap_lib \<Rightarrow> protocol_ie list option \<Rightarrow> NGAPResponse \<Rightarrow> NGAPResponse" where
  "decodePathSwitchRequestAcknowledge L msg r = (case msg of None \<Rightarrow> r | Some ies \<Rightarrow>
     decode_ies L PathSwitchRequestAcknowledge
       (ue_id_cases @
        [(ID_UESecurityCapabilities, set_security_caps),
         (ID_PDUSessionResourceSwitchedList, append_switched),
         (ID_PDUSessionResourceReleasedListPSAck, append_released_ack),
         (ID_SecurityContext, set_security_context),
         (ID_AllowedNSSAI, set_allowed_nssai)]) ies r)"

definition decodeHandoverCancelAcknowledge ::
  "ngap_lib \<Rightarrow> protocol_ie list option \<Rightarrow> NGAPResponse \<Rightarrow> NGAPResponse" where
  "decodeHandoverCancelAcknowledge L msg r = (case msg of None \<Rightarrow> r | Some ies \<Rightarrow>
     decode_ies L HandoverCancelAcknowledge ue_id_cases ies r)"

definition set_handover_list :: ie_case where
  "set_handover_list v r = (case v of
     VHandoverList l \<Rightarrow> r\<lparr> nr_PDUSessionIDs := map fst l \<rparr>
   | _ \<Rightarrow> r)"

definition set_to_release :: ie_case where
  "set_to_release v r = (case v of
     VToReleaseListHOCmd l \<Rightarrow> r\<lparr> nr_ReleasePDUSessionIDs := map fst l \<rparr>
   | _ \<Rightarrow> r)"

definition decodeHandoverCommand ::
  "ngap_lib \<Rightarrow> protocol_ie list option \<Rightarrow> NGAPResponse \<Rightarrow> NGAPResponse" where
  "decodeHandoverCommand L msg r = (case msg of None \<Rightarrow> r | Some ies \<Rightarrow>
     decode_ies L HandoverCommand
       (ue_id_cases @
        [(ID_PDUSessionResourceHandoverList, set_handover_list),
         (ID_PDUSessionResourceToReleaseListHOCmd, set_to_release)]) ies r)"

text \<open>The reset acknowledgement knows one IE; with that identity and no list it is unknown too.\<close>

definition reset_ack_ie :: "ngap_lib \<Rightarrow> protocol_ie \<Rightarrow> NGAPResponse \<Rightarrow> NGAPResponse" where
  "reset_ack_ie L ie r =
     (if pieId ie \<noteq> ID_UEAssociatedLogicalNGConnectionList then add_unknown L NGResetAcknowledge ie r
      else case pieValue ie of
        VLogicalConnectionList l \<Rightarrow>
          r\<lparr> nr_ResetConnections := nr_ResetConnections r @
               map (\<lambda>(a, n). \<lparr> rc_AMFUENGAPID = a, rc_RANUENGAPID = n \<rparr>) l \<rparr>
      | _ \<Rightarrow> add_unknown L NGResetAcknowledge ie r)"

definition decodeNGResetAcknowledge ::
  "ngap_lib \<Rightarrow> protocol_ie list option \<Rightarrow> NGAPResponse \<Rightarrow> NGAPResponse" where
  "decodeNGResetAcknowledge L msg r = (case msg of None \<Rightarrow> r | Some ies \<Rightarrow> fold (reset_ack_ie L) ies r)"

definition set_amf_name :: ie_case where
  "set_amf_name v r = (case v of
     VAMFName s \<Rightarrow> r\<lparr> nr_AMFName := Some s \<rparr>
   | _ \<Rightarrow> r)"

definition append_guamis :: ie_case where
  "append_guamis v r = (case v of
     VServedGUAMIList l \<Rightarrow> r\<lparr> nr_ServedGUAMIList := nr_ServedGUAMIList r @ map (\<lambda>g.
          \<lparr> sg_PLMNIdentity = hex_encode (guaPLMN g), sg_AMFRegionID = hex_encode (bsBytes (guaRegion g)),
            sg_AMFSetID = hex_encode (bsBytes (guaSetID g)), sg_AMFPointer = hex_encode (bsBytes (guaPointer g)) \<rparr>) l \<rparr>
   | _ \<Rightarrow> r)"

definition set_capacity :: ie_case where
  "set_capacity v r = (case v of
     VRelativeAMFCapacity v \<Rightarrow> r\<lparr> nr_RelativeAMFCapacity := Some v \<rparr>
   | _ \<Rightarrow> r)"

definition append_plmns :: ie_case where
  "append_plmns v r = (case v of
     VPLMNSupportList l \<Rightarrow> r\<lparr> nr_PLMNSupportList := nr_PLMNSupportList r @ map (\<lambda>(p, sl).
          \<lparr> ps_PLMNIdentity = hex_encode p, ps_SliceSupport = map (\<lambda>s.
              \<lparr> ss_SST = fst (decode_snssai s), ss_SD = snd (decode_snssai s) \<rparr>) sl \<rparr>) l \<rparr>
   | _ \<Rightarrow> r)"

definition set_retention :: ie_case where
  "set_retention v r = (case v of
     VUERetentionInformation v \<Rightarrow> r\<lparr> nr_UERetentionInformation := Some (sint v) \<rparr>
   | _ \<Rightarrow> r)"

text \<open>The two setup decoders do not check the pointer: on nil they panic.\<close>

definition decodeNGSetupResponse ::
  "ngap_lib \<Rightarrow> protocol_ie list option \<Rightarrow> NGAPResponse \<Rightarrow> NGAPResponse result" where
  "decodeNGSetupResponse L msg r = (case msg of
     None \<Rightarrow> Inl (Panic ''nil pointer dereference'')
   | Some ies \<Rightarrow> Inr (decode_ies L NGSetupResponse
       [(ID_AMFName, set_amf_name), (ID_ServedGUAMIList, append_guamis),
        (ID_RelativeAMFCapacity, set_capacity), (ID_PLMNSupportList, append_plmns),
        (ID_CriticalityDiagnostics, set_diagnostics), (ID_UERetentionInformation, set_retention)] ies r))"

definition decodeSuccessfulOutcome :: "ngap_lib \<Rightarrow> NGAPPDU \<Rightarrow> NGAPResponse \<Rightarrow> NGAPResponse result" where
  "decodeSuccessfulOutcome L so r = (case pduMessage so of
     NGSetupResponse \<Rightarrow> decodeNGSetupResponse L (pduIEs so) r
   | NGResetAcknowledge \<Rightarrow> Inr (decodeNGResetAcknowledge L (pduIEs so) r)
   | HandoverCommand \<Rightarrow> Inr (decodeHandoverCommand L (pduIEs so) r)
   | HandoverCancelAcknowledge \<Rightarrow> Inr (decodeHandoverCancelAcknowledge L (pduIEs so) r)
   | PathSwitchRequestAcknowledge \<Rightarrow> Inr (decodePathSwitchRequestAcknowledge L (pduIEs so) r)
   | _ \<Rightarrow> Inr r)"

section \<open>Unsuccessful outcomes\<close>

definition append_released_fail :: ie_case where
  "append_released_fail v r = (case v of
     VReleasedListPSFail l \<Rightarrow> r\<lparr> nr_ReleasePDUSessionIDs := nr_ReleasePDUSessionIDs r @ map fst l \<rparr>
   | _ \<Rightarrow> r)"

definition decodePathSwitchRequestFailure ::
  "ngap_lib \<Rightarrow> protocol_ie list option \<Rightarrow> NGAPResponse \<Rightarrow> NGAPResponse" where
  "decodePathSwitchRequestFailure L msg r = (case msg of None \<Rightarrow> r | Some ies \<Rightarrow>
     decode_ies L PathSwitchRequestFailure
       (ue_id_cases @ [(ID_PDUSessionResourceReleasedListPSFail, append_released_fail)]) ies r)"

definition decodeHandoverPreparationFailure ::
  "ngap_lib \<Rightarrow> protocol_ie list option \<Rightarrow> NGAPResponse \<Rightarrow> NGAPResponse" where
  "decodeHandoverPreparationFailure L msg r = (case msg of None \<Rightarrow> r | Some ies \<Rightarrow>
     decode_ies L HandoverPreparationFailure (ue_id_cases @ [(ID_Cause, set_cause_NGAP)]) ies r)"

definition set_time_to_wait :: ie_case where
  "set_time_to_wait v r = (case v of
     VTimeToWait t \<Rightarrow> r\<lparr> nr_TimeToWait := Some (timeToWaitName t) \<rparr>
   | _ \<Rightarrow> r)"

definition decodeNGSetupFailure ::
  "ngap_lib \<Rightarrow> protocol_ie list option \<Rightarrow> NGAPResponse \<Rightarrow> NGAPResponse result" where
  "decodeNGSetupFailure L msg r = (case msg of
     None \<Rightarrow> Inl (Panic ''nil pointer dereference'')
   | Some ies \<Rightarrow> Inr (decode_ies L NGSetupFailure
       [(ID_Cause, set_cause_NGAP), (ID_TimeToWait, set_time_to_wait),
        (ID_CriticalityDiagnostics, set_diagnostics)] ies r))"

definition decodeUnsuccessfulOutcome :: "ngap_lib \<Rightarrow> NGAPPDU \<Rightarrow> NGAPResponse \<Rightarrow> NGAPResponse result" where
  "decodeUnsuccessfulOutcome L uo r = (case pduMessage uo of
     NGSetupFailure \<Rightarrow> decodeNGSetupFailure L (pduIEs uo) r
   | HandoverPreparationFailure \<Rightarrow> Inr (decodeHandoverPreparationFailure L (pduIEs uo) r)
   | PathSwitchRequestFailure \<Rightarrow> Inr (decodePathSwitchRequestFailure L (pduIEs uo) r)
   | _ \<Rightarrow> Inr r)"

section \<open>Initiating messages\<close>

text \<open>The first NAS PDU among the items of a list becomes the response's, unless it has one.\<close>

definition first_nas_pdu :: "bytes option \<Rightarrow> NGAPResponse \<Rightarrow> NGAPResponse" where
  "first_nas_pdu p r = (case p of
     Some b \<Rightarrow> if nr_NasPDU r = None then r\<lparr> nr_NasPDU := Some (hex_encode b) \<rparr> else r
   | None \<Rightarrow> r)"

definition modify_items :: ie_case where
  "modify_items v r = (case v of
     VModifyListModReq l \<Rightarrow> fold (\<lambda>(i, p). first_nas_pdu p) l r
   | _ \<Rightarrow> r)"

definition decodePDUSessionResourceModifyRequest ::
  "ngap_lib \<Rightarrow> protocol_ie list option \<Rightarrow> NGAPResponse \<Rightarrow> NGAPResponse" where
  "decodePDUSessionResourceModifyRequest L msg r = (case msg of None \<Rightarrow> r | Some ies \<Rightarrow>
     decode_ies L PDUSessionResourceModifyRequest
       (ue_id_cases @ [(ID_PDUSessionResourceModifyListModReq, modify_items)]) ies r)"

definition set_status_transfer :: ie_case where
  "set_status_transfer v r = (case v of
     VRANStatusTransfer c \<Rightarrow> r\<lparr> nr_RANStatusTransfer := Some (decodeRANStatusTransferContainer c) \<rparr>
   | _ \<Rightarrow> r)"

definition decodeDownlinkRANStatusTransfer ::
  "ngap_lib \<Rightarrow> protocol_ie list option \<Rightarrow> NGAPResponse \<Rightarrow> NGAPResponse" where
  "decodeDownlinkRANStatusTransfer L msg r = (case msg of None \<Rightarrow> r | Some ies \<Rightarrow>
     decode_ies L DownlinkRANStatusTransfer
       (ue_id_cases @ [(ID_RANStatusTransferTransparentContainer, set_status_transfer)]) ies r)"

definition paging_ie :: "ngap_lib \<Rightarrow> protocol_ie \<Rightarrow> NGAPResponse \<Rightarrow> NGAPResponse" where
  "paging_ie L ie r = (case pieValue ie of
     VUEPagingIdentity (Some t) \<Rightarrow>
       if pieId ie = ID_UEPagingIdentity then r\<lparr> nr_Paging := Some \<lparr> pg_FiveGSTMSI = Some (decodeFiveGSTMSI t) \<rparr> \<rparr>
       else add_unknown L Paging ie r
   | _ \<Rightarrow> add_unknown L Paging ie r)"

definition decodePaging :: "ngap_lib \<Rightarrow> protocol_ie list option \<Rightarrow> NGAPResponse \<Rightarrow> NGAPResponse" where
  "decodePaging L msg r = (case msg of None \<Rightarrow> r | Some ies \<Rightarrow> fold (paging_ie L) ies r)"

definition decodeErrorIndication :: "ngap_lib \<Rightarrow> protocol_ie list option \<Rightarrow> NGAPResponse \<Rightarrow> NGAPResponse" where
  "decodeErrorIndication L msg r = (case msg of None \<Rightarrow> r | Some ies \<Rightarrow>
     decode_ies L ErrorIndication
       (ue_id_cases @ [(ID_Cause, set_cause_NGAP), (ID_CriticalityDiagnostics, set_diagnostics)]) ies r)"

definition set_setup_list_ho :: ie_case where
  "set_setup_list_ho v r = (case v of
     VSetupListHOReq l \<Rightarrow> r\<lparr> nr_PDUSessionIDs := map fst l \<rparr>
   | _ \<Rightarrow> r)"

definition set_source_to_target :: ie_case where
  "set_source_to_target v r = (case v of
     VSourceToTarget c \<Rightarrow> r\<lparr> nr_SourceToTargetContainer := Some (hex_encode c) \<rparr>
   | _ \<Rightarrow> r)"

definition decodeHandoverRequest :: "ngap_lib \<Rightarrow> protocol_ie list option \<Rightarrow> NGAPResponse \<Rightarrow> NGAPResponse" where
  "decodeHandoverRequest L msg r = (case msg of None \<Rightarrow> r | Some ies \<Rightarrow>
     decode_ies L HandoverRequest
       [(ID_AMFUENGAPID, set_amf_id), (ID_PDUSessionResourceSetupListHOReq, set_setup_list_ho),
        (ID_UEAggregateMaximumBitRate, set_ambr), (ID_SecurityContext, set_security_context),
        (ID_UESecurityCapabilities, set_security_caps),
        (ID_SourceToTargetTransparentContainer, set_source_to_target)] ies r)"

definition decodePDUSessionResourceReleaseCommand ::
  "ngap_lib \<Rightarrow> protocol_ie list option \<Rightarrow> NGAPResponse \<Rightarrow> NGAPResponse" where
  "decodePDUSessionResourceReleaseCommand L msg r = (case msg of None \<Rightarrow> r | Some ies \<Rightarrow>
     decode_ies L PDUSessionResourceReleaseCommand (ue_id_cases @ [(ID_NASPDU, set_nas_pdu)]) ies r)"

definition set_radio_capability :: ie_case where
  "set_radio_capability v r = (case v of
     VUERadioCapability b \<Rightarrow> r\<lparr> nr_UERadioCapability := Some (hex_encode b) \<rparr>
   | _ \<Rightarrow> r)"

definition append_setup_cxt :: "ngap_lib \<Rightarrow> ie_case" where
  "append_setup_cxt L v r = (case v of
     VSetupListCxtReq l \<Rightarrow> r\<lparr> nr_PDUSessionSetupItems := nr_PDUSessionSetupItems r @ map (\<lambda>(i, n, t). setup_item L i t) l \<rparr>
   | _ \<Rightarrow> r)"

definition decodeInitialContextSetupRequest ::
  "ngap_lib \<Rightarrow> protocol_ie list option \<Rightarrow> NGAPResponse \<Rightarrow> NGAPResponse" where
  "decodeInitialContextSetupRequest L msg r = (case msg of None \<Rightarrow> r | Some ies \<Rightarrow>
     decode_ies L InitialContextSetupRequest
       (ue_id_cases @
        [(ID_NASPDU, set_nas_pdu), (ID_UEAggregateMaximumBitRate, set_ambr),
         (ID_AllowedNSSAI, set_allowed_nssai), (ID_UERadioCapability, set_radio_capability),
         (ID_PDUSessionResourceSetupListCxtReq, append_setup_cxt L)]) ies r)"

definition set_old_amf :: ie_case where
  "set_old_amf v r = (case v of
     VOldAMF s \<Rightarrow> r\<lparr> nr_OldAMF := Some s \<rparr>
   | _ \<Rightarrow> r)"

definition set_paging_priority :: ie_case where
  "set_paging_priority v r = (case v of
     VRANPagingPriority v \<Rightarrow> r\<lparr> nr_RANPagingPriority := Some v \<rparr>
   | _ \<Rightarrow> r)"

definition set_mobility :: ie_case where
  "set_mobility v r = (case v of
     VMobilityRestrictionList p eq \<Rightarrow> r\<lparr> nr_MobilityRestrictionList := Some
          \<lparr> mr_ServingPLMN = hex_encode p,
            mr_EquivalentPLMNs = (case eq of None \<Rightarrow> [] | Some l \<Rightarrow> map hex_encode l),
            mr_RATRestrictions = [], mr_ForbiddenAreaInformation = [], mr_ServiceAreaInformation = [] \<rparr> \<rparr>
   | _ \<Rightarrow> r)"

definition set_rfsp :: ie_case where
  "set_rfsp v r = (case v of
     VIndexToRFSP v \<Rightarrow> r\<lparr> nr_IndexToRFSP := Some v \<rparr>
   | _ \<Rightarrow> r)"

definition decodeDownlinkNASTransport ::
  "ngap_lib \<Rightarrow> protocol_ie list option \<Rightarrow> NGAPResponse \<Rightarrow> NGAPResponse" where
  "decodeDownlinkNASTransport L msg r = (case msg of None \<Rightarrow> r | Some ies \<Rightarrow>
     decode_ies L DownlinkNASTransport
       (ue_id_cases @
        [(ID_NASPDU, set_nas_pdu), (ID_OldAMF, set_old_amf), (ID_RANPagingPriority, set_paging_priority),
         (ID_MobilityRestrictionList, set_mobility), (ID_IndexToRFSP, set_rfsp),
         (ID_UEAggregateMaximumBitRate, set_ambr), (ID_AllowedNSSAI, set_allowed_nssai)]) ies r)"

definition append_setup_su :: "ngap_lib \<Rightarrow> ie_case" where
  "append_setup_su L v r = (case v of
     VSetupListSUReq l \<Rightarrow> fold (\<lambda>(i, p, t) r. let r' = first_nas_pdu p r in
       r'\<lparr> nr_PDUSessionSetupItems := nr_PDUSessionSetupItems r' @ [setup_item L i t] \<rparr>) l r
   | _ \<Rightarrow> r)"

definition set_nas_pdu_if_none :: ie_case where
  "set_nas_pdu_if_none v r = (case v of
     VNASPDU b \<Rightarrow> first_nas_pdu (Some b) r
   | _ \<Rightarrow> r)"

definition decodePDUSessionResourceSetupRequest ::
  "ngap_lib \<Rightarrow> protocol_ie list option \<Rightarrow> NGAPResponse \<Rightarrow> NGAPResponse" where
  "decodePDUSessionResourceSetupRequest L msg r = (case msg of None \<Rightarrow> r | Some ies \<Rightarrow>
     decode_ies L PDUSessionResourceSetupRequest
       (ue_id_cases @
        [(ID_UEAggregateMaximumBitRate, set_ambr),
         (ID_PDUSessionResourceSetupListSUReq, append_setup_su L), (ID_NASPDU, set_nas_pdu_if_none)]) ies r)"

definition set_ue_ids :: ie_case where
  "set_ue_ids v r = (case v of
     VUENGAPIDs ids \<Rightarrow> (case ids of
     UEPair a n \<Rightarrow> r\<lparr> nr_AMFUENGAPID := Some a, nr_RANUENGAPID := Some n \<rparr>
   | UEAMF a \<Rightarrow> r\<lparr> nr_AMFUENGAPID := Some a \<rparr>
   | UEOther p \<Rightarrow> r)
   | _ \<Rightarrow> r)"

definition decodeUEContextReleaseCommand ::
  "ngap_lib \<Rightarrow> protocol_ie list option \<Rightarrow> NGAPResponse \<Rightarrow> NGAPResponse" where
  "decodeUEContextReleaseCommand L msg r = (case msg of None \<Rightarrow> r | Some ies \<Rightarrow>
     decode_ies L UEContextReleaseCommand [(ID_UENGAPIDs, set_ue_ids), (ID_Cause, set_cause_NGAP)] ies r)"

definition decodeInitiatingMessage :: "ngap_lib \<Rightarrow> NGAPPDU \<Rightarrow> NGAPResponse \<Rightarrow> NGAPResponse" where
  "decodeInitiatingMessage L im r = (case pduMessage im of
     DownlinkNASTransport \<Rightarrow> decodeDownlinkNASTransport L (pduIEs im) r
   | InitialContextSetupRequest \<Rightarrow> decodeInitialContextSetupRequest L (pduIEs im) r
   | PDUSessionResourceSetupRequest \<Rightarrow> decodePDUSessionResourceSetupRequest L (pduIEs im) r
   | UEContextReleaseCommand \<Rightarrow> decodeUEContextReleaseCommand L (pduIEs im) r
   | PDUSessionResourceReleaseCommand \<Rightarrow> decodePDUSessionResourceReleaseCommand L (pduIEs im) r
   | PDUSessionResourceModifyRequest \<Rightarrow> decodePDUSessionResourceModifyRequest L (pduIEs im) r
   | HandoverRequest \<Rightarrow> decodeHandoverRequest L (pduIEs im) r
   | ErrorIndication \<Rightarrow> decodeErrorIndication L (pduIEs im) r
   | Paging \<Rightarrow> decodePaging L (pduIEs im) r
   | DownlinkRANStatusTransfer \<Rightarrow> decodeDownlinkRANStatusTransfer L (pduIEs im) r
   | _ \<Rightarrow> r)"

section \<open>The decoder\<close>

definition empty_NGAPResponse :: NGAPResponse where
  "empty_NGAPResponse = \<lparr> nr_PDUType = [], nr_MessageType = [], nr_RawHex = [], nr_GlobalRANNodeID = None,
     nr_RANNodeName = None, nr_SupportedTAList = None, nr_DefaultPagingDRX = None, nr_RANUENGAPID = None,
     nr_AMFUENGAPID = None, nr_NasPDU = None, nr_UserLocationInformation = None,
     nr_RRCEstablishmentCause = None, nr_Paging = None, nr_UEContextRequest = None, nr_Cause = None,
     nr_AMFName = None, nr_ServedGUAMIList = [], nr_RelativeAMFCapacity = None, nr_PLMNSupportList = [],
     nr_UERetentionInformation = None, nr_CriticalityDiagnostics = None, nr_TimeToWait = None,
     nr_AMFSetID = None, nr_AllowedNSSAI = [], nr_SelectedPLMNIdentity = None, nr_OldAMF = None,
     nr_RANPagingPriority = None, nr_MobilityRestrictionList = None, nr_IndexToRFSP = None,
     nr_UEAggregateMaxBitRate = None, nr_UERadioCapability = None, nr_PDUSessionSetupItems = [],
     nr_PDUSessionIDs = [], nr_ReleasePDUSessionIDs = [], nr_SecurityContext = None,
     nr_UESecurityCapabilities = None, nr_RANStatusTransfer = None, nr_SourceToTargetContainer = None,
     nr_ResetConnections = [], nr_UnknownIEs = [] \<rparr>"

definition Decode_NGAP :: "ngap_lib \<Rightarrow> bytes \<Rightarrow> NGAPResponse result" where
  "Decode_NGAP L data =
     rbind (rwrap ''ngap decode'' (Decoder L data)) (\<lambda>pdu.
       let r = (\<lambda>ty nm. empty_NGAPResponse\<lparr> nr_RawHex := hex_encode data, nr_PDUType := ty, nr_MessageType := nm \<rparr>) in
       case pduPresent pdu of
         SuccessfulOutcome \<Rightarrow>
           decodeSuccessfulOutcome L pdu
             (r ''successful_outcome'' (successfulOutcomeName (pduMessage pdu) (pduProcedure pdu)))
       | UnsuccessfulOutcome \<Rightarrow>
           decodeUnsuccessfulOutcome L pdu
             (r ''unsuccessful_outcome'' (unsuccessfulOutcomeName (pduMessage pdu) (pduProcedure pdu)))
       | InitiatingMessage \<Rightarrow>
           Inr (decodeInitiatingMessage L pdu
             (r ''initiating_message'' (initiatingMessageName (pduMessage pdu) (pduProcedure pdu))))
       | OtherPDU p \<Rightarrow> Inl (Errorf ''unknown NGAP PDU present''))"

section \<open>The PLMN encoders of the packages agree\<close>

text \<open>The PLMN encoder of the NGAP package accepts exactly what the one of the crypto package
  accepts and gives the same octets, so the identity a gNB announces is the one the keys are bound
  to.\<close>

theorem encodePLMN_tbcdPLMN: "encodePLMN mcc mnc = Inr p \<longleftrightarrow> tbcdPLMN mcc mnc = Inr p"
  by (auto simp: encodePLMN_def tbcdPLMN_def Let_def)

text \<open>A concrete codec for the examples.\<close>

definition ngap_instance :: "NGAPPDU \<Rightarrow> ngap_lib" where
  "ngap_instance pdu = \<lparr> Encoder = (\<lambda>p. Inr [0x20, 0]), Decoder = (\<lambda>b. Inr pdu),
     MarshalTransfer = (\<lambda>t. Inr [0]), MarshalValue = (\<lambda>m v. Inr [0x40]),
     UnmarshalSetupRequest = (\<lambda>b. Inr []),
     HexToBitString = (\<lambda>h n. \<lparr> bsBytes = [0, 0, 1], bsBitLength = n \<rparr>) \<rparr>"

section \<open>The messages that go through JSON\<close>

lemmas build_simps = buildPDU_def buildInitialUEMessage_def buildNGSetupRequest_def
  buildInitialUEMessageIE_def buildNGSetupRequestIE_def json_ie_def empty_IE_def require_def
  build_user_location_def build_tmsi_def build_global_ran_node_id_def build_ta_item_def build_plmn_item_def
  location_ie_def Let_def

text \<open>The initial UE message built from parameters and encoded from its JSON form is this PDU: the
  RAN identity, cause and context request are the overrides where given, the location is the gNB's
  PLMN, cell and tracking area, and a negative context request drops that element.\<close>

theorem initial_ue_message_pdu:
  assumes "encodePLMN (ipMCC p) (ipMNC p) = Inr plmn"
    and "nrCellIdentity (ipGNBID p) = Inr cell"
    and "parseTAC (ipTAC p) = Inr tac"
    and "ipGUTI p = None"
  shows "rbind (BuildInitialUEMessage p) (buildPDU L) =
    Inr (new_pdu InitiatingMessage Proc_InitialUEMessage CriticalityIgnore InitialUEMessage
      ([new_ie ID_RANUENGAPID CriticalityReject (VRANUENGAPID (override (ipOverrides p) ioRANUENGAPID (ipRANUENGAPID p))),
        new_ie ID_NASPDU CriticalityReject (VNASPDU (ipNASPDU p)),
        (location_ie plmn cell tac)\<lparr> pieCriticality := CriticalityReject \<rparr>,
        new_ie ID_RRCEstablishmentCause CriticalityIgnore
          (VRRCEstablishmentCause (Enumerated (override (ipOverrides p) ioRRCEstablishmentCause 3)))]
       @ (if override (ipOverrides p) ioUEContextRequest 0 < 0 then []
          else [new_ie ID_UEContextRequest CriticalityIgnore
                  (VUEContextRequest (Enumerated (override (ipOverrides p) ioUEContextRequest 0)))])))"
proof -
  define x where "x = override (ipOverrides p) ioUEContextRequest 0"
  define y where "y = override (ipOverrides p) ioRRCEstablishmentCause 3"
  define z where "z = override (ipOverrides p) ioRANUENGAPID (ipRANUENGAPID p)"
  show ?thesis
    unfolding x_def [symmetric] y_def [symmetric] z_def [symmetric]
    using assms
    by (simp add: BuildInitialUEMessage_def build_simps new_ie_def x_def [symmetric] y_def [symmetric] z_def [symmetric])
qed

theorem initial_ue_message_pdu_witness:
  "rbind (BuildInitialUEMessage \<lparr> ipRANUENGAPID = 1, ipNASPDU = [0x7e, 0, 0x41], ipMCC = ''001'', ipMNC = ''01'',
       ipTAC = ''000001'', ipGNBID = ''000001'', ipGUTI = None,
       ipOverrides = Some \<lparr> ioRRCEstablishmentCause = None, ioUEContextRequest = Some (- 1), ioRANUENGAPID = Some 9 \<rparr> \<rparr>)
     (buildPDU L) =
   Inr (new_pdu InitiatingMessage 15 1 InitialUEMessage
     [new_ie 85 0 (VRANUENGAPID 9), new_ie 38 0 (VNASPDU [0x7e, 0, 0x41]),
      (location_ie [0x00, 0xf1, 0x10] \<lparr> bsBytes = [0, 0, 1, 0, 0], bsBitLength = 36 \<rparr> [0, 0, 1])\<lparr> pieCriticality := 0 \<rparr>,
      new_ie 90 1 (VRRCEstablishmentCause 3)])"
proof -
  have plmn: "encodePLMN ''001'' ''01'' = Inr [0x00, 0xf1, 0x10]" by code_simp
  have cell: "nrCellIdentity ''000001'' = Inr \<lparr> bsBytes = [0, 0, 1, 0, 0], bsBitLength = 36 \<rparr>" by code_simp
  have tac: "parseTAC ''000001'' = Inr [0, 0, 1]" by code_simp
  show ?thesis
    by (subst initial_ue_message_pdu [where plmn = "[0x00, 0xf1, 0x10]" and tac = "[0, 0, 1]"
          and cell = "\<lparr> bsBytes = [0, 0, 1, 0, 0], bsBitLength = 36 \<rparr>"])
      (simp_all add: plmn cell tac override_def Enumerated_def)
qed

text \<open>An NG Setup request is built exactly when the PLMN is one and the paging DRX, if given, is
  one of the four values of the specification; nothing else is rejected and nothing out of range
  gets through.\<close>

theorem BuildNGSetupRequest_accepts:
  "rok (BuildNGSetupRequest p) \<longleftrightarrow> rok (encodePLMN (nspMCC p) (nspMNC p)) \<and>
     (case nspDefaultPagingDRX p of None \<Rightarrow> True | Some d \<Rightarrow> d \<in> {0..3})"
  by (auto simp: BuildNGSetupRequest_def Let_def rok_iff rbind_eq_Inr split: option.splits)

lemma slice_decodes: "hex_decode (slice_sst v) = Inr [word_of_int v]"
  by (simp only: slice_sst_def hex_decode_encode)

lemma collect_slices:
  assumes "\<And>s. s \<in> set (nspSlices p) \<Longrightarrow> nslSD s = []" "nspSD p = []"
  shows "collect (\<lambda>s. build_snssai a b (ss_SST s) (ss_SD s)) (setup_slices p) =
    Inr (map (\<lambda>v. \<lparr> snsSST = [word_of_int v], snsSD = None \<rparr>)
           (if nspSlices p = [] then [nspSST p] else map nslSST (nspSlices p)))"
  using assms
  by (auto simp: setup_slices_def collect_map build_snssai_def slice_decodes comp_def intro!: collect_ok)

text \<open>The NG Setup request built from parameters and encoded from its JSON form is this PDU: the
  gNB identity at 24 bits unless a length is given, the node name, one tracking area with one PLMN and
  the slices (the single default slice when the list is empty), and paging DRX 128 by default.\<close>

theorem ng_setup_pdu:
  assumes "encodePLMN (nspMCC p) (nspMNC p) = Inr plmn"
    and "hex_decode (nspTAC p) = Inr tac"
    and "nspSD p = []" and "\<And>s. s \<in> set (nspSlices p) \<Longrightarrow> nslSD s = []"
    and "nspDefaultPagingDRX p = None"
  shows "rbind (BuildNGSetupRequest p) (buildPDU L) =
    Inr (new_pdu InitiatingMessage Proc_NGSetup CriticalityReject NGSetupRequest
      [new_ie ID_GlobalRANNodeID CriticalityReject (VGlobalRANNodeID plmn
         (HexToBitString L (nspGNBID p) (if nspGNBIDBitLength p = 0 then 24 else nspGNBIDBitLength p))),
       new_ie ID_RANNodeName CriticalityIgnore (VRANNodeName (nspName p)),
       new_ie ID_SupportedTAList CriticalityReject (VSupportedTAList [(tac, [(plmn,
         map (\<lambda>v. \<lparr> snsSST = [word_of_int v], snsSD = None \<rparr>)
           (if nspSlices p = [] then [nspSST p] else map nslSST (nspSlices p)))])]),
       new_ie ID_DefaultPagingDRX CriticalityIgnore (VDefaultPagingDRX 2)])"
  using assms collect_slices [of p]
  by (simp add: BuildNGSetupRequest_def build_simps Enumerated_def)

theorem ng_setup_pdu_witness:
  "rbind (BuildNGSetupRequest \<lparr> nspMCC = ''001'', nspMNC = ''01'', nspTAC = ''000001'', nspGNBID = ''000001'',
       nspGNBIDBitLength = 0, nspName = ''gnb'', nspSST = 1, nspSD = [], nspSlices = [],
       nspDefaultPagingDRX = None \<rparr>) (buildPDU (ngap_instance (ErrorIndication_pdu 0 0 0))) =
    Inr (new_pdu InitiatingMessage 21 0 NGSetupRequest
      [new_ie 27 0 (VGlobalRANNodeID [0x00, 0xf1, 0x10] \<lparr> bsBytes = [0, 0, 1], bsBitLength = 24 \<rparr>),
       new_ie 82 1 (VRANNodeName ''gnb''),
       new_ie 102 0 (VSupportedTAList [([0, 0, 1], [([0x00, 0xf1, 0x10], [\<lparr> snsSST = [1], snsSD = None \<rparr>])])]),
       new_ie 21 1 (VDefaultPagingDRX 2)])"
proof -
  have plmn: "encodePLMN ''001'' ''01'' = Inr [0x00, 0xf1, 0x10]" by code_simp
  have tac: "hex_decode ''000001'' = Inr [0, 0, 1]" by code_simp
  show ?thesis
    by (subst ng_setup_pdu [where plmn = "[0x00, 0xf1, 0x10]" and tac = "[0, 0, 1]"]) (simp_all add: plmn tac ngap_instance_def del: hex_decode.simps)
qed

section \<open>Elements of a message\<close>

text \<open>A case that leaves the list of unknown elements alone.\<close>

definition keeps_unknown :: "ie_case \<Rightarrow> bool" where
  "keeps_unknown f = (\<forall>v r. nr_UnknownIEs (f v r) = nr_UnknownIEs r)"

lemma unknown_first_nas_pdu [simp]: "nr_UnknownIEs (first_nas_pdu p r) = nr_UnknownIEs r"
  by (simp add: first_nas_pdu_def split: option.split)

lemma unknown_fold:
  "(\<And>x r. nr_UnknownIEs (f x r) = nr_UnknownIEs r) \<Longrightarrow> nr_UnknownIEs (fold f l r) = nr_UnknownIEs r"
  by (induction l arbitrary: r) auto

lemma cases_keep_unknown:
  "keeps_unknown set_amf_id" "keeps_unknown set_ran_id" "keeps_unknown set_cause_NGAP"
  "keeps_unknown set_nas_pdu" "keeps_unknown set_diagnostics" "keeps_unknown set_ambr"
  "keeps_unknown set_security_context" "keeps_unknown set_security_caps" "keeps_unknown set_allowed_nssai"
  "keeps_unknown modify_items" "keeps_unknown set_status_transfer" "keeps_unknown set_setup_list_ho"
  "keeps_unknown set_source_to_target" "keeps_unknown set_radio_capability"
  "keeps_unknown (append_setup_cxt L)" "keeps_unknown set_old_amf" "keeps_unknown set_paging_priority"
  "keeps_unknown set_mobility" "keeps_unknown set_rfsp" "keeps_unknown (append_setup_su L)"
  "keeps_unknown set_nas_pdu_if_none" "keeps_unknown set_ue_ids"
  by (auto simp: keeps_unknown_def set_amf_id_def set_ran_id_def set_cause_NGAP_def set_nas_pdu_def
      set_diagnostics_def set_ambr_def set_security_context_def set_security_caps_def set_allowed_nssai_def
      modify_items_def set_status_transfer_def set_setup_list_ho_def set_source_to_target_def
      set_radio_capability_def append_setup_cxt_def set_old_amf_def set_paging_priority_def
      set_mobility_def set_rfsp_def append_setup_su_def set_nas_pdu_if_none_def set_ue_ids_def Let_def
      intro!: unknown_fold split: ie_value.split ue_ids.split)

lemma decode_ies_unknown:
  assumes "list_all keeps_unknown (map snd cases)"
  shows "nr_UnknownIEs (decode_ies L m cases ies r) =
    nr_UnknownIEs r @ map (unknownIE L m) (filter (\<lambda>ie. pieId ie \<notin> fst ` set cases) ies)"
proof (induction ies arbitrary: r)
  case (Cons ie ies)
  show ?case
  proof (cases "map_of cases (pieId ie)")
    case None
    then have "pieId ie \<notin> fst ` set cases" by (simp add: map_of_eq_None_iff)
    with None Cons show ?thesis by (simp add: decode_ies_def decode_ie_def add_unknown_def)
  next
    case (Some f)
    then have "(pieId ie, f) \<in> set cases" by (rule map_of_SomeD)
    then have "keeps_unknown f" "pieId ie \<in> fst ` set cases" using assms by (force simp: list_all_iff)+
    with Some Cons show ?thesis by (simp add: decode_ies_def decode_ie_def keeps_unknown_def)
  qed
qed (simp add: decode_ies_def)

text \<open>The identities each decoder of an initiating message knows.\<close>

definition known_ids :: "message \<Rightarrow> int list" where
  "known_ids m = (case m of
     DownlinkNASTransport \<Rightarrow> [10, 85, 38, 48, 83, 36, 31, 110, 0]
   | InitialContextSetupRequest \<Rightarrow> [10, 85, 38, 110, 0, 117, 71]
   | PDUSessionResourceSetupRequest \<Rightarrow> [10, 85, 110, 74, 38]
   | UEContextReleaseCommand \<Rightarrow> [114, 15]
   | PDUSessionResourceReleaseCommand \<Rightarrow> [10, 85, 38]
   | PDUSessionResourceModifyRequest \<Rightarrow> [10, 85, 64]
   | HandoverRequest \<Rightarrow> [10, 73, 110, 93, 119, 101]
   | ErrorIndication \<Rightarrow> [10, 85, 15, 19]
   | DownlinkRANStatusTransfer \<Rightarrow> [10, 85, 84]
   | _ \<Rightarrow> [])"

lemma initiating_unknown:
  assumes "known_ids m \<noteq> []"
  shows "nr_UnknownIEs (decodeInitiatingMessage L (new_pdu InitiatingMessage p c m ies) r) =
    nr_UnknownIEs r @ map (unknownIE L m) (filter (\<lambda>ie. pieId ie \<notin> set (known_ids m)) ies)"
  using assms
  by (cases m)
    (simp_all add: known_ids_def decodeInitiatingMessage_def decodeDownlinkNASTransport_def
      decodeInitialContextSetupRequest_def decodePDUSessionResourceSetupRequest_def
      decodeUEContextReleaseCommand_def decodePDUSessionResourceReleaseCommand_def
      decodePDUSessionResourceModifyRequest_def decodeHandoverRequest_def decodeErrorIndication_def
      decodeDownlinkRANStatusTransfer_def decode_ies_unknown cases_keep_unknown)





text \<open>C36. The tunnel endpoint a node announces for an IPv4 address, read back by the transfer
  decoder, is the same TEID and the same dotted address, for every TEID and address.\<close>

theorem tunnel_roundtrip:
  "rbind (tunnel teid (string4 w)) (\<lambda>t.
     Inr (first_tunnel [\<lparr> tieId = 139, tieULNGUUPTNL = Some (Some t) \<rparr>])) =
   Inr (Some (teid, string4 w, []))"
  by (simp add: tunnel_def tunnel_addresses_def)

lemma path_switch_ies_ids:
  "path_switch_ies L p = Inr ies \<Longrightarrow>
   map pieId ies = [85, 100, 121, 119, 76] @ (if pqFailed p = [] then [] else [57])"
  by (auto simp: path_switch_ies_def rbind_eq_Inr failed_ies_def location_ie_def split: if_splits)

lemma ids_of_omit: "map pieId (omit_ies om ies) = filter (\<lambda>i. i \<notin> set om) (map pieId ies)"
  by (simp add: omit_ies_def filter_map comp_def)

text \<open>A path switch request carries its standard elements in order, the list of failed sessions
  only when there is one, and none of those the caller asked to omit.\<close>

theorem PathSwitchRequest_ids:
  assumes "PathSwitchRequest_pdu L p = Inr pdu"
  shows "map_option (map pieId) (pduIEs pdu) =
    Some (filter (\<lambda>i. i \<notin> set (pqOmitIEs p)) ([85, 100, 121, 119, 76] @ (if pqFailed p = [] then [] else [57])))"
  using assms
  by (auto simp: PathSwitchRequest_pdu_def rbind_eq_Inr ids_of_omit path_switch_ies_ids simp del: filter.simps filter_append)

definition path_switch_example :: PathSwitchRequestParams where
  "path_switch_example = \<lparr> pqRANUENGAPID = 1, pqSourceAMFUENGAPID = 2, pqMCC = ''001'', pqMNC = ''01'',
     pqTAC = ''000001'', pqGNBID = ''000001'',
     pqSecCaps = \<lparr> usNREncryption = [0xe0, 0], usNRIntegrity = [0xe0, 0], usEUTRAEncryption = [0, 0], usEUTRAIntegrity = [0, 0] \<rparr>,
     pqSessions = [\<lparr> pwPDUSessionID = 1, pwDLTeid = 7, pwDLIP = ''10.0.0.1'', pwRawTransfer = Some [0] \<rparr>],
     pqFailed = [2], pqOmitIEs = [119, 57] \<rparr>"

theorem PathSwitchRequest_ids_witness:
  "\<exists>pdu. PathSwitchRequest_pdu (ngap_instance (ErrorIndication_pdu 0 0 0)) path_switch_example = Inr pdu \<and>
     map_option (map pieId) (pduIEs pdu) = Some [85, 100, 121, 76]"
proof -
  have plmn: "encodePLMN ''001'' ''01'' = Inr [0x00, 0xf1, 0x10]" by code_simp
  have cell: "nrCellIdentity ''000001'' = Inr \<lparr> bsBytes = [0, 0, 1, 0, 0], bsBitLength = 36 \<rparr>" by code_simp
  have tac: "parseTAC ''000001'' = Inr [0, 0, 1]" by code_simp
  have "\<exists>pdu. PathSwitchRequest_pdu (ngap_instance (ErrorIndication_pdu 0 0 0)) path_switch_example = Inr pdu"
    by (simp add: PathSwitchRequest_pdu_def path_switch_ies_def path_switch_example_def plmn cell tac
        failed_ies_def buildPathSwitchRequestSetupFailedTransfer_def ngap_instance_def)
  then obtain pdu where pdu: "PathSwitchRequest_pdu (ngap_instance (ErrorIndication_pdu 0 0 0)) path_switch_example = Inr pdu" ..
  with PathSwitchRequest_ids [OF pdu] show ?thesis by (simp add: path_switch_example_def)
qed

end
