(* ===== verification/S1ap_Types.thy ===== *)
theory S1ap_Types
  imports Prelude
begin

text \<open>
  The JSON view of S1AP: \<open>internal/s1ap/types.go\<close>, with the conventions of \<open>Ngap_Types\<close>.
  The kinds of eNB identity are the library's constants.
\<close>

datatype ENBIDKind = ENBIDMacro | ENBIDHome | ENBIDShortMacro | ENBIDLongMacro

record PLMNParams =
  pp_MCC :: string
  pp_MNC :: string

record SupportedTAParams =
  st_TAC :: string
  st_BroadcastPLMNs :: "PLMNParams list"

record S1SetupRequestParams =
  sp_MCC :: string
  sp_MNC :: string
  sp_ENBID :: u32
  sp_ENBIDKind :: ENBIDKind
  sp_ENBName :: string
  sp_TAC :: string
  sp_SupportedTAs :: "SupportedTAParams list"
  sp_DefaultPagingDRX :: "int option"

record UnknownIEJSON_S1 =
  su_ID :: int
  su_Criticality :: string
  su_ValueHex :: string

record PagingJSON_S1 =
  sq_MMEC :: u8
  sq_MTMSI :: u32
  sq_UEIdentityIndexValue :: u16
  sq_CNDomain :: string

record UEAggregateMaxBitRateJSON_S1 =
  sb_DL :: int
  sb_UL :: int

record UESecurityCapabilitiesJSON_S1 =
  sk_EncryptionAlgorithms :: string
  sk_IntegrityProtectionAlgorithms :: string

record SecurityContextJSON_S1 =
  sx_NextHopChainingCount :: int
  sx_NextHop :: string

record ERABSetupItemJSON =
  si_ERABID :: int
  si_ULTeid :: u32
  si_TransportLayerAddress :: string
  si_TransportLayerAddressIPv6 :: string

record ERABModifyItemJSON =
  sm_ERABID :: int
  sm_QCI :: int
  sm_ARPPriorityLevel :: int

record ServedGUMMEIJSON =
  sv_ServedPLMNs :: "string list"
  sv_ServedGroupIDs :: "string list"
  sv_ServedMMECs :: "string list"

record CauseJSON_S1 =
  sj_Group :: string
  sj_Value :: int

record IECriticalityDiagnosticJSON_S1 =
  se_IECriticality :: string
  se_IEID :: int
  se_TypeOfError :: string

record CriticalityDiagnosticsJSON_S1 =
  sd_ProcedureCode :: "int option"
  sd_TriggeringMessage :: "string option"
  sd_ProcedureCriticality :: "string option"
  sd_IEsCriticalityDiagnostics :: "IECriticalityDiagnosticJSON_S1 list"

record ResetConnectionJSON_S1 =
  sz_MMEUES1APID :: "int option"
  sz_ENBUES1APID :: "int option"

record S1APResponse =
  sr_PDUType :: string
  sr_MessageType :: string
  sr_RawHex :: string
  sr_MMEName :: "string option"
  sr_ServedGUMMEIs :: "ServedGUMMEIJSON list"
  sr_RelativeMMECapacity :: "int option"
  sr_TimeToWait :: "string option"
  sr_MMEUES1APID :: "int option"
  sr_ENBUES1APID :: "int option"
  sr_NASPDU :: "string option"
  sr_ERABSetupItems :: "ERABSetupItemJSON list"
  sr_UERadioCapability :: "string option"
  sr_UEAggregateMaxBitRate :: "UEAggregateMaxBitRateJSON_S1 option"
  sr_Cause :: "CauseJSON_S1 option"
  sr_CriticalityDiagnostics :: "CriticalityDiagnosticsJSON_S1 option"
  sr_SecurityContext :: "SecurityContextJSON_S1 option"
  sr_ResetConnections :: "ResetConnectionJSON_S1 list"
  sr_ReplayedUESecurityCapabilities :: "UESecurityCapabilitiesJSON_S1 option"
  sr_UESecurityCapabilities :: "UESecurityCapabilitiesJSON_S1 option"
  sr_SourceToTargetContainer :: "string option"
  sr_Paging :: "PagingJSON_S1 option"
  sr_ERABModifyItems :: "ERABModifyItemJSON list"
  sr_ReleasedERABs :: "int list"
  sr_StatusTransferContainer :: string
  sr_UnknownIEs :: "UnknownIEJSON_S1 list"

end
