(* ===== verification/S1ap_Build.thy ===== *)
theory S1ap_Build
  imports S1ap_Types Netip Ngap_Build
begin

text \<open>
  Encoding of the messages the simulated eNB sends: \<open>internal/s1ap/encode.go\<close>, \<open>helpers.go\<close>,
  \<open>cause.go\<close>, \<open>ue_messages.go\<close>, \<open>handover.go\<close>, \<open>path_switch.go\<close> and \<open>reset.go\<close>.  The messages are
  the structs of the library \<open>ellanetworks/core/s1ap\<close>, one constructor of \<open>s1_msg\<close> each with the
  fields the program sets; the library's \<open>Marshal\<close> is a parameter.  A \<open>Build\<close> function is its message
  (\<open>X_msg\<close> where it can fail) and \<open>Marshal\<close>.  Names that both radio systems use have the suffix
  \<open>_S1\<close> here.
\<close>

section \<open>Standard library\<close>

text \<open>\<open>strconv.ParseUint(s, 16, n)\<close>.\<close>

definition ParseUint16 :: "nat \<Rightarrow> string \<Rightarrow> nat result" where
  "ParseUint16 bits s =
     (if s = [] \<or> \<not> list_all (\<lambda>c. from_hex_char c \<noteq> None) s then Inl (Sentinel ''strconv.ErrSyntax'')
      else if hex_value s \<ge> 2 ^ bits then Inl (Sentinel ''strconv.ErrRange'')
      else Inr (hex_value s))"

text \<open>\<open>net.ParseIP\<close>: 16 octets; \<open>To4\<close> of them; \<open>IP.String\<close> of 4 or 16 octets.\<close>

definition ParseIP :: "string \<Rightarrow> bytes option" where
  "ParseIP s = (case ParseAddr s of
     Inr (Addr4 w) \<Rightarrow> Some (As16 (Addr4 w))
   | Inr (Addr6 w z) \<Rightarrow> if z = [] then Some (As16 (Addr6 w z)) else None
   | _ \<Rightarrow> None)"

definition To4 :: "bytes \<Rightarrow> bytes option" where
  "To4 b = (if length b = 16 \<and> take 12 b = replicate 10 0 @ [0xff, 0xff] then Some (drop 12 b)
            else if length b = 4 then Some b else None)"

definition IP_String :: "bytes \<Rightarrow> string" where
  "IP_String b = (case AddrFromSlice b of Some a \<Rightarrow> addr_string (Unmap a) | None \<Rightarrow> [])"

section \<open>Messages of the library\<close>

record s1_tai =
  taiPLMN :: bytes
  taiTAC :: u16

record s1_cgi =
  cgiPLMN :: bytes
  cgiCellID :: u32

record s1_bearer =
  berERABID :: u8
  berAddress :: bytes
  berTEID :: u32

datatype s1_group = GRadioNetwork | GTransport | GNAS | GProtocol | GMisc | GOther int

record s1_cause =
  scaGroup :: s1_group
  scaValue :: int
  scaExtended :: bool

datatype (plugins only: code) s1_msg =
    MS1SetupRequest bytes ENBIDKind u32 string "(u16 \<times> bytes list) list" int
  | MInitialUEMessage u32 bytes s1_tai s1_cgi int "(u8 \<times> u32) option"
  | MUplinkNASTransport u32 u32 bytes s1_cgi s1_tai
  | MUEContextReleaseRequest u32 u32 s1_cause
  | MUEContextReleaseComplete u32 u32
  | MInitialContextSetupResponse u32 u32 "s1_bearer list"
  | MInitialContextSetupFailure u32 u32 s1_cause
  | MERABSetupResponse u32 u32 "s1_bearer list"
  | MERABModifyResponse u32 u32 "u8 list"
  | MERABReleaseResponse u32 u32 "u8 list"
  | MErrorIndication "u32 option" "u32 option" "s1_cause option"
  | MUECapabilityInfoIndication u32 u32 bytes
  | MHandoverRequired u32 u32 int s1_cause bytes ENBIDKind u32 s1_tai bytes
  | MHandoverRequestAcknowledge u32 u32 "s1_bearer list" "(u8 \<times> s1_cause) list" bytes
  | MHandoverNotify u32 u32 s1_cgi s1_tai
  | MHandoverCancel u32 u32 s1_cause
  | MHandoverFailure u32 s1_cause
  | MENBStatusTransfer u32 u32 bytes
  | MPathSwitchRequest u32 "s1_bearer list" u32 s1_cgi s1_tai u16 u16
  | MReset s1_cause bool "(u32 option \<times> u32 option) list"

text \<open>The library's side of encoding: \<open>Marshal\<close>, and the conversion of a number to its establishment
  cause type.\<close>

record s1_enc_lib =
  Marshal_S1 :: "s1_msg \<Rightarrow> bytes result"
  toRRCCause :: "int \<Rightarrow> int"

abbreviation (input) RRCCauseMOSignalling :: int where "RRCCauseMOSignalling \<equiv> 3"
abbreviation (input) PagingDRXv128 :: int where "PagingDRXv128 \<equiv> 2"
abbreviation (input) PagingDRXv256 :: int where "PagingDRXv256 \<equiv> 3"
abbreviation (input) HandoverTypeIntraLTE :: int where "HandoverTypeIntraLTE \<equiv> 0"

section \<open>Helpers\<close>

definition ENBIDValue :: "string \<Rightarrow> int \<Rightarrow> (u32 \<times> ENBIDKind) result" where
  "ENBIDValue hexID bitLength =
     rbind (if bitLength = 0 \<or> bitLength = 20 then Inr ENBIDMacro
            else if bitLength = 28 then Inr ENBIDHome
            else if bitLength = 18 then Inr ENBIDShortMacro
            else if bitLength = 21 then Inr ENBIDLongMacro
            else Inl (Errorf ''enb_id_bit_length invalid'')) (\<lambda>kind.
     rbind (rmsg ''enb_id must be a hex string'' (ParseUint16 32 hexID)) (\<lambda>v.
       Inr (of_nat v, kind)))"

definition parseTAC_S1 :: "string \<Rightarrow> u16 result" where
  "parseTAC_S1 s = rbind (rmsg ''tac must be a 2-octet hex string'' (ParseUint16 16 s)) (\<lambda>v. Inr (of_nat v))"

definition parseTransportAddr :: "string \<Rightarrow> bytes result" where
  "parseTransportAddr s = (case ParseIP s of
     None \<Rightarrow> Inl (Errorf ''invalid transport layer address'')
   | Some ip \<Rightarrow> (case To4 ip of Some v4 \<Rightarrow> Inr v4 | None \<Rightarrow> Inr ip))"

definition encodePLMN_S1 :: "string \<Rightarrow> string \<Rightarrow> bytes result" where
  "encodePLMN_S1 mcc mnc =
     (if length mcc \<noteq> 3 then Inl (Errorf ''mcc must be 3 digits'')
      else if length mnc \<noteq> 2 \<and> length mnc \<noteq> 3 then Inl (Errorf ''mnc must be 2 or 3 digits'')
      else if \<not> list_all is_digit (mcc @ mnc) then Inl (Errorf ''non-digit in plmn'')
      else
        let d = map digit_val (mcc @ mnc);
            b = (\<lambda>hi lo. of_nat (push_bit 4 hi OR lo)) in
        if length mnc = 2 then Inr [b (d ! 1) (d ! 0), b 0xF (d ! 2), b (d ! 4) (d ! 3)]
        else Inr [b (d ! 1) (d ! 0), b (d ! 5) (d ! 2), b (d ! 4) (d ! 3)])"

section \<open>Causes\<close>

definition radioNetworkCause :: "int \<Rightarrow> s1_cause" where
  "radioNetworkCause v =
     (if v \<ge> 36 then \<lparr> scaGroup = GRadioNetwork, scaValue = v - 36, scaExtended = True \<rparr>
      else \<lparr> scaGroup = GRadioNetwork, scaValue = v, scaExtended = False \<rparr>)"

text \<open>A \<open>Cause\<close> literal of the radio network group without the extension mark.\<close>

definition rootCause :: "int \<Rightarrow> s1_cause" where
  "rootCause v = \<lparr> scaGroup = GRadioNetwork, scaValue = v, scaExtended = False \<rparr>"

definition CauseRadioNetworkHandoverCancelled_S1 :: int where "CauseRadioNetworkHandoverCancelled_S1 = 4"

definition CauseRadioNetworkHOFailureInTarget_S1 :: int where "CauseRadioNetworkHOFailureInTarget_S1 = 6"

definition CauseRadioNetworkHandoverDesirableForRadioReason_S1 :: int where
  "CauseRadioNetworkHandoverDesirableForRadioReason_S1 = 16"

definition CauseRadioNetworkUserInactivity_S1 :: int where "CauseRadioNetworkUserInactivity_S1 = 20"

definition CauseMiscOMIntervention_S1 :: int where "CauseMiscOMIntervention_S1 = 3"

section \<open>S1 Setup\<close>

definition build_supported_ta :: "bytes \<Rightarrow> SupportedTAParams \<Rightarrow> (u16 \<times> bytes list) result" where
  "build_supported_ta enbPLMN ta =
     rbind (collect (\<lambda>pl. encodePLMN_S1 (pp_MCC pl) (pp_MNC pl)) (st_BroadcastPLMNs ta)) (\<lambda>bs.
     rbind (parseTAC_S1 (st_TAC ta)) (\<lambda>tac.
       Inr (tac, (if st_BroadcastPLMNs ta = [] then [enbPLMN] else []) @ bs)))"

definition buildSupportedTAs :: "S1SetupRequestParams \<Rightarrow> bytes \<Rightarrow> (u16 \<times> bytes list) list result" where
  "buildSupportedTAs p enbPLMN =
     (if sp_SupportedTAs p = [] then rbind (parseTAC_S1 (sp_TAC p)) (\<lambda>tac. Inr [(tac, [enbPLMN])])
      else collect (build_supported_ta enbPLMN) (sp_SupportedTAs p))"

definition S1SetupRequest_msg :: "S1SetupRequestParams \<Rightarrow> s1_msg result" where
  "S1SetupRequest_msg p =
     rbind (encodePLMN_S1 (sp_MCC p) (sp_MNC p)) (\<lambda>enbPLMN.
     rbind (buildSupportedTAs p enbPLMN) (\<lambda>tas.
     rbind (case sp_DefaultPagingDRX p of
              None \<Rightarrow> Inr PagingDRXv128
            | Some d \<Rightarrow> if d < 0 \<or> d > PagingDRXv256 then Inl (Errorf ''default_paging_drx must be 0..3'')
                        else Inr d) (\<lambda>drx.
       Inr (MS1SetupRequest enbPLMN (sp_ENBIDKind p) (sp_ENBID p) (sp_ENBName p) tas drx))))"

definition BuildS1SetupRequest :: "s1_enc_lib \<Rightarrow> S1SetupRequestParams \<Rightarrow> bytes result" where
  "BuildS1SetupRequest L p = rbind (S1SetupRequest_msg p) (Marshal_S1 L)"

section \<open>UE messages\<close>

record STMSIParams =
  smMMEC :: u8
  smMTMSI :: u32

record InitialUEMessageParams_S1 =
  iuENBUES1APID :: u32
  iuNASPDU :: bytes
  iuMCC :: string
  iuMNC :: string
  iuTAC :: string
  iuCellID :: u32
  iuSTMSI :: "STMSIParams option"
  iuRRCEstablishmentCause :: "int option"

definition InitialUEMessage_msg :: "s1_enc_lib \<Rightarrow> InitialUEMessageParams_S1 \<Rightarrow> s1_msg result" where
  "InitialUEMessage_msg L p =
     rbind (encodePLMN_S1 (iuMCC p) (iuMNC p)) (\<lambda>plmn.
     let rrcCause = (case iuRRCEstablishmentCause p of None \<Rightarrow> RRCCauseMOSignalling | Some c \<Rightarrow> toRRCCause L c) in
     rbind (parseTAC_S1 (iuTAC p)) (\<lambda>tac.
       Inr (MInitialUEMessage (iuENBUES1APID p) (iuNASPDU p) \<lparr> taiPLMN = plmn, taiTAC = tac \<rparr>
              \<lparr> cgiPLMN = plmn, cgiCellID = iuCellID p \<rparr> rrcCause
              (map_option (\<lambda>s. (smMMEC s, smMTMSI s)) (iuSTMSI p)))))"

definition BuildInitialUEMessage_S1 :: "s1_enc_lib \<Rightarrow> InitialUEMessageParams_S1 \<Rightarrow> bytes result" where
  "BuildInitialUEMessage_S1 L p = rbind (InitialUEMessage_msg L p) (Marshal_S1 L)"

definition BuildUEContextReleaseRequest_S1 :: "s1_enc_lib \<Rightarrow> u32 \<Rightarrow> u32 \<Rightarrow> int \<Rightarrow> bytes result" where
  "BuildUEContextReleaseRequest_S1 L mmeUEID enbUEID c =
     Marshal_S1 L (MUEContextReleaseRequest mmeUEID enbUEID (radioNetworkCause c))"

definition BuildInitialContextSetupFailure_S1 :: "s1_enc_lib \<Rightarrow> u32 \<Rightarrow> u32 \<Rightarrow> int \<Rightarrow> bytes result" where
  "BuildInitialContextSetupFailure_S1 L mmeUEID enbUEID c =
     Marshal_S1 L (MInitialContextSetupFailure mmeUEID enbUEID (rootCause c))"

definition BuildERABModifyResponse :: "s1_enc_lib \<Rightarrow> u32 \<Rightarrow> u32 \<Rightarrow> u8 list \<Rightarrow> bytes result" where
  "BuildERABModifyResponse L mmeUEID enbUEID modified =
     Marshal_S1 L (MERABModifyResponse mmeUEID enbUEID modified)"

definition BuildErrorIndication_S1 :: "s1_enc_lib \<Rightarrow> u32 \<Rightarrow> u32 \<Rightarrow> int \<Rightarrow> bytes result" where
  "BuildErrorIndication_S1 L mmeUEID enbUEID c =
     Marshal_S1 L (MErrorIndication (Some mmeUEID) (Some enbUEID) (Some (rootCause c)))"

definition BuildUEContextReleaseComplete_S1 :: "s1_enc_lib \<Rightarrow> u32 \<Rightarrow> u32 \<Rightarrow> bytes result" where
  "BuildUEContextReleaseComplete_S1 L mmeUEID enbUEID = Marshal_S1 L (MUEContextReleaseComplete mmeUEID enbUEID)"

definition BuildUECapabilityInfoIndication :: "s1_enc_lib \<Rightarrow> u32 \<Rightarrow> u32 \<Rightarrow> bytes \<Rightarrow> bytes result" where
  "BuildUECapabilityInfoIndication L mmeUEID enbUEID radioCapability =
     Marshal_S1 L (MUECapabilityInfoIndication mmeUEID enbUEID radioCapability)"

record UplinkNASTransportParams_S1 =
  unMMEUES1APID :: u32
  unENBUES1APID :: u32
  unNASPDU :: bytes
  unMCC :: string
  unMNC :: string
  unTAC :: string
  unCellID :: u32

definition UplinkNASTransport_msg :: "UplinkNASTransportParams_S1 \<Rightarrow> s1_msg result" where
  "UplinkNASTransport_msg p =
     rbind (encodePLMN_S1 (unMCC p) (unMNC p)) (\<lambda>plmn. rbind (parseTAC_S1 (unTAC p)) (\<lambda>tac.
       Inr (MUplinkNASTransport (unMMEUES1APID p) (unENBUES1APID p) (unNASPDU p)
              \<lparr> cgiPLMN = plmn, cgiCellID = unCellID p \<rparr> \<lparr> taiPLMN = plmn, taiTAC = tac \<rparr>)))"

definition BuildUplinkNASTransport_S1 :: "s1_enc_lib \<Rightarrow> UplinkNASTransportParams_S1 \<Rightarrow> bytes result" where
  "BuildUplinkNASTransport_S1 L p = rbind (UplinkNASTransport_msg p) (Marshal_S1 L)"

record InitialContextSetupResponseParams =
  irMMEUES1APID :: u32
  irENBUES1APID :: u32
  irERABID :: u8
  irENBN3Addr :: string
  irGTPTEID :: u32

definition response_bearer :: "InitialContextSetupResponseParams \<Rightarrow> s1_bearer result" where
  "response_bearer p = rbind (parseTransportAddr (irENBN3Addr p)) (\<lambda>addr.
     Inr \<lparr> berERABID = irERABID p, berAddress = addr, berTEID = irGTPTEID p \<rparr>)"

definition BuildInitialContextSetupResponse_S1 :: "s1_enc_lib \<Rightarrow> InitialContextSetupResponseParams \<Rightarrow> bytes result" where
  "BuildInitialContextSetupResponse_S1 L p = rbind (response_bearer p) (\<lambda>b.
     Marshal_S1 L (MInitialContextSetupResponse (irMMEUES1APID p) (irENBUES1APID p) [b]))"

definition BuildERABReleaseResponse :: "s1_enc_lib \<Rightarrow> u32 \<Rightarrow> u32 \<Rightarrow> u8 \<Rightarrow> bytes result" where
  "BuildERABReleaseResponse L mmeUEID enbUEID erabID = Marshal_S1 L (MERABReleaseResponse mmeUEID enbUEID [erabID])"

definition BuildERABSetupResponse :: "s1_enc_lib \<Rightarrow> InitialContextSetupResponseParams \<Rightarrow> bytes result" where
  "BuildERABSetupResponse L p = rbind (response_bearer p) (\<lambda>b.
     Marshal_S1 L (MERABSetupResponse (irMMEUES1APID p) (irENBUES1APID p) [b]))"

section \<open>Handover\<close>

definition handoverContainerStub :: bytes where "handoverContainerStub = [0x00]"

record HandoverRequiredParams_S1 =
  hrMMEUES1APID :: u32
  hrENBUES1APID :: u32
  hrCauseRadioNetwork :: int
  hrTargetMCC :: string
  hrTargetMNC :: string
  hrTargetTAC :: string
  hrTargetENBID :: u32
  hrTargetENBIDKind :: ENBIDKind

definition HandoverRequired_msg :: "HandoverRequiredParams_S1 \<Rightarrow> s1_msg result" where
  "HandoverRequired_msg p =
     rbind (encodePLMN_S1 (hrTargetMCC p) (hrTargetMNC p)) (\<lambda>plmn.
     rbind (parseTAC_S1 (hrTargetTAC p)) (\<lambda>tac.
       Inr (MHandoverRequired (hrMMEUES1APID p) (hrENBUES1APID p) HandoverTypeIntraLTE
              (rootCause (hrCauseRadioNetwork p)) plmn (hrTargetENBIDKind p) (hrTargetENBID p)
              \<lparr> taiPLMN = plmn, taiTAC = tac \<rparr> handoverContainerStub)))"

definition BuildHandoverRequired_S1 :: "s1_enc_lib \<Rightarrow> HandoverRequiredParams_S1 \<Rightarrow> bytes result" where
  "BuildHandoverRequired_S1 L p = rbind (HandoverRequired_msg p) (Marshal_S1 L)"

record HandoverAdmittedERAB =
  heERABID :: u8
  heDLTeid :: u32
  heDLIP :: string

record HandoverRequestAcknowledgeParams_S1 =
  hcMMEUES1APID :: u32
  hcENBUES1APID :: u32
  hcAdmitted :: "HandoverAdmittedERAB list"
  hcFailedERABIDs :: "u8 list"

definition HandoverRequestAcknowledge_msg :: "HandoverRequestAcknowledgeParams_S1 \<Rightarrow> s1_msg result" where
  "HandoverRequestAcknowledge_msg p =
     rbind (collect (\<lambda>e. rbind (parseTransportAddr (heDLIP e)) (\<lambda>addr.
              Inr \<lparr> berERABID = heERABID e, berAddress = addr, berTEID = heDLTeid e \<rparr>)) (hcAdmitted p)) (\<lambda>admitted.
       Inr (MHandoverRequestAcknowledge (hcMMEUES1APID p) (hcENBUES1APID p) admitted
              (map (\<lambda>i. (i, rootCause CauseRadioNetworkHOFailureInTarget_S1)) (hcFailedERABIDs p))
              handoverContainerStub))"

definition BuildHandoverRequestAcknowledge_S1 ::
  "s1_enc_lib \<Rightarrow> HandoverRequestAcknowledgeParams_S1 \<Rightarrow> bytes result" where
  "BuildHandoverRequestAcknowledge_S1 L p = rbind (HandoverRequestAcknowledge_msg p) (Marshal_S1 L)"

record HandoverNotifyParams_S1 =
  hyMMEUES1APID :: u32
  hyENBUES1APID :: u32
  hyMCC :: string
  hyMNC :: string
  hyTAC :: string
  hyCellID :: u32

definition BuildHandoverNotify_S1 :: "s1_enc_lib \<Rightarrow> HandoverNotifyParams_S1 \<Rightarrow> bytes result" where
  "BuildHandoverNotify_S1 L p =
     rbind (encodePLMN_S1 (hyMCC p) (hyMNC p)) (\<lambda>plmn. rbind (parseTAC_S1 (hyTAC p)) (\<lambda>tac.
       Marshal_S1 L (MHandoverNotify (hyMMEUES1APID p) (hyENBUES1APID p)
         \<lparr> cgiPLMN = plmn, cgiCellID = hyCellID p \<rparr> \<lparr> taiPLMN = plmn, taiTAC = tac \<rparr>)))"

definition BuildHandoverCancel_S1 :: "s1_enc_lib \<Rightarrow> u32 \<Rightarrow> u32 \<Rightarrow> int \<Rightarrow> bytes result" where
  "BuildHandoverCancel_S1 L mmeUES1APID enbUES1APID c =
     Marshal_S1 L (MHandoverCancel mmeUES1APID enbUES1APID (rootCause c))"

definition BuildHandoverFailure_S1 :: "s1_enc_lib \<Rightarrow> u32 \<Rightarrow> int \<Rightarrow> bytes result" where
  "BuildHandoverFailure_S1 L mmeUES1APID c = Marshal_S1 L (MHandoverFailure mmeUES1APID (rootCause c))"

text \<open>A nil container becomes one octet; an empty one that is not nil stays.\<close>

definition BuildENBStatusTransfer :: "s1_enc_lib \<Rightarrow> u32 \<Rightarrow> u32 \<Rightarrow> bytes option \<Rightarrow> bytes result" where
  "BuildENBStatusTransfer L mmeUES1APID enbUES1APID container =
     Marshal_S1 L (MENBStatusTransfer mmeUES1APID enbUES1APID
       (case container of None \<Rightarrow> [0x00] | Some c \<Rightarrow> c))"

section \<open>Path switch and reset\<close>

record PathSwitchRequestParams_S1 =
  psENBUES1APID :: u32
  psSourceMMEUES1APID :: u32
  psERABID :: u8
  psTargetS1UAddr :: string
  psTargetTEID :: u32
  psMCC :: string
  psMNC :: string
  psTAC :: string
  psCellID :: u32
  psEncryptionAlgorithms :: u16
  psIntegrityProtectionAlgorithms :: u16
  psDuplicate :: bool

definition PathSwitchRequest_msg :: "PathSwitchRequestParams_S1 \<Rightarrow> s1_msg result" where
  "PathSwitchRequest_msg p =
     rbind (encodePLMN_S1 (psMCC p) (psMNC p)) (\<lambda>plmn.
     rbind (parseTransportAddr (psTargetS1UAddr p)) (\<lambda>addr.
     rbind (parseTAC_S1 (psTAC p)) (\<lambda>tac.
       let item = \<lparr> berERABID = psERABID p, berAddress = addr, berTEID = psTargetTEID p \<rparr> in
       Inr (MPathSwitchRequest (psENBUES1APID p) (if psDuplicate p then [item, item] else [item])
              (psSourceMMEUES1APID p) \<lparr> cgiPLMN = plmn, cgiCellID = psCellID p \<rparr>
              \<lparr> taiPLMN = plmn, taiTAC = tac \<rparr> (psEncryptionAlgorithms p) (psIntegrityProtectionAlgorithms p)))))"

definition BuildPathSwitchRequest_S1 :: "s1_enc_lib \<Rightarrow> PathSwitchRequestParams_S1 \<Rightarrow> bytes result" where
  "BuildPathSwitchRequest_S1 L p = rbind (PathSwitchRequest_msg p) (Marshal_S1 L)"

record ResetConnection =
  rsMMEUES1APID :: "u32 option"
  rsENBUES1APID :: "u32 option"

definition BuildReset :: "s1_enc_lib \<Rightarrow> bool \<Rightarrow> ResetConnection list \<Rightarrow> bytes result" where
  "BuildReset L all connections =
     Marshal_S1 L (MReset \<lparr> scaGroup = GMisc, scaValue = CauseMiscOMIntervention_S1, scaExtended = False \<rparr> all
       (if all then [] else map (\<lambda>c. (rsMMEUES1APID c, rsENBUES1APID c)) connections))"

section \<open>Facts\<close>

text \<open>The PLMN encoders of the two radio systems are one function.\<close>

lemma encodePLMN_S1_eq: "encodePLMN_S1 mcc mnc = encodePLMN mcc mnc"
  by (simp add: encodePLMN_S1_def encodePLMN_def Let_def)

end
