(* ===== verification/S1ap_Decode.thy ===== *)
theory S1ap_Decode
  imports S1ap_Build Ngap_Decode
begin

text \<open>
  Decoding of the messages the core network sends to the simulated eNB:
  \<open>internal/s1ap/decode.go\<close>.  The library unmarshals a PDU to its kind, procedure code and value,
  and parses a value to a message struct; both are parameters, and a struct is a record of the
  fields the program reads.  A typed identity or enumeration of the library is a number or a
  datatype with one constructor per constant the program names.
\<close>

section \<open>The library\<close>

datatype (plugins only: code) s1_proc =
    ProcS1Setup | ProcErrorIndication | ProcReset | ProcInitialContextSetup
  | ProcDownlinkNASTransport | ProcUEContextRelease | ProcUEContextReleaseRequest | ProcPaging
  | ProcInitialUEMessage | ProcUplinkNASTransport | ProcPathSwitchRequest | ProcERABSetup
  | ProcERABModify | ProcERABRelease | ProcHandoverPreparation | ProcHandoverResourceAllocation
  | ProcHandoverNotification | ProcHandoverCancel | ProcENBStatusTransfer | ProcMMEStatusTransfer
  | ProcOther int

datatype s1_pdu =
    S1Initiating s1_proc bytes
  | S1Successful s1_proc bytes
  | S1Unsuccessful s1_proc bytes
  | S1OtherPDU

datatype s1_triggering = TriggeringInitiating | TriggeringSuccessful | TriggeringUnsuccessful | TriggeringOther

datatype s1_type_of_error = S1NotUnderstood | S1Missing | S1ErrorOther

datatype s1_time = V1s | V2s | V5s | V10s | V20s | V60s | VTimeOther int

datatype s1_domain = DomainPS | DomainCS | DomainOther int

record s1_raw_ie =
  riID :: int
  riCriticality :: int
  riValue :: bytes

record s1_diagnostics =
  sdgProcedure :: "int option"
  sdgTriggering :: "s1_triggering option"
  sdgCriticality :: "int option"
  sdgIEs :: "(int \<times> int \<times> s1_type_of_error) list"

record p_downlink_nas =
  pdUnknown :: "s1_raw_ie list"
  pdMME :: u32
  pdENB :: u32
  pdNAS :: bytes

record s1_erab_item =
  eriERABID :: u8
  eriTEID :: u32
  eriAddress :: bytes
  eriNAS :: bytes

record p_initial_context =
  pcUnknown :: "s1_raw_ie list"
  pcMME :: u32
  pcENB :: u32
  pcAMBR :: "int \<times> int"
  pcERABs :: "s1_erab_item list"
  pcRadio :: bytes

record p_erab_setup =
  pesUnknown :: "s1_raw_ie list"
  pesMME :: u32
  pesENB :: u32
  pesERABs :: "s1_erab_item list"

record p_erab_release =
  perUnknown :: "s1_raw_ie list"
  perMME :: u32
  perENB :: u32
  perERABs :: "u8 list"
  perNAS :: bytes

record s1_modify_item =
  moiERABID :: u8
  moiQCI :: u8
  moiPriority :: u8
  moiNAS :: bytes

record p_erab_modify =
  pemUnknown :: "s1_raw_ie list"
  pemMME :: u32
  pemENB :: u32
  pemERABs :: "s1_modify_item list"

record p_reset_ack =
  praUnknown :: "s1_raw_ie list"
  praConnections :: "(u32 option \<times> u32 option) list"

record p_release_command =
  plcUnknown :: "s1_raw_ie list"
  plcMME :: u32
  plcPair :: bool
  plcENB :: u32
  plcCause :: s1_cause

record s1_caps =
  sccEncryption :: u16
  sccIntegrity :: u16

record p_path_switch_ack =
  ppaUnknown :: "s1_raw_ie list"
  ppaMME :: u32
  ppaENB :: u32
  ppaNCC :: u8
  ppaNH :: bytes
  ppaCaps :: "s1_caps option"

text \<open>A failure with identities and a cause: of a path switch or a handover preparation.\<close>

record p_failure =
  pflUnknown :: "s1_raw_ie list"
  pflMME :: u32
  pflENB :: u32
  pflCause :: s1_cause

record p_handover_request =
  phrUnknown :: "s1_raw_ie list"
  phrMME :: u32
  phrERABs :: "s1_erab_item list"
  phrNCC :: u8
  phrNH :: bytes
  phrAMBR :: "int \<times> int"
  phrCaps :: s1_caps
  phrContainer :: bytes

record p_handover_command =
  phcUnknown :: "s1_raw_ie list"
  phcMME :: u32
  phcENB :: u32
  phcRelease :: "u8 list"

record p_cancel_ack =
  pcaUnknown :: "s1_raw_ie list"
  pcaMME :: u32
  pcaENB :: u32

record p_status_transfer =
  pstUnknown :: "s1_raw_ie list"
  pstMME :: u32
  pstENB :: u32
  pstContainer :: bytes

record p_error_indication =
  peiUnknown :: "s1_raw_ie list"
  peiMME :: "u32 option"
  peiENB :: "u32 option"
  peiCause :: "s1_cause option"
  peiDiagnostics :: "s1_diagnostics option"

record p_paging =
  ppgUnknown :: "s1_raw_ie list"
  ppgMMEC :: u8
  ppgMTMSI :: u32
  ppgIndex :: u16
  ppgDomain :: s1_domain

record p_setup_response =
  psrUnknown :: "s1_raw_ie list"
  psrName :: string
  psrCapacity :: u8
  psrGUMMEIs :: "(bytes list \<times> bytes list \<times> u8 list) list"

record p_setup_failure =
  psfUnknown :: "s1_raw_ie list"
  psfCause :: s1_cause
  psfTimeToWait :: "s1_time option"
  psfDiagnostics :: "s1_diagnostics option"

record s1_dec_lib =
  Unmarshal_S1 :: "bytes \<Rightarrow> s1_pdu result"
  CritString :: "int \<Rightarrow> string"
  ParseDownlinkNASTransport :: "bytes \<Rightarrow> p_downlink_nas result"
  ParseInitialContextSetupRequest :: "bytes \<Rightarrow> p_initial_context result"
  ParseERABSetupRequest :: "bytes \<Rightarrow> p_erab_setup result"
  ParseERABReleaseCommand :: "bytes \<Rightarrow> p_erab_release result"
  ParseERABModifyRequest :: "bytes \<Rightarrow> p_erab_modify result"
  ParseUEContextReleaseCommand :: "bytes \<Rightarrow> p_release_command result"
  ParseErrorIndication :: "bytes \<Rightarrow> p_error_indication result"
  ParsePaging :: "bytes \<Rightarrow> p_paging result"
  ParseHandoverRequest :: "bytes \<Rightarrow> p_handover_request result"
  ParseMMEStatusTransfer :: "bytes \<Rightarrow> p_status_transfer result"
  ParseS1SetupResponse :: "bytes \<Rightarrow> p_setup_response result"
  ParsePathSwitchRequestAcknowledge :: "bytes \<Rightarrow> p_path_switch_ack result"
  ParseResetAcknowledge :: "bytes \<Rightarrow> p_reset_ack result"
  ParseHandoverCommand :: "bytes \<Rightarrow> p_handover_command result"
  ParseHandoverCancelAcknowledge :: "bytes \<Rightarrow> p_cancel_ack result"
  ParseS1SetupFailure :: "bytes \<Rightarrow> p_setup_failure result"
  ParsePathSwitchRequestFailure :: "bytes \<Rightarrow> p_failure result"
  ParseHandoverPreparationFailure :: "bytes \<Rightarrow> p_failure result"

section \<open>Names\<close>

text \<open>The program has no name for E-RAB modification, which is shown by its number (TS 36.413).\<close>

definition procedureName :: "s1_proc \<Rightarrow> string" where
  "procedureName pc = (case pc of
     ProcS1Setup \<Rightarrow> ''S1Setup''
   | ProcErrorIndication \<Rightarrow> ''ErrorIndication''
   | ProcReset \<Rightarrow> ''Reset''
   | ProcInitialContextSetup \<Rightarrow> ''InitialContextSetup''
   | ProcDownlinkNASTransport \<Rightarrow> ''DownlinkNASTransport''
   | ProcUEContextRelease \<Rightarrow> ''UEContextRelease''
   | ProcUEContextReleaseRequest \<Rightarrow> ''UEContextReleaseRequest''
   | ProcPaging \<Rightarrow> ''Paging''
   | ProcInitialUEMessage \<Rightarrow> ''InitialUEMessage''
   | ProcUplinkNASTransport \<Rightarrow> ''UplinkNASTransport''
   | ProcPathSwitchRequest \<Rightarrow> ''PathSwitchRequest''
   | ProcERABSetup \<Rightarrow> ''ERABSetup''
   | ProcERABRelease \<Rightarrow> ''ERABRelease''
   | ProcHandoverPreparation \<Rightarrow> ''HandoverPreparation''
   | ProcHandoverResourceAllocation \<Rightarrow> ''HandoverResourceAllocation''
   | ProcHandoverNotification \<Rightarrow> ''HandoverNotify''
   | ProcHandoverCancel \<Rightarrow> ''HandoverCancel''
   | ProcENBStatusTransfer \<Rightarrow> ''ENBStatusTransfer''
   | ProcMMEStatusTransfer \<Rightarrow> ''MMEStatusTransfer''
   | ProcERABModify \<Rightarrow> ''ProcedureCode(6)''
   | ProcOther n \<Rightarrow> ''ProcedureCode('' @ dec_int n @ '')'')"

definition cnDomainName :: "s1_domain \<Rightarrow> string" where
  "cnDomainName d = (case d of DomainPS \<Rightarrow> ''ps'' | DomainCS \<Rightarrow> ''cs''
     | DomainOther n \<Rightarrow> ''CNDomain('' @ dec_int n @ '')'')"

definition triggeringMessageName_S1 :: "s1_triggering \<Rightarrow> string" where
  "triggeringMessageName_S1 v = (case v of
     TriggeringInitiating \<Rightarrow> ''initiating_message''
   | TriggeringSuccessful \<Rightarrow> ''successful_outcome''
   | TriggeringUnsuccessful \<Rightarrow> ''unsuccessful_outcome''
   | TriggeringOther \<Rightarrow> ''unknown'')"

definition typeOfErrorName_S1 :: "s1_type_of_error \<Rightarrow> string" where
  "typeOfErrorName_S1 v = (case v of S1NotUnderstood \<Rightarrow> ''not_understood'' | S1Missing \<Rightarrow> ''missing''
     | S1ErrorOther \<Rightarrow> ''unknown'')"

text \<open>\<open>%04x\<close> of 16 bits: four digits.\<close>

definition secCapHex :: "u16 \<Rightarrow> string" where
  "secCapHex algorithms = hex_encode (be_bytes 2 algorithms)"

definition causeGroupName :: "s1_group \<Rightarrow> string" where
  "causeGroupName g = (case g of
     GRadioNetwork \<Rightarrow> ''radio_network'' | GTransport \<Rightarrow> ''transport'' | GNAS \<Rightarrow> ''nas''
   | GProtocol \<Rightarrow> ''protocol'' | GMisc \<Rightarrow> ''misc'' | GOther n \<Rightarrow> ''CauseGroup('' @ dec_int n @ '')'')"

definition timeToWaitName_S1 :: "s1_time \<Rightarrow> string" where
  "timeToWaitName_S1 t = (case t of
     V1s \<Rightarrow> ''v1s'' | V2s \<Rightarrow> ''v2s'' | V5s \<Rightarrow> ''v5s'' | V10s \<Rightarrow> ''v10s'' | V20s \<Rightarrow> ''v20s'' | V60s \<Rightarrow> ''v60s''
   | VTimeOther n \<Rightarrow> ''TimeToWait('' @ dec_int n @ '')'')"

section \<open>Parts\<close>

definition transportLayerIPs :: "bytes \<Rightarrow> string \<times> string" where
  "transportLayerIPs b =
     (if length b = 4 then (IP_String b, [])
      else if length b = 16 then ([], IP_String b)
      else if length b = 20 then (IP_String (take 4 b), IP_String (drop 4 b))
      else ([], []))"

definition setUEIDs :: "u32 \<Rightarrow> u32 \<Rightarrow> S1APResponse \<Rightarrow> S1APResponse" where
  "setUEIDs mme enb r = r\<lparr> sr_MMEUES1APID := Some (uint mme), sr_ENBUES1APID := Some (uint enb) \<rparr>"

definition setUnknownIEs :: "s1_dec_lib \<Rightarrow> s1_raw_ie list \<Rightarrow> S1APResponse \<Rightarrow> S1APResponse" where
  "setUnknownIEs L ies r = r\<lparr> sr_UnknownIEs := sr_UnknownIEs r @ map (\<lambda>ie.
     \<lparr> su_ID = riID ie, su_Criticality = CritString L (riCriticality ie), su_ValueHex = hex_encode (riValue ie) \<rparr>) ies \<rparr>"

definition cause_json :: "s1_cause \<Rightarrow> CauseJSON_S1" where
  "cause_json c = \<lparr> sj_Group = causeGroupName (scaGroup c), sj_Value = scaValue c \<rparr>"

definition decodeCriticalityDiagnostics_S1 :: "s1_dec_lib \<Rightarrow> s1_diagnostics \<Rightarrow> CriticalityDiagnosticsJSON_S1" where
  "decodeCriticalityDiagnostics_S1 L d =
     \<lparr> sd_ProcedureCode = sdgProcedure d,
       sd_TriggeringMessage = map_option triggeringMessageName_S1 (sdgTriggering d),
       sd_ProcedureCriticality = map_option (CritString L) (sdgCriticality d),
       sd_IEsCriticalityDiagnostics = map (\<lambda>(c, i, t).
         \<lparr> se_IECriticality = CritString L c, se_IEID = i, se_TypeOfError = typeOfErrorName_S1 t \<rparr>) (sdgIEs d) \<rparr>"

definition caps_json :: "s1_caps \<Rightarrow> UESecurityCapabilitiesJSON_S1" where
  "caps_json c = \<lparr> sk_EncryptionAlgorithms = secCapHex (sccEncryption c),
     sk_IntegrityProtectionAlgorithms = secCapHex (sccIntegrity c) \<rparr>"

definition security_json :: "u8 \<Rightarrow> bytes \<Rightarrow> SecurityContextJSON_S1" where
  "security_json ncc nh = \<lparr> sx_NextHopChainingCount = uint ncc, sx_NextHop = hex_encode nh \<rparr>"

definition erab_item :: "s1_erab_item \<Rightarrow> ERABSetupItemJSON" where
  "erab_item it = \<lparr> si_ERABID = uint (eriERABID it), si_ULTeid = eriTEID it,
     si_TransportLayerAddress = fst (transportLayerIPs (eriAddress it)),
     si_TransportLayerAddressIPv6 = snd (transportLayerIPs (eriAddress it)) \<rparr>"

text \<open>The NAS PDU of an item: only when it is not empty, and only the first one.\<close>

definition item_nas :: "bytes \<Rightarrow> S1APResponse \<Rightarrow> S1APResponse" where
  "item_nas nas r = (if length nas > 0 \<and> sr_NASPDU r = None then r\<lparr> sr_NASPDU := Some (hex_encode nas) \<rparr> else r)"

definition setup_step :: "s1_erab_item \<Rightarrow> S1APResponse \<Rightarrow> S1APResponse" where
  "setup_step it r = item_nas (eriNAS it) (r\<lparr> sr_ERABSetupItems := sr_ERABSetupItems r @ [erab_item it] \<rparr>)"

section \<open>Message decoders\<close>

definition decodeDownlinkNASTransport_S1 :: "s1_dec_lib \<Rightarrow> bytes \<Rightarrow> S1APResponse \<Rightarrow> S1APResponse result" where
  "decodeDownlinkNASTransport_S1 L value r =
     rbind (rwrap ''parse DownlinkNASTransport'' (ParseDownlinkNASTransport L value)) (\<lambda>m.
       Inr ((setUEIDs (pdMME m) (pdENB m) (setUnknownIEs L (pdUnknown m) r))
              \<lparr> sr_NASPDU := Some (hex_encode (pdNAS m)) \<rparr>))"

definition decodeInitialContextSetupRequest_S1 :: "s1_dec_lib \<Rightarrow> bytes \<Rightarrow> S1APResponse \<Rightarrow> S1APResponse result" where
  "decodeInitialContextSetupRequest_S1 L value r =
     rbind (rwrap ''parse InitialContextSetupRequest'' (ParseInitialContextSetupRequest L value)) (\<lambda>m.
       let r1 = (setUEIDs (pcMME m) (pcENB m) (setUnknownIEs L (pcUnknown m) r))
                  \<lparr> sr_UEAggregateMaxBitRate := Some \<lparr> sb_DL = fst (pcAMBR m), sb_UL = snd (pcAMBR m) \<rparr> \<rparr>;
           r2 = fold setup_step (pcERABs m) r1 in
       Inr (if length (pcRadio m) > 0 then r2\<lparr> sr_UERadioCapability := Some (hex_encode (pcRadio m)) \<rparr> else r2))"

definition decodeERABReleaseCommand :: "s1_dec_lib \<Rightarrow> bytes \<Rightarrow> S1APResponse \<Rightarrow> S1APResponse result" where
  "decodeERABReleaseCommand L value r =
     rbind (rwrap ''parse ERABReleaseCommand'' (ParseERABReleaseCommand L value)) (\<lambda>m.
       let r1 = setUEIDs (perMME m) (perENB m) (setUnknownIEs L (perUnknown m) r);
           r2 = r1\<lparr> sr_ERABSetupItems := sr_ERABSetupItems r1 @ map (\<lambda>i.
                  \<lparr> si_ERABID = uint i, si_ULTeid = 0, si_TransportLayerAddress = [],
                    si_TransportLayerAddressIPv6 = [] \<rparr>) (perERABs m) \<rparr> in
       Inr (if length (perNAS m) > 0 then r2\<lparr> sr_NASPDU := Some (hex_encode (perNAS m)) \<rparr> else r2))"

definition decodeERABModifyRequest :: "s1_dec_lib \<Rightarrow> bytes \<Rightarrow> S1APResponse \<Rightarrow> S1APResponse result" where
  "decodeERABModifyRequest L value r =
     rbind (rwrap ''parse ERABModifyRequest'' (ParseERABModifyRequest L value)) (\<lambda>m.
       Inr (fold (\<lambda>it s. item_nas (moiNAS it) (s\<lparr> sr_ERABModifyItems := sr_ERABModifyItems s @
                  [\<lparr> sm_ERABID = uint (moiERABID it), sm_QCI = uint (moiQCI it),
                     sm_ARPPriorityLevel = uint (moiPriority it) \<rparr>] \<rparr>))
              (pemERABs m) (setUEIDs (pemMME m) (pemENB m) (setUnknownIEs L (pemUnknown m) r))))"

definition decodeResetAcknowledge :: "s1_dec_lib \<Rightarrow> bytes \<Rightarrow> S1APResponse \<Rightarrow> S1APResponse result" where
  "decodeResetAcknowledge L value r =
     rbind (rwrap ''parse ResetAcknowledge'' (ParseResetAcknowledge L value)) (\<lambda>m.
       let r1 = setUnknownIEs L (praUnknown m) r in
       Inr (r1\<lparr> sr_ResetConnections := sr_ResetConnections r1 @ map (\<lambda>(a, e).
              \<lparr> sz_MMEUES1APID = map_option uint a, sz_ENBUES1APID = map_option uint e \<rparr>) (praConnections m) \<rparr>))"

definition decodeERABSetupRequest :: "s1_dec_lib \<Rightarrow> bytes \<Rightarrow> S1APResponse \<Rightarrow> S1APResponse result" where
  "decodeERABSetupRequest L value r =
     rbind (rwrap ''parse ERABSetupRequest'' (ParseERABSetupRequest L value)) (\<lambda>m.
       Inr (fold setup_step (pesERABs m) (setUEIDs (pesMME m) (pesENB m) (setUnknownIEs L (pesUnknown m) r))))"

definition decodeUEContextReleaseCommand_S1 :: "s1_dec_lib \<Rightarrow> bytes \<Rightarrow> S1APResponse \<Rightarrow> S1APResponse result" where
  "decodeUEContextReleaseCommand_S1 L value r =
     rbind (rwrap ''parse UEContextReleaseCommand'' (ParseUEContextReleaseCommand L value)) (\<lambda>m.
       let r1 = (setUnknownIEs L (plcUnknown m) r)\<lparr> sr_MMEUES1APID := Some (uint (plcMME m)) \<rparr>;
           r2 = (if plcPair m then r1\<lparr> sr_ENBUES1APID := Some (uint (plcENB m)) \<rparr> else r1) in
       Inr (r2\<lparr> sr_Cause := Some (cause_json (plcCause m)) \<rparr>))"

definition decodePathSwitchRequestAcknowledge_S1 :: "s1_dec_lib \<Rightarrow> bytes \<Rightarrow> S1APResponse \<Rightarrow> S1APResponse result" where
  "decodePathSwitchRequestAcknowledge_S1 L value r =
     rbind (rwrap ''parse PathSwitchRequestAcknowledge'' (ParsePathSwitchRequestAcknowledge L value)) (\<lambda>m.
       let r1 = (setUEIDs (ppaMME m) (ppaENB m) (setUnknownIEs L (ppaUnknown m) r))
                  \<lparr> sr_SecurityContext := Some (security_json (ppaNCC m) (ppaNH m)) \<rparr> in
       Inr (case ppaCaps m of None \<Rightarrow> r1
            | Some c \<Rightarrow> r1\<lparr> sr_ReplayedUESecurityCapabilities := Some (caps_json c) \<rparr>))"

definition failure_json :: "s1_dec_lib \<Rightarrow> p_failure \<Rightarrow> S1APResponse \<Rightarrow> S1APResponse" where
  "failure_json L m r = (setUEIDs (pflMME m) (pflENB m) (setUnknownIEs L (pflUnknown m) r))
     \<lparr> sr_Cause := Some (cause_json (pflCause m)) \<rparr>"

definition decodePathSwitchRequestFailure_S1 :: "s1_dec_lib \<Rightarrow> bytes \<Rightarrow> S1APResponse \<Rightarrow> S1APResponse result" where
  "decodePathSwitchRequestFailure_S1 L value r =
     rbind (rwrap ''parse PathSwitchRequestFailure'' (ParsePathSwitchRequestFailure L value)) (\<lambda>m.
       Inr (failure_json L m r))"

definition decodeHandoverRequest_S1 :: "s1_dec_lib \<Rightarrow> bytes \<Rightarrow> S1APResponse \<Rightarrow> S1APResponse result" where
  "decodeHandoverRequest_S1 L value r =
     rbind (rwrap ''parse HandoverRequest'' (ParseHandoverRequest L value)) (\<lambda>m.
       let r1 = (setUnknownIEs L (phrUnknown m) r)\<lparr> sr_MMEUES1APID := Some (uint (phrMME m)) \<rparr>;
           r2 = r1\<lparr> sr_ERABSetupItems := sr_ERABSetupItems r1 @ map erab_item (phrERABs m),
                   sr_SecurityContext := Some (security_json (phrNCC m) (phrNH m)),
                   sr_UEAggregateMaxBitRate := Some \<lparr> sb_DL = fst (phrAMBR m), sb_UL = snd (phrAMBR m) \<rparr>,
                   sr_UESecurityCapabilities := Some (caps_json (phrCaps m)) \<rparr> in
       Inr (if length (phrContainer m) > 0
            then r2\<lparr> sr_SourceToTargetContainer := Some (hex_encode (phrContainer m)) \<rparr> else r2))"

definition decodeHandoverCommand_S1 :: "s1_dec_lib \<Rightarrow> bytes \<Rightarrow> S1APResponse \<Rightarrow> S1APResponse result" where
  "decodeHandoverCommand_S1 L value r =
     rbind (rwrap ''parse HandoverCommand'' (ParseHandoverCommand L value)) (\<lambda>m.
       let r1 = setUEIDs (phcMME m) (phcENB m) (setUnknownIEs L (phcUnknown m) r) in
       Inr (r1\<lparr> sr_ReleasedERABs := sr_ReleasedERABs r1 @ map uint (phcRelease m) \<rparr>))"

definition decodeHandoverPreparationFailure_S1 :: "s1_dec_lib \<Rightarrow> bytes \<Rightarrow> S1APResponse \<Rightarrow> S1APResponse result" where
  "decodeHandoverPreparationFailure_S1 L value r =
     rbind (rwrap ''parse HandoverPreparationFailure'' (ParseHandoverPreparationFailure L value)) (\<lambda>m.
       Inr (failure_json L m r))"

definition decodeHandoverCancelAcknowledge_S1 :: "s1_dec_lib \<Rightarrow> bytes \<Rightarrow> S1APResponse \<Rightarrow> S1APResponse result" where
  "decodeHandoverCancelAcknowledge_S1 L value r =
     rbind (rwrap ''parse HandoverCancelAcknowledge'' (ParseHandoverCancelAcknowledge L value)) (\<lambda>m.
       Inr (setUEIDs (pcaMME m) (pcaENB m) (setUnknownIEs L (pcaUnknown m) r)))"

definition decodeMMEStatusTransfer :: "s1_dec_lib \<Rightarrow> bytes \<Rightarrow> S1APResponse \<Rightarrow> S1APResponse result" where
  "decodeMMEStatusTransfer L value r =
     rbind (rwrap ''parse MMEStatusTransfer'' (ParseMMEStatusTransfer L value)) (\<lambda>m.
       Inr ((setUEIDs (pstMME m) (pstENB m) (setUnknownIEs L (pstUnknown m) r))
              \<lparr> sr_StatusTransferContainer := hex_encode (pstContainer m) \<rparr>))"

definition set_some :: "'a option \<Rightarrow> ('a \<Rightarrow> S1APResponse \<Rightarrow> S1APResponse) \<Rightarrow> S1APResponse \<Rightarrow> S1APResponse" where
  "set_some v f r = (case v of None \<Rightarrow> r | Some x \<Rightarrow> f x r)"

definition decodeErrorIndication_S1 :: "s1_dec_lib \<Rightarrow> bytes \<Rightarrow> S1APResponse \<Rightarrow> S1APResponse result" where
  "decodeErrorIndication_S1 L value r =
     rbind (rwrap ''parse ErrorIndication'' (ParseErrorIndication L value)) (\<lambda>m.
       Inr (set_some (peiDiagnostics m) (\<lambda>d s. s\<lparr> sr_CriticalityDiagnostics := Some (decodeCriticalityDiagnostics_S1 L d) \<rparr>)
           (set_some (peiCause m) (\<lambda>c s. s\<lparr> sr_Cause := Some (cause_json c) \<rparr>)
           (set_some (peiENB m) (\<lambda>v s. s\<lparr> sr_ENBUES1APID := Some (uint v) \<rparr>)
           (set_some (peiMME m) (\<lambda>v s. s\<lparr> sr_MMEUES1APID := Some (uint v) \<rparr>)
           (setUnknownIEs L (peiUnknown m) r))))))"

definition decodePaging_S1 :: "s1_dec_lib \<Rightarrow> bytes \<Rightarrow> S1APResponse \<Rightarrow> S1APResponse result" where
  "decodePaging_S1 L value r =
     rbind (rwrap ''parse Paging'' (ParsePaging L value)) (\<lambda>m.
       Inr ((setUnknownIEs L (ppgUnknown m) r)\<lparr> sr_Paging := Some
              \<lparr> sq_MMEC = ppgMMEC m, sq_MTMSI = ppgMTMSI m, sq_UEIdentityIndexValue = ppgIndex m,
                sq_CNDomain = cnDomainName (ppgDomain m) \<rparr> \<rparr>))"

definition decodeS1SetupResponse :: "p_setup_response \<Rightarrow> S1APResponse \<Rightarrow> S1APResponse" where
  "decodeS1SetupResponse m r =
     (let r1 = (if psrName m \<noteq> [] then r\<lparr> sr_MMEName := Some (psrName m) \<rparr> else r) in
      r1\<lparr> sr_RelativeMMECapacity := Some (uint (psrCapacity m)),
         sr_ServedGUMMEIs := sr_ServedGUMMEIs r1 @ map (\<lambda>(ps, gs, cs).
           \<lparr> sv_ServedPLMNs = map hex_encode ps, sv_ServedGroupIDs = map hex_encode gs,
             sv_ServedMMECs = map (\<lambda>c. hex_encode [c]) cs \<rparr>) (psrGUMMEIs m) \<rparr>)"

definition decodeS1SetupFailure :: "p_setup_failure \<Rightarrow> S1APResponse \<Rightarrow> S1APResponse" where
  "decodeS1SetupFailure m r =
     set_some (psfTimeToWait m) (\<lambda>t s. s\<lparr> sr_TimeToWait := Some (timeToWaitName_S1 t) \<rparr>)
       (r\<lparr> sr_Cause := Some (cause_json (psfCause m)) \<rparr>)"

section \<open>Dispatch\<close>

definition named :: "string \<Rightarrow> (S1APResponse \<Rightarrow> S1APResponse result) \<Rightarrow> S1APResponse \<Rightarrow> S1APResponse result" where
  "named n f r = f (r\<lparr> sr_MessageType := n \<rparr>)"

definition decodeInitiatingMessage_S1 :: "s1_dec_lib \<Rightarrow> s1_proc \<Rightarrow> bytes \<Rightarrow> S1APResponse \<Rightarrow> S1APResponse result" where
  "decodeInitiatingMessage_S1 L pc value r = (case pc of
     ProcDownlinkNASTransport \<Rightarrow> named ''DownlinkNASTransport'' (decodeDownlinkNASTransport_S1 L value) r
   | ProcInitialContextSetup \<Rightarrow> named ''InitialContextSetupRequest'' (decodeInitialContextSetupRequest_S1 L value) r
   | ProcERABSetup \<Rightarrow> named ''ERABSetupRequest'' (decodeERABSetupRequest L value) r
   | ProcERABRelease \<Rightarrow> named ''ERABReleaseCommand'' (decodeERABReleaseCommand L value) r
   | ProcERABModify \<Rightarrow> named ''ERABModifyRequest'' (decodeERABModifyRequest L value) r
   | ProcUEContextRelease \<Rightarrow> named ''UEContextReleaseCommand'' (decodeUEContextReleaseCommand_S1 L value) r
   | ProcErrorIndication \<Rightarrow> named ''ErrorIndication'' (decodeErrorIndication_S1 L value) r
   | ProcPaging \<Rightarrow> named ''Paging'' (decodePaging_S1 L value) r
   | ProcHandoverResourceAllocation \<Rightarrow> named ''HandoverRequest'' (decodeHandoverRequest_S1 L value) r
   | ProcMMEStatusTransfer \<Rightarrow> named ''MMEStatusTransfer'' (decodeMMEStatusTransfer L value) r
   | _ \<Rightarrow> Inr r)"

definition decodeSuccessfulOutcome_S1 :: "s1_dec_lib \<Rightarrow> s1_proc \<Rightarrow> bytes \<Rightarrow> S1APResponse \<Rightarrow> S1APResponse result" where
  "decodeSuccessfulOutcome_S1 L pc value r = (case pc of
     ProcS1Setup \<Rightarrow> named ''S1SetupResponse'' (\<lambda>s.
       rbind (rwrap ''parse S1SetupResponse'' (ParseS1SetupResponse L value)) (\<lambda>m.
         Inr (decodeS1SetupResponse m (setUnknownIEs L (psrUnknown m) s)))) r
   | ProcPathSwitchRequest \<Rightarrow> named ''PathSwitchRequestAcknowledge'' (decodePathSwitchRequestAcknowledge_S1 L value) r
   | ProcReset \<Rightarrow> named ''ResetAcknowledge'' (decodeResetAcknowledge L value) r
   | ProcHandoverPreparation \<Rightarrow> named ''HandoverCommand'' (decodeHandoverCommand_S1 L value) r
   | ProcHandoverCancel \<Rightarrow> named ''HandoverCancelAcknowledge'' (decodeHandoverCancelAcknowledge_S1 L value) r
   | _ \<Rightarrow> Inr r)"

definition decodeUnsuccessfulOutcome_S1 :: "s1_dec_lib \<Rightarrow> s1_proc \<Rightarrow> bytes \<Rightarrow> S1APResponse \<Rightarrow> S1APResponse result" where
  "decodeUnsuccessfulOutcome_S1 L pc value r = (case pc of
     ProcS1Setup \<Rightarrow> named ''S1SetupFailure'' (\<lambda>s.
       rbind (rwrap ''parse S1SetupFailure'' (ParseS1SetupFailure L value)) (\<lambda>m.
         Inr (set_some (psfDiagnostics m) (\<lambda>d t. t\<lparr> sr_CriticalityDiagnostics := Some (decodeCriticalityDiagnostics_S1 L d) \<rparr>)
                (decodeS1SetupFailure m (setUnknownIEs L (psfUnknown m) s))))) r
   | ProcPathSwitchRequest \<Rightarrow> named ''PathSwitchRequestFailure'' (decodePathSwitchRequestFailure_S1 L value) r
   | ProcHandoverPreparation \<Rightarrow> named ''HandoverPreparationFailure'' (decodeHandoverPreparationFailure_S1 L value) r
   | _ \<Rightarrow> Inr r)"

definition empty_S1APResponse :: S1APResponse where
  "empty_S1APResponse = \<lparr> sr_PDUType = [], sr_MessageType = [], sr_RawHex = [], sr_MMEName = None,
     sr_ServedGUMMEIs = [], sr_RelativeMMECapacity = None, sr_TimeToWait = None, sr_MMEUES1APID = None,
     sr_ENBUES1APID = None, sr_NASPDU = None, sr_ERABSetupItems = [], sr_UERadioCapability = None,
     sr_UEAggregateMaxBitRate = None, sr_Cause = None, sr_CriticalityDiagnostics = None,
     sr_SecurityContext = None, sr_ResetConnections = [], sr_ReplayedUESecurityCapabilities = None,
     sr_UESecurityCapabilities = None, sr_SourceToTargetContainer = None, sr_Paging = None,
     sr_ERABModifyItems = [], sr_ReleasedERABs = [], sr_StatusTransferContainer = [], sr_UnknownIEs = [] \<rparr>"

definition Decode_S1AP :: "s1_dec_lib \<Rightarrow> bytes \<Rightarrow> S1APResponse result" where
  "Decode_S1AP L data =
     rbind (rwrap ''s1ap unmarshal'' (Unmarshal_S1 L data)) (\<lambda>pdu.
       let r = (\<lambda>ty pc. empty_S1APResponse\<lparr> sr_RawHex := hex_encode data, sr_PDUType := ty,
                          sr_MessageType := procedureName pc \<rparr>) in
       case pdu of
         S1Initiating pc value \<Rightarrow> decodeInitiatingMessage_S1 L pc value (r ''initiating_message'' pc)
       | S1Successful pc value \<Rightarrow> decodeSuccessfulOutcome_S1 L pc value (r ''successful_outcome'' pc)
       | S1Unsuccessful pc value \<Rightarrow> decodeUnsuccessfulOutcome_S1 L pc value (r ''unsuccessful_outcome'' pc)
       | S1OtherPDU \<Rightarrow> Inl (Errorf ''s1ap: unexpected PDU type''))"

section \<open>Facts\<close>

text \<open>The three PLMN encoders of the program (S1AP, NGAP and key derivation) accept the same
  input and give the same octets, so the identity a node announces is the one the keys are bound
  to.\<close>

theorem plmn_encoders_one_function:
  "encodePLMN_S1 mcc mnc = encodePLMN mcc mnc \<and>
   (encodePLMN mcc mnc = Inr p \<longleftrightarrow> tbcdPLMN mcc mnc = Inr p)"
  by (auto simp: encodePLMN_S1_eq encodePLMN_def tbcdPLMN_def Let_def)

text \<open>An eNB identity is accepted exactly when its length is one of the four of the
  specification (zero means 20) and it is a hexadecimal number of at most 32 bits; the number is then
  kept exactly.\<close>

theorem ENBIDValue_accepts:
  "ENBIDValue h n = Inr (v, k) \<longleftrightarrow>
     (n, k) \<in> {(0, ENBIDMacro), (20, ENBIDMacro), (28, ENBIDHome), (18, ENBIDShortMacro), (21, ENBIDLongMacro)} \<and>
     ParseUint16 32 h = Inr (unat v)"
proof -
  have b: "ParseUint16 32 h = Inr x \<Longrightarrow> x < 2 ^ 32" for x by (auto simp: ParseUint16_def split: if_splits)
  have u: "ParseUint16 32 h = Inr x \<Longrightarrow> unat (word_of_nat x :: u32) = x" for x
    using b by (auto simp: unat_of_nat)
  show ?thesis
    by (auto simp: ENBIDValue_def rbind_eq_Inr u split: if_splits)
qed

lemma As16_Addr4_nth:
  assumes "i < 16"
  shows "As16 (Addr4 w) ! i = (if i < 10 then 0 else if i < 12 then 0xff else be_bytes 4 w ! (i - 12))"
proof (rule bit_word_eqI)
  fix j assume "j < LENGTH(8)"
  then have j: "j < 8" by simp
  have m: "(0xffff :: 128 word) = mask 16" "(0xff :: u8) = mask 8" by (simp_all add: mask_eq_exp_minus_1)
  show "bit (As16 (Addr4 w) ! i) j =
    bit (if i < 10 then 0 else if i < 12 then 0xff else be_bytes 4 w ! (i - 12)) j"
    using assms j
    by (auto simp: nth_be_bytes bit_simps m bit_mask_iff split: if_splits dest: bit_imp_le_length)
qed

lemma To4_As16: "To4 (As16 (Addr4 w)) = Some (be_bytes 4 w)"
proof -
  have t: "take 12 (As16 (Addr4 w)) = replicate 10 0 @ [0xff, 0xff]"
    by (rule nth_equalityI) (auto simp: As16_Addr4_nth nth_append nth_Cons' simp del: As16.simps replicate_numeral)
  have d: "drop 12 (As16 (Addr4 w)) = be_bytes 4 w"
    by (rule nth_equalityI) (auto simp: As16_Addr4_nth simp del: As16.simps)
  show ?thesis unfolding To4_def using t d by (simp del: As16.simps replicate_numeral)
qed

text \<open>An IPv4 address given as text is sent as 32 bits and read back as the same text.\<close>

theorem transport_address_roundtrip:
  "rbind (parseTransportAddr (string4 w)) (\<lambda>b. Inr (length b, transportLayerIPs b)) = Inr (4, string4 w, [])"
  by (simp add: parseTransportAddr_def ParseIP_def transportLayerIPs_def IP_String_def To4_As16 del: As16.simps)

end
