(* ===== verification/Api_Requests.thy ===== *)
theory Api_Requests
  imports Api_Types Ngap_Types S1ap_Types
begin

text \<open>
  The bodies of the other HTTP endpoints and their answers: the structs of
  \<open>internal/api/gnb_types.go\<close>, \<open>enb_types.go\<close>, \<open>gnb_ue_types.go\<close>, \<open>enb_ue_types.go\<close> and of the
  lifecycle and user plane handlers, with the conventions of \<open>Ngap_Types\<close>.
\<close>

record SliceInput =
  sli_SST :: int
  sli_SD :: string

record CreateGNBRequest =
  cg_AMFAddress :: string
  cg_GNBN2Address :: string
  cg_MCC :: string
  cg_MNC :: string
  cg_TAC :: string
  cg_GNBID :: string
  cg_GNBIDBitLength :: int
  cg_Name :: string
  cg_SST :: int
  cg_SD :: string
  cg_DefaultPagingDRX :: "int option"
  cg_Slices :: "SliceInput list"
  cg_NGSetupIEs :: "IE list"
  cg_SkipNGSetup :: bool
  cg_RawNGAPPDU :: "string option"
  cg_WaitFor :: "string list"
  cg_TimeoutMs :: int
  cg_EnableGTPU :: bool
  cg_GNBN3Address :: string

record CreateGNBResponse =
  cr_GNBID :: string
  cr_NGSetupResponse :: "NGAPResponse option"

record HandoverPDUSession =
  hp_ID :: int
  hp_DLTeid :: u32
  hp_DLIP :: string
  hp_RawTransfer :: "string option"

record UESecurityCapabilitiesInput =
  ux_NREncryption :: string
  ux_NRIntegrity :: string
  ux_EUTRAEncryption :: string
  ux_EUTRAIntegrity :: string

record SendGNBNGAPRequest =
  xn_MessageType :: string
  xn_RawNGAPPDU :: "string option"
  xn_WaitFor :: "string list"
  xn_TimeoutMs :: int
  xn_ResetUEIDs :: "string list"
  xn_AMFUENGAPID :: "int option"
  xn_RANUENGAPID :: "int option"
  xn_PDUSessions :: "HandoverPDUSession list"
  xn_UESecurityCapabilities :: "UESecurityCapabilitiesInput option"
  xn_OmitIEs :: "int list"
  xn_FailedPDUSessions :: "int list"
  xn_Cause :: "int option"

record GNBStateResponse =
  gs_ID :: string
  gs_MCC :: string
  gs_MNC :: string
  gs_TAC :: string
  gs_GNBID :: string
  gs_GNBIDBitLength :: int
  gs_Name :: string
  gs_SST :: int
  gs_SD :: string

record CreateGNBUERequest =
  cu_SUPI :: string
  cu_K :: string
  cu_OPc :: string
  cu_AMF :: string
  cu_SQN :: string
  cu_SST :: int
  cu_SD :: string
  cu_DNN :: string
  cu_RoutingIndicator :: string
  cu_ProtectionScheme :: string
  cu_PublicKeyID :: string
  cu_PublicKeyHex :: string
  cu_PDUSessionID :: u8
  cu_PDUSessionType :: u8
  cu_IMEISV :: string
  cu_UESecurityCapability :: string

record CreateGNBUEResponse =
  cw_UEID :: string
  cw_SUPI :: string
  cw_SUCI :: string
  cw_RANUENGAPID :: int

record GNBUESession =
  gz_PDUSessionID :: u8
  gz_DNN :: string
  gz_UEIP :: string

record GNBUEStateResponse =
  gu_UEID :: string
  gu_SUPI :: string
  gu_SUCI :: string
  gu_IMEISV :: string
  gu_UEIP :: string
  gu_SecurityActive :: bool
  gu_RANUENGAPID :: int
  gu_AMFUENGAPID :: int
  gu_DefaultPDUSessionID :: u8
  gu_Sessions :: "GNBUESession list"
  gu_DNN :: string
  gu_SST :: int
  gu_SD :: string
  gu_ProtectionScheme :: string
  gu_RoutingIndicator :: string

record SendGNBUENGAPResponse =
  xr_NGAP :: "NGAPResponse option"
  xr_NAS :: "NASResponse option"
  xr_MACVerified :: "bool option"

record MigrateGNBUERequest =
  mg_TargetGNBID :: string
  mg_RANUENGAPID :: "int option"
  mg_AMFUENGAPID :: "int option"

record MigrateGNBUEResponse =
  mh_UEID :: string
  mh_GNBID :: string
  mh_RANUENGAPID :: int
  mh_AMFUENGAPID :: int

record PatchGNBUERequest =
  pt_K :: "string option"
  pt_OPc :: "string option"
  pt_AMF :: "string option"
  pt_SQN :: "string option"
  pt_AMFUENGAPID :: "int option"
  pt_DNN :: "string option"
  pt_SST :: "int option"
  pt_SD :: "string option"
  pt_IMEISV :: "string option"

record CreateENBRequest =
  ce_MMEAddress :: string
  ce_ENBS1Address :: string
  ce_MCC :: string
  ce_MNC :: string
  ce_TAC :: string
  ce_ENBID :: string
  ce_ENBIDBitLength :: int
  ce_Name :: string
  ce_DefaultPagingDRX :: "int option"
  ce_RawS1APPDU :: "string option"
  ce_WaitFor :: "string list"
  ce_TimeoutMs :: int
  ce_SkipS1Setup :: bool
  ce_EnableGTPU :: bool
  ce_ENBN3Address :: string

record CreateENBResponse =
  cf_ENBID :: string
  cf_S1SetupResponse :: "S1APResponse option"

record ENBStateResponse =
  es_ID :: string
  es_MCC :: string
  es_MNC :: string
  es_TAC :: string
  es_ENBID :: string
  es_ENBIDBitLength :: int
  es_Name :: string

record CreateENBUERequest =
  ceu_IMSI :: string
  ceu_IMEISV :: string
  ceu_K :: string
  ceu_OPc :: string
  ceu_AMF :: string
  ceu_SQN :: string
  ceu_UENetworkCapability :: string

record CreateENBUEResponse =
  cev_UEID :: string
  cev_IMSI :: string
  cev_ENBUES1APID :: u32

record HandoverERAB =
  her_ID :: u8
  her_DLTeid :: u32
  her_DLIP :: string

record SendENBS1APRequest =
  xs_MessageType :: string
  xs_RawS1APPDU :: "string option"
  xs_WaitFor :: "string list"
  xs_TimeoutMs :: int
  xs_ResetUEIDs :: "string list"
  xs_MMEUES1APID :: "u32 option"
  xs_ENBUES1APID :: "u32 option"
  xs_Admitted :: "HandoverERAB list"
  xs_FailedERABs :: "u8 list"
  xs_ERABs :: "HandoverERAB list"
  xs_DuplicateERAB :: bool
  xs_PathSwitchEEA :: "u16 option"
  xs_PathSwitchEIA :: "u16 option"
  xs_Cause :: "int option"
  xs_CellID :: "u32 option"

record MigrateENBUERequest =
  me_TargetENBID :: string
  me_MMEUES1APID :: "u32 option"
  me_ENBUES1APID :: "u32 option"

record ENBUEBearer =
  eb_EBI :: u8
  eb_APN :: string
  eb_UEIP :: string

record ENBUEStateResponse =
  eu_UEID :: string
  eu_IMSI :: string
  eu_IMEISV :: string
  eu_UEIP :: string
  eu_SecurityActive :: bool
  eu_MMEUES1APID :: u32
  eu_ENBUES1APID :: u32
  eu_DefaultEBI :: u8
  eu_Bearers :: "ENBUEBearer list"

record MigrateENBUEResponse =
  mf_UEID :: string
  mf_ENBID :: string
  mf_MMEUES1APID :: u32
  mf_ENBUES1APID :: u32

record SendENBUES1APResponse =
  xt_S1AP :: "S1APResponse option"
  xt_NAS :: "NASResponse_EPS option"
  xt_MACVerified :: "bool option"

record PatchENBUERequest =
  pe_IMEISV :: "string option"
  pe_K :: "string option"
  pe_OPc :: "string option"
  pe_AMF :: "string option"
  pe_SQN :: "string option"
  pe_MMEUES1APID :: "u32 option"

record GNBAwaitDownlinkRequest =
  ga_PDUSessionID :: int
  ga_TimeoutMs :: int

record GNBTunnelResponse =
  gt_PDUSessionID :: u8
  gt_DNN :: string
  gt_N3GNBIP :: string
  gt_DLTeid :: u32
  gt_QFI :: u8
  gt_ULTeid :: u32
  gt_UPFIP :: string
  gt_UEIP :: string

record ENBAwaitDownlinkRequest =
  ea_Ebi :: u8
  ea_TimeoutMs :: int

record ENBTunnelResponse =
  et_EBI :: u8
  et_N3ENBIP :: string
  et_APN :: string
  et_UEIP :: string
  et_ULTeid :: u32
  et_SGWIP :: string
  et_DLTeid :: u32

text \<open>The anonymous structs inside the uplink requests are records of their own.\<close>

record ICMPEchoInput =
  ieDst :: string
  ieID :: u16
  ieSeq :: u16

record UDPInput =
  iuDst :: string
  iuDstPort :: u16
  iuSrcPort :: u16
  iuPayloadHex :: string

record GNBUplinkRequest =
  gl_PDUSessionID :: int
  gl_TEID :: "u32 option"
  gl_ICMPEcho :: "ICMPEchoInput option"
  gl_UDP :: "UDPInput option"
  gl_Src :: "string option"

record ENBUplinkRequest =
  el_Ebi :: u8
  el_ICMPEcho :: "ICMPEchoInput option"
  el_UDP :: "UDPInput option"
  el_Src :: "string option"
  el_TEID :: "u32 option"

record GTPUEchoRequest =
  gq_IP :: string
  gq_TimeoutMs :: int

end
