(* ===== verification/Nas5gs_Encode.thy ===== *)
theory Nas5gs_Encode
  imports Api_Types "HOL-Library.Sublist"
begin

text \<open>
  The 5GS NAS messages a UE sends: \<open>internal/nas5gs/encode.go\<close> and the builders of
  \<open>pdu_session.go\<close>.

  Each builder fills a message struct of the library and has the library encode it.  The struct is
  modelled by what the code puts into it: the constructors of \<open>gmm_out\<close> and \<open>gsm_out\<close> carry the
  arguments of the setters, in the order of the code, and \<open>gmm_encode\<close> and \<open>gsm_encode\<close> are the
  library's encoders, parameters.  The discriminator, the plain security header and the message type
  are fixed by the constructor.  The library's \<open>SetLen\<close> allocates a buffer of that length, so what is
  copied into it is cut to the length; an assigned buffer is taken whole.
\<close>

section \<open>Messages\<close>

datatype reg_ie =
    IE_Capability5GMM | IE_LastVisitedRegisteredTAI | IE_S1UENetworkCapability | IE_UplinkDataStatus
  | IE_PDUSessionStatus | IE_UEStatus | IE_AdditionalGUTI | IE_AllowedPDUSessionStatus
  | IE_EPSNASMessageContainer | IE_LADNIndication | IE_PayloadContainer | IE_UpdateType5GS
  | IE_NASMessageContainer | IE_EPSBearerContextStatus | IE_NoncurrentNativeNASKeySetIdentifier
  | IE_MICOIndication | IE_UesUsageSetting | IE_RequestedDRXParameters | IE_NetworkSlicingIndication
  | IE_RequestedNSSAI

text \<open>An optional element: the length that is set, 0 for an element without one, and its octets, or
  the arguments of its bit-field setters.\<close>

record nas_ie =
  ivLen :: nat
  ivOctets :: bytes

record reg_request =
  rgKSI :: u8
  rgType :: u8
  rgIdentity :: MobileIdentity5GS
  rgSecurityCap :: "UESecurityCapability option"
  rgFOR :: u8
  rgOptional :: "(reg_ie \<times> nas_ie) list"

text \<open>The S-TMSI of a service request is all zero when no GUTI is given.\<close>

record service_request =
  srqType :: u8
  srqKSI :: u8
  srqSTMSI :: "(u16 \<times> u8 \<times> bytes) option"
  srqPDUSessionStatus :: "bytes option"
  srqUplinkDataStatus :: "bytes option"

record dereg_request =
  drKSI :: u8
  drSwitchOff :: u8
  drIdentity :: MobileIdentity5GS

record ul_nas_transport =
  ulSessionID :: u8
  ulRequestType :: "u8 option"
  ulDNN :: "(u8 \<times> string) option"
  ulSNSSAI :: "(nat \<times> u8 \<times> bytes) option"
  ulPayloadLen :: u16
  ulPayload :: bytes

datatype gmm_out =
    RegistrationRequest reg_request
  | AuthenticationResponse "(nat \<times> bytes) option"
  | SecurityModeComplete "nat list option" "(u16 \<times> bytes) option"
  | AuthenticationFailure u8 "(u8 \<times> bytes) option"
  | SecurityModeReject u8
  | IdentityResponse u16 bytes
  | RegistrationComplete
  | ConfigurationUpdateComplete
  | ServiceRequest service_request
  | DeregistrationRequest dereg_request
  | ULNASTransport ul_nas_transport

datatype pco_option = IPAddressAllocationViaNASSignallingUL | DNSServerIPv4AddressRequest | DNSServerIPv6AddressRequest

text \<open>The session identity and the PTI come first; \<open>EstablishmentRequest\<close> has the two maximum data
  rates, the session type, whether always-on is requested and the configuration options.\<close>

datatype gsm_out =
    EstablishmentRequest u8 u8 u8 u8 u8 bool u16 bytes
  | SessionReleaseRequest u8 u8
  | SessionModificationRequest u8 u8
  | SessionReleaseComplete u8 u8
  | SessionModificationComplete u8 u8
  | ModificationCommandReject u8 u8 u8
  | Status5GSM u8 u8 u8

text \<open>\<open>guti_octets\<close> is the octet array of the library's GUTI, \<open>pco_marshal\<close> its encoder of
  configuration options.\<close>

record nas5_enc_lib =
  gmm_encode :: "gmm_out \<Rightarrow> bytes result"
  gsm_encode :: "gsm_out \<Rightarrow> bytes result"
  guti_octets :: "guti_view \<Rightarrow> bytes"
  pco_marshal :: "pco_option list \<Rightarrow> bytes"

section \<open>REGISTRATION REQUEST\<close>

definition RegistrationTypeInitial :: u8 where "RegistrationTypeInitial = 1"
definition RegistrationTypeMobility :: u8 where "RegistrationTypeMobility = 2"
definition RegistrationTypePeriodic :: u8 where "RegistrationTypePeriodic = 3"

record RegistrationRequestOverrides =
  roNgKSI :: "u8 option"
  roMobileIdentityOverride :: "string option"
  roUESecurityCapabilityOverride :: "string option"
  roFollowOnRequest :: "u8 option"
  roNonCurrentNativeNASKSI :: "u8 option"
  roCapability5GMM :: "string option"
  roRequestedNSSAI :: "SNSSAIJSON list"
  roLastVisitedRegisteredTAI :: "string option"
  roS1UENetworkCapability :: "string option"
  roUplinkDataStatus :: "string option"
  roPDUSessionStatus :: "string option"
  roMICOIndication :: "u8 option"
  roUEStatus :: "string option"
  roAdditionalGUTI :: "string option"
  roAllowedPDUSessionStatus :: "string option"
  roUEsUsageSetting :: "u8 option"
  roRequestedDRXParameters :: "u8 option"
  roEPSNASMessageContainer :: "string option"
  roLADNIndication :: "string option"
  roPayloadContainer :: "string option"
  roNetworkSlicingIndication :: "u8 option"
  roUpdateType5GS :: "string option"
  roNASMessageContainer :: "string option"
  roEPSBearerContextStatus :: "string option"

record RegistrationRequestParams =
  rpRegistrationType :: u8
  rpSuci :: MobileIdentity5GS
  rpGuti :: "guti_view option"
  rpSecurityCap :: "UESecurityCapability option"
  rpNgKsi :: u8
  rpOverrides :: "RegistrationRequestOverrides option"

definition len8 :: "bytes \<Rightarrow> nat" where "len8 b = unat (of_nat (length b) :: u8)"
definition len16 :: "bytes \<Rightarrow> nat" where "len16 b = unat (of_nat (length b) :: u16)"

text \<open>An element whose buffer is allocated by \<open>SetLen\<close> and copied into, and one whose octets are
  kept as they are.\<close>

definition copied_ie :: "nat \<Rightarrow> bytes \<Rightarrow> nas_ie" where
  "copied_ie n b = \<lparr> ivLen = n, ivOctets = take n b \<rparr>"

definition whole_ie :: "nat \<Rightarrow> bytes \<Rightarrow> nas_ie" where
  "whole_ie n b = \<lparr> ivLen = n, ivOctets = b \<rparr>"

text \<open>The table \<open>hexIEs\<close>: name, source, and what the octets set, if they set anything.\<close>

type_synonym hex_ie = "string \<times> string option \<times> (bytes \<Rightarrow> (reg_ie \<times> nas_ie) option)"

definition hexIEs :: "RegistrationRequestOverrides \<Rightarrow> hex_ie list" where
  "hexIEs r = [
     (''capability_5gmm'', roCapability5GMM r, \<lambda>b.
        if length b = 0 then None else Some (IE_Capability5GMM, whole_ie (len8 b) b)),
     (''last_visited_registered_tai'', roLastVisitedRegisteredTAI r, \<lambda>b.
        if length b \<noteq> 6 then None else Some (IE_LastVisitedRegisteredTAI, whole_ie 0 b)),
     (''s1_ue_network_capability'', roS1UENetworkCapability r, \<lambda>b.
        if length b = 0 then None else Some (IE_S1UENetworkCapability, copied_ie (len8 b) b)),
     (''uplink_data_status'', roUplinkDataStatus r, \<lambda>b.
        if length b < 2 then None else Some (IE_UplinkDataStatus, whole_ie (len8 b) b)),
     (''pdu_session_status'', roPDUSessionStatus r, \<lambda>b.
        if length b < 2 then None else Some (IE_PDUSessionStatus, whole_ie (len8 b) b)),
     (''ue_status'', roUEStatus r, \<lambda>b.
        if length b < 1 then None else Some (IE_UEStatus, whole_ie 1 [b ! 0])),
     (''additional_guti'', roAdditionalGUTI r, \<lambda>b.
        if length b = 0 \<or> length b > 11 then None else Some (IE_AdditionalGUTI, whole_ie (len16 b) b)),
     (''allowed_pdu_session_status'', roAllowedPDUSessionStatus r, \<lambda>b.
        if length b < 2 then None else Some (IE_AllowedPDUSessionStatus, whole_ie (len8 b) b)),
     (''eps_nas_message_container'', roEPSNASMessageContainer r, \<lambda>b.
        Some (IE_EPSNASMessageContainer, copied_ie (len16 b) b)),
     (''ladn_indication'', roLADNIndication r, \<lambda>b. Some (IE_LADNIndication, copied_ie (len16 b) b)),
     (''payload_container'', roPayloadContainer r, \<lambda>b. Some (IE_PayloadContainer, copied_ie (len16 b) b)),
     (''update_type_5gs'', roUpdateType5GS r, \<lambda>b.
        if length b = 0 then None
        else Some (IE_UpdateType5GS, whole_ie (len8 b) [b ! 0 AND 0x01, drop_bit 1 (b ! 0) AND 0x01])),
     (''nas_message_container'', roNASMessageContainer r, \<lambda>b. Some (IE_NASMessageContainer, whole_ie (len16 b) b)),
     (''eps_bearer_context_status'', roEPSBearerContextStatus r, \<lambda>b.
        if length b < 2 then None else Some (IE_EPSBearerContextStatus, whole_ie 2 [b ! 0, b ! 1]))]"

fun apply_hex_ies :: "hex_ie list \<Rightarrow> (reg_ie \<times> nas_ie) list result" where
  "apply_hex_ies [] = Inr []"
| "apply_hex_ies ((name, src, app) # ies) = (case src of
      None \<Rightarrow> apply_hex_ies ies
    | Some h \<Rightarrow>
        rbind (rwrap name (hex_decode h)) (\<lambda>b.
        rbind (apply_hex_ies ies) (\<lambda>rest. Inr ((case app b of None \<Rightarrow> [] | Some ie \<Rightarrow> [ie]) @ rest))))"

text \<open>The body of the loop over the requested slices: length, SST and, when it is three octets, SD.\<close>

definition nssai_entry :: "SNSSAIJSON \<Rightarrow> bytes" where
  "nssai_entry s =
     (let sst = of_int (snSST s);
          plain = [1, sst] in
      if snSD s \<noteq> [] then (case hex_decode (snSD s) of
         Inr sd \<Rightarrow> if length sd = 3 then [4, sst] @ sd else plain
       | Inl e \<Rightarrow> plain)
      else plain)"

definition option_ie :: "reg_ie \<Rightarrow> ('a \<Rightarrow> nas_ie) \<Rightarrow> 'a option \<Rightarrow> (reg_ie \<times> nas_ie) list" where
  "option_ie k f v = (case v of None \<Rightarrow> [] | Some x \<Rightarrow> [(k, f x)])"

definition applyRegistrationRequestOverrides ::
  "RegistrationRequestOverrides \<Rightarrow> (reg_ie \<times> nas_ie) list result" where
  "applyRegistrationRequestOverrides r =
     rbind (apply_hex_ies (hexIEs r)) (\<lambda>hex.
     let ksi = option_ie IE_NoncurrentNativeNASKeySetIdentifier
                 (\<lambda>x. whole_ie 0 [x AND 0x07, drop_bit 3 x AND 0x01]) (roNonCurrentNativeNASKSI r);
         mico = option_ie IE_MICOIndication (\<lambda>x. whole_ie 0 [x AND 0x01]) (roMICOIndication r);
         usage = option_ie IE_UesUsageSetting (\<lambda>x. whole_ie 1 [x AND 0x01]) (roUEsUsageSetting r);
         drx = option_ie IE_RequestedDRXParameters (\<lambda>x. whole_ie 1 [x]) (roRequestedDRXParameters r);
         slicing = option_ie IE_NetworkSlicingIndication
                 (\<lambda>x. whole_ie 0 [x AND 0x01, drop_bit 1 x AND 0x01]) (roNetworkSlicingIndication r);
         nssai = (if length (roRequestedNSSAI r) > 0 then
                    let buf = concat (map nssai_entry (roRequestedNSSAI r)) in
                    [(IE_RequestedNSSAI, copied_ie (len8 buf) buf)] else [])
     in Inr (hex @ ksi @ mico @ usage @ drx @ slicing @ nssai))"

definition registration_identity :: "nas5_enc_lib \<Rightarrow> RegistrationRequestParams \<Rightarrow> MobileIdentity5GS result" where
  "registration_identity L p = (case Option.bind (rpOverrides p) roMobileIdentityOverride of
      Some h \<Rightarrow> rbind (rwrap ''nas: decode mobile_identity_override'' (hex_decode h)) (\<lambda>idBytes.
        Inr \<lparr> miBuffer = idBytes, miLen = of_nat (length idBytes) \<rparr>)
    | None \<Rightarrow> (case rpGuti p of
        Some g \<Rightarrow> Inr \<lparr> miBuffer = guti_octets L g, miLen = of_nat (gvLen g) \<rparr>
      | None \<Rightarrow> Inr (rpSuci p)))"

text \<open>The element identifier \<open>0x2e\<close> is the library's constant for the UE security capability.\<close>

definition registration_security_cap :: "RegistrationRequestParams \<Rightarrow> UESecurityCapability option result" where
  "registration_security_cap p = (case Option.bind (rpOverrides p) roUESecurityCapabilityOverride of
      Some h \<Rightarrow> rbind (rwrap ''nas: decode ue_security_capability'' (hex_decode h)) (\<lambda>capBytes.
        Inr (Some \<lparr> scIei = 0x2e, scLen = of_nat (length capBytes), scBuffer = take (len8 capBytes) capBytes \<rparr>))
    | None \<Rightarrow> Inr (rpSecurityCap p))"

definition BuildRegistrationRequest :: "nas5_enc_lib \<Rightarrow> RegistrationRequestParams \<Rightarrow> bytes result" where
  "BuildRegistrationRequest L p =
     (let ngKsi = (case Option.bind (rpOverrides p) roNgKSI of Some k \<Rightarrow> k | None \<Rightarrow> rpNgKsi p);
          regType = (if rpRegistrationType p = 0 then RegistrationTypeInitial else rpRegistrationType p);
          forBit = (case Option.bind (rpOverrides p) roFollowOnRequest of Some f \<Rightarrow> f | None \<Rightarrow> 1) in
      rbind (registration_identity L p) (\<lambda>ident.
      rbind (registration_security_cap p) (\<lambda>cap.
      rbind (case rpOverrides p of None \<Rightarrow> Inr [] | Some o' \<Rightarrow> applyRegistrationRequestOverrides o') (\<lambda>opt.
      rwrap ''nas: GMM encode error'' (gmm_encode L (RegistrationRequest
        \<lparr> rgKSI = ngKsi, rgType = regType, rgIdentity = ident, rgSecurityCap = cap, rgFOR = forBit,
          rgOptional = opt \<rparr>))))))"

section \<open>The other 5GMM messages\<close>

definition maxAuthenticationResponseParameterLen :: nat where
  "maxAuthenticationResponseParameterLen = 16"

definition BuildAuthenticationResponse :: "nas5_enc_lib \<Rightarrow> bytes \<Rightarrow> bytes result" where
  "BuildAuthenticationResponse L resStar =
     (let param = (if length resStar > 0 then
             let n = min (length resStar) maxAuthenticationResponseParameterLen in Some (n, take n resStar)
           else None)
      in rwrap ''nas: GMM encode AuthenticationResponse'' (gmm_encode L (AuthenticationResponse param)))"

text \<open>The digits in the order of their setters, then the filler.\<close>

definition buildIMEISV :: "string \<Rightarrow> nat list result" where
  "buildIMEISV imeisv =
     (if length imeisv \<noteq> 16 then Inl (Errorf ''nas: IMEISV must be 16 digits'')
      else if \<not> list_all is_digit imeisv then Inl (Errorf ''nas: IMEISV contains non-digit characters'')
      else Inr (map digit_val imeisv @ [15]))"

definition BuildSecurityModeComplete :: "nas5_enc_lib \<Rightarrow> bytes option \<Rightarrow> string \<Rightarrow> bytes result" where
  "BuildSecurityModeComplete L regRequestPdu imeisv =
     (let pei = (if imeisv \<noteq> [] \<and> length imeisv = 16 then
                   (case buildIMEISV imeisv of Inr d \<Rightarrow> Some d | Inl e \<Rightarrow> None) else None);
          container = map_option (\<lambda>b. (of_nat (length b), b)) regRequestPdu
      in rwrap ''nas: GMM encode SecurityModeComplete'' (gmm_encode L (SecurityModeComplete pei container)))"

definition BuildAuthenticationFailure :: "nas5_enc_lib \<Rightarrow> u8 \<Rightarrow> bytes \<Rightarrow> bytes result" where
  "BuildAuthenticationFailure L cause auts =
     (let param = (if length auts > 0 then Some (of_nat (length auts), auts) else None)
      in rwrap ''nas: GMM encode AuthenticationFailure'' (gmm_encode L (AuthenticationFailure cause param)))"

definition BuildSecurityModeReject :: "nas5_enc_lib \<Rightarrow> u8 \<Rightarrow> bytes result" where
  "BuildSecurityModeReject L cause =
     rwrap ''nas: GMM encode SecurityModeReject'' (gmm_encode L (SecurityModeReject cause))"

definition BuildIdentityResponse :: "nas5_enc_lib \<Rightarrow> bytes \<Rightarrow> bytes result" where
  "BuildIdentityResponse L mobileIdentity =
     rwrap ''nas: GMM encode IdentityResponse''
       (gmm_encode L (IdentityResponse (of_nat (length mobileIdentity)) (take (len16 mobileIdentity) mobileIdentity)))"

definition BuildRegistrationComplete :: "nas5_enc_lib \<Rightarrow> bytes result" where
  "BuildRegistrationComplete L = rwrap ''nas: GMM encode RegistrationComplete'' (gmm_encode L RegistrationComplete)"

definition BuildConfigurationUpdateComplete :: "nas5_enc_lib \<Rightarrow> bytes result" where
  "BuildConfigurationUpdateComplete L =
     rwrap ''nas: GMM encode ConfigurationUpdateComplete'' (gmm_encode L ConfigurationUpdateComplete)"

text \<open>\<open>nasMessage.ServiceTypeData\<close> of the library.\<close>

definition ServiceTypeData :: u8 where "ServiceTypeData = 1"

record ServiceRequestParams =
  seServiceType :: u8
  seNgKsi :: u8
  seGuti :: "guti_view option"
  sePDUSessionStatus :: "bool list option"

text \<open>The sixteen flags of the array, lowest bit first.\<close>

fun bitmap_from :: "nat \<Rightarrow> bool list \<Rightarrow> u16" where
  "bitmap_from i [] = 0"
| "bitmap_from i (active # status) = (if active then push_bit i 1 else 0) OR bitmap_from (Suc i) status"

definition pduSessionBitmap :: "bool list \<Rightarrow> u16" where
  "pduSessionBitmap status = bitmap_from 0 status"

definition put_le16 :: "u16 \<Rightarrow> bytes" where
  "put_le16 w = [ucast w, ucast (drop_bit 8 w)]"

definition BuildServiceRequest :: "nas5_enc_lib \<Rightarrow> ServiceRequestParams \<Rightarrow> bytes result" where
  "BuildServiceRequest L p =
     (let flags = map_option (\<lambda>s. put_le16 (pduSessionBitmap s)) (sePDUSessionStatus p)
      in rwrap ''nas: GMM encode ServiceRequest'' (gmm_encode L (ServiceRequest
        \<lparr> srqType = seServiceType p, srqKSI = seNgKsi p,
          srqSTMSI = map_option (\<lambda>g. (gvSet g, gvPointer g, gvTMSI g)) (seGuti p),
          srqPDUSessionStatus = flags,
          srqUplinkDataStatus = (if seServiceType p = ServiceTypeData then flags else None) \<rparr>)))"

record DeregistrationRequestParams =
  dpGuti :: "guti_view option"
  dpSuci :: "MobileIdentity5GS option"
  dpNgKsi :: u8
  dpSwitchOff :: u8

text \<open>The security context is native, no re-registration is required and the access is 3GPP.\<close>

definition BuildDeregistrationRequest :: "nas5_enc_lib \<Rightarrow> DeregistrationRequestParams \<Rightarrow> bytes result" where
  "BuildDeregistrationRequest L p =
     rbind (case dpGuti p of
        Some g \<Rightarrow> Inr \<lparr> miBuffer = guti_octets L g, miLen = of_nat (gvLen g) \<rparr>
      | None \<Rightarrow> (case dpSuci p of Some s \<Rightarrow> Inr s
          | None \<Rightarrow> Inl (Errorf ''nas: either Guti or Suci must be provided''))) (\<lambda>ident.
     rwrap ''nas: GMM encode DeregistrationRequest'' (gmm_encode L (DeregistrationRequest
       \<lparr> drKSI = dpNgKsi p, drSwitchOff = dpSwitchOff p, drIdentity = ident \<rparr>)))"

section \<open>5GSM messages and their transport\<close>

record PDUSessionEstablishmentRequestParams =
  peqPDUSessionID :: u8
  peqPDUSessionType :: u8
  peqPTI :: u8
  peqAlwaysOn :: bool
  peqDNN :: string
  peqSST :: int
  peqSD :: string

definition PDUSessionTypeIPv4 :: u8 where "PDUSessionTypeIPv4 = 1"

definition BuildPDUSessionEstablishmentRequest ::
  "nas5_enc_lib \<Rightarrow> PDUSessionEstablishmentRequestParams \<Rightarrow> bytes result" where
  "BuildPDUSessionEstablishmentRequest L p =
     (let t = (if peqPDUSessionType p = 0 then PDUSessionTypeIPv4 else peqPDUSessionType p);
          pco = pco_marshal L [IPAddressAllocationViaNASSignallingUL, DNSServerIPv4AddressRequest, DNSServerIPv6AddressRequest]
      in rwrap ''nas: GSM encode'' (gsm_encode L
           (EstablishmentRequest (peqPDUSessionID p) (peqPTI p) 0xff 0xff t (peqAlwaysOn p) (of_nat (length pco)) pco)))"

record ULNASTransportParams =
  utPduSessionID :: u8
  utPayloadContainer :: bytes
  utDNN :: string
  utSST :: int
  utSD :: string

definition BuildULNASTransport :: "nas5_enc_lib \<Rightarrow> ULNASTransportParams \<Rightarrow> bytes result" where
  "BuildULNASTransport L p =
     rbind (if utSD p = [] then Inr (1, [])
            else rbind (rwrap ''nas: decode SD'' (hex_decode (utSD p))) (\<lambda>sd. Inr (4, copy_from [0, 0, 0] 0 sd))) (\<lambda>(n, sd).
     rwrap ''nas: GMM encode'' (gmm_encode L (ULNASTransport
       \<lparr> ulSessionID = utPduSessionID p, ulRequestType = Some 1,
         ulDNN = (if utDNN p \<noteq> [] then Some (of_nat (length (utDNN p)), utDNN p) else None),
         ulSNSSAI = Some (n, of_int (utSST p), sd),
         ulPayloadLen = of_nat (length (utPayloadContainer p)), ulPayload = utPayloadContainer p \<rparr>)))"

definition BuildULNASTransportExisting :: "nas5_enc_lib \<Rightarrow> u8 \<Rightarrow> u8 option \<Rightarrow> bytes \<Rightarrow> bytes result" where
  "BuildULNASTransportExisting L pduSessionID requestType payload =
     rwrap ''nas: GMM encode'' (gmm_encode L (ULNASTransport
       \<lparr> ulSessionID = pduSessionID, ulRequestType = requestType, ulDNN = None, ulSNSSAI = None,
         ulPayloadLen = of_nat (length payload), ulPayload = payload \<rparr>))"

definition BuildPDUSessionReleaseRequest :: "nas5_enc_lib \<Rightarrow> u8 \<Rightarrow> u8 \<Rightarrow> bytes result" where
  "BuildPDUSessionReleaseRequest L sid pti =
     rwrap ''nas: GSM encode PDUSessionReleaseRequest'' (gsm_encode L (SessionReleaseRequest sid pti))"

definition BuildPDUSessionModificationRequest :: "nas5_enc_lib \<Rightarrow> u8 \<Rightarrow> u8 \<Rightarrow> bytes result" where
  "BuildPDUSessionModificationRequest L sid pti =
     rwrap ''nas: GSM encode PDUSessionModificationRequest'' (gsm_encode L (SessionModificationRequest sid pti))"

definition BuildPDUSessionReleaseComplete :: "nas5_enc_lib \<Rightarrow> u8 \<Rightarrow> u8 \<Rightarrow> bytes result" where
  "BuildPDUSessionReleaseComplete L sid pti =
     rwrap ''nas: GSM encode PDUSessionReleaseComplete'' (gsm_encode L (SessionReleaseComplete sid pti))"

definition BuildPDUSessionModificationComplete :: "nas5_enc_lib \<Rightarrow> u8 \<Rightarrow> u8 \<Rightarrow> bytes result" where
  "BuildPDUSessionModificationComplete L sid pti =
     rwrap ''nas: GSM encode PDUSessionModificationComplete'' (gsm_encode L (SessionModificationComplete sid pti))"

definition BuildPDUSessionModificationCommandReject :: "nas5_enc_lib \<Rightarrow> u8 \<Rightarrow> u8 \<Rightarrow> u8 \<Rightarrow> bytes result" where
  "BuildPDUSessionModificationCommandReject L sid pti cause =
     rwrap ''nas: GSM encode PDUSessionModificationCommandReject'' (gsm_encode L (ModificationCommandReject sid pti cause))"

definition BuildPDUSessionStatus5GSM :: "nas5_enc_lib \<Rightarrow> u8 \<Rightarrow> u8 \<Rightarrow> u8 \<Rightarrow> bytes result" where
  "BuildPDUSessionStatus5GSM L sid pti cause =
     rwrap ''nas: GSM encode Status5GSM'' (gsm_encode L (Status5GSM sid pti cause))"

section \<open>What the builders put into a message\<close>

text \<open>The session flags.\<close>

lemma bit_bitmap_from: "bit (bitmap_from i status) j \<longleftrightarrow> i \<le> j \<and> j < 16 \<and> j - i < length status \<and> status ! (j - i)"
proof (induction status arbitrary: i)
  case Nil
  then show ?case by simp
next
  case (Cons a status)
  have "bit (push_bit i (1 :: u16)) j \<longleftrightarrow> i = j \<and> j < 16"
    by (auto simp: bit_push_bit_iff bit_1_iff simp del: push_bit_of_1)
  moreover have "j - i = Suc (j - Suc i)" if "Suc i \<le> j" using that by simp
  ultimately show ?case
    by (cases "i = j") (auto simp: bit_or_iff Cons.IH nth_Cons' le_Suc_eq not_less_eq_eq)
qed

lemma bit_pduSessionBitmap: "bit (pduSessionBitmap status) j \<longleftrightarrow> j < 16 \<and> j < length status \<and> status ! j"
  by (auto simp: pduSessionBitmap_def bit_bitmap_from)

lemma length_put_le16 [simp]: "length (put_le16 w) = 2"
  by (simp add: put_le16_def)

lemma put_le16_rev: "be_word (rev (put_le16 w)) = w"
proof -
  have "rev (put_le16 w) = be_bytes 2 w" by (simp add: put_le16_def be_bytes_16)
  then show ?thesis by (simp add: be_word_be_bytes)
qed

text \<open>The optional elements of a registration request: which of the sources are not hexadecimal.\<close>

definition bad_source :: "hex_ie \<Rightarrow> bool" where
  "bad_source x = (case fst (snd x) of None \<Rightarrow> False | Some h \<Rightarrow> \<not> rok (hex_decode h))"

definition given_ie :: "hex_ie \<Rightarrow> (reg_ie \<times> nas_ie) option" where
  "given_ie x = (case fst (snd x) of None \<Rightarrow> None
     | Some h \<Rightarrow> (case hex_decode h of Inl e \<Rightarrow> None | Inr b \<Rightarrow> snd (snd x) b))"

lemma apply_hex_ies_ok: "apply_hex_ies xs = Inr ys \<longleftrightarrow> list_all (\<lambda>x. \<not> bad_source x) xs \<and> ys = List.map_filter given_ie xs"
proof (induction xs arbitrary: ys rule: apply_hex_ies.induct)
  case (2 name src app ies)
  show ?case
  proof (cases src)
    case None
    then show ?thesis using 2(1) [OF None] by (simp add: bad_source_def given_ie_def List.map_filter_simps)
  next
    case (Some h)
    show ?thesis
    proof (cases "hex_decode h")
      case (Inl e)
      have "rwrap name (Inl e :: bytes result) \<noteq> Inr b" for b by simp
      then show ?thesis using Some Inl by (auto simp: bad_source_def rbind_eq_Inr)
    next
      case (Inr b)
      then show ?thesis
        using 2(2) [OF Some, of b] Some
        by (auto simp: bad_source_def given_ie_def List.map_filter_simps rbind_eq_Inr split: option.splits)
    qed
  qed
qed (auto simp: List.map_filter_simps)

lemma hex_decode_error: "hex_decode h = Inl e \<Longrightarrow> \<not> panics (Inl e :: unit result)"
  by (induction h rule: hex_decode.induct) (auto simp: panics_def rbind_eq_Inl split: if_splits option.splits)

lemma apply_hex_ies_bad:
  assumes "list_all (\<lambda>x. \<not> bad_source x) pre" "bad_source (name, src, app)"
  shows "\<exists>e. apply_hex_ies (pre @ (name, src, app) # post) = Inl (Wrapf name e)"
  using assms
proof (induction pre)
  case Nil
  then obtain h e where h: "src = Some h" "hex_decode h = Inl e"
    by (auto simp: bad_source_def rok_def split: option.splits sum.splits)
  then have "rwrap name (hex_decode h) = Inl (Wrapf name e)"
    using hex_decode_error [OF h(2)] by (cases e) (auto simp: panics_def)
  then show ?case using h by simp
next
  case (Cons x pre)
  then show ?case
    by (cases x) (auto simp: bad_source_def rok_def split: option.splits sum.splits)
qed

text \<open>The requested slices as a network reads them: a length, then an SST, then an SD of three
  octets if the length is 4.\<close>

fun parse_nssai :: "bytes \<Rightarrow> (u8 \<times> bytes) list option" where
  "parse_nssai [] = Some []"
| "parse_nssai (n # sst # r) =
     (if n = 1 then map_option (\<lambda>l. (sst, []) # l) (parse_nssai r)
      else if n = 4 \<and> 3 \<le> length r then map_option (\<lambda>l. (sst, take 3 r) # l) (parse_nssai (drop 3 r))
      else None)"
| "parse_nssai [n] = None"

definition slice_meant :: "SNSSAIJSON \<Rightarrow> u8 \<times> bytes" where
  "slice_meant s = (of_int (snSST s), case hex_decode (snSD s) of Inl e \<Rightarrow> [] | Inr sd \<Rightarrow> if length sd = 3 then sd else [])"

lemma parse_nssai_entry:
  "parse_nssai (nssai_entry s @ r) = map_option (\<lambda>l. slice_meant s # l) (parse_nssai r)"
  by (cases "snSD s"; cases "hex_decode (snSD s)") (auto simp: nssai_entry_def slice_meant_def Let_def)

text \<open>The requested slices of a registration request are read back, each with its SST modulo 256
  and with its SD exactly when that is three octets of hexadecimal, whenever the list fits the
  element; and the element carries the length of its contents.\<close>

theorem nssai_roundtrip:
  assumes "applyRegistrationRequestOverrides r = Inr opt" "(IE_RequestedNSSAI, v) \<in> set opt"
    and "length (concat (map nssai_entry (roRequestedNSSAI r))) < 256"
  shows "ivLen v = length (ivOctets v) \<and> parse_nssai (ivOctets v) = Some (map slice_meant (roRequestedNSSAI r))"
proof -
  let ?buf = "concat (map nssai_entry (roRequestedNSSAI r))"
  have "given_ie x \<noteq> Some (IE_RequestedNSSAI, v)" if "x \<in> set (hexIEs r)" for x
    using that by (auto simp: hexIEs_def given_ie_def split: option.splits sum.splits if_splits)
  then have "(IE_RequestedNSSAI, v) \<notin> set (List.map_filter given_ie (hexIEs r))"
    by (auto simp: List.map_filter_def)
  then have v: "v = copied_ie (len8 ?buf) ?buf"
    using assms(1,2)
    by (auto simp: applyRegistrationRequestOverrides_def rbind_eq_Inr apply_hex_ies_ok option_ie_def Let_def
        split: if_splits option.splits)
  have l: "len8 ?buf = length ?buf"
    using assms(3) by (simp add: len8_def unat_of_nat take_bit_eq_mod)
  have "parse_nssai (concat (map nssai_entry ss)) = Some (map slice_meant ss)" for ss
    by (induction ss) (simp_all add: parse_nssai_entry)
  then show ?thesis using v l by (simp add: copied_ie_def)
qed

text \<open>The elements an override asks for, in the order of the code.\<close>

definition asked_hex :: "RegistrationRequestOverrides \<Rightarrow> (reg_ie \<times> bool) list" where
  "asked_hex r =
     [(IE_Capability5GMM, roCapability5GMM r \<noteq> None), (IE_LastVisitedRegisteredTAI, roLastVisitedRegisteredTAI r \<noteq> None),
      (IE_S1UENetworkCapability, roS1UENetworkCapability r \<noteq> None), (IE_UplinkDataStatus, roUplinkDataStatus r \<noteq> None),
      (IE_PDUSessionStatus, roPDUSessionStatus r \<noteq> None), (IE_UEStatus, roUEStatus r \<noteq> None),
      (IE_AdditionalGUTI, roAdditionalGUTI r \<noteq> None),
      (IE_AllowedPDUSessionStatus, roAllowedPDUSessionStatus r \<noteq> None),
      (IE_EPSNASMessageContainer, roEPSNASMessageContainer r \<noteq> None), (IE_LADNIndication, roLADNIndication r \<noteq> None),
      (IE_PayloadContainer, roPayloadContainer r \<noteq> None), (IE_UpdateType5GS, roUpdateType5GS r \<noteq> None),
      (IE_NASMessageContainer, roNASMessageContainer r \<noteq> None),
      (IE_EPSBearerContextStatus, roEPSBearerContextStatus r \<noteq> None)]"

definition asked_bits :: "RegistrationRequestOverrides \<Rightarrow> (reg_ie \<times> bool) list" where
  "asked_bits r =
     [(IE_NoncurrentNativeNASKeySetIdentifier, roNonCurrentNativeNASKSI r \<noteq> None),
      (IE_MICOIndication, roMICOIndication r \<noteq> None), (IE_UesUsageSetting, roUEsUsageSetting r \<noteq> None),
      (IE_RequestedDRXParameters, roRequestedDRXParameters r \<noteq> None),
      (IE_NetworkSlicingIndication, roNetworkSlicingIndication r \<noteq> None), (IE_RequestedNSSAI, roRequestedNSSAI r \<noteq> [])]"

definition asked_ies :: "RegistrationRequestOverrides \<Rightarrow> reg_ie list" where
  "asked_ies r = map fst (filter snd (asked_hex r @ asked_bits r))"

lemma subseq_given:
  "list_all2 (\<lambda>x (k, b). (\<forall>h y. snd (snd x) h = Some y \<longrightarrow> fst y = k) \<and> b = (fst (snd x) \<noteq> None)) xs ks \<Longrightarrow>
     subseq (map fst (List.map_filter given_ie xs)) (map fst (filter snd ks))"
proof (induction rule: list_all2_induct)
  case (Cons x xs k ks)
  have "given_ie x = Some y \<Longrightarrow> snd k \<and> fst y = fst k" for y
    using Cons(1) by (cases k; cases y) (force simp: given_ie_def split: option.splits sum.splits)
  then show ?case
    using Cons(3) by (cases "given_ie x") (auto simp: List.map_filter_simps)
qed (simp add: List.map_filter_simps)

text \<open>The overrides of a registration request are taken exactly when every given octet string is
  hexadecimal; the error names the first one of the table that is not.  The optional elements
  then stand in the order of the code, none twice, and none is there that was not asked for.\<close>

theorem registration_overrides:
  "(case applyRegistrationRequestOverrides r of
      Inr opt \<Rightarrow> list_all (\<lambda>x. \<not> bad_source x) (hexIEs r) \<and> subseq (map fst opt) (asked_ies r)
    | Inl e \<Rightarrow> (\<exists>pre name src app post err. hexIEs r = pre @ (name, src, app) # post \<and>
        list_all (\<lambda>x. \<not> bad_source x) pre \<and> bad_source (name, src, app) \<and> e = Wrapf name err))"
proof (cases "list_all (\<lambda>x. \<not> bad_source x) (hexIEs r)")
  case True
  then have "apply_hex_ies (hexIEs r) = Inr (List.map_filter given_ie (hexIEs r))" by (simp add: apply_hex_ies_ok)
  then obtain bits where o: "applyRegistrationRequestOverrides r = Inr (List.map_filter given_ie (hexIEs r) @ bits)"
    and b: "map fst bits = map fst (filter snd (asked_bits r))"
    by (simp add: applyRegistrationRequestOverrides_def asked_bits_def option_ie_def Let_def split: option.split)
  have "subseq (map fst (List.map_filter given_ie (hexIEs r))) (map fst (filter snd (asked_hex r)))"
    by (rule subseq_given) (simp add: hexIEs_def asked_hex_def)
  then have "subseq (map fst (List.map_filter given_ie (hexIEs r) @ bits)) (asked_ies r)"
    using b by (simp add: asked_ies_def list_emb_append_mono)
  then show ?thesis using True o by simp
next
  case False
  then obtain pre x post where s: "hexIEs r = pre @ x # post" "bad_source x" "list_all (\<lambda>x. \<not> bad_source x) pre"
    by (auto simp: list_all_iff dest!: split_list_first_prop)
  obtain name src app where x: "x = (name, src, app)" by (cases x)
  from apply_hex_ies_bad [OF s(3) s(2) [unfolded x], of post] s(1) x
  obtain e where "apply_hex_ies (hexIEs r) = Inl (Wrapf name e)" by auto
  then show ?thesis
    using s x by (auto simp: applyRegistrationRequestOverrides_def)
qed

definition no_registration_overrides :: RegistrationRequestOverrides where
  "no_registration_overrides = \<lparr> roNgKSI = None, roMobileIdentityOverride = None, roUESecurityCapabilityOverride = None,
     roFollowOnRequest = None, roNonCurrentNativeNASKSI = None, roCapability5GMM = None, roRequestedNSSAI = [],
     roLastVisitedRegisteredTAI = None, roS1UENetworkCapability = None, roUplinkDataStatus = None, roPDUSessionStatus = None,
     roMICOIndication = None, roUEStatus = None, roAdditionalGUTI = None, roAllowedPDUSessionStatus = None,
     roUEsUsageSetting = None, roRequestedDRXParameters = None, roEPSNASMessageContainer = None, roLADNIndication = None,
     roPayloadContainer = None, roNetworkSlicingIndication = None, roUpdateType5GS = None, roNASMessageContainer = None,
     roEPSBearerContextStatus = None \<rparr>"

theorem nssai_roundtrip_witness:
  "ivLen \<lparr> ivLen = 7, ivOctets = [4, 1, 1, 2, 3, 1, 2] \<rparr> = length (ivOctets \<lparr> ivLen = 7, ivOctets = [4, 1, 1, 2, 3, 1, 2] \<rparr>) \<and>
   parse_nssai (ivOctets \<lparr> ivLen = 7, ivOctets = [4, 1, 1, 2, 3, 1, 2] \<rparr>) =
     Some (map slice_meant (roRequestedNSSAI (no_registration_overrides\<lparr> roRequestedNSSAI :=
       [\<lparr> snSST = 1, snSD = ''010203'' \<rparr>, \<lparr> snSST = 2, snSD = ''zz'' \<rparr>] \<rparr>)))"
proof (rule nssai_roundtrip)
  have h: "hex_decode ''010203'' = Inr [1, 2, 3]" "hex_decode ''zz'' = Inl (Errorf ''invalid byte'')"
    by code_simp+
  have n: "nssai_entry \<lparr> snSST = 1, snSD = ''010203'' \<rparr> = [4, 1, 1, 2, 3]" "nssai_entry \<lparr> snSST = 2, snSD = ''zz'' \<rparr> = [1, 2]"
    by (simp_all add: nssai_entry_def h del: hex_decode.simps)
  let ?r = "no_registration_overrides\<lparr> roRequestedNSSAI := [\<lparr> snSST = 1, snSD = ''010203'' \<rparr>, \<lparr> snSST = 2, snSD = ''zz'' \<rparr>] \<rparr>"
  show "applyRegistrationRequestOverrides ?r = Inr [(IE_RequestedNSSAI, \<lparr> ivLen = 7, ivOctets = [4, 1, 1, 2, 3, 1, 2] \<rparr>)]"
    by (simp add: no_registration_overrides_def applyRegistrationRequestOverrides_def hexIEs_def option_ie_def n
        copied_ie_def len8_def)
  show "length (concat (map nssai_entry (roRequestedNSSAI ?r))) < 256"
    by (simp add: n no_registration_overrides_def)
qed simp

definition sample_nas5_enc :: nas5_enc_lib where
  "sample_nas5_enc = \<lparr> gmm_encode = (\<lambda>m. Inr [0x7e, 0]), gsm_encode = (\<lambda>m. Inr [0x2e, 1]), guti_octets = (\<lambda>g. replicate 11 0),
     pco_marshal = (\<lambda>l. [0x80]) \<rparr>"

end
