(* ===== verification/Naseps_Encode.thy ===== *)
theory Naseps_Encode
  imports Api_Types
begin

text \<open>
  The EPS NAS messages a UE sends: \<open>internal/naseps/encode.go\<close> and the builders of \<open>esm.go\<close>.
  Most builders fill a struct of the library \<open>ellanetworks/core/nas\<close> and have it marshalled: the
  structs are the constructors of \<open>eps_msg\<close>, with the fields the code sets.  The tracking area update
  request, the service request, the identities and the bearer resource messages are put together here,
  octet by octet.  \<open>eps_enc_lib\<close> has the library's routines: its PLMN and TBCD codecs, the
  length-value writer, the marshallers and the short MAC.
\<close>

section \<open>Messages\<close>

record GUTIParams =
  gpMCC :: string
  gpMNC :: string
  gpMMEGroupID :: u16
  gpMMECode :: u8
  gpMTMSI :: u32

datatype eps_identity = IdentityIMSI string | IdentityGUTI GUTIParams

datatype attach_ie =
    AI_OldPTMSISignature | AI_AdditionalGUTI | AI_LastVisitedRegisteredTAI | AI_DRXParameter
  | AI_MSNetworkCapability | AI_OldLocationAreaID | AI_MobileStationClassmark2 | AI_MobileStationClassmark3
  | AI_SupportedCodecs | AI_VoiceDomainPreference | AI_TMSIBasedNRIContainer | AI_T3324Value
  | AI_T3412ExtendedValue | AI_ExtendedDRXParameters | AI_UEAdditionalSecurityCapability | AI_UEStatus
  | AI_AdditionalInformationRequested | AI_N1UENetworkCapability | AI_UERadioCapabilityIDAvailability
  | AI_RequestedWUSAssistance | AI_DRXParameterNBS1Mode | AI_RequestedIMSIOffset | AI_UENetworkCapability
  | AI_TMSIStatus | AI_AdditionalUpdateType | AI_DeviceProperties | AI_OldGUTIType | AI_MSNetworkFeatureSupport

text \<open>The optional fields that are not nil, in the order the code sets them.\<close>

record attach_request =
  arType :: u8
  arKSI :: u8
  arIdentity :: eps_identity
  arUENetworkCapability :: bytes
  arESM :: bytes
  arOctets :: "(attach_ie \<times> bytes) list"
  arHalfOctets :: "(attach_ie \<times> u8) list"

datatype eps_msg =
    AttachRequest attach_request
  | AttachComplete bytes
  | TrackingAreaUpdateComplete
  | EPSIdentityResponse bytes
  | EPSAuthenticationResponse bytes
  | EPSAuthenticationFailure u8 bytes
  | EPSSecurityModeComplete bytes
  | EPSSecurityModeReject u8
  | DetachRequestUE bool u8 eps_identity
  | PDNConnectivityRequest u8 u8 u8 bytes
  | PDNDisconnectRequest u8 u8
  | DeactivateEPSBearerContextAccept u8 u8
  | ModifyEPSBearerContextAccept u8 u8
  | ESMStatus u8 u8 u8
  | ActivateDefaultEPSBearerContextAccept u8 u8
  | ESMInformationResponse u8

record eps_enc_lib =
  lib_EncodePLMN :: "string \<Rightarrow> string \<Rightarrow> bytes result"
  lib_EncodeTBCD :: "string \<Rightarrow> bytes result"
  lib_LV :: "bytes \<Rightarrow> bytes result"
  lib_Marshal :: "eps_msg \<Rightarrow> bytes result"
  lib_ShortMAC :: "bytes \<Rightarrow> bytes \<Rightarrow> u32 \<Rightarrow> direction \<Rightarrow> integrity \<Rightarrow> bytes result"

section \<open>encode.go\<close>

definition encodeGUTIIdentity :: "eps_enc_lib \<Rightarrow> GUTIParams \<Rightarrow> bytes result" where
  "encodeGUTIIdentity L guti =
     rbind (lib_EncodePLMN L (gpMCC guti) (gpMNC guti)) (\<lambda>plmn.
     let out = replicate 11 0;
         out = out[0 := 0xF0 OR 0x06];
         out = copy_into out 1 4 plmn;
         out = put_be 2 out 4 (gpMMEGroupID guti);
         out = out[6 := gpMMECode guti];
         out = put_be 4 out 7 (gpMTMSI guti)
     in Inr out)"

record TrackingAreaUpdateRequestParams =
  tpUpdateType :: u8
  tpActiveFlag :: bool
  tpKSI :: u8
  tpGUTI :: GUTIParams

text \<open>The type of the message in TS 24.301, table 9.8.1.\<close>

definition MsgTrackingAreaUpdateRequest :: u8 where "MsgTrackingAreaUpdateRequest = 0x48"

definition BuildTrackingAreaUpdateRequest :: "eps_enc_lib \<Rightarrow> TrackingAreaUpdateRequestParams \<Rightarrow> bytes result" where
  "BuildTrackingAreaUpdateRequest L p =
     rbind (encodeGUTIIdentity L (tpGUTI p)) (\<lambda>gutiID.
     let active = (if tpActiveFlag p then 0x08 else 0);
         w = [push_bit 4 SHTPlain OR PDEMM, MsgTrackingAreaUpdateRequest,
              push_bit 4 (tpKSI p) OR active OR (tpUpdateType p AND 0x07)] in
     rbind (lib_LV L gutiID) (\<lambda>lv. Inr (w @ lv)))"

definition BuildTrackingAreaUpdateComplete :: "eps_enc_lib \<Rightarrow> bytes result" where
  "BuildTrackingAreaUpdateComplete L = lib_Marshal L TrackingAreaUpdateComplete"

definition DefaultUENetworkCapability :: bytes where
  "DefaultUENetworkCapability = [0xE0, 0xE0]"

record AttachRequestOverrides =
  aoUENetworkCapability :: "string option"
  aoOldPTMSISignature :: "string option"
  aoAdditionalGUTI :: "string option"
  aoLastVisitedRegisteredTAI :: "string option"
  aoDRXParameter :: "string option"
  aoMSNetworkCapability :: "string option"
  aoOldLocationAreaID :: "string option"
  aoTMSIStatus :: "u8 option"
  aoMobileStationClassmark2 :: "string option"
  aoMobileStationClassmark3 :: "string option"
  aoSupportedCodecs :: "string option"
  aoAdditionalUpdateType :: "u8 option"
  aoVoiceDomainPreference :: "string option"
  aoDeviceProperties :: "u8 option"
  aoOldGUTIType :: "u8 option"
  aoMSNetworkFeatureSupport :: "u8 option"
  aoTMSIBasedNRIContainer :: "string option"
  aoT3324Value :: "string option"
  aoT3412ExtendedValue :: "string option"
  aoExtendedDRXParameters :: "string option"
  aoUEAdditionalSecurityCapability :: "string option"
  aoUEStatus :: "string option"
  aoAdditionalInformationRequested :: "string option"
  aoN1UENetworkCapability :: "string option"
  aoUERadioCapabilityIDAvailability :: "string option"
  aoRequestedWUSAssistance :: "string option"
  aoDRXParameterNBS1Mode :: "string option"
  aoRequestedIMSIOffset :: "string option"

record AttachRequestParams =
  apIMSI :: string
  apGUTI :: "GUTIParams option"
  apAttachType :: u8
  apNASKeySetIdentifier :: u8
  apUENetworkCapability :: "bytes option"
  apESMContainer :: bytes
  apOverrides :: "AttachRequestOverrides option"

definition attach_hexIEs :: "AttachRequestOverrides \<Rightarrow> (string \<times> string option \<times> attach_ie) list" where
  "attach_hexIEs v = [
     (''ue_network_capability'', aoUENetworkCapability v, AI_UENetworkCapability),
     (''old_ptmsi_signature'', aoOldPTMSISignature v, AI_OldPTMSISignature),
     (''additional_guti'', aoAdditionalGUTI v, AI_AdditionalGUTI),
     (''last_visited_registered_tai'', aoLastVisitedRegisteredTAI v, AI_LastVisitedRegisteredTAI),
     (''drx_parameter'', aoDRXParameter v, AI_DRXParameter),
     (''ms_network_capability'', aoMSNetworkCapability v, AI_MSNetworkCapability),
     (''old_location_area_identification'', aoOldLocationAreaID v, AI_OldLocationAreaID),
     (''mobile_station_classmark_2'', aoMobileStationClassmark2 v, AI_MobileStationClassmark2),
     (''mobile_station_classmark_3'', aoMobileStationClassmark3 v, AI_MobileStationClassmark3),
     (''supported_codecs'', aoSupportedCodecs v, AI_SupportedCodecs),
     (''voice_domain_preference'', aoVoiceDomainPreference v, AI_VoiceDomainPreference),
     (''tmsi_based_nri_container'', aoTMSIBasedNRIContainer v, AI_TMSIBasedNRIContainer),
     (''t3324_value'', aoT3324Value v, AI_T3324Value),
     (''t3412_extended_value'', aoT3412ExtendedValue v, AI_T3412ExtendedValue),
     (''extended_drx_parameters'', aoExtendedDRXParameters v, AI_ExtendedDRXParameters),
     (''ue_additional_security_capability'', aoUEAdditionalSecurityCapability v, AI_UEAdditionalSecurityCapability),
     (''ue_status'', aoUEStatus v, AI_UEStatus),
     (''additional_information_requested'', aoAdditionalInformationRequested v, AI_AdditionalInformationRequested),
     (''n1_ue_network_capability'', aoN1UENetworkCapability v, AI_N1UENetworkCapability),
     (''ue_radio_capability_id_availability'', aoUERadioCapabilityIDAvailability v, AI_UERadioCapabilityIDAvailability),
     (''requested_wus_assistance_information'', aoRequestedWUSAssistance v, AI_RequestedWUSAssistance),
     (''drx_parameter_nb_s1_mode'', aoDRXParameterNBS1Mode v, AI_DRXParameterNBS1Mode),
     (''requested_imsi_offset'', aoRequestedIMSIOffset v, AI_RequestedIMSIOffset)]"

text \<open>\<open>applyHexOverride\<close>: the octets a source gives its field, if any.\<close>

definition applyHexOverride :: "string option \<Rightarrow> bytes option result" where
  "applyHexOverride hexStr = (case hexStr of None \<Rightarrow> Inr None
     | Some h \<Rightarrow> rbind (hex_decode h) (\<lambda>b. Inr (Some b)))"

fun apply_attach_ies :: "(string \<times> string option \<times> attach_ie) list \<Rightarrow> (attach_ie \<times> bytes) list result" where
  "apply_attach_ies [] = Inr []"
| "apply_attach_ies ((name, src, dst) # ies) =
     rbind (rwrap name (applyHexOverride src)) (\<lambda>v.
     rbind (apply_attach_ies ies) (\<lambda>rest.
       Inr ((case v of None \<Rightarrow> [] | Some b \<Rightarrow> [(dst, b)]) @ rest)))"

definition applyTV1Override :: "attach_ie \<Rightarrow> u8 option \<Rightarrow> (attach_ie \<times> u8) list" where
  "applyTV1Override dst src = (case src of None \<Rightarrow> [] | Some x \<Rightarrow> [(dst, x)])"

definition attach_half_octets :: "AttachRequestOverrides \<Rightarrow> (attach_ie \<times> u8) list" where
  "attach_half_octets v =
     applyTV1Override AI_TMSIStatus (aoTMSIStatus v) @ applyTV1Override AI_AdditionalUpdateType (aoAdditionalUpdateType v) @
     applyTV1Override AI_DeviceProperties (aoDeviceProperties v) @ applyTV1Override AI_OldGUTIType (aoOldGUTIType v) @
     applyTV1Override AI_MSNetworkFeatureSupport (aoMSNetworkFeatureSupport v)"

text \<open>\<open>eps.AttachTypeEPS\<close> of the library.  An overridden capability takes the place of the UE's.\<close>

definition AttachTypeEPS :: u8 where "AttachTypeEPS = 1"

definition BuildAttachRequest :: "eps_enc_lib \<Rightarrow> AttachRequestParams \<Rightarrow> bytes result" where
  "BuildAttachRequest L p =
     (let cap = (case apUENetworkCapability p of None \<Rightarrow> DefaultUENetworkCapability | Some c \<Rightarrow> c);
          attachType = (if apAttachType p = 0 then AttachTypeEPS else apAttachType p);
          ident = (case apGUTI p of None \<Rightarrow> IdentityIMSI (apIMSI p) | Some g \<Rightarrow> IdentityGUTI g);
          m = \<lparr> arType = attachType, arKSI = apNASKeySetIdentifier p, arIdentity = ident, arUENetworkCapability = cap,
                arESM = apESMContainer p, arOctets = [], arHalfOctets = [] \<rparr> in
      rbind (case apOverrides p of None \<Rightarrow> Inr m
        | Some v \<Rightarrow> rbind (apply_attach_ies (attach_hexIEs v)) (\<lambda>given.
            Inr (m\<lparr> arUENetworkCapability := (case map_of given AI_UENetworkCapability of None \<Rightarrow> cap | Some c \<Rightarrow> c),
                    arOctets := filter (\<lambda>x. fst x \<noteq> AI_UENetworkCapability) given,
                    arHalfOctets := attach_half_octets v \<rparr>))) (\<lambda>m.
      lib_Marshal L (AttachRequest m)))"

text \<open>The first digit of a mobile identity stands alone, with the parity of the digits and the type.\<close>

definition digit_octet :: "char \<Rightarrow> u8" where "digit_octet c = of_char c - 48"

definition first_identity_octet :: "string \<Rightarrow> u8 \<Rightarrow> u8" where
  "first_identity_octet s t = push_bit 4 (digit_octet (hd s)) OR push_bit 3 (of_nat (length s) AND 1) OR t"

definition BuildIdentityResponse_EPS :: "eps_enc_lib \<Rightarrow> string \<Rightarrow> bytes result" where
  "BuildIdentityResponse_EPS L imsi =
     (if imsi = [] \<or> \<not> is_digit (hd imsi) then Inl (Errorf ''naseps: invalid IMSI'')
      else rbind (lib_EncodeTBCD L (tl imsi)) (\<lambda>rest.
        lib_Marshal L (EPSIdentityResponse (first_identity_octet imsi 1 # rest))))"

definition BuildAuthenticationResponse_EPS :: "eps_enc_lib \<Rightarrow> bytes \<Rightarrow> bytes result" where
  "BuildAuthenticationResponse_EPS L res = lib_Marshal L (EPSAuthenticationResponse res)"

definition BuildAuthenticationFailure_EPS :: "eps_enc_lib \<Rightarrow> u8 \<Rightarrow> bytes \<Rightarrow> bytes result" where
  "BuildAuthenticationFailure_EPS L cause auts = lib_Marshal L (EPSAuthenticationFailure cause auts)"

definition imeisvMobileIdentity :: "eps_enc_lib \<Rightarrow> string \<Rightarrow> bytes result" where
  "imeisvMobileIdentity L imeisv =
     (if length imeisv \<noteq> 16 then Inl (Errorf ''naseps: IMEISV must be 16 digits'')
      else rbind (lib_EncodeTBCD L (tl imeisv)) (\<lambda>rest. Inr (first_identity_octet imeisv 3 # rest)))"

definition BuildSecurityModeComplete_EPS :: "eps_enc_lib \<Rightarrow> string \<Rightarrow> bytes result" where
  "BuildSecurityModeComplete_EPS L imeisv =
     rbind (if imeisv \<noteq> [] then imeisvMobileIdentity L imeisv else Inr []) (\<lambda>mobid.
       lib_Marshal L (EPSSecurityModeComplete mobid))"

definition BuildSecurityModeReject_EPS :: "eps_enc_lib \<Rightarrow> u8 \<Rightarrow> bytes result" where
  "BuildSecurityModeReject_EPS L cause = lib_Marshal L (EPSSecurityModeReject cause)"

definition BuildAttachComplete :: "eps_enc_lib \<Rightarrow> bytes \<Rightarrow> bytes result" where
  "BuildAttachComplete L esmContainer = lib_Marshal L (AttachComplete esmContainer)"

record ServiceRequestParams_EPS =
  spKSI :: u8
  spCount :: u32
  spKnasInt :: bytes
  spEIA :: u8

definition BuildServiceRequest_EPS :: "eps_enc_lib \<Rightarrow> ServiceRequestParams_EPS \<Rightarrow> bytes result" where
  "BuildServiceRequest_EPS L p =
     rbind (integrityFor (spEIA p)) (\<lambda>integ.
     let octet0 = push_bit 4 SHTServiceRequest OR PDEMM;
         octet1 = push_bit 5 (spKSI p) OR (ucast (spCount p) AND 0x1F) in
     rbind (lib_ShortMAC L [octet0, octet1] (spKnasInt p) (spCount p) DirUplink integ) (\<lambda>mac.
     rbind (at mac 0) (\<lambda>m0. rbind (at mac 1) (\<lambda>m1. Inr [octet0, octet1, m0, m1]))))"

definition BuildDetachRequest :: "eps_enc_lib \<Rightarrow> bool \<Rightarrow> u8 \<Rightarrow> GUTIParams \<Rightarrow> bytes result" where
  "BuildDetachRequest L switchOff ksi guti = lib_Marshal L (DetachRequestUE switchOff ksi (IdentityGUTI guti))"

section \<open>esm.go\<close>

definition PDNTypeIPv4 :: u8 where "PDNTypeIPv4 = 1"
definition msgBearerResourceAllocationRequest :: u8 where "msgBearerResourceAllocationRequest = 0xD4"
definition msgBearerResourceModificationRequest :: u8 where "msgBearerResourceModificationRequest = 0xD6"
definition bearerResourceLinkedEBIHalfOctet :: u8 where "bearerResourceLinkedEBIHalfOctet = 0x05"

fun split_dots :: "string \<Rightarrow> string list" where
  "split_dots [] = [[]]"
| "split_dots (c # s) = (if c = CHR ''.'' then [] # split_dots s
     else (case split_dots s of [] \<Rightarrow> [[c]] | l # ls \<Rightarrow> (c # l) # ls))"

definition apn_label :: "string \<Rightarrow> bytes" where
  "apn_label label = of_nat (length label) # map of_char label"

definition encodeAPN :: "string \<Rightarrow> bytes" where
  "encodeAPN apn = (if apn = [] then [] else concat (map apn_label (split_dots apn)))"

record PDNConnectivityParams =
  pcPTI :: u8
  pcEPSBearerIdentity :: u8
  pcPDNType :: u8
  pcAPN :: string

definition BuildPDNConnectivityRequestWith :: "eps_enc_lib \<Rightarrow> PDNConnectivityParams \<Rightarrow> bytes result" where
  "BuildPDNConnectivityRequestWith L p =
     (let pdnType = (if pcPDNType p = 0 then PDNTypeIPv4 else pcPDNType p)
      in lib_Marshal L (PDNConnectivityRequest (pcEPSBearerIdentity p) (pcPTI p) pdnType (encodeAPN (pcAPN p))))"

definition BuildPDNConnectivityRequest :: "eps_enc_lib \<Rightarrow> u8 \<Rightarrow> u8 \<Rightarrow> bytes result" where
  "BuildPDNConnectivityRequest L pti pdnType =
     BuildPDNConnectivityRequestWith L \<lparr> pcPTI = pti, pcEPSBearerIdentity = 0, pcPDNType = pdnType, pcAPN = [] \<rparr>"

definition BuildPDNDisconnectRequest :: "eps_enc_lib \<Rightarrow> u8 \<Rightarrow> u8 \<Rightarrow> bytes result" where
  "BuildPDNDisconnectRequest L pti linkedEBI = lib_Marshal L (PDNDisconnectRequest pti linkedEBI)"

definition BuildDeactivateEPSBearerContextAccept :: "eps_enc_lib \<Rightarrow> u8 \<Rightarrow> u8 \<Rightarrow> bytes result" where
  "BuildDeactivateEPSBearerContextAccept L ebi pti = lib_Marshal L (DeactivateEPSBearerContextAccept ebi pti)"

definition BuildModifyEPSBearerContextAccept :: "eps_enc_lib \<Rightarrow> u8 \<Rightarrow> u8 \<Rightarrow> bytes result" where
  "BuildModifyEPSBearerContextAccept L ebi pti = lib_Marshal L (ModifyEPSBearerContextAccept ebi pti)"

definition BuildESMStatus :: "eps_enc_lib \<Rightarrow> u8 \<Rightarrow> u8 \<Rightarrow> u8 \<Rightarrow> bytes result" where
  "BuildESMStatus L ebi pti cause = lib_Marshal L (ESMStatus ebi pti cause)"

definition BuildActivateDefaultEPSBearerContextAccept :: "eps_enc_lib \<Rightarrow> u8 \<Rightarrow> u8 \<Rightarrow> bytes result" where
  "BuildActivateDefaultEPSBearerContextAccept L ebi pti = lib_Marshal L (ActivateDefaultEPSBearerContextAccept ebi pti)"

definition BuildESMInformationResponse :: "eps_enc_lib \<Rightarrow> u8 \<Rightarrow> bytes result" where
  "BuildESMInformationResponse L pti = lib_Marshal L (ESMInformationResponse pti)"

definition bearerResourceTAD :: bytes where
  "bearerResourceTAD =
     (let tft = [0x21, 0x30, 0x00, 0x09, 0x10, 0, 0, 0, 0, 0, 0, 0, 0] in of_nat (length tft) # tft)"

definition requiredTrafficFlowQoS :: bytes where
  "requiredTrafficFlowQoS = [0x01, 9]"

definition BuildBearerResourceAllocationRequest :: "u8 \<Rightarrow> bytes result" where
  "BuildBearerResourceAllocationRequest pti =
     Inr ([PDESM, pti, msgBearerResourceAllocationRequest, bearerResourceLinkedEBIHalfOctet] @
       bearerResourceTAD @ requiredTrafficFlowQoS)"

definition BuildBearerResourceModificationRequest :: "u8 \<Rightarrow> bytes result" where
  "BuildBearerResourceModificationRequest pti =
     Inr ([PDESM, pti, msgBearerResourceModificationRequest, bearerResourceLinkedEBIHalfOctet] @ bearerResourceTAD)"

section \<open>What the builders write\<close>

text \<open>Access point names: labels without dots, joined by dots.\<close>

fun read_labels :: "bytes \<Rightarrow> bytes list option" where
  "read_labels [] = Some []"
| "read_labels (n # r) = (if unat n \<le> length r
     then map_option (\<lambda>ls. take (unat n) r # ls) (read_labels (drop (unat n) r)) else None)"

fun join_dots :: "string list \<Rightarrow> string" where
  "join_dots [] = []"
| "join_dots [l] = l"
| "join_dots (l # ls) = l @ CHR ''.'' # join_dots ls"

lemma split_dots_nonempty [simp]: "split_dots s \<noteq> []"
  by (induction s) (auto split: list.split)

lemma join_split_dots [simp]: "join_dots (split_dots s) = s"
proof (induction s)
  case (Cons c s)
  obtain l ls where "split_dots s = l # ls" by (cases "split_dots s") auto
  then show ?case using Cons by (cases ls) auto
qed simp

lemma split_dots_parts: "l \<in> set (split_dots s) \<Longrightarrow> CHR ''.'' \<notin> set l"
  by (induction s arbitrary: l) (auto split: list.splits if_splits)

lemma read_labels_apn:
  "\<forall>l \<in> set ls. length l < 256 \<Longrightarrow> read_labels (concat (map apn_label ls)) = Some (map (map of_char) ls)"
proof (induction ls)
  case (Cons l ls)
  then have "unat (of_nat (length l) :: u8) = length l" by (simp add: unat_of_nat take_bit_eq_mod)
  then show ?case using Cons by (simp add: apn_label_def)
qed simp

lemma char_of_octet [simp]: "char_of (unat (of_char c :: u8)) = c"
proof -
  have "(of_char c :: u8) = of_nat (of_char c)" by (simp only: of_nat_of_char)
  moreover have "(of_char c :: nat) < 256" by simp
  ultimately have "unat (of_char c :: u8) = of_char c" by (simp only: unat_of_nat) simp
  then show ?thesis by simp
qed



text \<open>A name with a label of 256 characters is sent with a length octet of zero.\<close>

lemma long_label_wraps: "hd (encodeAPN (replicate 256 (CHR ''a''))) = 0"
  by code_simp

text \<open>The octets of a GUTI as a network reads them.\<close>

definition read_guti_identity :: "bytes \<Rightarrow> (bytes \<times> u16 \<times> u8 \<times> u32) option" where
  "read_guti_identity b = (if length b = 11 \<and> b ! 0 = 0xF6
     then Some (take 3 (drop 1 b), be_word (take 2 (drop 4 b)), b ! 6, be_word (drop 7 b)) else None)"

lemma encodeGUTIIdentity_layout:
  assumes "lib_EncodePLMN L (gpMCC g) (gpMNC g) = Inr plmn" "length plmn = 3"
  shows "encodeGUTIIdentity L g = Inr (0xF6 # plmn @ be_bytes 2 (gpMMEGroupID g) @ gpMMECode g # be_bytes 4 (gpMTMSI g))"
proof -
  obtain a b c where p: "plmn = [a, b, c]"
    using assms(2) by (auto simp: length_Suc_conv numeral_3_eq_3)
  have "0xF0 OR 0x06 = (0xF6 :: u8)" by simp
  then show ?thesis
    by (simp add: encodeGUTIIdentity_def assms(1) p Let_def put_be_def be_bytes_16 be_bytes_32)
qed

lemma bit_u8_small:
  fixes x :: u8
  assumes "x < 2 ^ k" "bit x n" "k \<le> 8"
  shows "n < k"
proof -
  have "unat x < 2 ^ k"
  proof (cases "k = 8")
    case True
    then show ?thesis using unat_u8_less [of x] by simp
  next
    case False
    then have "(2 :: nat) ^ k < 2 ^ 8" using assms(3) by (intro power_strict_increasing) auto
    then have "unat (2 ^ k :: u8) = 2 ^ k" by (simp add: unat_of_nat [of "2 ^ k", where ?'a = 8, simplified] take_bit_eq_mod)
    then show ?thesis using assms(1) by (metis word_less_nat_alt)
  qed
  then have "take_bit k x = x" by (metis take_bit_nat_eq_self unsigned_take_bit_eq unsigned_word_eqI)
  then show ?thesis using assms(2) by (metis bit_take_bit_iff)
qed

text \<open>A tracking area update request as the network reads it: protocol and type, then key set,
  active flag and update type in one octet, then the old GUTI, octet by octet that of the request.\<close>

theorem tau_request_layout:
  assumes "lib_EncodePLMN L (gpMCC (tpGUTI p)) (gpMNC (tpGUTI p)) = Inr plmn" "length plmn = 3"
    and "\<And>b. length b = 11 \<Longrightarrow> lib_LV L b = Inr (11 # b)"
    and "tpKSI p < 8"
  shows "\<exists>t guti. BuildTrackingAreaUpdateRequest L p = Inr (7 # 0x48 # t # 11 # guti) \<and>
    drop_bit 4 t = tpKSI p \<and> (t AND 0x08 \<noteq> 0) = tpActiveFlag p \<and> t AND 0x07 = tpUpdateType p AND 0x07 \<and>
    read_guti_identity guti = Some (plmn, gpMMEGroupID (tpGUTI p), gpMMECode (tpGUTI p), gpMTMSI (tpGUTI p))"
proof -
  let ?a = "if tpActiveFlag p then 0x08 else (0 :: u8)"
  let ?t = "push_bit 4 (tpKSI p) OR ?a OR (tpUpdateType p AND 0x07)"
  have k: "n < 3" if "bit (tpKSI p) n" for n
    using bit_u8_small [of "tpKSI p" 3 n] that assms(4) by simp
  have a: "bit ?a n \<longleftrightarrow> tpActiveFlag p \<and> n = 3" for n
    using bit_exp_iff [where ?'a = "8 word", of 3 n] by auto
  have u: "bit (7 :: u8) n \<longleftrightarrow> n < 3" for n
    using bit_mask_iff [where ?'a = "8 word", of 3 n] by (auto simp: mask_eq_exp_minus_1)
  have e: "bit (8 :: u8) n \<longleftrightarrow> n = 3" for n
    using bit_exp_iff [where ?'a = "8 word", of 3 n] by auto
  let ?g = "tpGUTI p"
  let ?o = "0xF6 # plmn @ be_bytes 2 (gpMMEGroupID ?g) @ gpMMECode ?g # be_bytes 4 (gpMTMSI ?g)"
  have "BuildTrackingAreaUpdateRequest L p = Inr (7 # 0x48 # ?t # 11 # ?o)"
    using assms(2) by (simp add: BuildTrackingAreaUpdateRequest_def encodeGUTIIdentity_layout [OF assms(1,2)] assms(3)
        SHTPlain_def PDEMM_def MsgTrackingAreaUpdateRequest_def)
  moreover have "drop_bit 4 ?t = tpKSI p"
    by (rule bit_word_eqI) (auto simp: bit_drop_bit_eq bit_or_iff bit_push_bit_iff bit_and_iff a u simp del: if_split bit_numeral_word_iff dest: k)
  moreover have "?t AND 0x08 = ?a"
    by (rule bit_word_eqI) (auto simp: bit_or_iff bit_push_bit_iff bit_and_iff a u e simp del: if_split bit_numeral_word_iff)
  then have "(?t AND 0x08 \<noteq> 0) = tpActiveFlag p" by (simp split: if_splits)
  moreover have "?t AND 0x07 = tpUpdateType p AND 0x07"
    by (rule bit_word_eqI) (auto simp: bit_or_iff bit_push_bit_iff bit_and_iff a u simp del: if_split bit_numeral_word_iff)
  moreover have "read_guti_identity ?o = Some (plmn, gpMMEGroupID ?g, gpMMECode ?g, gpMTMSI ?g)"
  proof -
    obtain a b c where plmn: "plmn = [a, b, c]" using assms(2) by (auto simp: length_Suc_conv numeral_3_eq_3)
    show ?thesis by (simp add: read_guti_identity_def plmn nth_append)
  qed
  ultimately show ?thesis by blast
qed

text \<open>A service request is four octets: the header, three bits of key set and five of the COUNT,
  and two octets of the library's short MAC over the first two, under the full COUNT.\<close>

theorem service_request_layout:
  assumes "integrityFor (spEIA p) = Inr integ"
    and "\<And>b. \<exists>m0 m1. lib_ShortMAC L b (spKnasInt p) (spCount p) DirUplink integ = Inr [m0, m1]"
    and "spKSI p < 8"
  shows "\<exists>t m0 m1. BuildServiceRequest_EPS L p = Inr [0xC7, t, m0, m1] \<and>
    drop_bit 5 t = spKSI p \<and> uint (t AND 0x1F) = uint (spCount p) mod 32 \<and>
    lib_ShortMAC L [0xC7, t] (spKnasInt p) (spCount p) DirUplink integ = Inr [m0, m1]"
proof -
  let ?t = "push_bit 5 (spKSI p) OR (ucast (spCount p) AND 0x1F)"
  have k: "n < 3" if "bit (spKSI p) n" for n
    using bit_u8_small [of "spKSI p" 3 n] that assms(3) by simp
  obtain m0 m1 where m: "lib_ShortMAC L [0xC7, ?t] (spKnasInt p) (spCount p) DirUplink integ = Inr [m0, m1]"
    using assms(2) by blast
  then have "BuildServiceRequest_EPS L p = Inr [0xC7, ?t, m0, m1]"
    by (simp add: BuildServiceRequest_EPS_def assms(1) SHTServiceRequest_def PDEMM_def)
  moreover have f: "bit (0x1F :: u8) n \<longleftrightarrow> n < 5" for n
    using bit_mask_iff [where ?'a = "8 word", of 5 n] by (auto simp: mask_eq_exp_minus_1)
  have "drop_bit 5 ?t = spKSI p"
    by (rule bit_word_eqI) (auto simp: bit_drop_bit_eq bit_or_iff bit_push_bit_iff bit_and_iff f simp del: bit_numeral_word_iff dest: k)
  moreover have "?t AND 0x1F = take_bit 5 (ucast (spCount p))"
    by (rule bit_word_eqI) (auto simp: bit_or_iff bit_push_bit_iff bit_and_iff bit_take_bit_iff f simp del: bit_numeral_word_iff)
  then have "uint (?t AND 0x1F) = uint (spCount p) mod 32"
    by (simp add: unsigned_take_bit_eq unsigned_ucast_eq take_bit_take_bit) (simp add: take_bit_eq_mod)
  ultimately show ?thesis using m by blast
qed

section \<open>Concrete runs\<close>

definition sample_eps_enc :: eps_enc_lib where
  "sample_eps_enc = \<lparr> lib_EncodePLMN = (\<lambda>mcc mnc. Inr [0, 0xf1, 0x10]), lib_EncodeTBCD = (\<lambda>s. Inr (map of_char s)),
     lib_LV = (\<lambda>b. Inr (of_nat (length b) # b)), lib_Marshal = (\<lambda>m. Inr [7]),
     lib_ShortMAC = (\<lambda>b k c d i. Inr [1, 2]) \<rparr>"

definition sample_tau :: TrackingAreaUpdateRequestParams where
  "sample_tau = \<lparr> tpUpdateType = 0, tpActiveFlag = True, tpKSI = 3,
     tpGUTI = \<lparr> gpMCC = ''001'', gpMNC = ''01'', gpMMEGroupID = 1, gpMMECode = 2, gpMTMSI = 3 \<rparr> \<rparr>"

theorem tau_request_layout_witness:
  "\<exists>t guti. BuildTrackingAreaUpdateRequest sample_eps_enc sample_tau = Inr (7 # 0x48 # t # 11 # guti) \<and>
    drop_bit 4 t = tpKSI sample_tau \<and> (t AND 0x08 \<noteq> 0) = tpActiveFlag sample_tau \<and>
    t AND 0x07 = tpUpdateType sample_tau AND 0x07 \<and>
    read_guti_identity guti = Some ([0, 0xf1, 0x10], gpMMEGroupID (tpGUTI sample_tau), gpMMECode (tpGUTI sample_tau),
      gpMTMSI (tpGUTI sample_tau))"
  by (rule tau_request_layout) (simp_all add: sample_eps_enc_def sample_tau_def)

definition sample_service_request :: ServiceRequestParams_EPS where
  "sample_service_request = \<lparr> spKSI = 2, spCount = 0x123, spKnasInt = [], spEIA = 2 \<rparr>"

theorem service_request_layout_witness:
  "\<exists>t m0 m1. BuildServiceRequest_EPS sample_eps_enc sample_service_request = Inr [0xC7, t, m0, m1] \<and>
    drop_bit 5 t = spKSI sample_service_request \<and> uint (t AND 0x1F) = uint (spCount sample_service_request) mod 32 \<and>
    lib_ShortMAC sample_eps_enc [0xC7, t] (spKnasInt sample_service_request) (spCount sample_service_request) DirUplink
      AESCMACIntegrity = Inr [m0, m1]"
  by (rule service_request_layout)
     (simp_all add: sample_eps_enc_def sample_service_request_def integrityFor_def)

end
