(* ===== verification/Handler_Monad.thy ===== *)
theory Handler_Monad
  imports Prelude
begin

text \<open>
  Handlers as state transformers with early return: a handler takes a state and yields a
  result, which is an error (the \<open>writeError\<close> or \<open>return err\<close> of the code, or a panic) or a
  value, together with the state it leaves, in both cases.  Nothing here is specific to the
  program; \<open>hand_simps\<close> evaluates a handler step by step.

  The locale \<open>state_rel\<close> is the frame rule: a reflexive and transitive relation between states
  that every primitive step obeys is obeyed by any handler built from them.
\<close>

type_synonym ('s, 'a) hand = "'s \<Rightarrow> 'a result \<times> 's"

named_theorems hand_simps "evaluation of handlers"

definition hret :: "'a \<Rightarrow> ('s, 'a) hand" where "hret x s = (Inr x, s)"
definition hfail :: "error \<Rightarrow> ('s, 'a) hand" where "hfail e s = (Inl e, s)"
definition hget :: "('s \<Rightarrow> 'a) \<Rightarrow> ('s, 'a) hand" where "hget f s = (Inr (f s), s)"
definition hmod :: "('s \<Rightarrow> 's) \<Rightarrow> ('s, unit) hand" where "hmod f s = (Inr (), f s)"
definition hlift :: "'a result \<Rightarrow> ('s, 'a) hand" where "hlift r s = (r, s)"

definition hbind :: "('s, 'a) hand \<Rightarrow> ('a \<Rightarrow> ('s, 'b) hand) \<Rightarrow> ('s, 'b) hand" where
  "hbind m f s = (case m s of (Inl e, s') \<Rightarrow> (Inl e, s') | (Inr x, s') \<Rightarrow> f x s')"

text \<open>\<open>hreq b e\<close>: go on only if \<open>b\<close> holds.\<close>

definition hreq :: "bool \<Rightarrow> error \<Rightarrow> ('s, unit) hand" where
  "hreq b e = (if b then hret () else hfail e)"

text \<open>\<open>if r, err := m(); err != nil\<close>: the error becomes a value, a panic does not.\<close>

definition htry :: "('s, 'a) hand \<Rightarrow> ('s, 'a result) hand" where
  "htry m s = (case m s of
      (Inl (Panic p), s') \<Rightarrow> (Inl (Panic p), s')
    | (Inl e, s') \<Rightarrow> (Inr (Inl e), s')
    | (Inr x, s') \<Rightarrow> (Inr (Inr x), s'))"

definition on_error :: "('s, 'a) hand \<Rightarrow> (error \<Rightarrow> ('s, 'a) hand) \<Rightarrow> ('s, 'a) hand" where
  "on_error m h = hbind (htry m) (\<lambda>r. case r of Inl e \<Rightarrow> h e | Inr x \<Rightarrow> hret x)"

text \<open>A handler of a component of the state.\<close>

definition hzoom :: "('s \<Rightarrow> 't) \<Rightarrow> ('t \<Rightarrow> 's \<Rightarrow> 's) \<Rightarrow> ('t, 'a) hand \<Rightarrow> ('s, 'a) hand" where
  "hzoom get put m s = (case m (get s) of (r, t) \<Rightarrow> (r, put t s))"

lemma hand_basic [hand_simps]:
  "hret x s = (Inr x, s)" "hfail e s = (Inl e, s)" "hget f s = (Inr (f s), s)"
  "hmod g s = (Inr (), g s)" "hlift r s = (r, s)"
  "hreq True e s = (Inr (), s)" "hreq False e s = (Inl e, s)"
  by (simp_all add: hret_def hfail_def hget_def hmod_def hlift_def hreq_def)

lemma hbind_simps [hand_simps]:
  "hbind (hret x) f s = f x s" "hbind (hfail e) f1 s = (Inl e, s)" "hbind (hget g) f2 s = f2 (g s) s"
  "hbind (hmod h) f3 s = f3 () (h s)" "hbind (hlift (Inr y)) f4 s = f4 y s" "hbind (hlift (Inl e)) f5 s = (Inl e, s)"
  "hbind (hreq True e) f6 s = f6 () s" "hbind (hreq False e) f7 s = (Inl e, s)"
  by (simp_all add: hbind_def hand_basic)

lemma hbind_app [hand_simps]:
  "hbind (hbind m f) g s = hbind m (\<lambda>x. hbind (f x) g) s"
  by (simp add: hbind_def split: prod.split sum.split)

lemma hbind_eq_Inr: "hbind m f s = (Inr y, s') \<longleftrightarrow> (\<exists>x s1. m s = (Inr x, s1) \<and> f x s1 = (Inr y, s'))"
  by (auto simp: hbind_def split: prod.splits sum.splits)

lemma hbind_eq_Inl:
  "hbind m f s = (Inl e, s') \<longleftrightarrow> m s = (Inl e, s') \<or> (\<exists>x s1. m s = (Inr x, s1) \<and> f x s1 = (Inl e, s'))"
  by (auto simp: hbind_def split: prod.splits sum.splits)

lemma hreq_eq [hand_simps]:
  "hreq b e s = (if b then (Inr (), s) else (Inl e, s))"
  "hbind (hreq b e) f s = (if b then f () s else (Inl e, s))"
  by (simp_all add: hreq_def hand_basic hbind_def)

lemma hbind_step: "m s = (Inr x, s') \<Longrightarrow> hbind m f s = f x s'"
  by (simp add: hbind_def)

lemma hbind_stop: "m s = (Inl e, s') \<Longrightarrow> hbind m f s = (Inl e, s')"
  by (simp add: hbind_def)

lemma htry_snd [simp]: "snd (htry m s) = snd (m s)"
  by (auto simp: htry_def split: prod.splits sum.splits error.splits)

section \<open>Frame rule\<close>

locale state_rel =
  fixes rel :: "'s \<Rightarrow> 's \<Rightarrow> bool"
  assumes rel_refl: "rel s s"
    and rel_trans: "rel s t \<Longrightarrow> rel t u \<Longrightarrow> rel s u"
begin

definition obeys :: "('s, 'a) hand \<Rightarrow> bool" where
  "obeys m = (\<forall>s. rel s (snd (m s)))"

lemma obeysD: "obeys m \<Longrightarrow> m s = (r, s') \<Longrightarrow> rel s s'"
  by (metis obeys_def snd_conv)

lemma obeysI: "(\<And>s. rel s (snd (m s))) \<Longrightarrow> obeys m"
  by (simp add: obeys_def)

lemma pure: "obeys (hret x)" "obeys (hfail e)" "obeys (hget f)" "obeys (hlift r)" "obeys (hreq b e)"
  by (simp_all add: obeys_def hand_basic rel_refl hreq_def)

lemma modify: "(\<And>s. rel s (f s)) \<Longrightarrow> obeys (hmod f)"
  by (simp add: obeys_def hand_basic)

lemma sequence: "obeys m \<Longrightarrow> (\<And>x. obeys (f x)) \<Longrightarrow> obeys (hbind m f)"
proof (rule obeysI)
  fix s
  assume m: "obeys m" and f: "\<And>x. obeys (f x)"
  obtain r s1 where s1: "m s = (r, s1)" by fastforce
  show "rel s (snd (hbind m f s))"
  proof (cases r)
    case (Inl e)
    then show ?thesis using s1 obeysD [OF m s1] by (simp add: hbind_stop)
  next
    case (Inr x)
    have "rel s1 (snd (f x s1))" using f by (simp add: obeys_def)
    then show ?thesis using s1 Inr rel_trans [OF obeysD [OF m s1]] by (simp add: hbind_step)
  qed
qed

lemma attempt: "obeys m \<Longrightarrow> obeys (htry m)"
  by (simp add: obeys_def)

lemma recover: "obeys m \<Longrightarrow> (\<And>e. obeys (h e)) \<Longrightarrow> obeys (on_error m h)"
  unfolding on_error_def by (intro sequence attempt) (auto simp: pure split: sum.split)

lemma choice: "(b \<Longrightarrow> obeys m) \<Longrightarrow> (\<not> b \<Longrightarrow> obeys n) \<Longrightarrow> obeys (if b then m else n)"
  by simp

lemma option_choice: "obeys m \<Longrightarrow> (\<And>x. obeys (f x)) \<Longrightarrow> obeys (case v of None \<Rightarrow> m | Some x \<Rightarrow> f x)"
  by (simp split: option.split)

lemma sum_choice: "(\<And>e. obeys (h e)) \<Longrightarrow> (\<And>x. obeys (f x)) \<Longrightarrow> obeys (case v of Inl e \<Rightarrow> h e | Inr x \<Rightarrow> f x)"
  by (simp split: sum.split)

lemma pair_choice: "(\<And>x y. obeys (f x y)) \<Longrightarrow> obeys (case v of (x, y) \<Rightarrow> f x y)"
  by (simp split: prod.split)

lemma let_choice: "(\<And>x. obeys (f x)) \<Longrightarrow> obeys (let x = v in f x)"
  by simp

lemmas rules = pure sequence attempt recover option_choice sum_choice pair_choice let_choice

end

end
