(* ===== verification/Api_World.thy ===== *)
theory Api_World
  imports Api_Requests Api_Security Nas5gs_Encode Naseps_Encode Ngap_Decode S1ap_Decode Gtpu_Endpoint Gtpu_IP Handler_Monad
begin

text \<open>
  The state of the HTTP server: \<open>Handler\<close> of \<open>internal/api/gnb_handlers.go\<close>, what its handlers
  share, and the two dialling functions of \<open>internal/transport\<close>.

  A \<open>world\<close> is the handler struct with the objects its maps point to, and the network as a script
  of events per association.  Requests are served one at a time: a handler is a function from the
  decoded body (an error when the JSON does not decode) and the path values to the status and body
  of the answer.  \<open>writeError\<close> is the error \<open>HTTPErr\<close>; a panic ends the request where it stands,
  as the recovery of \<open>net/http\<close> has it.  The state keeps two logs that the code has not:
  \<open>wDropped\<close>, the associations taken out of a map or overwritten in it, with whether they had
  been closed, and \<open>wWaits\<close>, the duration given to each wait.
\<close>

datatype link = N2 string | S1 string | N3 string

record world =
  wStore :: Store
  wTransports :: "string \<rightharpoonup> NGAPResponse framed"
  wGTPU :: "string \<rightharpoonup> Endpoint"
  wS1APTransports :: "string \<rightharpoonup> S1APResponse framed"
  wEvents :: "link \<Rightarrow> net_event list"
  wDropped :: "(link \<times> bool) list"
  wWaits :: "(link \<times> 64 word) list"

definition NewHandler :: "Store \<Rightarrow> (link \<Rightarrow> net_event list) \<Rightarrow> world" where
  "NewHandler s evs = \<lparr> wStore = s, wTransports = Map.empty, wGTPU = Map.empty,
     wS1APTransports = Map.empty, wEvents = evs, wDropped = [], wWaits = [] \<rparr>"

text \<open>What is not in the repository: codecs, cryptography, and the outcome of the system calls
  during the request at hand.\<close>

record ('priv, 'pub) api_env =
  envNGAP :: ngap_lib
  envS1Enc :: s1_enc_lib
  envS1Dec :: s1_dec_lib
  envNAS5 :: nas5_lib
  envEPS :: eps_lib
  envNAS5Enc :: nas5_enc_lib
  envEPSEnc :: eps_enc_lib
  envAKA :: aka_lib
  envSuci :: "('priv, 'pub) suci_crypto"
  envKeys :: "'pub key_lib"
  envResolve :: "string \<Rightarrow> unit result"
  envDial :: "string \<Rightarrow> string \<Rightarrow> unit result"
  envSubscribe :: "unit result"
  envWrite :: "bytes \<Rightarrow> u16 \<Rightarrow> u32 \<Rightarrow> unit result"
  envClose :: "unit result"
  envListenUDP :: "string \<Rightarrow> bytes result"
  envWriteUDP :: "string \<Rightarrow> bytes \<Rightarrow> unit result"

type_synonym 'a handler = "(world, nat \<times> 'a) hand"

section \<open>Transports\<close>

text \<open>\<open>ngap.PPID\<close> is the library's constant, 60 in network byte order.\<close>

definition ngapPPID :: u32 where "ngapPPID = 0x3c000000"
definition s1apPPID :: u32 where "s1apPPID = push_bit 24 18"

definition DialNGAP :: "('priv, 'pub) api_env \<Rightarrow> string \<Rightarrow> string \<Rightarrow> NGAPResponse framed result" where
  "DialNGAP E localAddr remoteAddr =
     dialFramed (envResolve E) (envDial E) (envSubscribe E) localAddr remoteAddr ngapPPID
       (Decode_NGAP (envNGAP E)) nr_MessageType"

definition DialS1AP :: "('priv, 'pub) api_env \<Rightarrow> string \<Rightarrow> string \<Rightarrow> S1APResponse framed result" where
  "DialS1AP E localAddr remoteAddr =
     dialFramed (envResolve E) (envDial E) (envSubscribe E) localAddr remoteAddr s1apPPID
       (Decode_S1AP (envS1Dec E)) sr_MessageType"

section \<open>Errors and bodies\<close>

text \<open>\<open>writeError(w, n, m)\<close> when \<open>r\<close> is an error.\<close>

definition http_error :: "nat \<Rightarrow> string \<Rightarrow> 'a result \<Rightarrow> 'a result" where
  "http_error n m r = (case r of Inl (Panic p) \<Rightarrow> Inl (Panic p) | Inl e \<Rightarrow> Inl (HTTPErr n m) | Inr x \<Rightarrow> Inr x)"

definition or_http :: "nat \<Rightarrow> string \<Rightarrow> ('s, 'a) hand \<Rightarrow> ('s, 'a) hand" where
  "or_http n m h = (\<lambda>s. case h s of (r, s') \<Rightarrow> (http_error n m r, s'))"

definition parse_body :: "'r result \<Rightarrow> ('s, 'r) hand" where
  "parse_body body = hlift (http_error 400 ''invalid request body'' body)"

text \<open>\<open>x, ok := m[k]; if !ok\<close>.\<close>

definition the_or :: "nat \<Rightarrow> string \<Rightarrow> 'a option \<Rightarrow> ('s, 'a) hand" where
  "the_or n m v = hlift (case v of None \<Rightarrow> Inl (HTTPErr n m) | Some x \<Rightarrow> Inr x)"

definition nil_deref :: "'a result" where
  "nil_deref = Inl (Panic ''nil pointer dereference'')"

section \<open>Objects behind the maps\<close>

definition find_gnb :: "string \<Rightarrow> (world, GNBContext) hand" where
  "find_gnb k = (\<lambda>w. (http_error 404 ''gnb not found'' (GetGNB k (wStore w)), w))"

definition find_enb :: "string \<Rightarrow> (world, ENBContext) hand" where
  "find_enb k = (\<lambda>w. (http_error 404 ''enb not found'' (GetENB k (wStore w)), w))"

definition on_store :: "(Store \<Rightarrow> Store) \<Rightarrow> (world, unit) hand" where
  "on_store f = hmod (\<lambda>w. w\<lparr> wStore := f (wStore w) \<rparr>)"

text \<open>An operation through a pointer to a UE of a gNB or an eNB, which sees and changes the
  object in the store.\<close>

definition set_ue :: "string \<Rightarrow> UEContext \<Rightarrow> GNBContext \<Rightarrow> GNBContext" where
  "set_ue u x g = g\<lparr> gues := (gues g)(u \<mapsto> x) \<rparr>"

definition set_ue_EPS :: "string \<Rightarrow> UEEPSContext \<Rightarrow> ENBContext \<Rightarrow> ENBContext" where
  "set_ue_EPS u x e = e\<lparr> eues := (eues e)(u \<mapsto> x) \<rparr>"

definition gnb_ue :: "string \<Rightarrow> string \<Rightarrow> world \<Rightarrow> UEContext option" where
  "gnb_ue k u w = Option.bind (gnbs (wStore w) k) (\<lambda>g. gues g u)"

definition enb_ue :: "string \<Rightarrow> string \<Rightarrow> world \<Rightarrow> UEEPSContext option" where
  "enb_ue k u w = Option.bind (enbs (wStore w) k) (\<lambda>e. eues e u)"

definition ue_op :: "string \<Rightarrow> string \<Rightarrow> (UEContext, 'a) hand \<Rightarrow> (world, 'a) hand" where
  "ue_op k u f = (\<lambda>w. case gnb_ue k u w of None \<Rightarrow> (nil_deref, w)
     | Some x \<Rightarrow> (case f x of (r, x') \<Rightarrow> (r, w\<lparr> wStore := update_gnb k (set_ue u x') (wStore w) \<rparr>)))"

definition ue_op_EPS :: "string \<Rightarrow> string \<Rightarrow> (UEEPSContext, 'a) hand \<Rightarrow> (world, 'a) hand" where
  "ue_op_EPS k u f = (\<lambda>w. case enb_ue k u w of None \<Rightarrow> (nil_deref, w)
     | Some x \<Rightarrow> (case f x of (r, x') \<Rightarrow> (r, w\<lparr> wStore := update_enb k (set_ue_EPS u x') (wStore w) \<rparr>)))"

section \<open>Associations\<close>

text \<open>A wait whose duration is not positive has an expired context from the start: it sees what
  is queued and nothing more.\<close>

definition timed ::
  "64 word \<Rightarrow> (net_event list \<Rightarrow> 'b \<Rightarrow> 'm result \<times> 'b \<times> net_event list) \<Rightarrow> net_event list \<Rightarrow> 'b
    \<Rightarrow> 'm result \<times> 'b \<times> net_event list" where
  "timed d wait evs b = (if 0 < sint d then wait evs b
     else case wait [] b of (r, b', _) \<Rightarrow> (r, b', evs))"

definition n2_send :: "('priv, 'pub) api_env \<Rightarrow> string \<Rightarrow> bytes \<Rightarrow> bool \<Rightarrow> (world, unit) hand" where
  "n2_send E k data nonUE = (\<lambda>w. case wTransports w k of None \<Rightarrow> (nil_deref, w)
     | Some t \<Rightarrow> (case Send (envWrite E) data nonUE t of (r, t') \<Rightarrow>
         (r, w\<lparr> wTransports := (wTransports w)(k \<mapsto> t') \<rparr>)))"

definition n2_wait ::
  "string \<Rightarrow> (NGAPResponse \<Rightarrow> bool) option \<Rightarrow> 64 word \<Rightarrow> string list \<Rightarrow> (world, NGAPResponse) hand" where
  "n2_wait k match d types = (\<lambda>w. case wTransports w k of None \<Rightarrow> (nil_deref, w)
     | Some t \<Rightarrow> (case timed d (WaitForMessageMatching match types) (wEvents w (N2 k)) t of (r, t', evs) \<Rightarrow>
         (r, w\<lparr> wTransports := (wTransports w)(k \<mapsto> t'), wEvents := (wEvents w)(N2 k := evs),
                wWaits := wWaits w @ [(N2 k, d)] \<rparr>)))"

definition s1_send :: "('priv, 'pub) api_env \<Rightarrow> string \<Rightarrow> bytes \<Rightarrow> bool \<Rightarrow> (world, unit) hand" where
  "s1_send E k data nonUE = (\<lambda>w. case wS1APTransports w k of None \<Rightarrow> (nil_deref, w)
     | Some t \<Rightarrow> (case Send (envWrite E) data nonUE t of (r, t') \<Rightarrow>
         (r, w\<lparr> wS1APTransports := (wS1APTransports w)(k \<mapsto> t') \<rparr>)))"

definition s1_wait ::
  "string \<Rightarrow> (S1APResponse \<Rightarrow> bool) option \<Rightarrow> 64 word \<Rightarrow> string list \<Rightarrow> (world, S1APResponse) hand" where
  "s1_wait k match d types = (\<lambda>w. case wS1APTransports w k of None \<Rightarrow> (nil_deref, w)
     | Some t \<Rightarrow> (case timed d (WaitForMessageMatching match types) (wEvents w (S1 k)) t of (r, t', evs) \<Rightarrow>
         (r, w\<lparr> wS1APTransports := (wS1APTransports w)(k \<mapsto> t'), wEvents := (wEvents w)(S1 k := evs),
                wWaits := wWaits w @ [(S1 k, d)] \<rparr>)))"

definition n3_do :: "string \<Rightarrow> (Endpoint, 'a) hand \<Rightarrow> (world, 'a) hand" where
  "n3_do k f = (\<lambda>w. case wGTPU w k of None \<Rightarrow> (nil_deref, w)
     | Some e \<Rightarrow> (case f e of (r, e') \<Rightarrow> (r, w\<lparr> wGTPU := (wGTPU w)(k \<mapsto> e') \<rparr>)))"

definition n3_wait ::
  "string \<Rightarrow> 64 word \<Rightarrow> (net_event list \<Rightarrow> Endpoint \<Rightarrow> Message result \<times> Endpoint \<times> net_event list)
    \<Rightarrow> (world, Message) hand" where
  "n3_wait k d wait = (\<lambda>w. case wGTPU w k of None \<Rightarrow> (nil_deref, w)
     | Some e \<Rightarrow> (case timed d wait (wEvents w (N3 k)) e of (r, e', evs) \<Rightarrow>
         (r, w\<lparr> wGTPU := (wGTPU w)(k \<mapsto> e'), wEvents := (wEvents w)(N3 k := evs),
                wWaits := wWaits w @ [(N3 k, d)] \<rparr>)))"

text \<open>\<open>m[k] = x\<close> and \<open>delete(m, k)\<close>, logging the entry that goes; and \<open>Close\<close> through a map.\<close>

definition put_n2 :: "string \<Rightarrow> NGAPResponse framed option \<Rightarrow> world \<Rightarrow> world" where
  "put_n2 k v w = w\<lparr> wTransports := (wTransports w)(k := v), wDropped := wDropped w @
     (case wTransports w k of None \<Rightarrow> [] | Some t \<Rightarrow> [(N2 k, closed t)]) \<rparr>"

definition put_s1 :: "string \<Rightarrow> S1APResponse framed option \<Rightarrow> world \<Rightarrow> world" where
  "put_s1 k v w = w\<lparr> wS1APTransports := (wS1APTransports w)(k := v), wDropped := wDropped w @
     (case wS1APTransports w k of None \<Rightarrow> [] | Some t \<Rightarrow> [(S1 k, closed t)]) \<rparr>"

definition put_n3 :: "string \<Rightarrow> Endpoint option \<Rightarrow> world \<Rightarrow> world" where
  "put_n3 k v w = w\<lparr> wGTPU := (wGTPU w)(k := v), wDropped := wDropped w @
     (case wGTPU w k of None \<Rightarrow> [] | Some e \<Rightarrow> [(N3 k, ep_closed e)]) \<rparr>"

definition close_n2 :: "('priv, 'pub) api_env \<Rightarrow> string \<Rightarrow> world \<Rightarrow> world" where
  "close_n2 E k w = w\<lparr> wTransports := (wTransports w)(k := map_option (\<lambda>t. snd (Close (envClose E) t)) (wTransports w k)) \<rparr>"

definition close_s1 :: "('priv, 'pub) api_env \<Rightarrow> string \<Rightarrow> world \<Rightarrow> world" where
  "close_s1 E k w = w\<lparr> wS1APTransports := (wS1APTransports w)(k := map_option (\<lambda>t. snd (Close (envClose E) t)) (wS1APTransports w k)) \<rparr>"

definition close_n3 :: "('priv, 'pub) api_env \<Rightarrow> string \<Rightarrow> world \<Rightarrow> world" where
  "close_n3 E k w = w\<lparr> wGTPU := (wGTPU w)(k := map_option (\<lambda>e. snd (CloseEndpoint (envClose E) e)) (wGTPU w k)) \<rparr>"

section \<open>What a request for one gNB or eNB can change\<close>

lemma http_error_simps [hand_simps]:
  "http_error n m (Inr x) = Inr x" "http_error n m (Inl (Errorf s)) = Inl (HTTPErr n m)"
  "http_error n m (Inl (Wrapf s e)) = Inl (HTTPErr n m)" "http_error n m (Inl (HTTPErr i s)) = Inl (HTTPErr n m)"
  "http_error n m (Inl (Sentinel s)) = Inl (HTTPErr n m)" "http_error n m (Inl (Panic p)) = Inl (Panic p)"
  by (simp_all add: http_error_def)

lemma http_error_Inr [simp]: "http_error n m r = Inr x \<longleftrightarrow> r = Inr x"
  by (auto simp: http_error_def split: sum.splits error.splits)

definition same_link :: "'m framed \<Rightarrow> 'm framed \<Rightarrow> bool" where
  "same_link t t' = (closed t' = closed t \<and> ppid t' = ppid t \<and> key t' = key t \<and> decode t' = decode t)"

definition same_endpoint :: "Endpoint \<Rightarrow> Endpoint \<Rightarrow> bool" where
  "same_endpoint e e' = (ep_closed e' = ep_closed e \<and> ep_local e' = ep_local e)"

text \<open>The types of the code that a list or a map of the model does not carry: a NAS key is a \<open>[16]byte\<close>, and a
  session or a bearer is filed under its own identity.\<close>

definition well_typed :: "bytes \<Rightarrow> bytes \<Rightarrow> ('s \<Rightarrow> u8) \<Rightarrow> (u8 \<rightharpoonup> 's) \<Rightarrow> bool" where
  "well_typed enc integ ident m = (length enc = 16 \<and> length integ = 16 \<and> (\<forall>i x. m i = Some x \<longrightarrow> ident x = i))"

abbreviation ue_typed :: "UEContext \<Rightarrow> bool" where
  "ue_typed x \<equiv> well_typed (uKnasEnc x) (uKnasInt x) psPDUSessionID (uPDUSessions x)"

abbreviation ue_typed_EPS :: "UEEPSContext \<Rightarrow> bool" where
  "ue_typed_EPS x \<equiv> well_typed (vKnasEnc x) (vKnasInt x) ebEBI (vBearers x)"

lemma well_typed_step:
  "well_typed a b f m \<Longrightarrow> length a' = 16 \<Longrightarrow> length b' = 16 \<Longrightarrow> well_typed a' b' f m"
  "well_typed a b f m \<Longrightarrow> f x = i \<Longrightarrow> well_typed a b f (m(i \<mapsto> x))"
  "well_typed a b f m \<Longrightarrow> well_typed a b f (m(i := None))"
  by (auto simp: well_typed_def)

text \<open>What the messages of a UE never change: who it is and the credentials it has, and that it is well typed.\<close>

definition same_subscriber :: "UEContext \<Rightarrow> UEContext \<Rightarrow> bool" where
  "same_subscriber x y = (uID y = uID x \<and> uSUPI y = uSUPI x \<and> uMsin y = uMsin x \<and> uMCC y = uMCC x \<and>
     uMNC y = uMNC x \<and> uK y = uK x \<and> uOPc y = uOPc x \<and> uSuci y = uSuci x \<and> uSuciString y = uSuciString x \<and>
     (ue_typed x \<longrightarrow> ue_typed y))"

definition same_subscriber_EPS :: "UEEPSContext \<Rightarrow> UEEPSContext \<Rightarrow> bool" where
  "same_subscriber_EPS x y = (vID y = vID x \<and> vIMSI y = vIMSI x \<and> vK y = vK x \<and> vOPc y = vOPc x \<and>
     (ue_typed_EPS x \<longrightarrow> ue_typed_EPS y))"

text \<open>What a request of UE \<open>u\<close> can change of its node: that UE, and the counter of identifiers.\<close>

definition gnb_change :: "string \<Rightarrow> GNBContext \<Rightarrow> GNBContext \<Rightarrow> bool" where
  "gnb_change u g g' = (g'\<lparr> gues := gues g, gnextRanUeID := gnextRanUeID g \<rparr> = g \<and> (\<forall>j. j \<noteq> u \<longrightarrow> gues g' j = gues g j) \<and>
     rel_option same_subscriber (gues g u) (gues g' u))"

definition enb_change :: "string \<Rightarrow> ENBContext \<Rightarrow> ENBContext \<Rightarrow> bool" where
  "enb_change u e e' = (e'\<lparr> eues := eues e, enextENBUEID := enextENBUEID e \<rparr> = e \<and> (\<forall>j. j \<noteq> u \<longrightarrow> eues e' j = eues e j) \<and>
     rel_option same_subscriber_EPS (eues e u) (eues e' u))"

definition elsewhere :: "string \<Rightarrow> (string \<Rightarrow> 'a) \<Rightarrow> (string \<Rightarrow> 'a) \<Rightarrow> bool" where
  "elsewhere k m m' = (\<forall>j. j \<noteq> k \<longrightarrow> m' j = m j)"

definition gnb_frame :: "string \<Rightarrow> string \<Rightarrow> world \<Rightarrow> world \<Rightarrow> bool" where
  "gnb_frame k u w w' =
     (elsewhere k (gnbs (wStore w)) (gnbs (wStore w')) \<and> rel_option (gnb_change u) (gnbs (wStore w) k) (gnbs (wStore w') k) \<and>
      enbs (wStore w') = enbs (wStore w) \<and> nextID (wStore w') = nextID (wStore w) \<and>
      elsewhere k (wTransports w) (wTransports w') \<and> rel_option same_link (wTransports w k) (wTransports w' k) \<and>
      elsewhere k (wGTPU w) (wGTPU w') \<and> rel_option same_endpoint (wGTPU w k) (wGTPU w' k) \<and>
      wS1APTransports w' = wS1APTransports w \<and> wDropped w' = wDropped w \<and>
      (\<forall>l. l \<noteq> N2 k \<longrightarrow> l \<noteq> N3 k \<longrightarrow> wEvents w' l = wEvents w l))"

definition enb_frame :: "string \<Rightarrow> string \<Rightarrow> world \<Rightarrow> world \<Rightarrow> bool" where
  "enb_frame k u w w' =
     (elsewhere k (enbs (wStore w)) (enbs (wStore w')) \<and> rel_option (enb_change u) (enbs (wStore w) k) (enbs (wStore w') k) \<and>
      gnbs (wStore w') = gnbs (wStore w) \<and> nextID (wStore w') = nextID (wStore w) \<and>
      elsewhere k (wS1APTransports w) (wS1APTransports w') \<and>
      rel_option same_link (wS1APTransports w k) (wS1APTransports w' k) \<and>
      elsewhere k (wGTPU w) (wGTPU w') \<and> rel_option same_endpoint (wGTPU w k) (wGTPU w' k) \<and>
      wTransports w' = wTransports w \<and> wDropped w' = wDropped w \<and>
      (\<forall>l. l \<noteq> S1 k \<longrightarrow> l \<noteq> N3 k \<longrightarrow> wEvents w' l = wEvents w l))"

lemma rel_option_trans:
  "(\<And>x y z. R x y \<Longrightarrow> R y z \<Longrightarrow> R x z) \<Longrightarrow> rel_option R a b \<Longrightarrow> rel_option R b c \<Longrightarrow> rel_option R a c"
  by (auto simp: option_rel_Some1 option_rel_Some2 elim!: option.rel_cases)

lemma elsewhere_refl [simp]: "elsewhere k m m" "elsewhere k m (m(k := x))"
  by (simp_all add: elsewhere_def)

lemma elsewhere_trans: "elsewhere k a b \<Longrightarrow> elsewhere k b c \<Longrightarrow> elsewhere k a c"
  by (simp add: elsewhere_def)

lemma same_refl [simp]: "same_link t t" "same_endpoint e e" "same_subscriber x x" "same_subscriber_EPS v v"
  by (simp_all add: same_link_def same_endpoint_def same_subscriber_def same_subscriber_EPS_def)

lemma same_trans:
  "same_link t t' \<Longrightarrow> same_link t' t'' \<Longrightarrow> same_link t t''"
  "same_endpoint e e' \<Longrightarrow> same_endpoint e' e'' \<Longrightarrow> same_endpoint e e''"
  "same_subscriber x x' \<Longrightarrow> same_subscriber x' x'' \<Longrightarrow> same_subscriber x x''"
  "same_subscriber_EPS v v' \<Longrightarrow> same_subscriber_EPS v' v'' \<Longrightarrow> same_subscriber_EPS v v''"
  by (simp_all add: same_link_def same_endpoint_def same_subscriber_def same_subscriber_EPS_def)

lemma rel_option_same [simp]:
  "rel_option same_link a a" "rel_option same_endpoint b b" "rel_option same_subscriber c c"
  "rel_option same_subscriber_EPS d d"
  by (simp_all add: option.rel_refl)

lemma change_refl [simp]: "gnb_change u g g" "enb_change u e e"
  by (simp_all add: gnb_change_def enb_change_def)

lemma gues_swap: "g'\<lparr> gues := gues g, gnextRanUeID := gnextRanUeID g \<rparr> = g \<Longrightarrow> g''\<lparr> gues := gues g', gnextRanUeID := gnextRanUeID g' \<rparr> = g' \<Longrightarrow> g''\<lparr> gues := gues g, gnextRanUeID := gnextRanUeID g \<rparr> = g"
  by (cases g, cases g', cases g'') simp

lemma eues_swap: "e'\<lparr> eues := eues e, enextENBUEID := enextENBUEID e \<rparr> = e \<Longrightarrow> e''\<lparr> eues := eues e', enextENBUEID := enextENBUEID e' \<rparr> = e' \<Longrightarrow> e''\<lparr> eues := eues e, enextENBUEID := enextENBUEID e \<rparr> = e"
  by (cases e, cases e', cases e'') simp

lemma opt_trans:
  "rel_option same_link a b \<Longrightarrow> rel_option same_link b c \<Longrightarrow> rel_option same_link a c"
  "rel_option same_endpoint a' b' \<Longrightarrow> rel_option same_endpoint b' c' \<Longrightarrow> rel_option same_endpoint a' c'"
  "rel_option same_subscriber x y \<Longrightarrow> rel_option same_subscriber y z \<Longrightarrow> rel_option same_subscriber x z"
  "rel_option same_subscriber_EPS x' y' \<Longrightarrow> rel_option same_subscriber_EPS y' z' \<Longrightarrow> rel_option same_subscriber_EPS x' z'"
  by (erule (1) rel_option_trans [rotated], erule (1) same_trans)+

lemma change_trans:
  "gnb_change u g g' \<Longrightarrow> gnb_change u g' g'' \<Longrightarrow> gnb_change u g g''"
  "enb_change u e e' \<Longrightarrow> enb_change u e' e'' \<Longrightarrow> enb_change u e e''"
  unfolding gnb_change_def enb_change_def
  by (elim conjE, intro conjI, erule (1) gues_swap, simp, erule (1) opt_trans(3))
     (elim conjE, intro conjI, erule (1) eues_swap, simp, erule (1) opt_trans(4))

lemma opt_change_trans:
  "rel_option (gnb_change u) a b \<Longrightarrow> rel_option (gnb_change u) b c \<Longrightarrow> rel_option (gnb_change u) a c"
  "rel_option (enb_change u) a' b' \<Longrightarrow> rel_option (enb_change u) b' c' \<Longrightarrow> rel_option (enb_change u) a' c'"
  by (erule (1) rel_option_trans [rotated], erule (1) change_trans)+

lemma gnb_frame_refl: "gnb_frame k u w w"
  by (simp add: gnb_frame_def option.rel_refl)

lemma enb_frame_refl: "enb_frame k u w w"
  by (simp add: enb_frame_def option.rel_refl)

lemma gnb_frame_trans: "gnb_frame k u a b \<Longrightarrow> gnb_frame k u b c \<Longrightarrow> gnb_frame k u a c"
  unfolding gnb_frame_def
  by (elim conjE, intro conjI; (erule (1) elsewhere_trans | erule (1) opt_change_trans | erule (1) opt_trans | simp))

lemma enb_frame_trans: "enb_frame k u a b \<Longrightarrow> enb_frame k u b c \<Longrightarrow> enb_frame k u a c"
  unfolding enb_frame_def
  by (elim conjE, intro conjI; (erule (1) elsewhere_trans | erule (1) opt_change_trans | erule (1) opt_trans | simp))

interpretation gf: state_rel "gnb_frame k u" for k u
  by unfold_locales (auto intro: gnb_frame_refl gnb_frame_trans)

interpretation ef: state_rel "enb_frame k u" for k u
  by unfold_locales (auto intro: enb_frame_refl enb_frame_trans)

lemma same_link_Send: "same_link t (snd (Send w d nonUE t))"
  by (auto simp: Send_def same_link_def Let_def split: sum.splits)

lemma same_link_receive: "same_link t (fold receive_frame ds t)"
proof (induction ds arbitrary: t)
  case (Cons d ds)
  have "same_link t (receive_frame d t)"
    by (auto simp: receive_frame_def same_link_def deliver_frame_def split: sum.splits)
  from same_trans(1) [OF this Cons] show ?case by simp
qed simp

lemma same_link_scan: "scan_frames p ks t = Some (m, t') \<Longrightarrow> same_link t t'"
  using scan_frames_static [of p ks t m t'] by (simp add: same_link_def)

lemma same_link_wait:
  assumes "WaitForMessageMatching match types evs t = (r, t', evs')"
  shows "same_link t t'"
proof -
  from wait_loop_spec [OF assms [unfolded WaitForMessageMatching_loop]]
  obtain ds where "t' = fold receive_frame ds t \<or>
      (\<exists>m. scan_frames (matches match) types (fold receive_frame ds t) = Some (m, t'))"
    by blast
  then show ?thesis using same_link_receive [of t ds] by (blast intro: same_trans(1) [OF same_link_receive] same_link_scan)
qed

lemma same_endpoint_receive: "same_endpoint e (fold receive_datagram ds e)"
proof (induction ds arbitrary: e)
  case (Cons d ds)
  have "same_endpoint e (receive_datagram d e)"
    by (auto simp: receive_datagram_def same_endpoint_def deliver_message_def split: sum.splits)
  from same_trans(2) [OF this Cons] show ?case by simp
qed simp

lemma same_endpoint_loop:
  assumes "wait_loop scan receive_datagram x evs e = (r, e', evs')"
    and "\<And>e m e'. scan e = Some (m, e') \<Longrightarrow> same_endpoint e e'"
  shows "same_endpoint e e'"
proof -
  from wait_loop_spec [OF assms(1)]
  obtain ds where "e' = fold receive_datagram ds e \<or> (\<exists>m. scan (fold receive_datagram ds e) = Some (m, e'))"
    by blast
  then show ?thesis using same_endpoint_receive [of e ds] by (blast intro: same_trans(2) [OF same_endpoint_receive] assms(2))
qed

lemma same_endpoint_WaitForDownlink: "WaitForDownlink teid evs e = (r, e', evs') \<Longrightarrow> same_endpoint e e'"
  unfolding WaitForDownlink_def
  by (erule same_endpoint_loop) (auto simp: scan_gpdus_def same_endpoint_def Let_def split: list.splits)

lemma same_endpoint_WaitForControl: "WaitForControl c evs e = (r, e', evs') \<Longrightarrow> same_endpoint e e'"
  unfolding WaitForControl_def
  by (erule same_endpoint_loop) (auto simp: scan_control_def same_endpoint_def split: list.splits)

lemma same_endpoint_sendTo: "same_endpoint e (snd (sendTo w ip d e))"
  by (auto simp: sendTo_def same_endpoint_def split: sum.splits)

lemma timed_wait:
  assumes "timed d wait evs b = (r, b', evs')"
    and "\<And>evs r b' evs'. wait evs b = (r, b', evs') \<Longrightarrow> R b b'"
  shows "R b b'"
  using assms by (auto simp: timed_def split: if_splits prod.splits)

section \<open>Every step stays within its frame\<close>

named_theorems frame_rules "steps that obey the frame of their gNB or eNB"

lemma obeys_pure_reads [frame_rules]:
  "gf.obeys k u (find_gnb j)" "gf.obeys k u (the_or n m v)" "gf.obeys k u (parse_body b)"
  "ef.obeys k u (find_enb j)" "ef.obeys k u (the_or n m v)" "ef.obeys k u (parse_body b)"
  by (simp_all add: gf.obeys_def ef.obeys_def find_gnb_def find_enb_def the_or_def parse_body_def hand_basic
      gnb_frame_refl enb_frame_refl)

lemma obeys_or_http [frame_rules]:
  "gf.obeys k u h \<Longrightarrow> gf.obeys k u (or_http n m h)" "ef.obeys k u h \<Longrightarrow> ef.obeys k u (or_http n m h)"
  by (simp_all add: gf.obeys_def ef.obeys_def or_http_def case_prod_beta)

lemma obeys_n2_send [frame_rules]: "gf.obeys k u (n2_send E k d b)"
  unfolding gf.obeys_def
proof
  fix w
  show "gnb_frame k u w (snd (n2_send E k d b w))"
  proof (cases "wTransports w k")
    case (Some t)
    then show ?thesis using same_link_Send [of t "envWrite E" d b]
      by (simp add: n2_send_def gnb_frame_def option.rel_refl case_prod_beta)
  qed (simp add: n2_send_def gnb_frame_refl)
qed

lemma obeys_s1_send [frame_rules]: "ef.obeys k u (s1_send E k d b)"
  unfolding ef.obeys_def
proof
  fix w
  show "enb_frame k u w (snd (s1_send E k d b w))"
  proof (cases "wS1APTransports w k")
    case (Some t)
    then show ?thesis using same_link_Send [of t "envWrite E" d b]
      by (simp add: s1_send_def enb_frame_def option.rel_refl case_prod_beta)
  qed (simp add: s1_send_def enb_frame_refl)
qed

lemma obeys_n2_wait [frame_rules]: "gf.obeys k u (n2_wait k f d ts)"
  unfolding gf.obeys_def
proof
  fix w
  show "gnb_frame k u w (snd (n2_wait k f d ts w))"
  proof (cases "wTransports w k")
    case (Some t)
    obtain r t' evs where x: "timed d (WaitForMessageMatching f ts) (wEvents w (N2 k)) t = (r, t', evs)"
      by (metis prod_cases3)
    have "same_link t t'" by (rule timed_wait [OF x]) (rule same_link_wait)
    then show ?thesis using Some x by (simp add: n2_wait_def gnb_frame_def option.rel_refl)
  qed (simp add: n2_wait_def gnb_frame_refl)
qed

lemma obeys_s1_wait [frame_rules]: "ef.obeys k u (s1_wait k f d ts)"
  unfolding ef.obeys_def
proof
  fix w
  show "enb_frame k u w (snd (s1_wait k f d ts w))"
  proof (cases "wS1APTransports w k")
    case (Some t)
    obtain r t' evs where x: "timed d (WaitForMessageMatching f ts) (wEvents w (S1 k)) t = (r, t', evs)"
      by (metis prod_cases3)
    have "same_link t t'" by (rule timed_wait [OF x]) (rule same_link_wait)
    then show ?thesis using Some x by (simp add: s1_wait_def enb_frame_def option.rel_refl)
  qed (simp add: s1_wait_def enb_frame_refl)
qed

lemma obeys_n3_do:
  assumes "\<And>e. same_endpoint e (snd (f e))"
  shows "gf.obeys k u (n3_do k f)" "ef.obeys k u (n3_do k f)"
proof -
  have "gnb_frame k u w (snd (n3_do k f w)) \<and> enb_frame k u w (snd (n3_do k f w))" for w
    using assms by (auto simp: n3_do_def gnb_frame_def enb_frame_def option.rel_refl case_prod_beta split: option.split)
  then show "gf.obeys k u (n3_do k f)" "ef.obeys k u (n3_do k f)" by (auto simp: gf.obeys_def ef.obeys_def)
qed

lemma obeys_n3_wait:
  assumes "\<And>evs e r e' evs'. f evs e = (r, e', evs') \<Longrightarrow> same_endpoint e e'"
  shows "gf.obeys k u (n3_wait k d f)" "ef.obeys k u (n3_wait k d f)"
proof -
  have "gnb_frame k u w (snd (n3_wait k d f w)) \<and> enb_frame k u w (snd (n3_wait k d f w))" for w
  proof (cases "wGTPU w k")
    case (Some e)
    obtain r e' evs where x: "timed d f (wEvents w (N3 k)) e = (r, e', evs)" by (metis prod_cases3)
    have "same_endpoint e e'" by (rule timed_wait [OF x]) (rule assms)
    then show ?thesis using Some x by (simp add: n3_wait_def gnb_frame_def enb_frame_def option.rel_refl)
  qed (simp add: n3_wait_def gnb_frame_refl enb_frame_refl)
  then show "gf.obeys k u (n3_wait k d f)" "ef.obeys k u (n3_wait k d f)" by (auto simp: gf.obeys_def ef.obeys_def)
qed

lemma obeys_n3 [frame_rules]:
  "gf.obeys k u (n3_do k (sendTo W ip dat))" "ef.obeys k u (n3_do k (sendTo W ip dat))"
  "gf.obeys k u (n3_wait k d (WaitForDownlink teid))" "ef.obeys k u (n3_wait k d (WaitForDownlink teid))"
  "gf.obeys k u (n3_wait k d (WaitForControl c))" "ef.obeys k u (n3_wait k d (WaitForControl c))"
  by (auto intro!: obeys_n3_do obeys_n3_wait same_endpoint_sendTo
      elim: same_endpoint_WaitForDownlink same_endpoint_WaitForControl)

lemma obeys_ue_op:
  assumes "\<And>x. same_subscriber x (snd (f x))"
  shows "gf.obeys k u (ue_op k u f)"
  using assms
  by (auto simp: gf.obeys_def ue_op_def gnb_ue_def gnb_frame_def gnb_change_def update_gnb_def set_ue_def
      option.rel_refl case_prod_beta split: option.split bind_split)

lemma obeys_ue_op_EPS:
  assumes "\<And>x. same_subscriber_EPS x (snd (f x))"
  shows "ef.obeys k u (ue_op_EPS k u f)"
  using assms
  by (auto simp: ef.obeys_def ue_op_EPS_def enb_ue_def enb_frame_def enb_change_def update_enb_def set_ue_EPS_def
      option.rel_refl case_prod_beta split: option.split bind_split)

section \<open>The invariant of the server\<close>

text \<open>Every association belongs to a gNB or eNB of the store, is open, and was closed before it
  left its map; every UE is stored under its own identifier.\<close>

definition ues_keyed :: "Store \<Rightarrow> bool" where
  "ues_keyed s = ((\<forall>k g u x. gnbs s k = Some g \<longrightarrow> gues g u = Some x \<longrightarrow> uID x = u) \<and>
     (\<forall>k e u x. enbs s k = Some e \<longrightarrow> eues e u = Some x \<longrightarrow> vID x = u))"

definition links_open :: "world \<Rightarrow> bool" where
  "links_open w = ((\<forall>k t. wTransports w k = Some t \<longrightarrow> \<not> closed t) \<and>
     (\<forall>k t. wS1APTransports w k = Some t \<longrightarrow> \<not> closed t) \<and> (\<forall>k e. wGTPU w k = Some e \<longrightarrow> \<not> ep_closed e))"

definition world_inv :: "world \<Rightarrow> bool" where
  "world_inv w = (store_inv (wStore w) \<and> ues_keyed (wStore w) \<and>
     dom (wTransports w) \<subseteq> dom (gnbs (wStore w)) \<and> dom (wS1APTransports w) \<subseteq> dom (enbs (wStore w)) \<and>
     dom (wGTPU w) \<subseteq> dom (gnbs (wStore w)) \<union> dom (enbs (wStore w)) \<and>
     links_open w \<and> (\<forall>(l, c) \<in> set (wDropped w). c))"

lemma elsewhere_dom:
  "elsewhere k m m' \<Longrightarrow> rel_option R (m k) (m' k) \<Longrightarrow> dom m' = dom m"
  by (auto simp: elsewhere_def dom_def option_rel_Some1 option_rel_Some2 fun_eq_iff elim!: option.rel_cases)
     (metis option.rel_distinct option.distinct(1) option.exhaust)+

lemma elsewhere_all:
  assumes "elsewhere k m m'" "rel_option R (m k) (m' k)" "\<forall>j x. m j = Some x \<longrightarrow> P j x"
    and "\<And>x y. R x y \<Longrightarrow> P k x \<Longrightarrow> P k y"
  shows "\<forall>j x. m' j = Some x \<longrightarrow> P j x"
proof (intro allI impI)
  fix j y
  assume y: "m' j = Some y"
  show "P j y"
  proof (cases "j = k")
    case True
    with y assms(2) obtain x where "m k = Some x" "R x y" by (auto simp: option_rel_Some2)
    with True assms(3,4) show ?thesis by blast
  next
    case False
    with y assms(1,3) show ?thesis by (simp add: elsewhere_def)
  qed
qed

lemma same_link_open: "same_link t t' \<Longrightarrow> \<not> closed t \<Longrightarrow> \<not> closed t'"
  by (simp add: same_link_def)

lemma same_endpoint_open: "same_endpoint e e' \<Longrightarrow> \<not> ep_closed e \<Longrightarrow> \<not> ep_closed e'"
  by (simp add: same_endpoint_def)

lemma gnb_change_keys:
  assumes c: "gnb_change u g g'" and k: "gID g = k \<and> (\<forall>j x. gues g j = Some x \<longrightarrow> uID x = j)"
  shows "gID g' = k \<and> (\<forall>j x. gues g' j = Some x \<longrightarrow> uID x = j)"
proof
  have "gID (g'\<lparr> gues := gues g, gnextRanUeID := gnextRanUeID g \<rparr>) = gID g" using c by (simp add: gnb_change_def)
  then show "gID g' = k" using k by simp
  show "\<forall>j x. gues g' j = Some x \<longrightarrow> uID x = j"
    by (rule elsewhere_all [of u "gues g" _ same_subscriber])
       (use c k in \<open>simp_all add: gnb_change_def elsewhere_def same_subscriber_def\<close>)
qed

lemma enb_change_keys:
  assumes c: "enb_change u e e'" and k: "eID e = k \<and> (\<forall>j x. eues e j = Some x \<longrightarrow> vID x = j)"
  shows "eID e' = k \<and> (\<forall>j x. eues e' j = Some x \<longrightarrow> vID x = j)"
proof
  have "eID (e'\<lparr> eues := eues e, enextENBUEID := enextENBUEID e \<rparr>) = eID e" using c by (simp add: enb_change_def)
  then show "eID e' = k" using k by simp
  show "\<forall>j x. eues e' j = Some x \<longrightarrow> vID x = j"
    by (rule elsewhere_all [of u "eues e" _ same_subscriber_EPS])
       (use c k in \<open>simp_all add: enb_change_def elsewhere_def same_subscriber_EPS_def\<close>)
qed

lemma store_keys_iff:
  "store_inv s \<and> ues_keyed s \<longleftrightarrow> dom (gnbs s) \<subseteq> dec ` {1..nextID s} \<and> dom (enbs s) \<subseteq> dec ` {1..nextID s} \<and>
     dom (gnbs s) \<inter> dom (enbs s) = {} \<and>
     (\<forall>k g. gnbs s k = Some g \<longrightarrow> gID g = k \<and> (\<forall>j x. gues g j = Some x \<longrightarrow> uID x = j)) \<and>
     (\<forall>k e. enbs s k = Some e \<longrightarrow> eID e = k \<and> (\<forall>j x. eues e j = Some x \<longrightarrow> vID x = j))"
  unfolding store_inv_def ues_keyed_def by blast

lemma gnb_frame_inv: "gnb_frame k u w w' \<Longrightarrow> world_inv w \<Longrightarrow> world_inv w'"
proof -
  assume f: "gnb_frame k u w w'" and i: "world_inv w"
  have d: "dom (gnbs (wStore w')) = dom (gnbs (wStore w))" "dom (wTransports w') = dom (wTransports w)"
    "dom (wGTPU w') = dom (wGTPU w)"
    using f by (auto simp: gnb_frame_def elsewhere_dom [of k _ _ "gnb_change u"] elsewhere_dom [of k _ _ same_link]
        elsewhere_dom [of k _ _ same_endpoint])
  have sk: "store_inv (wStore w) \<and> ues_keyed (wStore w)" using i by (simp add: world_inv_def)
  then have ids: "\<forall>j g. gnbs (wStore w) j = Some g \<longrightarrow> gID g = j \<and> (\<forall>i x. gues g i = Some x \<longrightarrow> uID x = i)"
    unfolding store_keys_iff by (elim conjE)
  have g: "\<forall>j g. gnbs (wStore w') j = Some g \<longrightarrow> gID g = j \<and> (\<forall>i x. gues g i = Some x \<longrightarrow> uID x = i)"
    by (rule elsewhere_all [of k "gnbs (wStore w)" "gnbs (wStore w')" "gnb_change u"
          "\<lambda>j g. gID g = j \<and> (\<forall>i x. gues g i = Some x \<longrightarrow> uID x = i)", OF _ _ ids gnb_change_keys])
       (use f in \<open>simp_all add: gnb_frame_def\<close>)
  have t: "\<forall>j t. wTransports w' j = Some t \<longrightarrow> \<not> closed t"
    by (rule elsewhere_all [of k "wTransports w" "wTransports w'" same_link "\<lambda>_ t. \<not> closed t", OF _ _ _ same_link_open])
       (use f i in \<open>simp_all add: gnb_frame_def world_inv_def links_open_def\<close>)
  have e: "\<forall>j e. wGTPU w' j = Some e \<longrightarrow> \<not> ep_closed e"
    by (rule elsewhere_all [of k "wGTPU w" "wGTPU w'" same_endpoint "\<lambda>_ e. \<not> ep_closed e", OF _ _ _ same_endpoint_open])
       (use f i in \<open>simp_all add: gnb_frame_def world_inv_def links_open_def\<close>)
  have "store_inv (wStore w') \<and> ues_keyed (wStore w')"
    using f i g d unfolding store_keys_iff gnb_frame_def world_inv_def by (simp add: store_inv_def ues_keyed_def)
  then show ?thesis
    using f i t e d unfolding gnb_frame_def world_inv_def links_open_def by simp
qed

lemma enb_frame_inv: "enb_frame k u w w' \<Longrightarrow> world_inv w \<Longrightarrow> world_inv w'"
proof -
  assume f: "enb_frame k u w w'" and i: "world_inv w"
  have d: "dom (enbs (wStore w')) = dom (enbs (wStore w))"
    "dom (wS1APTransports w') = dom (wS1APTransports w)" "dom (wGTPU w') = dom (wGTPU w)"
    using f by (auto simp: enb_frame_def elsewhere_dom [of k _ _ "enb_change u"] elsewhere_dom [of k _ _ same_link]
        elsewhere_dom [of k _ _ same_endpoint])
  have sk: "store_inv (wStore w) \<and> ues_keyed (wStore w)" using i by (simp add: world_inv_def)
  then have ids: "\<forall>j e. enbs (wStore w) j = Some e \<longrightarrow> eID e = j \<and> (\<forall>i x. eues e i = Some x \<longrightarrow> vID x = i)"
    unfolding store_keys_iff by (elim conjE)
  have g: "\<forall>j e. enbs (wStore w') j = Some e \<longrightarrow> eID e = j \<and> (\<forall>i x. eues e i = Some x \<longrightarrow> vID x = i)"
    by (rule elsewhere_all [of k "enbs (wStore w)" "enbs (wStore w')" "enb_change u"
          "\<lambda>j e. eID e = j \<and> (\<forall>i x. eues e i = Some x \<longrightarrow> vID x = i)", OF _ _ ids enb_change_keys])
       (use f in \<open>simp_all add: enb_frame_def\<close>)
  have t: "\<forall>j t. wS1APTransports w' j = Some t \<longrightarrow> \<not> closed t"
    by (rule elsewhere_all [of k "wS1APTransports w" "wS1APTransports w'" same_link "\<lambda>_ t. \<not> closed t", OF _ _ _ same_link_open])
       (use f i in \<open>simp_all add: enb_frame_def world_inv_def links_open_def\<close>)
  have e: "\<forall>j e. wGTPU w' j = Some e \<longrightarrow> \<not> ep_closed e"
    by (rule elsewhere_all [of k "wGTPU w" "wGTPU w'" same_endpoint "\<lambda>_ e. \<not> ep_closed e", OF _ _ _ same_endpoint_open])
       (use f i in \<open>simp_all add: enb_frame_def world_inv_def links_open_def\<close>)
  have "store_inv (wStore w') \<and> ues_keyed (wStore w')"
    using f i g d unfolding store_keys_iff enb_frame_def world_inv_def by (simp add: store_inv_def ues_keyed_def)
  then show ?thesis
    using f i t e d unfolding enb_frame_def world_inv_def links_open_def by simp
qed

lemma NewHandler_inv: "world_inv (NewHandler New evs)"
  by (simp add: world_inv_def NewHandler_def New_def store_inv_def ues_keyed_def links_open_def)

section \<open>A concrete environment\<close>

text \<open>The network answers every NGAP PDU with \<open>pdu\<close> and no UDP socket can be opened.\<close>

definition silent_s1 :: s1_dec_lib where
  "silent_s1 = \<lparr> Unmarshal_S1 = (\<lambda>b. not_used), CritString = (\<lambda>c. []), ParseDownlinkNASTransport = (\<lambda>b. not_used),
     ParseInitialContextSetupRequest = (\<lambda>b. not_used), ParseERABSetupRequest = (\<lambda>b. not_used),
     ParseERABReleaseCommand = (\<lambda>b. not_used), ParseERABModifyRequest = (\<lambda>b. not_used),
     ParseUEContextReleaseCommand = (\<lambda>b. not_used), ParseErrorIndication = (\<lambda>b. not_used),
     ParsePaging = (\<lambda>b. not_used), ParseHandoverRequest = (\<lambda>b. not_used), ParseMMEStatusTransfer = (\<lambda>b. not_used),
     ParseS1SetupResponse = (\<lambda>b. not_used), ParsePathSwitchRequestAcknowledge = (\<lambda>b. not_used),
     ParseResetAcknowledge = (\<lambda>b. not_used), ParseHandoverCommand = (\<lambda>b. not_used),
     ParseHandoverCancelAcknowledge = (\<lambda>b. not_used), ParseS1SetupFailure = (\<lambda>b. not_used),
     ParsePathSwitchRequestFailure = (\<lambda>b. not_used), ParseHandoverPreparationFailure = (\<lambda>b. not_used) \<rparr>"

definition sample_env :: "NGAPPDU \<Rightarrow> (nat, nat) api_env" where
  "sample_env pdu = \<lparr> envNGAP = ngap_instance pdu, envS1Enc = \<lparr> Marshal_S1 = (\<lambda>m. Inr [1]), toRRCCause = (\<lambda>c. c) \<rparr>,
     envS1Dec = silent_s1, envNAS5 = count_nas5, envEPS = toy_eps, envNAS5Enc = sample_nas5_enc, envEPSEnc = sample_eps_enc, envAKA = toy_aka, envSuci = toy_crypto,
     envKeys = \<lparr> newX25519 = (\<lambda>b. Inr 7), uncompressP256 = (\<lambda>b. None), newP256 = (\<lambda>b. Inr 7) \<rparr>,
     envResolve = (\<lambda>a. Inr ()), envDial = (\<lambda>a b. Inr ()), envSubscribe = Inr (), envWrite = (\<lambda>d s p. Inr ()),
     envClose = Inr (), envListenUDP = (\<lambda>ip. Inl (Errorf ''bind'')), envWriteUDP = (\<lambda>ip d. Inr ()) \<rparr>"

end
