(* ===== verification/Api_Node.thy ===== *)
theory Api_Node
  imports Api_World
begin

text \<open>
  The lifecycle of gNBs and eNBs: \<open>internal/api/gnb_handlers.go\<close> and \<open>enb_handlers.go\<close>.
  Creating a node dials its core network, registers the node, opens its GTP-U endpoint when asked
  to and runs the setup procedure; any failure on the way takes the node and its associations down
  again.
\<close>

section \<open>gNBs\<close>

text \<open>\<open>teardownGNB(id, t)\<close>; \<open>t\<close> is the transport registered under \<open>id\<close>.\<close>

definition teardownGNB :: "('priv, 'pub) api_env \<Rightarrow> string \<Rightarrow> world \<Rightarrow> world" where
  "teardownGNB E k w =
     (let w1 = close_n2 E k w;
          w2 = put_n3 k None (close_n3 E k w1);
          w3 = w2\<lparr> wStore := snd (DeleteGNB k (wStore w2)) \<rparr>
      in put_n2 k None w3)"

text \<open>\<open>if err != nil { teardown; writeError; return }\<close> around every step that follows.\<close>

definition teardown_on_error :: "('s \<Rightarrow> 's) \<Rightarrow> ('s, 'a) hand \<Rightarrow> ('s, 'a) hand" where
  "teardown_on_error td m = (\<lambda>w. case m w of
      (Inl (Panic p), w') \<Rightarrow> (Inl (Panic p), w')
    | (Inl e, w') \<Rightarrow> (Inl e, td w')
    | (Inr x, w') \<Rightarrow> (Inr x, w'))"

definition defaultNGSetupWait :: "string list" where
  "defaultNGSetupWait = [''NGSetupResponse'', ''NGSetupFailure'', ''ErrorIndication'']"

text \<open>The store's new gNB, its N3 address and its transport.\<close>

definition register_gnb :: "CreateGNBRequest \<Rightarrow> string \<Rightarrow> NGAPResponse framed \<Rightarrow> world \<Rightarrow> string result \<times> world" where
  "register_gnb req localAddr t w =
     (let slices = map (\<lambda>s. \<lparr> slSST = sli_SST s, slSD = sli_SD s \<rparr>) (cg_Slices req);
          (gnb, s) = CreateGNB (cg_MCC req) (cg_MNC req) (cg_TAC req) (cg_GNBID req) (cg_GNBIDBitLength req)
                       (cg_Name req) (cg_SST req) (cg_SD req) slices (wStore w);
          k = gID gnb
      in (Inr k, put_n2 k (Some t) (w\<lparr> wStore := update_gnb k (\<lambda>g. g\<lparr> gN3Addr := localAddr \<rparr>) s \<rparr>)))"

definition listen_gnb :: "('priv, 'pub) api_env \<Rightarrow> string \<Rightarrow> string \<Rightarrow> (world, unit) hand" where
  "listen_gnb E k n3 =
     hbind (hlift (http_error 502 ''gtp-u listen failed'' (Listen (envListenUDP E) n3))) (\<lambda>gt.
       hmod (\<lambda>w. put_n3 k (Some gt) (w\<lparr> wStore := update_gnb k (\<lambda>g. g\<lparr> gN3Addr := n3 \<rparr>) (wStore w) \<rparr>)))"

definition encode_ng_setup :: "('priv, 'pub) api_env \<Rightarrow> CreateGNBRequest \<Rightarrow> bytes result" where
  "encode_ng_setup E req = (case cg_RawNGAPPDU req of
      Some h \<Rightarrow> http_error 400 ''raw_ngap_pdu must be hex'' (hex_decode h)
    | None \<Rightarrow>
        rbind (if cg_NGSetupIEs req \<noteq> [] then
                 Inr \<lparr> gm_ProcedureCode = Proc_NGSetup, gm_PDUType = ''initiating_message'',
                       gm_Criticality = ''reject'', gm_IEs = cg_NGSetupIEs req \<rparr>
               else http_error 400 ''build ng setup'' (BuildNGSetupRequest
                 \<lparr> nspMCC = cg_MCC req, nspMNC = cg_MNC req, nspTAC = cg_TAC req, nspGNBID = cg_GNBID req,
                   nspGNBIDBitLength = cg_GNBIDBitLength req, nspName = cg_Name req, nspSST = cg_SST req,
                   nspSD = cg_SD req,
                   nspSlices = map (\<lambda>s. \<lparr> nslSST = sli_SST s, nslSD = sli_SD s \<rparr>) (cg_Slices req),
                   nspDefaultPagingDRX = cg_DefaultPagingDRX req \<rparr>)) (\<lambda>msg.
        http_error 500 ''ngap encode'' (Encode_NGAP (envNGAP E) msg)))"

definition ng_setup ::
  "('priv, 'pub) api_env \<Rightarrow> CreateGNBRequest \<Rightarrow> string \<Rightarrow> (world, nat \<times> CreateGNBResponse) hand" where
  "ng_setup E req k =
     (if cg_SkipNGSetup req then hret (201, \<lparr> cr_GNBID = k, cr_NGSetupResponse = None \<rparr>)
      else
        hbind (hlift (encode_ng_setup E req)) (\<lambda>encoded.
        hbind (or_http 502 ''sctp send'' (n2_send E k encoded True)) (\<lambda>_.
        hbind (or_http 504 ''waiting for NGSetupResponse''
                 (n2_wait k None (waitTimeout (cg_TimeoutMs req))
                    (if cg_WaitFor req = [] then defaultNGSetupWait else cg_WaitFor req))) (\<lambda>ngapResp.
        hret (201, \<lparr> cr_GNBID = k, cr_NGSetupResponse = Some ngapResp \<rparr>)))))"

definition bring_up_gnb ::
  "('priv, 'pub) api_env \<Rightarrow> CreateGNBRequest \<Rightarrow> string \<Rightarrow> string \<Rightarrow> (world, nat \<times> CreateGNBResponse) hand" where
  "bring_up_gnb E req localAddr k =
     hbind (if cg_EnableGTPU req then listen_gnb E k (or_default localAddr (cg_GNBN3Address req)) else hret ()) (\<lambda>_.
       ng_setup E req k)"

definition handleCreateGNB ::
  "('priv, 'pub) api_env \<Rightarrow> CreateGNBRequest result \<Rightarrow> (world, nat \<times> CreateGNBResponse) hand" where
  "handleCreateGNB E body =
     hbind (parse_body body) (\<lambda>req.
     hbind (hreq (cg_AMFAddress req \<noteq> []) (HTTPErr 400 ''amf_address is required'')) (\<lambda>_.
     let localAddr = or_default ''0.0.0.0'' (cg_GNBN2Address req) in
     hbind (hlift (http_error 502 ''sctp dial failed'' (DialNGAP E localAddr (cg_AMFAddress req)))) (\<lambda>t.
     hbind (register_gnb req localAddr t) (\<lambda>k.
       teardown_on_error (teardownGNB E k) (bring_up_gnb E req localAddr k)))))"

definition handleGetGNB :: "string \<Rightarrow> (world, nat \<times> GNBStateResponse) hand" where
  "handleGetGNB k = hbind (find_gnb k) (\<lambda>g. hret (200,
     \<lparr> gs_ID = gID g, gs_MCC = gMCC g, gs_MNC = gMNC g, gs_TAC = gTAC g, gs_GNBID = gGNBID g,
       gs_GNBIDBitLength = gGNBIDBitLength g, gs_Name = gName g, gs_SST = gSST g, gs_SD = gSD g \<rparr>))"

definition handleDeleteGNB :: "('priv, 'pub) api_env \<Rightarrow> string \<Rightarrow> (world, nat \<times> unit) hand" where
  "handleDeleteGNB E k =
     hbind (hmod (\<lambda>w. put_n2 k None (close_n2 E k w))) (\<lambda>_.
     hbind (hmod (\<lambda>w. put_n3 k None (close_n3 E k w))) (\<lambda>_.
     hbind (or_http 404 ''gnb not found'' (\<lambda>w. case DeleteGNB k (wStore w) of (r, s) \<Rightarrow> (r, w\<lparr> wStore := s \<rparr>))) (\<lambda>_.
       hret (204, ()))))"

section \<open>eNBs\<close>

definition teardownENB :: "('priv, 'pub) api_env \<Rightarrow> string \<Rightarrow> world \<Rightarrow> world" where
  "teardownENB E k w =
     (let w1 = close_s1 E k w;
          w2 = put_n3 k None (close_n3 E k w1);
          w3 = w2\<lparr> wStore := snd (DeleteENB k (wStore w2)) \<rparr>
      in put_s1 k None w3)"

definition defaultS1SetupWait :: "string list" where
  "defaultS1SetupWait = [''S1SetupResponse'', ''S1SetupFailure'', ''ErrorIndication'']"

definition encodeS1SetupAttempt :: "s1_enc_lib \<Rightarrow> CreateENBRequest \<Rightarrow> bytes result" where
  "encodeS1SetupAttempt L req = (case ce_RawS1APPDU req of
      Some h \<Rightarrow> rmsg ''raw_s1ap_pdu must be hex'' (hex_decode h)
    | None \<Rightarrow>
        rbind (ENBIDValue (ce_ENBID req) (ce_ENBIDBitLength req)) (\<lambda>(enbID, enbIDKind).
        rmsg ''s1ap encode'' (BuildS1SetupRequest L
          \<lparr> sp_MCC = ce_MCC req, sp_MNC = ce_MNC req, sp_ENBID = enbID, sp_ENBIDKind = enbIDKind,
            sp_ENBName = ce_Name req, sp_TAC = ce_TAC req, sp_SupportedTAs = [],
            sp_DefaultPagingDRX = ce_DefaultPagingDRX req \<rparr>)))"

text \<open>The tracking area code is checked before anything else, and required unless the setup is raw.\<close>

definition check_enb_tac :: "CreateENBRequest \<Rightarrow> unit result" where
  "check_enb_tac req =
     (if ce_TAC req \<noteq> [] then
        rbind (http_error 400 ''tac must be a 2-octet hex string'' (ParseUint16 16 (ce_TAC req))) (\<lambda>_. Inr ())
      else if ce_RawS1APPDU req = None then Inl (HTTPErr 400 ''tac is required'') else Inr ())"

definition register_enb :: "CreateENBRequest \<Rightarrow> string \<Rightarrow> S1APResponse framed \<Rightarrow> world \<Rightarrow> string result \<times> world" where
  "register_enb req localAddr t w =
     (let (enb, s) = CreateENB (ce_MCC req) (ce_MNC req) (ce_TAC req) (ce_ENBID req) (ce_ENBIDBitLength req)
                       (ce_Name req) (wStore w);
          k = eID enb
      in (Inr k, put_s1 k (Some t) (w\<lparr> wStore := update_enb k (\<lambda>e. e\<lparr> eN3Addr := localAddr \<rparr>) s \<rparr>)))"

definition listen_enb :: "('priv, 'pub) api_env \<Rightarrow> string \<Rightarrow> string \<Rightarrow> (world, unit) hand" where
  "listen_enb E k n3 =
     hbind (hlift (http_error 502 ''gtp-u listen failed'' (Listen (envListenUDP E) n3))) (\<lambda>gt.
       hmod (\<lambda>w. put_n3 k (Some gt) (w\<lparr> wStore := update_enb k (\<lambda>e. e\<lparr> eN3Addr := n3 \<rparr>) (wStore w) \<rparr>)))"

definition s1_setup_timeout :: "CreateENBRequest \<Rightarrow> 64 word" where
  "s1_setup_timeout req =
     (if ce_RawS1APPDU req \<noteq> None \<and> ce_TimeoutMs req = 0 then 2 * 1000000000 else waitTimeout (ce_TimeoutMs req))"

definition s1_setup ::
  "('priv, 'pub) api_env \<Rightarrow> CreateENBRequest \<Rightarrow> bytes \<Rightarrow> string \<Rightarrow> (world, nat \<times> CreateENBResponse) hand" where
  "s1_setup E req encoded k =
     (if ce_SkipS1Setup req then hret (201, \<lparr> cf_ENBID = k, cf_S1SetupResponse = None \<rparr>)
      else
        hbind (or_http 502 ''sctp send'' (s1_send E k encoded True)) (\<lambda>_.
        hbind (htry (s1_wait k None (s1_setup_timeout req)
                 (if ce_WaitFor req = [] then defaultS1SetupWait else ce_WaitFor req))) (\<lambda>r. case r of
          Inl err \<Rightarrow>
            if ce_RawS1APPDU req \<noteq> None then hret (201, \<lparr> cf_ENBID = k, cf_S1SetupResponse = None \<rparr>)
            else hfail (HTTPErr 504 ''waiting for S1 Setup outcome'')
        | Inr resp \<Rightarrow> hret (201, \<lparr> cf_ENBID = k, cf_S1SetupResponse = Some resp \<rparr>))))"

definition bring_up_enb ::
  "('priv, 'pub) api_env \<Rightarrow> CreateENBRequest \<Rightarrow> bytes \<Rightarrow> string \<Rightarrow> string \<Rightarrow> (world, nat \<times> CreateENBResponse) hand" where
  "bring_up_enb E req encoded localAddr k =
     hbind (if ce_EnableGTPU req then listen_enb E k (or_default localAddr (ce_ENBN3Address req)) else hret ()) (\<lambda>_.
       s1_setup E req encoded k)"

definition handleCreateENB ::
  "('priv, 'pub) api_env \<Rightarrow> CreateENBRequest result \<Rightarrow> (world, nat \<times> CreateENBResponse) hand" where
  "handleCreateENB E body =
     hbind (parse_body body) (\<lambda>req.
     hbind (hreq (ce_MMEAddress req \<noteq> []) (HTTPErr 400 ''mme_address is required'')) (\<lambda>_.
     hbind (hlift (check_enb_tac req)) (\<lambda>_.
     hbind (hlift (http_error 400 ''s1 setup'' (encodeS1SetupAttempt (envS1Enc E) req))) (\<lambda>encoded.
     let localAddr = or_default ''0.0.0.0'' (ce_ENBS1Address req) in
     hbind (hlift (http_error 502 ''sctp dial failed'' (DialS1AP E localAddr (ce_MMEAddress req)))) (\<lambda>t.
     hbind (register_enb req localAddr t) (\<lambda>k.
       teardown_on_error (teardownENB E k) (bring_up_enb E req encoded localAddr k)))))))"

definition handleGetENB :: "string \<Rightarrow> (world, nat \<times> ENBStateResponse) hand" where
  "handleGetENB k = hbind (find_enb k) (\<lambda>e. hret (200,
     \<lparr> es_ID = eID e, es_MCC = eMCC e, es_MNC = eMNC e, es_TAC = eTAC e, es_ENBID = eENBID e,
       es_ENBIDBitLength = eENBIDBitLength e, es_Name = eName e \<rparr>))"

definition handleDeleteENB :: "('priv, 'pub) api_env \<Rightarrow> string \<Rightarrow> (world, nat \<times> unit) hand" where
  "handleDeleteENB E k =
     hbind (hmod (\<lambda>w. put_s1 k None (close_s1 E k w))) (\<lambda>_.
     hbind (hmod (\<lambda>w. put_n3 k None (close_n3 E k w))) (\<lambda>_.
     hbind (or_http 404 ''enb not found'' (\<lambda>w. case DeleteENB k (wStore w) of (r, s) \<Rightarrow> (r, w\<lparr> wStore := s \<rparr>))) (\<lambda>_.
       hret (204, ()))))"

section \<open>A request concerns one node\<close>

text \<open>Everything that belongs to another node is as it was: the frame of the lifecycle requests,
  which, unlike \<open>gnb_frame\<close> and \<open>enb_frame\<close>, lets the node itself come and go.\<close>

definition node_local :: "string \<Rightarrow> world \<Rightarrow> world \<Rightarrow> bool" where
  "node_local k w w' =
     (elsewhere k (gnbs (wStore w)) (gnbs (wStore w')) \<and> elsewhere k (enbs (wStore w)) (enbs (wStore w')) \<and>
      elsewhere k (wTransports w) (wTransports w') \<and> elsewhere k (wS1APTransports w) (wS1APTransports w') \<and>
      elsewhere k (wGTPU w) (wGTPU w') \<and>
      (\<forall>l. l \<notin> {N2 k, S1 k, N3 k} \<longrightarrow> wEvents w' l = wEvents w l))"

interpretation nl: state_rel "node_local k" for k
  by unfold_locales (auto simp: node_local_def elsewhere_def)

lemma gnb_frame_local: "gnb_frame k u w w' \<Longrightarrow> node_local k w w'"
  by (simp add: gnb_frame_def node_local_def elsewhere_def)

lemma enb_frame_local: "enb_frame k u w w' \<Longrightarrow> node_local k w w'"
  by (simp add: enb_frame_def node_local_def elsewhere_def)

lemma obeys_local: "gf.obeys k u m \<Longrightarrow> nl.obeys k m" "ef.obeys k u m \<Longrightarrow> nl.obeys k m"
  unfolding gf.obeys_def ef.obeys_def nl.obeys_def by (meson gnb_frame_local enb_frame_local)+

lemma local_puts:
  "node_local k w (put_n2 k v w)" "node_local k w (put_s1 k v' w)" "node_local k w (put_n3 k e w)"
  "node_local k w (close_n2 E k w)" "node_local k w (close_s1 E k w)" "node_local k w (close_n3 E k w)"
  "node_local k w (w\<lparr> wStore := update_gnb k f (wStore w) \<rparr>)" "node_local k w (w\<lparr> wStore := update_enb k g (wStore w) \<rparr>)"
  "node_local k w (w\<lparr> wStore := snd (DeleteGNB k (wStore w)) \<rparr>)" "node_local k w (w\<lparr> wStore := snd (DeleteENB k (wStore w)) \<rparr>)"
  by (simp_all add: node_local_def elsewhere_def put_n2_def put_s1_def put_n3_def close_n2_def close_s1_def
      close_n3_def DeleteGNB_def DeleteENB_def)

lemmas local_trans = nl.rel_trans

lemma local_teardown: "node_local k w (teardownGNB E k w)" "node_local k w (teardownENB E k w)"
  unfolding teardownGNB_def teardownENB_def Let_def
  by (rule local_trans [OF _ local_puts(1)] local_trans [OF _ local_puts(9)] local_trans [OF _ local_puts(3)]
        local_trans [OF _ local_puts(6)] local_puts(4))+
     (rule local_trans [OF _ local_puts(2)] local_trans [OF _ local_puts(10)] local_trans [OF _ local_puts(3)]
        local_trans [OF _ local_puts(6)] local_puts(5))+

lemma obeys_teardown_on_error:
  "nl.obeys k m \<Longrightarrow> (\<And>w. node_local k w (td w)) \<Longrightarrow> nl.obeys k (teardown_on_error td m)"
  unfolding nl.obeys_def
proof
  fix w
  assume m: "\<forall>w. node_local k w (snd (m w))" and td: "\<And>w. node_local k w (td w)"
  obtain r w1 where w1: "m w = (r, w1)" by fastforce
  with m have "node_local k w w1" by (metis snd_conv)
  moreover from this td have "node_local k w (td w1)" by (blast intro: local_trans)
  ultimately show "node_local k w (snd (teardown_on_error td m w))"
    using w1 by (auto simp: teardown_on_error_def split: sum.split error.split)
qed

lemma obeys_listen: "nl.obeys k (listen_gnb E k n3)" "nl.obeys k (listen_enb E k n3)"
  unfolding listen_gnb_def listen_enb_def
  by (intro nl.rules nl.modify local_trans [OF _ local_puts(3)] local_puts)+

lemma obeys_ng_setup: "gf.obeys k u (ng_setup E req k)"
  unfolding ng_setup_def by (auto intro!: gf.rules frame_rules)

lemma obeys_s1_setup: "ef.obeys k u (s1_setup E req d k)"
  unfolding s1_setup_def by (auto intro!: ef.rules frame_rules)

lemma obeys_bring_up: "nl.obeys k (bring_up_gnb E req a k)" "nl.obeys k (bring_up_enb E req' d a k)"
  unfolding bring_up_gnb_def bring_up_enb_def
  by (auto intro!: nl.rules obeys_listen obeys_local(1) [OF obeys_ng_setup] obeys_local(2) [OF obeys_s1_setup])

section \<open>Registration and teardown keep the invariant\<close>

lemma closed_Close [simp]: "closed (snd (Close c t))" "ep_closed (snd (CloseEndpoint c e))"
  by (simp_all add: Close_def CloseEndpoint_def)

lemma teardownGNB_inv:
  assumes "world_inv w"
  shows "world_inv (teardownGNB E k w) \<and> gnbs (wStore (teardownGNB E k w)) = (gnbs (wStore w))(k := None) \<and>
    wTransports (teardownGNB E k w) = (wTransports w)(k := None) \<and> wGTPU (teardownGNB E k w) = (wGTPU w)(k := None) \<and>
    enbs (wStore (teardownGNB E k w)) = enbs (wStore w) \<and> wS1APTransports (teardownGNB E k w) = wS1APTransports w"
proof -
  let ?w = "teardownGNB E k w"
  have c: "gnbs (wStore ?w) = (gnbs (wStore w))(k := None)" "enbs (wStore ?w) = enbs (wStore w)"
    "nextID (wStore ?w) = nextID (wStore w)" "wTransports ?w = (wTransports w)(k := None)"
    "wGTPU ?w = (wGTPU w)(k := None)" "wS1APTransports ?w = wS1APTransports w"
    "\<forall>(l, c) \<in> set (wDropped ?w). (l, c) \<in> set (wDropped w) \<or> c"
    by (auto simp: teardownGNB_def Let_def put_n2_def put_n3_def close_n2_def close_n3_def DeleteGNB_def
        split: option.splits)
  have "world_inv ?w"
    using assms c unfolding world_inv_def store_inv_def ues_keyed_def links_open_def by (auto split: if_splits)
  with c show ?thesis by simp
qed

lemma teardownENB_inv:
  assumes "world_inv w"
  shows "world_inv (teardownENB E k w) \<and> enbs (wStore (teardownENB E k w)) = (enbs (wStore w))(k := None) \<and>
    wS1APTransports (teardownENB E k w) = (wS1APTransports w)(k := None) \<and> wGTPU (teardownENB E k w) = (wGTPU w)(k := None) \<and>
    gnbs (wStore (teardownENB E k w)) = gnbs (wStore w) \<and> wTransports (teardownENB E k w) = wTransports w"
proof -
  let ?w = "teardownENB E k w"
  have c: "enbs (wStore ?w) = (enbs (wStore w))(k := None)" "gnbs (wStore ?w) = gnbs (wStore w)"
    "nextID (wStore ?w) = nextID (wStore w)" "wS1APTransports ?w = (wS1APTransports w)(k := None)"
    "wGTPU ?w = (wGTPU w)(k := None)" "wTransports ?w = wTransports w"
    "\<forall>(l, c) \<in> set (wDropped ?w). (l, c) \<in> set (wDropped w) \<or> c"
    by (auto simp: teardownENB_def Let_def put_s1_def put_n3_def close_s1_def close_n3_def DeleteENB_def
        split: option.splits)
  have "world_inv ?w"
    using assms c unfolding world_inv_def store_inv_def ues_keyed_def links_open_def by (auto split: if_splits)
  with c show ?thesis by simp
qed

lemma dial_open: "DialNGAP E a b = Inr t \<Longrightarrow> \<not> closed t" "DialS1AP E a b = Inr t' \<Longrightarrow> \<not> closed t'"
  by (auto simp: DialNGAP_def DialS1AP_def dialFramed_def rbind_eq_Inr)

lemma listen_open: "Listen l ip = Inr e \<Longrightarrow> \<not> ep_closed e"
  by (auto simp: Listen_def rbind_eq_Inr)

lemma inv_fresh:
  assumes "world_inv w"
  shows "gnbs (wStore w) (dec (Suc (nextID (wStore w)))) = None" "enbs (wStore w) (dec (Suc (nextID (wStore w)))) = None"
    "wTransports w (dec (Suc (nextID (wStore w)))) = None" "wS1APTransports w (dec (Suc (nextID (wStore w)))) = None"
    "wGTPU w (dec (Suc (nextID (wStore w)))) = None"
proof -
  let ?k = "dec (Suc (nextID (wStore w)))"
  have "dom (gnbs (wStore w)) \<subseteq> dec ` {1..nextID (wStore w)}" "dom (enbs (wStore w)) \<subseteq> dec ` {1..nextID (wStore w)}"
    using assms by (simp_all add: world_inv_def store_inv_def)
  then have "?k \<notin> dom (gnbs (wStore w))" "?k \<notin> dom (enbs (wStore w))" by (auto dest: dec_next_notin)
  moreover have "dom (wTransports w) \<subseteq> dom (gnbs (wStore w))" "dom (wS1APTransports w) \<subseteq> dom (enbs (wStore w))"
    "dom (wGTPU w) \<subseteq> dom (gnbs (wStore w)) \<union> dom (enbs (wStore w))"
    using assms by (simp_all add: world_inv_def)
  ultimately show "gnbs (wStore w) ?k = None" "enbs (wStore w) ?k = None" "wTransports w ?k = None"
    "wS1APTransports w ?k = None" "wGTPU w ?k = None" by blast+
qed

lemma store_keys_update:
  assumes "store_inv s" "ues_keyed s"
  shows "(\<And>g. gID (f g) = gID g) \<Longrightarrow> (\<And>g. gues (f g) = gues g) \<Longrightarrow>
      store_inv (update_gnb k f s) \<and> ues_keyed (update_gnb k f s)"
    "(\<And>e. eID (h e) = eID e) \<Longrightarrow> (\<And>e. eues (h e) = eues e) \<Longrightarrow>
      store_inv (update_enb k h s) \<and> ues_keyed (update_enb k h s)"
  using assms store_inv_step [OF store_step.pointer_gnb, of f s k] store_inv_step [OF store_step.pointer_enb, of h s k]
  by (auto simp: ues_keyed_def split: if_splits)

lemma register_gnb_result:
  assumes i: "world_inv w" and t: "\<not> closed t" and r: "register_gnb req a t w = (r, w1)"
  shows "r = Inr (dec (Suc (nextID (wStore w)))) \<and> world_inv w1 \<and> node_local (dec (Suc (nextID (wStore w)))) w w1 \<and>
    (\<exists>g. gnbs (wStore w1) (dec (Suc (nextID (wStore w)))) = Some g) \<and>
    wTransports w1 = (wTransports w)(dec (Suc (nextID (wStore w))) \<mapsto> t) \<and>
    wGTPU w1 = wGTPU w \<and> enbs (wStore w1) = enbs (wStore w) \<and> wS1APTransports w1 = wS1APTransports w"
proof -
  let ?k = "dec (Suc (nextID (wStore w)))"
  obtain g s where c: "CreateGNB (cg_MCC req) (cg_MNC req) (cg_TAC req) (cg_GNBID req) (cg_GNBIDBitLength req)
      (cg_Name req) (cg_SST req) (cg_SD req) (map (\<lambda>s. \<lparr> slSST = sli_SST s, slSD = sli_SD s \<rparr>) (cg_Slices req))
      (wStore w) = (g, s)" by fastforce
  then have s: "gID g = ?k" "gues g = Map.empty" "gnbs s = (gnbs (wStore w))(?k \<mapsto> g)" "enbs s = enbs (wStore w)"
    by (auto simp: CreateGNB_def NewGNBContext_def Let_def)
  note f = inv_fresh [OF i]
  let ?s = "update_gnb ?k (\<lambda>g. g\<lparr> gN3Addr := a \<rparr>) s"
  have w1: "r = Inr ?k" "w1 = put_n2 ?k (Some t) (w\<lparr> wStore := ?s \<rparr>)"
    using r by (simp_all add: register_gnb_def c s Let_def)
  have "store_inv s" using i store_inv_step [OF store_step.create_gnb [OF c]] by (simp add: world_inv_def)
  moreover have "ues_keyed s" using i s by (auto simp: world_inv_def ues_keyed_def)
  ultimately have k: "store_inv ?s \<and> ues_keyed ?s" by (intro store_keys_update) simp_all
  have "world_inv w1"
    using i k s f t unfolding w1 world_inv_def links_open_def by (auto simp: put_n2_def split: if_splits)
  moreover have "node_local ?k w w1"
    by (simp add: w1 put_n2_def node_local_def elsewhere_def s)
  ultimately show ?thesis using w1 s by (simp add: put_n2_def)
qed

lemma register_enb_result:
  assumes i: "world_inv w" and t: "\<not> closed t" and r: "register_enb req a t w = (r, w1)"
  shows "r = Inr (dec (Suc (nextID (wStore w)))) \<and> world_inv w1 \<and> node_local (dec (Suc (nextID (wStore w)))) w w1 \<and>
    (\<exists>e. enbs (wStore w1) (dec (Suc (nextID (wStore w)))) = Some e) \<and>
    wS1APTransports w1 = (wS1APTransports w)(dec (Suc (nextID (wStore w))) \<mapsto> t) \<and>
    wGTPU w1 = wGTPU w \<and> gnbs (wStore w1) = gnbs (wStore w) \<and> wTransports w1 = wTransports w"
proof -
  let ?k = "dec (Suc (nextID (wStore w)))"
  obtain e s where c: "CreateENB (ce_MCC req) (ce_MNC req) (ce_TAC req) (ce_ENBID req) (ce_ENBIDBitLength req)
      (ce_Name req) (wStore w) = (e, s)" by fastforce
  then have s: "eID e = ?k" "eues e = Map.empty" "enbs s = (enbs (wStore w))(?k \<mapsto> e)" "gnbs s = gnbs (wStore w)"
    by (auto simp: CreateENB_def NewENBContext_def Let_def)
  note f = inv_fresh [OF i]
  let ?s = "update_enb ?k (\<lambda>e. e\<lparr> eN3Addr := a \<rparr>) s"
  have w1: "r = Inr ?k" "w1 = put_s1 ?k (Some t) (w\<lparr> wStore := ?s \<rparr>)"
    using r by (simp_all add: register_enb_def c s Let_def)
  have "store_inv s" using i store_inv_step [OF store_step.create_enb [OF c]] by (simp add: world_inv_def)
  moreover have "ues_keyed s" using i s by (auto simp: world_inv_def ues_keyed_def)
  ultimately have k: "store_inv ?s \<and> ues_keyed ?s" by (intro store_keys_update) simp_all
  have "world_inv w1"
    using i k s f t unfolding w1 world_inv_def links_open_def by (auto simp: put_s1_def split: if_splits)
  moreover have "node_local ?k w w1"
    by (simp add: w1 put_s1_def node_local_def elsewhere_def s)
  ultimately show ?thesis using w1 s by (simp add: put_s1_def)
qed

lemma put_n3_inv:
  assumes i: "world_inv w" and k: "k \<in> dom (gnbs (wStore w)) \<union> dom (enbs (wStore w))" "wGTPU w k = None" "\<not> ep_closed e"
    and s: "store_inv s \<and> ues_keyed s" "dom (gnbs s) = dom (gnbs (wStore w))" "dom (enbs s) = dom (enbs (wStore w))"
  shows "world_inv (put_n3 k (Some e) (w\<lparr> wStore := s \<rparr>))"
  using assms unfolding world_inv_def links_open_def by (auto simp: put_n3_def split: if_splits)

lemma dom_update [simp]:
  "dom (gnbs (update_gnb k f s)) = dom (gnbs s)" "dom (enbs (update_enb k h s)) = dom (enbs s)"
  by (auto simp: dom_def)

lemma listen_gnb_inv:
  assumes i: "world_inv w" and k: "k \<in> dom (gnbs (wStore w))" "wGTPU w k = None"
  shows "world_inv (snd (listen_gnb E k n3 w))"
proof (cases "Listen (envListenUDP E) n3")
  case (Inr e)
  note sk = store_keys_update(1) [of "wStore w" "\<lambda>g. g\<lparr> gN3Addr := n3 \<rparr>" k]
  show ?thesis
    unfolding listen_gnb_def using i k Inr listen_open [OF Inr] sk
    by (simp add: hand_simps) (rule put_n3_inv; auto simp: world_inv_def)
qed (use i in \<open>auto simp: listen_gnb_def hbind_def hand_basic http_error_def split: error.split\<close>)

lemma listen_enb_inv:
  assumes i: "world_inv w" and k: "k \<in> dom (enbs (wStore w))" "wGTPU w k = None"
  shows "world_inv (snd (listen_enb E k n3 w))"
proof (cases "Listen (envListenUDP E) n3")
  case (Inr e)
  note sk = store_keys_update(2) [of "wStore w" "\<lambda>e. e\<lparr> eN3Addr := n3 \<rparr>" k]
  show ?thesis
    unfolding listen_enb_def using i k Inr listen_open [OF Inr] sk
    by (simp add: hand_simps) (rule put_n3_inv; auto simp: world_inv_def)
qed (use i in \<open>auto simp: listen_enb_def hbind_def hand_basic http_error_def split: error.split\<close>)

section \<open>Creating and deleting a node\<close>

lemma gnb_pair: "m w = (r, w') \<Longrightarrow> gf.obeys k u m \<Longrightarrow> world_inv w \<Longrightarrow> world_inv w'"
  by (drule (1) gf.obeysD [rotated]) (rule gnb_frame_inv)

lemma enb_pair: "m w = (r, w') \<Longrightarrow> ef.obeys k u m \<Longrightarrow> world_inv w \<Longrightarrow> world_inv w'"
  by (drule (1) ef.obeysD [rotated]) (rule enb_frame_inv)

lemma bring_up_gnb_inv:
  assumes "world_inv w" "k \<in> dom (gnbs (wStore w))" "wGTPU w k = None"
  shows "world_inv (snd (bring_up_gnb E req a k w))"
proof -
  let ?m = "if cg_EnableGTPU req then listen_gnb E k (or_default a (cg_GNBN3Address req)) else hret ()"
  obtain r w1 where m: "?m w = (r, w1)" by fastforce
  have "world_inv w1"
    using listen_gnb_inv [OF assms, of E "or_default a (cg_GNBN3Address req)"] m assms(1)
    by (auto simp: hand_basic split: if_splits)
  then show ?thesis
    using gnb_pair [OF _ obeys_ng_setup [of k "[]" E req]] m
    by (cases r) (auto simp: bring_up_gnb_def hbind_def intro: surjective_pairing)
qed

lemma bring_up_enb_inv:
  assumes "world_inv w" "k \<in> dom (enbs (wStore w))" "wGTPU w k = None"
  shows "world_inv (snd (bring_up_enb E req d a k w))"
proof -
  let ?m = "if ce_EnableGTPU req then listen_enb E k (or_default a (ce_ENBN3Address req)) else hret ()"
  obtain r w1 where m: "?m w = (r, w1)" by fastforce
  have "world_inv w1"
    using listen_enb_inv [OF assms, of E "or_default a (ce_ENBN3Address req)"] m assms(1)
    by (auto simp: hand_basic split: if_splits)
  then show ?thesis
    using enb_pair [OF _ obeys_s1_setup [of k "[]" E req d]] m
    by (cases r) (auto simp: bring_up_enb_def hbind_def intro: surjective_pairing)
qed

text \<open>What guards a creation either lets the result through or removes the node.\<close>

lemma teardown_cases:
  assumes "teardown_on_error td m w = (r, w')"
  shows "(\<exists>p. m w = (Inl (Panic p), w') \<and> r = Inl (Panic p)) \<or>
    (\<exists>e w1. m w = (Inl e, w1) \<and> r = Inl e \<and> w' = td w1) \<or> (\<exists>x. m w = (Inr x, w') \<and> r = Inr x)"
  using assms by (auto simp: teardown_on_error_def split: prod.splits sum.splits error.splits)

text \<open>The three ways a creation ends: refused before anything is registered, up, or taken down.\<close>

lemma handleCreateGNB_outcome:
  assumes i: "world_inv w" and h: "handleCreateGNB E body w = (r, w')"
  shows "(w' = w \<and> (\<exists>e. r = Inl e)) \<or>
    (\<exists>req a t w1. body = Inr req \<and> DialNGAP E a (cg_AMFAddress req) = Inr t \<and>
      register_gnb req a t w = (Inr (dec (Suc (nextID (wStore w)))), w1) \<and>
      teardown_on_error (teardownGNB E (dec (Suc (nextID (wStore w)))))
        (bring_up_gnb E req a (dec (Suc (nextID (wStore w))))) w1 = (r, w'))"
proof (cases body)
  case (Inr req)
  let ?a = "or_default ''0.0.0.0'' (cg_GNBN2Address req)"
  show ?thesis
  proof (cases "cg_AMFAddress req \<noteq> [] \<and> (\<exists>t. DialNGAP E ?a (cg_AMFAddress req) = Inr t)")
    case True
    then obtain t where t: "DialNGAP E ?a (cg_AMFAddress req) = Inr t" by blast
    obtain s w1 where g: "register_gnb req ?a t w = (s, w1)" by fastforce
    with register_gnb_result [OF i dial_open(1) [OF t] g] h Inr t True show ?thesis
      by (intro disjI2 exI [of _ req] exI [of _ ?a] exI [of _ t] exI [of _ w1])
         (simp add: handleCreateGNB_def parse_body_def hand_simps Let_def hbind_def)
  next
    case False
    then show ?thesis using h Inr
      by (cases "DialNGAP E ?a (cg_AMFAddress req)")
         (auto simp: handleCreateGNB_def parse_body_def hand_simps Let_def hbind_def http_error_def
           split: error.splits if_splits)
  qed
qed (use h in \<open>auto simp: handleCreateGNB_def parse_body_def hbind_def hand_basic http_error_def split: error.splits\<close>)

lemma handleCreateENB_outcome:
  assumes i: "world_inv w" and h: "handleCreateENB E body w = (r, w')"
  shows "(w' = w \<and> (\<exists>e. r = Inl e)) \<or>
    (\<exists>req a t d w1. body = Inr req \<and> DialS1AP E a (ce_MMEAddress req) = Inr t \<and>
      register_enb req a t w = (Inr (dec (Suc (nextID (wStore w)))), w1) \<and>
      teardown_on_error (teardownENB E (dec (Suc (nextID (wStore w)))))
        (bring_up_enb E req d a (dec (Suc (nextID (wStore w))))) w1 = (r, w'))"
proof (cases body)
  case (Inr req)
  let ?a = "or_default ''0.0.0.0'' (ce_ENBS1Address req)"
  show ?thesis
  proof (cases "ce_MMEAddress req \<noteq> [] \<and> check_enb_tac req = Inr () \<and>
      (\<exists>d t. encodeS1SetupAttempt (envS1Enc E) req = Inr d \<and> DialS1AP E ?a (ce_MMEAddress req) = Inr t)")
    case True
    then obtain d t where t: "DialS1AP E ?a (ce_MMEAddress req) = Inr t" "encodeS1SetupAttempt (envS1Enc E) req = Inr d"
      by blast
    obtain s w1 where g: "register_enb req ?a t w = (s, w1)" by fastforce
    with register_enb_result [OF i dial_open(2) [OF t(1)] g] h Inr t True show ?thesis
      by (intro disjI2 exI [of _ req] exI [of _ ?a] exI [of _ t] exI [of _ d] exI [of _ w1])
         (simp add: handleCreateENB_def parse_body_def hand_simps Let_def hbind_def)
  next
    case False
    then show ?thesis using h Inr
      by (cases "check_enb_tac req"; cases "encodeS1SetupAttempt (envS1Enc E) req"; cases "DialS1AP E ?a (ce_MMEAddress req)")
         (auto simp: handleCreateENB_def parse_body_def hand_simps Let_def hbind_def http_error_def
           split: error.splits if_splits)
  qed
qed (use h in \<open>auto simp: handleCreateENB_def parse_body_def hbind_def hand_basic http_error_def split: error.splits\<close>)

lemma bring_up_gnb_enbs:
  assumes "bring_up_gnb E req a k w = (r, w')"
  shows "enbs (wStore w') = enbs (wStore w) \<and> wS1APTransports w' = wS1APTransports w"
proof -
  let ?m = "if cg_EnableGTPU req then listen_gnb E k (or_default a (cg_GNBN3Address req)) else hret ()"
  obtain s w1 where m: "?m w = (s, w1)" by fastforce
  have "enbs (wStore w1) = enbs (wStore w) \<and> wS1APTransports w1 = wS1APTransports w"
    using m by (auto simp: listen_gnb_def hbind_def hand_basic put_n3_def split: if_splits sum.splits)
  moreover have "gnb_frame k [] w1 (snd (ng_setup E req k w1))"
    using obeys_ng_setup [of k "[]" E req] by (simp add: gf.obeys_def)
  ultimately show ?thesis
    using assms m by (cases s) (auto simp: bring_up_gnb_def hbind_def gnb_frame_def)
qed

lemma bring_up_enb_gnbs:
  assumes "bring_up_enb E req d a k w = (r, w')"
  shows "gnbs (wStore w') = gnbs (wStore w) \<and> wTransports w' = wTransports w"
proof -
  let ?m = "if ce_EnableGTPU req then listen_enb E k (or_default a (ce_ENBN3Address req)) else hret ()"
  obtain s w1 where m: "?m w = (s, w1)" by fastforce
  have "gnbs (wStore w1) = gnbs (wStore w) \<and> wTransports w1 = wTransports w"
    using m by (auto simp: listen_enb_def hbind_def hand_basic put_n3_def split: if_splits sum.splits)
  moreover have "enb_frame k [] w1 (snd (s1_setup E req d k w1))"
    using obeys_s1_setup [of k "[]" E req d] by (simp add: ef.obeys_def)
  ultimately show ?thesis
    using assms m by (cases s) (auto simp: bring_up_enb_def hbind_def enb_frame_def)
qed

lemma elsewhere_restore:
  "elsewhere k m m' \<Longrightarrow> m k = None \<Longrightarrow> m'(k := None) = m"
  by (auto simp: elsewhere_def fun_eq_iff)

lemma elsewhere_same: "elsewhere k m m' \<Longrightarrow> m' k = m k \<Longrightarrow> m' = m"
  by (auto simp: elsewhere_def fun_eq_iff)

definition same_nodes :: "world \<Rightarrow> world \<Rightarrow> bool" where
  "same_nodes w w' = (gnbs (wStore w') = gnbs (wStore w) \<and> enbs (wStore w') = enbs (wStore w) \<and>
     wTransports w' = wTransports w \<and> wS1APTransports w' = wS1APTransports w \<and> wGTPU w' = wGTPU w)"

lemma created_gnb:
  assumes i: "world_inv w" and h: "handleCreateGNB E body w = (r, w')"
  shows "world_inv w' \<and> node_local (dec (Suc (nextID (wStore w)))) w w' \<and> (\<forall>e. r = Inl e \<longrightarrow> (\<forall>p. e \<noteq> Panic p) \<longrightarrow> same_nodes w w')"
  using handleCreateGNB_outcome [OF i h]
proof (elim disjE exE conjE)
  fix req a t w1
  let ?k = "dec (Suc (nextID (wStore w)))"
  assume d: "DialNGAP E a (cg_AMFAddress req) = Inr t" and g: "register_gnb req a t w = (Inr ?k, w1)"
    and td: "teardown_on_error (teardownGNB E ?k) (bring_up_gnb E req a ?k) w1 = (r, w')"
  note f = inv_fresh [OF i]
  from register_gnb_result [OF i dial_open(1) [OF d] g]
  have w1: "world_inv w1" "node_local ?k w w1" "?k \<in> dom (gnbs (wStore w1))" "wGTPU w1 ?k = None"
    "enbs (wStore w1) = enbs (wStore w)" "wS1APTransports w1 = wS1APTransports w" using f by auto
  obtain s w2 where b: "bring_up_gnb E req a ?k w1 = (s, w2)" by fastforce
  have w2: "world_inv w2" "node_local ?k w w2" "enbs (wStore w2) = enbs (wStore w)" "wS1APTransports w2 = wS1APTransports w"
    using bring_up_gnb_inv [OF w1(1,3,4), of E req a] b bring_up_gnb_enbs [OF b] w1
      local_trans [OF w1(2), of w2] nl.obeysD [OF obeys_bring_up(1) b] by simp_all
  have tn: "node_local ?k w (teardownGNB E ?k w2)" by (rule local_trans [OF w2(2) local_teardown(1)])
  have sn: "same_nodes w (teardownGNB E ?k w2)"
    using teardownGNB_inv [OF w2(1), of E ?k] w2 f unfolding same_nodes_def node_local_def
    by (simp add: elsewhere_restore)
  show ?thesis
    using teardown_cases [OF td] b w2 tn sn teardownGNB_inv [OF w2(1), of E ?k]
    by auto
qed (use i in \<open>auto simp: nl.rel_refl same_nodes_def\<close>)

lemma created_enb:
  assumes i: "world_inv w" and h: "handleCreateENB E body w = (r, w')"
  shows "world_inv w' \<and> node_local (dec (Suc (nextID (wStore w)))) w w' \<and> (\<forall>e. r = Inl e \<longrightarrow> (\<forall>p. e \<noteq> Panic p) \<longrightarrow> same_nodes w w')"
  using handleCreateENB_outcome [OF i h]
proof (elim disjE exE conjE)
  fix req a t c w1
  let ?k = "dec (Suc (nextID (wStore w)))"
  assume d: "DialS1AP E a (ce_MMEAddress req) = Inr t" and g: "register_enb req a t w = (Inr ?k, w1)"
    and td: "teardown_on_error (teardownENB E ?k) (bring_up_enb E req c a ?k) w1 = (r, w')"
  note f = inv_fresh [OF i]
  from register_enb_result [OF i dial_open(2) [OF d] g]
  have w1: "world_inv w1" "node_local ?k w w1" "?k \<in> dom (enbs (wStore w1))" "wGTPU w1 ?k = None"
    "gnbs (wStore w1) = gnbs (wStore w)" "wTransports w1 = wTransports w" using f by auto
  obtain s w2 where b: "bring_up_enb E req c a ?k w1 = (s, w2)" by fastforce
  have w2: "world_inv w2" "node_local ?k w w2" "gnbs (wStore w2) = gnbs (wStore w)" "wTransports w2 = wTransports w"
    using bring_up_enb_inv [OF w1(1,3,4), of E req c a] b bring_up_enb_gnbs [OF b] w1
      local_trans [OF w1(2), of w2] nl.obeysD [OF obeys_bring_up(2) b] by simp_all
  have tn: "node_local ?k w (teardownENB E ?k w2)" by (rule local_trans [OF w2(2) local_teardown(2)])
  have sn: "same_nodes w (teardownENB E ?k w2)"
    using teardownENB_inv [OF w2(1), of E ?k] w2 f unfolding same_nodes_def node_local_def
    by (simp add: elsewhere_restore)
  show ?thesis
    using teardown_cases [OF td] b w2 tn sn teardownENB_inv [OF w2(1), of E ?k]
    by auto
qed (use i in \<open>auto simp: nl.rel_refl same_nodes_def\<close>)

lemma deleted_gnb:
  assumes i: "world_inv w" and h: "handleDeleteGNB E k w = (r, w')"
  shows "world_inv w' \<and> node_local k w w' \<and> gnbs (wStore w') = (gnbs (wStore w))(k := None) \<and>
    wTransports w' k = None \<and> wGTPU w' k = None \<and>
    r = (if gnbs (wStore w) k = None then Inl (HTTPErr 404 ''gnb not found'') else Inr (204, ()))"
proof -
  let ?w = "put_n3 k None (close_n3 E k (put_n2 k None (close_n2 E k w)))"
  have w': "w' = ?w\<lparr> wStore := snd (DeleteGNB k (wStore w)) \<rparr>"
    and r: "r = (if gnbs (wStore w) k = None then Inl (HTTPErr 404 ''gnb not found'') else Inr (204, ()))"
    using h by (auto simp: handleDeleteGNB_def hand_simps or_http_def hbind_def DeleteGNB_def put_n2_def put_n3_def
        close_n2_def close_n3_def http_error_def split: if_splits)
  have e: "gnbs (wStore w') = (gnbs (wStore w))(k := None)" "enbs (wStore w') = enbs (wStore w)"
    "nextID (wStore w') = nextID (wStore w)" "wTransports w' = (wTransports w)(k := None)"
    "wGTPU w' = (wGTPU w)(k := None)" "wS1APTransports w' = wS1APTransports w" "wEvents w' = wEvents w"
    "\<forall>(l, c) \<in> set (wDropped w'). (l, c) \<in> set (wDropped w) \<or> c"
    by (auto simp: w' put_n2_def put_n3_def close_n2_def close_n3_def DeleteGNB_def split: option.splits)
  have "world_inv w'"
    using i e unfolding world_inv_def store_inv_def ues_keyed_def links_open_def by (auto split: if_splits)
  moreover have "node_local k w w'" by (simp add: node_local_def e)
  ultimately show ?thesis using e r by simp
qed

lemma deleted_enb:
  assumes i: "world_inv w" and h: "handleDeleteENB E k w = (r, w')"
  shows "world_inv w' \<and> node_local k w w' \<and> enbs (wStore w') = (enbs (wStore w))(k := None) \<and>
    wS1APTransports w' k = None \<and> wGTPU w' k = None \<and>
    r = (if enbs (wStore w) k = None then Inl (HTTPErr 404 ''enb not found'') else Inr (204, ()))"
proof -
  let ?w = "put_n3 k None (close_n3 E k (put_s1 k None (close_s1 E k w)))"
  have w': "w' = ?w\<lparr> wStore := snd (DeleteENB k (wStore w)) \<rparr>"
    and r: "r = (if enbs (wStore w) k = None then Inl (HTTPErr 404 ''enb not found'') else Inr (204, ()))"
    using h by (auto simp: handleDeleteENB_def hand_simps or_http_def hbind_def DeleteENB_def put_s1_def put_n3_def
        close_s1_def close_n3_def http_error_def split: if_splits)
  have e: "enbs (wStore w') = (enbs (wStore w))(k := None)" "gnbs (wStore w') = gnbs (wStore w)"
    "nextID (wStore w') = nextID (wStore w)" "wS1APTransports w' = (wS1APTransports w)(k := None)"
    "wGTPU w' = (wGTPU w)(k := None)" "wTransports w' = wTransports w" "wEvents w' = wEvents w"
    "\<forall>(l, c) \<in> set (wDropped w'). (l, c) \<in> set (wDropped w) \<or> c"
    by (auto simp: w' put_s1_def put_n3_def close_s1_def close_n3_def DeleteENB_def split: option.splits)
  have "world_inv w'"
    using i e unfolding world_inv_def store_inv_def ues_keyed_def links_open_def by (auto split: if_splits)
  moreover have "node_local k w w'" by (simp add: node_local_def e)
  ultimately show ?thesis using e r by simp
qed

section \<open>The contract of the lifecycle requests\<close>

text \<open>C15. Creating a gNB or an eNB either succeeds or changes no node: when the answer is an error,
  the nodes, transports and endpoints are exactly what they were, and every association the
  attempt had opened was closed before it was forgotten.\<close>

theorem failed_creation_leaves_no_node:
  assumes "world_inv w" "\<forall>p. e \<noteq> Panic p"
    and "handleCreateGNB E gbody w = (Inl e, w') \<or> handleCreateENB E ebody w = (Inl e, w')"
  shows "same_nodes w w' \<and> (\<forall>(l, c) \<in> set (wDropped w'). c)"
proof -
  have "world_inv w' \<and> same_nodes w w'"
    using assms(2,3) created_gnb [OF assms(1)] created_enb [OF assms(1)] by metis
  then show ?thesis by (simp add: world_inv_def)
qed

definition sample_gnb_request :: CreateGNBRequest where
  "sample_gnb_request = \<lparr> cg_AMFAddress = ''10.0.0.9'', cg_GNBN2Address = [], cg_MCC = ''001'', cg_MNC = ''01'',
     cg_TAC = ''000001'', cg_GNBID = ''000001'', cg_GNBIDBitLength = 24, cg_Name = ''gnb'', cg_SST = 1, cg_SD = [],
     cg_DefaultPagingDRX = None, cg_Slices = [], cg_NGSetupIEs = [], cg_SkipNGSetup = True, cg_RawNGAPPDU = None,
     cg_WaitFor = [], cg_TimeoutMs = 0, cg_EnableGTPU = True, cg_GNBN3Address = [] \<rparr>"

definition sample_pdu :: NGAPPDU where
  "sample_pdu = new_pdu SuccessfulOutcome Proc_NGSetup CriticalityReject NGSetupResponse []"

lemma sample_creation_fails:
  "\<exists>w'. handleCreateGNB (sample_env sample_pdu) (Inr sample_gnb_request) (NewHandler New (\<lambda>l. [])) =
     (Inl (HTTPErr 502 ''gtp-u listen failed''), w')"
  by (simp add: handleCreateGNB_def parse_body_def hand_simps sample_gnb_request_def Let_def DialNGAP_def dialFramed_def
      sample_env_def hbind_def register_gnb_def CreateGNB_def NewHandler_def New_def bring_up_gnb_def listen_gnb_def
      Listen_def teardown_on_error_def or_default_def)

theorem failed_creation_leaves_no_node_witness:
  "\<exists>w'. same_nodes (NewHandler New (\<lambda>l. [])) w' \<and> (\<forall>(l, c) \<in> set (wDropped w'). c)"
proof -
  obtain w' where "handleCreateGNB (sample_env sample_pdu) (Inr sample_gnb_request) (NewHandler New (\<lambda>l. [])) =
      (Inl (HTTPErr 502 ''gtp-u listen failed''), w')"
    using sample_creation_fails by blast
  then show ?thesis
    using failed_creation_leaves_no_node [OF NewHandler_inv, of "HTTPErr 502 ''gtp-u listen failed''"] by blast
qed

lemma bring_up_gnb_up:
  assumes "bring_up_gnb E req a k w1 = (Inr (n, resp), w2)" "wGTPU w1 k = None"
    and "\<exists>g. gnbs (wStore w1) k = Some g" "wTransports w1 k = Some t"
  shows "n = 201 \<and> cr_GNBID resp = k \<and> (\<exists>g. gnbs (wStore w2) k = Some g) \<and>
    (\<exists>t'. wTransports w2 k = Some t' \<and> same_link t t') \<and> (wGTPU w2 k \<noteq> None) = cg_EnableGTPU req"
proof -
  let ?m = "if cg_EnableGTPU req then listen_gnb E k (or_default a (cg_GNBN3Address req)) else hret ()"
  obtain u v where m: "?m w1 = (Inr u, v)" and s: "ng_setup E req k v = (Inr (n, resp), w2)"
    using assms(1) by (auto simp: bring_up_gnb_def hbind_eq_Inr)
  have v: "\<exists>g. gnbs (wStore v) k = Some g" "wTransports v k = Some t" "(wGTPU v k \<noteq> None) = cg_EnableGTPU req"
    using m assms(2-4) by (auto simp: listen_gnb_def hbind_eq_Inr hand_basic put_n3_def split: if_splits)
  have "gnb_frame k [] v w2" by (rule gf.obeysD [OF obeys_ng_setup s])
  then have f: "rel_option (gnb_change []) (gnbs (wStore v) k) (gnbs (wStore w2) k)"
    "rel_option same_link (wTransports v k) (wTransports w2 k)" "rel_option same_endpoint (wGTPU v k) (wGTPU w2 k)"
    by (simp_all add: gnb_frame_def)
  have "n = 201 \<and> cr_GNBID resp = k"
    using s by (auto simp: ng_setup_def hand_basic hbind_eq_Inr split: if_splits)
  then show ?thesis
    using v f by (auto simp: option_rel_Some1 elim: option.rel_cases)
qed



text \<open>Deleting a node that exists answers 204 and forgets the node, its transport and its
  endpoint, both closed first; deleting one that does not answers 404; either way no other node is
  touched.\<close>

theorem deletion_frees_node:
  assumes "world_inv w" "handleDeleteGNB E k w = (r, w1)" "handleDeleteENB E k w = (s, w2)"
  shows "r = (if gnbs (wStore w) k = None then Inl (HTTPErr 404 ''gnb not found'') else Inr (204, ())) \<and>
    s = (if enbs (wStore w) k = None then Inl (HTTPErr 404 ''enb not found'') else Inr (204, ())) \<and>
    gnbs (wStore w1) k = None \<and> wTransports w1 k = None \<and> wGTPU w1 k = None \<and>
    enbs (wStore w2) k = None \<and> wS1APTransports w2 k = None \<and> wGTPU w2 k = None \<and>
    node_local k w w1 \<and> node_local k w w2 \<and> (\<forall>(l, c) \<in> set (wDropped w1) \<union> set (wDropped w2). c)"
proof -
  note d = deleted_gnb [OF assms(1,2)] deleted_enb [OF assms(1,3)]
  then have "\<forall>(l, c) \<in> set (wDropped w1). c" "\<forall>(l, c) \<in> set (wDropped w2). c" by (simp_all add: world_inv_def)
  with d show ?thesis by (auto simp: fun_eq_iff)
qed

theorem deletion_frees_node_witness:
  "\<exists>r s w1 w2. r = (if gnbs (wStore (NewHandler New (\<lambda>l. []))) ''1'' = None then Inl (HTTPErr 404 ''gnb not found'') else Inr (204 :: nat, ())) \<and>
    s = (if enbs (wStore (NewHandler New (\<lambda>l. []))) ''1'' = None then Inl (HTTPErr 404 ''enb not found'') else Inr (204 :: nat, ())) \<and>
    gnbs (wStore w1) ''1'' = None \<and> wTransports w1 ''1'' = None \<and> wGTPU w1 ''1'' = None \<and>
    enbs (wStore w2) ''1'' = None \<and> wS1APTransports w2 ''1'' = None \<and> wGTPU w2 ''1'' = None \<and>
    node_local ''1'' (NewHandler New (\<lambda>l. [])) w1 \<and> node_local ''1'' (NewHandler New (\<lambda>l. [])) w2 \<and>
    (\<forall>(l, c) \<in> set (wDropped w1) \<union> set (wDropped w2). c)"
proof -
  obtain r w1 s w2 where
    "handleDeleteGNB (sample_env sample_pdu) ''1'' (NewHandler New (\<lambda>l. [])) = (r, w1)"
    "handleDeleteENB (sample_env sample_pdu) ''1'' (NewHandler New (\<lambda>l. [])) = (s, w2)"
    by fastforce
  then show ?thesis by (intro exI) (rule deletion_frees_node [OF NewHandler_inv])
qed

end
