(* ===== verification/Api_Ue.thy ===== *)
theory Api_Ue
  imports Api_Node
begin

text \<open>
  The UEs of a node: \<open>internal/api/gnb_ue_handlers.go\<close>, \<open>gnb_ue_lifecycle_handlers.go\<close>,
  \<open>gnb_await_handlers.go\<close> and their eNB counterparts.
\<close>

section \<open>Lookups\<close>

text \<open>The order of the checks of a UE endpoint: the node, then the UE.\<close>

definition find_gnb_ue :: "string \<Rightarrow> string \<Rightarrow> (world, GNBContext \<times> UEContext) hand" where
  "find_gnb_ue k u = hbind (find_gnb k) (\<lambda>gnb.
     hbind (the_or 404 ''ue not found'' (GetUE u gnb)) (\<lambda>ue. hret (gnb, ue)))"

definition find_enb_ue :: "string \<Rightarrow> string \<Rightarrow> (world, ENBContext \<times> UEEPSContext) hand" where
  "find_enb_ue k u = hbind (find_enb k) (\<lambda>enb.
     hbind (the_or 404 ''ue not found'' (GetUE_EPS u enb)) (\<lambda>ue. hret (enb, ue)))"

text \<open>An operation through a pointer to a node.\<close>

definition gnb_op :: "string \<Rightarrow> (GNBContext, 'a) hand \<Rightarrow> (world, 'a) hand" where
  "gnb_op k f = (\<lambda>w. case gnbs (wStore w) k of None \<Rightarrow> (nil_deref, w)
     | Some g \<Rightarrow> (fst (f g), w\<lparr> wStore := update_gnb k (\<lambda>g. snd (f g)) (wStore w) \<rparr>))"

definition enb_op :: "string \<Rightarrow> (ENBContext, 'a) hand \<Rightarrow> (world, 'a) hand" where
  "enb_op k f = (\<lambda>w. case enbs (wStore w) k of None \<Rightarrow> (nil_deref, w)
     | Some e \<Rightarrow> (fst (f e), w\<lparr> wStore := update_enb k (\<lambda>e. snd (f e)) (wStore w) \<rparr>))"

section \<open>5G UEs\<close>

definition handleCreateGNBUE ::
  "('priv, 'pub) api_env \<Rightarrow> string \<Rightarrow> CreateGNBUERequest result \<Rightarrow> (world, nat \<times> CreateGNBUEResponse) hand" where
  "handleCreateGNBUE E k body =
     hbind (find_gnb k) (\<lambda>gnb.
     hbind (parse_body body) (\<lambda>req.
     hbind (hreq (cu_SUPI req \<noteq> []) (HTTPErr 400 ''supi is required'')) (\<lambda>_.
     hbind (hreq (cu_K req \<noteq> []) (HTTPErr 400 ''k is required'')) (\<lambda>_.
     hbind (hreq (cu_OPc req \<noteq> []) (HTTPErr 400 ''opc is required'')) (\<lambda>_.
     hbind (gnb_op k (\<lambda>g. case AllocateRANUENGAPID g of (n, g') \<Rightarrow> (Inr n, g'))) (\<lambda>ranUeNgapID.
     hbind (hlift (http_error 400 ''failed to create UE context''
              (NewUEContext (envSuci E) (envKeys E) (dec_int ranUeNgapID) ranUeNgapID (int (length (gMNC gnb)))
                 \<lparr> oSUPI = cu_SUPI req, oK = cu_K req, oOPc = cu_OPc req, oAMF = cu_AMF req, oSQN = cu_SQN req,
                   oSST = cu_SST req, oSD = cu_SD req, oDNN = cu_DNN req, oRoutingIndicator = cu_RoutingIndicator req,
                   oProtectionScheme = cu_ProtectionScheme req, oPublicKeyID = cu_PublicKeyID req,
                   oPublicKeyHex = cu_PublicKeyHex req, oPDUSessionID = cu_PDUSessionID req,
                   oPDUSessionType = cu_PDUSessionType req, oIMEISV = cu_IMEISV req,
                   oUESecurityCapability = cu_UESecurityCapability req \<rparr>))) (\<lambda>ue.
     hbind (gnb_op k (\<lambda>g. (Inr (), CreateUE ue g))) (\<lambda>_.
       hret (201, \<lparr> cw_UEID = uID ue, cw_SUPI = uSUPI ue, cw_SUCI = uSuciString ue, cw_RANUENGAPID = uRANUENGAPID ue \<rparr>)))))))))"

text \<open>The sessions in the order of their identities, which is what sorting the keys gives.\<close>

definition sessions_by_id :: "UEContext \<Rightarrow> GNBUESession list" where
  "sessions_by_id ue = List.map_filter (\<lambda>i. map_option
     (\<lambda>s. \<lparr> gz_PDUSessionID = psPDUSessionID s, gz_DNN = psDNN s, gz_UEIP = psUEIP s \<rparr>) (uPDUSessions ue (of_nat i))) [0..<256]"

definition default_ue_ip :: "UEContext \<Rightarrow> string" where
  "default_ue_ip ue = (case uPDUSessions ue (uPDUSessionID ue) of Some d \<Rightarrow> psUEIP d
     | None \<Rightarrow> (case sessions_by_id ue of [] \<Rightarrow> [] | s # ss \<Rightarrow> gz_UEIP s))"

definition handleGetGNBUE :: "string \<Rightarrow> string \<Rightarrow> (world, nat \<times> GNBUEStateResponse) hand" where
  "handleGetGNBUE k u = hbind (find_gnb_ue k u) (\<lambda>(gnb, ue). hret (200,
     \<lparr> gu_UEID = uID ue, gu_SUPI = uSUPI ue, gu_SUCI = uSuciString ue, gu_IMEISV = uIMEISV ue,
       gu_UEIP = default_ue_ip ue, gu_SecurityActive = uSecurityActive ue, gu_RANUENGAPID = uRANUENGAPID ue,
       gu_AMFUENGAPID = uAMFUENGAPID ue, gu_DefaultPDUSessionID = uPDUSessionID ue,
       gu_Sessions = sessions_by_id ue, gu_DNN = uDNN ue, gu_SST = uSST ue, gu_SD = uSD ue,
       gu_ProtectionScheme = uProtectionScheme ue, gu_RoutingIndicator = uRoutingIndicator ue \<rparr>))"

text \<open>\<open>if v != nil { x = *v }\<close>\<close>

definition patched :: "'a option \<Rightarrow> 'a \<Rightarrow> 'a" where
  "patched v x = (case v of None \<Rightarrow> x | Some y \<Rightarrow> y)"

definition patch_gnb_ue :: "PatchGNBUERequest \<Rightarrow> UEContext \<Rightarrow> UEContext" where
  "patch_gnb_ue req ue = ue\<lparr>
     uK := patched (pt_K req) (uK ue), uOPc := patched (pt_OPc req) (uOPc ue), uAMF := patched (pt_AMF req) (uAMF ue),
     uSQN := patched (pt_SQN req) (uSQN ue), uAMFUENGAPID := patched (pt_AMFUENGAPID req) (uAMFUENGAPID ue),
     uDNN := patched (pt_DNN req) (uDNN ue), uSST := patched (pt_SST req) (uSST ue),
     uSD := patched (pt_SD req) (uSD ue), uIMEISV := patched (pt_IMEISV req) (uIMEISV ue) \<rparr>"

definition handlePatchGNBUE :: "string \<Rightarrow> string \<Rightarrow> PatchGNBUERequest result \<Rightarrow> (world, nat \<times> unit) hand" where
  "handlePatchGNBUE k u body =
     hbind (find_gnb_ue k u) (\<lambda>_.
     hbind (parse_body body) (\<lambda>req.
     hbind (ue_op k u (\<lambda>ue. (Inr (), patch_gnb_ue req ue))) (\<lambda>_. hret (204, ()))))"

definition handleDeleteGNBUE :: "string \<Rightarrow> string \<Rightarrow> (world, nat \<times> unit) hand" where
  "handleDeleteGNBUE k u =
     hbind (find_gnb k) (\<lambda>_.
     hbind (gnb_op k (\<lambda>g. case DeleteUE u g of (ok, g') \<Rightarrow> (Inr ok, g'))) (\<lambda>ok.
     hbind (hreq ok (HTTPErr 404 ''ue not found'')) (\<lambda>_. hret (204, ()))))"

section \<open>Waiting for NGAP messages\<close>

definition ueNGAPMatcher :: "int \<Rightarrow> int \<Rightarrow> NGAPResponse \<Rightarrow> bool" where
  "ueNGAPMatcher ranID amfID resp =
     (let msgRan = nr_RANUENGAPID resp; msgAmf = nr_AMFUENGAPID resp in
      if msgRan = None \<and> msgAmf = None then True
      else if msgRan = Some ranID then True
      else if amfID \<noteq> 0 \<and> msgAmf = Some amfID then True
      else False)"

definition find_n2 :: "string \<Rightarrow> (world, unit) hand" where
  "find_n2 k = (\<lambda>w. (case wTransports w k of
     None \<Rightarrow> Inl (HTTPErr 400 ''gnb has no active SCTP transport'') | Some t \<Rightarrow> Inr (), w))"

definition decodeNASFromNGAP ::
  "aka_lib \<Rightarrow> nas5_lib \<Rightarrow> NGAPResponse \<Rightarrow> UEContext \<Rightarrow> NASResponse option result \<times> UEContext" where
  "decodeNASFromNGAP A L ngapResp ue = (case nr_NasPDU ngapResp of
      None \<Rightarrow> (Inr None, ue)
    | Some h \<Rightarrow> (case hex_decode h of
          Inl e \<Rightarrow> (Inr None, ue)
        | Inr nasPDUBytes \<Rightarrow> (case decodeGNBDownlinkNAS A L nasPDUBytes ue of
              (r, ue') \<Rightarrow> (rbind r (\<lambda>(nasResp, mac). Inr nasResp), ue'))))"

definition handleAwaitGNBUEMessage ::
  "('priv, 'pub) api_env \<Rightarrow> string \<Rightarrow> string \<Rightarrow> AwaitRequest result \<Rightarrow> (world, nat \<times> SendGNBUENGAPResponse) hand" where
  "handleAwaitGNBUEMessage E k u body =
     hbind (find_gnb_ue k u) (\<lambda>(gnb, ue).
     hbind (find_n2 k) (\<lambda>_.
     hbind (hlift (decodeAwaitRequest body)) (\<lambda>req.
     hbind (or_http 504 ''waiting for messages''
              (n2_wait k (Some (ueNGAPMatcher (uRANUENGAPID ue) (uAMFUENGAPID ue))) (pqTimeout req) (pqMessageTypes req))) (\<lambda>ngapResp.
     hbind (ue_op k u (decodeNASFromNGAP (envAKA E) (envNAS5 E) ngapResp)) (\<lambda>nas.
       hret (200, \<lparr> xr_NGAP = Some ngapResp, xr_NAS = nas, xr_MACVerified = None \<rparr>))))))"

definition handleAwaitGNBMessage ::
  "string \<Rightarrow> AwaitRequest result \<Rightarrow> (world, nat \<times> SendGNBUENGAPResponse) hand" where
  "handleAwaitGNBMessage k body =
     hbind (find_gnb k) (\<lambda>_.
     hbind (find_n2 k) (\<lambda>_.
     hbind (hlift (decodeAwaitRequest body)) (\<lambda>req.
     hbind (or_http 504 ''waiting for messages'' (n2_wait k None (pqTimeout req) (pqMessageTypes req))) (\<lambda>ngapResp.
       hret (200, \<lparr> xr_NGAP = Some ngapResp, xr_NAS = None, xr_MACVerified = None \<rparr>)))))"

section \<open>EPS UEs\<close>

definition TrimPrefix :: "string \<Rightarrow> string \<Rightarrow> string" where
  "TrimPrefix s p = (if take (length p) s = p then drop (length p) s else s)"

definition with_network_capability :: "string \<Rightarrow> UEEPSContext \<Rightarrow> UEEPSContext result" where
  "with_network_capability h ue =
     (if h \<noteq> [] then rbind (http_error 400 ''ue_network_capability must be hex'' (hex_decode h)) (\<lambda>c.
        Inr (ue\<lparr> vUENetworkCapability := Some c \<rparr>)) else Inr ue)"

definition handleCreateENBUE :: "string \<Rightarrow> CreateENBUERequest result \<Rightarrow> (world, nat \<times> CreateENBUEResponse) hand" where
  "handleCreateENBUE k body =
     hbind (find_enb k) (\<lambda>_.
     hbind (parse_body body) (\<lambda>req.
     let imsi = TrimPrefix (ceu_IMSI req) ''imsi-'' in
     hbind (hreq (imsi \<noteq> []) (HTTPErr 400 ''imsi is required'')) (\<lambda>_.
     hbind (enb_op k (\<lambda>e. case AllocateENBUES1APID e of (n, e') \<Rightarrow> (Inr n, e'))) (\<lambda>enbUES1APID.
     hbind (hlift (with_network_capability (ceu_UENetworkCapability req)
              (NewUEEPSContext (dec (unat enbUES1APID)) enbUES1APID
                 \<lparr> oeIMSI = imsi, oeIMEISV = ceu_IMEISV req, oeK = ceu_K req, oeOPc = ceu_OPc req,
                   oeAMF = ceu_AMF req, oeSQN = ceu_SQN req \<rparr>))) (\<lambda>ue.
     hbind (enb_op k (\<lambda>e. (Inr (), CreateUE_EPS ue e))) (\<lambda>_.
       hret (201, \<lparr> cev_UEID = vID ue, cev_IMSI = vIMSI ue, cev_ENBUES1APID = vENBUES1APID ue \<rparr>)))))))"

text \<open>The code ranges over the map of bearers in an order the language leaves open: \<open>order\<close>.\<close>

definition bearers_in_order :: "u8 list \<Rightarrow> UEEPSContext \<Rightarrow> ENBUEBearer list" where
  "bearers_in_order order ue = List.map_filter (\<lambda>i. map_option
     (\<lambda>b. \<lparr> eb_EBI = ebEBI b, eb_APN = ebAPN b, eb_UEIP = ebUEIP b \<rparr>) (vBearers ue i)) order"

definition handleGetENBUE :: "u8 list \<Rightarrow> string \<Rightarrow> string \<Rightarrow> (world, nat \<times> ENBUEStateResponse) hand" where
  "handleGetENBUE order k u = hbind (find_enb_ue k u) (\<lambda>(enb, ue). hret (200,
     \<lparr> eu_UEID = vID ue, eu_IMSI = vIMSI ue, eu_IMEISV = vIMEISV ue, eu_UEIP = vUEIP ue,
       eu_SecurityActive = vSecurityActive ue, eu_MMEUES1APID = vMMEUES1APID ue,
       eu_ENBUES1APID = vENBUES1APID ue, eu_DefaultEBI = vEPSBearerID ue, eu_Bearers = bearers_in_order order ue \<rparr>))"

definition patch_enb_ue :: "PatchENBUERequest \<Rightarrow> UEEPSContext \<Rightarrow> UEEPSContext" where
  "patch_enb_ue req ue = ue\<lparr>
     vIMEISV := patched (pe_IMEISV req) (vIMEISV ue), vK := patched (pe_K req) (vK ue),
     vOPc := patched (pe_OPc req) (vOPc ue), vAMF := patched (pe_AMF req) (vAMF ue),
     vSQN := patched (pe_SQN req) (vSQN ue), vMMEUES1APID := patched (pe_MMEUES1APID req) (vMMEUES1APID ue) \<rparr>"

definition handlePatchENBUE :: "string \<Rightarrow> string \<Rightarrow> PatchENBUERequest result \<Rightarrow> (world, nat \<times> unit) hand" where
  "handlePatchENBUE k u body =
     hbind (find_enb_ue k u) (\<lambda>_.
     hbind (parse_body body) (\<lambda>req.
     hbind (ue_op_EPS k u (\<lambda>ue. (Inr (), patch_enb_ue req ue))) (\<lambda>_. hret (204, ()))))"

definition handleDeleteENBUE :: "string \<Rightarrow> string \<Rightarrow> (world, nat \<times> unit) hand" where
  "handleDeleteENBUE k u =
     hbind (find_enb k) (\<lambda>_.
     hbind (enb_op k (\<lambda>e. case DeleteUE_EPS u e of (ok, e') \<Rightarrow> (Inr ok, e'))) (\<lambda>ok.
     hbind (hreq ok (HTTPErr 404 ''ue not found'')) (\<lambda>_. hret (204, ()))))"

section \<open>Waiting for S1AP messages\<close>

text \<open>The identifiers of the UE are 32 bits wide, those of a message 64.\<close>

definition s1apUEMatcher :: "u32 \<Rightarrow> u32 \<Rightarrow> S1APResponse \<Rightarrow> bool" where
  "s1apUEMatcher mmeID enbID resp =
     (if sr_MMEUES1APID resp = None \<and> sr_ENBUES1APID resp = None then True
      else if sr_ENBUES1APID resp = Some (uint enbID) then True
      else if mmeID \<noteq> 0 \<and> sr_MMEUES1APID resp = Some (uint mmeID) then True
      else False)"

definition find_s1 :: "string \<Rightarrow> (world, unit) hand" where
  "find_s1 k = (\<lambda>w. (case wS1APTransports w k of
     None \<Rightarrow> Inl (HTTPErr 404 ''enb has no S1-MME association'') | Some t \<Rightarrow> Inr (), w))"

definition decodeNASFromS1AP ::
  "aka_lib \<Rightarrow> eps_lib \<Rightarrow> S1APResponse \<Rightarrow> UEEPSContext \<Rightarrow> NASResponse_EPS option result \<times> UEEPSContext" where
  "decodeNASFromS1AP A L resp ue = (case sr_NASPDU resp of
      None \<Rightarrow> (Inr None, ue)
    | Some h \<Rightarrow> (case hex_decode h of
          Inl e \<Rightarrow> (Inr None, ue)
        | Inr b \<Rightarrow> (case decodeENBDownlinkNAS A L b ue of
              (r, ue') \<Rightarrow> (rbind r (\<lambda>(nasResp, mac). Inr nasResp), ue'))))"

definition handleAwaitENBMessage ::
  "string \<Rightarrow> AwaitRequest result \<Rightarrow> (world, nat \<times> SendENBUES1APResponse) hand" where
  "handleAwaitENBMessage k body =
     hbind (find_enb k) (\<lambda>_.
     hbind (find_s1 k) (\<lambda>_.
     hbind (hlift (decodeAwaitRequest body)) (\<lambda>req.
     hbind (or_http 504 ''waiting for messages'' (s1_wait k None (pqTimeout req) (pqMessageTypes req))) (\<lambda>resp.
       hret (200, \<lparr> xt_S1AP = Some resp, xt_NAS = None, xt_MACVerified = None \<rparr>)))))"

definition handleAwaitENBUEMessage ::
  "('priv, 'pub) api_env \<Rightarrow> string \<Rightarrow> string \<Rightarrow> AwaitRequest result \<Rightarrow> (world, nat \<times> SendENBUES1APResponse) hand" where
  "handleAwaitENBUEMessage E k u body =
     hbind (find_enb_ue k u) (\<lambda>(enb, ue).
     hbind (find_s1 k) (\<lambda>_.
     hbind (hlift (decodeAwaitRequest body)) (\<lambda>req.
     hbind (or_http 504 ''waiting for messages''
              (s1_wait k (Some (s1apUEMatcher (vMMEUES1APID ue) (vENBUES1APID ue))) (pqTimeout req) (pqMessageTypes req))) (\<lambda>resp.
     hbind (ue_op_EPS k u (decodeNASFromS1AP (envAKA E) (envEPS E) resp)) (\<lambda>nas.
       hret (200, \<lparr> xt_S1AP = Some resp, xt_NAS = nas, xt_MACVerified = None \<rparr>))))))"

section \<open>The rule for a request that may change anything of its node\<close>

definition good :: "string \<Rightarrow> world \<Rightarrow> world \<Rightarrow> bool" where
  "good k w w' = (node_local k w w' \<and> (world_inv w \<longrightarrow> world_inv w'))"

interpretation nd: state_rel "good k" for k
  by unfold_locales (auto simp: good_def nl.rel_refl intro: local_trans)

named_theorems good_rules "steps that keep the invariant and stay at their node"

lemma good_frames: "gf.obeys k u m \<Longrightarrow> nd.obeys k m" "ef.obeys k u m \<Longrightarrow> nd.obeys k m"
  unfolding gf.obeys_def ef.obeys_def nd.obeys_def good_def
  by (meson gnb_frame_local gnb_frame_inv enb_frame_local enb_frame_inv)+

lemma good_reads [good_rules]:
  "nd.obeys k (find_gnb j)" "nd.obeys k (find_enb j)" "nd.obeys k (the_or n m v)" "nd.obeys k (parse_body b)"
  "nd.obeys k (find_n2 j)" "nd.obeys k (find_s1 j)"
  using nd.rel_refl
  by (simp_all add: nd.obeys_def find_gnb_def find_enb_def the_or_def parse_body_def find_n2_def find_s1_def hand_basic)

lemma good_find_ue [good_rules]: "nd.obeys k (find_gnb_ue j u)" "nd.obeys k (find_enb_ue j u)"
  unfolding find_gnb_ue_def find_enb_ue_def by (auto intro!: nd.rules good_rules)

lemma good_or_http [good_rules]: "nd.obeys k h \<Longrightarrow> nd.obeys k (or_http n m h)"
  by (simp add: nd.obeys_def or_http_def case_prod_beta)

lemma good_waits [good_rules]:
  "nd.obeys k (n2_wait k f d ts)" "nd.obeys k (s1_wait k f' d ts)" "nd.obeys k (n2_send E k x b)" "nd.obeys k (s1_send E k x b)"
  by (auto intro: good_frames frame_rules)

lemma dom_insert_mem: "k \<in> A \<Longrightarrow> insert k A = A" by auto

lemma keyed_at:
  "ues_keyed s \<Longrightarrow> gnbs s k = Some g \<Longrightarrow> gues g j = Some x \<Longrightarrow> uID x = j"
  "ues_keyed s \<Longrightarrow> enbs s k = Some e \<Longrightarrow> eues e j = Some y \<Longrightarrow> vID y = j"
  unfolding ues_keyed_def by blast+

lemma good_gnb_op:
  assumes "\<And>g. gID (snd (f g)) = gID g"
    and "\<And>g j x. (\<And>j x. gues g j = Some x \<Longrightarrow> uID x = j) \<Longrightarrow> gues (snd (f g)) j = Some x \<Longrightarrow> uID x = j"
  shows "nd.obeys k (gnb_op k f)"
proof (rule nd.obeysI)
  fix w
  show "good k w (snd (gnb_op k f w))"
  proof (cases "gnbs (wStore w) k")
    case (Some g)
    let ?s = "update_gnb k (\<lambda>g. snd (f g)) (wStore w)"
    have "store_inv ?s" if "store_inv (wStore w)"
      by (rule store_inv_step [OF store_step.pointer_gnb that]) (rule assms(1))
    moreover have "ues_keyed ?s" if k: "ues_keyed (wStore w)"
    proof -
      have "uID x = j" if h: "gnbs ?s i = Some h" "gues h j = Some x" for i h j x
      proof (cases "i = k")
        case True
        then have "h = snd (f g)" using h(1) Some by simp
        with h(2) show ?thesis using assms(2) [of g j x] keyed_at(1) [OF k Some] by blast
      next
        case False
        then show ?thesis using h keyed_at(1) [OF k] by simp
      qed
      then show ?thesis using k by (simp add: ues_keyed_def)
    qed
    ultimately have "world_inv w \<longrightarrow> world_inv (w\<lparr> wStore := ?s \<rparr>)" by (simp add: world_inv_def links_open_def del: update_gnb_simps(1))
    then show ?thesis using Some by (simp add: gnb_op_def good_def local_puts(7))
  qed (simp add: gnb_op_def nd.rel_refl)
qed

lemma good_enb_op:
  assumes "\<And>e. eID (snd (f e)) = eID e"
    and "\<And>e j x. (\<And>j x. eues e j = Some x \<Longrightarrow> vID x = j) \<Longrightarrow> eues (snd (f e)) j = Some x \<Longrightarrow> vID x = j"
  shows "nd.obeys k (enb_op k f)"
proof (rule nd.obeysI)
  fix w
  show "good k w (snd (enb_op k f w))"
  proof (cases "enbs (wStore w) k")
    case (Some e)
    let ?s = "update_enb k (\<lambda>e. snd (f e)) (wStore w)"
    have "store_inv ?s" if "store_inv (wStore w)"
      by (rule store_inv_step [OF store_step.pointer_enb that]) (rule assms(1))
    moreover have "ues_keyed ?s" if k: "ues_keyed (wStore w)"
    proof -
      have "vID x = j" if h: "enbs ?s i = Some h" "eues h j = Some x" for i h j x
      proof (cases "i = k")
        case True
        then have "h = snd (f e)" using h(1) Some by simp
        with h(2) show ?thesis using assms(2) [of e j x] keyed_at(2) [OF k Some] by blast
      next
        case False
        then show ?thesis using h keyed_at(2) [OF k] by simp
      qed
      then show ?thesis using k by (simp add: ues_keyed_def)
    qed
    ultimately have "world_inv w \<longrightarrow> world_inv (w\<lparr> wStore := ?s \<rparr>)" by (simp add: world_inv_def links_open_def del: update_enb_simps(1))
    then show ?thesis using Some by (simp add: enb_op_def good_def local_puts(8))
  qed (simp add: enb_op_def nd.rel_refl)
qed

text \<open>A pointer to a UE is reached through its node.\<close>

lemma good_ue_op:
  assumes "\<And>x. uID (snd (f x)) = uID x"
  shows "nd.obeys k (ue_op k u f)"
proof -
  let ?f = "\<lambda>g. case gues g u of None \<Rightarrow> (nil_deref, g) | Some x \<Rightarrow> (fst (f x), set_ue u (snd (f x)) g)"
  have e: "ue_op k u f w = gnb_op k ?f w" for w
    by (auto simp: ue_op_def gnb_op_def gnb_ue_def update_gnb_def map_option_case fun_upd_idem case_prod_beta
        split: option.splits bind_splits)
  show ?thesis
    unfolding ext [OF e]
    by (rule good_gnb_op) (use assms in \<open>auto simp: set_ue_def split: option.splits if_splits\<close>)
qed

lemma good_ue_op_EPS:
  assumes "\<And>x. vID (snd (f x)) = vID x"
  shows "nd.obeys k (ue_op_EPS k u f)"
proof -
  let ?f = "\<lambda>e. case eues e u of None \<Rightarrow> (nil_deref, e) | Some x \<Rightarrow> (fst (f x), set_ue_EPS u (snd (f x)) e)"
  have e: "ue_op_EPS k u f w = enb_op k ?f w" for w
    by (auto simp: ue_op_EPS_def enb_op_def enb_ue_def update_enb_def map_option_case fun_upd_idem case_prod_beta
        split: option.splits bind_splits)
  show ?thesis
    unfolding ext [OF e]
    by (rule good_enb_op) (use assms in \<open>auto simp: set_ue_EPS_def split: option.splits if_splits\<close>)
qed

section \<open>Messages keep the subscriber\<close>

lemma same_subscriber_step:
  "same_subscriber x (x\<lparr> uDLCount := d \<rparr>)"
  "same_subscriber x (x\<lparr> uULCount := d \<rparr>)"
  "same_subscriber x (x\<lparr> uCipheringAlg := a, uIntegrityAlg := b \<rparr>)"
  by (simp_all add: same_subscriber_def)

lemma derived_keys_length:
  "Derive5GNASKeys A k c i = Inr (a, b) \<Longrightarrow> length a = 16 \<and> length b = 16"
  "DeriveEPSNASKeys A k c i = Inr (a, b) \<Longrightarrow> length a = 16 \<and> length b = 16"
  by (auto simp: Derive5GNASKeys_def DeriveEPSNASKeys_def rbind_eq_Inr slice_def split: if_splits)

lemma same_subscriber_establish: "same_subscriber ue (snd (establishGNBSecurityContext A smc ue))"
  by (auto simp: establishGNBSecurityContext_def same_subscriber_def Let_def
      split: option.split sum.split error.split prod.split dest!: derived_keys_length intro: well_typed_step(1))

lemma same_subscriber_new_context: "same_subscriber ue (snd (new_context_step A L m ue))"
  using same_subscriber_establish
  by (auto simp: new_context_step_def split: sum.split option.split)

lemma same_subscriber_NextDL: "same_subscriber ue (snd (NextDL q ue))"
  by (simp add: NextDL_pair same_subscriber_step)

lemma same_subscriber_decode: "same_subscriber ue (snd (decodeGNBDownlinkNAS A L m ue))"
proof -
  let ?v = "snd (NextDL (m ! 6) ue)"
  have v: "same_subscriber ue ?v" by (rule same_subscriber_NextDL)
  have w: "same_subscriber ue (snd (new_context_step A L m ?v))"
    by (rule same_trans(3) [OF v same_subscriber_new_context])
  show ?thesis using v w
    by (auto simp: decodeGNBDownlinkNAS_def Let_def case_prod_beta split: sum.split option.split)
qed

lemma same_subscriber_EPS_establish: "same_subscriber_EPS ue (snd (establishENBSecurityContext A smc ue))"
  by (auto simp: establishENBSecurityContext_def same_subscriber_EPS_def Let_def
      split: option.split sum.split error.split prod.split dest!: derived_keys_length intro: well_typed_step(1))

lemma same_subscriber_EPS_new_context: "same_subscriber_EPS ue (snd (new_context_step_EPS A L m ue))"
  using same_subscriber_EPS_establish
  by (auto simp: new_context_step_EPS_def split: sum.split option.split prod.split)

lemma same_subscriber_EPS_NextDL: "same_subscriber_EPS ue (snd (NextDL_EPS q ue))"
  by (simp add: NextDL_EPS_def Let_def same_subscriber_EPS_def)

lemma same_subscriber_EPS_decode: "same_subscriber_EPS ue (snd (decodeENBDownlinkNAS A L m ue))"
proof -
  let ?v = "snd (NextDL_EPS (epsDLSequenceNumber m) ue)"
  have v: "same_subscriber_EPS ue ?v" by (rule same_subscriber_EPS_NextDL)
  have w: "same_subscriber_EPS ue (snd (new_context_step_EPS A L m ?v))"
    by (rule same_trans(4) [OF v same_subscriber_EPS_new_context])
  show ?thesis using v w
    by (auto simp: decodeENBDownlinkNAS_def Let_def case_prod_beta split: sum.split option.split)
qed

lemma same_subscriber_from_ap:
  "same_subscriber ue (snd (decodeNASFromNGAP A L r ue))"
  "same_subscriber_EPS v (snd (decodeNASFromS1AP A L' r' v))"
  using same_subscriber_decode same_subscriber_EPS_decode
  by (auto simp: decodeNASFromNGAP_def decodeNASFromS1AP_def case_prod_beta split: option.split sum.split)

lemma frame_reads [frame_rules]:
  "gf.obeys k u (find_gnb_ue j v)" "gf.obeys k u (find_n2 j)" "ef.obeys k u (find_enb_ue j v)" "ef.obeys k u (find_s1 j)"
proof -
  show "gf.obeys k u (find_n2 j)" "ef.obeys k u (find_s1 j)"
    by (simp_all add: gf.obeys_def ef.obeys_def find_n2_def find_s1_def gnb_frame_refl enb_frame_refl)
  show "gf.obeys k u (find_gnb_ue j v)" unfolding find_gnb_ue_def by (auto intro!: gf.rules frame_rules)
  show "ef.obeys k u (find_enb_ue j v)" unfolding find_enb_ue_def by (auto intro!: ef.rules frame_rules)
qed

lemma await_frames:
  "gf.obeys k u (handleAwaitGNBUEMessage E k u b)" "gf.obeys k u (handleAwaitGNBMessage k b)"
  "ef.obeys k u (handleAwaitENBUEMessage E k u b)" "ef.obeys k u (handleAwaitENBMessage k b)"
  unfolding handleAwaitGNBUEMessage_def handleAwaitGNBMessage_def handleAwaitENBUEMessage_def handleAwaitENBMessage_def
  by (intro gf.rules frame_rules obeys_ue_op same_subscriber_from_ap ef.rules obeys_ue_op_EPS)+

lemma ue_requests_good [good_rules]:
  "nd.obeys k (handleCreateGNBUE E k b1)" "nd.obeys k (handleGetGNBUE k u)" "nd.obeys k (handlePatchGNBUE k u b2)"
  "nd.obeys k (handleDeleteGNBUE k u)" "nd.obeys k (handleCreateENBUE k b3)" "nd.obeys k (handleGetENBUE ord k u)"
  "nd.obeys k (handlePatchENBUE k u b4)" "nd.obeys k (handleDeleteENBUE k u)"
  "nd.obeys k (handleAwaitGNBUEMessage E k u b)" "nd.obeys k (handleAwaitGNBMessage k b)"
  "nd.obeys k (handleAwaitENBUEMessage E k u b)" "nd.obeys k (handleAwaitENBMessage k b)"
proof -
  show "nd.obeys k (handleCreateGNBUE E k b1)"
    unfolding handleCreateGNBUE_def
    by (intro nd.rules good_rules good_gnb_op) (auto simp: AllocateRANUENGAPID_def CreateUE_def Let_def split: if_splits)
  show "nd.obeys k (handleGetGNBUE k u)" "nd.obeys k (handleGetENBUE ord k u)"
    unfolding handleGetGNBUE_def handleGetENBUE_def by (intro nd.rules good_rules)+
  show "nd.obeys k (handlePatchGNBUE k u b2)" "nd.obeys k (handlePatchENBUE k u b4)"
    unfolding handlePatchGNBUE_def handlePatchENBUE_def
    by (intro nd.rules good_rules good_ue_op good_ue_op_EPS; simp add: patch_gnb_ue_def patch_enb_ue_def)+
  show "nd.obeys k (handleDeleteGNBUE k u)"
    unfolding handleDeleteGNBUE_def
    by (intro nd.rules good_rules good_gnb_op) (auto simp: DeleteUE_def split: if_splits)
  show "nd.obeys k (handleDeleteENBUE k u)"
    unfolding handleDeleteENBUE_def
    by (intro nd.rules good_rules good_enb_op) (auto simp: DeleteUE_EPS_def split: if_splits)
  show "nd.obeys k (handleCreateENBUE k b3)"
    unfolding handleCreateENBUE_def
    by (intro nd.rules good_rules good_enb_op) (auto simp: AllocateENBUES1APID_def CreateUE_EPS_def Let_def split: if_splits)
qed (auto intro: good_frames await_frames)

section \<open>What the requests do\<close>

lemma timed_success:
  assumes "timed d (WaitForMessageMatching f types) evs t = (Inr m, t', evs')"
  shows "\<exists>ds j. (\<exists>evs0. arrivals evs = ds @ evs0) \<and> j \<in> set types \<and> matches f m \<and>
    m \<in> set (frames_at t j @ decoded_under (key t) (decode_frame (decode t)) j ds) \<and>
    (\<forall>i. filter (\<lambda>x. \<not> matches f x) (frames_at t' i) =
       filter (\<lambda>x. \<not> matches f x) (frames_at t i @ decoded_under (key t) (decode_frame (decode t)) i ds))"
proof -
  obtain evs1 evs2 where w: "WaitForMessageMatching f types evs1 t = (Inr m, t', evs2)" and e: "evs1 = evs \<or> evs1 = []"
    using assms by (auto simp: timed_def split: if_splits prod.splits)
  from frm.wait_success [of t "key t" "decode t", OF _ w [unfolded WaitForMessageMatching_loop]]
  obtain ds k xs ys where d: "arrivals evs1 = ds @ arrivals evs2" "k \<in> set types" "matches f m"
    "frames_at t k @ decoded_under (key t) (decode_frame (decode t)) k ds = xs @ m # ys"
    "\<forall>j. frames_at t' j = (if j = k then xs @ ys
       else frames_at t j @ decoded_under (key t) (decode_frame (decode t)) j ds)"
    by auto
  have f: "filter (\<lambda>x. \<not> matches f x) (frames_at t' i) =
       filter (\<lambda>x. \<not> matches f x) (frames_at t i @ decoded_under (key t) (decode_frame (decode t)) i ds)" for i
    using d(3,5) by (cases "i = k") (simp_all add: d(4))
  have p: "\<exists>evs0. arrivals evs = ds @ evs0" using d(1) e by auto
  have "m \<in> set (frames_at t k @ decoded_under (key t) (decode_frame (decode t)) k ds)"
    unfolding d(4) by simp
  with d(2,3) f p show ?thesis by (intro exI [of _ ds] exI [of _ k]) simp
qed

lemma find_gnb_ue_eq:
  "find_gnb_ue k u w = (r, w') \<Longrightarrow> w' = w \<and> (r = Inr (g, x) \<longrightarrow> gnbs (wStore w) k = Some g \<and> gnb_ue k u w = Some x)"
  by (auto simp: find_gnb_ue_def find_gnb_def GetGNB_def GetUE_def the_or_def hbind_def hand_basic gnb_ue_def http_error_def
      split: option.splits)

lemma find_gnb_ue_hit:
  "gnbs (wStore w) k = Some g \<Longrightarrow> gues g u = Some x \<Longrightarrow> find_gnb_ue k u w = (Inr (g, x), w)"
  by (simp add: find_gnb_ue_def find_gnb_def GetGNB_def GetUE_def the_or_def hbind_def hand_basic http_error_simps)


text \<open>A PATCH of a UE sets exactly the fields it names: the answer is 204, the UE is the patched
  one, no other UE of any node changes, nothing is sent, and an empty patch is the identity.\<close>

theorem PatchGNBUE_sets_given_fields:
  assumes "gnb_ue k u w = Some x"
  shows "\<exists>w'. handlePatchGNBUE k u (Inr req) w = (Inr (204, ()), w') \<and>
    gnb_ue k u w' = Some (patch_gnb_ue req x) \<and> (\<forall>j v. j \<noteq> k \<or> v \<noteq> u \<longrightarrow> gnb_ue j v w' = gnb_ue j v w) \<and>
    enbs (wStore w') = enbs (wStore w) \<and> wTransports w' = wTransports w \<and> wS1APTransports w' = wS1APTransports w \<and>
    wGTPU w' = wGTPU w \<and> uSUPI (patch_gnb_ue req x) = uSUPI x \<and>
    patch_gnb_ue \<lparr> pt_K = None, pt_OPc = None, pt_AMF = None, pt_SQN = None, pt_AMFUENGAPID = None, pt_DNN = None,
      pt_SST = None, pt_SD = None, pt_IMEISV = None \<rparr> x = x"
proof -
  from assms obtain g where g: "gnbs (wStore w) k = Some g" "gues g u = Some x"
    by (auto simp: gnb_ue_def bind_eq_Some_conv)
  show ?thesis
    by (simp add: handlePatchGNBUE_def hbind_def find_gnb_ue_hit [OF g] parse_body_def hand_basic http_error_def
        ue_op_def assms)
       (auto simp: gnb_ue_def g set_ue_def patch_gnb_ue_def patched_def)
qed

lemma NewUEContext_fields:
  assumes "NewUEContext c kl i n l opts = Inr x"
  shows "uID x = i \<and> uRANUENGAPID x = n \<and> uSUPI x = oSUPI opts \<and> uK x = oK opts \<and> uOPc x = oOPc opts \<and>
    uAMFUENGAPID x = 0 \<and> \<not> uSecurityActive x \<and> uKamf x = []"
  using assms by (auto simp: NewUEContext_def rbind_eq_Inr Let_def split: prod.splits)

text \<open>A created UE is registered under the gNB's next RAN UE NGAP ID with the subscription of the
  request, and no other UE of the gNB changes: unless one is there under that identifier already,
  which a migration can bring about.\<close>

theorem CreateGNBUE_registers:
  assumes "handleCreateGNBUE E k (Inr req) w = (Inr (n, resp), w')" "gnbs (wStore w) k = Some g"
  shows "n = 201 \<and> cw_UEID resp = dec_int (gnextRanUeID g + 1) \<and> cw_RANUENGAPID resp = gnextRanUeID g + 1 \<and>
    (\<exists>x. gnb_ue k (cw_UEID resp) w' = Some x \<and> uSUPI x = cu_SUPI req \<and> uK x = cu_K req \<and> uOPc x = cu_OPc req \<and>
       uRANUENGAPID x = gnextRanUeID g + 1 \<and> uAMFUENGAPID x = 0 \<and> \<not> uSecurityActive x) \<and>
    (\<forall>v. v \<noteq> cw_UEID resp \<longrightarrow> gnb_ue k v w' = gnb_ue k v w) \<and>
    (\<exists>g'. gnbs (wStore w') k = Some g' \<and> gnextRanUeID g' = gnextRanUeID g + 1)"
proof -
  let ?i = "gnextRanUeID g + 1"
  from assms obtain x where x: "NewUEContext (envSuci E) (envKeys E) (dec_int ?i) ?i (int (length (gMNC g)))
      \<lparr> oSUPI = cu_SUPI req, oK = cu_K req, oOPc = cu_OPc req, oAMF = cu_AMF req, oSQN = cu_SQN req,
        oSST = cu_SST req, oSD = cu_SD req, oDNN = cu_DNN req, oRoutingIndicator = cu_RoutingIndicator req,
        oProtectionScheme = cu_ProtectionScheme req, oPublicKeyID = cu_PublicKeyID req,
        oPublicKeyHex = cu_PublicKeyHex req, oPDUSessionID = cu_PDUSessionID req,
        oPDUSessionType = cu_PDUSessionType req, oIMEISV = cu_IMEISV req,
        oUESecurityCapability = cu_UESecurityCapability req \<rparr> = Inr x"
    and w': "n = 201" "resp = \<lparr> cw_UEID = uID x, cw_SUPI = uSUPI x, cw_SUCI = uSuciString x, cw_RANUENGAPID = uRANUENGAPID x \<rparr>"
      "wStore w' = update_gnb k (\<lambda>g. CreateUE x g) (update_gnb k (\<lambda>g. snd (AllocateRANUENGAPID g)) (wStore w))"
    by (auto simp: handleCreateGNBUE_def find_gnb_def GetGNB_def parse_body_def hbind_eq_Inr hand_basic http_error_simps
        hreq_def gnb_op_def AllocateRANUENGAPID_def Let_def split: if_splits)
  note f = NewUEContext_fields [OF x]
  show ?thesis
    using w' f assms(2) by (auto simp: gnb_ue_def CreateUE_def AllocateRANUENGAPID_def Let_def)
qed

section \<open>Concrete runs\<close>

definition sample_message :: "int \<Rightarrow> NGAPResponse" where
  "sample_message i = empty_NGAPResponse\<lparr> nr_MessageType := ''DownlinkNASTransport'', nr_RANUENGAPID := Some i \<rparr>"

text \<open>gNB 1 has UE 1 and two messages queued, the first of them for another UE.\<close>

definition sample_n2 :: "NGAPResponse framed" where
  "sample_n2 = \<lparr> conn_sent = [], ppid = ngapPPID, decode = Decode_NGAP (ngap_instance sample_pdu), key = nr_MessageType,
     closed = False, frames = [''DownlinkNASTransport'' \<mapsto> [sample_message 2, sample_message 1]] \<rparr>"

definition sample_world :: world where
  "sample_world = (NewHandler sample_store (\<lambda>l. []))\<lparr> wTransports := [''1'' \<mapsto> sample_n2] \<rparr>"

lemma sample_world_ue: "gnb_ue ''1'' ''1'' sample_world = Some (sample_ue ''1'')"
  by (simp add: gnb_ue_def sample_world_def NewHandler_def sample_store_def sample_gnb_def sample_ue_def)

lemma sample_world_n2: "wTransports sample_world ''1'' = Some sample_n2"
  by (simp add: sample_world_def)

definition sample_await :: AwaitRequest where
  "sample_await = \<lparr> aqMessageTypes = [''DownlinkNASTransport''], aqTimeoutMs = 100 \<rparr>"

lemma sample_await_run:
  "\<exists>w'. handleAwaitGNBUEMessage (sample_env sample_pdu) ''1'' ''1'' (Inr sample_await) sample_world =
     (Inr (200, \<lparr> xr_NGAP = Some (sample_message 1), xr_NAS = None, xr_MACVerified = None \<rparr>), w')"
proof -
  have g: "gnbs (wStore sample_world) ''1'' = Some (sample_gnb ''1'' [sample_ue ''1''])"
    "gues (sample_gnb ''1'' [sample_ue ''1'']) ''1'' = Some (sample_ue ''1'')"
    by (simp_all add: sample_world_def NewHandler_def sample_store_def sample_gnb_def sample_ue_def)
  have t: "wTransports sample_world ''1'' = Some sample_n2" "wEvents sample_world l = []" for l
    by (simp_all add: sample_world_def NewHandler_def)
  have d: "decodeAwaitRequest (Inr sample_await) = Inr \<lparr> pqMessageTypes = [''DownlinkNASTransport''], pqTimeout = 100000000 \<rparr>"
    by (simp add: decodeAwaitRequest_def sample_await_def waitTimeout_def)
  have w: "timed 100000000 (WaitForMessageMatching (Some (ueNGAPMatcher 1 0)) [''DownlinkNASTransport'']) [] sample_n2 =
      (Inr (sample_message 1), sample_n2\<lparr> frames := [''DownlinkNASTransport'' \<mapsto> [sample_message 2]] \<rparr>, [])"
    by (simp add: timed_def WaitForMessageMatching_def sample_n2_def frames_at_def ueNGAPMatcher_def sample_message_def
        empty_NGAPResponse_def)
  show ?thesis
    by (simp add: handleAwaitGNBUEMessage_def hbind_def find_gnb_ue_hit [OF g] find_n2_def t hand_basic d or_http_def n2_wait_def
        sample_ue_def w http_error_simps)
       (simp add: ue_op_def gnb_ue_def g decodeNASFromNGAP_def sample_message_def empty_NGAPResponse_def hret_def)
qed


definition sample_patch :: PatchGNBUERequest where
  "sample_patch = \<lparr> pt_K = Some ''11'', pt_OPc = None, pt_AMF = None, pt_SQN = None, pt_AMFUENGAPID = Some 9, pt_DNN = None,
      pt_SST = None, pt_SD = None, pt_IMEISV = None \<rparr>"

theorem PatchGNBUE_sets_given_fields_witness:
  "\<exists>w'. handlePatchGNBUE ''1'' ''1'' (Inr sample_patch) sample_world = (Inr (204, ()), w') \<and>
    gnb_ue ''1'' ''1'' w' = Some (patch_gnb_ue sample_patch (sample_ue ''1'')) \<and>
    (\<forall>j v. j \<noteq> ''1'' \<or> v \<noteq> ''1'' \<longrightarrow> gnb_ue j v w' = gnb_ue j v sample_world) \<and>
    enbs (wStore w') = enbs (wStore sample_world) \<and> wTransports w' = wTransports sample_world \<and>
    wS1APTransports w' = wS1APTransports sample_world \<and>
    wGTPU w' = wGTPU sample_world \<and> uSUPI (patch_gnb_ue sample_patch (sample_ue ''1'')) = uSUPI (sample_ue ''1'') \<and>
    patch_gnb_ue \<lparr> pt_K = None, pt_OPc = None, pt_AMF = None, pt_SQN = None, pt_AMFUENGAPID = None, pt_DNN = None,
      pt_SST = None, pt_SD = None, pt_IMEISV = None \<rparr> (sample_ue ''1'') = sample_ue ''1''"
  by (rule PatchGNBUE_sets_given_fields [OF sample_world_ue])

definition sample_ue_request :: CreateGNBUERequest where
  "sample_ue_request = \<lparr> cu_SUPI = ''imsi-001010000000009'', cu_K = ''00'', cu_OPc = ''00'', cu_AMF = [], cu_SQN = [],
     cu_SST = 1, cu_SD = [], cu_DNN = [], cu_RoutingIndicator = [], cu_ProtectionScheme = [], cu_PublicKeyID = [],
     cu_PublicKeyHex = [], cu_PDUSessionID = 1, cu_PDUSessionType = 1, cu_IMEISV = [], cu_UESecurityCapability = [] \<rparr>"

text \<open>The second gNB has no UE and a counter at 0; a UE migrated to it keeps its identifier 1, which
  is the one the gNB gives to the next UE it creates.\<close>

definition after_migration :: world where
  "after_migration = sample_world\<lparr> wStore := MigrateUE ''1'' ''2'' (sample_ue ''1'') None None sample_store \<rparr>"

lemma sample_context:
  "\<exists>x. NewUEContext toy_crypto \<lparr> newX25519 = (\<lambda>b. Inr 7), uncompressP256 = (\<lambda>b. None), newP256 = (\<lambda>b. Inr 7) \<rparr> ''1'' 1 2
     \<lparr> oSUPI = ''imsi-001010000000009'', oK = ''00'', oOPc = ''00'', oAMF = [], oSQN = [], oSST = 1, oSD = [], oDNN = [],
       oRoutingIndicator = [], oProtectionScheme = [], oPublicKeyID = [], oPublicKeyHex = [], oPDUSessionID = 1,
       oPDUSessionType = 1, oIMEISV = [], oUESecurityCapability = [] \<rparr> = Inr x"
proof -
  have "rok (NewUEContext toy_crypto \<lparr> newX25519 = (\<lambda>b. Inr 7), uncompressP256 = (\<lambda>b. None), newP256 = (\<lambda>b. Inr 7) \<rparr> ''1'' 1 2
     \<lparr> oSUPI = ''imsi-001010000000009'', oK = ''00'', oOPc = ''00'', oAMF = [], oSQN = [], oSST = 1, oSD = [], oDNN = [],
       oRoutingIndicator = [], oProtectionScheme = [], oPublicKeyID = [], oPublicKeyHex = [], oPDUSessionID = 1,
       oPDUSessionType = 1, oIMEISV = [], oUESecurityCapability = [] \<rparr>)"
    by code_simp
  then show ?thesis by (simp add: rok_iff)
qed

lemma after_migration_creation:
  "\<exists>resp w'. handleCreateGNBUE (sample_env sample_pdu) ''2'' (Inr sample_ue_request) after_migration = (Inr (201, resp), w')"
proof -
  obtain x where x: "NewUEContext toy_crypto \<lparr> newX25519 = (\<lambda>b. Inr 7), uncompressP256 = (\<lambda>b. None), newP256 = (\<lambda>b. Inr 7) \<rparr> ''1'' 1 2
     \<lparr> oSUPI = ''imsi-001010000000009'', oK = ''00'', oOPc = ''00'', oAMF = [], oSQN = [], oSST = 1, oSD = [], oDNN = [],
       oRoutingIndicator = [], oProtectionScheme = [], oPublicKeyID = [], oPublicKeyHex = [], oPDUSessionID = 1,
       oPDUSessionType = 1, oIMEISV = [], oUESecurityCapability = [] \<rparr> = Inr x"
    using sample_context by blast
  have d: "dec_int 1 = ''1''" by code_simp
  have m: "gnbs (wStore after_migration) ''2'' = Some (CreateUE (sample_ue ''1'') (sample_gnb ''2'' []))"
    by (simp add: after_migration_def MigrateUE_def sample_store_def update_gnb_def)
  have g: "gnextRanUeID (sample_gnb ''2'' []) = 0" "gMNC (sample_gnb ''2'' []) = ''01''"
    by (simp_all add: sample_gnb_def NewGNBContext_def)
  show ?thesis
    by (simp add: handleCreateGNBUE_def find_gnb_def GetGNB_def m parse_body_def hbind_def hand_basic http_error_simps
        hreq_def sample_ue_request_def gnb_op_def AllocateRANUENGAPID_def Let_def CreateUE_def g d sample_env_def x)
qed

theorem CreateGNBUE_registers_witness:
  "\<exists>(resp :: CreateGNBUEResponse) w'. 201 = (201 :: nat) \<and>
    cw_UEID resp = dec_int (gnextRanUeID (CreateUE (sample_ue ''1'') (sample_gnb ''2'' [])) + 1) \<and>
    cw_RANUENGAPID resp = gnextRanUeID (CreateUE (sample_ue ''1'') (sample_gnb ''2'' [])) + 1 \<and>
    (\<exists>x. gnb_ue ''2'' (cw_UEID resp) w' = Some x \<and> uSUPI x = cu_SUPI sample_ue_request \<and> uK x = cu_K sample_ue_request \<and>
       uOPc x = cu_OPc sample_ue_request \<and>
       uRANUENGAPID x = gnextRanUeID (CreateUE (sample_ue ''1'') (sample_gnb ''2'' [])) + 1 \<and> uAMFUENGAPID x = 0 \<and>
       \<not> uSecurityActive x) \<and>
    (\<forall>v. v \<noteq> cw_UEID resp \<longrightarrow> gnb_ue ''2'' v w' = gnb_ue ''2'' v after_migration) \<and>
    (\<exists>g'. gnbs (wStore w') ''2'' = Some g' \<and>
       gnextRanUeID g' = gnextRanUeID (CreateUE (sample_ue ''1'') (sample_gnb ''2'' [])) + 1)"
proof -
  have m: "gnbs (wStore after_migration) ''2'' = Some (CreateUE (sample_ue ''1'') (sample_gnb ''2'' []))"
    by (simp add: after_migration_def MigrateUE_def sample_store_def update_gnb_def)
  obtain resp w' where
    "handleCreateGNBUE (sample_env sample_pdu) ''2'' (Inr sample_ue_request) after_migration = (Inr (201, resp), w')"
    using after_migration_creation by blast
  from CreateGNBUE_registers [OF this m] show ?thesis by blast
qed

text \<open>So the migrated UE is replaced: after the creation the identifier names the new subscriber.\<close>

lemma migrated_ue_replaced:
  "uSUPI (the (gnb_ue ''2'' ''1'' after_migration)) = ''imsi-001010000000001'' \<and>
   (\<exists>resp w' x. handleCreateGNBUE (sample_env sample_pdu) ''2'' (Inr sample_ue_request) after_migration = (Inr (201, resp), w') \<and>
      gnb_ue ''2'' ''1'' w' = Some x \<and> uSUPI x = ''imsi-001010000000009'')"
proof -
  have d: "dec_int 1 = ''1''" by code_simp
  have m: "gnbs (wStore after_migration) ''2'' = Some (CreateUE (sample_ue ''1'') (sample_gnb ''2'' []))"
    by (simp add: after_migration_def MigrateUE_def sample_store_def update_gnb_def)
  have c: "gnextRanUeID (CreateUE (sample_ue ''1'') (sample_gnb ''2'' [])) = 0"
    by (simp add: CreateUE_def sample_gnb_def NewGNBContext_def)
  obtain resp w' where r:
    "handleCreateGNBUE (sample_env sample_pdu) ''2'' (Inr sample_ue_request) after_migration = (Inr (201, resp), w')"
    using after_migration_creation by blast
  obtain x where x: "NewUEContext toy_crypto \<lparr> newX25519 = (\<lambda>b. Inr 7), uncompressP256 = (\<lambda>b. None), newP256 = (\<lambda>b. Inr 7) \<rparr> ''1'' 1 2
     \<lparr> oSUPI = ''imsi-001010000000009'', oK = ''00'', oOPc = ''00'', oAMF = [], oSQN = [], oSST = 1, oSD = [], oDNN = [],
       oRoutingIndicator = [], oProtectionScheme = [], oPublicKeyID = [], oPublicKeyHex = [], oPDUSessionID = 1,
       oPDUSessionType = 1, oIMEISV = [], oUESecurityCapability = [] \<rparr> = Inr x"
    using sample_context by blast
  have g: "gnextRanUeID (sample_gnb ''2'' []) = 0" "gMNC (sample_gnb ''2'' []) = ''01''"
    by (simp_all add: sample_gnb_def NewGNBContext_def)
  have "gnb_ue ''2'' ''1'' w' = Some x"
    using r NewUEContext_fields [OF x]
    by (auto simp: handleCreateGNBUE_def find_gnb_def GetGNB_def m parse_body_def hbind_def hand_basic http_error_simps
        hreq_def sample_ue_request_def gnb_op_def AllocateRANUENGAPID_def Let_def CreateUE_def g d sample_env_def x gnb_ue_def)
  moreover have "uSUPI x = ''imsi-001010000000009''" using NewUEContext_fields [OF x] by simp
  moreover have "gnb_ue ''2'' ''1'' after_migration = Some (sample_ue ''1'')"
    by (simp add: gnb_ue_def m CreateUE_def sample_ue_def)
  ultimately show ?thesis using r by (simp add: sample_ue_def)
qed

end
