(* ===== verification/Api_Gnb_Core.thy ===== *)
theory Api_Gnb_Core
  imports Api_Ue
begin

text \<open>
  What the NGAP messages of a UE share: the helpers of \<open>internal/api/gnb_ngap_handlers.go\<close> and the
  overrides of \<open>gnb_nas_handlers.go\<close>.

  A handler is given the gNB object and reads the UE through its pointer, that is, at each use:
  \<open>read_ue\<close>.  \<open>d\<close> is the duration of the request's context, which bounds all its waits; the
  network's script ends each of them at the first deadline.
\<close>

section \<open>Through the pointer to the UE\<close>

definition read_ue :: "string \<Rightarrow> string \<Rightarrow> (world, UEContext) hand" where
  "read_ue k u = ue_op k u (\<lambda>ue. (Inr ue, ue))"

definition write_ue :: "string \<Rightarrow> string \<Rightarrow> (UEContext \<Rightarrow> UEContext) \<Rightarrow> (world, unit) hand" where
  "write_ue k u f = ue_op k u (\<lambda>ue. (Inr (), f ue))"

definition effectiveRanID :: "SendGNBUENGAPRequest \<Rightarrow> UEContext \<Rightarrow> int" where
  "effectiveRanID req ue = patched (rqRANUENGAPIDOverride req) (uRANUENGAPID ue)"

definition effectiveAmfID :: "SendGNBUENGAPRequest \<Rightarrow> UEContext \<Rightarrow> int" where
  "effectiveAmfID req ue = patched (rqAMFUENGAPIDOverride req) (uAMFUENGAPID ue)"

fun firstNonEmpty :: "string list \<Rightarrow> string" where
  "firstNonEmpty [] = []"
| "firstNonEmpty (v # vs) = (if v \<noteq> [] then v else firstNonEmpty vs)"

section \<open>Overrides\<close>

definition uplinkOverrides :: "SendGNBUENGAPRequest \<Rightarrow> UplinkNASTransportOverrides option" where
  "uplinkOverrides req =
     (if rqAMFUENGAPIDOverride req = None \<and> rqRANUENGAPIDOverride req = None then None
      else Some \<lparr> uoAMFUENGAPID = rqAMFUENGAPIDOverride req, uoRANUENGAPID = rqRANUENGAPIDOverride req \<rparr>)"

definition initialUEOverrides :: "SendGNBUENGAPRequest \<Rightarrow> InitialUEMessageOverrides option" where
  "initialUEOverrides req =
     (if rqRRCEstablishmentCauseOverride req = None \<and> rqUEContextRequestOverride req = None \<and>
         rqRANUENGAPIDOverride req = None then None
      else Some \<lparr> ioRRCEstablishmentCause = rqRRCEstablishmentCauseOverride req,
                  ioUEContextRequest = rqUEContextRequestOverride req,
                  ioRANUENGAPID = rqRANUENGAPIDOverride req \<rparr>)"

definition registrationOverrides :: "SendGNBUENGAPRequest \<Rightarrow> RegistrationRequestOverrides" where
  "registrationOverrides req = \<lparr>
     roNgKSI = rqNgKSI req, roMobileIdentityOverride = rqMobileIdentityOverride req,
     roUESecurityCapabilityOverride = rqUESecurityCapabilityOverride req, roFollowOnRequest = rqFollowOnRequest req,
     roNonCurrentNativeNASKSI = rqNonCurrentNativeNASKSI req, roCapability5GMM = rqCapability5GMM req,
     roRequestedNSSAI = rqRequestedNSSAI req, roLastVisitedRegisteredTAI = rqLastVisitedRegisteredTAI req,
     roS1UENetworkCapability = rqS1UENetworkCapability req, roUplinkDataStatus = rqUplinkDataStatus req,
     roPDUSessionStatus = rqPDUSessionStatus req, roMICOIndication = rqMICOIndication req,
     roUEStatus = rqUEStatus req, roAdditionalGUTI = rqAdditionalGUTI req,
     roAllowedPDUSessionStatus = rqAllowedPDUSessionStatus req, roUEsUsageSetting = rqUEsUsageSetting req,
     roRequestedDRXParameters = rqRequestedDRXParameters req, roEPSNASMessageContainer = rqEPSNASMessageContainer req,
     roLADNIndication = rqLADNIndication req, roPayloadContainer = rqPayloadContainer req,
     roNetworkSlicingIndication = rqNetworkSlicingIndication req, roUpdateType5GS = rqUpdateType5GS req,
     roNASMessageContainer = rqNASMessageContainer req, roEPSBearerContextStatus = rqEPSBearerContextStatus req \<rparr>"

section \<open>Sending and waiting\<close>

text \<open>\<open>if b, err := build; err == nil { _ = t.Send(b, false) }\<close>: neither failure is reported.\<close>

definition send_quietly :: "('priv, 'pub) api_env \<Rightarrow> string \<Rightarrow> bytes result \<Rightarrow> (world, unit) hand" where
  "send_quietly E k b = (case b of
      Inl (Panic p) \<Rightarrow> hfail (Panic p)
    | Inl e \<Rightarrow> hret ()
    | Inr d \<Rightarrow> hbind (htry (n2_send E k d False)) (\<lambda>_. hret ()))"

definition send_or_502 :: "('priv, 'pub) api_env \<Rightarrow> string \<Rightarrow> bytes \<Rightarrow> (world, unit) hand" where
  "send_or_502 E k d = or_http 502 ''SCTP send'' (n2_send E k d False)"

definition wait_own ::
  "string \<Rightarrow> string \<Rightarrow> 64 word \<Rightarrow> SendGNBUENGAPRequest \<Rightarrow> string list \<Rightarrow> (world, NGAPResponse) hand" where
  "wait_own k u d req types =
     hbind (read_ue k u) (\<lambda>ue.
       n2_wait k (Some (ueNGAPMatcher (effectiveRanID req ue) (effectiveAmfID req ue))) d types)"

text \<open>\<open>hex.DecodeString\<close> returns what it decoded before an error; some callers drop the error.\<close>

fun hex_prefix :: "string \<Rightarrow> bytes" where
  "hex_prefix (c # d # s) = (case (from_hex_char c, from_hex_char d) of
      (Some h, Some l) \<Rightarrow> of_nat (16 * h + l) # hex_prefix s | _ \<Rightarrow> [])"
| "hex_prefix s = []"

text \<open>What a UE learns from a NAS message: the challenge, the key set of a Security Mode Command, the
  GUTI.\<close>

definition learn_challenge :: "NASResponse \<Rightarrow> UEContext \<Rightarrow> UEContext" where
  "learn_challenge r ue = (if nRAND r \<noteq> [] then ue\<lparr> uRAND := hex_prefix (nRAND r), uAUTN := hex_prefix (nAUTN r) \<rparr> else ue)"

definition learn_ksi :: "NASResponse \<Rightarrow> UEContext \<Rightarrow> UEContext" where
  "learn_ksi r ue = (case (nNgKSI r, nSelectedCipheringAlgorithm r) of
      (Some i, Some c) \<Rightarrow> ue\<lparr> uNgKsi := of_int i \<rparr> | _ \<Rightarrow> ue)"

definition learn_guti :: "NASResponse \<Rightarrow> UEContext \<Rightarrow> UEContext" where
  "learn_guti r ue = (case nGUTI r of None \<Rightarrow> ue | Some g \<Rightarrow> ue\<lparr> uGuti := GUTI5GFromStructured (Some g) \<rparr>)"

definition learn :: "NASResponse option \<Rightarrow> UEContext \<Rightarrow> UEContext" where
  "learn nas ue = (case nas of None \<Rightarrow> ue | Some r \<Rightarrow> learn_guti r (learn_ksi r (learn_challenge r ue)))"

text \<open>Without a key a message is read as it stands.\<close>

definition read_downlink ::
  "aka_lib \<Rightarrow> nas5_lib \<Rightarrow> bytes \<Rightarrow> UEContext \<Rightarrow> (NASResponse option \<times> bool option) result \<times> UEContext" where
  "read_downlink A L b ue =
     (case (if length (uKamf ue) > 0 then decodeGNBDownlinkNAS A L b ue
            else (rbind (try_decode (DecodeNAS L b)) (\<lambda>r. Inr (r, None)), ue)) of
        (Inl p, ue') \<Rightarrow> (Inl p, ue')
      | (Inr (nas, mac), ue') \<Rightarrow> (Inr (nas, mac), learn nas ue'))"

text \<open>The NAS message an NGAP message carries, if it is hexadecimal.\<close>

definition carried_nas ::
  "(bytes \<Rightarrow> UEContext \<Rightarrow> (NASResponse option \<times> bool option) result \<times> UEContext) \<Rightarrow> NGAPResponse \<Rightarrow> UEContext
    \<Rightarrow> (NASResponse option \<times> bool option) result \<times> UEContext" where
  "carried_nas rd m ue = (case nr_NasPDU m of None \<Rightarrow> (Inr (None, None), ue)
     | Some h \<Rightarrow> (case hex_decode h of Inl e \<Rightarrow> (Inr (None, None), ue) | Inr b \<Rightarrow> rd b ue))"

text \<open>An Error Indication assigns no identifier.\<close>

definition assign_amf_id :: "NGAPResponse \<Rightarrow> UEContext \<Rightarrow> UEContext" where
  "assign_amf_id m ue = (case nr_AMFUENGAPID m of None \<Rightarrow> ue
     | Some i \<Rightarrow> if nr_MessageType m \<noteq> ''ErrorIndication'' then ue\<lparr> uAMFUENGAPID := i \<rparr> else ue)"

definition answer_when ::
  "('priv, 'pub) api_env \<Rightarrow> string \<Rightarrow> string \<Rightarrow> NGAPResponse \<Rightarrow> string \<Rightarrow> (int \<Rightarrow> int \<Rightarrow> bytes result) \<Rightarrow> (world, unit) hand" where
  "answer_when E k u m type build =
     (if nr_MessageType m = type then hbind (read_ue k u) (\<lambda>ue. send_quietly E k (build (uAMFUENGAPID ue) (uRANUENGAPID ue)))
      else hret ())"

definition sendRawAndWait ::
  "('priv, 'pub) api_env \<Rightarrow> string \<Rightarrow> string \<Rightarrow> 64 word \<Rightarrow> SendGNBUENGAPRequest \<Rightarrow> bytes \<Rightarrow> string list
    \<Rightarrow> (world, SendGNBUENGAPResponse) hand" where
  "sendRawAndWait E k u d req encoded waitFor =
     hbind (send_or_502 E k encoded) (\<lambda>_.
     hbind (or_http 504 ''waiting for response'' (wait_own k u d req waitFor)) (\<lambda>ngapResp.
     hbind (write_ue k u (assign_amf_id ngapResp)) (\<lambda>_.
     hbind (ue_op k u (carried_nas (read_downlink (envAKA E) (envNAS5 E)) ngapResp)) (\<lambda>(nasResp, macVerified).
     hbind (answer_when E k u ngapResp ''InitialContextSetupRequest'' (BuildInitialContextSetupResponse (envNGAP E))) (\<lambda>_.
     hbind (answer_when E k u ngapResp ''PDUSessionResourceReleaseCommand'' (BuildPDUSessionResourceReleaseResponse (envNGAP E))) (\<lambda>_.
     hbind (answer_when E k u ngapResp ''UEContextReleaseCommand'' (BuildUEContextReleaseComplete (envNGAP E))) (\<lambda>_.
       hret \<lparr> xr_NGAP = Some ngapResp, xr_NAS = nasResp, xr_MACVerified = macVerified \<rparr>)))))))"

definition sendAndWait ::
  "('priv, 'pub) api_env \<Rightarrow> string \<Rightarrow> string \<Rightarrow> 64 word \<Rightarrow> SendGNBUENGAPRequest \<Rightarrow> NGAPMessage \<Rightarrow> string list
    \<Rightarrow> (world, SendGNBUENGAPResponse) hand" where
  "sendAndWait E k u d req ngapMsg waitFor =
     hbind (hlift (http_error 500 ''NGAP encode'' (Encode_NGAP (envNGAP E) ngapMsg))) (\<lambda>encoded.
       sendRawAndWait E k u d req encoded waitFor)"

definition uplink_params ::
  "GNBContext \<Rightarrow> UEContext \<Rightarrow> bytes \<Rightarrow> UplinkNASTransportOverrides option \<Rightarrow> UplinkNASTransportParams" where
  "uplink_params gnb ue nasPDU ov =
     \<lparr> upAMFUENGAPID = uAMFUENGAPID ue, upRANUENGAPID = uRANUENGAPID ue, upNASPDU = nasPDU, upMCC = gMCC gnb,
       upMNC = gMNC gnb, upTAC = gTAC gnb, upGNBID = gGNBID gnb, upOverrides = ov \<rparr>"

text \<open>The uplink is built with the identifiers the UE has at that moment.\<close>

definition build_uplink ::
  "('priv, 'pub) api_env \<Rightarrow> string \<Rightarrow> string \<Rightarrow> GNBContext \<Rightarrow> bytes \<Rightarrow> UplinkNASTransportOverrides option \<Rightarrow> (world, bytes) hand" where
  "build_uplink E k u gnb nasPDU ov =
     hbind (read_ue k u) (\<lambda>ue.
       hlift (http_error 500 ''NGAP encode'' (BuildUplinkNASTransport (envNGAP E) (uplink_params gnb ue nasPDU ov))))"

definition sendUplinkAndWait ::
  "('priv, 'pub) api_env \<Rightarrow> string \<Rightarrow> string \<Rightarrow> 64 word \<Rightarrow> GNBContext \<Rightarrow> SendGNBUENGAPRequest \<Rightarrow> bytes \<Rightarrow> string list
    \<Rightarrow> (world, SendGNBUENGAPResponse) hand" where
  "sendUplinkAndWait E k u d gnb req nasPDU waitFor =
     hbind (build_uplink E k u gnb nasPDU (uplinkOverrides req)) (\<lambda>encoded.
       sendRawAndWait E k u d req encoded waitFor)"

text \<open>The two blocks that open most handlers: the raw NAS PDU of the request or one that is built,
  and the protection of an uplink.\<close>

definition raw_or :: "string option \<Rightarrow> (world, bytes) hand \<Rightarrow> (world, bytes) hand" where
  "raw_or raw built = (case raw of
      Some h \<Rightarrow> hlift (http_error 400 ''decode raw_nas_pdu'' (hex_decode h)) | None \<Rightarrow> built)"

definition secure_uplink ::
  "('priv, 'pub) api_env \<Rightarrow> string \<Rightarrow> string \<Rightarrow> bytes \<Rightarrow> u8 \<Rightarrow> SendGNBUENGAPRequest option \<Rightarrow> (world, bytes) hand" where
  "secure_uplink E k u plain sht req =
     or_http 500 ''NAS security encode'' (ue_op k u (encodeGNBUplinkNAS (envNAS5 E) plain sht req))"

definition no_response :: SendGNBUENGAPResponse where
  "no_response = \<lparr> xr_NGAP = None, xr_NAS = None, xr_MACVerified = None \<rparr>"

definition ngap_only :: "NGAPResponse \<Rightarrow> SendGNBUENGAPResponse" where
  "ngap_only m = \<lparr> xr_NGAP = Some m, xr_NAS = None, xr_MACVerified = None \<rparr>"

section \<open>What a message can change\<close>

text \<open>Only the UE it is sent for, the counter of identifiers and the association of the gNB.\<close>

lemma frame_read_ue [frame_rules]: "gf.obeys k u (read_ue k u)"
  unfolding read_ue_def by (rule obeys_ue_op) simp

lemma frame_write_ue: "(\<And>x. same_subscriber x (f x)) \<Longrightarrow> gf.obeys k u (write_ue k u f)"
  unfolding write_ue_def by (rule obeys_ue_op) simp

lemma frame_allocate [frame_rules]:
  "gf.obeys k u (gnb_op k (\<lambda>g. case AllocateRANUENGAPID g of (n, g') \<Rightarrow> (Inr n, g')))"
proof (rule gf.obeysI)
  fix w
  let ?f = "\<lambda>g. case AllocateRANUENGAPID g of (n, g') \<Rightarrow> (Inr n, g')"
  show "gnb_frame k u w (snd (gnb_op k ?f w))"
  proof (cases "gnbs (wStore w) k")
    case (Some g)
    have "gnb_change u g (snd (?f g))"
      by (simp add: AllocateRANUENGAPID_def Let_def gnb_change_def)
    then show ?thesis
      using Some by (simp add: gnb_op_def gnb_frame_def update_gnb_def option.rel_refl)
  qed (simp add: gnb_op_def gnb_frame_refl)
qed

lemma frame_send_quietly [frame_rules]: "gf.obeys k u (send_quietly E k b)"
  unfolding send_quietly_def by (auto split: sum.split error.split intro!: gf.rules frame_rules)

lemma frame_send_or_502 [frame_rules]: "gf.obeys k u (send_or_502 E k x)"
  unfolding send_or_502_def by (intro frame_rules)

lemma frame_wait_own [frame_rules]: "gf.obeys k u (wait_own k u d req types)"
  unfolding wait_own_def by (intro gf.rules frame_rules)

lemma same_subscriber_learn: "same_subscriber ue (learn nas ue)"
  by (auto simp: learn_def learn_guti_def learn_ksi_def learn_challenge_def same_subscriber_def split: option.split)

lemma same_subscriber_assign: "same_subscriber ue (assign_amf_id m ue)"
  by (auto simp: assign_amf_id_def same_subscriber_def split: option.split)

lemma same_subscriber_read_downlink: "same_subscriber ue (snd (read_downlink A L b ue))"
proof -
  let ?m = "if length (uKamf ue) > 0 then decodeGNBDownlinkNAS A L b ue
            else (rbind (try_decode (DecodeNAS L b)) (\<lambda>r. Inr (r, None)), ue)"
  have m: "same_subscriber ue (snd ?m)" using same_subscriber_decode by simp
  obtain r ue' where e: "?m = (r, ue')" by fastforce
  show ?thesis
  proof (cases r)
    case (Inl p)
    then show ?thesis using m e by (simp add: read_downlink_def)
  next
    case (Inr v)
    obtain nas mac where v: "v = (nas, mac)" by fastforce
    have "same_subscriber ue' (learn nas ue')" by (rule same_subscriber_learn)
    then show ?thesis using m e Inr v same_trans(3) by (simp add: read_downlink_def)
  qed
qed

lemma same_subscriber_carried:
  "(\<And>b ue. same_subscriber ue (snd (rd b ue))) \<Longrightarrow> same_subscriber ue (snd (carried_nas rd m ue))"
  by (simp add: carried_nas_def split: option.split sum.split)

lemma same_subscriber_encode: "same_subscriber ue (snd (encodeGNBUplinkNAS L p sht req ue))"
  by (auto simp: encodeGNBUplinkNAS_def same_subscriber_def NextUL_def Let_def split: sum.split)

lemma frame_answer_when [frame_rules]: "gf.obeys k u (answer_when E k u m type build)"
  unfolding answer_when_def by (intro gf.choice gf.rules frame_rules)

lemma frame_sendRawAndWait [frame_rules]: "gf.obeys k u (sendRawAndWait E k u d req x types)"
  unfolding sendRawAndWait_def
  by (intro gf.rules frame_rules frame_write_ue obeys_ue_op same_subscriber_assign same_subscriber_carried
      same_subscriber_read_downlink)

lemma frame_build_uplink [frame_rules]: "gf.obeys k u (build_uplink E k u gnb x ov)"
  unfolding build_uplink_def by (intro gf.rules frame_rules)

lemma frame_sends [frame_rules]:
  "gf.obeys k u (sendAndWait E k u d req m types)" "gf.obeys k u (sendUplinkAndWait E k u d gnb req x types)"
  unfolding sendAndWait_def sendUplinkAndWait_def by (intro gf.rules frame_rules)+

lemma frame_raw_or [frame_rules]: "gf.obeys k u m \<Longrightarrow> gf.obeys k u (raw_or raw m)"
  unfolding raw_or_def by (auto split: option.split intro: gf.rules)

lemma frame_secure_uplink [frame_rules]: "gf.obeys k u (secure_uplink E k u x sht req)"
  unfolding secure_uplink_def by (intro frame_rules obeys_ue_op same_subscriber_encode)

end
