(* ===== verification/Api_Gnb_Nas.thy ===== *)
theory Api_Gnb_Nas
  imports Api_Gnb_Core
begin

text \<open>
  The NAS messages of a 5G UE: \<open>internal/api/gnb_nas_handlers.go\<close>.  Each definition is the handler of
  its name, from its first statement to its last; the arguments are the gNB's and the UE's identifiers,
  the duration of the context, the gNB object and the request.
\<close>

section \<open>Registration\<close>

text \<open>\<open>ksiNoKey\<close>: no key is available.\<close>

definition ksiNoKey :: u8 where "ksiNoKey = 7"

definition initial_params ::
  "GNBContext \<Rightarrow> int \<Rightarrow> bytes \<Rightarrow> FiveGSTMSIFromGUTI option \<Rightarrow> InitialUEMessageOverrides option \<Rightarrow> InitialUEMessageParams" where
  "initial_params gnb ranID nasPDU guti ov =
     \<lparr> ipRANUENGAPID = ranID, ipNASPDU = nasPDU, ipMCC = gMCC gnb, ipMNC = gMNC gnb, ipTAC = gTAC gnb,
       ipGNBID = gGNBID gnb, ipGUTI = guti, ipOverrides = ov \<rparr>"

definition build_initial ::
  "string \<Rightarrow> string \<Rightarrow> GNBContext \<Rightarrow> bytes \<Rightarrow> FiveGSTMSIFromGUTI option \<Rightarrow> InitialUEMessageOverrides option
    \<Rightarrow> (world, NGAPMessage) hand" where
  "build_initial k u gnb nasPDU guti ov =
     hbind (read_ue k u) (\<lambda>ue.
       hlift (http_error 400 ''build initial ue message''
         (BuildInitialUEMessage (initial_params gnb (uRANUENGAPID ue) nasPDU guti ov))))"

definition initial_waits :: "string list" where
  "initial_waits = [''DownlinkNASTransport'', ''InitialContextSetupRequest'', ''ErrorIndication'']"

text \<open>The tail both branches of a registration have: over the existing connection, or a new one.\<close>

definition send_registration ::
  "('priv, 'pub) api_env \<Rightarrow> string \<Rightarrow> string \<Rightarrow> 64 word \<Rightarrow> GNBContext \<Rightarrow> SendGNBUENGAPRequest \<Rightarrow> bytes
    \<Rightarrow> (world, SendGNBUENGAPResponse) hand" where
  "send_registration E k u d gnb req nasPDU =
     (if rqExistingConnection req then
        sendUplinkAndWait E k u d gnb req nasPDU [''DownlinkNASTransport'', ''ErrorIndication'']
      else
        hbind (build_initial k u gnb nasPDU None (initialUEOverrides req)) (\<lambda>ngapMsg.
          sendAndWait E k u d req ngapMsg initial_waits))"

text \<open>The connection that the new one supersedes is released by the network towards the gNB; the
  release is awaited and completed.\<close>

definition reestablishGNBConnection ::
  "('priv, 'pub) api_env \<Rightarrow> string \<Rightarrow> string \<Rightarrow> 64 word \<Rightarrow> GNBContext \<Rightarrow> bytes \<Rightarrow> (world, SendGNBUENGAPResponse) hand" where
  "reestablishGNBConnection E k u d gnb nasPDU =
     hbind (read_ue k u) (\<lambda>old.
     hbind (gnb_op k (\<lambda>g. case AllocateRANUENGAPID g of (n, g') \<Rightarrow> (Inr n, g'))) (\<lambda>ranID.
     hbind (hlift (http_error 400 ''build initial ue message''
              (BuildInitialUEMessage (initial_params gnb ranID nasPDU None None)))) (\<lambda>ngapMsg.
     hbind (hlift (http_error 500 ''NGAP encode'' (Encode_NGAP (envNGAP E) ngapMsg))) (\<lambda>encoded.
     hbind (send_or_502 E k encoded) (\<lambda>_.
     hbind (htry (n2_wait k (Some (\<lambda>r. nr_RANUENGAPID r = Some (uRANUENGAPID old))) d
              [''UEContextReleaseCommand'', ''ErrorIndication''])) (\<lambda>r. case r of
       Inl err \<Rightarrow> hret no_response
     | Inr rel \<Rightarrow>
         hbind (if nr_MessageType rel = ''UEContextReleaseCommand''
                then send_quietly E k (BuildUEContextReleaseComplete (envNGAP E) (uAMFUENGAPID old) (uRANUENGAPID old))
                else hret ()) (\<lambda>_.
         hret (ngap_only rel))))))))"

definition registration_params :: "SendGNBUENGAPRequest \<Rightarrow> u8 \<Rightarrow> u8 \<Rightarrow> UEContext \<Rightarrow> RegistrationRequestParams" where
  "registration_params req regType ngKsi ue =
     \<lparr> rpRegistrationType = regType, rpSuci = uSuci ue, rpGuti = uGuti ue, rpSecurityCap = uSecurityCapability ue,
       rpNgKsi = ngKsi, rpOverrides = Some (registrationOverrides req) \<rparr>"

text \<open>A mobility or periodic update reuses the security context of a UE that has one.\<close>

definition secured_update :: "u8 \<Rightarrow> UEContext \<Rightarrow> bool" where
  "secured_update regType ue =
     ((regType = RegistrationTypeMobility \<or> regType = RegistrationTypePeriodic) \<and> length (uKamf ue) > 0)"

definition build_registration ::
  "('priv, 'pub) api_env \<Rightarrow> string \<Rightarrow> string \<Rightarrow> SendGNBUENGAPRequest \<Rightarrow> (world, bytes) hand" where
  "build_registration E k u req =
     (let regType = patched (rqRegistrationType req) RegistrationTypeInitial in
      hbind (read_ue k u) (\<lambda>ue.
      let secured = secured_update regType ue;
          ngKsi = (if secured then uNgKsi ue else ksiNoKey) in
      hbind (hlift (http_error 500 ''build NAS RegistrationRequest''
               (BuildRegistrationRequest (envNAS5Enc E) (registration_params req regType ngKsi ue)))) (\<lambda>nasPDU.
      if secured then secure_uplink E k u nasPDU SHTIntegrity5 (Some req) else hret nasPDU)))"

definition handleGNBRegistrationRequest ::
  "('priv, 'pub) api_env \<Rightarrow> string \<Rightarrow> string \<Rightarrow> 64 word \<Rightarrow> GNBContext \<Rightarrow> SendGNBUENGAPRequest
    \<Rightarrow> (world, SendGNBUENGAPResponse) hand" where
  "handleGNBRegistrationRequest E k u d gnb req = (case rqRawNASPDU req of
      Some h \<Rightarrow>
        hbind (hlift (http_error 400 ''decode raw_nas_pdu'' (hex_decode h))) (\<lambda>nasPDU.
          send_registration E k u d gnb req nasPDU)
    | None \<Rightarrow>
        hbind (build_registration E k u req) (\<lambda>nasPDU.
          if rqReestablish req then reestablishGNBConnection E k u d gnb nasPDU
          else send_registration E k u d gnb req nasPDU))"

section \<open>Authentication and security mode\<close>

text \<open>\<open>RES*\<close>: the override, sixteen zero octets without a challenge, or the answer to the challenge,
  whose key the UE keeps.\<close>

definition res_star :: "('priv, 'pub) api_env \<Rightarrow> string \<Rightarrow> string \<Rightarrow> SendGNBUENGAPRequest \<Rightarrow> (world, bytes) hand" where
  "res_star E k u req = (case rqResStarOverride req of
      Some h \<Rightarrow> hlift (http_error 400 ''decode res_star_override'' (hex_decode h))
    | None \<Rightarrow> hbind (read_ue k u) (\<lambda>ue.
        if length (uRAND ue) = 0 \<or> length (uAUTN ue) = 0 then hret (replicate 16 0)
        else
          hbind (hlift (http_error 500 ''5G-AKA''
                   (Compute5GAKA (envAKA E) (uK ue) (uOPc ue) (uSQN ue) (uSUPI ue) (uMCC ue) (uMNC ue) (uRAND ue) (uAUTN ue)))) (\<lambda>res.
          hbind (write_ue k u (\<lambda>ue. ue\<lparr> uKamf := rKamf res \<rparr>)) (\<lambda>_. hret (RESStar res)))))"

definition handleGNBAuthenticationResponse ::
  "('priv, 'pub) api_env \<Rightarrow> string \<Rightarrow> string \<Rightarrow> 64 word \<Rightarrow> GNBContext \<Rightarrow> SendGNBUENGAPRequest
    \<Rightarrow> (world, SendGNBUENGAPResponse) hand" where
  "handleGNBAuthenticationResponse E k u d gnb req =
     hbind (raw_or (rqRawNASPDU req)
       (hbind (res_star E k u req) (\<lambda>resStar.
          hlift (http_error 500 ''build AuthenticationResponse'' (BuildAuthenticationResponse (envNAS5Enc E) resStar))))) (\<lambda>nasPDU.
       sendUplinkAndWait E k u d gnb req nasPDU [''DownlinkNASTransport'', ''ErrorIndication''])"

definition handleGNBSecurityModeComplete ::
  "('priv, 'pub) api_env \<Rightarrow> string \<Rightarrow> string \<Rightarrow> 64 word \<Rightarrow> GNBContext \<Rightarrow> SendGNBUENGAPRequest
    \<Rightarrow> (world, SendGNBUENGAPResponse) hand" where
  "handleGNBSecurityModeComplete E k u d gnb req =
     hbind (raw_or (rqRawNASPDU req)
       (let innerRegType = patched (rqRegistrationType req) RegistrationTypeInitial in
        hbind (read_ue k u) (\<lambda>ue.
        hbind (hlift (http_error 500 ''build inner RegistrationRequest''
                 (BuildRegistrationRequest (envNAS5Enc E) (registration_params req innerRegType (uNgKsi ue) ue)))) (\<lambda>regReqPDU.
        hbind (hlift (http_error 500 ''build SecurityModeComplete''
                 (BuildSecurityModeComplete (envNAS5Enc E) (Some regReqPDU) (uIMEISV ue)))) (\<lambda>smcPDU.
          secure_uplink E k u smcPDU SHTCipheredNew5 (Some req)))))) (\<lambda>nasPDU.
       sendUplinkAndWait E k u d gnb req nasPDU
         [''InitialContextSetupRequest'', ''DownlinkNASTransport'', ''ErrorIndication''])"

text \<open>An acknowledgement is sent only when the command asked for one; it is sent and not waited for.\<close>

definition send_uplink ::
  "('priv, 'pub) api_env \<Rightarrow> string \<Rightarrow> string \<Rightarrow> GNBContext \<Rightarrow> bytes \<Rightarrow> UplinkNASTransportOverrides option \<Rightarrow> (world, unit) hand" where
  "send_uplink E k u gnb nasPDU ov = hbind (build_uplink E k u gnb nasPDU ov) (send_or_502 E k)"

definition ackConfigurationUpdate ::
  "('priv, 'pub) api_env \<Rightarrow> string \<Rightarrow> string \<Rightarrow> GNBContext \<Rightarrow> NASResponse option \<Rightarrow> (world, unit) hand" where
  "ackConfigurationUpdate E k u gnb nasResp = (case nasResp of None \<Rightarrow> hret ()
     | Some r \<Rightarrow> if \<not> nConfigurationUpdateAckRequested r then hret ()
         else
           hbind (hlift (http_error 500 ''build ConfigurationUpdateComplete''
                    (BuildConfigurationUpdateComplete (envNAS5Enc E)))) (\<lambda>pdu.
           hbind (secure_uplink E k u pdu SHTCiphered5 None) (\<lambda>secured.
             send_uplink E k u gnb secured None)))"

definition handleGNBRegistrationComplete ::
  "('priv, 'pub) api_env \<Rightarrow> string \<Rightarrow> string \<Rightarrow> 64 word \<Rightarrow> GNBContext \<Rightarrow> SendGNBUENGAPRequest
    \<Rightarrow> (world, SendGNBUENGAPResponse) hand" where
  "handleGNBRegistrationComplete E k u d gnb req =
     hbind (read_ue k u) (\<lambda>ue.
     hbind (hlift (http_error 500 ''build InitialContextSetupResponse''
              (BuildInitialContextSetupResponse (envNGAP E) (uAMFUENGAPID ue) (uRANUENGAPID ue)))) (\<lambda>icsResp.
     hbind (send_or_502 E k icsResp) (\<lambda>_.
     hbind (raw_or (rqRawNASPDU req)
       (hbind (hlift (http_error 500 ''build RegistrationComplete'' (BuildRegistrationComplete (envNAS5Enc E)))) (\<lambda>pdu.
          secure_uplink E k u pdu SHTCiphered5 None))) (\<lambda>nasPDU.
     hbind (sendUplinkAndWait E k u d gnb req nasPDU
              [''DownlinkNASTransport'', ''ErrorIndication'', ''UEContextReleaseCommand'']) (\<lambda>resp.
     hbind (ackConfigurationUpdate E k u gnb (xr_NAS resp)) (\<lambda>_. hret resp))))))"

section \<open>Deregistration and release\<close>

text \<open>The downlink as it is read where a security context is taken for granted.\<close>

definition carried_downlink ::
  "('priv, 'pub) api_env \<Rightarrow> string \<Rightarrow> string \<Rightarrow> NGAPResponse \<Rightarrow> (world, NASResponse option \<times> bool option) hand" where
  "carried_downlink E k u m = ue_op k u (carried_nas (decodeGNBDownlinkNAS (envAKA E) (envNAS5 E)) m)"

definition handleGNBDeregistrationRequest ::
  "('priv, 'pub) api_env \<Rightarrow> string \<Rightarrow> string \<Rightarrow> 64 word \<Rightarrow> GNBContext \<Rightarrow> SendGNBUENGAPRequest
    \<Rightarrow> (world, SendGNBUENGAPResponse) hand" where
  "handleGNBDeregistrationRequest E k u d gnb req =
     hbind (raw_or (rqRawNASPDU req)
       (hbind (read_ue k u) (\<lambda>ue.
        hbind (hlift (http_error 500 ''build DeregistrationRequest'' (BuildDeregistrationRequest (envNAS5Enc E)
                 \<lparr> dpGuti = uGuti ue, dpSuci = Some (uSuci ue), dpNgKsi = uNgKsi ue,
                   dpSwitchOff = patched (rqSwitchOff req) 1 \<rparr>))) (\<lambda>deregPDU.
          secure_uplink E k u deregPDU SHTCiphered5 None)))) (\<lambda>nasPDU.
     hbind (send_uplink E k u gnb nasPDU (uplinkOverrides req)) (\<lambda>_.
     hbind (or_http 504 ''waiting for response''
              (wait_own k u d req [''DownlinkNASTransport'', ''UEContextReleaseCommand'', ''ErrorIndication''])) (\<lambda>ngapResp.
     hbind (carried_downlink E k u ngapResp) (\<lambda>(nasResp, macVerified).
     hbind (answer_when E k u ngapResp ''UEContextReleaseCommand'' (BuildUEContextReleaseComplete (envNGAP E))) (\<lambda>_.
       hret \<lparr> xr_NGAP = Some ngapResp, xr_NAS = nasResp, xr_MACVerified = macVerified \<rparr>)))))"

definition handleGNBUEContextReleaseRequest ::
  "('priv, 'pub) api_env \<Rightarrow> string \<Rightarrow> string \<Rightarrow> 64 word \<Rightarrow> SendGNBUENGAPRequest \<Rightarrow> (world, SendGNBUENGAPResponse) hand" where
  "handleGNBUEContextReleaseRequest E k u d req =
     hbind (read_ue k u) (\<lambda>ue.
     hbind (hlift (http_error 500 ''build UEContextReleaseRequest'' (BuildUEContextReleaseRequest (envNGAP E)
              (patched (rqAMFUENGAPIDOverride req) (uAMFUENGAPID ue)) (patched (rqRANUENGAPIDOverride req) (uRANUENGAPID ue))
              (patched (rqReleaseCause req) 20)))) (\<lambda>encoded.
     hbind (send_or_502 E k encoded) (\<lambda>_.
     hbind (or_http 504 ''waiting for response''
              (wait_own k u d req [''UEContextReleaseCommand'', ''ErrorIndication''])) (\<lambda>ngapResp.
     hbind (answer_when E k u ngapResp ''UEContextReleaseCommand'' (BuildUEContextReleaseComplete (envNGAP E))) (\<lambda>_.
       hret (ngap_only ngapResp))))))"

section \<open>Identity, failures and rejects\<close>

definition handleGNBIdentityResponse ::
  "('priv, 'pub) api_env \<Rightarrow> string \<Rightarrow> string \<Rightarrow> 64 word \<Rightarrow> GNBContext \<Rightarrow> SendGNBUENGAPRequest
    \<Rightarrow> (world, SendGNBUENGAPResponse) hand" where
  "handleGNBIdentityResponse E k u d gnb req =
     hbind (raw_or (rqRawNASPDU req)
       (hbind (read_ue k u) (\<lambda>ue.
        hbind (hlift (case rqMobileIdentityOverride req of None \<Rightarrow> Inr (miBuffer (uSuci ue))
                 | Some h \<Rightarrow> http_error 400 ''decode mobile_identity_override'' (hex_decode h))) (\<lambda>mobileIdentity.
        hbind (hlift (http_error 500 ''build IdentityResponse'' (BuildIdentityResponse (envNAS5Enc E) mobileIdentity))) (\<lambda>idPDU.
        if length (uKamf ue) > 0 then secure_uplink E k u idPDU SHTCiphered5 None else hret idPDU))))) (\<lambda>nasPDU.
       sendUplinkAndWait E k u d gnb req nasPDU initial_waits)"

text \<open>\<open>Cause5GMMMACFailure\<close>, \<open>Cause5GMMSynchFailure\<close> and \<open>Cause5GMMUESecurityCapabilitiesMismatch\<close> of the
  library, with their values in TS 24.501, table 9.11.3.2.1.\<close>

definition Cause5GMMMACFailure :: u8 where "Cause5GMMMACFailure = 20"
definition Cause5GMMSynchFailure :: u8 where "Cause5GMMSynchFailure = 21"
definition Cause5GMMUESecurityCapabilitiesMismatch :: u8 where "Cause5GMMUESecurityCapabilitiesMismatch = 23"

definition handleGNBAuthenticationFailure ::
  "('priv, 'pub) api_env \<Rightarrow> string \<Rightarrow> string \<Rightarrow> 64 word \<Rightarrow> GNBContext \<Rightarrow> SendGNBUENGAPRequest
    \<Rightarrow> (world, SendGNBUENGAPResponse) hand" where
  "handleGNBAuthenticationFailure E k u d gnb req =
     hbind (raw_or (rqRawNASPDU req)
       (let cause = patched (rqFiveGMMCause req) Cause5GMMMACFailure in
        hbind (read_ue k u) (\<lambda>ue.
        hbind (hlift (if cause = Cause5GMMSynchFailure
                 then http_error 500 ''compute AUTS'' (ComputeAUTS (envAKA E) (uK ue) (uOPc ue) (uSQN ue) (uRAND ue))
                 else Inr [])) (\<lambda>auts.
          hlift (http_error 500 ''build AuthenticationFailure'' (BuildAuthenticationFailure (envNAS5Enc E) cause auts)))))) (\<lambda>nasPDU.
       sendUplinkAndWait E k u d gnb req nasPDU [''DownlinkNASTransport'', ''ErrorIndication''])"

definition handleGNBSecurityModeReject ::
  "('priv, 'pub) api_env \<Rightarrow> string \<Rightarrow> string \<Rightarrow> 64 word \<Rightarrow> GNBContext \<Rightarrow> SendGNBUENGAPRequest
    \<Rightarrow> (world, SendGNBUENGAPResponse) hand" where
  "handleGNBSecurityModeReject E k u d gnb req =
     hbind (raw_or (rqRawNASPDU req)
       (hlift (http_error 500 ''build SecurityModeReject'' (BuildSecurityModeReject (envNAS5Enc E)
          (patched (rqFiveGMMCause req) Cause5GMMUESecurityCapabilitiesMismatch))))) (\<lambda>nasPDU.
       sendUplinkAndWait E k u d gnb req nasPDU [''UEContextReleaseCommand'', ''DownlinkNASTransport'', ''ErrorIndication''])"

section \<open>Service requests\<close>

text \<open>The set identifier and the pointer are left-aligned in their octets.\<close>

definition fiveGSTMSIFromGUTI :: "guti_view option \<Rightarrow> FiveGSTMSIFromGUTI option" where
  "fiveGSTMSIFromGUTI guti = map_option (\<lambda>g.
     \<lparr> fgAMFSetID = hex_encode [ucast (drop_bit 2 (gvSet g)), ucast (push_bit 6 (gvSet g AND 0x3))],
       fgAMFPointer = hex_encode [push_bit 2 (gvPointer g)],
       fgFiveGTMSI = hex_encode (gvTMSI g) \<rparr>) guti"

definition serviceRequestPDUStatus :: "UEContext \<Rightarrow> SendGNBUENGAPRequest \<Rightarrow> bool list result" where
  "serviceRequestPDUStatus ue req = (case rqPDUSessionStatus req of
      Some h \<Rightarrow> rbind (hex_decode h) (\<lambda>raw.
        let buf = copy_from [0, 0] 0 raw;
            flags = (ucast (buf ! 0) OR push_bit 8 (ucast (buf ! 1)) :: u16)
        in Inr (map (\<lambda>i. flags AND push_bit i 1 \<noteq> 0) [0..<16]))
    | None \<Rightarrow>
        let n = unat (uPDUSessionID ue) in
        Inr (if 1 \<le> n \<and> n \<le> 15 then (replicate 16 False)[n := True] else replicate 16 False))"

text \<open>\<open>ngapType.RRCEstablishmentCausePresentMoData\<close>.\<close>

definition moData :: int where "moData = 4"

definition service_overrides :: "SendGNBUENGAPRequest \<Rightarrow> InitialUEMessageOverrides" where
  "service_overrides req =
     (let v = (case initialUEOverrides req of None \<Rightarrow>
             \<lparr> ioRRCEstablishmentCause = None, ioUEContextRequest = None, ioRANUENGAPID = None \<rparr> | Some v \<Rightarrow> v)
      in if ioRRCEstablishmentCause v = None then v\<lparr> ioRRCEstablishmentCause := Some moData \<rparr> else v)"

definition service_waits :: "string list" where
  "service_waits = [''InitialContextSetupRequest'', ''DownlinkNASTransport'', ''PDUSessionResourceSetupRequest'', ''ErrorIndication'']"

definition build_service_request ::
  "('priv, 'pub) api_env \<Rightarrow> string \<Rightarrow> string \<Rightarrow> SendGNBUENGAPRequest \<Rightarrow> (world, bytes) hand" where
  "build_service_request E k u req =
     hbind (read_ue k u) (\<lambda>ue.
     hbind (hlift (http_error 400 ''decode pdu_session_status'' (serviceRequestPDUStatus ue req))) (\<lambda>status.
     hbind (hlift (http_error 500 ''build ServiceRequest'' (BuildServiceRequest (envNAS5Enc E)
              \<lparr> seServiceType = patched (rqServiceType req) ServiceTypeData, seNgKsi = uNgKsi ue, seGuti = uGuti ue,
                sePDUSessionStatus = Some status \<rparr>))) (\<lambda>srPDU.
       if length (uKamf ue) > 0 then secure_uplink E k u srPDU SHTIntegrity5 (Some req) else hret srPDU)))"

definition handleGNBServiceRequest ::
  "('priv, 'pub) api_env \<Rightarrow> string \<Rightarrow> string \<Rightarrow> 64 word \<Rightarrow> GNBContext \<Rightarrow> SendGNBUENGAPRequest
    \<Rightarrow> (world, SendGNBUENGAPResponse) hand" where
  "handleGNBServiceRequest E k u d gnb req =
     hbind (if rqExistingConnection req then hret ()
            else hbind (gnb_op k (\<lambda>g. case AllocateRANUENGAPID g of (n, g') \<Rightarrow> (Inr n, g'))) (\<lambda>n.
              write_ue k u (\<lambda>ue. ue\<lparr> uRANUENGAPID := n \<rparr>))) (\<lambda>_.
     hbind (raw_or (rqRawNASPDU req) (build_service_request E k u req)) (\<lambda>nasPDU.
     if rqExistingConnection req then sendUplinkAndWait E k u d gnb req nasPDU service_waits
     else
       hbind (read_ue k u) (\<lambda>ue.
       hbind (build_initial k u gnb nasPDU (fiveGSTMSIFromGUTI (uGuti ue)) (Some (service_overrides req))) (\<lambda>ngapMsg.
       hbind (hlift (http_error 500 ''NGAP encode'' (Encode_NGAP (envNGAP E) ngapMsg))) (\<lambda>encoded.
       hbind (send_or_502 E k encoded) (\<lambda>_.
       hbind (or_http 504 ''waiting for service request response'' (wait_own k u d req service_waits)) (\<lambda>ngapResp.
       hbind (write_ue k u (assign_amf_id ngapResp)) (\<lambda>_.
       hbind (carried_downlink E k u ngapResp) (\<lambda>(nasResp, macVerified).
       hbind (answer_when E k u ngapResp ''InitialContextSetupRequest'' (BuildInitialContextSetupResponse (envNGAP E))) (\<lambda>_.
         hret \<lparr> xr_NGAP = Some ngapResp, xr_NAS = nasResp, xr_MACVerified = macVerified \<rparr>))))))))))"

section \<open>Messages of the tester\<close>

text \<open>The NAS PDU to inject, checked in the order of the \<open>switch\<close>.\<close>

definition injected :: "UEContext \<Rightarrow> SendGNBUENGAPRequest \<Rightarrow> bytes result" where
  "injected ue req =
     (if rqReplayLast req then
        (if length (uLastUplinkNAS ue) = 0 then Inl (HTTPErr 400 ''no prior uplink to replay'') else Inr (uLastUplinkNAS ue))
      else (case rqRawNASPDU req of
         Some h \<Rightarrow> http_error 400 ''raw_nas_pdu must be hex'' (hex_decode h)
       | None \<Rightarrow> Inl (HTTPErr 400 ''inject_nas requires raw_nas_pdu or replay_last'')))"

text \<open>A wait whose failure is not an error: the answer is then empty.\<close>

definition answer_or_empty :: "(world, NGAPResponse) hand \<Rightarrow> (world, SendGNBUENGAPResponse) hand" where
  "answer_or_empty wait = hbind (htry wait) (\<lambda>r. case r of Inl e \<Rightarrow> hret no_response | Inr m \<Rightarrow> hret (ngap_only m))"

definition handleGNBInjectNAS ::
  "('priv, 'pub) api_env \<Rightarrow> string \<Rightarrow> string \<Rightarrow> 64 word \<Rightarrow> GNBContext \<Rightarrow> SendGNBUENGAPRequest
    \<Rightarrow> (world, SendGNBUENGAPResponse) hand" where
  "handleGNBInjectNAS E k u d gnb req =
     hbind (read_ue k u) (\<lambda>ue.
     hbind (hlift (injected ue req)) (\<lambda>nasPDU.
     hbind (send_uplink E k u gnb nasPDU (uplinkOverrides req)) (\<lambda>_.
       answer_or_empty (n2_wait k None d [''DownlinkNASTransport'', ''ErrorIndication'', ''UEContextReleaseCommand'']))))"

text \<open>A context derived from another ends no later than it.\<close>

definition at_most :: "64 word \<Rightarrow> 64 word \<Rightarrow> 64 word" where
  "at_most d limit = (if sint d < sint limit then d else limit)"

definition handleGNBUECapabilityInfo ::
  "('priv, 'pub) api_env \<Rightarrow> string \<Rightarrow> string \<Rightarrow> 64 word \<Rightarrow> SendGNBUENGAPRequest \<Rightarrow> (world, SendGNBUENGAPResponse) hand" where
  "handleGNBUECapabilityInfo E k u d req =
     hbind (hlift (case rqUERadioCapability req of None \<Rightarrow> Inr [1, 2, 3, 4, 5]
              | Some h \<Rightarrow> http_error 400 ''ue_radio_capability must be hex'' (hex_decode h))) (\<lambda>radioCap.
     hbind (read_ue k u) (\<lambda>ue.
     hbind (hlift (http_error 500 ''build UERadioCapabilityInfoIndication''
              (BuildUERadioCapabilityInfoIndication (envNGAP E) (effectiveAmfID req ue) (effectiveRanID req ue) radioCap))) (\<lambda>encoded.
     hbind (send_or_502 E k encoded) (\<lambda>_.
       answer_or_empty (wait_own k u (at_most d 1000000000) req [''ErrorIndication''])))))"

definition causeRadioNetworkUnspecified :: int where "causeRadioNetworkUnspecified = 0"

definition handleGNBInitialContextSetupFailure ::
  "('priv, 'pub) api_env \<Rightarrow> string \<Rightarrow> string \<Rightarrow> SendGNBUENGAPRequest \<Rightarrow> (world, SendGNBUENGAPResponse) hand" where
  "handleGNBInitialContextSetupFailure E k u req =
     hbind (read_ue k u) (\<lambda>ue.
     hbind (hlift (http_error 500 ''build InitialContextSetupFailure'' (BuildInitialContextSetupFailure (envNGAP E)
              (effectiveAmfID req ue) (effectiveRanID req ue) causeRadioNetworkUnspecified))) (\<lambda>encoded.
     hbind (send_or_502 E k encoded) (\<lambda>_. hret no_response)))"

definition handleGNBErrorIndication ::
  "('priv, 'pub) api_env \<Rightarrow> string \<Rightarrow> string \<Rightarrow> 64 word \<Rightarrow> SendGNBUENGAPRequest \<Rightarrow> (world, SendGNBUENGAPResponse) hand" where
  "handleGNBErrorIndication E k u d req =
     hbind (read_ue k u) (\<lambda>ue.
     hbind (hlift (http_error 500 ''build ErrorIndication'' (BuildErrorIndication (envNGAP E)
              (effectiveAmfID req ue) (effectiveRanID req ue) causeRadioNetworkUnspecified))) (\<lambda>encoded.
       sendRawAndWait E k u d req encoded [''UEContextReleaseCommand'', ''ErrorIndication'']))"

section \<open>Every message of a UE stays within its frame\<close>

lemma frame_registration [frame_rules]:
  "gf.obeys k u (send_registration E k u d gnb req x)" "gf.obeys k u (reestablishGNBConnection E k u d gnb x)"
  "gf.obeys k u (build_registration E k u req)"
  unfolding send_registration_def reestablishGNBConnection_def build_registration_def build_initial_def Let_def
  by (intro gf.rules gf.choice frame_rules)+

lemma frame_res_star [frame_rules]: "gf.obeys k u (res_star E k u req)"
  unfolding res_star_def
  by (intro gf.rules gf.choice frame_rules frame_write_ue) (simp add: same_subscriber_def)

lemma frame_send_uplink [frame_rules]: "gf.obeys k u (send_uplink E k u gnb x ov)"
  unfolding send_uplink_def by (intro gf.rules frame_rules)

lemma frame_ack [frame_rules]: "gf.obeys k u (ackConfigurationUpdate E k u gnb nas)"
  unfolding ackConfigurationUpdate_def by (intro gf.rules gf.choice frame_rules)

lemma frame_carried_downlink [frame_rules]: "gf.obeys k u (carried_downlink E k u m)"
  unfolding carried_downlink_def by (intro obeys_ue_op same_subscriber_carried same_subscriber_decode)

lemma frame_answer_or_empty [frame_rules]: "gf.obeys k u m \<Longrightarrow> gf.obeys k u (answer_or_empty m)"
  unfolding answer_or_empty_def by (intro gf.rules)

lemma frame_nas_messages [frame_rules]:
  "gf.obeys k u (handleGNBRegistrationRequest E k u d gnb req)" "gf.obeys k u (handleGNBAuthenticationResponse E k u d gnb req)"
  "gf.obeys k u (handleGNBSecurityModeComplete E k u d gnb req)" "gf.obeys k u (handleGNBRegistrationComplete E k u d gnb req)"
  "gf.obeys k u (handleGNBDeregistrationRequest E k u d gnb req)" "gf.obeys k u (handleGNBUEContextReleaseRequest E k u d req)"
  "gf.obeys k u (handleGNBIdentityResponse E k u d gnb req)" "gf.obeys k u (handleGNBAuthenticationFailure E k u d gnb req)"
  "gf.obeys k u (handleGNBSecurityModeReject E k u d gnb req)" "gf.obeys k u (handleGNBInjectNAS E k u d gnb req)"
  "gf.obeys k u (handleGNBUECapabilityInfo E k u d req)" "gf.obeys k u (handleGNBInitialContextSetupFailure E k u req)"
  "gf.obeys k u (handleGNBErrorIndication E k u d req)"
  unfolding handleGNBRegistrationRequest_def handleGNBAuthenticationResponse_def handleGNBSecurityModeComplete_def
    handleGNBRegistrationComplete_def handleGNBDeregistrationRequest_def handleGNBUEContextReleaseRequest_def
    handleGNBIdentityResponse_def handleGNBAuthenticationFailure_def handleGNBSecurityModeReject_def handleGNBInjectNAS_def
    handleGNBUECapabilityInfo_def handleGNBInitialContextSetupFailure_def handleGNBErrorIndication_def Let_def
  by (intro gf.rules gf.choice frame_rules)+

lemma frame_service_request [frame_rules]: "gf.obeys k u (handleGNBServiceRequest E k u d gnb req)"
  unfolding handleGNBServiceRequest_def build_service_request_def build_initial_def
  by (intro gf.rules gf.choice frame_rules frame_write_ue same_subscriber_assign) (simp add: same_subscriber_def)

end
