(* ===== verification/Api_Enb_Core.thy ===== *)
theory Api_Enb_Core
  imports Api_Gnb_Nas
begin

text \<open>
  What the S1AP messages of a UE share: the helpers of \<open>internal/api/enb_s1ap_handlers.go\<close>, the
  identifiers of \<open>enb_handover_handlers.go\<close> and the steps most handlers of \<open>enb_nas_handlers.go\<close> repeat.

  As for a gNB, a handler reads the UE through its pointer at each use, and \<open>d\<close> is the duration of the
  request's context.  An error that the code returns as it is has the status \<open>statusForError\<close> gives it.
\<close>

section \<open>Through the pointer to the UE\<close>

definition read_ue_EPS :: "string \<Rightarrow> string \<Rightarrow> (world, UEEPSContext) hand" where
  "read_ue_EPS k u = ue_op_EPS k u (\<lambda>ue. (Inr ue, ue))"

definition write_ue_EPS :: "string \<Rightarrow> string \<Rightarrow> (UEEPSContext \<Rightarrow> UEEPSContext) \<Rightarrow> (world, unit) hand" where
  "write_ue_EPS k u f = ue_op_EPS k u (\<lambda>ue. (Inr (), f ue))"

definition forgeIDs :: "UEEPSContext \<Rightarrow> SendENBUES1APRequest option \<Rightarrow> u32 \<times> u32" where
  "forgeIDs ue req = (case req of None \<Rightarrow> (vMMEUES1APID ue, vENBUES1APID ue)
     | Some r \<Rightarrow> (patched (sqMMEUES1APIDOverride r) (vMMEUES1APID ue), patched (sqENBUES1APIDOverride r) (vENBUES1APID ue)))"

definition sourceMMEID :: "UEEPSContext \<Rightarrow> SendENBUES1APRequest \<Rightarrow> u32" where
  "sourceMMEID ue req = patched (sqMMEUES1APIDOverride req) (vMMEUES1APID ue)"

definition sourceENBID :: "UEEPSContext \<Rightarrow> SendENBUES1APRequest \<Rightarrow> u32" where
  "sourceENBID ue req = patched (sqENBUES1APIDOverride req) (vENBUES1APID ue)"

section \<open>Sending\<close>

text \<open>\<open>b, err := build; if err != nil { return err }; t.Send(b, false)\<close>, and the form that reports neither
  failure.\<close>

definition build_and_send :: "('priv, 'pub) api_env \<Rightarrow> string \<Rightarrow> bytes result \<Rightarrow> (world, unit) hand" where
  "build_and_send E k b = hbind (hlift b) (\<lambda>x. s1_send E k x False)"

definition send_quietly_S1 :: "('priv, 'pub) api_env \<Rightarrow> string \<Rightarrow> bytes result \<Rightarrow> (world, unit) hand" where
  "send_quietly_S1 E k b = (case b of
      Inl (Panic p) \<Rightarrow> hfail (Panic p)
    | Inl e \<Rightarrow> hret ()
    | Inr x \<Rightarrow> hbind (htry (s1_send E k x False)) (\<lambda>_. hret ()))"

definition uplink_params_S1 :: "ENBContext \<Rightarrow> u32 \<times> u32 \<Rightarrow> bytes \<Rightarrow> UplinkNASTransportParams_S1" where
  "uplink_params_S1 enb ids nasPDU =
     \<lparr> unMMEUES1APID = fst ids, unENBUES1APID = snd ids, unNASPDU = nasPDU, unMCC = eMCC enb, unMNC = eMNC enb,
       unTAC = eTAC enb, unCellID = 1 \<rparr>"

text \<open>The UE remembers the NAS PDU of an uplink that could be built, also when sending it fails.\<close>

definition sendUplink ::
  "('priv, 'pub) api_env \<Rightarrow> string \<Rightarrow> string \<Rightarrow> ENBContext \<Rightarrow> bytes \<Rightarrow> SendENBUES1APRequest option \<Rightarrow> (world, unit) hand" where
  "sendUplink E k u enb nasPDU req =
     hbind (read_ue_EPS k u) (\<lambda>ue.
     hbind (hlift (BuildUplinkNASTransport_S1 (envS1Enc E) (uplink_params_S1 enb (forgeIDs ue req) nasPDU))) (\<lambda>ul.
     hbind (write_ue_EPS k u (\<lambda>ue. ue\<lparr> vLastUplinkNAS := Some nasPDU \<rparr>)) (\<lambda>_.
       s1_send E k ul False)))"

definition initial_params_S1 ::
  "ENBContext \<Rightarrow> u32 \<Rightarrow> bytes \<Rightarrow> STMSIParams option \<Rightarrow> int option \<Rightarrow> InitialUEMessageParams_S1" where
  "initial_params_S1 enb enbID nasPDU stmsi cause =
     \<lparr> iuENBUES1APID = enbID, iuNASPDU = nasPDU, iuMCC = eMCC enb, iuMNC = eMNC enb, iuTAC = eTAC enb, iuCellID = 1,
       iuSTMSI = stmsi, iuRRCEstablishmentCause = cause \<rparr>"

section \<open>Waiting\<close>

definition waitDownlink :: "string \<Rightarrow> string \<Rightarrow> 64 word \<Rightarrow> string list \<Rightarrow> (world, S1APResponse) hand" where
  "waitDownlink k u d types =
     hbind (read_ue_EPS k u) (\<lambda>ue.
       s1_wait k (Some (\<lambda>r. sr_ENBUES1APID r = Some (uint (vENBUES1APID ue)))) d types)"

definition effective_match :: "u32 \<times> u32 \<Rightarrow> S1APResponse \<Rightarrow> bool" where
  "effective_match ids r =
     (sr_ENBUES1APID r = Some (uint (snd ids)) \<or> (fst ids \<noteq> 0 \<and> sr_MMEUES1APID r = Some (uint (fst ids))))"

definition waitDownlinkReq ::
  "string \<Rightarrow> string \<Rightarrow> 64 word \<Rightarrow> SendENBUES1APRequest \<Rightarrow> string list \<Rightarrow> (world, S1APResponse) hand" where
  "waitDownlinkReq k u d req types =
     hbind (read_ue_EPS k u) (\<lambda>ue. s1_wait k (Some (effective_match (forgeIDs ue (Some req)))) d types)"

text \<open>\<open>waitDownlinkTolerant\<close> and \<open>waitDownlinkTolerantReq\<close>: no message is nil, not an error.\<close>

definition tolerant :: "(world, S1APResponse) hand \<Rightarrow> (world, S1APResponse option) hand" where
  "tolerant wait = hbind (htry wait) (\<lambda>r. case r of Inl e \<Rightarrow> hret None | Inr m \<Rightarrow> hret (Some m))"

definition waitDownlinkTolerant :: "string \<Rightarrow> string \<Rightarrow> 64 word \<Rightarrow> string list \<Rightarrow> (world, S1APResponse option) hand" where
  "waitDownlinkTolerant k u d types = tolerant (waitDownlink k u d types)"

definition waitDownlinkTolerantReq ::
  "string \<Rightarrow> string \<Rightarrow> 64 word \<Rightarrow> SendENBUES1APRequest \<Rightarrow> string list \<Rightarrow> (world, S1APResponse option) hand" where
  "waitDownlinkTolerantReq k u d req types = tolerant (waitDownlinkReq k u d req types)"

section \<open>What a message carries\<close>

definition learnMMEID :: "S1APResponse \<Rightarrow> UEEPSContext \<Rightarrow> UEEPSContext" where
  "learnMMEID m ue = (case sr_MMEUES1APID m of None \<Rightarrow> ue | Some i \<Rightarrow> ue\<lparr> vMMEUES1APID := of_int i \<rparr>)"

definition nasPDUBytes :: "S1APResponse \<Rightarrow> bytes result" where
  "nasPDUBytes m = (case sr_NASPDU m of None \<Rightarrow> Inl (Errorf ''downlink carries no NAS PDU'') | Some h \<Rightarrow> hex_decode h)"

text \<open>A message that has to be plain, read without the security context of the UE.\<close>

definition read_plain :: "eps_lib \<Rightarrow> bytes \<Rightarrow> NASResponse_EPS option result" where
  "read_plain L plain = (case DecodeNAS_EPS L plain of
      (nas, None) \<Rightarrow> Inr (annotateENBSecurityHeaderType nas plain) | (nas, Some e) \<Rightarrow> Inl e)"

definition learn_challenge_EPS :: "NASResponse_EPS \<Rightarrow> UEEPSContext \<Rightarrow> UEEPSContext" where
  "learn_challenge_EPS r ue = ue\<lparr> vRAND := hex_prefix (xRAND r), vAUTN := hex_prefix (xAUTN r) \<rparr>"

definition decode_downlink ::
  "('priv, 'pub) api_env \<Rightarrow> string \<Rightarrow> string \<Rightarrow> bytes \<Rightarrow> (world, NASResponse_EPS option \<times> bool option) hand" where
  "decode_downlink E k u b = ue_op_EPS k u (decodeENBDownlinkNAS (envAKA E) (envEPS E) b)"

text \<open>\<open>if dl.NASPDU != nil { if b, err := nasPDUBytes(dl); err == nil { ... } }\<close>.\<close>

definition decode_if_carried ::
  "('priv, 'pub) api_env \<Rightarrow> string \<Rightarrow> string \<Rightarrow> S1APResponse \<Rightarrow> (world, NASResponse_EPS option \<times> bool option) hand" where
  "decode_if_carried E k u m = (case nasPDUBytes m of Inl e \<Rightarrow> hret (None, None) | Inr b \<Rightarrow> decode_downlink E k u b)"

text \<open>The GUTI the network assigns; an M-TMSI that is not 32-bit hexadecimal is left as it was.\<close>

definition learn_guti_EPS :: "GUTIJSON \<Rightarrow> UEEPSContext \<Rightarrow> UEEPSContext" where
  "learn_guti_EPS g ue = ue\<lparr> vGUTIMCC := juMCC g, vGUTIMNC := juMNC g, vGUTIGroupID := of_int (juMMEGroupID g),
     vGUTICode := of_int (juMMECode g),
     vGUTIMTMSI := (case ParseUint16 32 (juMTMSI g) of Inr v \<Rightarrow> of_nat v | Inl e \<Rightarrow> vGUTIMTMSI ue) \<rparr>"

definition guti_of :: "UEEPSContext \<Rightarrow> GUTIParams" where
  "guti_of ue = \<lparr> gpMCC = vGUTIMCC ue, gpMNC = vGUTIMNC ue, gpMMEGroupID = vGUTIGroupID ue,
     gpMMECode = vGUTICode ue, gpMTMSI = vGUTIMTMSI ue \<rparr>"

definition no_response_EPS :: SendENBUES1APResponse where
  "no_response_EPS = \<lparr> xt_S1AP = None, xt_NAS = None, xt_MACVerified = None \<rparr>"

definition s1_only :: "S1APResponse option \<Rightarrow> SendENBUES1APResponse" where
  "s1_only m = \<lparr> xt_S1AP = m, xt_NAS = None, xt_MACVerified = None \<rparr>"

definition s1_answer :: "S1APResponse \<Rightarrow> NASResponse_EPS option \<Rightarrow> bool option \<Rightarrow> SendENBUES1APResponse" where
  "s1_answer m nas mac = \<lparr> xt_S1AP = Some m, xt_NAS = nas, xt_MACVerified = mac \<rparr>"

text \<open>The check most procedures start with, and the raw NAS PDU a request may give instead of the one that
  would be built.\<close>

definition needs_context :: "string \<Rightarrow> string \<Rightarrow> (world, unit) hand" where
  "needs_context k u = hbind (read_ue_EPS k u) (\<lambda>ue.
     hreq (vSecurityActive ue) (HTTPErr 400 ''no NAS security context; complete an attach first''))"

definition raw_nas_or :: "string option \<Rightarrow> (world, bytes) hand \<Rightarrow> (world, bytes) hand" where
  "raw_nas_or raw built = (case raw of
      Some h \<Rightarrow> hlift (http_error 400 ''raw_nas_pdu must be hex'' (hex_decode h)) | None \<Rightarrow> built)"

definition secure_uplink_EPS ::
  "('priv, 'pub) api_env \<Rightarrow> string \<Rightarrow> string \<Rightarrow> bytes \<Rightarrow> u8 \<Rightarrow> SendENBUES1APRequest option \<Rightarrow> (world, bytes) hand" where
  "secure_uplink_EPS E k u plain sht req = ue_op_EPS k u (encodeENBUplinkNAS (envEPS E) plain sht req)"

section \<open>What a message can change\<close>

lemma frame_read_ue_EPS [frame_rules]: "ef.obeys k u (read_ue_EPS k u)"
  unfolding read_ue_EPS_def by (rule obeys_ue_op_EPS) simp

lemma frame_write_ue_EPS: "(\<And>x. same_subscriber_EPS x (f x)) \<Longrightarrow> ef.obeys k u (write_ue_EPS k u f)"
  unfolding write_ue_EPS_def by (rule obeys_ue_op_EPS) simp

lemma frame_allocate_EPS [frame_rules]:
  "ef.obeys k u (enb_op k (\<lambda>e. case AllocateENBUES1APID e of (n, e') \<Rightarrow> (Inr n, e')))"
proof (rule ef.obeysI)
  fix w
  let ?f = "\<lambda>e. case AllocateENBUES1APID e of (n, e') \<Rightarrow> (Inr n, e')"
  show "enb_frame k u w (snd (enb_op k ?f w))"
  proof (cases "enbs (wStore w) k")
    case (Some e)
    have "enb_change u e (snd (?f e))"
      by (simp add: AllocateENBUES1APID_def Let_def enb_change_def)
    then show ?thesis
      using Some by (simp add: enb_op_def enb_frame_def update_enb_def option.rel_refl)
  qed (simp add: enb_op_def enb_frame_refl)
qed

lemma same_subscriber_encode_EPS: "same_subscriber_EPS ue (snd (encodeENBUplinkNAS L p sht req ue))"
  by (auto simp: encodeENBUplinkNAS_def same_subscriber_EPS_def NextUL_EPS_def Let_def split: sum.split)

lemma frame_steps_EPS [frame_rules]:
  "ef.obeys k u (build_and_send E k b)" "ef.obeys k u (send_quietly_S1 E k b)"
  "ef.obeys k u (sendUplink E k u enb x req)" "ef.obeys k u (waitDownlink k u d types)"
  "ef.obeys k u (waitDownlinkReq k u d r types)" "ef.obeys k u (needs_context k u)"
proof -
  show "ef.obeys k u (send_quietly_S1 E k b)"
    unfolding send_quietly_S1_def by (auto split: sum.split error.split intro!: ef.rules frame_rules)
  show "ef.obeys k u (build_and_send E k b)" "ef.obeys k u (waitDownlink k u d types)"
    "ef.obeys k u (waitDownlinkReq k u d r types)" "ef.obeys k u (needs_context k u)"
    unfolding build_and_send_def waitDownlink_def waitDownlinkReq_def needs_context_def
    by (intro ef.rules frame_rules)+
  show "ef.obeys k u (sendUplink E k u enb x req)"
    unfolding sendUplink_def by (intro ef.rules frame_rules frame_write_ue_EPS) (simp add: same_subscriber_EPS_def)
qed

lemma frame_tolerant [frame_rules]: "ef.obeys k u m \<Longrightarrow> ef.obeys k u (tolerant m)"
  unfolding tolerant_def by (intro ef.rules)

lemma frame_tolerant_waits [frame_rules]:
  "ef.obeys k u (waitDownlinkTolerant k u d types)" "ef.obeys k u (waitDownlinkTolerantReq k u d r types)"
  unfolding waitDownlinkTolerant_def waitDownlinkTolerantReq_def by (intro frame_rules)+

lemma frame_security_EPS [frame_rules]:
  "ef.obeys k u (decode_downlink E k u b)" "ef.obeys k u (secure_uplink_EPS E k u x sht req)"
  unfolding decode_downlink_def secure_uplink_EPS_def
  by (intro obeys_ue_op_EPS same_subscriber_encode_EPS same_subscriber_EPS_decode)+

lemma frame_decode_if_carried [frame_rules]: "ef.obeys k u (decode_if_carried E k u m)"
  unfolding decode_if_carried_def by (intro ef.rules frame_rules)

lemma frame_raw_nas_or [frame_rules]: "ef.obeys k u m \<Longrightarrow> ef.obeys k u (raw_nas_or raw m)"
  unfolding raw_nas_or_def by (intro ef.rules)

lemma frame_raw_or_EPS [frame_rules]: "ef.obeys k u m \<Longrightarrow> ef.obeys k u (raw_or raw m)"
  unfolding raw_or_def by (intro ef.rules)

lemma same_subscriber_learn_EPS:
  "same_subscriber_EPS ue (learnMMEID m ue)" "same_subscriber_EPS ue (learn_challenge_EPS r ue)"
  "same_subscriber_EPS ue (learn_guti_EPS g ue)"
  by (simp_all add: learnMMEID_def learn_challenge_EPS_def learn_guti_EPS_def same_subscriber_EPS_def split: option.split)

end
