(* ===== verification/Api_Enb_Nas.thy ===== *)
theory Api_Enb_Nas
  imports Api_Enb_Core
begin

text \<open>
  The NAS messages of an EPS UE: \<open>internal/api/enb_nas_handlers.go\<close>.  Each definition is the handler of
  its name, from its first statement to its last.
\<close>

section \<open>Attach\<close>

definition attachOverrides :: "SendENBUES1APRequest \<Rightarrow> AttachRequestOverrides" where
  "attachOverrides req = \<lparr>
     aoUENetworkCapability = sqUENetworkCapabilityOverride req, aoOldPTMSISignature = sqOldPTMSISignature req,
     aoAdditionalGUTI = sqAdditionalGUTI req, aoLastVisitedRegisteredTAI = sqLastVisitedRegisteredTAI req,
     aoDRXParameter = sqDRXParameter req, aoMSNetworkCapability = sqMSNetworkCapability req,
     aoOldLocationAreaID = sqOldLocationAreaID req, aoTMSIStatus = sqTMSIStatus req,
     aoMobileStationClassmark2 = sqMobileStationClassmark2 req, aoMobileStationClassmark3 = sqMobileStationClassmark3 req,
     aoSupportedCodecs = sqSupportedCodecs req, aoAdditionalUpdateType = sqAdditionalUpdateType req,
     aoVoiceDomainPreference = sqVoiceDomainPreference req, aoDeviceProperties = sqDeviceProperties req,
     aoOldGUTIType = sqOldGUTIType req, aoMSNetworkFeatureSupport = sqMSNetworkFeatureSupport req,
     aoTMSIBasedNRIContainer = sqTMSIBasedNRIContainer req, aoT3324Value = sqT3324Value req,
     aoT3412ExtendedValue = sqT3412ExtendedValue req, aoExtendedDRXParameters = sqExtendedDRXParameters req,
     aoUEAdditionalSecurityCapability = sqUEAdditionalSecurityCapability req, aoUEStatus = sqUEStatus req,
     aoAdditionalInformationRequested = sqAdditionalInformationRequested req,
     aoN1UENetworkCapability = sqN1UENetworkCapability req,
     aoUERadioCapabilityIDAvailability = sqUERadioCapabilityIDAvailability req,
     aoRequestedWUSAssistance = sqRequestedWUSAssistance req, aoDRXParameterNBS1Mode = sqDRXParameterNBS1Mode req,
     aoRequestedIMSIOffset = sqRequestedIMSIOffset req \<rparr>"

definition or_ipv4 :: "u8 \<Rightarrow> u8" where
  "or_ipv4 pdnType = (if pdnType = 0 then PDNTypeIPv4 else pdnType)"

definition attach_params :: "ENBContext \<Rightarrow> UEEPSContext \<Rightarrow> SendENBUES1APRequest \<Rightarrow> bytes \<Rightarrow> AttachRequestParams" where
  "attach_params enb ue req esm =
     \<lparr> apIMSI = vIMSI ue,
       apGUTI = (if sqForeignGUTI req then Some \<lparr> gpMCC = eMCC enb, gpMNC = eMNC enb, gpMMEGroupID = 1, gpMMECode = 1,
                   gpMTMSI = 0x0BADF00D \<rparr> else None),
       apAttachType = sqAttachType req, apNASKeySetIdentifier = ksiNoKey,
       apUENetworkCapability = vUENetworkCapability ue, apESMContainer = esm,
       apOverrides = Some (attachOverrides req) \<rparr>"

definition learn_attach_answer :: "NASResponse_EPS \<Rightarrow> UEEPSContext \<Rightarrow> UEEPSContext" where
  "learn_attach_answer r ue = (let ue = learn_challenge_EPS r ue in
     case xNASKeySetIdentifier r of None \<Rightarrow> ue | Some i \<Rightarrow> ue\<lparr> vKSI := of_int i \<rparr>)"

definition learn_nas :: "(NASResponse_EPS \<Rightarrow> UEEPSContext \<Rightarrow> UEEPSContext) \<Rightarrow> NASResponse_EPS option \<Rightarrow> UEEPSContext \<Rightarrow> UEEPSContext" where
  "learn_nas f nas ue = (case nas of None \<Rightarrow> ue | Some r \<Rightarrow> f r ue)"

definition handleENBAttachRequestRaw ::
  "('priv, 'pub) api_env \<Rightarrow> string \<Rightarrow> string \<Rightarrow> 64 word \<Rightarrow> ENBContext \<Rightarrow> string \<Rightarrow> int option
    \<Rightarrow> (world, SendENBUES1APResponse) hand" where
  "handleENBAttachRequestRaw E k u d enb rawHex rrcCause =
     hbind (hlift (http_error 400 ''raw_nas_pdu must be hex'' (hex_decode rawHex))) (\<lambda>raw.
     hbind (read_ue_EPS k u) (\<lambda>ue.
     hbind (build_and_send E k (BuildInitialUEMessage_S1 (envS1Enc E)
              (initial_params_S1 enb (vENBUES1APID ue) raw None rrcCause))) (\<lambda>_.
     hbind (waitDownlinkTolerant k u d [''DownlinkNASTransport'', ''UEContextReleaseCommand'', ''ErrorIndication'']) (\<lambda>r. case r of
       None \<Rightarrow> hret no_response_EPS
     | Some dl \<Rightarrow>
         hbind (write_ue_EPS k u (learnMMEID dl)) (\<lambda>_.
         hret (s1_answer dl (case nasPDUBytes dl of Inl e \<Rightarrow> None
             | Inr plain \<Rightarrow> annotateENBSecurityHeaderType (fst (DecodeNAS_EPS (envEPS E) plain)) plain) None))))))"

definition handleENBAttachRequest ::
  "('priv, 'pub) api_env \<Rightarrow> string \<Rightarrow> string \<Rightarrow> 64 word \<Rightarrow> ENBContext \<Rightarrow> SendENBUES1APRequest
    \<Rightarrow> (world, SendENBUES1APResponse) hand" where
  "handleENBAttachRequest E k u d enb req = (case sqRawNASPDU req of
      Some h \<Rightarrow> handleENBAttachRequestRaw E k u d enb h (sqRRCEstablishmentCauseOverride req)
    | None \<Rightarrow>
        hbind (hlift (BuildPDNConnectivityRequest (envEPSEnc E) 1 (or_ipv4 (sqPDNType req)))) (\<lambda>esm.
        hbind (read_ue_EPS k u) (\<lambda>ue.
        hbind (hlift (BuildAttachRequest (envEPSEnc E) (attach_params enb ue req esm))) (\<lambda>ar.
        hbind (build_and_send E k (BuildInitialUEMessage_S1 (envS1Enc E)
                 (initial_params_S1 enb (vENBUES1APID ue) ar None (sqRRCEstablishmentCauseOverride req)))) (\<lambda>_.
        hbind (waitDownlink k u d [''DownlinkNASTransport'']) (\<lambda>dl.
        hbind (write_ue_EPS k u (learnMMEID dl)) (\<lambda>_.
        hbind (hlift (nasPDUBytes dl)) (\<lambda>plain.
        hbind (hlift (read_plain (envEPS E) plain)) (\<lambda>nas.
        hbind (write_ue_EPS k u (learn_nas learn_attach_answer nas)) (\<lambda>_.
          hret (s1_answer dl nas None)))))))))))"

section \<open>Authentication\<close>

text \<open>The key is kept before the override of the answer is read.\<close>

definition eps_res :: "('priv, 'pub) api_env \<Rightarrow> string \<Rightarrow> string \<Rightarrow> ENBContext \<Rightarrow> SendENBUES1APRequest \<Rightarrow> (world, bytes) hand" where
  "eps_res E k u enb req =
     hbind (read_ue_EPS k u) (\<lambda>ue.
     hbind (hlift (rwrap ''eps-aka'' (ComputeEPSAKA (envAKA E) (vK ue) (vOPc ue) (vSQN ue) (eMCC enb) (eMNC enb) (vRAND ue) (vAUTN ue)))) (\<lambda>aka.
     hbind (write_ue_EPS k u (\<lambda>ue. ue\<lparr> vKasme := rKasme aka \<rparr>)) (\<lambda>_.
       hlift (case sqRESOverride req of None \<Rightarrow> Inr (rRES aka)
         | Some h \<Rightarrow> http_error 400 ''res_override must be hex'' (hex_decode h)))))"

definition handleENBAuthenticationResponse ::
  "('priv, 'pub) api_env \<Rightarrow> string \<Rightarrow> string \<Rightarrow> 64 word \<Rightarrow> ENBContext \<Rightarrow> SendENBUES1APRequest
    \<Rightarrow> (world, SendENBUES1APResponse) hand" where
  "handleENBAuthenticationResponse E k u d enb req =
     hbind (raw_or (sqRawNASPDU req)
       (hbind (eps_res E k u enb req) (\<lambda>res. hlift (BuildAuthenticationResponse_EPS (envEPSEnc E) res)))) (\<lambda>pdu.
     hbind (sendUplink E k u enb pdu (Some req)) (\<lambda>_.
     hbind (or_http 504 ''waiting for response'' (waitDownlinkReq k u d req [''DownlinkNASTransport'', ''ErrorIndication''])) (\<lambda>dl.
     if sr_NASPDU dl = None then hret (s1_only (Some dl))
     else
       hbind (hlift (nasPDUBytes dl)) (\<lambda>nasBytes.
       hbind (decode_downlink E k u nasBytes) (\<lambda>(nasResp, macVerified).
         hret (s1_answer dl nasResp macVerified))))))"

text \<open>The tail of an answer that may bring a new challenge: the downlink is read as a plain message.\<close>

definition learn_if_challenge :: "NASResponse_EPS \<Rightarrow> UEEPSContext \<Rightarrow> UEEPSContext" where
  "learn_if_challenge r ue = (if xMessageType r = ''authentication_request'' then learn_challenge_EPS r ue else ue)"

definition plain_answer :: "('priv, 'pub) api_env \<Rightarrow> string \<Rightarrow> string \<Rightarrow> S1APResponse \<Rightarrow> (world, SendENBUES1APResponse) hand" where
  "plain_answer E k u dl =
     (if sr_NASPDU dl = None then hret (s1_only (Some dl))
      else
        hbind (hlift (nasPDUBytes dl)) (\<lambda>plain.
        hbind (hlift (read_plain (envEPS E) plain)) (\<lambda>nas.
        hbind (write_ue_EPS k u (learn_nas learn_if_challenge nas)) (\<lambda>_.
          hret (s1_answer dl nas None)))))"

definition handleENBIdentityResponse ::
  "('priv, 'pub) api_env \<Rightarrow> string \<Rightarrow> string \<Rightarrow> 64 word \<Rightarrow> ENBContext \<Rightarrow> SendENBUES1APRequest
    \<Rightarrow> (world, SendENBUES1APResponse) hand" where
  "handleENBIdentityResponse E k u d enb req =
     hbind (read_ue_EPS k u) (\<lambda>ue.
     hbind (hlift (BuildIdentityResponse_EPS (envEPSEnc E) (vIMSI ue))) (\<lambda>pdu.
     hbind (sendUplink E k u enb pdu (Some req)) (\<lambda>_.
     hbind (waitDownlinkReq k u d req [''DownlinkNASTransport'', ''ErrorIndication'']) (plain_answer E k u))))"

definition emmCauseSynchFailure :: u8 where "emmCauseSynchFailure = 21"

definition handleENBAuthenticationFailure ::
  "('priv, 'pub) api_env \<Rightarrow> string \<Rightarrow> string \<Rightarrow> 64 word \<Rightarrow> ENBContext \<Rightarrow> SendENBUES1APRequest
    \<Rightarrow> (world, SendENBUES1APResponse) hand" where
  "handleENBAuthenticationFailure E k u d enb req =
     hbind (the_or 400 ''cause is required for authentication_failure'' (sqEMMCause req)) (\<lambda>c.
     let cause = of_int c in
     hbind (read_ue_EPS k u) (\<lambda>ue.
     hbind (hlift (if cause = emmCauseSynchFailure
              then rwrap ''compute AUTS'' (ComputeAUTS (envAKA E) (vK ue) (vOPc ue) (vSQN ue) (vRAND ue)) else Inr [])) (\<lambda>auts.
     hbind (hlift (BuildAuthenticationFailure_EPS (envEPSEnc E) cause auts)) (\<lambda>pdu.
     hbind (sendUplink E k u enb pdu (Some req)) (\<lambda>_.
     hbind (waitDownlinkReq k u d req [''DownlinkNASTransport'', ''ErrorIndication'']) (plain_answer E k u))))))"

section \<open>Security mode and the end of an attach\<close>

definition erabSGWIP :: "ENBContext \<Rightarrow> ERABSetupItemJSON \<Rightarrow> string" where
  "erabSGWIP enb e =
     (case ParseAddr (eN3Addr enb) of
        Inr a \<Rightarrow> if Is6 a then firstNonEmpty [si_TransportLayerAddressIPv6 e, si_TransportLayerAddress e]
                else firstNonEmpty [si_TransportLayerAddress e, si_TransportLayerAddressIPv6 e]
      | Inl err \<Rightarrow> firstNonEmpty [si_TransportLayerAddress e, si_TransportLayerAddressIPv6 e])"

definition ueIPFromPDNAddress :: "string \<Rightarrow> string" where
  "ueIPFromPDNAddress pdnHex = (case hex_decode pdnHex of Inl e \<Rightarrow> []
     | Inr b \<Rightarrow> if length b < 5 \<or> b ! 0 \<noteq> PDNTypeIPv4 then [] else IP_String (take 4 (drop 1 b)))"

text \<open>What the UE takes from an Attach Accept and the context setup that carries it.\<close>

definition learn_accept :: "ENBContext \<Rightarrow> S1APResponse \<Rightarrow> NASResponse_EPS \<Rightarrow> UEEPSContext \<Rightarrow> UEEPSContext" where
  "learn_accept enb dl nas ue =
     (let ue = (case xEPSBearerIdentity nas of None \<Rightarrow> ue | Some i \<Rightarrow> ue\<lparr> vEPSBearerID := of_int i \<rparr>);
          ue = (case xBearerPTI nas of None \<Rightarrow> ue | Some i \<Rightarrow> ue\<lparr> vPTI := of_int i \<rparr>);
          ue = (case xGUTI nas of None \<Rightarrow> ue | Some g \<Rightarrow> learn_guti_EPS g ue);
          ue = (case sr_ERABSetupItems dl of [] \<Rightarrow> ue
                | e # _ \<Rightarrow> ue\<lparr> vERABID := of_int (si_ERABID e), vULTeid := si_ULTeid e, vSGWIP := erabSGWIP enb e \<rparr>)
      in ue\<lparr> vDLTeid := vENBUES1APID ue, vUEIP := ueIPFromPDNAddress (xPDNAddress nas) \<rparr>)"

definition handleENBSecurityModeComplete ::
  "('priv, 'pub) api_env \<Rightarrow> string \<Rightarrow> string \<Rightarrow> 64 word \<Rightarrow> ENBContext \<Rightarrow> SendENBUES1APRequest
    \<Rightarrow> (world, SendENBUES1APResponse) hand" where
  "handleENBSecurityModeComplete E k u d enb req =
     hbind (read_ue_EPS k u) (\<lambda>ue.
     hbind (hreq (vSecurityActive ue) (Errorf ''no NAS security context; run authentication_response first'')) (\<lambda>_.
     hbind (raw_nas_or (sqRawNASPDU req)
       (hbind (hlift (BuildSecurityModeComplete_EPS (envEPSEnc E) (vIMEISV ue))) (\<lambda>smc.
          secure_uplink_EPS E k u smc SHTIntegrityProtectedCipheredNew (Some req)))) (\<lambda>nasPDU.
     hbind (sendUplink E k u enb nasPDU (Some req)) (\<lambda>_.
     if sqCorruptMAC req then
       hbind (waitDownlinkTolerantReq k u d req [''InitialContextSetupRequest'']) (\<lambda>m. hret (s1_only m))
     else
       hbind (waitDownlinkReq k u d req [''InitialContextSetupRequest'', ''ErrorIndication'']) (\<lambda>dl.
       if sr_NASPDU dl = None then hret (s1_only (Some dl))
       else
         hbind (hlift (nasPDUBytes dl)) (\<lambda>nasBytes.
         hbind (decode_downlink E k u nasBytes) (\<lambda>(nas, macVerified). case nas of
           None \<Rightarrow> hret (s1_answer dl None macVerified)
         | Some r \<Rightarrow>
             hbind (write_ue_EPS k u (learn_accept enb dl r)) (\<lambda>_. hret (s1_answer dl nas macVerified)))))))))"

definition emmCauseSecurityCapMismatch :: u8 where "emmCauseSecurityCapMismatch = 23"

definition handleENBSecurityModeReject ::
  "('priv, 'pub) api_env \<Rightarrow> string \<Rightarrow> string \<Rightarrow> 64 word \<Rightarrow> ENBContext \<Rightarrow> SendENBUES1APRequest
    \<Rightarrow> (world, SendENBUES1APResponse) hand" where
  "handleENBSecurityModeReject E k u d enb req =
     (let cause = patched (map_option of_int (sqEMMCause req)) emmCauseSecurityCapMismatch in
      hbind (hlift (BuildSecurityModeReject_EPS (envEPSEnc E) cause)) (\<lambda>pdu.
      hbind (sendUplink E k u enb pdu (Some req)) (\<lambda>_.
      hbind (waitDownlinkReq k u d req [''UEContextReleaseCommand'', ''ErrorIndication'']) (\<lambda>dl.
        hret (s1_only (Some dl))))))"

text \<open>The context setup is answered with the default bearer's endpoint, whose TEID is the UE's S1AP identity.\<close>

definition setup_response :: "ENBContext \<Rightarrow> UEEPSContext \<Rightarrow> InitialContextSetupResponseParams" where
  "setup_response enb ue =
     \<lparr> irMMEUES1APID = vMMEUES1APID ue, irENBUES1APID = vENBUES1APID ue, irERABID = vERABID ue,
       irENBN3Addr = eN3Addr enb, irGTPTEID = vENBUES1APID ue \<rparr>"

definition handleENBAttachComplete ::
  "('priv, 'pub) api_env \<Rightarrow> string \<Rightarrow> string \<Rightarrow> 64 word \<Rightarrow> ENBContext \<Rightarrow> SendENBUES1APRequest
    \<Rightarrow> (world, SendENBUES1APResponse) hand" where
  "handleENBAttachComplete E k u d enb req =
     hbind (read_ue_EPS k u) (\<lambda>ue.
     hbind (build_and_send E k (BuildInitialContextSetupResponse_S1 (envS1Enc E) (setup_response enb ue))) (\<lambda>_.
     hbind (raw_nas_or (sqRawNASPDU req)
       (hbind (hlift (BuildActivateDefaultEPSBearerContextAccept (envEPSEnc E) (vEPSBearerID ue) (vPTI ue))) (\<lambda>esm.
        hbind (hlift (BuildAttachComplete (envEPSEnc E) esm)) (\<lambda>ac.
          secure_uplink_EPS E k u ac SHTIntegrityProtectedCiphered None)))) (\<lambda>nasPDU.
     hbind (sendUplink E k u enb nasPDU (Some req)) (\<lambda>_.
     hbind (waitDownlinkTolerantReq k u (at_most d 2000000000) req [''DownlinkNASTransport'', ''ErrorIndication'']) (\<lambda>r. case r of
       None \<Rightarrow> hret no_response_EPS
     | Some dl \<Rightarrow>
         hbind (decode_if_carried E k u dl) (\<lambda>(nas, macVerified). hret (s1_answer dl nas macVerified)))))))"

section \<open>Capabilities, errors and failures\<close>

definition handleENBUECapabilityInfo ::
  "('priv, 'pub) api_env \<Rightarrow> string \<Rightarrow> string \<Rightarrow> 64 word \<Rightarrow> SendENBUES1APRequest \<Rightarrow> (world, SendENBUES1APResponse) hand" where
  "handleENBUECapabilityInfo E k u d req =
     hbind (hlift (case sqUERadioCapability req of None \<Rightarrow> Inr [1, 2, 3, 4, 5]
              | Some h \<Rightarrow> http_error 400 ''ue_radio_capability must be hex'' (hex_decode h))) (\<lambda>radioCap.
     hbind (read_ue_EPS k u) (\<lambda>ue.
     hbind (build_and_send E k (case forgeIDs ue (Some req) of (mmeID, enbID) \<Rightarrow>
              BuildUECapabilityInfoIndication (envS1Enc E) mmeID enbID radioCap)) (\<lambda>_.
     hbind (tolerant (s1_wait k None (at_most d 1000000000) [''ErrorIndication''])) (\<lambda>m. hret (s1_only m)))))"

definition handleENBErrorIndication ::
  "('priv, 'pub) api_env \<Rightarrow> string \<Rightarrow> string \<Rightarrow> 64 word \<Rightarrow> SendENBUES1APRequest \<Rightarrow> (world, SendENBUES1APResponse) hand" where
  "handleENBErrorIndication E k u d req =
     hbind (read_ue_EPS k u) (\<lambda>ue.
     hbind (build_and_send E k (BuildErrorIndication_S1 (envS1Enc E) (sourceMMEID ue req) (sourceENBID ue req)
              causeRadioNetworkUnspecified)) (\<lambda>_.
     hbind (waitDownlinkTolerant k u d [''UEContextReleaseCommand'', ''ErrorIndication'']) (\<lambda>m. hret (s1_only m))))"

definition handleENBInitialContextSetupFailure ::
  "('priv, 'pub) api_env \<Rightarrow> string \<Rightarrow> string \<Rightarrow> SendENBUES1APRequest \<Rightarrow> (world, SendENBUES1APResponse) hand" where
  "handleENBInitialContextSetupFailure E k u req =
     hbind (read_ue_EPS k u) (\<lambda>ue.
     hbind (build_and_send E k (BuildInitialContextSetupFailure_S1 (envS1Enc E) (sourceMMEID ue req) (sourceENBID ue req)
              causeRadioNetworkUnspecified)) (\<lambda>_. hret no_response_EPS))"

section \<open>Tracking area update\<close>

definition stmsi_of :: "UEEPSContext \<Rightarrow> STMSIParams" where
  "stmsi_of ue = \<lparr> smMMEC = vGUTICode ue, smMTMSI = vGUTIMTMSI ue \<rparr>"

text \<open>As for a gNB, the connection that the new one supersedes is released and the release completed.\<close>

definition reestablishENBConnection ::
  "('priv, 'pub) api_env \<Rightarrow> string \<Rightarrow> string \<Rightarrow> 64 word \<Rightarrow> ENBContext \<Rightarrow> bytes \<Rightarrow> (world, SendENBUES1APResponse) hand" where
  "reestablishENBConnection E k u d enb nasPDU =
     hbind (read_ue_EPS k u) (\<lambda>old.
     hbind (enb_op k (\<lambda>e. case AllocateENBUES1APID e of (n, e') \<Rightarrow> (Inr n, e'))) (\<lambda>enbID.
     hbind (build_and_send E k (BuildInitialUEMessage_S1 (envS1Enc E)
              (initial_params_S1 enb enbID nasPDU (Some (stmsi_of old)) None))) (\<lambda>_.
     hbind (tolerant (s1_wait k (Some (\<lambda>r. sr_ENBUES1APID r = Some (uint (vENBUES1APID old)))) d
              [''UEContextReleaseCommand'', ''ErrorIndication''])) (\<lambda>r. case r of
       None \<Rightarrow> hret no_response_EPS
     | Some rel \<Rightarrow>
         hbind (if sr_MessageType rel = ''UEContextReleaseCommand''
                then send_quietly_S1 E k (BuildUEContextReleaseComplete_S1 (envS1Enc E) (vMMEUES1APID old) (vENBUES1APID old))
                else hret ()) (\<lambda>_.
         hret (s1_only (Some rel)))))))"

definition tau_params :: "UEEPSContext \<Rightarrow> SendENBUES1APRequest \<Rightarrow> TrackingAreaUpdateRequestParams" where
  "tau_params ue req = \<lparr> tpUpdateType = sqEPSUpdateType req, tpActiveFlag = False, tpKSI = vKSI ue, tpGUTI = guti_of ue \<rparr>"

text \<open>An accept that assigns a GUTI is completed.\<close>

definition complete_tau ::
  "('priv, 'pub) api_env \<Rightarrow> string \<Rightarrow> string \<Rightarrow> ENBContext \<Rightarrow> SendENBUES1APRequest \<Rightarrow> NASResponse_EPS \<Rightarrow> (world, unit) hand" where
  "complete_tau E k u enb req nas = (case xGUTI nas of
      None \<Rightarrow> hret ()
    | Some g \<Rightarrow>
        hbind (write_ue_EPS k u (learn_guti_EPS g)) (\<lambda>_.
        hbind (hlift (BuildTrackingAreaUpdateComplete (envEPSEnc E))) (\<lambda>complete.
        hbind (secure_uplink_EPS E k u complete SHTIntegrityProtectedCiphered None) (\<lambda>protectedC.
          sendUplink E k u enb protectedC (Some req)))))"

definition handleENBTrackingAreaUpdate ::
  "('priv, 'pub) api_env \<Rightarrow> string \<Rightarrow> string \<Rightarrow> 64 word \<Rightarrow> ENBContext \<Rightarrow> SendENBUES1APRequest
    \<Rightarrow> (world, SendENBUES1APResponse) hand" where
  "handleENBTrackingAreaUpdate E k u d enb req =
     hbind (needs_context k u) (\<lambda>_.
     hbind (read_ue_EPS k u) (\<lambda>ue.
     hbind (hlift (BuildTrackingAreaUpdateRequest (envEPSEnc E) (tau_params ue req))) (\<lambda>tau.
     hbind (secure_uplink_EPS E k u tau SHTIntegrityProtectedCiphered (Some req)) (\<lambda>protected.
     if sqReestablish req then reestablishENBConnection E k u d enb protected
     else
       hbind (if sqExistingConnection req then sendUplink E k u enb protected (Some req)
              else build_and_send E k (BuildInitialUEMessage_S1 (envS1Enc E) (initial_params_S1 enb (vENBUES1APID ue)
                     protected (Some (stmsi_of ue)) (sqRRCEstablishmentCauseOverride req)))) (\<lambda>_.
       hbind (waitDownlinkTolerant k u d [''DownlinkNASTransport'']) (\<lambda>r. case r of
         None \<Rightarrow> hret no_response_EPS
       | Some dl \<Rightarrow>
           hbind (write_ue_EPS k u (learnMMEID dl)) (\<lambda>_.
           hbind (hlift (nasPDUBytes dl)) (\<lambda>nasBytes.
           hbind (decode_downlink E k u nasBytes) (\<lambda>(nas, macVerified). case nas of
             None \<Rightarrow> hret (s1_answer dl None macVerified)
           | Some r \<Rightarrow> hbind (complete_tau E k u enb req r) (\<lambda>_. hret (s1_answer dl nas macVerified))))))))))) "

section \<open>Release, service and detach\<close>

definition handleENBUEContextReleaseRequest ::
  "('priv, 'pub) api_env \<Rightarrow> string \<Rightarrow> string \<Rightarrow> 64 word \<Rightarrow> SendENBUES1APRequest \<Rightarrow> (world, SendENBUES1APResponse) hand" where
  "handleENBUEContextReleaseRequest E k u d req =
     hbind (read_ue_EPS k u) (\<lambda>ue.
     hbind (build_and_send E k (case forgeIDs ue (Some req) of (mmeID, enbID) \<Rightarrow>
              BuildUEContextReleaseRequest_S1 (envS1Enc E) mmeID enbID
                (patched (sqReleaseCause req) CauseRadioNetworkUserInactivity_S1))) (\<lambda>_.
     if sqMMEUES1APIDOverride req \<noteq> None \<or> sqENBUES1APIDOverride req \<noteq> None then
       hbind (tolerant (s1_wait k None d [''ErrorIndication'', ''UEContextReleaseCommand''])) (\<lambda>m. hret (s1_only m))
     else
       hbind (waitDownlinkTolerant k u d [''UEContextReleaseCommand'', ''ErrorIndication'']) (\<lambda>r. case r of
         None \<Rightarrow> hret no_response_EPS
       | Some dl \<Rightarrow>
           if sr_MessageType dl \<noteq> ''UEContextReleaseCommand'' then hret (s1_only (Some dl))
           else
             hbind (build_and_send E k (BuildUEContextReleaseComplete_S1 (envS1Enc E) (vMMEUES1APID ue) (vENBUES1APID ue))) (\<lambda>_.
               hret (s1_only (Some dl))))))"

text \<open>The COUNT is taken, and its counter moves on, also when the request overrides it.  The short MAC is the
  last two of the four octets.\<close>

definition build_service_request_EPS ::
  "('priv, 'pub) api_env \<Rightarrow> string \<Rightarrow> string \<Rightarrow> SendENBUES1APRequest \<Rightarrow> (world, bytes) hand" where
  "build_service_request_EPS E k u req =
     hbind (ue_op_EPS k u (\<lambda>ue. case NextUL_EPS ue of (n, ue') \<Rightarrow> (Inr n, ue'))) (\<lambda>n.
     hbind (read_ue_EPS k u) (\<lambda>ue.
     hbind (hlift (BuildServiceRequest_EPS (envEPSEnc E)
              \<lparr> spKSI = vKSI ue, spCount = patched (sqNASCountOverride req) n, spKnasInt = vKnasInt ue,
                spEIA = vIntegrityAlg ue \<rparr>)) (\<lambda>built.
       hret (if sqCorruptMAC req then flip_octet 3 built else built))))"

definition answer_service ::
  "('priv, 'pub) api_env \<Rightarrow> string \<Rightarrow> string \<Rightarrow> ENBContext \<Rightarrow> S1APResponse \<Rightarrow> (world, SendENBUES1APResponse) hand" where
  "answer_service E k u enb dl =
     (if sr_MessageType dl = ''InitialContextSetupRequest'' then
        hbind (read_ue_EPS k u) (\<lambda>ue.
        hbind (build_and_send E k (BuildInitialContextSetupResponse_S1 (envS1Enc E) (setup_response enb ue))) (\<lambda>_.
          hret (s1_only (Some dl))))
      else if sr_MessageType dl = ''DownlinkNASTransport'' then
        hbind (decode_if_carried E k u dl) (\<lambda>(nas, macVerified). hret (s1_answer dl nas macVerified))
      else hret (s1_only (Some dl)))"

definition handleENBServiceRequest ::
  "('priv, 'pub) api_env \<Rightarrow> string \<Rightarrow> string \<Rightarrow> 64 word \<Rightarrow> ENBContext \<Rightarrow> SendENBUES1APRequest
    \<Rightarrow> (world, SendENBUES1APResponse) hand" where
  "handleENBServiceRequest E k u d enb req =
     hbind (needs_context k u) (\<lambda>_.
     hbind (raw_nas_or (sqRawNASPDU req) (build_service_request_EPS E k u req)) (\<lambda>sr.
     hbind (read_ue_EPS k u) (\<lambda>ue.
     hbind (if sqExistingConnection req then sendUplink E k u enb sr (Some req)
            else build_and_send E k (BuildInitialUEMessage_S1 (envS1Enc E) (initial_params_S1 enb (vENBUES1APID ue) sr
                   (Some \<lparr> smMMEC = vGUTICode ue, smMTMSI = patched (sqMTMSIOverride req) (vGUTIMTMSI ue) \<rparr>) None))) (\<lambda>_.
     hbind (waitDownlinkTolerant k u d [''InitialContextSetupRequest'', ''DownlinkNASTransport'']) (\<lambda>r. case r of
       None \<Rightarrow> hret no_response_EPS
     | Some dl \<Rightarrow> hbind (write_ue_EPS k u (learnMMEID dl)) (\<lambda>_. answer_service E k u enb dl))))))"

definition handleENBDetach ::
  "('priv, 'pub) api_env \<Rightarrow> string \<Rightarrow> string \<Rightarrow> 64 word \<Rightarrow> ENBContext \<Rightarrow> SendENBUES1APRequest
    \<Rightarrow> (world, SendENBUES1APResponse) hand" where
  "handleENBDetach E k u d enb req =
     hbind (needs_context k u) (\<lambda>_.
     hbind (raw_nas_or (sqRawNASPDU req)
       (hbind (read_ue_EPS k u) (\<lambda>ue.
        hbind (hlift (BuildDetachRequest (envEPSEnc E) (sqSwitchOff req) (vKSI ue) (guti_of ue))) (\<lambda>pdu.
          secure_uplink_EPS E k u pdu SHTIntegrityProtectedCiphered None)))) (\<lambda>nasPDU.
     hbind (sendUplink E k u enb nasPDU (Some req)) (\<lambda>_.
     if sqSwitchOff req then
       hbind (waitDownlinkTolerant k u d [''UEContextReleaseCommand'']) (\<lambda>m. hret (s1_only m))
     else
       hbind (waitDownlink k u d [''DownlinkNASTransport'']) (\<lambda>dl.
       if sr_NASPDU dl = None then hret (s1_only (Some dl))
       else
         hbind (hlift (nasPDUBytes dl)) (\<lambda>nasBytes.
         hbind (decode_downlink E k u nasBytes) (\<lambda>(nas, macVerified). hret (s1_answer dl nas macVerified)))))))"

section \<open>Messages of the tester\<close>

text \<open>The last uplink may be empty, as long as there was one.  The injected PDU does not become the last.\<close>

definition injected_EPS :: "UEEPSContext \<Rightarrow> SendENBUES1APRequest \<Rightarrow> bytes result" where
  "injected_EPS ue req =
     (if sqReplayLast req then
        (case vLastUplinkNAS ue of None \<Rightarrow> Inl (HTTPErr 400 ''no prior uplink to replay'') | Some b \<Rightarrow> Inr b)
      else (case sqRawNASPDU req of
         Some h \<Rightarrow> http_error 400 ''raw_nas_pdu must be hex'' (hex_decode h)
       | None \<Rightarrow> Inl (HTTPErr 400 ''inject_nas requires raw_nas_pdu or replay_last'')))"

definition handleENBInjectNAS ::
  "('priv, 'pub) api_env \<Rightarrow> string \<Rightarrow> string \<Rightarrow> 64 word \<Rightarrow> ENBContext \<Rightarrow> SendENBUES1APRequest
    \<Rightarrow> (world, SendENBUES1APResponse) hand" where
  "handleENBInjectNAS E k u d enb req =
     hbind (read_ue_EPS k u) (\<lambda>ue.
     hbind (hlift (injected_EPS ue req)) (\<lambda>nasPDU.
     hbind (build_and_send E k (BuildUplinkNASTransport_S1 (envS1Enc E)
              (uplink_params_S1 enb (sourceMMEID ue req, sourceENBID ue req) nasPDU))) (\<lambda>_.
     hbind (tolerant (s1_wait k None d [''DownlinkNASTransport'', ''ErrorIndication'', ''UEContextReleaseCommand''])) (\<lambda>m.
       hret (s1_only m)))))"

section \<open>Every message of a UE stays within its frame\<close>

lemma same_subscriber_learn_nas:
  "(\<And>r x. same_subscriber_EPS x (f r x)) \<Longrightarrow> same_subscriber_EPS ue (learn_nas f nas ue)"
  by (simp add: learn_nas_def split: option.split)

lemma same_subscriber_answers:
  "same_subscriber_EPS ue (learn_attach_answer r ue)" "same_subscriber_EPS ue (learn_if_challenge r ue)"
  "same_subscriber_EPS ue (learn_accept enb dl r ue)"
  by (simp_all add: learn_attach_answer_def learn_if_challenge_def learn_accept_def learn_challenge_EPS_def
      learn_guti_EPS_def same_subscriber_EPS_def Let_def split: option.split list.split)

lemmas eps_writes = frame_write_ue_EPS same_subscriber_learn_EPS same_subscriber_answers same_subscriber_learn_nas

lemma frame_eps_steps [frame_rules]:
  "ef.obeys k u (eps_res E k u enb req)" "ef.obeys k u (plain_answer E k u dl)"
  "ef.obeys k u (complete_tau E k u enb req r)" "ef.obeys k u (build_service_request_EPS E k u req)"
  "ef.obeys k u (answer_service E k u enb dl)" "ef.obeys k u (reestablishENBConnection E k u d enb x)"
proof -
  show "ef.obeys k u (eps_res E k u enb req)" "ef.obeys k u (build_service_request_EPS E k u req)"
    unfolding eps_res_def build_service_request_EPS_def
    by (intro ef.rules frame_rules frame_write_ue_EPS obeys_ue_op_EPS; simp add: same_subscriber_EPS_def NextUL_EPS_def Let_def)+
  show "ef.obeys k u (plain_answer E k u dl)" "ef.obeys k u (complete_tau E k u enb req r)"
    "ef.obeys k u (answer_service E k u enb dl)" "ef.obeys k u (reestablishENBConnection E k u d enb x)"
    unfolding plain_answer_def complete_tau_def answer_service_def reestablishENBConnection_def
    by (intro ef.rules ef.choice frame_rules eps_writes)+
qed

lemma frame_eps_messages [frame_rules]:
  "ef.obeys k u (handleENBAttachRequestRaw E k u d enb raw c)" "ef.obeys k u (handleENBAuthenticationResponse E k u d enb req)"
  "ef.obeys k u (handleENBIdentityResponse E k u d enb req)" "ef.obeys k u (handleENBAuthenticationFailure E k u d enb req)"
  "ef.obeys k u (handleENBSecurityModeComplete E k u d enb req)" "ef.obeys k u (handleENBSecurityModeReject E k u d enb req)"
  "ef.obeys k u (handleENBAttachComplete E k u d enb req)" "ef.obeys k u (handleENBUECapabilityInfo E k u d req)"
  "ef.obeys k u (handleENBErrorIndication E k u d req)" "ef.obeys k u (handleENBInitialContextSetupFailure E k u req)"
  "ef.obeys k u (handleENBTrackingAreaUpdate E k u d enb req)" "ef.obeys k u (handleENBUEContextReleaseRequest E k u d req)"
  "ef.obeys k u (handleENBServiceRequest E k u d enb req)" "ef.obeys k u (handleENBDetach E k u d enb req)"
  "ef.obeys k u (handleENBInjectNAS E k u d enb req)"
  unfolding handleENBAttachRequestRaw_def handleENBAuthenticationResponse_def handleENBIdentityResponse_def
    handleENBAuthenticationFailure_def handleENBSecurityModeComplete_def handleENBSecurityModeReject_def
    handleENBAttachComplete_def handleENBUECapabilityInfo_def handleENBErrorIndication_def
    handleENBInitialContextSetupFailure_def handleENBTrackingAreaUpdate_def handleENBUEContextReleaseRequest_def
    handleENBServiceRequest_def handleENBDetach_def handleENBInjectNAS_def Let_def
  by (intro ef.rules ef.choice frame_rules eps_writes)+

lemma frame_attach [frame_rules]: "ef.obeys k u (handleENBAttachRequest E k u d enb req)"
  unfolding handleENBAttachRequest_def by (intro ef.rules frame_rules eps_writes)

end
