(* ===== verification/Api_Gnb_Session.thy ===== *)
theory Api_Gnb_Session
  imports Api_Gnb_Nas
begin

text \<open>
  The session management, handover, path switch and reset messages of a gNB, and the two endpoints that
  dispatch on the message type: \<open>internal/api/gnb_pdu_session_handlers.go\<close>,
  \<open>gnb_handover_handlers.go\<close>, \<open>gnb_reset_path_switch_handlers.go\<close> and \<open>gnb_ngap_handlers.go\<close>.
\<close>

section \<open>Session establishment\<close>

definition ptiFor :: "SendGNBUENGAPRequest \<Rightarrow> u8" where
  "ptiFor req = patched (rqPTI req) 0x01"

text \<open>The loop over the items of the setup request: the last one of the session counts.\<close>

definition take_item :: "bool \<Rightarrow> int \<Rightarrow> PDUSessionSetupItemJSON \<Rightarrow> PDUSessionInfo \<Rightarrow> PDUSessionInfo" where
  "take_item v6 sid item info =
     (if pi_PDUSessionID item = sid then info\<lparr> psULTeid := pi_ULTeid item,
        psUPFIP := (if v6 then firstNonEmpty [pi_TransportLayerAddressIPv6 item, pi_TransportLayerAddress item]
                    else firstNonEmpty [pi_TransportLayerAddress item, pi_TransportLayerAddressIPv6 item]) \<rparr>
      else info)"

definition captureTunnel ::
  "GNBContext \<Rightarrow> int \<Rightarrow> u32 \<Rightarrow> NGAPResponse \<Rightarrow> NASResponse option \<Rightarrow> UEContext \<Rightarrow> UEContext" where
  "captureTunnel gnb pduSessionID dlTeid ngapResp nasResp ue =
     (let info = \<lparr> psPDUSessionID = of_int pduSessionID, psDNN = uDNN ue, psN3GNBIP = gN3Addr gnb, psDLTeid = dlTeid,
                   psQFI = 1, psULTeid = 0, psUPFIP = [], psUEIP = [] \<rparr>;
          gnbN3IsV6 = (case ParseAddr (gN3Addr gnb) of Inr a \<Rightarrow> Is6 a | Inl e \<Rightarrow> False);
          info = fold (take_item gnbN3IsV6 pduSessionID) (nr_PDUSessionSetupItems ngapResp) info;
          info = (case nasResp of None \<Rightarrow> info | Some r \<Rightarrow> info\<lparr> psUEIP := nPDUAddress r \<rparr>)
      in ue\<lparr> uPDUSessions := (uPDUSessions ue)(of_int pduSessionID \<mapsto> info) \<rparr>)"

definition requested_session_id :: "UEContext \<Rightarrow> SendGNBUENGAPRequest \<Rightarrow> u8" where
  "requested_session_id ue req =
     (let i = patched (rqPDUSessionIDOverride req) (uPDUSessionID ue) in if i = 0 then 1 else i)"

text \<open>The 5GSM message: the given octets, or a request built from the UE's session type.\<close>

definition establishment_payload ::
  "('priv, 'pub) api_env \<Rightarrow> u8 \<Rightarrow> u8 \<Rightarrow> SendGNBUENGAPRequest \<Rightarrow> bytes result" where
  "establishment_payload E pduSessionID pduSessionType req = (case rqInnerSMPayload req of
      Some h \<Rightarrow> http_error 400 ''decode inner_sm_payload'' (hex_decode h)
    | None \<Rightarrow> http_error 500 ''build PDUSessionEstablishmentRequest''
        (BuildPDUSessionEstablishmentRequest (envNAS5Enc E)
          \<lparr> peqPDUSessionID = pduSessionID, peqPDUSessionType = pduSessionType, peqPTI = ptiFor req,
            peqAlwaysOn = (rqAlwaysOnRequested req = Some True), peqDNN = [], peqSST = 0, peqSD = [] \<rparr>))"

text \<open>\<open>uint32(ue.RANUENGAPID)<<8 | uint32(pduSessionID)\<close>.\<close>

definition downlink_teid :: "UEContext \<Rightarrow> u8 \<Rightarrow> u32" where
  "downlink_teid ue pduSessionID = push_bit 8 (of_int (uRANUENGAPID ue)) OR ucast pduSessionID"

text \<open>What follows the setup request: the session becomes the UE's default if it has none, the gNB answers
  with its tunnel endpoint, and the tunnel is recorded if the gNB has a user plane.\<close>

definition accept_session ::
  "('priv, 'pub) api_env \<Rightarrow> string \<Rightarrow> string \<Rightarrow> GNBContext \<Rightarrow> bool \<Rightarrow> u8 \<Rightarrow> NGAPResponse \<Rightarrow> NASResponse option
    \<Rightarrow> (world, unit) hand" where
  "accept_session E k u gnb userPlane pduSessionID ngapResp nasResp =
     hbind (write_ue k u (\<lambda>ue. if uPDUSessionID ue = 0 then ue\<lparr> uPDUSessionID := pduSessionID \<rparr> else ue)) (\<lambda>_.
     hbind (read_ue k u) (\<lambda>ue.
     let dlTeid = downlink_teid ue pduSessionID in
     hbind (send_quietly E k (BuildPDUSessionResourceSetupResponse (envNGAP E)
              \<lparr> srAMFUENGAPID = uAMFUENGAPID ue, srRANUENGAPID = uRANUENGAPID ue, srPDUSessionID = uint pduSessionID,
                srDLTeid = dlTeid, srDLIP = gN3Addr gnb \<rparr>)) (\<lambda>_.
       if userPlane then write_ue k u (captureTunnel gnb (uint pduSessionID) dlTeid ngapResp nasResp) else hret ())))"

definition handleGNBPDUSessionEstablishmentRequest ::
  "('priv, 'pub) api_env \<Rightarrow> string \<Rightarrow> string \<Rightarrow> 64 word \<Rightarrow> GNBContext \<Rightarrow> bool \<Rightarrow> SendGNBUENGAPRequest
    \<Rightarrow> (world, SendGNBUENGAPResponse) hand" where
  "handleGNBPDUSessionEstablishmentRequest E k u d gnb userPlane req =
     hbind (read_ue k u) (\<lambda>ue.
     let pduSessionID = requested_session_id ue req;
         pduSessionType = (if uPDUSessionType ue = 0 then 1 else uPDUSessionType ue);
         waits = [''PDUSessionResourceSetupRequest'', ''DownlinkNASTransport'', ''ErrorIndication''] in
     case rqRawNASPDU req of
       Some h \<Rightarrow>
         hbind (hlift (http_error 400 ''decode raw_nas_pdu'' (hex_decode h))) (\<lambda>raw.
           sendUplinkAndWait E k u d gnb req raw waits)
     | None \<Rightarrow>
         hbind (hlift (establishment_payload E pduSessionID pduSessionType req)) (\<lambda>pduReq.
         hbind (hlift (http_error 500 ''build ULNASTransport'' (BuildULNASTransport (envNAS5Enc E)
                  \<lparr> utPduSessionID = pduSessionID, utPayloadContainer = pduReq, utDNN = uDNN ue, utSST = uSST ue,
                    utSD = uSD ue \<rparr>))) (\<lambda>ulNas.
         hbind (secure_uplink E k u ulNas SHTCiphered5 None) (\<lambda>securedPDU.
         hbind (send_uplink E k u gnb securedPDU (uplinkOverrides req)) (\<lambda>_.
         hbind (or_http 504 ''waiting for PDU establishment response'' (wait_own k u d req waits)) (\<lambda>ngapResp.
         hbind (carried_downlink E k u ngapResp) (\<lambda>(nasResp, macVerified).
         hbind (if nr_MessageType ngapResp = ''PDUSessionResourceSetupRequest''
                then accept_session E k u gnb userPlane pduSessionID ngapResp nasResp else hret ()) (\<lambda>_.
           hret \<lparr> xr_NGAP = Some ngapResp, xr_NAS = nasResp, xr_MACVerified = macVerified \<rparr>))))))))"

section \<open>Session management over an existing session\<close>

definition pduSessionIDForRelease :: "UEContext \<Rightarrow> u8" where
  "pduSessionIDForRelease ue = (if 1 \<le> unat (uPDUSessionID ue) \<and> unat (uPDUSessionID ue) \<le> 15 then uPDUSessionID ue else 1)"

text \<open>\<open>nasMessage.Cause5GSMProtocolErrorUnspecified\<close>.\<close>

definition cause5GSMFor :: "SendGNBUENGAPRequest \<Rightarrow> u8" where
  "cause5GSMFor req = patched (rqFiveGSMCause req) 0x6f"

text \<open>A 5GSM message of the UE, protected in a transport that names its session.\<close>

definition inner_5gsm ::
  "string \<Rightarrow> string \<Rightarrow> SendGNBUENGAPRequest \<Rightarrow> (u8 \<Rightarrow> bytes result) \<Rightarrow> (world, bytes) hand" where
  "inner_5gsm k u req build =
     hbind (read_ue k u) (\<lambda>ue.
       raw_or (rqRawNASPDU req) (hlift (http_error 500 ''build 5GSM message'' (build (pduSessionIDForRelease ue)))))"

definition secure_5gsm ::
  "('priv, 'pub) api_env \<Rightarrow> string \<Rightarrow> string \<Rightarrow> SendGNBUENGAPRequest \<Rightarrow> bytes \<Rightarrow> (world, bytes) hand" where
  "secure_5gsm E k u req inner =
     hbind (read_ue k u) (\<lambda>ue.
     hbind (hlift (http_error 500 ''build ULNASTransport''
              (BuildULNASTransportExisting (envNAS5Enc E) (pduSessionIDForRelease ue) (rqRequestTypeOverride req) inner))) (\<lambda>ulNas.
       secure_uplink E k u ulNas SHTCiphered5 None))"

definition handleGNBPDUSessionReleaseRequest ::
  "('priv, 'pub) api_env \<Rightarrow> string \<Rightarrow> string \<Rightarrow> 64 word \<Rightarrow> GNBContext \<Rightarrow> SendGNBUENGAPRequest
    \<Rightarrow> (world, SendGNBUENGAPResponse) hand" where
  "handleGNBPDUSessionReleaseRequest E k u d gnb req =
     hbind (inner_5gsm k u req (\<lambda>i. BuildPDUSessionReleaseRequest (envNAS5Enc E) i (ptiFor req))) (\<lambda>inner.
     hbind (secure_5gsm E k u req inner) (\<lambda>secured.
       sendUplinkAndWait E k u d gnb req secured
         [''PDUSessionResourceReleaseCommand'', ''DownlinkNASTransport'', ''ErrorIndication'']))"

definition handleGNBPDUSessionModificationRequest ::
  "('priv, 'pub) api_env \<Rightarrow> string \<Rightarrow> string \<Rightarrow> 64 word \<Rightarrow> GNBContext \<Rightarrow> SendGNBUENGAPRequest
    \<Rightarrow> (world, SendGNBUENGAPResponse) hand" where
  "handleGNBPDUSessionModificationRequest E k u d gnb req =
     hbind (inner_5gsm k u req (\<lambda>i. BuildPDUSessionModificationRequest (envNAS5Enc E) i (ptiFor req))) (\<lambda>inner.
     hbind (secure_5gsm E k u req inner) (\<lambda>secured.
       sendUplinkAndWait E k u d gnb req secured
         [''PDUSessionResourceModifyRequest'', ''DownlinkNASTransport'', ''ErrorIndication'']))"

text \<open>The messages that close a procedure are sent and not waited for.\<close>

definition sendInner5GSM ::
  "('priv, 'pub) api_env \<Rightarrow> string \<Rightarrow> string \<Rightarrow> GNBContext \<Rightarrow> SendGNBUENGAPRequest \<Rightarrow> bytes
    \<Rightarrow> (world, SendGNBUENGAPResponse) hand" where
  "sendInner5GSM E k u gnb req inner =
     hbind (secure_5gsm E k u req inner) (\<lambda>secured.
     hbind (send_uplink E k u gnb secured (uplinkOverrides req)) (\<lambda>_. hret no_response))"

definition handleGNBPDUSessionReleaseComplete ::
  "('priv, 'pub) api_env \<Rightarrow> string \<Rightarrow> string \<Rightarrow> GNBContext \<Rightarrow> SendGNBUENGAPRequest \<Rightarrow> (world, SendGNBUENGAPResponse) hand" where
  "handleGNBPDUSessionReleaseComplete E k u gnb req =
     hbind (inner_5gsm k u req (\<lambda>i. BuildPDUSessionReleaseComplete (envNAS5Enc E) i (ptiFor req)))
       (sendInner5GSM E k u gnb req)"

definition handleGNBPDUSessionModificationComplete ::
  "('priv, 'pub) api_env \<Rightarrow> string \<Rightarrow> string \<Rightarrow> GNBContext \<Rightarrow> SendGNBUENGAPRequest \<Rightarrow> (world, SendGNBUENGAPResponse) hand" where
  "handleGNBPDUSessionModificationComplete E k u gnb req =
     hbind (inner_5gsm k u req (\<lambda>i. BuildPDUSessionModificationComplete (envNAS5Enc E) i (ptiFor req)))
       (sendInner5GSM E k u gnb req)"

definition handleGNBPDUSessionModificationCommandReject ::
  "('priv, 'pub) api_env \<Rightarrow> string \<Rightarrow> string \<Rightarrow> GNBContext \<Rightarrow> SendGNBUENGAPRequest \<Rightarrow> (world, SendGNBUENGAPResponse) hand" where
  "handleGNBPDUSessionModificationCommandReject E k u gnb req =
     hbind (inner_5gsm k u req (\<lambda>i. BuildPDUSessionModificationCommandReject (envNAS5Enc E) i (ptiFor req) (cause5GSMFor req)))
       (sendInner5GSM E k u gnb req)"

definition handleGNBStatus5GSM ::
  "('priv, 'pub) api_env \<Rightarrow> string \<Rightarrow> string \<Rightarrow> GNBContext \<Rightarrow> SendGNBUENGAPRequest \<Rightarrow> (world, SendGNBUENGAPResponse) hand" where
  "handleGNBStatus5GSM E k u gnb req =
     hbind (inner_5gsm k u req (\<lambda>i. BuildPDUSessionStatus5GSM (envNAS5Enc E) i (ptiFor req) (cause5GSMFor req)))
       (sendInner5GSM E k u gnb req)"

section \<open>Handover\<close>

definition handleGNBHandoverRequired ::
  "('priv, 'pub) api_env \<Rightarrow> string \<Rightarrow> string \<Rightarrow> GNBContext \<Rightarrow> SendGNBUENGAPRequest \<Rightarrow> (world, SendGNBUENGAPResponse) hand" where
  "handleGNBHandoverRequired E k u gnb req =
     hbind (the_or 400 ''target_gnb_id is required for handover_required'' (rqTargetGNBID req)) (\<lambda>target.
     hbind (read_ue k u) (\<lambda>ue.
     let pduSessionIDs = (if length (rqPDUSessionIDs req) > 0 then rqPDUSessionIDs req else [uint (pduSessionIDForRelease ue)]) in
     hbind (hlift (http_error 500 ''build HandoverRequired'' (BuildHandoverRequired (envNGAP E)
              \<lparr> hqAMFUENGAPID = patched (rqAMFUENGAPIDOverride req) (uAMFUENGAPID ue),
                hqRANUENGAPID = patched (rqRANUENGAPIDOverride req) (uRANUENGAPID ue),
                hqTargetGNBID = target, hqTargetMCC = gMCC gnb, hqTargetMNC = gMNC gnb, hqTargetTAC = gTAC gnb,
                hqPDUSessionIDs = pduSessionIDs,
                hqCauseRadioNetwork = patched (rqHandoverRequiredCause req) CauseRadioNetworkHandoverDesirableForRadioReason \<rparr>))) (\<lambda>encoded.
     hbind (send_or_502 E k encoded) (\<lambda>_. hret no_response))))"

definition handleGNBRANStatusTransfer ::
  "('priv, 'pub) api_env \<Rightarrow> string \<Rightarrow> string \<Rightarrow> SendGNBUENGAPRequest \<Rightarrow> (world, SendGNBUENGAPResponse) hand" where
  "handleGNBRANStatusTransfer E k u req =
     (let drbs = map (\<lambda>x. \<lparr> dtDRBID = dsDRBID x, dtULPDCPSN = dsULPDCPSN x, dtULHFN = dsULHFN x, dtDLPDCPSN = dsDLPDCPSN x,
                         dtDLHFN = dsDLHFN x \<rparr>) (rqStatusTransferDRBs req);
          drbs = (if length drbs = 0 then
             [\<lparr> dtDRBID = 1, dtULPDCPSN = 0, dtULHFN = 0, dtDLPDCPSN = 0, dtDLHFN = 0 \<rparr>] else drbs) in
      hbind (read_ue k u) (\<lambda>ue.
      hbind (hlift (http_error 500 ''build UplinkRANStatusTransfer''
               (BuildUplinkRANStatusTransfer (envNGAP E) (effectiveAmfID req ue) (effectiveRanID req ue) drbs))) (\<lambda>encoded.
      hbind (send_or_502 E k encoded) (\<lambda>_. hret no_response))))"

definition handleGNBHandoverCancel ::
  "('priv, 'pub) api_env \<Rightarrow> string \<Rightarrow> string \<Rightarrow> 64 word \<Rightarrow> SendGNBUENGAPRequest \<Rightarrow> (world, SendGNBUENGAPResponse) hand" where
  "handleGNBHandoverCancel E k u d req =
     hbind (read_ue k u) (\<lambda>ue.
     hbind (hlift (http_error 500 ''build HandoverCancel'' (BuildHandoverCancel (envNGAP E)
              (patched (rqAMFUENGAPIDOverride req) (uAMFUENGAPID ue)) (patched (rqRANUENGAPIDOverride req) (uRANUENGAPID ue))
              (patched (rqHandoverCancelCause req) CauseRadioNetworkHandoverCancelled)))) (\<lambda>encoded.
     hbind (send_or_502 E k encoded) (\<lambda>_.
     hbind (or_http 504 ''waiting for HandoverCancelAcknowledge''
              (n2_wait k None d [''HandoverCancelAcknowledge'', ''ErrorIndication''])) (\<lambda>ngapResp.
       hret (ngap_only ngapResp)))))"

definition both_ids :: "SendGNBNGAPRequest \<Rightarrow> (world, int \<times> int) hand" where
  "both_ids req = (case (xn_AMFUENGAPID req, xn_RANUENGAPID req) of
      (Some a, Some r) \<Rightarrow> hret (a, r)
    | _ \<Rightarrow> hfail (HTTPErr 400 ''amf_ue_ngap_id and ran_ue_ngap_id are required''))"

text \<open>The defaults of an announced session: the loopback address and TEID 1.\<close>

definition announced_session :: "HandoverPDUSession \<Rightarrow> (int \<times> u32 \<times> string \<times> bytes option) result" where
  "announced_session ps =
     rbind (case hp_RawTransfer ps of None \<Rightarrow> Inr None
       | Some h \<Rightarrow> rbind (http_error 400 ''decode raw_transfer'' (hex_decode h)) (\<lambda>b. Inr (Some b))) (\<lambda>raw.
     Inr (hp_ID ps, if hp_DLTeid ps = 0 then 1 else hp_DLTeid ps,
          if hp_DLIP ps = [] then ''127.0.0.1'' else hp_DLIP ps, raw))"

definition handleGNBHandoverRequestAcknowledge ::
  "('priv, 'pub) api_env \<Rightarrow> string \<Rightarrow> SendGNBNGAPRequest \<Rightarrow> (world, SendGNBUENGAPResponse) hand" where
  "handleGNBHandoverRequestAcknowledge E k req =
     hbind (both_ids req) (\<lambda>(amf, ranID).
     hbind (hreq (length (xn_PDUSessions req) \<noteq> 0)
              (HTTPErr 400 ''pdu_sessions is required for handover_request_acknowledge'')) (\<lambda>_.
     hbind (hlift (collect announced_session (xn_PDUSessions req))) (\<lambda>sessions.
     hbind (hlift (http_error 500 ''build HandoverRequestAcknowledge'' (BuildHandoverRequestAcknowledge (envNGAP E)
              \<lparr> hkAMFUENGAPID = amf, hkRANUENGAPID = ranID,
                hkSessions = map (\<lambda>(i, t, a, raw). \<lparr> haPDUSessionID = i, haDLTeid = t, haDLIP = a, haRawTransfer = raw \<rparr>) sessions,
                hkFailed = xn_FailedPDUSessions req \<rparr>))) (\<lambda>encoded.
     hbind (send_or_502 E k encoded) (\<lambda>_. hret no_response)))))"

definition handleGNBHandoverNotify ::
  "('priv, 'pub) api_env \<Rightarrow> string \<Rightarrow> GNBContext \<Rightarrow> SendGNBNGAPRequest \<Rightarrow> (world, SendGNBUENGAPResponse) hand" where
  "handleGNBHandoverNotify E k gnb req =
     hbind (both_ids req) (\<lambda>(amf, ranID).
     hbind (hlift (http_error 500 ''build HandoverNotify'' (BuildHandoverNotify (envNGAP E)
              \<lparr> hnAMFUENGAPID = amf, hnRANUENGAPID = ranID, hnMCC = gMCC gnb, hnMNC = gMNC gnb, hnTAC = gTAC gnb,
                hnGNBID = gGNBID gnb \<rparr>))) (\<lambda>encoded.
     hbind (send_or_502 E k encoded) (\<lambda>_. hret no_response)))"

definition handleGNBHandoverFailure ::
  "('priv, 'pub) api_env \<Rightarrow> string \<Rightarrow> SendGNBNGAPRequest \<Rightarrow> (world, SendGNBUENGAPResponse) hand" where
  "handleGNBHandoverFailure E k req =
     hbind (the_or 400 ''amf_ue_ngap_id is required for handover_failure'' (xn_AMFUENGAPID req)) (\<lambda>amf.
     hbind (hlift (http_error 500 ''build HandoverFailure''
              (BuildHandoverFailure (envNGAP E) amf (patched (xn_Cause req) CauseRadioNetworkHOFailureInTarget)))) (\<lambda>encoded.
     hbind (send_or_502 E k encoded) (\<lambda>_. hret no_response)))"

text \<open>The source loses the UE and the target gets it, under the identifier it has.\<close>

definition handleMigrateGNBUE ::
  "string \<Rightarrow> string \<Rightarrow> MigrateGNBUERequest result \<Rightarrow> (world, nat \<times> MigrateGNBUEResponse) hand" where
  "handleMigrateGNBUE k u body =
     hbind (find_gnb_ue k u) (\<lambda>(src, ue).
     hbind (parse_body body) (\<lambda>req.
     hbind (or_http 404 ''target gnb not found'' (find_gnb (mg_TargetGNBID req))) (\<lambda>target.
     hbind (on_store (MigrateUE k (mg_TargetGNBID req) ue (mg_RANUENGAPID req) (mg_AMFUENGAPID req))) (\<lambda>_.
       hret (200, \<lparr> mh_UEID = uID ue, mh_GNBID = mg_TargetGNBID req,
         mh_RANUENGAPID = patched (mg_RANUENGAPID req) (uRANUENGAPID ue),
         mh_AMFUENGAPID = patched (mg_AMFUENGAPID req) (uAMFUENGAPID ue) \<rparr>)))))"

section \<open>Path switch, raw PDUs and reset\<close>

definition parse_capability :: "string \<Rightarrow> bytes \<Rightarrow> bytes result" where
  "parse_capability s def =
     (if s = [] then Inr def
      else rbind (rwrap ''decode security capability'' (hex_decode s)) (\<lambda>b.
        if length b \<noteq> 2 then Inl (Errorf ''security capability must be 2 bytes'') else Inr b))"

definition pathSwitchSecurityCapabilities :: "UESecurityCapabilitiesInput option \<Rightarrow> UESecurityCapabilities result" where
  "pathSwitchSecurityCapabilities v =
     (let i = (case v of None \<Rightarrow> \<lparr> ux_NREncryption = [], ux_NRIntegrity = [], ux_EUTRAEncryption = [], ux_EUTRAIntegrity = [] \<rparr>
          | Some i \<Rightarrow> i) in
      rbind (parse_capability (ux_NREncryption i) [0xe0, 0x00]) (\<lambda>nrEnc.
      rbind (parse_capability (ux_NRIntegrity i) [0xe0, 0x00]) (\<lambda>nrInt.
      rbind (parse_capability (ux_EUTRAEncryption i) [0x00, 0x00]) (\<lambda>euEnc.
      rbind (parse_capability (ux_EUTRAIntegrity i) [0x00, 0x00]) (\<lambda>euInt.
        Inr \<lparr> usNREncryption = nrEnc, usNRIntegrity = nrInt, usEUTRAEncryption = euEnc, usEUTRAIntegrity = euInt \<rparr>)))))"

text \<open>A message is awaited only when the request names one.\<close>

definition wait_if_asked :: "string \<Rightarrow> 64 word \<Rightarrow> SendGNBNGAPRequest \<Rightarrow> (world, SendGNBUENGAPResponse) hand" where
  "wait_if_asked k d req =
     (if length (xn_WaitFor req) = 0 then hret no_response
      else hbind (or_http 504 ''waiting'' (n2_wait k None d (xn_WaitFor req))) (\<lambda>ngapResp. hret (ngap_only ngapResp)))"

definition handleGNBPathSwitchRequest ::
  "('priv, 'pub) api_env \<Rightarrow> string \<Rightarrow> 64 word \<Rightarrow> GNBContext \<Rightarrow> SendGNBNGAPRequest \<Rightarrow> (world, SendGNBUENGAPResponse) hand" where
  "handleGNBPathSwitchRequest E k d gnb req =
     hbind (both_ids req) (\<lambda>(amf, ranID).
     hbind (hreq (length (xn_PDUSessions req) \<noteq> 0)
              (HTTPErr 400 ''pdu_sessions is required for path_switch_request'')) (\<lambda>_.
     hbind (hlift (collect announced_session (xn_PDUSessions req))) (\<lambda>sessions.
     hbind (hlift (http_error 400 ''security capabilities'' (pathSwitchSecurityCapabilities (xn_UESecurityCapabilities req)))) (\<lambda>secCaps.
     hbind (hlift (http_error 500 ''build PathSwitchRequest'' (BuildPathSwitchRequest (envNGAP E)
              \<lparr> pqRANUENGAPID = ranID, pqSourceAMFUENGAPID = amf, pqMCC = gMCC gnb, pqMNC = gMNC gnb, pqTAC = gTAC gnb,
                pqGNBID = gGNBID gnb, pqSecCaps = secCaps,
                pqSessions = map (\<lambda>(i, t, a, raw). \<lparr> pwPDUSessionID = i, pwDLTeid = t, pwDLIP = a, pwRawTransfer = raw \<rparr>) sessions,
                pqFailed = xn_FailedPDUSessions req, pqOmitIEs = xn_OmitIEs req \<rparr>))) (\<lambda>encoded.
     hbind (send_or_502 E k encoded) (\<lambda>_. wait_if_asked k d req))))))"

definition handleGNBRawNGAP ::
  "('priv, 'pub) api_env \<Rightarrow> string \<Rightarrow> 64 word \<Rightarrow> string \<Rightarrow> SendGNBNGAPRequest \<Rightarrow> (world, SendGNBUENGAPResponse) hand" where
  "handleGNBRawNGAP E k d raw req =
     hbind (hlift (http_error 400 ''decode raw_ngap_pdu'' (hex_decode raw))) (\<lambda>pdu.
     hbind (send_or_502 E k pdu) (\<lambda>_. wait_if_asked k d req))"

definition handleGNBNGReset ::
  "('priv, 'pub) api_env \<Rightarrow> string \<Rightarrow> 64 word \<Rightarrow> GNBContext \<Rightarrow> SendGNBNGAPRequest \<Rightarrow> (world, SendGNBUENGAPResponse) hand" where
  "handleGNBNGReset E k d gnb req =
     hbind (hlift (collect (\<lambda>ueID. case GetUE ueID gnb of None \<Rightarrow> Inl (HTTPErr 404 ''ue not found'')
              | Some ue \<Rightarrow> Inr \<lparr> nrcAMFUENGAPID = Some (uAMFUENGAPID ue), nrcRANUENGAPID = Some (uRANUENGAPID ue) \<rparr>)
              (xn_ResetUEIDs req))) (\<lambda>connections.
     hbind (hlift (http_error 500 ''build NGReset'' (BuildNGReset (envNGAP E) (length connections = 0) connections))) (\<lambda>encoded.
     hbind (or_http 502 ''SCTP send'' (n2_send E k encoded True)) (\<lambda>_.
     hbind (or_http 504 ''waiting for NGResetAcknowledge''
              (n2_wait k None d [''NGResetAcknowledge'', ''ErrorIndication''])) (\<lambda>ngapResp.
       hret (ngap_only ngapResp)))))"

section \<open>The endpoints\<close>

text \<open>\<open>writeError(w, statusForError(herr), herr.Error())\<close>, or 200.\<close>

definition with_status :: "(world, 'a) hand \<Rightarrow> (world, nat \<times> 'a) hand" where
  "with_status h = (\<lambda>w. case h w of
      (Inl (Panic p), w') \<Rightarrow> (Inl (Panic p), w')
    | (Inl e, w') \<Rightarrow> (Inl (HTTPErr (statusForError e) ''error''), w')
    | (Inr x, w') \<Rightarrow> (Inr (200, x), w'))"

definition unsupported :: "(world, 'a) hand" where
  "unsupported = hfail (HTTPErr 400 ''unsupported message_type'')"

definition dispatch_gnb_ue ::
  "('priv, 'pub) api_env \<Rightarrow> string \<Rightarrow> string \<Rightarrow> 64 word \<Rightarrow> GNBContext \<Rightarrow> bool \<Rightarrow> SendGNBUENGAPRequest
    \<Rightarrow> (world, nat \<times> SendGNBUENGAPResponse) hand" where
  "dispatch_gnb_ue E k u d gnb userPlane req =
     (let m = rqMessageType req in
      if m = ''registration_request'' then with_status (handleGNBRegistrationRequest E k u d gnb req)
      else if m = ''authentication_response'' then with_status (handleGNBAuthenticationResponse E k u d gnb req)
      else if m = ''security_mode_complete'' then with_status (handleGNBSecurityModeComplete E k u d gnb req)
      else if m = ''registration_complete'' then with_status (handleGNBRegistrationComplete E k u d gnb req)
      else if m = ''pdu_session_establishment_request'' then
        with_status (handleGNBPDUSessionEstablishmentRequest E k u d gnb userPlane req)
      else if m = ''deregistration_request'' then with_status (handleGNBDeregistrationRequest E k u d gnb req)
      else if m = ''ue_context_release_request'' then with_status (handleGNBUEContextReleaseRequest E k u d req)
      else if m = ''service_request'' then with_status (handleGNBServiceRequest E k u d gnb req)
      else if m = ''inject_nas'' then with_status (handleGNBInjectNAS E k u d gnb req)
      else if m = ''error_indication'' then with_status (handleGNBErrorIndication E k u d req)
      else if m = ''ue_capability_info'' then with_status (handleGNBUECapabilityInfo E k u d req)
      else if m = ''identity_response'' then with_status (handleGNBIdentityResponse E k u d gnb req)
      else if m = ''pdu_session_release_request'' then with_status (handleGNBPDUSessionReleaseRequest E k u d gnb req)
      else if m = ''pdu_session_modification_request'' then
        with_status (handleGNBPDUSessionModificationRequest E k u d gnb req)
      else if m = ''pdu_session_release_complete'' then with_status (handleGNBPDUSessionReleaseComplete E k u gnb req)
      else if m = ''pdu_session_modification_complete'' then
        with_status (handleGNBPDUSessionModificationComplete E k u gnb req)
      else if m = ''pdu_session_modification_command_reject'' then
        with_status (handleGNBPDUSessionModificationCommandReject E k u gnb req)
      else if m = ''status_5gsm'' then with_status (handleGNBStatus5GSM E k u gnb req)
      else if m = ''authentication_failure'' then with_status (handleGNBAuthenticationFailure E k u d gnb req)
      else if m = ''security_mode_reject'' then with_status (handleGNBSecurityModeReject E k u d gnb req)
      else if m = ''handover_required'' then with_status (handleGNBHandoverRequired E k u gnb req)
      else if m = ''ran_status_transfer'' then with_status (handleGNBRANStatusTransfer E k u req)
      else if m = ''handover_cancel'' then with_status (handleGNBHandoverCancel E k u d req)
      else if m = ''initial_context_setup_failure'' then with_status (handleGNBInitialContextSetupFailure E k u req)
      else unsupported)"

definition handleSendGNBUENGAP ::
  "('priv, 'pub) api_env \<Rightarrow> string \<Rightarrow> string \<Rightarrow> SendGNBUENGAPRequest result \<Rightarrow> (world, nat \<times> SendGNBUENGAPResponse) hand" where
  "handleSendGNBUENGAP E k u body =
     hbind (find_gnb_ue k u) (\<lambda>(gnb, ue).
     hbind (find_n2 k) (\<lambda>_.
     hbind (parse_body body) (\<lambda>req.
     hbind (hget (\<lambda>w. wGTPU w k \<noteq> None)) (\<lambda>userPlane.
       dispatch_gnb_ue E k u (waitTimeout (rqTimeoutMs req)) gnb userPlane req))))"

definition dispatch_gnb ::
  "('priv, 'pub) api_env \<Rightarrow> string \<Rightarrow> 64 word \<Rightarrow> GNBContext \<Rightarrow> SendGNBNGAPRequest
    \<Rightarrow> (world, nat \<times> SendGNBUENGAPResponse) hand" where
  "dispatch_gnb E k d gnb req = (case xn_RawNGAPPDU req of
      Some raw \<Rightarrow> with_status (handleGNBRawNGAP E k d raw req)
    | None \<Rightarrow>
        (let m = xn_MessageType req in
         if m = ''ng_reset'' then with_status (handleGNBNGReset E k d gnb req)
         else if m = ''handover_request_acknowledge'' then with_status (handleGNBHandoverRequestAcknowledge E k req)
         else if m = ''handover_failure'' then with_status (handleGNBHandoverFailure E k req)
         else if m = ''handover_notify'' then with_status (handleGNBHandoverNotify E k gnb req)
         else if m = ''path_switch_request'' then with_status (handleGNBPathSwitchRequest E k d gnb req)
         else unsupported))"

definition handleSendGNBNGAP ::
  "('priv, 'pub) api_env \<Rightarrow> string \<Rightarrow> SendGNBNGAPRequest result \<Rightarrow> (world, nat \<times> SendGNBUENGAPResponse) hand" where
  "handleSendGNBNGAP E k body =
     hbind (find_gnb k) (\<lambda>gnb.
     hbind (find_n2 k) (\<lambda>_.
     hbind (parse_body body) (\<lambda>req.
       dispatch_gnb E k (waitTimeout (xn_TimeoutMs req)) gnb req)))"

section \<open>The messages stay within the frame of their UE\<close>

lemma take_items_id: "psPDUSessionID (fold (take_item v6 sid) items info) = psPDUSessionID info"
  by (induction items arbitrary: info) (simp_all add: take_item_def)

lemma same_subscriber_capture: "same_subscriber ue (captureTunnel gnb sid t m nas ue)"
  by (auto simp: captureTunnel_def same_subscriber_def Let_def take_items_id intro!: well_typed_step(2) split: option.split)

lemma frame_session [frame_rules]:
  "gf.obeys k u (accept_session E k u gnb b i m nas)" "gf.obeys k u (inner_5gsm k u req build)"
  "gf.obeys k u (secure_5gsm E k u req x)" "gf.obeys k u (sendInner5GSM E k u gnb req x)"
proof -
  show "gf.obeys k u (accept_session E k u gnb b i m nas)"
    unfolding accept_session_def Let_def
    by (intro gf.rules gf.choice frame_rules frame_write_ue same_subscriber_capture) (simp_all add: same_subscriber_def)
  show s: "gf.obeys k u (secure_5gsm E k u req x)" for x
    unfolding secure_5gsm_def by (intro gf.rules frame_rules)
  show "gf.obeys k u (inner_5gsm k u req build)" "gf.obeys k u (sendInner5GSM E k u gnb req x)"
    unfolding inner_5gsm_def sendInner5GSM_def by (intro gf.rules frame_rules s)+
qed

lemma frame_session_messages [frame_rules]:
  "gf.obeys k u (handleGNBPDUSessionEstablishmentRequest E k u d gnb b req)"
  "gf.obeys k u (handleGNBPDUSessionReleaseRequest E k u d gnb req)"
  "gf.obeys k u (handleGNBPDUSessionModificationRequest E k u d gnb req)"
  "gf.obeys k u (handleGNBPDUSessionReleaseComplete E k u gnb req)"
  "gf.obeys k u (handleGNBPDUSessionModificationComplete E k u gnb req)"
  "gf.obeys k u (handleGNBPDUSessionModificationCommandReject E k u gnb req)"
  "gf.obeys k u (handleGNBStatus5GSM E k u gnb req)" "gf.obeys k u (handleGNBHandoverRequired E k u gnb req)"
  "gf.obeys k u (handleGNBRANStatusTransfer E k u req)" "gf.obeys k u (handleGNBHandoverCancel E k u d req)"
  unfolding handleGNBPDUSessionEstablishmentRequest_def handleGNBPDUSessionReleaseRequest_def
    handleGNBPDUSessionModificationRequest_def handleGNBPDUSessionReleaseComplete_def
    handleGNBPDUSessionModificationComplete_def handleGNBPDUSessionModificationCommandReject_def handleGNBStatus5GSM_def
    handleGNBHandoverRequired_def handleGNBRANStatusTransfer_def handleGNBHandoverCancel_def Let_def
  by (intro gf.rules gf.choice frame_rules)+

lemma frame_node_messages [frame_rules]:
  "gf.obeys k u (both_ids req)" "gf.obeys k u (wait_if_asked k d req)"
  "gf.obeys k u (handleGNBHandoverRequestAcknowledge E k req)" "gf.obeys k u (handleGNBHandoverNotify E k gnb req)"
  "gf.obeys k u (handleGNBHandoverFailure E k req)" "gf.obeys k u (handleGNBPathSwitchRequest E k d gnb req)"
  "gf.obeys k u (handleGNBRawNGAP E k d raw req)" "gf.obeys k u (handleGNBNGReset E k d gnb req)"
proof -
  show i: "gf.obeys k u (both_ids req)" and w: "gf.obeys k u (wait_if_asked k d req)"
    unfolding both_ids_def wait_if_asked_def by (intro gf.rules gf.choice frame_rules)+
  show "gf.obeys k u (handleGNBHandoverRequestAcknowledge E k req)" "gf.obeys k u (handleGNBHandoverNotify E k gnb req)"
    "gf.obeys k u (handleGNBHandoverFailure E k req)" "gf.obeys k u (handleGNBPathSwitchRequest E k d gnb req)"
    "gf.obeys k u (handleGNBRawNGAP E k d raw req)" "gf.obeys k u (handleGNBNGReset E k d gnb req)"
    unfolding handleGNBHandoverRequestAcknowledge_def handleGNBHandoverNotify_def handleGNBHandoverFailure_def
      handleGNBPathSwitchRequest_def handleGNBRawNGAP_def handleGNBNGReset_def
    by (intro gf.rules gf.choice frame_rules i w)+
qed

lemma frame_with_status [frame_rules]: "gf.obeys k u h \<Longrightarrow> gf.obeys k u (with_status h)"
  unfolding gf.obeys_def with_status_def by (auto split: prod.split sum.split error.split) (metis snd_conv)+

lemma frame_unsupported [frame_rules]: "gf.obeys k u unsupported"
  unfolding unsupported_def by (rule gf.rules)

lemma frame_gnb_messages:
  "gf.obeys k u (handleSendGNBUENGAP E k u b)" "gf.obeys k u (handleSendGNBNGAP E k b')"
  unfolding handleSendGNBUENGAP_def handleSendGNBNGAP_def dispatch_gnb_ue_def dispatch_gnb_def Let_def
  by (intro gf.rules gf.choice frame_rules)+

lemma gnb_messages_good [good_rules]:
  "nd.obeys k (handleSendGNBUENGAP E k u b)" "nd.obeys k (handleSendGNBNGAP E k b')"
  by (rule good_frames, rule frame_gnb_messages)+

end
