(* ===== verification/Api_Enb_Session.thy ===== *)
theory Api_Enb_Session
  imports Api_Enb_Nas Api_Gnb_Session
begin

text \<open>
  The bearer messages, handover, path switch and reset of an eNB, and the two endpoints that dispatch on the
  message type: \<open>internal/api/enb_pdu_session_handlers.go\<close>, \<open>enb_handover_handlers.go\<close>,
  \<open>enb_reset_path_switch_handlers.go\<close> and \<open>enb_s1ap_handlers.go\<close>.
\<close>

section \<open>PDN connectivity\<close>

text \<open>The TEID of an additional bearer: the UE's S1AP identity and the bearer's, in 24 and 8 bits.\<close>

definition additional_teid :: "UEEPSContext \<Rightarrow> u8 \<Rightarrow> u32" where
  "additional_teid ue ebi = push_bit 8 (vENBUES1APID ue) OR ucast ebi"

definition additional_bearer :: "ENBContext \<Rightarrow> UEEPSContext \<Rightarrow> S1APResponse \<Rightarrow> NASResponse_EPS \<Rightarrow> u8 \<Rightarrow> u8 \<Rightarrow> EPSBearer" where
  "additional_bearer enb ue dl nas ebi pti =
     (let b = \<lparr> ebEBI = ebi, ebPTI = pti, ebAPN = xAPN nas, ebUEIP = ueIPFromPDNAddress (xPDNAddress nas),
               ebULTeid = 0, ebSGWIP = [], ebDLTeid = additional_teid ue ebi \<rparr>
      in case sr_ERABSetupItems dl of [] \<Rightarrow> b | e # _ \<Rightarrow> b\<lparr> ebULTeid := si_ULTeid e, ebSGWIP := erabSGWIP enb e \<rparr>)"

definition bearer_pti :: "NASResponse_EPS \<Rightarrow> u8" where
  "bearer_pti nas = patched (map_option of_int (xBearerPTI nas)) 0"

text \<open>The bearer is recorded before its setup is answered.\<close>

definition acceptAdditionalBearer ::
  "('priv, 'pub) api_env \<Rightarrow> string \<Rightarrow> string \<Rightarrow> ENBContext \<Rightarrow> S1APResponse \<Rightarrow> NASResponse_EPS \<Rightarrow> SendENBUES1APRequest
    \<Rightarrow> (world, unit) hand" where
  "acceptAdditionalBearer E k u enb dl nas req = (case xEPSBearerIdentity nas of
      None \<Rightarrow> hfail (Errorf ''activate default without an EPS bearer identity'')
    | Some i \<Rightarrow>
        (let ebi = of_int i; pti = bearer_pti nas in
         hbind (read_ue_EPS k u) (\<lambda>ue.
         let bearer = additional_bearer enb ue dl nas ebi pti in
         hbind (write_ue_EPS k u (\<lambda>ue. ue\<lparr> vBearers := (vBearers ue)(ebi \<mapsto> bearer) \<rparr>)) (\<lambda>_.
         hbind (build_and_send E k (BuildERABSetupResponse (envS1Enc E)
                  \<lparr> irMMEUES1APID = vMMEUES1APID ue, irENBUES1APID = vENBUES1APID ue, irERABID = ebi,
                    irENBN3Addr = eN3Addr enb, irGTPTEID = ebDLTeid bearer \<rparr>)) (\<lambda>_.
         hbind (hlift (BuildActivateDefaultEPSBearerContextAccept (envEPSEnc E) ebi pti)) (\<lambda>accept.
         hbind (secure_uplink_EPS E k u accept SHTIntegrityProtectedCiphered None) (\<lambda>protectedAccept.
           sendUplink E k u enb protectedAccept (Some req))))))))"

definition connectivity_params :: "SendENBUES1APRequest \<Rightarrow> PDNConnectivityParams" where
  "connectivity_params req =
     \<lparr> pcPTI = patched (sqPTI req) 5, pcEPSBearerIdentity = patched (sqRequestEBI req) 0,
       pcPDNType = or_ipv4 (sqPDNType req), pcAPN = sqAPN req \<rparr>"

definition handleENBPdnConnectivity ::
  "('priv, 'pub) api_env \<Rightarrow> string \<Rightarrow> string \<Rightarrow> 64 word \<Rightarrow> ENBContext \<Rightarrow> SendENBUES1APRequest
    \<Rightarrow> (world, SendENBUES1APResponse) hand" where
  "handleENBPdnConnectivity E k u d enb req =
     hbind (needs_context k u) (\<lambda>_.
     hbind (hlift (BuildPDNConnectivityRequestWith (envEPSEnc E) (connectivity_params req))) (\<lambda>esm.
     hbind (secure_uplink_EPS E k u esm SHTIntegrityProtectedCiphered None) (\<lambda>protected.
     hbind (sendUplink E k u enb protected (Some req)) (\<lambda>_.
     hbind (waitDownlinkTolerant k u d [''ERABSetupRequest'', ''DownlinkNASTransport'']) (\<lambda>r. case r of
       None \<Rightarrow> hret no_response_EPS
     | Some dl \<Rightarrow>
         hbind (hlift (nasPDUBytes dl)) (\<lambda>nasBytes.
         hbind (decode_downlink E k u nasBytes) (\<lambda>(nas, macVerified). case nas of
           None \<Rightarrow> hret (s1_answer dl None macVerified)
         | Some r \<Rightarrow>
             if sr_MessageType dl \<noteq> ''ERABSetupRequest'' \<or> xMessageType r \<noteq> ''activate_default_eps_bearer_context_request''
             then hret (s1_answer dl nas macVerified)
             else if sqWithholdAccept req then hret (s1_answer dl nas macVerified)
             else hbind (acceptAdditionalBearer E k u enb dl r req) (\<lambda>_. hret (s1_answer dl nas macVerified)))))))))"

text \<open>A deactivation is accepted, after the release of the radio bearer is confirmed, and the bearer forgotten.\<close>

definition accept_deactivation ::
  "('priv, 'pub) api_env \<Rightarrow> string \<Rightarrow> string \<Rightarrow> ENBContext \<Rightarrow> S1APResponse \<Rightarrow> NASResponse_EPS \<Rightarrow> SendENBUES1APRequest
    \<Rightarrow> (world, unit) hand" where
  "accept_deactivation E k u enb dl nas req = (case xEPSBearerIdentity nas of
      None \<Rightarrow> hret ()
    | Some i \<Rightarrow>
        (let deactEBI = of_int i; deactPTI = bearer_pti nas in
         if xMessageType nas \<noteq> ''deactivate_eps_bearer_context_request'' then hret ()
         else
           hbind (read_ue_EPS k u) (\<lambda>ue.
           hbind (if sr_MessageType dl = ''ERABReleaseCommand''
                  then build_and_send E k (BuildERABReleaseResponse (envS1Enc E) (vMMEUES1APID ue) (vENBUES1APID ue) deactEBI)
                  else hret ()) (\<lambda>_.
           hbind (hlift (BuildDeactivateEPSBearerContextAccept (envEPSEnc E) deactEBI deactPTI)) (\<lambda>accept.
           hbind (secure_uplink_EPS E k u accept SHTIntegrityProtectedCiphered None) (\<lambda>protectedAccept.
           hbind (sendUplink E k u enb protectedAccept (Some req)) (\<lambda>_.
             write_ue_EPS k u (\<lambda>ue. ue\<lparr> vBearers := (vBearers ue)(deactEBI := None) \<rparr>))))))))"

definition handleENBPdnDisconnect ::
  "('priv, 'pub) api_env \<Rightarrow> string \<Rightarrow> string \<Rightarrow> 64 word \<Rightarrow> ENBContext \<Rightarrow> SendENBUES1APRequest
    \<Rightarrow> (world, SendENBUES1APResponse) hand" where
  "handleENBPdnDisconnect E k u d enb req =
     hbind (needs_context k u) (\<lambda>_.
     hbind (read_ue_EPS k u) (\<lambda>ue.
     hbind (hlift (BuildPDNDisconnectRequest (envEPSEnc E) (patched (sqPTI req) 6) (patched (sqLinkedEBI req) (vEPSBearerID ue)))) (\<lambda>esm.
     hbind (secure_uplink_EPS E k u esm SHTIntegrityProtectedCiphered None) (\<lambda>protected.
     hbind (sendUplink E k u enb protected (Some req)) (\<lambda>_.
     hbind (waitDownlinkTolerant k u d [''ERABReleaseCommand'', ''DownlinkNASTransport'']) (\<lambda>r. case r of
       None \<Rightarrow> hret no_response_EPS
     | Some dl \<Rightarrow>
         hbind (hlift (nasPDUBytes dl)) (\<lambda>nasBytes.
         hbind (decode_downlink E k u nasBytes) (\<lambda>(nas, macVerified). case nas of
           None \<Rightarrow> hret (s1_answer dl None macVerified)
         | Some r \<Rightarrow>
             if sqWithholdAccept req then hret (s1_answer dl nas macVerified)
             else hbind (accept_deactivation E k u enb dl r req) (\<lambda>_. hret (s1_answer dl nas macVerified))))))))))"

section \<open>ESM messages\<close>

definition esmBearerID :: "UEEPSContext \<Rightarrow> SendENBUES1APRequest \<Rightarrow> u8" where
  "esmBearerID ue req = patched (sqEPSBearerIdentity req) (vEPSBearerID ue)"

definition esmPTI :: "SendENBUES1APRequest \<Rightarrow> u8" where
  "esmPTI req = patched (sqPTI req) 0"

definition sendESM ::
  "('priv, 'pub) api_env \<Rightarrow> string \<Rightarrow> string \<Rightarrow> ENBContext \<Rightarrow> bytes \<Rightarrow> SendENBUES1APRequest \<Rightarrow> (world, SendENBUES1APResponse) hand" where
  "sendESM E k u enb esm req =
     hbind (secure_uplink_EPS E k u esm SHTIntegrityProtectedCiphered None) (\<lambda>protected.
     hbind (sendUplink E k u enb protected (Some req)) (\<lambda>_. hret no_response_EPS))"

text \<open>The body the ESM handlers share: the check, the message built for the UE, and \<open>sendESM\<close>.\<close>

definition esm_message ::
  "('priv, 'pub) api_env \<Rightarrow> string \<Rightarrow> string \<Rightarrow> ENBContext \<Rightarrow> SendENBUES1APRequest \<Rightarrow> (UEEPSContext \<Rightarrow> bytes result)
    \<Rightarrow> (world, SendENBUES1APResponse) hand" where
  "esm_message E k u enb req build =
     hbind (needs_context k u) (\<lambda>_.
     hbind (read_ue_EPS k u) (\<lambda>ue.
     hbind (hlift (build ue)) (\<lambda>esm. sendESM E k u enb esm req)))"

definition esmCauseProtocolErrorUnspec :: u8 where "esmCauseProtocolErrorUnspec = 111"

definition handleENBStatusESM ::
  "('priv, 'pub) api_env \<Rightarrow> string \<Rightarrow> string \<Rightarrow> ENBContext \<Rightarrow> SendENBUES1APRequest \<Rightarrow> (world, SendENBUES1APResponse) hand" where
  "handleENBStatusESM E k u enb req = esm_message E k u enb req (\<lambda>ue.
     BuildESMStatus (envEPSEnc E) (esmBearerID ue req) (esmPTI req) (patched (sqESMCause req) esmCauseProtocolErrorUnspec))"

definition handleENBBearerResourceAllocation ::
  "('priv, 'pub) api_env \<Rightarrow> string \<Rightarrow> string \<Rightarrow> ENBContext \<Rightarrow> SendENBUES1APRequest \<Rightarrow> (world, SendENBUES1APResponse) hand" where
  "handleENBBearerResourceAllocation E k u enb req = esm_message E k u enb req (\<lambda>ue.
     BuildBearerResourceAllocationRequest (esmPTI req))"

definition handleENBBearerResourceModification ::
  "('priv, 'pub) api_env \<Rightarrow> string \<Rightarrow> string \<Rightarrow> ENBContext \<Rightarrow> SendENBUES1APRequest \<Rightarrow> (world, SendENBUES1APResponse) hand" where
  "handleENBBearerResourceModification E k u enb req = esm_message E k u enb req (\<lambda>ue.
     BuildBearerResourceModificationRequest (esmPTI req))"

definition handleENBEsmInformationResponse ::
  "('priv, 'pub) api_env \<Rightarrow> string \<Rightarrow> string \<Rightarrow> ENBContext \<Rightarrow> SendENBUES1APRequest \<Rightarrow> (world, SendENBUES1APResponse) hand" where
  "handleENBEsmInformationResponse E k u enb req = esm_message E k u enb req (\<lambda>ue.
     BuildESMInformationResponse (envEPSEnc E) (esmPTI req))"

definition handleENBModifyBearerAccept ::
  "('priv, 'pub) api_env \<Rightarrow> string \<Rightarrow> string \<Rightarrow> ENBContext \<Rightarrow> SendENBUES1APRequest \<Rightarrow> (world, SendENBUES1APResponse) hand" where
  "handleENBModifyBearerAccept E k u enb req = esm_message E k u enb req (\<lambda>ue.
     BuildModifyEPSBearerContextAccept (envEPSEnc E) (esmBearerID ue req) (esmPTI req))"

definition handleENBDeactivateBearerAccept ::
  "('priv, 'pub) api_env \<Rightarrow> string \<Rightarrow> string \<Rightarrow> ENBContext \<Rightarrow> SendENBUES1APRequest \<Rightarrow> (world, SendENBUES1APResponse) hand" where
  "handleENBDeactivateBearerAccept E k u enb req = esm_message E k u enb req (\<lambda>ue.
     BuildDeactivateEPSBearerContextAccept (envEPSEnc E) (esmBearerID ue req) (esmPTI req))"

text \<open>A build that is sent and not waited for.\<close>

definition send_only :: "('priv, 'pub) api_env \<Rightarrow> string \<Rightarrow> bytes result \<Rightarrow> (world, SendENBUES1APResponse) hand" where
  "send_only E k b = hbind (build_and_send E k b) (\<lambda>_. hret no_response_EPS)"

definition handleENBModifyResponse ::
  "('priv, 'pub) api_env \<Rightarrow> string \<Rightarrow> string \<Rightarrow> SendENBUES1APRequest \<Rightarrow> (world, SendENBUES1APResponse) hand" where
  "handleENBModifyResponse E k u req =
     hbind (read_ue_EPS k u) (\<lambda>ue.
       send_only E k (BuildERABModifyResponse (envS1Enc E) (vMMEUES1APID ue) (vENBUES1APID ue) [esmBearerID ue req]))"

section \<open>Handover\<close>

definition both_ids_S1 :: "SendENBS1APRequest \<Rightarrow> (world, u32 \<times> u32) hand" where
  "both_ids_S1 req = (case (xs_MMEUES1APID req, xs_ENBUES1APID req) of
      (Some m, Some e) \<Rightarrow> hret (m, e)
    | _ \<Rightarrow> hfail (HTTPErr 400 ''mme_ue_s1ap_id and enb_ue_s1ap_id are required''))"

text \<open>\<open>*req.ENBUES1APID + 0x1000\<close>: the addition wraps.\<close>

definition teid_or_default :: "u32 \<Rightarrow> u32 \<Rightarrow> u32" where
  "teid_or_default enbID teid = (if teid = 0 then enbID + 0x1000 else teid)"

definition admitted_erab :: "ENBContext \<Rightarrow> u32 \<Rightarrow> HandoverERAB \<Rightarrow> HandoverAdmittedERAB" where
  "admitted_erab enb enbID e =
     (let dlIP = firstNonEmpty [her_DLIP e, eN3Addr enb, ''127.0.0.1'']
      in \<lparr> heERABID = her_ID e, heDLTeid = teid_or_default enbID (her_DLTeid e), heDLIP = dlIP \<rparr>)"

definition handleENBHandoverRequestAcknowledge ::
  "('priv, 'pub) api_env \<Rightarrow> string \<Rightarrow> ENBContext \<Rightarrow> SendENBS1APRequest \<Rightarrow> (world, SendENBUES1APResponse) hand" where
  "handleENBHandoverRequestAcknowledge E k enb req =
     hbind (both_ids_S1 req) (\<lambda>(mme, enbID).
     hbind (hreq (length (xs_Admitted req) \<noteq> 0)
              (HTTPErr 400 ''admitted_erabs is required for handover_request_acknowledge'')) (\<lambda>_.
       send_only E k (rwrap ''build HandoverRequestAcknowledge'' (BuildHandoverRequestAcknowledge_S1 (envS1Enc E)
         \<lparr> hcMMEUES1APID = mme, hcENBUES1APID = enbID, hcAdmitted = map (admitted_erab enb enbID) (xs_Admitted req),
           hcFailedERABIDs = xs_FailedERABs req \<rparr>))))"

definition handleENBHandoverNotify ::
  "('priv, 'pub) api_env \<Rightarrow> string \<Rightarrow> ENBContext \<Rightarrow> SendENBS1APRequest \<Rightarrow> (world, SendENBUES1APResponse) hand" where
  "handleENBHandoverNotify E k enb req =
     hbind (both_ids_S1 req) (\<lambda>(mme, enbID).
       send_only E k (rwrap ''build HandoverNotify'' (BuildHandoverNotify_S1 (envS1Enc E)
         \<lparr> hyMMEUES1APID = mme, hyENBUES1APID = enbID, hyMCC = eMCC enb, hyMNC = eMNC enb, hyTAC = eTAC enb,
           hyCellID = patched (xs_CellID req) 1 \<rparr>)))"

definition handleENBHandoverFailure ::
  "('priv, 'pub) api_env \<Rightarrow> string \<Rightarrow> SendENBS1APRequest \<Rightarrow> (world, SendENBUES1APResponse) hand" where
  "handleENBHandoverFailure E k req =
     hbind (the_or 400 ''mme_ue_s1ap_id is required for handover_failure'' (xs_MMEUES1APID req)) (\<lambda>mme.
       send_only E k (rwrap ''build HandoverFailure'' (BuildHandoverFailure_S1 (envS1Enc E) mme
         (patched (xs_Cause req) CauseRadioNetworkHOFailureInTarget_S1))))"

definition handoverRequiredCause :: "SendENBUES1APRequest \<Rightarrow> int" where
  "handoverRequiredCause req = patched (sqHandoverRequiredCause req) CauseRadioNetworkHandoverDesirableForRadioReason_S1"

definition handleENBHandoverRequired ::
  "('priv, 'pub) api_env \<Rightarrow> string \<Rightarrow> string \<Rightarrow> SendENBUES1APRequest \<Rightarrow> (world, SendENBUES1APResponse) hand" where
  "handleENBHandoverRequired E k u req =
     hbind (the_or 400 ''target_enb_id is required for handover_required'' (sqTargetENBID req)) (\<lambda>tid.
     hbind (or_http 404 ''target enb not found'' (find_enb tid)) (\<lambda>target.
     hbind (hlift (http_error 400 ''target'' (ENBIDValue (eENBID target) (eENBIDBitLength target)))) (\<lambda>(targetENBID, kind).
     hbind (read_ue_EPS k u) (\<lambda>ue.
       send_only E k (rwrap ''build HandoverRequired'' (BuildHandoverRequired_S1 (envS1Enc E)
         \<lparr> hrMMEUES1APID = sourceMMEID ue req, hrENBUES1APID = sourceENBID ue req,
           hrCauseRadioNetwork = handoverRequiredCause req, hrTargetMCC = eMCC target, hrTargetMNC = eMNC target,
           hrTargetTAC = eTAC target, hrTargetENBID = targetENBID, hrTargetENBIDKind = kind \<rparr>))))))"

definition handleENBHandoverCancel ::
  "('priv, 'pub) api_env \<Rightarrow> string \<Rightarrow> string \<Rightarrow> 64 word \<Rightarrow> SendENBUES1APRequest \<Rightarrow> (world, SendENBUES1APResponse) hand" where
  "handleENBHandoverCancel E k u d req =
     hbind (read_ue_EPS k u) (\<lambda>ue.
     hbind (build_and_send E k (rwrap ''build HandoverCancel'' (BuildHandoverCancel_S1 (envS1Enc E) (sourceMMEID ue req)
              (sourceENBID ue req) (patched (sqHandoverCancelCause req) CauseRadioNetworkHandoverCancelled_S1)))) (\<lambda>_.
     hbind (s1_wait k None d [''HandoverCancelAcknowledge'', ''ErrorIndication'']) (\<lambda>resp. hret (s1_only (Some resp)))))"

definition handleENBENBStatusTransfer ::
  "('priv, 'pub) api_env \<Rightarrow> string \<Rightarrow> string \<Rightarrow> SendENBUES1APRequest \<Rightarrow> (world, SendENBUES1APResponse) hand" where
  "handleENBENBStatusTransfer E k u req =
     hbind (hlift (case sqStatusTransferContainer req of None \<Rightarrow> Inr None
       | Some h \<Rightarrow> rbind (http_error 400 ''status_transfer_container must be hex'' (hex_decode h)) (\<lambda>b. Inr (Some b)))) (\<lambda>container.
     hbind (read_ue_EPS k u) (\<lambda>ue.
       send_only E k (rwrap ''build ENBStatusTransfer''
         (BuildENBStatusTransfer (envS1Enc E) (sourceMMEID ue req) (sourceENBID ue req) container))))"

definition handleMigrateENBUE ::
  "string \<Rightarrow> string \<Rightarrow> MigrateENBUERequest result \<Rightarrow> (world, nat \<times> MigrateENBUEResponse) hand" where
  "handleMigrateENBUE k u body =
     hbind (find_enb_ue k u) (\<lambda>(src, ue).
     hbind (parse_body body) (\<lambda>req.
     hbind (or_http 404 ''target enb not found'' (find_enb (me_TargetENBID req))) (\<lambda>target.
     hbind (on_store (MigrateUE_EPS k (me_TargetENBID req) ue (me_MMEUES1APID req) (me_ENBUES1APID req))) (\<lambda>_.
       hret (200, \<lparr> mf_UEID = vID ue, mf_ENBID = me_TargetENBID req,
         mf_MMEUES1APID = patched (me_MMEUES1APID req) (vMMEUES1APID ue),
         mf_ENBUES1APID = patched (me_ENBUES1APID req) (vENBUES1APID ue) \<rparr>)))))"

section \<open>Reset, raw PDUs and path switch\<close>

definition handleENBReset ::
  "('priv, 'pub) api_env \<Rightarrow> string \<Rightarrow> 64 word \<Rightarrow> ENBContext \<Rightarrow> SendENBS1APRequest \<Rightarrow> (world, SendENBUES1APResponse) hand" where
  "handleENBReset E k d enb req =
     hbind (hlift (collect (\<lambda>ueID. case GetUE_EPS ueID enb of None \<Rightarrow> Inl (HTTPErr 404 ''ue not found'')
              | Some ue \<Rightarrow> Inr \<lparr> rsMMEUES1APID = Some (vMMEUES1APID ue), rsENBUES1APID = Some (vENBUES1APID ue) \<rparr>)
              (xs_ResetUEIDs req))) (\<lambda>connections.
     hbind (hlift (http_error 500 ''build Reset'' (BuildReset (envS1Enc E) (length connections = 0) connections))) (\<lambda>pdu.
     hbind (or_http 502 ''SCTP send'' (s1_send E k pdu False)) (\<lambda>_.
     hbind (or_http 504 ''waiting for ResetAcknowledge'' (s1_wait k None d [''ResetAcknowledge'', ''ErrorIndication''])) (\<lambda>resp.
       hret (s1_only (Some resp))))))"

definition wait_if_asked_S1 :: "string \<Rightarrow> 64 word \<Rightarrow> SendENBS1APRequest \<Rightarrow> (world, SendENBUES1APResponse) hand" where
  "wait_if_asked_S1 k d req =
     (if length (xs_WaitFor req) = 0 then hret no_response_EPS
      else hbind (or_http 504 ''waiting'' (s1_wait k None d (xs_WaitFor req))) (\<lambda>resp. hret (s1_only (Some resp))))"

definition handleENBRawS1AP ::
  "('priv, 'pub) api_env \<Rightarrow> string \<Rightarrow> 64 word \<Rightarrow> string \<Rightarrow> SendENBS1APRequest \<Rightarrow> (world, SendENBUES1APResponse) hand" where
  "handleENBRawS1AP E k d raw req =
     hbind (hlift (http_error 400 ''decode raw_s1ap_pdu'' (hex_decode raw))) (\<lambda>pdu.
     hbind (or_http 502 ''SCTP send'' (s1_send E k pdu False)) (\<lambda>_. wait_if_asked_S1 k d req))"

text \<open>\<open>uint16(netcap[i]<<1) << 8\<close>: the shift of the octet loses its top bit.\<close>

definition shifted_capability :: "nat \<Rightarrow> u16" where
  "shifted_capability i = push_bit 8 (ucast (push_bit 1 (DefaultUENetworkCapability ! i)))"

definition path_switch_params :: "ENBContext \<Rightarrow> u32 \<Rightarrow> u32 \<Rightarrow> HandoverERAB \<Rightarrow> SendENBS1APRequest \<Rightarrow> PathSwitchRequestParams_S1" where
  "path_switch_params enb mme enbID erab req =
     \<lparr> psENBUES1APID = enbID, psSourceMMEUES1APID = mme, psERABID = her_ID erab, psTargetS1UAddr = eN3Addr enb,
       psTargetTEID = teid_or_default enbID (her_DLTeid erab), psMCC = eMCC enb, psMNC = eMNC enb, psTAC = eTAC enb,
       psCellID = 1, psEncryptionAlgorithms = patched (xs_PathSwitchEEA req) (shifted_capability 0),
       psIntegrityProtectionAlgorithms = patched (xs_PathSwitchEIA req) (shifted_capability 1),
       psDuplicate = xs_DuplicateERAB req \<rparr>"

definition handleENBPathSwitchRequest ::
  "('priv, 'pub) api_env \<Rightarrow> string \<Rightarrow> 64 word \<Rightarrow> ENBContext \<Rightarrow> SendENBS1APRequest \<Rightarrow> (world, SendENBUES1APResponse) hand" where
  "handleENBPathSwitchRequest E k d enb req =
     hbind (both_ids_S1 req) (\<lambda>(mme, enbID). case xs_ERABs req of
       [] \<Rightarrow> hfail (HTTPErr 400 ''erabs is required for path_switch_request'')
     | erab # _ \<Rightarrow>
         hbind (hlift (http_error 500 ''build PathSwitchRequest''
                  (BuildPathSwitchRequest_S1 (envS1Enc E) (path_switch_params enb mme enbID erab req)))) (\<lambda>encoded.
         hbind (or_http 502 ''SCTP send'' (s1_send E k encoded False)) (\<lambda>_. wait_if_asked_S1 k d req)))"

section \<open>The endpoints\<close>

definition dispatch_enb_ue ::
  "('priv, 'pub) api_env \<Rightarrow> string \<Rightarrow> string \<Rightarrow> 64 word \<Rightarrow> ENBContext \<Rightarrow> SendENBUES1APRequest
    \<Rightarrow> (world, nat \<times> SendENBUES1APResponse) hand" where
  "dispatch_enb_ue E k u d enb req =
     (let m = sqMessageType req in
      if m = ''attach_request'' then with_status (handleENBAttachRequest E k u d enb req)
      else if m = ''authentication_response'' then with_status (handleENBAuthenticationResponse E k u d enb req)
      else if m = ''authentication_failure'' then with_status (handleENBAuthenticationFailure E k u d enb req)
      else if m = ''identity_response'' then with_status (handleENBIdentityResponse E k u d enb req)
      else if m = ''inject_nas'' then with_status (handleENBInjectNAS E k u d enb req)
      else if m = ''detach_request'' then with_status (handleENBDetach E k u d enb req)
      else if m = ''ue_context_release_request'' then with_status (handleENBUEContextReleaseRequest E k u d req)
      else if m = ''service_request'' then with_status (handleENBServiceRequest E k u d enb req)
      else if m = ''tracking_area_update'' then with_status (handleENBTrackingAreaUpdate E k u d enb req)
      else if m = ''ue_capability_info'' then with_status (handleENBUECapabilityInfo E k u d req)
      else if m = ''handover_required'' then with_status (handleENBHandoverRequired E k u req)
      else if m = ''handover_cancel'' then with_status (handleENBHandoverCancel E k u d req)
      else if m = ''enb_status_transfer'' then with_status (handleENBENBStatusTransfer E k u req)
      else if m = ''error_indication'' then with_status (handleENBErrorIndication E k u d req)
      else if m = ''initial_context_setup_failure'' then with_status (handleENBInitialContextSetupFailure E k u req)
      else if m = ''modify_response'' then with_status (handleENBModifyResponse E k u req)
      else if m = ''pdn_connectivity'' then with_status (handleENBPdnConnectivity E k u d enb req)
      else if m = ''pdn_disconnect'' then with_status (handleENBPdnDisconnect E k u d enb req)
      else if m = ''modify_eps_bearer_context_accept'' then with_status (handleENBModifyBearerAccept E k u enb req)
      else if m = ''deactivate_eps_bearer_context_accept'' then with_status (handleENBDeactivateBearerAccept E k u enb req)
      else if m = ''status_esm'' then with_status (handleENBStatusESM E k u enb req)
      else if m = ''bearer_resource_allocation_request'' then with_status (handleENBBearerResourceAllocation E k u enb req)
      else if m = ''bearer_resource_modification_request'' then
        with_status (handleENBBearerResourceModification E k u enb req)
      else if m = ''esm_information_response'' then with_status (handleENBEsmInformationResponse E k u enb req)
      else if m = ''security_mode_complete'' then with_status (handleENBSecurityModeComplete E k u d enb req)
      else if m = ''security_mode_reject'' then with_status (handleENBSecurityModeReject E k u d enb req)
      else if m = ''attach_complete'' then with_status (handleENBAttachComplete E k u d enb req)
      else unsupported)"

text \<open>The eNB and its association are looked up before the UE.\<close>

definition handleSendENBUES1AP ::
  "('priv, 'pub) api_env \<Rightarrow> string \<Rightarrow> string \<Rightarrow> SendENBUES1APRequest result \<Rightarrow> (world, nat \<times> SendENBUES1APResponse) hand" where
  "handleSendENBUES1AP E k u body =
     hbind (find_enb k) (\<lambda>enb.
     hbind (find_s1 k) (\<lambda>_.
     hbind (the_or 404 ''ue not found'' (GetUE_EPS u enb)) (\<lambda>ue.
     hbind (parse_body body) (\<lambda>req.
       dispatch_enb_ue E k u (waitTimeout (sqTimeoutMs req)) enb req))))"

definition dispatch_enb ::
  "('priv, 'pub) api_env \<Rightarrow> string \<Rightarrow> 64 word \<Rightarrow> ENBContext \<Rightarrow> SendENBS1APRequest
    \<Rightarrow> (world, nat \<times> SendENBUES1APResponse) hand" where
  "dispatch_enb E k d enb req = (case xs_RawS1APPDU req of
      Some raw \<Rightarrow> with_status (handleENBRawS1AP E k d raw req)
    | None \<Rightarrow>
        (let m = xs_MessageType req in
         if m = ''reset'' then with_status (handleENBReset E k d enb req)
         else if m = ''path_switch_request'' then with_status (handleENBPathSwitchRequest E k d enb req)
         else if m = ''handover_request_acknowledge'' then with_status (handleENBHandoverRequestAcknowledge E k enb req)
         else if m = ''handover_notify'' then with_status (handleENBHandoverNotify E k enb req)
         else if m = ''handover_failure'' then with_status (handleENBHandoverFailure E k req)
         else unsupported))"

definition handleSendENBS1AP ::
  "('priv, 'pub) api_env \<Rightarrow> string \<Rightarrow> SendENBS1APRequest result \<Rightarrow> (world, nat \<times> SendENBUES1APResponse) hand" where
  "handleSendENBS1AP E k body =
     hbind (find_enb k) (\<lambda>enb.
     hbind (find_s1 k) (\<lambda>_.
     hbind (parse_body body) (\<lambda>req.
       dispatch_enb E k (waitTimeout (xs_TimeoutMs req)) enb req)))"

section \<open>The messages stay within the frame of their UE\<close>

lemma additional_bearer_id: "ebEBI (additional_bearer enb ue dl nas i p) = i"
  by (simp add: additional_bearer_def Let_def split: list.split)

lemma frame_bearers [frame_rules]:
  "ef.obeys k u (acceptAdditionalBearer E k u enb dl nas req)" "ef.obeys k u (accept_deactivation E k u enb dl nas req)"
  unfolding acceptAdditionalBearer_def accept_deactivation_def Let_def
  by (intro ef.rules ef.choice frame_rules frame_write_ue_EPS;
      simp add: same_subscriber_EPS_def well_typed_step(2,3) additional_bearer_id)+

lemma frame_esm [frame_rules]:
  "ef.obeys k u (sendESM E k u enb x req)" "ef.obeys k u (send_only E k b)"
  unfolding sendESM_def send_only_def by (intro ef.rules frame_rules)+

lemma frame_esm_message [frame_rules]: "ef.obeys k u (esm_message E k u enb req build)"
  unfolding esm_message_def by (intro ef.rules frame_rules)

lemma frame_bearer_messages [frame_rules]:
  "ef.obeys k u (handleENBPdnConnectivity E k u d enb req)" "ef.obeys k u (handleENBPdnDisconnect E k u d enb req)"
  "ef.obeys k u (handleENBStatusESM E k u enb req)" "ef.obeys k u (handleENBBearerResourceAllocation E k u enb req)"
  "ef.obeys k u (handleENBBearerResourceModification E k u enb req)"
  "ef.obeys k u (handleENBEsmInformationResponse E k u enb req)" "ef.obeys k u (handleENBModifyBearerAccept E k u enb req)"
  "ef.obeys k u (handleENBDeactivateBearerAccept E k u enb req)" "ef.obeys k u (handleENBModifyResponse E k u req)"
  "ef.obeys k u (handleENBHandoverRequired E k u req)" "ef.obeys k u (handleENBHandoverCancel E k u d req)"
  "ef.obeys k u (handleENBENBStatusTransfer E k u req)"
  unfolding handleENBPdnConnectivity_def handleENBPdnDisconnect_def handleENBStatusESM_def
    handleENBBearerResourceAllocation_def handleENBBearerResourceModification_def handleENBEsmInformationResponse_def
    handleENBModifyBearerAccept_def handleENBDeactivateBearerAccept_def handleENBModifyResponse_def
    handleENBHandoverRequired_def handleENBHandoverCancel_def handleENBENBStatusTransfer_def
  by (intro ef.rules ef.choice frame_rules)+

lemma frame_enb_node_messages [frame_rules]:
  "ef.obeys k u (handleENBHandoverRequestAcknowledge E k enb req)" "ef.obeys k u (handleENBHandoverNotify E k enb req)"
  "ef.obeys k u (handleENBHandoverFailure E k req)" "ef.obeys k u (handleENBReset E k d enb req)"
  "ef.obeys k u (handleENBRawS1AP E k d raw req)" "ef.obeys k u (handleENBPathSwitchRequest E k d enb req)"
proof -
  have i: "ef.obeys k u (both_ids_S1 req)" and w: "ef.obeys k u (wait_if_asked_S1 k d req)"
    unfolding both_ids_S1_def wait_if_asked_S1_def by (intro ef.rules ef.choice frame_rules)+
  show "ef.obeys k u (handleENBHandoverRequestAcknowledge E k enb req)" "ef.obeys k u (handleENBHandoverNotify E k enb req)"
    "ef.obeys k u (handleENBHandoverFailure E k req)" "ef.obeys k u (handleENBReset E k d enb req)"
    "ef.obeys k u (handleENBRawS1AP E k d raw req)"
    unfolding handleENBHandoverRequestAcknowledge_def handleENBHandoverNotify_def handleENBHandoverFailure_def
      handleENBReset_def handleENBRawS1AP_def
    by (intro ef.rules ef.choice frame_rules i w)+
  show "ef.obeys k u (handleENBPathSwitchRequest E k d enb req)"
    unfolding handleENBPathSwitchRequest_def
    by (intro ef.rules frame_rules i) (auto split: list.split intro!: ef.rules frame_rules w)
qed

lemma frame_with_status_EPS [frame_rules]: "ef.obeys k u h \<Longrightarrow> ef.obeys k u (with_status h)"
  unfolding ef.obeys_def with_status_def by (auto split: prod.split sum.split error.split) (metis snd_conv)+

lemma frame_unsupported_EPS [frame_rules]: "ef.obeys k u unsupported"
  unfolding unsupported_def by (rule ef.rules)

lemma frame_enb_messages:
  "ef.obeys k u (handleSendENBUES1AP E k u b)" "ef.obeys k u (handleSendENBS1AP E k b')"
  unfolding handleSendENBUES1AP_def handleSendENBS1AP_def dispatch_enb_ue_def dispatch_enb_def Let_def
  by (intro ef.rules ef.choice frame_rules)+

lemma enb_messages_good [good_rules]:
  "nd.obeys k (handleSendENBUES1AP E k u b)" "nd.obeys k (handleSendENBS1AP E k b')"
  by (rule good_frames, rule frame_enb_messages)+

end
