(* ===== verification/Api_Gtpu.thy ===== *)
theory Api_Gtpu
  imports Api_Ue
begin

text \<open>
  The user plane requests: \<open>internal/api/gnb_gtpu_handlers.go\<close> and \<open>enb_gtpu_handlers.go\<close>.
  An answer the code builds as a \<open>map[string]any\<close> is an association list.  A body whose decoding
  error the code drops is passed as what the decoder left of the struct.
\<close>

datatype json_value = JString string | JInt int | JBool bool | JInner InnerPacket | JContainer PDUSessionContainer

type_synonym json_object = "(string \<times> json_value) list"

section \<open>Numbers of a query string\<close>

definition ParseUintDec :: "nat \<Rightarrow> string \<Rightarrow> nat option" where
  "ParseUintDec bits s =
     (if s = [] \<or> \<not> list_all is_digit s \<or> 2 ^ bits \<le> dec_val s then None else Some (dec_val s))"

definition ParseIntDec64 :: "string \<Rightarrow> int option" where
  "ParseIntDec64 s =
     (let neg = (s \<noteq> [] \<and> hd s = CHR ''-'');
          ds = (if s \<noteq> [] \<and> (hd s = CHR ''-'' \<or> hd s = CHR ''+'') then tl s else s) in
      if ds = [] \<or> \<not> list_all is_digit ds then None
      else if neg then (if dec_val ds \<le> 2 ^ 63 then Some (- int (dec_val ds)) else None)
      else (if dec_val ds < 2 ^ 63 then Some (int (dec_val ds)) else None))"

section \<open>Inner packets\<close>

text \<open>The \<open>switch\<close> both uplink handlers have.\<close>

definition inner_packet :: "addr \<Rightarrow> ICMPEchoInput option \<Rightarrow> UDPInput option \<Rightarrow> bytes result" where
  "inner_packet src icmp udp = (case icmp of
      Some e \<Rightarrow>
        rbind (http_error 400 ''invalid icmp_echo.dst'' (ParseAddr (ieDst e))) (\<lambda>dst.
        http_error 400 ''icmp echo'' (BuildICMPEcho src dst (ieID e) (ieSeq e) (string_bytes ''3gpp-server'')))
    | None \<Rightarrow> (case udp of
        Some d \<Rightarrow>
          rbind (http_error 400 ''invalid udp.dst'' (ParseAddr (iuDst d))) (\<lambda>dst.
          rbind (http_error 400 ''invalid udp.payload_hex'' (hex_decode (iuPayloadHex d))) (\<lambda>payload.
          let srcPort = (if iuSrcPort d = 0 then 12345 else iuSrcPort d) in
          http_error 400 ''udp'' (BuildUDP src dst srcPort (iuDstPort d) payload)))
      | None \<Rightarrow> Inl (HTTPErr 400 ''one of icmp_echo or udp is required'')))"

definition inner_json :: "Message \<Rightarrow> json_object result" where
  "inner_json msg = rbind (try_decode (ParseInner (mPayload msg))) (\<lambda>inner.
     Inr ((''raw_hex'', JString (hex_encode (mPayload msg))) #
          (case inner of None \<Rightarrow> [] | Some p \<Rightarrow> [(''inner'', JInner p)])))"

definition echo_json :: "Message \<Rightarrow> json_object" where
  "echo_json msg = [(''echo_response'', JBool True), (''seq'', JInt (uint (mSeq msg)))] @
     (case mRecovery msg of None \<Rightarrow> [] | Some r \<Rightarrow> [(''recovery_restart_counter'', JInt (uint r))])"

definition errorIndicationJSON :: "Message \<Rightarrow> json_object" where
  "errorIndicationJSON msg = [(''error_indication'', JBool True), (''header_teid'', JInt (uint (mTEID msg)))] @
     (case mTEIDDataI msg of None \<Rightarrow> [] | Some t \<Rightarrow> [(''teid_data_i'', JInt (uint t))]) @
     (if mPeerAddress msg \<noteq> [] then [(''gtpu_peer_address'', JString (mPeerAddress msg))] else [])"

definition find_n3 :: "string \<Rightarrow> (world, unit) hand" where
  "find_n3 k = (\<lambda>w. (case wGTPU w k of
     None \<Rightarrow> Inl (HTTPErr 400 ''no GTP-U endpoint (create it with enable_gtpu)'') | Some e \<Rightarrow> Inr (), w))"

section \<open>gNB\<close>

definition gnbGTPU :: "string \<Rightarrow> string \<Rightarrow> int \<Rightarrow> (world, PDUSessionInfo) hand" where
  "gnbGTPU k u pduSessionID =
     hbind (find_gnb_ue k u) (\<lambda>(gnb, ue).
     hbind (find_n3 k) (\<lambda>_.
     let sid = (if pduSessionID = 0 then (if uPDUSessionID ue = 0 then 1 else uint (uPDUSessionID ue))
                else pduSessionID) in
     hlift (case uPDUSessions ue (word_of_int sid) of
        None \<Rightarrow> Inl (HTTPErr 400 ''no established N3 tunnel'')
      | Some info \<Rightarrow> if psULTeid info = 0 \<or> psUEIP info = [] then Inl (HTTPErr 400 ''no established N3 tunnel'')
                     else Inr info)))"

definition handleSendGNBUplink ::
  "('priv, 'pub) api_env \<Rightarrow> string \<Rightarrow> string \<Rightarrow> GNBUplinkRequest result \<Rightarrow> (world, nat \<times> json_object) hand" where
  "handleSendGNBUplink E k u body =
     hbind (parse_body body) (\<lambda>req.
     hbind (gnbGTPU k u (gl_PDUSessionID req)) (\<lambda>info.
     let srcIP = patched (gl_Src req) (psUEIP info) in
     hbind (hlift (http_error 400 ''invalid source IP'' (ParseAddr srcIP))) (\<lambda>src.
     hbind (hlift (inner_packet src (gl_ICMPEcho req) (gl_UDP req))) (\<lambda>inner.
     let qfi = (if psQFI info = 0 then 1 else psQFI info);
         ulTeid = patched (gl_TEID req) (psULTeid info) in
     hbind (or_http 502 ''gtp-u send'' (n3_do k (SendUplink (envWriteUDP E) (psUPFIP info) ulTeid qfi inner))) (\<lambda>_.
       hret (200, [(''sent_bytes'', JInt (int (length inner)))]))))))"

definition handleAwaitGNBDownlink ::
  "string \<Rightarrow> string \<Rightarrow> GNBAwaitDownlinkRequest result \<Rightarrow> (world, nat \<times> json_object) hand" where
  "handleAwaitGNBDownlink k u body =
     hbind (parse_body body) (\<lambda>req.
     hbind (gnbGTPU k u (ga_PDUSessionID req)) (\<lambda>info.
     hbind (or_http 504 ''timeout waiting for downlink''
              (n3_wait k (waitTimeout (ga_TimeoutMs req)) (WaitForDownlink (psDLTeid info)))) (\<lambda>msg.
     hbind (hlift (inner_json msg)) (\<lambda>resp.
       hret (200, resp @ (case mPDUSession msg of None \<Rightarrow> [] | Some c \<Rightarrow> [(''pdu_session_container'', JContainer c)]))))))"

definition handleGetGNBTunnel :: "string \<Rightarrow> string \<Rightarrow> string \<Rightarrow> (world, nat \<times> GNBTunnelResponse) hand" where
  "handleGetGNBTunnel k u v =
     (let pduSessionID = (if v \<noteq> [] then (case ParseIntDec64 v of None \<Rightarrow> 0 | Some n \<Rightarrow> n) else 0) in
     hbind (gnbGTPU k u pduSessionID) (\<lambda>info. hret (200,
       \<lparr> gt_PDUSessionID = psPDUSessionID info, gt_DNN = psDNN info, gt_N3GNBIP = psN3GNBIP info,
         gt_DLTeid = psDLTeid info, gt_QFI = psQFI info, gt_ULTeid = psULTeid info, gt_UPFIP = psUPFIP info,
         gt_UEIP = psUEIP info \<rparr>)))"

definition handleSendGNBGTPUEcho ::
  "('priv, 'pub) api_env \<Rightarrow> string \<Rightarrow> GTPUEchoRequest \<Rightarrow> (world, nat \<times> json_object) hand" where
  "handleSendGNBGTPUEcho E k req =
     hbind (find_n3 k) (\<lambda>_.
     hbind (hreq (gq_IP req \<noteq> []) (HTTPErr 400 ''upf_ip is required'')) (\<lambda>_.
     hbind (or_http 502 ''gtp-u echo send'' (n3_do k (SendEchoRequest (envWriteUDP E) (gq_IP req) 1))) (\<lambda>_.
     hbind (or_http 504 ''timeout waiting for GTP-U message''
              (n3_wait k (waitTimeout (gq_TimeoutMs req)) (WaitForControl MsgEchoResponse))) (\<lambda>msg.
       hret (200, echo_json msg)))))"

definition handleAwaitGNBErrorIndication :: "string \<Rightarrow> int \<Rightarrow> (world, nat \<times> json_object) hand" where
  "handleAwaitGNBErrorIndication k timeoutMs =
     hbind (find_n3 k) (\<lambda>_.
     hbind (or_http 504 ''timeout waiting for GTP-U message''
              (n3_wait k (waitTimeout timeoutMs) (WaitForControl MsgErrorIndication))) (\<lambda>msg.
       hret (200, errorIndicationJSON msg)))"

section \<open>eNB\<close>

text \<open>Uplink TEID, downlink TEID, gateway and UE address of a bearer, and whether there is one.\<close>

definition enbBearer :: "UEEPSContext \<Rightarrow> u8 \<Rightarrow> u32 \<times> u32 \<times> string \<times> string \<times> bool" where
  "enbBearer ue ebi =
     (if ebi = 0 \<or> ebi = vEPSBearerID ue then (vULTeid ue, vDLTeid ue, vSGWIP ue, vUEIP ue, vULTeid ue \<noteq> 0)
      else case vBearers ue ebi of
        None \<Rightarrow> (0, 0, [], [], False)
      | Some b \<Rightarrow> (ebULTeid b, ebDLTeid b, ebSGWIP b, ebUEIP b, True))"

definition enbGTPU :: "string \<Rightarrow> string \<Rightarrow> (world, UEEPSContext) hand" where
  "enbGTPU k u = hbind (find_enb_ue k u) (\<lambda>(enb, ue). hbind (find_n3 k) (\<lambda>_. hret ue))"

definition handleSendENBUplink ::
  "('priv, 'pub) api_env \<Rightarrow> string \<Rightarrow> string \<Rightarrow> ENBUplinkRequest result \<Rightarrow> (world, nat \<times> json_object) hand" where
  "handleSendENBUplink E k u body =
     hbind (enbGTPU k u) (\<lambda>ue.
     hbind (parse_body body) (\<lambda>req.
     let (ulTeid0, dlTeid, sgwIP, ueIP, found) = enbBearer ue (el_Ebi req) in
     hbind (hreq found (HTTPErr 400 ''no user-plane tunnel for the selected bearer'')) (\<lambda>_.
     hbind (hlift (http_error 400 ''invalid source IP'' (ParseAddr (patched (el_Src req) ueIP)))) (\<lambda>src.
     hbind (hlift (inner_packet src (el_ICMPEcho req) (el_UDP req))) (\<lambda>inner.
     hbind (or_http 502 ''gtp-u send''
              (n3_do k (SendUplinkPlain (envWriteUDP E) sgwIP (patched (el_TEID req) ulTeid0) inner))) (\<lambda>_.
       hret (200, [(''sent_bytes'', JInt (int (length inner)))])))))))"

definition handleSendENBGTPUEcho ::
  "('priv, 'pub) api_env \<Rightarrow> string \<Rightarrow> GTPUEchoRequest \<Rightarrow> (world, nat \<times> json_object) hand" where
  "handleSendENBGTPUEcho E k req =
     hbind (find_enb k) (\<lambda>_.
     hbind (find_n3 k) (\<lambda>_.
     hbind (hreq (gq_IP req \<noteq> []) (HTTPErr 400 ''sgw_ip is required'')) (\<lambda>_.
     hbind (or_http 502 ''gtp-u echo send'' (n3_do k (SendEchoRequest (envWriteUDP E) (gq_IP req) 1))) (\<lambda>_.
     hbind (or_http 504 ''timeout waiting for GTP-U message''
              (n3_wait k (waitTimeout (gq_TimeoutMs req)) (WaitForControl MsgEchoResponse))) (\<lambda>msg.
       hret (200, echo_json msg))))))"

definition handleAwaitENBErrorIndication :: "string \<Rightarrow> int \<Rightarrow> (world, nat \<times> json_object) hand" where
  "handleAwaitENBErrorIndication k timeoutMs =
     hbind (find_enb k) (\<lambda>_.
     hbind (find_n3 k) (\<lambda>_.
     hbind (or_http 504 ''timeout waiting for GTP-U message''
              (n3_wait k (waitTimeout timeoutMs) (WaitForControl MsgErrorIndication))) (\<lambda>msg.
       hret (200, errorIndicationJSON msg))))"

definition handleAwaitENBDownlink ::
  "string \<Rightarrow> string \<Rightarrow> ENBAwaitDownlinkRequest \<Rightarrow> (world, nat \<times> json_object) hand" where
  "handleAwaitENBDownlink k u req =
     hbind (enbGTPU k u) (\<lambda>ue.
     let (ulTeid, dlTeid, sgwIP, ueIP, found) = enbBearer ue (ea_Ebi req) in
     hbind (hreq found (HTTPErr 400 ''no user-plane tunnel for the selected bearer'')) (\<lambda>_.
     hbind (or_http 504 ''timeout waiting for downlink''
              (n3_wait k (waitTimeout (ea_TimeoutMs req)) (WaitForDownlink dlTeid))) (\<lambda>msg.
     hbind (hlift (inner_json msg)) (\<lambda>resp. hret (200, resp)))))"

definition handleGetENBTunnel :: "string \<Rightarrow> string \<Rightarrow> string \<Rightarrow> (world, nat \<times> ENBTunnelResponse) hand" where
  "handleGetENBTunnel k u v =
     hbind (find_enb_ue k u) (\<lambda>(enb, ue).
     hbind (if v \<noteq> [] then the_or 400 ''invalid ebi'' (ParseUintDec 8 v) else hret 0) (\<lambda>n.
     let ebi = of_nat n; (ulTeid, dlTeid, sgwIP, ueIP, found) = enbBearer ue ebi in
     hbind (hreq found (HTTPErr 400 ''no user-plane tunnel for bearer'')) (\<lambda>_.
     let resp = \<lparr> et_EBI = ebi, et_N3ENBIP = eN3Addr enb, et_APN = [], et_UEIP = ueIP, et_ULTeid = ulTeid,
                  et_SGWIP = sgwIP, et_DLTeid = dlTeid \<rparr> in
     hret (200, if ebi = 0 \<or> ebi = vEPSBearerID ue then resp\<lparr> et_EBI := vEPSBearerID ue \<rparr>
                else (case vBearers ue ebi of None \<Rightarrow> resp | Some b \<Rightarrow> resp\<lparr> et_APN := ebAPN b \<rparr>)))))"

section \<open>Frames\<close>

lemma frame_find_n3 [frame_rules]: "gf.obeys k u (find_n3 j)" "ef.obeys k u (find_n3 j)"
  by (simp_all add: gf.obeys_def ef.obeys_def find_n3_def gnb_frame_refl enb_frame_refl)

lemma frame_n3_sends [frame_rules]:
  "gf.obeys k u (n3_do k (SendUplink W ip t q d))" "ef.obeys k u (n3_do k (SendUplink W ip t q d))"
  "gf.obeys k u (n3_do k (SendUplinkPlain W ip t d))" "ef.obeys k u (n3_do k (SendUplinkPlain W ip t d))"
  "gf.obeys k u (n3_do k (SendEchoRequest W ip s))" "ef.obeys k u (n3_do k (SendEchoRequest W ip s))"
  by (intro obeys_n3_do; simp add: SendUplink_def SendUplinkPlain_def SendEchoRequest_def same_endpoint_sendTo)+

lemma frame_gtpu_lookups [frame_rules]: "gf.obeys k u (gnbGTPU k u s)" "ef.obeys k u (enbGTPU k u)"
  unfolding gnbGTPU_def enbGTPU_def Let_def by (intro gf.rules ef.rules frame_rules)+

lemma gtpu_frames:
  "gf.obeys k u (handleSendGNBUplink E k u b1)" "gf.obeys k u (handleAwaitGNBDownlink k u b2)"
  "gf.obeys k u (handleGetGNBTunnel k u v)" "gf.obeys k u (handleSendGNBGTPUEcho E k q)"
  "gf.obeys k u (handleAwaitGNBErrorIndication k i)"
  "ef.obeys k u (handleSendENBUplink E k u b3)" "ef.obeys k u (handleAwaitENBDownlink k u b4)"
  "ef.obeys k u (handleGetENBTunnel k u v)" "ef.obeys k u (handleSendENBGTPUEcho E k q)"
  "ef.obeys k u (handleAwaitENBErrorIndication k i)"
  unfolding handleSendGNBUplink_def handleAwaitGNBDownlink_def handleGetGNBTunnel_def handleSendGNBGTPUEcho_def
    handleAwaitGNBErrorIndication_def handleSendENBUplink_def handleAwaitENBDownlink_def handleGetENBTunnel_def
    handleSendENBGTPUEcho_def handleAwaitENBErrorIndication_def Let_def
  by (intro gf.rules ef.rules frame_rules gf.choice ef.choice)+

lemma gtpu_requests_good [good_rules]:
  "nd.obeys k (handleSendGNBUplink E k u b1)" "nd.obeys k (handleAwaitGNBDownlink k u b2)"
  "nd.obeys k (handleGetGNBTunnel k u v)" "nd.obeys k (handleSendGNBGTPUEcho E k q)"
  "nd.obeys k (handleAwaitGNBErrorIndication k i)"
  "nd.obeys k (handleSendENBUplink E k u b3)" "nd.obeys k (handleAwaitENBDownlink k u b4)"
  "nd.obeys k (handleGetENBTunnel k u v)" "nd.obeys k (handleSendENBGTPUEcho E k q)"
  "nd.obeys k (handleAwaitENBErrorIndication k i)"
  by (rule good_frames, rule gtpu_frames)+

section \<open>A ping, from the request to the wire\<close>

lemma length_be_bytes_2 [simp]: "length (be_bytes 2 (x :: u16)) = 2"
  by (simp add: be_bytes_16)

lemma length_echo:
  assumes "BuildICMPEcho src dst i q pl = Inr b"
  shows "length b \<le> 48 + length pl"
proof -
  have "same_family src dst" using assms by (auto simp: BuildICMPEcho_def same_family_def split: if_splits)
  then show ?thesis
    using assms
    by (auto simp: same_family_def BuildICMPEcho_def buildIPv4_layout ipv4_header_def buildICMPv6Echo_def Let_def
        buildIPv6_layout icmp_echo_filled elim!: Is4_cases Is6_cases)
qed

lemma gnbGTPU_result:
  "gnbGTPU k u s w = (Inr info, w') \<Longrightarrow> w' = w \<and> psULTeid info \<noteq> 0 \<and> psUEIP info \<noteq> [] \<and>
     (\<exists>x. gnb_ue k u w = Some x \<and>
        uPDUSessions x (word_of_int (if s = 0 then if uPDUSessionID x = 0 then 1 else uint (uPDUSessionID x) else s)) = Some info)"
  by (auto simp: gnbGTPU_def hbind_eq_Inr hand_basic find_n3_def Let_def dest!: find_gnb_ue_eq
      split: option.splits if_splits)

text \<open>C38. An echo request of a 5G UE leaves the gNB as one G-PDU to the UPF of the session and nothing
  else in the server changes.  What the UPF decodes has the session's uplink TEID and QFI, or the
  request's TEID, QFI 1 when the session has none, and its payload is the echo request from the
  UE's address, or the request's source, to the destination; the answer counts its octets.\<close>

theorem SendGNBUplink_ping:
  assumes "handleSendGNBUplink E k u (Inr req) w = (Inr (n, resp), w')"
    and "wGTPU w k = Some e" "gl_ICMPEcho req = Some c"
  shows "n = 200 \<and> (\<exists>x info src dst d inner.
    gnb_ue k u w = Some x \<and> info \<in> Map.ran (uPDUSessions x) \<and>
    ParseAddr (patched (gl_Src req) (psUEIP info)) = Inr src \<and> ParseAddr (ieDst c) = Inr dst \<and>
    w' = w\<lparr> wGTPU := (wGTPU w)(k \<mapsto> e\<lparr> ep_sent := ep_sent e @ [(psUPFIP info, d)] \<rparr>) \<rparr> \<and>
    Decode d = Inr \<lparr> mType = MsgGPDU, mTEID = patched (gl_TEID req) (psULTeid info), mSeq = 0, mHasSeq = False,
       mPayload = inner, mPDUSession = Some \<lparr> PDUType = 1, QFI = (if psQFI info = 0 then 1 else psQFI info) AND 0x3f, RQI = None \<rparr>,
       mRecovery = None, mTEIDDataI = None, mPeerAddress = [] \<rparr> \<and>
    ParseInner inner = Inr \<lparr> Src = wire_string src, Dst = wire_string dst,
       Protocol = (if Is4 src then protoICMP else protoICMPv6),
       ICMPType = (if Is4 src then icmpEchoRequest else icmpv6EchoRequest),
       ICMPID = ieID c, ICMPSeq = ieSeq c, UDPSrcPort = 0, UDPDstPort = 0, ipPayload = [] \<rparr> \<and>
    resp = [(''sent_bytes'', JInt (int (length inner)))])"
proof -
  let ?q = "\<lambda>info. if psQFI info = 0 then 1 else psQFI info"
  from assms(1) obtain info w1 src inner where
    g: "gnbGTPU k u (gl_PDUSessionID req) w = (Inr info, w1)" and
    s: "ParseAddr (patched (gl_Src req) (psUEIP info)) = Inr src" and
    i: "inner_packet src (gl_ICMPEcho req) (gl_UDP req) = Inr inner" and
    o: "or_http 502 ''gtp-u send'' (n3_do k (SendUplink (envWriteUDP E) (psUPFIP info)
        (patched (gl_TEID req) (psULTeid info)) (?q info) inner)) w1 = (Inr (), w')" and
    r: "n = 200" "resp = [(''sent_bytes'', JInt (int (length inner)))]"
    by (auto simp: handleSendGNBUplink_def parse_body_def hbind_eq_Inr hand_basic http_error_simps Let_def)
  from gnbGTPU_result [OF g] obtain x where x: "w1 = w" "gnb_ue k u w = Some x" "info \<in> Map.ran (uPDUSessions x)"
    by (auto simp: Map.ran_def)
  from i assms(3) obtain dst where dst: "ParseAddr (ieDst c) = Inr dst"
    "BuildICMPEcho src dst (ieID c) (ieSeq c) (string_bytes ''3gpp-server'') = Inr inner"
    by (auto simp: inner_packet_def rbind_eq_Inr)
  have len: "8 + length inner < 65536" using length_echo [OF dst(2)] by (simp add: string_bytes_def)
  have w': "w' = w\<lparr> wGTPU := (wGTPU w)(k \<mapsto> e\<lparr> ep_sent := ep_sent e @
      [(psUPFIP info, EncodeGPDUWithQFI (patched (gl_TEID req) (psULTeid info)) (?q info) inner)] \<rparr>) \<rparr>"
    using o assms(2) x(1)
    by (auto simp: or_http_def n3_do_def SendUplink_def sendTo_def split: if_splits sum.splits)
  show ?thesis
    using x(2,3) s dst w' r echo_parses [OF dst(2)] Decode_container_gpdu [OF len]
    by (intro conjI r(1) exI [of _ x] exI [of _ info] exI [of _ src] exI [of _ dst] exI [of _ inner]
        exI [of _ "EncodeGPDUWithQFI (patched (gl_TEID req) (psULTeid info)) (?q info) inner"])
       (simp_all only: EncodeGPDUWithQFI_layout)
qed

definition sample_session :: PDUSessionInfo where
  "sample_session = \<lparr> psPDUSessionID = 1, psDNN = ''internet'', psN3GNBIP = ''10.0.0.1'', psDLTeid = 1, psQFI = 9,
     psULTeid = 77, psUPFIP = ''10.0.0.9'', psUEIP = ''10.45.0.2'' \<rparr>"

definition sample_n3_world :: world where
  "sample_n3_world = (NewHandler (sample_store\<lparr> gnbs := [''1'' \<mapsto> sample_gnb ''1''
       [(sample_ue ''1'')\<lparr> uPDUSessions := [1 \<mapsto> sample_session] \<rparr>]] \<rparr>) (\<lambda>l. []))
     \<lparr> wGTPU := [''1'' \<mapsto> sample_endpoint] \<rparr>"

definition sample_ping :: GNBUplinkRequest where
  "sample_ping = \<lparr> gl_PDUSessionID = 0, gl_TEID = None,
     gl_ICMPEcho = Some \<lparr> ieDst = ''8.8.8.8'', ieID = 5, ieSeq = 1 \<rparr>, gl_UDP = None, gl_Src = None \<rparr>"

lemma sample_n3_lookups:
  "find_gnb_ue ''1'' ''1'' sample_n3_world = (Inr (sample_gnb ''1'' [(sample_ue ''1'')\<lparr> uPDUSessions := [1 \<mapsto> sample_session] \<rparr>],
     (sample_ue ''1'')\<lparr> uPDUSessions := [1 \<mapsto> sample_session] \<rparr>), sample_n3_world)"
  "wGTPU sample_n3_world ''1'' = Some sample_endpoint"
  by (simp_all add: sample_n3_world_def NewHandler_def sample_store_def sample_gnb_def sample_ue_def find_gnb_ue_def find_gnb_def
      GetGNB_def GetUE_def hbind_def http_error_simps the_or_def hand_basic)

lemma gnbGTPU_truncates: "fst (gnbGTPU ''1'' ''1'' 257 sample_n3_world) = Inr sample_session"
  by (simp add: gnbGTPU_def sample_n3_lookups hbind_def find_n3_def hand_basic sample_session_def sample_ue_def)

lemma sample_ping_addresses: "ParseAddr ''10.45.0.2'' = Inr (Addr4 0x0a2d0002)" "ParseAddr ''8.8.8.8'' = Inr (Addr4 0x08080808)"
  by code_simp+

lemma sample_ping_run:
  "\<exists>resp w'. handleSendGNBUplink (sample_env sample_pdu) ''1'' ''1'' (Inr sample_ping) sample_n3_world = (Inr (200, resp), w')"
  by (simp add: handleSendGNBUplink_def parse_body_def http_error_simps hand_basic hbind_def gnbGTPU_def sample_n3_lookups find_n3_def
      sample_ping_def sample_session_def sample_ue_def patched_def sample_ping_addresses inner_packet_def BuildICMPEcho_def buildIPv4_def
      or_http_def n3_do_def SendUplink_def sendTo_def sample_endpoint_def sample_env_def Let_def)

text \<open>The defaults of the request above: TEID 77 and QFI 9 of the session, its address as source.\<close>

theorem SendGNBUplink_ping_witness:
  "\<exists>(resp :: json_object) (w' :: world). 200 = (200 :: nat) \<and> (\<exists>x info src dst d inner.
    gnb_ue ''1'' ''1'' sample_n3_world = Some x \<and> info \<in> Map.ran (uPDUSessions x) \<and>
    ParseAddr (patched (gl_Src sample_ping) (psUEIP info)) = Inr src \<and>
    ParseAddr (ieDst \<lparr> ieDst = ''8.8.8.8'', ieID = 5, ieSeq = 1 \<rparr>) = Inr dst \<and>
    w' = sample_n3_world\<lparr> wGTPU := (wGTPU sample_n3_world)(''1'' \<mapsto>
      sample_endpoint\<lparr> ep_sent := ep_sent sample_endpoint @ [(psUPFIP info, d)] \<rparr>) \<rparr> \<and>
    Decode d = Inr \<lparr> mType = MsgGPDU, mTEID = patched (gl_TEID sample_ping) (psULTeid info), mSeq = 0, mHasSeq = False,
       mPayload = inner, mPDUSession = Some \<lparr> PDUType = 1, QFI = (if psQFI info = 0 then 1 else psQFI info) AND 0x3f, RQI = None \<rparr>,
       mRecovery = None, mTEIDDataI = None, mPeerAddress = [] \<rparr> \<and>
    ParseInner inner = Inr \<lparr> Src = wire_string src, Dst = wire_string dst,
       Protocol = (if Is4 src then protoICMP else protoICMPv6),
       ICMPType = (if Is4 src then icmpEchoRequest else icmpv6EchoRequest),
       ICMPID = ieID \<lparr> ieDst = ''8.8.8.8'', ieID = 5, ieSeq = 1 \<rparr>,
       ICMPSeq = ieSeq \<lparr> ieDst = ''8.8.8.8'', ieID = 5, ieSeq = 1 \<rparr>, UDPSrcPort = 0, UDPDstPort = 0, ipPayload = [] \<rparr> \<and>
    resp = [(''sent_bytes'', JInt (int (length inner)))])"
proof -
  obtain resp w' where r: "handleSendGNBUplink (sample_env sample_pdu) ''1'' ''1'' (Inr sample_ping) sample_n3_world =
     (Inr (200, resp), w')" using sample_ping_run by blast
  have p: "gl_ICMPEcho sample_ping = Some \<lparr> ieDst = ''8.8.8.8'', ieID = 5, ieSeq = 1 \<rparr>"
    by (simp add: sample_ping_def)
  show ?thesis
    by (rule exI [of _ resp], rule exI [of _ w'], rule SendGNBUplink_ping [OF r sample_n3_lookups(2) p])
qed

end
