(* ===== verification/Api_Server.thy ===== *)
theory Api_Server
  imports Api_Enb_Session Api_Gtpu
begin

text \<open>
  The server as a whole: the requests of \<open>internal/api/router.go\<close>, one constructor per route, each served by
  its handler; what the network may do between two of them; and what holds in every state the server can get
  into.  A body is what the JSON decoder makes of it, or its error.

  The abstract specification is the registry: which gNBs and eNBs exist and which UEs each of them has, with the
  counter the identifiers come from.  Every request implements one of its steps, and most of them the step that
  changes nothing.
\<close>

section \<open>Requests\<close>

datatype (plugins only: code) gnb_request =
    GCreate "CreateGNBRequest result"
  | GGet string
  | GDelete string
  | GNGAP string "SendGNBNGAPRequest result"
  | GAwait string "AwaitRequest result"
  | GCreateUE string "CreateGNBUERequest result"
  | GGetUE string string
  | GPatchUE string string "PatchGNBUERequest result"
  | GDeleteUE string string
  | GMigrateUE string string "MigrateGNBUERequest result"
  | GUENGAP string string "SendGNBUENGAPRequest result"
  | GUEAwait string string "AwaitRequest result"
  | GEcho string GTPUEchoRequest
  | GErrorIndication string int
  | GTunnel string string string
  | GUplink string string "GNBUplinkRequest result"
  | GDownlink string string "GNBAwaitDownlinkRequest result"

datatype (plugins only: code) enb_request =
    ECreate "CreateENBRequest result"
  | EGet string
  | EDelete string
  | ES1AP string "SendENBS1APRequest result"
  | EAwait string "AwaitRequest result"
  | ECreateUE string "CreateENBUERequest result"
  | EGetUE "u8 list" string string
  | EPatchUE string string "PatchENBUERequest result"
  | EDeleteUE string string
  | EMigrateUE string string "MigrateENBUERequest result"
  | EUES1AP string string "SendENBUES1APRequest result"
  | EUEAwait string string "AwaitRequest result"
  | EEcho string GTPUEchoRequest
  | EErrorIndication string int
  | ETunnel string string string
  | EUplink string string "ENBUplinkRequest result"
  | EDownlink string string ENBAwaitDownlinkRequest

datatype request = OnGNB gnb_request | OnENB enb_request

text \<open>The status of an answer, whether it is the handler's own or that of \<open>writeError\<close>; or no answer: \<open>net/http\<close>
  recovers a panic and drops the connection.\<close>

datatype reply = Done nat | Refused nat | Aborted

definition reply_of :: "(nat \<times> 'a) result \<Rightarrow> reply" where
  "reply_of r = (case r of Inr (n, x) \<Rightarrow> Done n | Inl (Panic p) \<Rightarrow> Aborted | Inl e \<Rightarrow> Refused (statusForError e))"

definition finish :: "(world, nat \<times> 'a) hand \<Rightarrow> world \<Rightarrow> reply \<times> world" where
  "finish h w = (case h w of (r, w') \<Rightarrow> (reply_of r, w'))"

fun serve_gnb :: "('priv, 'pub) api_env \<Rightarrow> gnb_request \<Rightarrow> world \<Rightarrow> reply \<times> world" where
  "serve_gnb E (GCreate b) = finish (handleCreateGNB E b)"
| "serve_gnb E (GGet k) = finish (handleGetGNB k)"
| "serve_gnb E (GDelete k) = finish (handleDeleteGNB E k)"
| "serve_gnb E (GNGAP k b) = finish (handleSendGNBNGAP E k b)"
| "serve_gnb E (GAwait k b) = finish (handleAwaitGNBMessage k b)"
| "serve_gnb E (GCreateUE k b) = finish (handleCreateGNBUE E k b)"
| "serve_gnb E (GGetUE k u) = finish (handleGetGNBUE k u)"
| "serve_gnb E (GPatchUE k u b) = finish (handlePatchGNBUE k u b)"
| "serve_gnb E (GDeleteUE k u) = finish (handleDeleteGNBUE k u)"
| "serve_gnb E (GMigrateUE k u b) = finish (handleMigrateGNBUE k u b)"
| "serve_gnb E (GUENGAP k u b) = finish (handleSendGNBUENGAP E k u b)"
| "serve_gnb E (GUEAwait k u b) = finish (handleAwaitGNBUEMessage E k u b)"
| "serve_gnb E (GEcho k b) = finish (handleSendGNBGTPUEcho E k b)"
| "serve_gnb E (GErrorIndication k ms) = finish (handleAwaitGNBErrorIndication k ms)"
| "serve_gnb E (GTunnel k u v) = finish (handleGetGNBTunnel k u v)"
| "serve_gnb E (GUplink k u b) = finish (handleSendGNBUplink E k u b)"
| "serve_gnb E (GDownlink k u b) = finish (handleAwaitGNBDownlink k u b)"

fun serve_enb :: "('priv, 'pub) api_env \<Rightarrow> enb_request \<Rightarrow> world \<Rightarrow> reply \<times> world" where
  "serve_enb E (ECreate b) = finish (handleCreateENB E b)"
| "serve_enb E (EGet k) = finish (handleGetENB k)"
| "serve_enb E (EDelete k) = finish (handleDeleteENB E k)"
| "serve_enb E (ES1AP k b) = finish (handleSendENBS1AP E k b)"
| "serve_enb E (EAwait k b) = finish (handleAwaitENBMessage k b)"
| "serve_enb E (ECreateUE k b) = finish (handleCreateENBUE k b)"
| "serve_enb E (EGetUE order k u) = finish (handleGetENBUE order k u)"
| "serve_enb E (EPatchUE k u b) = finish (handlePatchENBUE k u b)"
| "serve_enb E (EDeleteUE k u) = finish (handleDeleteENBUE k u)"
| "serve_enb E (EMigrateUE k u b) = finish (handleMigrateENBUE k u b)"
| "serve_enb E (EUES1AP k u b) = finish (handleSendENBUES1AP E k u b)"
| "serve_enb E (EUEAwait k u b) = finish (handleAwaitENBUEMessage E k u b)"
| "serve_enb E (EEcho k b) = finish (handleSendENBGTPUEcho E k b)"
| "serve_enb E (EErrorIndication k ms) = finish (handleAwaitENBErrorIndication k ms)"
| "serve_enb E (ETunnel k u v) = finish (handleGetENBTunnel k u v)"
| "serve_enb E (EUplink k u b) = finish (handleSendENBUplink E k u b)"
| "serve_enb E (EDownlink k u b) = finish (handleAwaitENBDownlink k u b)"

fun serve :: "('priv, 'pub) api_env \<Rightarrow> request \<Rightarrow> world \<Rightarrow> reply \<times> world" where
  "serve E (OnGNB q) = serve_gnb E q"
| "serve E (OnENB q) = serve_enb E q"

text \<open>Between requests more may be on its way from the network: the scripts of the links grow.  \<open>Es\<close> holds the
  environments a request may meet: the outcome of a system call may be another for each.\<close>

inductive api_step :: "('priv, 'pub) api_env set \<Rightarrow> world \<Rightarrow> world \<Rightarrow> bool" for Es where
  request: "E \<in> Es \<Longrightarrow> serve E q w = (s, w') \<Longrightarrow> api_step Es w w'"
| network: "api_step Es w (w\<lparr> wEvents := (wEvents w)(l := wEvents w l @ evs) \<rparr>)"

inductive api_reachable :: "('priv, 'pub) api_env set \<Rightarrow> world \<Rightarrow> bool" for Es where
  start: "api_reachable Es (NewHandler New evs)"
| step: "api_reachable Es w \<Longrightarrow> api_step Es w w' \<Longrightarrow> api_reachable Es w'"

section \<open>Migration\<close>

text \<open>A migration concerns two nodes.\<close>

lemma update_gnb_inv:
  assumes i: "world_inv w" and f: "\<And>x. gID (f x) = gID x"
    and u: "\<And>x. \<forall>j y. gues x j = Some y \<longrightarrow> uID y = j \<Longrightarrow> \<forall>j y. gues (f x) j = Some y \<longrightarrow> uID y = j"
  shows "world_inv (w\<lparr> wStore := update_gnb k f (wStore w) \<rparr>)"
proof (cases "gnbs (wStore w) k")
  case (Some x)
  have "nd.obeys k (gnb_op k (\<lambda>x. (Inr (), f x)))"
  proof (rule good_gnb_op)
    fix x show "gID (snd (Inr (), f x)) = gID x" unfolding snd_conv by (rule f)
  next
    fix x j y
    assume "\<And>j y. gues x j = Some y \<Longrightarrow> uID y = j" and "gues (snd (Inr (), f x)) j = Some y"
    then show "uID y = j" using u [of x] unfolding snd_conv by blast
  qed
  moreover have "gnb_op k (\<lambda>x. (Inr (), f x)) w = (Inr (), w\<lparr> wStore := update_gnb k f (wStore w) \<rparr>)"
    using Some by (simp add: gnb_op_def)
  ultimately have "good k w (w\<lparr> wStore := update_gnb k f (wStore w) \<rparr>)" by (rule nd.obeysD)
  then show ?thesis using i unfolding good_def by blast
next
  case None
  then have "update_gnb k f (wStore w) = wStore w" by (simp add: update_gnb_def fun_upd_idem)
  then show ?thesis using i by simp
qed

lemma update_enb_inv:
  assumes i: "world_inv w" and f: "\<And>x. eID (f x) = eID x"
    and u: "\<And>x. \<forall>j y. eues x j = Some y \<longrightarrow> vID y = j \<Longrightarrow> \<forall>j y. eues (f x) j = Some y \<longrightarrow> vID y = j"
  shows "world_inv (w\<lparr> wStore := update_enb k f (wStore w) \<rparr>)"
proof (cases "enbs (wStore w) k")
  case (Some x)
  have "nd.obeys k (enb_op k (\<lambda>x. (Inr (), f x)))"
  proof (rule good_enb_op)
    fix x show "eID (snd (Inr (), f x)) = eID x" unfolding snd_conv by (rule f)
  next
    fix x j y
    assume "\<And>j y. eues x j = Some y \<Longrightarrow> vID y = j" and "eues (snd (Inr (), f x)) j = Some y"
    then show "vID y = j" using u [of x] unfolding snd_conv by blast
  qed
  moreover have "enb_op k (\<lambda>x. (Inr (), f x)) w = (Inr (), w\<lparr> wStore := update_enb k f (wStore w) \<rparr>)"
    using Some by (simp add: enb_op_def)
  ultimately have "good k w (w\<lparr> wStore := update_enb k f (wStore w) \<rparr>)" by (rule nd.obeysD)
  then show ?thesis using i unfolding good_def by blast
next
  case None
  then have "update_enb k f (wStore w) = wStore w" by (simp add: update_enb_def fun_upd_idem)
  then show ?thesis using i by simp
qed

lemma migrated_id: "uID (migrated r a ue) = uID ue"
  by (simp add: migrated_def)

lemma keyed_updates:
  "\<forall>j y. gues g j = Some y \<longrightarrow> uID y = j \<Longrightarrow> \<forall>j y. gues (CreateUE x g) j = Some y \<longrightarrow> uID y = j"
  "\<forall>j y. gues g j = Some y \<longrightarrow> uID y = j \<Longrightarrow> \<forall>j y. gues (snd (DeleteUE i g)) j = Some y \<longrightarrow> uID y = j"
  "\<forall>j y. eues e j = Some y \<longrightarrow> vID y = j \<Longrightarrow> \<forall>j y. eues (CreateUE_EPS z e) j = Some y \<longrightarrow> vID y = j"
  "\<forall>j y. eues e j = Some y \<longrightarrow> vID y = j \<Longrightarrow> \<forall>j y. eues (snd (DeleteUE_EPS i e)) j = Some y \<longrightarrow> vID y = j"
  by (auto simp: CreateUE_def DeleteUE_def CreateUE_EPS_def DeleteUE_EPS_def split: if_splits)

lemma updates_keep_id:
  "gID (CreateUE x g) = gID g" "gID (snd (DeleteUE i g)) = gID g"
  "eID (CreateUE_EPS z e) = eID e" "eID (snd (DeleteUE_EPS i e)) = eID e"
  by (simp_all add: CreateUE_def DeleteUE_def CreateUE_EPS_def DeleteUE_EPS_def)

lemma MigrateUE_EPS_updates:
  "\<exists>z. vID z = vID v \<and> MigrateUE_EPS src target v m e s =
     update_enb target (CreateUE_EPS z) (update_enb src (\<lambda>x. snd (DeleteUE_EPS (vID v) x)) s)"
  unfolding MigrateUE_EPS_def Let_def by (intro exI conjI, rule_tac [2] refl) (simp split: option.splits)

lemma migrate_gnb_inv:
  assumes "world_inv w" shows "world_inv (w\<lparr> wStore := MigrateUE src target ue r a (wStore w) \<rparr>)"
proof -
  have "world_inv (w\<lparr> wStore := update_gnb src (\<lambda>g. snd (DeleteUE (uID ue) g)) (wStore w) \<rparr>)"
    by (rule update_gnb_inv [OF assms updates_keep_id(2) keyed_updates(2)])
  from update_gnb_inv [OF this updates_keep_id(1) keyed_updates(1), of target "\<lambda>_. migrated r a ue"]
  show ?thesis unfolding MigrateUE_migrated by (simp del: update_gnb_simps)
qed

lemma migrate_enb_inv:
  assumes "world_inv w" shows "world_inv (w\<lparr> wStore := MigrateUE_EPS src target v m e (wStore w) \<rparr>)"
proof -
  obtain z where z: "MigrateUE_EPS src target v m e (wStore w) =
      update_enb target (CreateUE_EPS z) (update_enb src (\<lambda>x. snd (DeleteUE_EPS (vID v) x)) (wStore w))"
    using MigrateUE_EPS_updates by blast
  have "world_inv (w\<lparr> wStore := update_enb src (\<lambda>x. snd (DeleteUE_EPS (vID v) x)) (wStore w) \<rparr>)"
    by (rule update_enb_inv [OF assms updates_keep_id(4) keyed_updates(4)])
  from update_enb_inv [OF this updates_keep_id(3) keyed_updates(3), of target "\<lambda>_. z"]
  show ?thesis unfolding z by (simp del: update_enb_simps)
qed

text \<open>What a migration does to the world, if it does anything.\<close>

lemma migrate_gnb_outcome:
  assumes h: "handleMigrateGNBUE k u b w = (r, w')"
  shows "(w' = w \<and> (\<exists>e. r = Inl e)) \<or>
    (\<exists>req g t ue. b = Inr req \<and> (\<exists>x. r = Inr (200, x)) \<and> gnbs (wStore w) k = Some g \<and> gues g u = Some ue \<and>
      gnbs (wStore w) (mg_TargetGNBID req) = Some t \<and>
      w' = w\<lparr> wStore := MigrateUE k (mg_TargetGNBID req) ue (mg_RANUENGAPID req) (mg_AMFUENGAPID req) (wStore w) \<rparr>)"
proof (cases "gnb_ue k u w")
  case None
  then show ?thesis using h
    by (cases "gnbs (wStore w) k")
       (auto simp: gnb_ue_def handleMigrateGNBUE_def find_gnb_ue_def find_gnb_def GetGNB_def GetUE_def the_or_def hbind_def
          hand_basic http_error_simps)
next
  case (Some ue)
  then obtain g where g: "gnbs (wStore w) k = Some g" "gues g u = Some ue" by (auto simp: gnb_ue_def bind_eq_Some_conv)
  show ?thesis
  proof (cases b)
    case (Inl e)
    then show ?thesis using h
      by (cases e) (auto simp: handleMigrateGNBUE_def hbind_def find_gnb_ue_hit [OF g] parse_body_def hand_basic http_error_simps)
  next
    case (Inr req)
    then show ?thesis using h g
      by (cases "gnbs (wStore w) (mg_TargetGNBID req)")
         (auto simp: handleMigrateGNBUE_def hbind_def find_gnb_ue_hit [OF g] parse_body_def hand_basic http_error_simps
            or_http_def find_gnb_def GetGNB_def on_store_def)
  qed
qed

lemma find_enb_ue_hit:
  "enbs (wStore w) k = Some e \<Longrightarrow> eues e u = Some x \<Longrightarrow> find_enb_ue k u w = (Inr (e, x), w)"
  by (simp add: find_enb_ue_def find_enb_def GetENB_def GetUE_EPS_def the_or_def hbind_def hand_basic http_error_simps)

lemma migrate_enb_outcome:
  assumes h: "handleMigrateENBUE k u b w = (r, w')"
  shows "(w' = w \<and> (\<exists>e. r = Inl e)) \<or>
    (\<exists>req g t ue. b = Inr req \<and> (\<exists>x. r = Inr (200, x)) \<and> enbs (wStore w) k = Some g \<and> eues g u = Some ue \<and>
      enbs (wStore w) (me_TargetENBID req) = Some t \<and>
      w' = w\<lparr> wStore := MigrateUE_EPS k (me_TargetENBID req) ue (me_MMEUES1APID req) (me_ENBUES1APID req) (wStore w) \<rparr>)"
proof (cases "enb_ue k u w")
  case None
  then show ?thesis using h
    by (cases "enbs (wStore w) k")
       (auto simp: enb_ue_def handleMigrateENBUE_def find_enb_ue_def find_enb_def GetENB_def GetUE_EPS_def the_or_def hbind_def
          hand_basic http_error_simps)
next
  case (Some ue)
  then obtain g where g: "enbs (wStore w) k = Some g" "eues g u = Some ue" by (auto simp: enb_ue_def bind_eq_Some_conv)
  note hit = find_enb_ue_hit [OF g]
  show ?thesis
  proof (cases b)
    case (Inl e)
    then show ?thesis using h
      by (cases e) (auto simp: handleMigrateENBUE_def hbind_def hit parse_body_def hand_basic http_error_simps)
  next
    case (Inr req)
    then show ?thesis using h g
      by (cases "enbs (wStore w) (me_TargetENBID req)")
         (auto simp: handleMigrateENBUE_def hbind_def hit parse_body_def hand_basic http_error_simps
            or_http_def find_enb_def GetENB_def on_store_def)
  qed
qed

section \<open>Every request keeps the invariant and stays at its nodes\<close>

text \<open>The nodes a request concerns: the one it names, the one it creates, or both ends of a migration.\<close>

fun concerned_gnb :: "gnb_request \<Rightarrow> nat \<Rightarrow> string set" where
  "concerned_gnb (GCreate b) n = {dec (Suc n)}"
| "concerned_gnb (GMigrateUE k u b) n = {k} \<union> (case b of Inr req \<Rightarrow> {mg_TargetGNBID req} | Inl e \<Rightarrow> {})"
| "concerned_gnb (GGet k) n = {k}" | "concerned_gnb (GDelete k) n = {k}" | "concerned_gnb (GNGAP k b) n = {k}"
| "concerned_gnb (GAwait k b) n = {k}" | "concerned_gnb (GCreateUE k b) n = {k}" | "concerned_gnb (GGetUE k u) n = {k}"
| "concerned_gnb (GPatchUE k u b) n = {k}" | "concerned_gnb (GDeleteUE k u) n = {k}"
| "concerned_gnb (GUENGAP k u b) n = {k}" | "concerned_gnb (GUEAwait k u b) n = {k}" | "concerned_gnb (GEcho k b) n = {k}"
| "concerned_gnb (GErrorIndication k ms) n = {k}" | "concerned_gnb (GTunnel k u v) n = {k}"
| "concerned_gnb (GUplink k u b) n = {k}" | "concerned_gnb (GDownlink k u b) n = {k}"

fun concerned_enb :: "enb_request \<Rightarrow> nat \<Rightarrow> string set" where
  "concerned_enb (ECreate b) n = {dec (Suc n)}"
| "concerned_enb (EMigrateUE k u b) n = {k} \<union> (case b of Inr req \<Rightarrow> {me_TargetENBID req} | Inl e \<Rightarrow> {})"
| "concerned_enb (EGet k) n = {k}" | "concerned_enb (EDelete k) n = {k}" | "concerned_enb (ES1AP k b) n = {k}"
| "concerned_enb (EAwait k b) n = {k}" | "concerned_enb (ECreateUE k b) n = {k}" | "concerned_enb (EGetUE order k u) n = {k}"
| "concerned_enb (EPatchUE k u b) n = {k}" | "concerned_enb (EDeleteUE k u) n = {k}"
| "concerned_enb (EUES1AP k u b) n = {k}" | "concerned_enb (EUEAwait k u b) n = {k}" | "concerned_enb (EEcho k b) n = {k}"
| "concerned_enb (EErrorIndication k ms) n = {k}" | "concerned_enb (ETunnel k u v) n = {k}"
| "concerned_enb (EUplink k u b) n = {k}" | "concerned_enb (EDownlink k u b) n = {k}"

fun concerned :: "request \<Rightarrow> nat \<Rightarrow> string set" where
  "concerned (OnGNB q) n = concerned_gnb q n"
| "concerned (OnENB q) n = concerned_enb q n"

definition node_kept :: "string \<Rightarrow> world \<Rightarrow> world \<Rightarrow> bool" where
  "node_kept j w w' = (gnbs (wStore w') j = gnbs (wStore w) j \<and> enbs (wStore w') j = enbs (wStore w) j \<and>
     wTransports w' j = wTransports w j \<and> wS1APTransports w' j = wS1APTransports w j \<and> wGTPU w' j = wGTPU w j \<and>
     (\<forall>l \<in> {N2 j, S1 j, N3 j}. wEvents w' l = wEvents w l))"

lemma node_kept_refl: "node_kept j w w"
  by (simp add: node_kept_def)

lemma local_kept: "node_local k w w' \<Longrightarrow> j \<noteq> k \<Longrightarrow> node_kept j w w'"
  by (simp add: node_local_def node_kept_def elsewhere_def)

lemma finish_good:
  assumes "nd.obeys k h" "finish h w = (s, w')"
  shows "(world_inv w \<longrightarrow> world_inv w') \<and> (\<forall>j. j \<noteq> k \<longrightarrow> node_kept j w w')"
proof -
  from assms(2) obtain r where "h w = (r, w')" by (auto simp: finish_def split: prod.splits)
  from nd.obeysD [OF assms(1) this] show ?thesis by (auto simp: good_def local_kept)
qed

lemma finishD: "finish h w = (s, w') \<Longrightarrow> \<exists>r. h w = (r, w') \<and> s = reply_of r"
  by (auto simp: finish_def split: prod.splits)

definition serves_well :: "string set \<Rightarrow> world \<Rightarrow> world \<Rightarrow> bool" where
  "serves_well ks w w' = (world_inv w' \<and> (\<forall>j. j \<notin> ks \<longrightarrow> node_kept j w w'))"

lemma well_at_node:
  "nd.obeys k h \<Longrightarrow> world_inv w \<Longrightarrow> finish h w = (s, w') \<Longrightarrow> serves_well {k} w w'"
  using finish_good [of k h w s w'] by (auto simp: serves_well_def)

lemma lifecycle_good [good_rules]:
  "nd.obeys k (handleGetGNB k)" "nd.obeys k (handleGetENB k)"
  "nd.obeys k (handleDeleteGNB E k)" "nd.obeys k (handleDeleteENB E k)"
proof -
  show "nd.obeys k (handleGetGNB k)" "nd.obeys k (handleGetENB k)"
    unfolding handleGetGNB_def handleGetENB_def by (intro nd.rules good_rules)+
  have local: "nl.obeys k (handleDeleteGNB E k)" "nl.obeys k (handleDeleteENB E k)"
    unfolding handleDeleteGNB_def handleDeleteENB_def
    by (intro nl.rules nl.modify local_trans [OF local_puts(4) local_puts(1)] local_trans [OF local_puts(5) local_puts(2)]
        local_trans [OF local_puts(6) local_puts(3)];
        simp add: nl.obeys_def or_http_def case_prod_beta local_puts)+
  show "nd.obeys k (handleDeleteGNB E k)" "nd.obeys k (handleDeleteENB E k)"
    using local deleted_gnb deleted_enb unfolding nd.obeys_def nl.obeys_def good_def by (metis prod.collapse)+
qed

lemma serve_gnb_well:
  assumes i: "world_inv w" and q: "serve_gnb E q w = (s, w')"
  shows "serves_well (concerned_gnb q (nextID (wStore w))) w w'"
proof (cases q)
  case (GCreate b)
  then obtain r where "handleCreateGNB E b w = (r, w')" using q finishD by fastforce
  from created_gnb [OF i this] show ?thesis using GCreate by (auto simp: serves_well_def local_kept)
next
  case (GMigrateUE k u b)
  then obtain r where "handleMigrateGNBUE k u b w = (r, w')" using q finishD by fastforce
  from migrate_gnb_outcome [OF this] show ?thesis
    using GMigrateUE i migrate_gnb_inv [OF i]
    by (auto simp: serves_well_def node_kept_def MigrateUE_migrated)
qed (use i q in \<open>auto intro: well_at_node good_rules\<close>)

lemma serve_enb_well:
  assumes i: "world_inv w" and q: "serve_enb E q w = (s, w')"
  shows "serves_well (concerned_enb q (nextID (wStore w))) w w'"
proof (cases q)
  case (ECreate b)
  then obtain r where "handleCreateENB E b w = (r, w')" using q finishD by fastforce
  from created_enb [OF i this] show ?thesis using ECreate by (auto simp: serves_well_def local_kept)
next
  case (EMigrateUE k u b)
  then obtain r where "handleMigrateENBUE k u b w = (r, w')" using q finishD by fastforce
  from migrate_enb_outcome [OF this] show ?thesis
    using EMigrateUE i migrate_enb_inv [OF i]
    by (auto simp: serves_well_def node_kept_def MigrateUE_EPS_def Let_def)
qed (use i q in \<open>auto intro: well_at_node good_rules\<close>)

lemma serve_well:
  "world_inv w \<Longrightarrow> serve E q w = (s, w') \<Longrightarrow> serves_well (concerned q (nextID (wStore w))) w w'"
  by (cases q) (auto intro: serve_gnb_well serve_enb_well)

lemma api_step_inv: "api_step Es w w' \<Longrightarrow> world_inv w \<Longrightarrow> world_inv w'"
proof (induction rule: api_step.induct)
  case (request E q w s w')
  then show ?case using serve_well [of w E q s w'] by (simp add: serves_well_def)
next
  case (network w l evs)
  then show ?case by (simp add: world_inv_def links_open_def)
qed

lemma reachable_inv: "api_reachable Es w \<Longrightarrow> world_inv w"
  by (induction rule: api_reachable.induct) (auto simp: NewHandler_inv intro: api_step_inv)

section \<open>The server's contract\<close>

text \<open>C2. In every state the server can get into, whatever the requests, the answers of the network and the outcomes
  of the system calls were: every node is filed under its identifier, which is the decimal of a number handed out
  already; no gNB shares its identifier with an eNB; every UE is filed under its own identifier; every transport
  and endpoint belongs to a node of its kind and is open; and no association was ever forgotten without having
  been closed.\<close>

theorem server_state_consistent:
  assumes "api_reachable Es w"
  shows "(\<forall>k g. gnbs (wStore w) k = Some g \<longrightarrow> gID g = k \<and> (\<exists>n \<in> {1..nextID (wStore w)}. k = dec n) \<and> enbs (wStore w) k = None \<and>
        (\<forall>u x. gues g u = Some x \<longrightarrow> uID x = u)) \<and>
    (\<forall>k e. enbs (wStore w) k = Some e \<longrightarrow> eID e = k \<and> (\<exists>n \<in> {1..nextID (wStore w)}. k = dec n) \<and>
        (\<forall>u x. eues e u = Some x \<longrightarrow> vID x = u)) \<and>
    (\<forall>k t. wTransports w k = Some t \<longrightarrow> \<not> closed t \<and> k \<in> dom (gnbs (wStore w))) \<and>
    (\<forall>k t. wS1APTransports w k = Some t \<longrightarrow> \<not> closed t \<and> k \<in> dom (enbs (wStore w))) \<and>
    (\<forall>k e. wGTPU w k = Some e \<longrightarrow> \<not> ep_closed e \<and> k \<in> dom (gnbs (wStore w)) \<union> dom (enbs (wStore w))) \<and>
    (\<forall>(l, c) \<in> set (wDropped w). c)"
proof -
  have s: "store_inv (wStore w)" and u: "ues_keyed (wStore w)" and o: "links_open w"
    and d: "dom (wTransports w) \<subseteq> dom (gnbs (wStore w))" "dom (wS1APTransports w) \<subseteq> dom (enbs (wStore w))"
      "dom (wGTPU w) \<subseteq> dom (gnbs (wStore w)) \<union> dom (enbs (wStore w))" and c: "\<forall>(l, c) \<in> set (wDropped w). c"
    using reachable_inv [OF assms] by (simp_all add: world_inv_def)
  from s u have "\<forall>k g. gnbs (wStore w) k = Some g \<longrightarrow> gID g = k \<and> (\<exists>n \<in> {1..nextID (wStore w)}. k = dec n) \<and>
      enbs (wStore w) k = None \<and> (\<forall>u x. gues g u = Some x \<longrightarrow> uID x = u)"
    by (fastforce simp: store_inv_def ues_keyed_def)
  moreover from s u have "\<forall>k e. enbs (wStore w) k = Some e \<longrightarrow> eID e = k \<and> (\<exists>n \<in> {1..nextID (wStore w)}. k = dec n) \<and>
      (\<forall>u x. eues e u = Some x \<longrightarrow> vID x = u)"
    by (fastforce simp: store_inv_def ues_keyed_def)
  moreover note o [unfolded links_open_def] d c
  ultimately show ?thesis by (auto simp: subset_iff dom_def)
qed

definition sample_reached :: world where
  "sample_reached = snd (serve (sample_env sample_pdu) (OnGNB (GCreate (Inr (sample_gnb_request\<lparr> cg_EnableGTPU := False \<rparr>))))
     (NewHandler New (\<lambda>l. [])))"

lemma sample_reached: "api_reachable {sample_env sample_pdu} sample_reached"
  unfolding sample_reached_def
  by (rule api_reachable.step [OF api_reachable.start api_step.request [OF insertI1 prod.collapse [symmetric]]])

lemma dec_one: "dec (Suc 0) = ''1''"
  by code_simp

lemma sample_reached_gnb: "gnbs (wStore sample_reached) ''1'' \<noteq> None"
  by (simp add: sample_reached_def finish_def handleCreateGNB_def parse_body_def hand_simps sample_gnb_request_def Let_def
    DialNGAP_def dialFramed_def sample_env_def hbind_def register_gnb_def CreateGNB_def NewHandler_def New_def
    bring_up_gnb_def ng_setup_def teardown_on_error_def or_default_def put_n2_def reply_of_def dec_one)

theorem server_state_consistent_witness:
  "\<exists>g. gnbs (wStore sample_reached) ''1'' = Some g \<and> gID g = ''1'' \<and> enbs (wStore sample_reached) ''1'' = None \<and>
     (\<forall>k t. wTransports sample_reached k = Some t \<longrightarrow> \<not> closed t)"
proof -
  obtain g where g: "gnbs (wStore sample_reached) ''1'' = Some g" using sample_reached_gnb by blast
  note c = server_state_consistent [OF sample_reached]
  from conjunct1 [OF c, rule_format, OF g] have "gID g = ''1'' \<and> enbs (wStore sample_reached) ''1'' = None" by (elim conjE) simp
  moreover from conjunct1 [OF conjunct2 [OF conjunct2 [OF c]]]
  have "\<forall>k t. wTransports sample_reached k = Some t \<longrightarrow> \<not> closed t" by simp
  ultimately show ?thesis using g by simp
qed

text \<open>C5. A request leaves every node alone that it does not concern: no field of it, no UE, no transport, no endpoint
  and no event on its way to it changes, whether the request succeeds, is refused or panics.\<close>

theorem requests_are_isolated:
  assumes "api_reachable Es w" "serve E q w = (s, w')" "j \<notin> concerned q (nextID (wStore w))"
  shows "node_kept j w w'"
  using serve_well [OF reachable_inv [OF assms(1)] assms(2)] assms(3) by (simp add: serves_well_def)

theorem requests_are_isolated_witness:
  "\<exists>s (w' :: world). serve (sample_env sample_pdu) (OnGNB (GDelete ''2'')) sample_reached = (s, w') \<and> node_kept ''1'' sample_reached w'"
proof -
  obtain s w' where w: "serve (sample_env sample_pdu) (OnGNB (GDelete ''2'')) sample_reached = (s, w')" by fastforce
  then show ?thesis using requests_are_isolated [OF sample_reached w, of "''1''"] by auto
qed

lemma finish_frame_gnb: "gf.obeys k u h \<Longrightarrow> gnb_frame k u w (snd (finish h w))"
  by (simp add: finish_def case_prod_beta gf.obeys_def)

lemma finish_frame_enb: "ef.obeys k u h \<Longrightarrow> enb_frame k u w (snd (finish h w))"
  by (simp add: finish_def case_prod_beta ef.obeys_def)

text \<open>C6. A message sent for one UE, a wait or a packet of it changes no other UE of its node, nothing of the node but
  the counter of identifiers, and never the identity or the credentials of the UE itself.\<close>

theorem messages_change_one_ue:
  "gnb_frame k u w (snd (serve E (OnGNB (GUENGAP k u b1)) w)) \<and> gnb_frame k u w (snd (serve E (OnGNB (GUEAwait k u b2)) w)) \<and>
   gnb_frame k u w (snd (serve E (OnGNB (GUplink k u b3)) w)) \<and> gnb_frame k u w (snd (serve E (OnGNB (GDownlink k u b4)) w)) \<and>
   enb_frame k u w (snd (serve E (OnENB (EUES1AP k u c1)) w)) \<and> enb_frame k u w (snd (serve E (OnENB (EUEAwait k u c2)) w)) \<and>
   enb_frame k u w (snd (serve E (OnENB (EUplink k u c3)) w)) \<and> enb_frame k u w (snd (serve E (OnENB (EDownlink k u c4)) w))"
  by (simp add: finish_frame_gnb finish_frame_enb frame_gnb_messages frame_enb_messages await_frames gtpu_frames)

end
