(* ===== verification/Api_Registry.thy ===== *)
theory Api_Registry
  imports Api_Server
begin

text \<open>
  The abstract specification of the server: a registry of the gNBs and eNBs, each with the identifiers of its UEs,
  and the counter the identifiers of nodes come from.  \<open>registry\<close> reads it off a world; \<open>registry_step\<close> says what a
  request may do to it and with which answer.  Everything else the server does, all the signalling and the user
  plane, is a step that changes nothing.
\<close>

section \<open>The registry\<close>

record registry =
  rgGNBs :: "string \<rightharpoonup> string set"
  rgENBs :: "string \<rightharpoonup> string set"
  rgNext :: nat

definition registry_of :: "world \<Rightarrow> registry" where
  "registry_of w = \<lparr> rgGNBs = (\<lambda>k. map_option (\<lambda>g. dom (gues g)) (gnbs (wStore w) k)),
     rgENBs = (\<lambda>k. map_option (\<lambda>e. dom (eues e)) (enbs (wStore w) k)), rgNext = nextID (wStore w) \<rparr>"

type_synonym nodes = "string \<rightharpoonup> string set"

definition add_ue :: "string \<Rightarrow> string \<Rightarrow> nodes \<Rightarrow> nodes" where
  "add_ue k u m = m(k := map_option (insert u) (m k))"

definition remove_ue :: "string \<Rightarrow> string \<Rightarrow> nodes \<Rightarrow> nodes" where
  "remove_ue k u m = m(k := map_option (\<lambda>us. us - {u}) (m k))"

definition has_ue :: "string \<Rightarrow> string \<Rightarrow> nodes \<Rightarrow> bool" where
  "has_ue k u m = (case m k of None \<Rightarrow> False | Some us \<Rightarrow> u \<in> us)"

text \<open>The steps of one kind of node: its nodes and the counter, before and after.  A creation that is refused may
  have used up an identifier, and one that panics may leave the node behind.\<close>

definition creates :: "reply \<Rightarrow> nodes \<Rightarrow> nat \<Rightarrow> nodes \<Rightarrow> nat \<Rightarrow> bool" where
  "creates s m n m' n' = (case s of
      Done c \<Rightarrow> c = 201 \<and> m' = m(dec (Suc n) \<mapsto> {}) \<and> n' = Suc n
    | Refused c \<Rightarrow> m' = m \<and> (n' = n \<or> n' = Suc n)
    | Aborted \<Rightarrow> (m' = m \<and> n' = n) \<or> (m' = m(dec (Suc n) \<mapsto> {}) \<and> n' = Suc n))"

definition deletes :: "string \<Rightarrow> reply \<Rightarrow> nodes \<Rightarrow> nodes \<Rightarrow> bool" where
  "deletes k s m m' = (m' = m(k := None) \<and> s = (if m k = None then Refused 404 else Done 204))"

definition creates_ue :: "string \<Rightarrow> reply \<Rightarrow> nodes \<Rightarrow> nodes \<Rightarrow> bool" where
  "creates_ue k s m m' = (case s of Done c \<Rightarrow> c = 201 \<and> m k \<noteq> None \<and> (\<exists>u. m' = add_ue k u m) | _ \<Rightarrow> m' = m)"

definition deletes_ue :: "string \<Rightarrow> string \<Rightarrow> reply \<Rightarrow> nodes \<Rightarrow> nodes \<Rightarrow> bool" where
  "deletes_ue k u s m m' = (m' = remove_ue k u m \<and> s = (if has_ue k u m then Done 204 else Refused 404))"

definition moves_ue :: "string \<Rightarrow> string \<Rightarrow> string option \<Rightarrow> reply \<Rightarrow> nodes \<Rightarrow> nodes \<Rightarrow> bool" where
  "moves_ue k u target s m m' = (case s of
      Done c \<Rightarrow> c = 200 \<and> has_ue k u m \<and> (\<exists>j. target = Some j \<and> m j \<noteq> None \<and> m' = add_ue j u (remove_ue k u m))
    | _ \<Rightarrow> m' = m)"

fun gnb_registry_step :: "gnb_request \<Rightarrow> reply \<Rightarrow> nodes \<Rightarrow> nat \<Rightarrow> nodes \<Rightarrow> nat \<Rightarrow> bool" where
  "gnb_registry_step (GCreate b) s m n m' n' = creates s m n m' n'"
| "gnb_registry_step (GDelete k) s m n m' n' = (deletes k s m m' \<and> n' = n)"
| "gnb_registry_step (GCreateUE k b) s m n m' n' = (creates_ue k s m m' \<and> n' = n)"
| "gnb_registry_step (GDeleteUE k u) s m n m' n' = (deletes_ue k u s m m' \<and> n' = n)"
| "gnb_registry_step (GMigrateUE k u b) s m n m' n' =
     (moves_ue k u (case b of Inr req \<Rightarrow> Some (mg_TargetGNBID req) | Inl e \<Rightarrow> None) s m m' \<and> n' = n)"
| "gnb_registry_step q s m n m' n' = (m' = m \<and> n' = n)"

fun enb_registry_step :: "enb_request \<Rightarrow> reply \<Rightarrow> nodes \<Rightarrow> nat \<Rightarrow> nodes \<Rightarrow> nat \<Rightarrow> bool" where
  "enb_registry_step (ECreate b) s m n m' n' = creates s m n m' n'"
| "enb_registry_step (EDelete k) s m n m' n' = (deletes k s m m' \<and> n' = n)"
| "enb_registry_step (ECreateUE k b) s m n m' n' = (creates_ue k s m m' \<and> n' = n)"
| "enb_registry_step (EDeleteUE k u) s m n m' n' = (deletes_ue k u s m m' \<and> n' = n)"
| "enb_registry_step (EMigrateUE k u b) s m n m' n' =
     (moves_ue k u (case b of Inr req \<Rightarrow> Some (me_TargetENBID req) | Inl e \<Rightarrow> None) s m m' \<and> n' = n)"
| "enb_registry_step q s m n m' n' = (m' = m \<and> n' = n)"

fun registry_step :: "request \<Rightarrow> reply \<Rightarrow> registry \<Rightarrow> registry \<Rightarrow> bool" where
  "registry_step (OnGNB q) s r r' = (gnb_registry_step q s (rgGNBs r) (rgNext r) (rgGNBs r') (rgNext r') \<and> rgENBs r' = rgENBs r)"
| "registry_step (OnENB q) s r r' = (enb_registry_step q s (rgENBs r) (rgNext r) (rgENBs r') (rgNext r') \<and> rgGNBs r' = rgGNBs r)"

section \<open>Requests that change nothing of it\<close>

lemma registry_of_update:
  "registry_of (w\<lparr> wStore := update_gnb k f (wStore w) \<rparr>) =
     (registry_of w)\<lparr> rgGNBs := (rgGNBs (registry_of w))(k := map_option (\<lambda>g. dom (gues (f g))) (gnbs (wStore w) k)) \<rparr>"
  "registry_of (w\<lparr> wStore := update_enb k f' (wStore w) \<rparr>) =
     (registry_of w)\<lparr> rgENBs := (rgENBs (registry_of w))(k := map_option (\<lambda>e. dom (eues (f' e))) (enbs (wStore w) k)) \<rparr>"
  by (auto simp: registry_of_def fun_eq_iff option.map_comp comp_def)

interpretation rg: state_rel "\<lambda>w w'. registry_of w' = registry_of w"
  by unfold_locales auto

lemma same_dom: "rel_option R (m u) (m' u) \<Longrightarrow> \<forall>j. j \<noteq> u \<longrightarrow> m' j = m j \<Longrightarrow> dom m' = dom m"
  by (auto simp: dom_def option_rel_Some1 option_rel_Some2 set_eq_iff) (metis option.rel_distinct option.exhaust)+

lemma change_dom: "gnb_change u g g' \<Longrightarrow> dom (gues g') = dom (gues g)" "enb_change u e e' \<Longrightarrow> dom (eues e') = dom (eues e)"
  unfolding gnb_change_def enb_change_def by (elim conjE, erule (1) same_dom)+

lemma gnb_frame_registry: "gnb_frame k u w w' \<Longrightarrow> registry_of w' = registry_of w"
proof -
  assume f: "gnb_frame k u w w'"
  have "map_option (\<lambda>g. dom (gues g)) (gnbs (wStore w') j) = map_option (\<lambda>g. dom (gues g)) (gnbs (wStore w) j)" for j
  proof (cases "j = k")
    case True
    then have "rel_option (gnb_change u) (gnbs (wStore w) j) (gnbs (wStore w') j)" using f by (simp add: gnb_frame_def)
    then show ?thesis by (rule option.rel_cases) (simp_all add: change_dom)
  qed (use f in \<open>simp add: gnb_frame_def elsewhere_def\<close>)
  then show ?thesis using f by (simp add: registry_of_def gnb_frame_def)
qed

lemma enb_frame_registry: "enb_frame k u w w' \<Longrightarrow> registry_of w' = registry_of w"
proof -
  assume f: "enb_frame k u w w'"
  have "map_option (\<lambda>g. dom (eues g)) (enbs (wStore w') j) = map_option (\<lambda>g. dom (eues g)) (enbs (wStore w) j)" for j
  proof (cases "j = k")
    case True
    then have "rel_option (enb_change u) (enbs (wStore w) j) (enbs (wStore w') j)" using f by (simp add: enb_frame_def)
    then show ?thesis by (rule option.rel_cases) (simp_all add: change_dom)
  qed (use f in \<open>simp add: enb_frame_def elsewhere_def\<close>)
  then show ?thesis using f by (simp add: registry_of_def enb_frame_def)
qed

named_theorems quiet "handlers that leave the registry alone"

lemma quiet_frames: "gf.obeys k u h \<Longrightarrow> rg.obeys h" "ef.obeys k u h' \<Longrightarrow> rg.obeys h'"
  unfolding rg.obeys_def gf.obeys_def ef.obeys_def by (meson gnb_frame_registry enb_frame_registry)+

lemma quiet_messages [quiet]:
  "rg.obeys (handleSendGNBUENGAP E k u b)" "rg.obeys (handleSendGNBNGAP E k b1)"
  "rg.obeys (handleSendENBUES1AP E k u b2)" "rg.obeys (handleSendENBS1AP E k b3)"
  "rg.obeys (handleAwaitGNBUEMessage E k u b4)" "rg.obeys (handleAwaitGNBMessage k b5)"
  "rg.obeys (handleAwaitENBUEMessage E k u b4)" "rg.obeys (handleAwaitENBMessage k b5)"
  by (rule quiet_frames, rule frame_gnb_messages frame_enb_messages await_frames)+

lemma quiet_gtpu [quiet]:
  "rg.obeys (handleSendGNBUplink E k u b1)" "rg.obeys (handleAwaitGNBDownlink k u b2)"
  "rg.obeys (handleGetGNBTunnel k u v)" "rg.obeys (handleSendGNBGTPUEcho E k q)"
  "rg.obeys (handleAwaitGNBErrorIndication k i)"
  "rg.obeys (handleSendENBUplink E k u b3)" "rg.obeys (handleAwaitENBDownlink k u b4)"
  "rg.obeys (handleGetENBTunnel k u v)" "rg.obeys (handleSendENBGTPUEcho E k q)"
  "rg.obeys (handleAwaitENBErrorIndication k i)"
  by (rule quiet_frames, rule gtpu_frames)+

lemma quiet_reads [quiet]:
  "rg.obeys (find_gnb j)" "rg.obeys (find_enb j)" "rg.obeys (find_gnb_ue j u)" "rg.obeys (find_enb_ue j u)"
  "rg.obeys (parse_body b)"
proof -
  show "rg.obeys (find_gnb j)" "rg.obeys (find_enb j)" "rg.obeys (parse_body b)"
    by (simp_all add: rg.obeys_def find_gnb_def find_enb_def parse_body_def hand_basic)
  show "rg.obeys (find_gnb_ue j u)" "rg.obeys (find_enb_ue j u)"
    by (rule quiet_frames, rule frame_reads)+
qed

lemma quiet_patch:
  assumes "gnb_ue k u w \<noteq> None"
  shows "registry_of (w\<lparr> wStore := update_gnb k (set_ue u x) (wStore w) \<rparr>) = registry_of w"
  using assms
  by (auto simp: registry_of_update registry_of_def set_ue_def gnb_ue_def fun_eq_iff bind_eq_Some_conv insert_absorb domI
      intro!: registry.equality)

lemma quiet_patch_EPS:
  assumes "enb_ue k u w \<noteq> None"
  shows "registry_of (w\<lparr> wStore := update_enb k (set_ue_EPS u x) (wStore w) \<rparr>) = registry_of w"
  using assms
  by (auto simp: registry_of_update registry_of_def set_ue_EPS_def enb_ue_def fun_eq_iff bind_eq_Some_conv insert_absorb domI
      intro!: registry.equality)

lemma quiet_ue_op [quiet]: "rg.obeys (ue_op k u f)" "rg.obeys (ue_op_EPS k u f')"
  using quiet_patch [of k u] quiet_patch_EPS [of k u]
  by (auto simp: rg.obeys_def ue_op_def ue_op_EPS_def split: option.split prod.split)

lemma quiet_gets [quiet]:
  "rg.obeys (handleGetGNB k)" "rg.obeys (handleGetENB k)" "rg.obeys (handleGetGNBUE k u)" "rg.obeys (handleGetENBUE ord k u)"
  "rg.obeys (handlePatchGNBUE k u b)" "rg.obeys (handlePatchENBUE k u b')"
  unfolding handleGetGNB_def handleGetENB_def handleGetGNBUE_def handleGetENBUE_def handlePatchGNBUE_def handlePatchENBUE_def
  by (intro rg.rules quiet)+

lemma finish_quiet: "rg.obeys h \<Longrightarrow> finish h w = (s, w') \<Longrightarrow> registry_of w' = registry_of w"
  by (auto dest!: finishD dest: rg.obeysD)
section \<open>The steps\<close>

lemma finish_cases:
  assumes "finish h w = (s, w')"
  obtains (answered) n x where "h w = (Inr (n, x), w')" "s = Done n"
  | (refused) e where "h w = (Inl e, w')" "s = Refused (statusForError e)" "\<forall>p. e \<noteq> Panic p"
  | (aborted) p where "h w = (Inl (Panic p), w')" "s = Aborted"
proof -
  obtain r where r: "h w = (r, w')" "s = reply_of r" using assms finishD by blast
  show ?thesis
  proof (cases r)
    case (Inl e)
    then show ?thesis using r that(2,3) by (cases e) (auto simp: reply_of_def)
  next
    case (Inr y)
    then show ?thesis using r that(1) by (cases y) (auto simp: reply_of_def)
  qed
qed

text \<open>Creation.\<close>

lemma register_gnb_registry:
  "register_gnb req a t w = (Inr k, w1) \<Longrightarrow> registry_of w1 = (registry_of w)
     \<lparr> rgGNBs := (rgGNBs (registry_of w))(dec (Suc (nextID (wStore w))) \<mapsto> {}), rgNext := Suc (nextID (wStore w)) \<rparr>"
  by (auto simp: register_gnb_def CreateGNB_def NewGNBContext_def Let_def registry_of_def put_n2_def fun_eq_iff)

lemma register_enb_registry:
  "register_enb req a t w = (Inr k, w1) \<Longrightarrow> registry_of w1 = (registry_of w)
     \<lparr> rgENBs := (rgENBs (registry_of w))(dec (Suc (nextID (wStore w))) \<mapsto> {}), rgNext := Suc (nextID (wStore w)) \<rparr>"
  by (auto simp: register_enb_def CreateENB_def NewENBContext_def Let_def registry_of_def put_s1_def fun_eq_iff)

lemma quiet_listen: "rg.obeys (listen_gnb E k a)" "rg.obeys (listen_enb E k b)"
  unfolding listen_gnb_def listen_enb_def
  by (intro rg.rules rg.modify; auto simp: put_n3_def registry_of_def fun_eq_iff option.map_comp comp_def)+

lemma quiet_bring_up: "rg.obeys (bring_up_gnb E req a k)" "rg.obeys (bring_up_enb E req' d a k)"
  unfolding bring_up_gnb_def bring_up_enb_def
  by (intro rg.rules rg.choice quiet_listen quiet_frames(1) [OF obeys_ng_setup] quiet_frames(2) [OF obeys_s1_setup])+

lemma teardown_registry:
  "registry_of (teardownGNB E k w) = (registry_of w)\<lparr> rgGNBs := (rgGNBs (registry_of w))(k := None) \<rparr>"
  "registry_of (teardownENB E k w) = (registry_of w)\<lparr> rgENBs := (rgENBs (registry_of w))(k := None) \<rparr>"
  by (auto simp: teardownGNB_def teardownENB_def Let_def registry_of_def DeleteGNB_def DeleteENB_def put_n2_def put_n3_def
      put_s1_def close_n2_def close_n3_def close_s1_def fun_eq_iff)

lemma teardown_unless_panic:
  assumes "teardown_on_error td m w = (r, w')"
  shows "(\<exists>x. m w = (Inr x, w') \<and> r = Inr x) \<or> (\<exists>p. m w = (Inl (Panic p), w') \<and> r = Inl (Panic p)) \<or>
    (\<exists>e w1. m w = (Inl e, w1) \<and> r = Inl e \<and> (\<forall>p. e \<noteq> Panic p) \<and> w' = td w1)"
  using assms by (auto simp: teardown_on_error_def split: prod.splits sum.splits error.splits)

lemma bring_up_gnb_code: "bring_up_gnb E req a k w = (Inr (n, x), w') \<Longrightarrow> n = 201"
  by (auto simp: bring_up_gnb_def ng_setup_def hbind_eq_Inr hand_basic split: if_splits)

lemma s1_setup_code: "s1_setup E req d k w = (Inr (n, x), w') \<Longrightarrow> n = 201"
  by (auto simp: s1_setup_def hbind_def hand_basic split: if_splits prod.splits sum.splits)

lemma bring_up_enb_code: "bring_up_enb E req d a k w = (Inr (n, x), w') \<Longrightarrow> n = 201"
  by (auto simp: bring_up_enb_def hbind_eq_Inr dest: s1_setup_code)

lemma create_gnb_step:
  assumes i: "world_inv w" and q: "finish (handleCreateGNB E b) w = (s, w')"
  shows "creates s (rgGNBs (registry_of w)) (nextID (wStore w)) (rgGNBs (registry_of w')) (rgNext (registry_of w')) \<and>
    rgENBs (registry_of w') = rgENBs (registry_of w)"
proof -
  let ?k = "dec (Suc (nextID (wStore w)))"
  obtain r where r: "handleCreateGNB E b w = (r, w')" "s = reply_of r" using finishD [OF q] by blast
  have fresh: "rgGNBs (registry_of w) ?k = None" using inv_fresh [OF i] by (simp add: registry_of_def)
  have cnt: "rgNext (registry_of w) = nextID (wStore w)" by (simp add: registry_of_def)
  from handleCreateGNB_outcome [OF i r(1)] show ?thesis
  proof (elim disjE exE conjE)
    fix e assume "w' = w" "r = Inl e"
    then show ?thesis using r(2) cnt by (cases e) (simp_all add: creates_def reply_of_def)
  next
    fix req a t w1
    assume g: "register_gnb req a t w = (Inr ?k, w1)"
      and td: "teardown_on_error (teardownGNB E ?k) (bring_up_gnb E req a ?k) w1 = (r, w')"
    obtain v w2 where b: "bring_up_gnb E req a ?k w1 = (v, w2)" by fastforce
    have w2: "registry_of w2 = (registry_of w)\<lparr> rgGNBs := (rgGNBs (registry_of w))(?k \<mapsto> {}), rgNext := Suc (nextID (wStore w)) \<rparr>"
      using rg.obeysD [OF quiet_bring_up(1) b] register_gnb_registry [OF g] by simp
    from teardown_unless_panic [OF td] show ?thesis
    proof (elim disjE exE conjE)
      fix x assume x: "bring_up_gnb E req a ?k w1 = (Inr x, w')" "r = Inr x"
      then show ?thesis using w2 b r(2) bring_up_gnb_code [of E req a ?k w1 "fst x" "snd x" w']
        by (simp add: creates_def reply_of_def case_prod_beta)
    next
      fix e w3 assume x: "bring_up_gnb E req a ?k w1 = (Inl e, w3)" "r = Inl e" "\<forall>p. e \<noteq> Panic p" "w' = teardownGNB E ?k w3"
      then show ?thesis using w2 b r(2) fresh
        by (cases e) (simp_all add: creates_def reply_of_def teardown_registry fun_upd_idem)
    qed (use w2 b r(2) in \<open>simp add: creates_def reply_of_def\<close>)
  qed
qed

lemma create_enb_step:
  assumes i: "world_inv w" and q: "finish (handleCreateENB E b) w = (s, w')"
  shows "creates s (rgENBs (registry_of w)) (nextID (wStore w)) (rgENBs (registry_of w')) (rgNext (registry_of w')) \<and>
    rgGNBs (registry_of w') = rgGNBs (registry_of w)"
proof -
  let ?k = "dec (Suc (nextID (wStore w)))"
  obtain r where r: "handleCreateENB E b w = (r, w')" "s = reply_of r" using finishD [OF q] by blast
  have fresh: "rgENBs (registry_of w) ?k = None" using inv_fresh [OF i] by (simp add: registry_of_def)
  have cnt: "rgNext (registry_of w) = nextID (wStore w)" by (simp add: registry_of_def)
  from handleCreateENB_outcome [OF i r(1)] show ?thesis
  proof (elim disjE exE conjE)
    fix e assume "w' = w" "r = Inl e"
    then show ?thesis using r(2) cnt by (cases e) (simp_all add: creates_def reply_of_def)
  next
    fix req a t c w1
    assume g: "register_enb req a t w = (Inr ?k, w1)"
      and td: "teardown_on_error (teardownENB E ?k) (bring_up_enb E req c a ?k) w1 = (r, w')"
    obtain v w2 where b: "bring_up_enb E req c a ?k w1 = (v, w2)" by fastforce
    have w2: "registry_of w2 = (registry_of w)\<lparr> rgENBs := (rgENBs (registry_of w))(?k \<mapsto> {}), rgNext := Suc (nextID (wStore w)) \<rparr>"
      using rg.obeysD [OF quiet_bring_up(2) b] register_enb_registry [OF g] by simp
    from teardown_unless_panic [OF td] show ?thesis
    proof (elim disjE exE conjE)
      fix x assume x: "bring_up_enb E req c a ?k w1 = (Inr x, w')" "r = Inr x"
      then show ?thesis using w2 b r(2) bring_up_enb_code [of E req c a ?k w1 "fst x" "snd x" w']
        by (simp add: creates_def reply_of_def case_prod_beta)
    next
      fix e w3 assume x: "bring_up_enb E req c a ?k w1 = (Inl e, w3)" "r = Inl e" "\<forall>p. e \<noteq> Panic p" "w' = teardownENB E ?k w3"
      then show ?thesis using w2 b r(2) fresh
        by (cases e) (simp_all add: creates_def reply_of_def teardown_registry fun_upd_idem)
    qed (use w2 b r(2) in \<open>simp add: creates_def reply_of_def\<close>)
  qed
qed

text \<open>Deletion.\<close>

lemma delete_gnb_step:
  assumes i: "world_inv w" and q: "finish (handleDeleteGNB E k) w = (s, w')"
  shows "registry_of w' = (registry_of w)\<lparr> rgGNBs := (rgGNBs (registry_of w))(k := None) \<rparr> \<and>
    s = (if rgGNBs (registry_of w) k = None then Refused 404 else Done 204)"
proof -
  obtain r where r: "handleDeleteGNB E k w = (r, w')" "s = reply_of r" using finishD [OF q] by blast
  have "wStore w' = snd (DeleteGNB k (wStore w))"
    using r(1) by (auto simp: handleDeleteGNB_def hand_simps or_http_def hbind_def DeleteGNB_def put_n2_def put_n3_def
        close_n2_def close_n3_def http_error_def split: if_splits)
  then show ?thesis using r(2) deleted_gnb [OF i r(1)]
    by (auto simp: registry_of_def DeleteGNB_def reply_of_def statusForError_def fun_eq_iff)
qed

lemma delete_enb_step:
  assumes i: "world_inv w" and q: "finish (handleDeleteENB E k) w = (s, w')"
  shows "registry_of w' = (registry_of w)\<lparr> rgENBs := (rgENBs (registry_of w))(k := None) \<rparr> \<and>
    s = (if rgENBs (registry_of w) k = None then Refused 404 else Done 204)"
proof -
  obtain r where r: "handleDeleteENB E k w = (r, w')" "s = reply_of r" using finishD [OF q] by blast
  have "wStore w' = snd (DeleteENB k (wStore w))"
    using r(1) by (auto simp: handleDeleteENB_def hand_simps or_http_def hbind_def DeleteENB_def put_s1_def put_n3_def
        close_s1_def close_n3_def http_error_def split: if_splits)
  then show ?thesis using r(2) deleted_enb [OF i r(1)]
    by (auto simp: registry_of_def DeleteENB_def reply_of_def statusForError_def fun_eq_iff)
qed

text \<open>Creation and deletion of UEs.\<close>

lemma registry_at:
  "rgGNBs (registry_of w) k = map_option (\<lambda>g. dom (gues g)) (gnbs (wStore w) k)"
  "rgENBs (registry_of w) k = map_option (\<lambda>e. dom (eues e)) (enbs (wStore w) k)"
  by (simp_all add: registry_of_def)

lemma gnb_op_registry:
  assumes "gnb_op k f w = (r, w')" "\<And>g. h (dom (gues g)) = dom (gues (snd (f g)))"
  shows "registry_of w' = (registry_of w)\<lparr> rgGNBs := (rgGNBs (registry_of w))(k := map_option h (rgGNBs (registry_of w) k)) \<rparr>"
proof (cases "gnbs (wStore w) k")
  case None
  then show ?thesis using assms(1) by (auto simp: gnb_op_def registry_of_def fun_eq_iff)
next
  case (Some g)
  then have "w' = w\<lparr> wStore := update_gnb k (\<lambda>g. snd (f g)) (wStore w) \<rparr>" using assms(1) by (auto simp: gnb_op_def)
  then show ?thesis using Some assms(2) by (simp add: registry_of_update registry_at)
qed

lemma enb_op_registry:
  assumes "enb_op k f w = (r, w')" "\<And>e. h (dom (eues e)) = dom (eues (snd (f e)))"
  shows "registry_of w' = (registry_of w)\<lparr> rgENBs := (rgENBs (registry_of w))(k := map_option h (rgENBs (registry_of w) k)) \<rparr>"
proof (cases "enbs (wStore w) k")
  case None
  then show ?thesis using assms(1) by (auto simp: enb_op_def registry_of_def fun_eq_iff)
next
  case (Some e)
  then have "w' = w\<lparr> wStore := update_enb k (\<lambda>e. snd (f e)) (wStore w) \<rparr>" using assms(1) by (auto simp: enb_op_def)
  then show ?thesis using Some assms(2) by (simp add: registry_of_update registry_at)
qed

lemma UE_table_domains:
  "insert (uID x) (dom (gues g)) = dom (gues (CreateUE x g))" "insert (vID y) (dom (eues e)) = dom (eues (CreateUE_EPS y e))"
  "dom (gues g) - {u} = dom (gues (snd (DeleteUE u g)))" "dom (eues e) - {u} = dom (eues (snd (DeleteUE_EPS u e)))"
  "dom (gues (snd (AllocateRANUENGAPID g))) = dom (gues g)" "dom (eues (snd (AllocateENBUES1APID e))) = dom (eues e)"
  by (auto simp: CreateUE_def CreateUE_EPS_def DeleteUE_def DeleteUE_EPS_def AllocateRANUENGAPID_def AllocateENBUES1APID_def
      Let_def split: if_splits)

lemma quiet_table_op:
  "(\<And>g. dom (gues (snd (f g))) = dom (gues g)) \<Longrightarrow> rg.obeys (gnb_op k f)"
  "(\<And>e. dom (eues (snd (f' e))) = dom (eues e)) \<Longrightarrow> rg.obeys (enb_op k f')"
proof -
  show "(\<And>g. dom (gues (snd (f g))) = dom (gues g)) \<Longrightarrow> rg.obeys (gnb_op k f)"
    using gnb_op_registry [of k f _ _ _ "\<lambda>us. us"]
    by (intro rg.obeysI, drule_tac x = s in meta_spec) (simp add: option.map_ident prod_eq_iff)
  show "(\<And>e. dom (eues (snd (f' e))) = dom (eues e)) \<Longrightarrow> rg.obeys (enb_op k f')"
    using enb_op_registry [of k f' _ _ _ "\<lambda>us. us"]
    by (intro rg.obeysI, drule_tac x = s in meta_spec) (simp add: option.map_ident prod_eq_iff)
qed

lemma quiet_allocation [quiet]:
  "rg.obeys (gnb_op k (\<lambda>g. case AllocateRANUENGAPID g of (n, g') \<Rightarrow> (Inr n, g')))"
  "rg.obeys (enb_op k (\<lambda>e. case AllocateENBUES1APID e of (n, e') \<Rightarrow> (Inr n, e')))"
  by (rule quiet_table_op; simp add: case_prod_beta UE_table_domains(5,6))+

lemma hbind_assoc: "hbind (hbind m f) g = hbind m (\<lambda>x. hbind (f x) g)"
  by (rule ext) (simp add: hbind_app)

lemma create_gnb_ue_step:
  assumes q: "finish (handleCreateGNBUE E k b) w = (s, w')"
  shows "creates_ue k s (rgGNBs (registry_of w)) (rgGNBs (registry_of w')) \<and>
    registry_of w' = (registry_of w)\<lparr> rgGNBs := rgGNBs (registry_of w') \<rparr>"
proof -
  define pre where "pre = hbind (find_gnb k) (\<lambda>gnb. hbind (parse_body b) (\<lambda>req.
     hbind (hreq (cu_SUPI req \<noteq> []) (HTTPErr 400 ''supi is required'')) (\<lambda>_.
     hbind (hreq (cu_K req \<noteq> []) (HTTPErr 400 ''k is required'')) (\<lambda>_.
     hbind (hreq (cu_OPc req \<noteq> []) (HTTPErr 400 ''opc is required'')) (\<lambda>_.
     hbind (gnb_op k (\<lambda>g. case AllocateRANUENGAPID g of (n, g') \<Rightarrow> (Inr n, g'))) (\<lambda>ranUeNgapID.
     hlift (http_error 400 ''failed to create UE context''
              (NewUEContext (envSuci E) (envKeys E) (dec_int ranUeNgapID) ranUeNgapID (int (length (gMNC gnb)))
                 \<lparr> oSUPI = cu_SUPI req, oK = cu_K req, oOPc = cu_OPc req, oAMF = cu_AMF req, oSQN = cu_SQN req,
                   oSST = cu_SST req, oSD = cu_SD req, oDNN = cu_DNN req, oRoutingIndicator = cu_RoutingIndicator req,
                   oProtectionScheme = cu_ProtectionScheme req, oPublicKeyID = cu_PublicKeyID req,
                   oPublicKeyHex = cu_PublicKeyHex req, oPDUSessionID = cu_PDUSessionID req,
                   oPDUSessionType = cu_PDUSessionType req, oIMEISV = cu_IMEISV req,
                   oUESecurityCapability = cu_UESecurityCapability req \<rparr>))))))))"
  have split: "handleCreateGNBUE E k b w = hbind pre (\<lambda>ue. hbind (gnb_op k (\<lambda>g. (Inr (), CreateUE ue g))) (\<lambda>_.
       hret (201, \<lparr> cw_UEID = uID ue, cw_SUPI = uSUPI ue, cw_SUCI = uSuciString ue, cw_RANUENGAPID = uRANUENGAPID ue \<rparr>))) w"
    by (simp add: handleCreateGNBUE_def pre_def hbind_assoc)
  have "rg.obeys pre" unfolding pre_def by (intro rg.rules quiet)
  obtain r w1 where p: "pre w = (r, w1)" by fastforce
  from rg.obeysD [OF \<open>rg.obeys pre\<close> p] have w1: "registry_of w1 = registry_of w" .
  show ?thesis
  proof (cases r)
    case (Inl e)
    then have "handleCreateGNBUE E k b w = (Inl e, w1)" by (simp add: split hbind_stop [where m = pre, OF p [unfolded Inl]])
    with q w1 show ?thesis by (cases e) (auto simp: finish_def reply_of_def creates_ue_def)
  next
    case (Inr ue)
    obtain v w2 where c: "gnb_op k (\<lambda>g. (Inr (), CreateUE ue g)) w1 = (v, w2)" by fastforce
    from gnb_op_registry [OF c, of "insert (uID ue)"] w1
    have w2: "registry_of w2 = (registry_of w)\<lparr> rgGNBs := add_ue k (uID ue) (rgGNBs (registry_of w)) \<rparr>"
      by (simp add: UE_table_domains add_ue_def)
    show ?thesis
    proof (cases "gnbs (wStore w1) k")
      case None
      then have "v = nil_deref" "w2 = w1" using c by (simp_all add: gnb_op_def)
      with c q w1 show ?thesis
        by (auto simp: finish_def split p Inr hbind_def nil_deref_def reply_of_def creates_ue_def)
    next
      case (Some g)
      then have "rgGNBs (registry_of w) k \<noteq> None" unfolding w1 [symmetric] by (simp add: registry_at)
      moreover have "v = Inr ()" using c Some by (simp add: gnb_op_def)
      ultimately show ?thesis using c q w2
        by (auto simp: finish_def split p Inr hbind_def hand_basic reply_of_def creates_ue_def)
    qed
  qed
qed

lemma create_enb_ue_step:
  assumes q: "finish (handleCreateENBUE k b) w = (s, w')"
  shows "creates_ue k s (rgENBs (registry_of w)) (rgENBs (registry_of w')) \<and>
    registry_of w' = (registry_of w)\<lparr> rgENBs := rgENBs (registry_of w') \<rparr>"
proof -
  define pre where "pre = hbind (find_enb k) (\<lambda>_. hbind (parse_body b) (\<lambda>req.
     hbind (hreq (TrimPrefix (ceu_IMSI req) ''imsi-'' \<noteq> []) (HTTPErr 400 ''imsi is required'')) (\<lambda>_.
     hbind (enb_op k (\<lambda>e. case AllocateENBUES1APID e of (n, e') \<Rightarrow> (Inr n, e'))) (\<lambda>enbUES1APID.
     hlift (with_network_capability (ceu_UENetworkCapability req)
              (NewUEEPSContext (dec (unat enbUES1APID)) enbUES1APID
                 \<lparr> oeIMSI = TrimPrefix (ceu_IMSI req) ''imsi-'', oeIMEISV = ceu_IMEISV req, oeK = ceu_K req, oeOPc = ceu_OPc req,
                   oeAMF = ceu_AMF req, oeSQN = ceu_SQN req \<rparr>))))))"
  have split: "handleCreateENBUE k b w = hbind pre (\<lambda>ue. hbind (enb_op k (\<lambda>e. (Inr (), CreateUE_EPS ue e))) (\<lambda>_.
       hret (201, \<lparr> cev_UEID = vID ue, cev_IMSI = vIMSI ue, cev_ENBUES1APID = vENBUES1APID ue \<rparr>))) w"
    by (simp add: handleCreateENBUE_def pre_def hbind_assoc Let_def)
  have "rg.obeys pre" unfolding pre_def by (intro rg.rules quiet)
  obtain r w1 where p: "pre w = (r, w1)" by fastforce
  from rg.obeysD [OF \<open>rg.obeys pre\<close> p] have w1: "registry_of w1 = registry_of w" .
  show ?thesis
  proof (cases r)
    case (Inl e)
    then have "handleCreateENBUE k b w = (Inl e, w1)" by (simp add: split hbind_stop [where m = pre, OF p [unfolded Inl]])
    with q w1 show ?thesis by (cases e) (auto simp: finish_def reply_of_def creates_ue_def)
  next
    case (Inr ue)
    obtain v w2 where c: "enb_op k (\<lambda>e. (Inr (), CreateUE_EPS ue e)) w1 = (v, w2)" by fastforce
    from enb_op_registry [OF c, of "insert (vID ue)"] w1
    have w2: "registry_of w2 = (registry_of w)\<lparr> rgENBs := add_ue k (vID ue) (rgENBs (registry_of w)) \<rparr>"
      by (simp add: UE_table_domains add_ue_def)
    show ?thesis
    proof (cases "enbs (wStore w1) k")
      case None
      then have "v = nil_deref" "w2 = w1" using c by (simp_all add: enb_op_def)
      with c q w1 show ?thesis
        by (auto simp: finish_def split p Inr hbind_def nil_deref_def reply_of_def creates_ue_def)
    next
      case (Some e)
      then have "rgENBs (registry_of w) k \<noteq> None" unfolding w1 [symmetric] by (simp add: registry_at)
      moreover have "v = Inr ()" using c Some by (simp add: enb_op_def)
      ultimately show ?thesis using c q w2
        by (auto simp: finish_def split p Inr hbind_def hand_basic reply_of_def creates_ue_def)
    qed
  qed
qed

lemma no_ue_removed: "\<not> has_ue k u m \<Longrightarrow> remove_ue k u m = m"
  by (auto simp: has_ue_def remove_ue_def fun_upd_idem_iff split: option.splits)

lemma http_refused: "statusForError (HTTPErr n m) = n"
  by (simp add: statusForError_def)

lemma delete_gnb_ue_step:
  assumes q: "finish (handleDeleteGNBUE k u) w = (s, w')"
  shows "registry_of w' = (registry_of w)\<lparr> rgGNBs := remove_ue k u (rgGNBs (registry_of w)) \<rparr> \<and>
    s = (if has_ue k u (rgGNBs (registry_of w)) then Done 204 else Refused 404)"
proof (cases "gnbs (wStore w) k")
  case None
  then have "\<not> has_ue k u (rgGNBs (registry_of w))" by (simp add: has_ue_def registry_at)
  then show ?thesis using q None
    by (auto simp: finish_def handleDeleteGNBUE_def find_gnb_def GetGNB_def hbind_def http_error_simps reply_of_def
        http_refused no_ue_removed)
next
  case (Some g)
  let ?f = "\<lambda>g. case DeleteUE u g of (ok, g') \<Rightarrow> (Inr ok :: bool result, g')"
  obtain v w1 where c: "gnb_op k ?f w = (v, w1)" by fastforce
  have r: "registry_of w1 = (registry_of w)\<lparr> rgGNBs := remove_ue k u (rgGNBs (registry_of w)) \<rparr>"
    using gnb_op_registry [OF c, of "\<lambda>us. us - {u}"] by (simp add: case_prod_beta UE_table_domains remove_ue_def)
  have v: "v = Inr (has_ue k u (rgGNBs (registry_of w)))"
    using c Some by (auto simp: gnb_op_def DeleteUE_def has_ue_def registry_at split: if_splits)
  show ?thesis using q c r v Some
    by (auto simp: finish_def handleDeleteGNBUE_def find_gnb_def GetGNB_def hbind_def http_error_simps reply_of_def
        http_refused hand_basic hreq_def)
qed

lemma delete_enb_ue_step:
  assumes q: "finish (handleDeleteENBUE k u) w = (s, w')"
  shows "registry_of w' = (registry_of w)\<lparr> rgENBs := remove_ue k u (rgENBs (registry_of w)) \<rparr> \<and>
    s = (if has_ue k u (rgENBs (registry_of w)) then Done 204 else Refused 404)"
proof (cases "enbs (wStore w) k")
  case None
  then have "\<not> has_ue k u (rgENBs (registry_of w))" by (simp add: has_ue_def registry_at)
  then show ?thesis using q None
    by (auto simp: finish_def handleDeleteENBUE_def find_enb_def GetENB_def hbind_def http_error_simps reply_of_def
        http_refused no_ue_removed)
next
  case (Some e)
  let ?f = "\<lambda>e. case DeleteUE_EPS u e of (ok, e') \<Rightarrow> (Inr ok :: bool result, e')"
  obtain v w1 where c: "enb_op k ?f w = (v, w1)" by fastforce
  have r: "registry_of w1 = (registry_of w)\<lparr> rgENBs := remove_ue k u (rgENBs (registry_of w)) \<rparr>"
    using enb_op_registry [OF c, of "\<lambda>us. us - {u}"] by (simp add: case_prod_beta UE_table_domains remove_ue_def)
  have v: "v = Inr (has_ue k u (rgENBs (registry_of w)))"
    using c Some by (auto simp: enb_op_def DeleteUE_EPS_def has_ue_def registry_at split: if_splits)
  show ?thesis using q c r v Some
    by (auto simp: finish_def handleDeleteENBUE_def find_enb_def GetENB_def hbind_def http_error_simps reply_of_def
        http_refused hand_basic hreq_def)
qed

text \<open>Migration.\<close>

lemma dom_eq_UE: "gues g u \<noteq> None \<Longrightarrow> u \<in> dom (gues g)" "eues e u \<noteq> None \<Longrightarrow> u \<in> dom (eues e)"
  by auto

lemma registry_of_CreateUE:
  "registry_of (w\<lparr> wStore := update_gnb j (CreateUE x) (wStore w) \<rparr>) =
     (registry_of w)\<lparr> rgGNBs := add_ue j (uID x) (rgGNBs (registry_of w)) \<rparr>"
  "registry_of (w\<lparr> wStore := update_enb j (CreateUE_EPS y) (wStore w) \<rparr>) =
     (registry_of w)\<lparr> rgENBs := add_ue j (vID y) (rgENBs (registry_of w)) \<rparr>"
  unfolding registry_of_update add_ue_def registry_at
  by (simp_all add: UE_table_domains(1-4) [symmetric] option.map_comp comp_def)

lemma registry_of_DeleteUE:
  "registry_of (w\<lparr> wStore := update_gnb j (\<lambda>g. snd (DeleteUE u g)) (wStore w) \<rparr>) =
     (registry_of w)\<lparr> rgGNBs := remove_ue j u (rgGNBs (registry_of w)) \<rparr>"
  "registry_of (w\<lparr> wStore := update_enb j (\<lambda>e. snd (DeleteUE_EPS u e)) (wStore w) \<rparr>) =
     (registry_of w)\<lparr> rgENBs := remove_ue j u (rgENBs (registry_of w)) \<rparr>"
  unfolding registry_of_update remove_ue_def registry_at
  by (simp_all add: UE_table_domains(1-4) [symmetric] option.map_comp comp_def)

lemma migrate_registry:
  "registry_of (w\<lparr> wStore := MigrateUE k j ue r a (wStore w) \<rparr>) =
     (registry_of w)\<lparr> rgGNBs := add_ue j (uID ue) (remove_ue k (uID ue) (rgGNBs (registry_of w))) \<rparr>"
  using registry_of_CreateUE(1) [where w = "w\<lparr> wStore := update_gnb k (\<lambda>g. snd (DeleteUE (uID ue) g)) (wStore w) \<rparr>" and j = j and x = "migrated r a ue"]
  unfolding MigrateUE_migrated registry_of_DeleteUE
  by (simp add: migrated_id del: update_gnb_simps)

lemma migrate_registry_EPS:
  "registry_of (w\<lparr> wStore := MigrateUE_EPS k j v m e (wStore w) \<rparr>) =
     (registry_of w)\<lparr> rgENBs := add_ue j (vID v) (remove_ue k (vID v) (rgENBs (registry_of w))) \<rparr>"
proof -
  obtain z where z: "vID z = vID v" "MigrateUE_EPS k j v m e (wStore w) =
      update_enb j (CreateUE_EPS z) (update_enb k (\<lambda>x. snd (DeleteUE_EPS (vID v) x)) (wStore w))"
    using MigrateUE_EPS_updates by blast
  show ?thesis
    using registry_of_CreateUE(2) [where w = "w\<lparr> wStore := update_enb k (\<lambda>g. snd (DeleteUE_EPS (vID v) g)) (wStore w) \<rparr>" and j = j and y = z]
    unfolding z(2) registry_of_DeleteUE by (simp add: z(1) del: update_enb_simps)
qed

lemma migrate_gnb_step:
  assumes i: "world_inv w" and q: "finish (handleMigrateGNBUE k u b) w = (s, w')"
  shows "moves_ue k u (case b of Inr req \<Rightarrow> Some (mg_TargetGNBID req) | Inl e \<Rightarrow> None) s
      (rgGNBs (registry_of w)) (rgGNBs (registry_of w')) \<and>
    registry_of w' = (registry_of w)\<lparr> rgGNBs := rgGNBs (registry_of w') \<rparr>"
proof -
  obtain r where r: "handleMigrateGNBUE k u b w = (r, w')" "s = reply_of r" using finishD [OF q] by blast
  from migrate_gnb_outcome [OF r(1)] show ?thesis
  proof (elim disjE exE conjE)
    fix e assume "w' = w" "r = Inl e"
    then show ?thesis using r(2) by (cases e) (simp_all add: moves_ue_def reply_of_def)
  next
    fix req g t ue x
    assume h: "b = Inr req" "r = Inr (200, x)" "gnbs (wStore w) k = Some g" "gues g u = Some ue"
      "gnbs (wStore w) (mg_TargetGNBID req) = Some t"
      and w': "w' = w\<lparr> wStore := MigrateUE k (mg_TargetGNBID req) ue (mg_RANUENGAPID req) (mg_AMFUENGAPID req) (wStore w) \<rparr>"
    have "uID ue = u" using i h(3,4) by (auto simp: world_inv_def intro: keyed_at(1))
    then have "registry_of w' = (registry_of w)\<lparr> rgGNBs := add_ue (mg_TargetGNBID req) u (remove_ue k u (rgGNBs (registry_of w))) \<rparr>"
      unfolding w' by (simp add: migrate_registry)
    moreover have "has_ue k u (rgGNBs (registry_of w))" "rgGNBs (registry_of w) (mg_TargetGNBID req) \<noteq> None"
      using h by (auto simp: has_ue_def registry_at)
    ultimately show ?thesis using r(2) h(1,2) by (simp add: moves_ue_def reply_of_def)
  qed
qed

lemma migrate_enb_step:
  assumes i: "world_inv w" and q: "finish (handleMigrateENBUE k u b) w = (s, w')"
  shows "moves_ue k u (case b of Inr req \<Rightarrow> Some (me_TargetENBID req) | Inl e \<Rightarrow> None) s
      (rgENBs (registry_of w)) (rgENBs (registry_of w')) \<and>
    registry_of w' = (registry_of w)\<lparr> rgENBs := rgENBs (registry_of w') \<rparr>"
proof -
  obtain r where r: "handleMigrateENBUE k u b w = (r, w')" "s = reply_of r" using finishD [OF q] by blast
  from migrate_enb_outcome [OF r(1)] show ?thesis
  proof (elim disjE exE conjE)
    fix e assume "w' = w" "r = Inl e"
    then show ?thesis using r(2) by (cases e) (simp_all add: moves_ue_def reply_of_def)
  next
    fix req g t ue x
    assume h: "b = Inr req" "r = Inr (200, x)" "enbs (wStore w) k = Some g" "eues g u = Some ue"
      "enbs (wStore w) (me_TargetENBID req) = Some t"
      and w': "w' = w\<lparr> wStore := MigrateUE_EPS k (me_TargetENBID req) ue (me_MMEUES1APID req) (me_ENBUES1APID req) (wStore w) \<rparr>"
    have "vID ue = u" using i h(3,4) by (auto simp: world_inv_def intro: keyed_at(2))
    then have "registry_of w' = (registry_of w)\<lparr> rgENBs := add_ue (me_TargetENBID req) u (remove_ue k u (rgENBs (registry_of w))) \<rparr>"
      unfolding w' by (simp add: migrate_registry_EPS)
    moreover have "has_ue k u (rgENBs (registry_of w))" "rgENBs (registry_of w) (me_TargetENBID req) \<noteq> None"
      using h by (auto simp: has_ue_def registry_at)
    ultimately show ?thesis using r(2) h(1,2) by (simp add: moves_ue_def reply_of_def)
  qed
qed

section \<open>The refinement\<close>

lemma same_registry:
  "registry_of w' = (registry_of w)\<lparr> rgGNBs := m \<rparr> \<Longrightarrow> rgENBs (registry_of w') = rgENBs (registry_of w) \<and>
     rgNext (registry_of w') = rgNext (registry_of w)"
  "registry_of v' = (registry_of v)\<lparr> rgENBs := m' \<rparr> \<Longrightarrow> rgGNBs (registry_of v') = rgGNBs (registry_of v) \<and>
     rgNext (registry_of v') = rgNext (registry_of v)"
  by simp_all

lemma rgNext_nextID: "nextID (wStore w) = rgNext (registry_of w)"
  by (simp add: registry_of_def)

lemma serve_gnb_refines:
  assumes i: "world_inv w" and q: "serve_gnb E q w = (s, w')"
  shows "registry_step (OnGNB q) s (registry_of w) (registry_of w')"
proof (cases q)
  case (GCreate b)
  then show ?thesis using create_gnb_step [OF i, of E b s w'] q by (simp add: rgNext_nextID)
next
  case (GDelete k)
  then show ?thesis using delete_gnb_step [OF i, of E k s w'] q by (simp add: deletes_def)
next
  case (GCreateUE k b)
  then have f: "finish (handleCreateGNBUE E k b) w = (s, w')" using q by simp
  note m = create_gnb_ue_step [OF f]
  show ?thesis using conjunct1 [OF m] same_registry(1) [OF conjunct2 [OF m]] by (simp add: GCreateUE)
next
  case (GDeleteUE k u)
  then show ?thesis using delete_gnb_ue_step [of k u w s w'] q by (simp add: deletes_ue_def)
next
  case (GMigrateUE k u b)
  then have f: "finish (handleMigrateGNBUE k u b) w = (s, w')" using q by simp
  note m = migrate_gnb_step [OF i f]
  show ?thesis using conjunct1 [OF m] same_registry(1) [OF conjunct2 [OF m]] by (simp add: GMigrateUE)
qed (use q in \<open>auto dest!: finish_quiet [rotated] intro: quiet\<close>)

lemma serve_enb_refines:
  assumes i: "world_inv w" and q: "serve_enb E q w = (s, w')"
  shows "registry_step (OnENB q) s (registry_of w) (registry_of w')"
proof (cases q)
  case (ECreate b)
  then show ?thesis using create_enb_step [OF i, of E b s w'] q by (simp add: rgNext_nextID)
next
  case (EDelete k)
  then show ?thesis using delete_enb_step [OF i, of E k s w'] q by (simp add: deletes_def)
next
  case (ECreateUE k b)
  then have f: "finish (handleCreateENBUE k b) w = (s, w')" using q by simp
  note m = create_enb_ue_step [OF f]
  show ?thesis using conjunct1 [OF m] same_registry(2) [OF conjunct2 [OF m]] by (simp add: ECreateUE)
next
  case (EDeleteUE k u)
  then show ?thesis using delete_enb_ue_step [of k u w s w'] q by (simp add: deletes_ue_def)
next
  case (EMigrateUE k u b)
  then have f: "finish (handleMigrateENBUE k u b) w = (s, w')" using q by simp
  note m = migrate_enb_step [OF i f]
  show ?thesis using conjunct1 [OF m] same_registry(2) [OF conjunct2 [OF m]] by (simp add: EMigrateUE)
qed (use q in \<open>auto dest!: finish_quiet [rotated] intro: quiet\<close>)

text \<open>C1. The server refines the registry: whatever state it has got into, each request takes the registry of its nodes
  and UEs through a step of the specification, with the answer the specification gives.  So a creation that is
  answered 201 adds one empty node under the next identifier and one that is refused adds none, a deletion removes
  exactly the node or the UE it names and is refused with 404 when there is none, a migration moves one UE, and
  the rest of the interface changes nothing of it.\<close>

theorem server_refines_registry:
  assumes "api_reachable Es w" "serve E q w = (s, w')"
  shows "registry_step q s (registry_of w) (registry_of w')"
  using assms serve_gnb_refines serve_enb_refines reachable_inv by (cases q) fastforce+

theorem server_refines_registry_witness:
  "\<exists>w'. registry_step (OnGNB (GDelete ''1'')) (Done 204) (registry_of sample_reached) (registry_of (w' :: world)) \<and>
     rgGNBs (registry_of w') ''1'' = None"
proof -
  obtain s w' where w: "serve (sample_env sample_pdu) (OnGNB (GDelete ''1'')) sample_reached = (s, w')" by fastforce
  note r = server_refines_registry [OF sample_reached w]
  moreover have "rgGNBs (registry_of sample_reached) ''1'' \<noteq> None"
    using sample_reached_gnb by (simp add: registry_at)
  ultimately show ?thesis by (intro exI [of _ w']) (simp add: deletes_def)
qed

end
