(* ===== verification/Api_Wait.thy ===== *)
theory Api_Wait
  imports Api_Server
begin

text \<open>
  How long a request takes.  The only operation that blocks is a wait on a link, and a wait ends with the first
  deadline of its script.  \<open>costs n h\<close> says that \<open>h\<close> waits at most \<open>n\<close> times, that it reads events only of the
  links it waits on, and that it sits through at most one deadline for each wait.  Costs add up along a sequence
  and the larger branch of a choice counts, so the cost of a handler is computed from its text.
\<close>

section \<open>Costs\<close>

definition takes :: "nat \<Rightarrow> world \<Rightarrow> world \<Rightarrow> bool" where
  "takes n w w' = (\<exists>ws. wWaits w' = wWaits w @ ws \<and> length ws \<le> n \<and>
     (\<forall>l. \<exists>ds. wEvents w l = ds @ wEvents w' l \<and> count_list ds Deadline \<le> length ws \<and> (l \<notin> fst ` set ws \<longrightarrow> ds = [])))"

definition costs :: "nat \<Rightarrow> (world, 'a) hand \<Rightarrow> bool" where
  "costs n h = (\<forall>w. takes n w (snd (h w)))"

named_theorems cost_rules "what a handler costs"

lemma takes_none: "wWaits w' = wWaits w \<Longrightarrow> wEvents w' = wEvents w \<Longrightarrow> takes 0 w w'"
  by (simp add: takes_def)

lemma takes_le: "takes n w w' \<Longrightarrow> n \<le> m \<Longrightarrow> takes m w w'"
  unfolding takes_def by (meson le_trans)

lemma takes_trans:
  assumes "takes a w1 w2" "takes b w2 w3"
  shows "takes (a + b) w1 w3"
proof -
  from assms(1) obtain ws where ws: "wWaits w2 = wWaits w1 @ ws" "length ws \<le> a" and
    e: "\<forall>l. \<exists>ds. wEvents w1 l = ds @ wEvents w2 l \<and> count_list ds Deadline \<le> length ws \<and> (l \<notin> fst ` set ws \<longrightarrow> ds = [])"
    unfolding takes_def by blast
  from assms(2) obtain vs where vs: "wWaits w3 = wWaits w2 @ vs" "length vs \<le> b" and
    f: "\<forall>l. \<exists>ds. wEvents w2 l = ds @ wEvents w3 l \<and> count_list ds Deadline \<le> length vs \<and> (l \<notin> fst ` set vs \<longrightarrow> ds = [])"
    unfolding takes_def by blast
  have "\<exists>ds. wEvents w1 l = ds @ wEvents w3 l \<and> count_list ds Deadline \<le> length (ws @ vs) \<and>
      (l \<notin> fst ` set (ws @ vs) \<longrightarrow> ds = [])" for l
  proof -
    from e obtain ds where ds: "wEvents w1 l = ds @ wEvents w2 l" "count_list ds Deadline \<le> length ws"
      "l \<notin> fst ` set ws \<longrightarrow> ds = []" by blast
    from f obtain es where es: "wEvents w2 l = es @ wEvents w3 l" "count_list es Deadline \<le> length vs"
      "l \<notin> fst ` set vs \<longrightarrow> es = []" by blast
    show ?thesis using ds es by (intro exI [of _ "ds @ es"]) auto
  qed
  then show ?thesis unfolding takes_def using ws vs by (intro exI [of _ "ws @ vs"]) simp
qed

lemma costs_le: "costs n h \<Longrightarrow> n \<le> m \<Longrightarrow> costs m h"
  unfolding costs_def by (blast intro: takes_le)

lemma costs_pure [cost_rules]: "costs 0 (hret x)" "costs 0 (hfail e)" "costs 0 (hget f)" "costs 0 (hlift r)" "costs 0 (hreq b e)"
  by (simp_all add: costs_def hand_basic hreq_def takes_none)

lemma costs_bind [cost_rules]: "costs a m \<Longrightarrow> (\<And>x. costs b (f x)) \<Longrightarrow> costs (a + b) (hbind m f)"
  unfolding costs_def
proof (rule allI)
  fix w
  assume m: "\<forall>w. takes a w (snd (m w))" and f: "\<And>x. \<forall>w. takes b w (snd (f x w))"
  obtain r v where v: "m w = (r, v)" by fastforce
  with m have t: "takes a w v" by (metis snd_conv)
  show "takes (a + b) w (snd (hbind m f w))"
  proof (cases r)
    case (Inl e)
    then show ?thesis using v t by (simp add: hbind_stop takes_le [OF t])
  next
    case (Inr x)
    then show ?thesis using v takes_trans [OF t f [rule_format]] by (simp add: hbind_step)
  qed
qed

lemma costs_try [cost_rules]: "costs a m \<Longrightarrow> costs a (htry m)"
  by (simp add: costs_def)

lemma costs_or_http [cost_rules]: "costs a m \<Longrightarrow> costs a (or_http n s m)"
  by (simp add: costs_def or_http_def case_prod_beta)

lemma costs_max: "costs a h \<Longrightarrow> costs (max a b) h" "costs b h \<Longrightarrow> costs (max a b) h"
  by (auto intro: costs_le)

lemma costs_cases [cost_rules]:
  "costs a m \<Longrightarrow> costs b n \<Longrightarrow> costs (max a b) (if c then m else n)"
  "costs a m \<Longrightarrow> (\<And>x. costs b (f x)) \<Longrightarrow> costs (max a b) (case v of None \<Rightarrow> m | Some x \<Rightarrow> f x)"
  "(\<And>e. costs a (h e)) \<Longrightarrow> (\<And>x. costs b (k x)) \<Longrightarrow> costs (max a b) (case s of Inl e \<Rightarrow> h e | Inr x \<Rightarrow> k x)"
  "(\<And>x y. costs a (p x y)) \<Longrightarrow> costs a (case q of (x, y) \<Rightarrow> p x y)"
  "costs a m \<Longrightarrow> (\<And>x xs. costs b (l x xs)) \<Longrightarrow> costs (max a b) (case z of [] \<Rightarrow> m | x # xs \<Rightarrow> l x xs)"
  "(\<And>x. costs a (g x)) \<Longrightarrow> costs a (let x = t in g x)"
  by (auto split: option.split sum.split prod.split list.split intro: costs_max)

lemma costs_recover [cost_rules]: "costs a m \<Longrightarrow> (\<And>e. costs b (h e)) \<Longrightarrow> costs (a + b) (on_error m h)"
  unfolding on_error_def
  by (rule costs_bind, erule costs_try) (auto split: sum.split intro: costs_le costs_pure)

section \<open>The steps\<close>

lemma costs_state [cost_rules]:
  "costs 0 (find_gnb k)" "costs 0 (find_enb k)" "costs 0 (the_or n m v)" "costs 0 (parse_body b)" "costs 0 (on_store f)"
  "costs 0 (find_n2 k)" "costs 0 (find_s1 k)" "costs 0 (find_n3 k)"
  by (simp_all add: costs_def find_gnb_def find_enb_def the_or_def parse_body_def on_store_def find_n2_def find_s1_def
      find_n3_def hand_basic takes_none)

lemma costs_objects [cost_rules]:
  "costs 0 (ue_op k u f1)" "costs 0 (ue_op_EPS k u f2)" "costs 0 (gnb_op k f3)" "costs 0 (enb_op k f4)" "costs 0 (n3_do k f5)"
  "costs 0 (n2_send E k d b)" "costs 0 (s1_send E k d b)"
  by (simp_all add: costs_def ue_op_def ue_op_EPS_def gnb_op_def enb_op_def n3_do_def n2_send_def s1_send_def takes_none
      split: option.split prod.split)

lemma wait_loop_deadlines:
  "wait_loop scan recv e evs b = (r, b', evs') \<Longrightarrow> \<exists>ds. evs = ds @ evs' \<and> count_list ds Deadline \<le> 1"
proof (induction evs arbitrary: b)
  case Nil
  then show ?case by (auto split: option.splits prod.splits)
next
  case (Cons ev evs)
  show ?case
  proof (cases ev)
    case (Arrive ds)
    show ?thesis
    proof (cases "scan b")
      case None
      then obtain es where "evs = es @ evs'" "count_list es Deadline \<le> 1"
        using Cons.IH [of "fold recv ds b"] Cons.prems Arrive by auto
      then show ?thesis using Arrive by (intro exI [of _ "Arrive ds # es"]) simp
    qed (use Cons.prems Arrive in auto)
  next
    case Deadline
    with Cons.prems have "evs' = evs \<or> evs' = ev # evs" by (auto split: option.splits prod.splits)
    then show ?thesis
    proof
      assume "evs' = evs"
      then show ?thesis using Deadline by (intro exI [of _ "[Deadline]"]) simp
    qed (intro exI [of _ "[]"], simp)
  qed
qed

definition one_deadline :: "(net_event list \<Rightarrow> 'b \<Rightarrow> 'm result \<times> 'b \<times> net_event list) \<Rightarrow> bool" where
  "one_deadline wait = (\<forall>evs b. \<exists>ds. evs = ds @ snd (snd (wait evs b)) \<and> count_list ds Deadline \<le> 1)"

lemma one_deadline_loop: "one_deadline (\<lambda>evs. wait_loop scan recv e evs)"
  unfolding one_deadline_def by (intro allI, rule wait_loop_deadlines) (simp add: prod_eq_iff)

lemma one_deadline_waits:
  "one_deadline (WaitForMessageMatching f types)" "one_deadline (WaitForDownlink teid)" "one_deadline (WaitForControl c)"
  using one_deadline_loop
  by (simp_all add: one_deadline_def WaitForMessageMatching_loop WaitForDownlink_def WaitForControl_def)

lemma one_deadline_timed: "one_deadline wait \<Longrightarrow> one_deadline (timed d wait)"
  by (auto simp: one_deadline_def timed_def case_prod_beta)

lemma takes_wait:
  assumes "one_deadline wait" "timed d wait (wEvents w l) b = (r, b', evs)"
    and "wEvents w' = (wEvents w)(l := evs)" "wWaits w' = wWaits w @ [(l, d)]"
  shows "takes 1 w w'"
proof -
  from one_deadline_timed [OF assms(1), of d] assms(2)
  obtain ds where "wEvents w l = ds @ evs" "count_list ds Deadline \<le> 1" unfolding one_deadline_def by (metis snd_conv)
  then show ?thesis unfolding takes_def using assms(3,4) by (intro exI [of _ "[(l, d)]"]) auto
qed

lemma costs_waits [cost_rules]: "costs 1 (n2_wait k f d ts)" "costs 1 (s1_wait k g d ts)"
proof -
  show "costs 1 (n2_wait k f d ts)" unfolding costs_def
  proof (rule allI)
    fix w
    show "takes 1 w (snd (n2_wait k f d ts w))"
      using takes_le [OF takes_none, of w w 1] takes_wait [OF one_deadline_waits(1) [of f ts], where d = d and w = w and l = "N2 k"]
      by (auto simp: n2_wait_def split: option.split prod.split)
  qed
  show "costs 1 (s1_wait k g d ts)" unfolding costs_def
  proof (rule allI)
    fix w
    show "takes 1 w (snd (s1_wait k g d ts w))"
      using takes_le [OF takes_none, of w w 1] takes_wait [OF one_deadline_waits(1) [of g ts], where d = d and w = w and l = "S1 k"]
      by (auto simp: s1_wait_def split: option.split prod.split)
  qed
qed

lemma costs_n3_wait: "one_deadline wait \<Longrightarrow> costs 1 (n3_wait k d wait)"
  unfolding costs_def
proof (rule allI)
  fix w
  assume "one_deadline wait"
  then show "takes 1 w (snd (n3_wait k d wait w))"
    using takes_le [OF takes_none, of w w 1] takes_wait [where wait = wait and d = d and w = w and l = "N3 k"]
    by (auto simp: n3_wait_def split: option.split prod.split)
qed

lemmas costs_n3_waits [cost_rules] = one_deadline_waits(2,3) [THEN costs_n3_wait]

lemma costs_error_cases [cost_rules]:
  "(\<And>p. costs a (f p)) \<Longrightarrow> (\<And>s. costs b (g s)) \<Longrightarrow> (\<And>s e. costs c (h s e)) \<Longrightarrow> (\<And>s. costs d (i s)) \<Longrightarrow>
     (\<And>n s. costs e (j n s)) \<Longrightarrow>
   costs (max a (max b (max c (max d e))))
     (case v of Panic p \<Rightarrow> f p | Errorf s \<Rightarrow> g s | Wrapf s e \<Rightarrow> h s e | Sentinel s \<Rightarrow> i s | HTTPErr n s \<Rightarrow> j n s)"
  by (cases v; simp; meson costs_max)

lemma costs_combinators [cost_rules]:
  "costs a m1 \<Longrightarrow> costs a (raw_or r m1)" "costs a m2 \<Longrightarrow> costs a (raw_nas_or r m2)"
  "costs a m3 \<Longrightarrow> costs a (answer_or_empty m3)" "costs a m4 \<Longrightarrow> costs a (tolerant m4)"
  "costs a m5 \<Longrightarrow> costs a (with_status m5)"
proof -
  show "costs a m1 \<Longrightarrow> costs a (raw_or r m1)" "costs a m2 \<Longrightarrow> costs a (raw_nas_or r m2)"
    unfolding raw_or_def raw_nas_or_def by (auto split: option.split intro: costs_le costs_pure)
  show "costs a m3 \<Longrightarrow> costs a (answer_or_empty m3)" "costs a m4 \<Longrightarrow> costs a (tolerant m4)"
    unfolding answer_or_empty_def tolerant_def
    by (rule costs_le, (erule costs_bind [OF costs_try], rule cost_rules, (rule cost_rules)+), simp)+
  show "costs a m5 \<Longrightarrow> costs a (with_status m5)"
    by (auto simp: costs_def with_status_def split: prod.split sum.split error.split) (metis snd_conv)+
qed

lemma costs_modify: "(\<And>w. wWaits (f w) = wWaits w \<and> wEvents (f w) = wEvents w) \<Longrightarrow> costs 0 (hmod f)"
  by (simp add: costs_def hand_basic takes_none)

lemma costs_listen [cost_rules]: "costs 0 (listen_gnb E k a)" "costs 0 (listen_enb E k b)"
  unfolding listen_gnb_def listen_enb_def
  by (rule costs_le, (rule cost_rules costs_modify | simp add: put_n3_def)+)+

section \<open>Lifecycle\<close>

lemma costs_node [cost_rules]:
  "costs 1 (ng_setup E req0 k)" "costs 0 (handleGetGNB k)" "costs 1 (s1_setup E req2 encoded2 k)"
  "costs 0 (handleGetENB k)"
  unfolding ng_setup_def handleGetGNB_def s1_setup_def handleGetENB_def
  by (rule costs_le, (rule cost_rules)+, simp)+

lemma costs_node_further [cost_rules]:
  "costs 1 (bring_up_gnb E req0 localAddr0 k)" "costs 1 (bring_up_enb E req1 encoded1 localAddr1 k)"
  unfolding bring_up_gnb_def bring_up_enb_def
  by (rule costs_le, (rule cost_rules)+, simp)+

section \<open>UEs and waiting\<close>

lemma costs_ue [cost_rules]:
  "costs 0 (find_gnb_ue k u)" "costs 0 (find_enb_ue k u)" "costs 0 (handleCreateGNBUE E k body2)"
  "costs 0 (handleDeleteGNBUE k u)" "costs 1 (handleAwaitGNBMessage k body4)" "costs 0 (handleCreateENBUE k body5)"
  "costs 0 (handleDeleteENBUE k u)" "costs 1 (handleAwaitENBMessage k body7)"
  unfolding find_gnb_ue_def find_enb_ue_def handleCreateGNBUE_def handleDeleteGNBUE_def handleAwaitGNBMessage_def
    handleCreateENBUE_def handleDeleteENBUE_def handleAwaitENBMessage_def
  by (rule costs_le, (rule cost_rules)+, simp)+

lemma costs_ue_further [cost_rules]:
  "costs 0 (handleGetGNBUE k u)" "costs 0 (handlePatchGNBUE k u body1)"
  "costs 1 (handleAwaitGNBUEMessage E k u body2)" "costs 0 (handleGetENBUE order3 k u)"
  "costs 0 (handlePatchENBUE k u body4)" "costs 1 (handleAwaitENBUEMessage E k u body5)"
  unfolding handleGetGNBUE_def handlePatchGNBUE_def handleAwaitGNBUEMessage_def handleGetENBUE_def
    handlePatchENBUE_def handleAwaitENBUEMessage_def
  by (rule costs_le, (rule cost_rules)+, simp)+

section \<open>User plane\<close>

lemma costs_gtpu [cost_rules]:
  "costs 0 (gnbGTPU k u pduSessionID0)" "costs 1 (handleSendGNBGTPUEcho E k req1)"
  "costs 1 (handleAwaitGNBErrorIndication k timeoutMs2)" "costs 0 (enbGTPU k u)"
  "costs 1 (handleSendENBGTPUEcho E k req4)" "costs 1 (handleAwaitENBErrorIndication k timeoutMs5)"
  "costs 0 (handleGetENBTunnel k u v6)"
  unfolding gnbGTPU_def handleSendGNBGTPUEcho_def handleAwaitGNBErrorIndication_def enbGTPU_def
    handleSendENBGTPUEcho_def handleAwaitENBErrorIndication_def handleGetENBTunnel_def
  by (rule costs_le, (rule cost_rules)+, simp)+

lemma costs_gtpu_further [cost_rules]:
  "costs 0 (handleSendGNBUplink E k u body0)" "costs 1 (handleAwaitGNBDownlink k u body1)"
  "costs 0 (handleGetGNBTunnel k u v2)" "costs 0 (handleSendENBUplink E k u body3)"
  "costs 1 (handleAwaitENBDownlink k u req4)"
  unfolding handleSendGNBUplink_def handleAwaitGNBDownlink_def handleGetGNBTunnel_def handleSendENBUplink_def
    handleAwaitENBDownlink_def
  by (rule costs_le, (rule cost_rules)+, simp)+

section \<open>NGAP and 5G NAS messages\<close>

lemma costs_gnb_helpers [cost_rules]:
  "costs 0 (read_ue k u)" "costs 0 (write_ue k u f1)" "costs 0 (send_quietly E k b2)" "costs 0 (send_or_502 E k d)"
  "costs 0 (secure_uplink E k u plain4 sht4 req4)"
  unfolding read_ue_def write_ue_def send_quietly_def send_or_502_def secure_uplink_def
  by (rule costs_le, (rule cost_rules)+, simp)+

lemma costs_gnb_helpers_further [cost_rules]:
  "costs 1 (wait_own k u d req0 types0)" "costs 0 (answer_when E k u m1 type1 build1)"
  "costs 0 (build_uplink E k u gnb2 nasPDU2 ov2)"
  unfolding wait_own_def answer_when_def build_uplink_def
  by (rule costs_le, (rule cost_rules)+, simp)+

lemma costs_gnb_helpers_composed [cost_rules]:
  "costs 1 (sendRawAndWait E k u d req0 encoded0 waitFor0)"
  unfolding sendRawAndWait_def
  by (rule costs_le, (rule cost_rules)+, simp)+

lemma costs_gnb_helpers_outer [cost_rules]:
  "costs 1 (sendAndWait E k u d req0 ngapMsg0 waitFor0)"
  "costs 1 (sendUplinkAndWait E k u d gnb1 req1 nasPDU1 waitFor1)"
  unfolding sendAndWait_def sendUplinkAndWait_def
  by (rule costs_le, (rule cost_rules)+, simp)+

lemma costs_gnb_nas [cost_rules]:
  "costs 0 (build_initial k u gnb0 nasPDU0 guti0 ov0)" "costs 1 (reestablishGNBConnection E k u d gnb1 nasPDU1)"
  "costs 0 (build_registration E k u req2)" "costs 0 (res_star E k u req3)"
  "costs 1 (handleGNBSecurityModeComplete E k u d gnb4 req4)" "costs 0 (send_uplink E k u gnb5 nasPDU5 ov5)"
  "costs 0 (carried_downlink E k u m6)" "costs 1 (handleGNBUEContextReleaseRequest E k u d req7)"
  "costs 1 (handleGNBIdentityResponse E k u d gnb8 req8)"
  "costs 1 (handleGNBAuthenticationFailure E k u d gnb9 req9)"
  "costs 1 (handleGNBSecurityModeReject E k u d gnb10 req10)" "costs 0 (build_service_request E k u req11)"
  "costs 1 (handleGNBUECapabilityInfo E k u d req12)" "costs 0 (handleGNBInitialContextSetupFailure E k u req13)"
  "costs 1 (handleGNBErrorIndication E k u d req14)"
  unfolding build_initial_def reestablishGNBConnection_def build_registration_def res_star_def
    handleGNBSecurityModeComplete_def send_uplink_def carried_downlink_def handleGNBUEContextReleaseRequest_def
    handleGNBIdentityResponse_def handleGNBAuthenticationFailure_def handleGNBSecurityModeReject_def
    build_service_request_def handleGNBUECapabilityInfo_def handleGNBInitialContextSetupFailure_def
    handleGNBErrorIndication_def
  by (rule costs_le, (rule cost_rules)+, simp)+

lemma costs_gnb_nas_further [cost_rules]:
  "costs 1 (send_registration E k u d gnb0 req0 nasPDU0)"
  "costs 1 (handleGNBAuthenticationResponse E k u d gnb1 req1)"
  "costs 0 (ackConfigurationUpdate E k u gnb2 nasResp2)"
  "costs 1 (handleGNBDeregistrationRequest E k u d gnb3 req3)" "costs 1 (handleGNBServiceRequest E k u d gnb4 req4)"
  "costs 1 (handleGNBInjectNAS E k u d gnb5 req5)"
  unfolding send_registration_def handleGNBAuthenticationResponse_def ackConfigurationUpdate_def
    handleGNBDeregistrationRequest_def handleGNBServiceRequest_def handleGNBInjectNAS_def
  by (rule costs_le, (rule cost_rules)+, simp)+

lemma costs_gnb_nas_composed [cost_rules]:
  "costs 1 (handleGNBRegistrationRequest E k u d gnb0 req0)"
  "costs 1 (handleGNBRegistrationComplete E k u d gnb1 req1)"
  unfolding handleGNBRegistrationRequest_def handleGNBRegistrationComplete_def
  by (rule costs_le, (rule cost_rules)+, simp)+

lemma costs_gnb_sessions [cost_rules]:
  "costs 0 (accept_session E k u gnb0 userPlane0 pduSessionID0 ngapResp0 nasResp0)"
  "costs 0 (inner_5gsm k u req1 build1)" "costs 0 (secure_5gsm E k u req2 inner2)"
  "costs 0 (handleGNBHandoverRequired E k u gnb3 req3)" "costs 0 (handleGNBRANStatusTransfer E k u req4)"
  "costs 1 (handleGNBHandoverCancel E k u d req5)" "costs 0 (both_ids req6)"
  "costs 0 (handleGNBHandoverFailure E k req7)" "costs 0 (handleMigrateGNBUE k u body8)"
  "costs 1 (wait_if_asked k d req9)" "costs 1 (handleGNBNGReset E k d gnb10 req10)" "costs 0 unsupported"
  unfolding accept_session_def inner_5gsm_def secure_5gsm_def handleGNBHandoverRequired_def
    handleGNBRANStatusTransfer_def handleGNBHandoverCancel_def both_ids_def handleGNBHandoverFailure_def
    handleMigrateGNBUE_def wait_if_asked_def handleGNBNGReset_def unsupported_def
  by (rule costs_le, (rule cost_rules)+, simp)+

lemma costs_gnb_sessions_further [cost_rules]:
  "costs 1 (handleGNBPDUSessionEstablishmentRequest E k u d gnb0 userPlane0 req0)"
  "costs 1 (handleGNBPDUSessionReleaseRequest E k u d gnb1 req1)"
  "costs 1 (handleGNBPDUSessionModificationRequest E k u d gnb2 req2)"
  "costs 0 (sendInner5GSM E k u gnb3 req3 inner3)" "costs 0 (handleGNBHandoverRequestAcknowledge E k req4)"
  "costs 0 (handleGNBHandoverNotify E k gnb5 req5)" "costs 1 (handleGNBPathSwitchRequest E k d gnb6 req6)"
  "costs 1 (handleGNBRawNGAP E k d raw7 req7)"
  unfolding handleGNBPDUSessionEstablishmentRequest_def handleGNBPDUSessionReleaseRequest_def
    handleGNBPDUSessionModificationRequest_def sendInner5GSM_def handleGNBHandoverRequestAcknowledge_def
    handleGNBHandoverNotify_def handleGNBPathSwitchRequest_def handleGNBRawNGAP_def
  by (rule costs_le, (rule cost_rules)+, simp)+

lemma costs_gnb_sessions_composed [cost_rules]:
  "costs 0 (handleGNBPDUSessionReleaseComplete E k u gnb0 req0)"
  "costs 0 (handleGNBPDUSessionModificationComplete E k u gnb1 req1)"
  "costs 0 (handleGNBPDUSessionModificationCommandReject E k u gnb2 req2)"
  "costs 0 (handleGNBStatus5GSM E k u gnb3 req3)" "costs 1 (dispatch_gnb E k d gnb4 req4)"
  unfolding handleGNBPDUSessionReleaseComplete_def handleGNBPDUSessionModificationComplete_def
    handleGNBPDUSessionModificationCommandReject_def handleGNBStatus5GSM_def dispatch_gnb_def
  by (rule costs_le, (rule cost_rules)+, simp)+

lemma costs_gnb_sessions_outer [cost_rules]:
  "costs 1 (dispatch_gnb_ue E k u d gnb0 userPlane0 req0)" "costs 1 (handleSendGNBNGAP E k body1)"
  unfolding dispatch_gnb_ue_def handleSendGNBNGAP_def
  by (rule costs_le, (rule cost_rules)+, simp)+

lemma costs_gnb_sessions_top [cost_rules]:
  "costs 1 (handleSendGNBUENGAP E k u body0)"
  unfolding handleSendGNBUENGAP_def
  by (rule costs_le, (rule cost_rules)+, simp)+

section \<open>S1AP and EPS NAS messages\<close>

lemma costs_enb_helpers [cost_rules]:
  "costs 0 (read_ue_EPS k u)" "costs 0 (write_ue_EPS k u f1)" "costs 0 (build_and_send E k b2)"
  "costs 0 (send_quietly_S1 E k b3)" "costs 0 (decode_downlink E k u b4)"
  "costs 0 (secure_uplink_EPS E k u plain5 sht5 req5)"
  unfolding read_ue_EPS_def write_ue_EPS_def build_and_send_def send_quietly_S1_def decode_downlink_def
    secure_uplink_EPS_def
  by (rule costs_le, (rule cost_rules)+, simp)+

lemma costs_enb_helpers_further [cost_rules]:
  "costs 0 (sendUplink E k u enb0 nasPDU0 req0)" "costs 1 (waitDownlink k u d types1)"
  "costs 1 (waitDownlinkReq k u d req2 types2)" "costs 0 (decode_if_carried E k u m3)" "costs 0 (needs_context k u)"
  unfolding sendUplink_def waitDownlink_def waitDownlinkReq_def decode_if_carried_def needs_context_def
  by (rule costs_le, (rule cost_rules)+, simp)+

lemma costs_enb_helpers_composed [cost_rules]:
  "costs 1 (waitDownlinkTolerant k u d types0)" "costs 1 (waitDownlinkTolerantReq k u d req1 types1)"
  unfolding waitDownlinkTolerant_def waitDownlinkTolerantReq_def
  by (rule costs_le, (rule cost_rules)+, simp)+

lemma costs_enb_nas [cost_rules]:
  "costs 1 (handleENBAttachRequestRaw E k u d enb0 rawHex0 rrcCause0)" "costs 0 (eps_res E k u enb1 req1)"
  "costs 0 (plain_answer E k u dl2)" "costs 1 (handleENBSecurityModeComplete E k u d enb3 req3)"
  "costs 1 (handleENBSecurityModeReject E k u d enb4 req4)" "costs 1 (handleENBAttachComplete E k u d enb5 req5)"
  "costs 1 (handleENBUECapabilityInfo E k u d req6)" "costs 1 (handleENBErrorIndication E k u d req7)"
  "costs 0 (handleENBInitialContextSetupFailure E k u req8)"
  "costs 1 (reestablishENBConnection E k u d enb9 nasPDU9)" "costs 0 (complete_tau E k u enb10 req10 nas10)"
  "costs 1 (handleENBUEContextReleaseRequest E k u d req11)" "costs 0 (build_service_request_EPS E k u req12)"
  "costs 0 (answer_service E k u enb13 dl13)" "costs 1 (handleENBDetach E k u d enb14 req14)"
  "costs 1 (handleENBInjectNAS E k u d enb15 req15)"
  unfolding handleENBAttachRequestRaw_def eps_res_def plain_answer_def handleENBSecurityModeComplete_def
    handleENBSecurityModeReject_def handleENBAttachComplete_def handleENBUECapabilityInfo_def
    handleENBErrorIndication_def handleENBInitialContextSetupFailure_def reestablishENBConnection_def
    complete_tau_def handleENBUEContextReleaseRequest_def build_service_request_EPS_def answer_service_def
    handleENBDetach_def handleENBInjectNAS_def
  by (rule costs_le, (rule cost_rules)+, simp)+

lemma costs_enb_nas_further [cost_rules]:
  "costs 1 (handleENBAttachRequest E k u d enb0 req0)" "costs 1 (handleENBAuthenticationResponse E k u d enb1 req1)"
  "costs 1 (handleENBIdentityResponse E k u d enb2 req2)"
  "costs 1 (handleENBAuthenticationFailure E k u d enb3 req3)"
  "costs 1 (handleENBTrackingAreaUpdate E k u d enb4 req4)" "costs 1 (handleENBServiceRequest E k u d enb5 req5)"
  unfolding handleENBAttachRequest_def handleENBAuthenticationResponse_def handleENBIdentityResponse_def
    handleENBAuthenticationFailure_def handleENBTrackingAreaUpdate_def handleENBServiceRequest_def
  by (rule costs_le, (rule cost_rules)+, simp)+

lemma costs_enb_sessions [cost_rules]:
  "costs 0 (acceptAdditionalBearer E k u enb0 dl0 nas0 req0)"
  "costs 0 (accept_deactivation E k u enb1 dl1 nas1 req1)" "costs 0 (sendESM E k u enb2 esm2 req2)"
  "costs 0 (send_only E k b3)" "costs 0 (both_ids_S1 req4)" "costs 1 (handleENBHandoverCancel E k u d req5)"
  "costs 0 (handleMigrateENBUE k u body6)" "costs 1 (handleENBReset E k d enb7 req7)"
  "costs 1 (wait_if_asked_S1 k d req8)"
  unfolding acceptAdditionalBearer_def accept_deactivation_def sendESM_def send_only_def both_ids_S1_def
    handleENBHandoverCancel_def handleMigrateENBUE_def handleENBReset_def wait_if_asked_S1_def
  by (rule costs_le, (rule cost_rules)+, simp)+

lemma costs_enb_sessions_further [cost_rules]:
  "costs 1 (handleENBPdnConnectivity E k u d enb0 req0)" "costs 1 (handleENBPdnDisconnect E k u d enb1 req1)"
  "costs 0 (esm_message E k u enb2 req2 build2)" "costs 0 (handleENBModifyResponse E k u req3)"
  "costs 0 (handleENBHandoverRequestAcknowledge E k enb4 req4)" "costs 0 (handleENBHandoverNotify E k enb5 req5)"
  "costs 0 (handleENBHandoverFailure E k req6)" "costs 0 (handleENBHandoverRequired E k u req7)"
  "costs 0 (handleENBENBStatusTransfer E k u req8)" "costs 1 (handleENBRawS1AP E k d raw9 req9)"
  "costs 1 (handleENBPathSwitchRequest E k d enb10 req10)"
  unfolding handleENBPdnConnectivity_def handleENBPdnDisconnect_def esm_message_def handleENBModifyResponse_def
    handleENBHandoverRequestAcknowledge_def handleENBHandoverNotify_def handleENBHandoverFailure_def
    handleENBHandoverRequired_def handleENBENBStatusTransfer_def handleENBRawS1AP_def handleENBPathSwitchRequest_def
  by (rule costs_le, (rule cost_rules)+, simp)+

lemma costs_enb_sessions_composed [cost_rules]:
  "costs 0 (handleENBStatusESM E k u enb0 req0)" "costs 0 (handleENBBearerResourceAllocation E k u enb1 req1)"
  "costs 0 (handleENBBearerResourceModification E k u enb2 req2)"
  "costs 0 (handleENBEsmInformationResponse E k u enb3 req3)"
  "costs 0 (handleENBModifyBearerAccept E k u enb4 req4)"
  "costs 0 (handleENBDeactivateBearerAccept E k u enb5 req5)" "costs 1 (dispatch_enb E k d enb6 req6)"
  unfolding handleENBStatusESM_def handleENBBearerResourceAllocation_def handleENBBearerResourceModification_def
    handleENBEsmInformationResponse_def handleENBModifyBearerAccept_def handleENBDeactivateBearerAccept_def
    dispatch_enb_def
  by (rule costs_le, (rule cost_rules)+, simp)+

lemma costs_enb_sessions_outer [cost_rules]:
  "costs 1 (dispatch_enb_ue E k u d enb0 req0)" "costs 1 (handleSendENBS1AP E k body1)"
  unfolding dispatch_enb_ue_def handleSendENBS1AP_def
  by (rule costs_le, (rule cost_rules)+, simp)+

lemma costs_enb_sessions_top [cost_rules]:
  "costs 1 (handleSendENBUES1AP E k u body0)"
  unfolding handleSendENBUES1AP_def
  by (rule costs_le, (rule cost_rules)+, simp)+

section \<open>Creation, deletion and the whole server\<close>

lemma costs_modified: "(\<And>w. wWaits (snd (h w)) = wWaits w \<and> wEvents (snd (h w)) = wEvents w) \<Longrightarrow> costs 0 h"
  by (simp add: costs_def takes_none)

lemma costs_registration [cost_rules]: "costs 0 (register_gnb req a t)" "costs 0 (register_enb req' a t')"
  by (rule costs_modified; simp add: register_gnb_def register_enb_def Let_def case_prod_beta put_n2_def put_s1_def)+

lemma costs_teardown [cost_rules]:
  assumes "costs a m"
  shows "costs a (teardown_on_error (teardownGNB E k) m)" "costs a (teardown_on_error (teardownENB E k) m)"
proof -
  have same: "wWaits (teardownGNB E k w) = wWaits w" "wEvents (teardownGNB E k w) = wEvents w"
    "wWaits (teardownENB E k w) = wWaits w" "wEvents (teardownENB E k w) = wEvents w" for w
    by (simp_all add: teardownGNB_def teardownENB_def Let_def put_n2_def put_n3_def put_s1_def close_n2_def close_n3_def close_s1_def)
  have "takes a w (snd (teardown_on_error (teardownGNB E k) m w)) \<and> takes a w (snd (teardown_on_error (teardownENB E k) m w))" for w
    using assms [unfolded costs_def, rule_format, of w]
    by (cases "m w") (auto simp: teardown_on_error_def takes_def same split: sum.splits error.splits)
  then show "costs a (teardown_on_error (teardownGNB E k) m)" "costs a (teardown_on_error (teardownENB E k) m)"
    by (simp_all add: costs_def)
qed

lemma costs_creation [cost_rules]: "costs 1 (handleCreateGNB E b)" "costs 1 (handleCreateENB E b')"
  unfolding handleCreateGNB_def handleCreateENB_def by (rule costs_le, (rule cost_rules)+, simp)+

lemma costs_deletion [cost_rules]: "costs 0 (handleDeleteGNB E k)" "costs 0 (handleDeleteENB E k)"
  by (rule costs_modified; simp add: handleDeleteGNB_def handleDeleteENB_def hand_simps or_http_def hbind_def DeleteGNB_def
      DeleteENB_def put_n2_def put_n3_def put_s1_def close_n2_def close_n3_def close_s1_def split: option.split)+

lemma finish_takes: "costs n h \<Longrightarrow> n \<le> 1 \<Longrightarrow> takes 1 w (snd (finish h w))"
  by (auto simp: finish_def case_prod_beta costs_def simp del: One_nat_def intro: takes_le)

lemma serve_gnb_takes: "takes 1 w (snd (serve_gnb E q w))"
  by (cases q; simp del: One_nat_def; (rule finish_takes, rule cost_rules, simp))

lemma serve_enb_takes: "takes 1 w (snd (serve_enb E q w))"
  by (cases q; simp del: One_nat_def; (rule finish_takes, rule cost_rules, simp))

text \<open>C9. Every request returns, after at most one wait: of the events on their way to the server it consumes those of
  the one link it waits on, up to the first deadline and not past it.  So no request waits longer than the one
  timeout it was given, however the network behaves, and a request that does not wait consumes no event.\<close>

theorem requests_wait_once: "takes 1 w (snd (serve E q w))"
  by (cases q) (simp_all add: serve_gnb_takes serve_enb_takes del: One_nat_def)

end
