(* ===== verification/Api_Typing.thy ===== *)
theory Api_Typing
  imports Api_Server
begin

text \<open>
  Type safety of the store.  The model keeps a \<open>[16]byte\<close> as a list and the identity of a session both as its key
  and as a field, so that a handler could break what the code's types and its maps promise; \<open>well_typed\<close> says what
  that is, and here every request is shown to keep it for every UE, whatever the peer sends.
\<close>

section \<open>Well typed stores\<close>

definition gnb_typed :: "GNBContext \<Rightarrow> bool" where
  "gnb_typed g = (\<forall>u x. gues g u = Some x \<longrightarrow> ue_typed x)"

definition enb_typed :: "ENBContext \<Rightarrow> bool" where
  "enb_typed e = (\<forall>u x. eues e u = Some x \<longrightarrow> ue_typed_EPS x)"

definition store_typed :: "Store \<Rightarrow> bool" where
  "store_typed s = ((\<forall>k g. gnbs s k = Some g \<longrightarrow> gnb_typed g) \<and> (\<forall>k e. enbs s k = Some e \<longrightarrow> enb_typed e))"

interpretation ty: state_rel "\<lambda>w w'. store_typed (wStore w) \<longrightarrow> store_typed (wStore w')"
  by unfold_locales auto

named_theorems typed_rules "handlers that keep the store well typed"

lemma typed_updates:
  "store_typed s \<Longrightarrow> (\<And>g. gnb_typed g \<Longrightarrow> gnb_typed (f g)) \<Longrightarrow> store_typed (update_gnb k f s)"
  "store_typed s \<Longrightarrow> (\<And>e. enb_typed e \<Longrightarrow> enb_typed (f' e)) \<Longrightarrow> store_typed (update_enb k f' s)"
  by (auto simp: store_typed_def split: if_splits)

lemma typed_tables:
  "gnb_typed g \<Longrightarrow> ue_typed x \<Longrightarrow> gnb_typed (CreateUE x g)" "gnb_typed g \<Longrightarrow> gnb_typed (snd (DeleteUE u g))"
  "enb_typed e \<Longrightarrow> ue_typed_EPS y \<Longrightarrow> enb_typed (CreateUE_EPS y e)" "enb_typed e \<Longrightarrow> enb_typed (snd (DeleteUE_EPS u e))"
  "gnb_typed g \<Longrightarrow> gnb_typed (snd (AllocateRANUENGAPID g))" "enb_typed e \<Longrightarrow> enb_typed (snd (AllocateENBUES1APID e))"
  "gnb_typed g \<Longrightarrow> ue_typed x \<Longrightarrow> gnb_typed (set_ue u x g)" "enb_typed e \<Longrightarrow> ue_typed_EPS y \<Longrightarrow> enb_typed (set_ue_EPS u y e)"
  by (auto simp: gnb_typed_def enb_typed_def CreateUE_def DeleteUE_def CreateUE_EPS_def DeleteUE_EPS_def
      AllocateRANUENGAPID_def AllocateENBUES1APID_def set_ue_def set_ue_EPS_def Let_def split: if_splits)

lemma change_typed: "gnb_change u g g' \<Longrightarrow> gnb_typed g \<Longrightarrow> gnb_typed g'" "enb_change u e e' \<Longrightarrow> enb_typed e \<Longrightarrow> enb_typed e'"
proof -
  show "gnb_change u g g' \<Longrightarrow> gnb_typed g \<Longrightarrow> gnb_typed g'" unfolding gnb_typed_def
    by (rule elsewhere_all [of u "gues g" _ same_subscriber])
       (auto simp: gnb_change_def elsewhere_def same_subscriber_def)
  show "enb_change u e e' \<Longrightarrow> enb_typed e \<Longrightarrow> enb_typed e'" unfolding enb_typed_def
    by (rule elsewhere_all [of u "eues e" _ same_subscriber_EPS])
       (auto simp: enb_change_def elsewhere_def same_subscriber_EPS_def)
qed

lemma frame_typed:
  "gnb_frame k u w w' \<Longrightarrow> store_typed (wStore w) \<Longrightarrow> store_typed (wStore w')"
  "enb_frame k u w w' \<Longrightarrow> store_typed (wStore w) \<Longrightarrow> store_typed (wStore w')"
proof -
  assume f: "gnb_frame k u w w'" and s: "store_typed (wStore w)"
  have "\<forall>j g. gnbs (wStore w') j = Some g \<longrightarrow> gnb_typed g"
    by (rule elsewhere_all [of k "gnbs (wStore w)" _ "gnb_change u"])
       (use f s change_typed(1) in \<open>auto simp: gnb_frame_def store_typed_def\<close>)
  then show "store_typed (wStore w')" using f s by (simp add: gnb_frame_def store_typed_def)
next
  assume f: "enb_frame k u w w'" and s: "store_typed (wStore w)"
  have "\<forall>j e. enbs (wStore w') j = Some e \<longrightarrow> enb_typed e"
    by (rule elsewhere_all [of k "enbs (wStore w)" _ "enb_change u"])
       (use f s change_typed(2) in \<open>auto simp: enb_frame_def store_typed_def\<close>)
  then show "store_typed (wStore w')" using f s by (simp add: enb_frame_def store_typed_def)
qed

lemma typed_frames: "gf.obeys k u h \<Longrightarrow> ty.obeys h" "ef.obeys k u h' \<Longrightarrow> ty.obeys h'"
  unfolding ty.obeys_def gf.obeys_def ef.obeys_def by (meson frame_typed)+

lemma typed_messages [typed_rules]:
  "ty.obeys (handleSendGNBUENGAP E k u b)" "ty.obeys (handleSendGNBNGAP E k b1)"
  "ty.obeys (handleSendENBUES1AP E k u b2)" "ty.obeys (handleSendENBS1AP E k b3)"
  "ty.obeys (handleAwaitGNBUEMessage E k u b4)" "ty.obeys (handleAwaitGNBMessage k b5)"
  "ty.obeys (handleAwaitENBUEMessage E k u b4)" "ty.obeys (handleAwaitENBMessage k b5)"
  by (rule typed_frames, rule frame_gnb_messages frame_enb_messages await_frames)+

lemma typed_gtpu [typed_rules]:
  "ty.obeys (handleSendGNBUplink E k u b1)" "ty.obeys (handleAwaitGNBDownlink k u b2)"
  "ty.obeys (handleGetGNBTunnel k u v)" "ty.obeys (handleSendGNBGTPUEcho E k q)"
  "ty.obeys (handleAwaitGNBErrorIndication k i)"
  "ty.obeys (handleSendENBUplink E k u b3)" "ty.obeys (handleAwaitENBDownlink k u b4)"
  "ty.obeys (handleGetENBTunnel k u v)" "ty.obeys (handleSendENBGTPUEcho E k q)"
  "ty.obeys (handleAwaitENBErrorIndication k i)"
  by (rule typed_frames, rule gtpu_frames)+

section \<open>UEs\<close>

lemma typed_reads [typed_rules]:
  "ty.obeys (find_gnb j)" "ty.obeys (find_enb j)" "ty.obeys (find_gnb_ue j u)" "ty.obeys (find_enb_ue j u)"
  "ty.obeys (parse_body b)"
proof -
  show "ty.obeys (find_gnb j)" "ty.obeys (find_enb j)" "ty.obeys (parse_body b)"
    by (simp_all add: ty.obeys_def find_gnb_def find_enb_def parse_body_def hand_basic)
  show "ty.obeys (find_gnb_ue j u)" "ty.obeys (find_enb_ue j u)"
    by (rule typed_frames, rule frame_reads)+
qed

lemma typed_ops:
  "(\<And>g. gnb_typed g \<Longrightarrow> gnb_typed (snd (f g))) \<Longrightarrow> ty.obeys (gnb_op k f)"
  "(\<And>e. enb_typed e \<Longrightarrow> enb_typed (snd (f' e))) \<Longrightarrow> ty.obeys (enb_op k f')"
  "(\<And>x. ue_typed x \<Longrightarrow> ue_typed (snd (h x))) \<Longrightarrow> ty.obeys (ue_op k u h)"
  "(\<And>x. ue_typed_EPS x \<Longrightarrow> ue_typed_EPS (snd (h' x))) \<Longrightarrow> ty.obeys (ue_op_EPS k u h')"
proof -
  show "(\<And>g. gnb_typed g \<Longrightarrow> gnb_typed (snd (f g))) \<Longrightarrow> ty.obeys (gnb_op k f)"
    using typed_updates(1) [of _ "\<lambda>g. snd (f g)" k] by (simp add: ty.obeys_def gnb_op_def del: update_gnb_simps split: option.split)
  show "(\<And>e. enb_typed e \<Longrightarrow> enb_typed (snd (f' e))) \<Longrightarrow> ty.obeys (enb_op k f')"
    using typed_updates(2) [of _ "\<lambda>e. snd (f' e)" k] by (simp add: ty.obeys_def enb_op_def del: update_enb_simps split: option.split)
  show "ty.obeys (ue_op k u h)" if "\<And>x. ue_typed x \<Longrightarrow> ue_typed (snd (h x))"
  proof (rule ty.obeysI, rule impI)
    fix w :: world assume s: "store_typed (wStore w)"
    show "store_typed (wStore (snd (ue_op k u h w)))"
    proof (cases "gnb_ue k u w")
      case (Some x)
      then have "ue_typed x" using s by (auto simp: gnb_ue_def bind_eq_Some_conv store_typed_def gnb_typed_def)
      then have "store_typed (update_gnb k (set_ue u (snd (h x))) (wStore w))"
        using that s by (intro typed_updates typed_tables) auto
      then show ?thesis using Some by (simp add: ue_op_def case_prod_beta del: update_gnb_simps)
    qed (use s in \<open>simp add: ue_op_def\<close>)
  qed
  show "ty.obeys (ue_op_EPS k u h')" if "\<And>x. ue_typed_EPS x \<Longrightarrow> ue_typed_EPS (snd (h' x))"
  proof (rule ty.obeysI, rule impI)
    fix w :: world assume s: "store_typed (wStore w)"
    show "store_typed (wStore (snd (ue_op_EPS k u h' w)))"
    proof (cases "enb_ue k u w")
      case (Some x)
      then have "ue_typed_EPS x" using s by (auto simp: enb_ue_def bind_eq_Some_conv store_typed_def enb_typed_def)
      then have "store_typed (update_enb k (set_ue_EPS u (snd (h' x))) (wStore w))"
        using that s by (intro typed_updates typed_tables) auto
      then show ?thesis using Some by (simp add: ue_op_EPS_def case_prod_beta del: update_enb_simps)
    qed (use s in \<open>simp add: ue_op_EPS_def\<close>)
  qed
qed

lemma typed_lift: "(\<And>x. r = Inr x \<Longrightarrow> ty.obeys (f x)) \<Longrightarrow> ty.obeys (hbind (hlift r) f)"
  by (cases r) (simp_all add: ty.obeys_def hbind_def hand_basic)

lemma NewUEContext_typed: "NewUEContext c kl i n l opts = Inr x \<Longrightarrow> ue_typed x"
  by (auto simp: NewUEContext_def rbind_eq_Inr Let_def well_typed_def split: prod.splits if_splits)

lemma NewUEEPSContext_typed: "with_network_capability h (NewUEEPSContext i n opts) = Inr x \<Longrightarrow> ue_typed_EPS x"
  by (auto simp: with_network_capability_def NewUEEPSContext_def rbind_eq_Inr well_typed_def split: if_splits)

lemma typed_ue_requests [typed_rules]:
  "ty.obeys (handleCreateGNBUE E k b1)" "ty.obeys (handleGetGNBUE k u)" "ty.obeys (handlePatchGNBUE k u b2)"
  "ty.obeys (handleDeleteGNBUE k u)" "ty.obeys (handleCreateENBUE k b3)" "ty.obeys (handleGetENBUE ord k u)"
  "ty.obeys (handlePatchENBUE k u b4)" "ty.obeys (handleDeleteENBUE k u)"
proof -
  show "ty.obeys (handleCreateGNBUE E k b1)"
    unfolding handleCreateGNBUE_def
    by (intro typed_lift ty.sequence ty.pure(1,5) typed_rules typed_ops; simp add: case_prod_beta typed_tables NewUEContext_typed)
  show "ty.obeys (handleGetGNBUE k u)" "ty.obeys (handleGetENBUE ord k u)"
    unfolding handleGetGNBUE_def handleGetENBUE_def by (intro ty.rules typed_rules)+
  show "ty.obeys (handlePatchGNBUE k u b2)" "ty.obeys (handlePatchENBUE k u b4)"
    unfolding handlePatchGNBUE_def handlePatchENBUE_def
    by (intro ty.rules typed_rules typed_ops; simp add: patch_gnb_ue_def patch_enb_ue_def)+
  show "ty.obeys (handleDeleteGNBUE k u)" "ty.obeys (handleDeleteENBUE k u)"
    unfolding handleDeleteGNBUE_def handleDeleteENBUE_def
    by (intro ty.rules typed_rules typed_ops; simp add: case_prod_beta typed_tables)+
  show "ty.obeys (handleCreateENBUE k b3)"
    unfolding handleCreateENBUE_def Let_def
    by (intro typed_lift ty.sequence ty.pure(1,5) typed_rules typed_ops; simp add: case_prod_beta typed_tables NewUEEPSContext_typed)
qed

section \<open>Nodes\<close>

lemma typed_node_steps:
  "store_typed s \<Longrightarrow> store_typed (snd (DeleteGNB k s))" "store_typed s \<Longrightarrow> store_typed (snd (DeleteENB k s))"
  "store_typed s \<Longrightarrow> store_typed (snd (CreateGNB a b c d e f g h i s))"
  "store_typed s \<Longrightarrow> store_typed (snd (CreateENB a b c d e f s))"
  "gnb_typed x \<Longrightarrow> gnb_typed (x\<lparr> gN3Addr := n \<rparr>)" "enb_typed y \<Longrightarrow> enb_typed (y\<lparr> eN3Addr := n \<rparr>)"
  by (auto simp: store_typed_def DeleteGNB_def DeleteENB_def CreateGNB_def CreateENB_def Let_def NewGNBContext_def
      NewENBContext_def gnb_typed_def enb_typed_def split: if_splits)

lemma typed_modify: "(\<And>w. store_typed (wStore w) \<Longrightarrow> store_typed (wStore (snd (h w)))) \<Longrightarrow> ty.obeys h"
  by (simp add: ty.obeys_def)

lemma typed_registration [typed_rules]: "ty.obeys (register_gnb req a t)" "ty.obeys (register_enb req' a t')"
  by (rule typed_modify; simp add: register_gnb_def register_enb_def Let_def case_prod_beta put_n2_def put_s1_def
      typed_updates typed_node_steps del: update_gnb_simps update_enb_simps)+

lemma typed_listen [typed_rules]: "ty.obeys (listen_gnb E k a)" "ty.obeys (listen_enb E k b)"
  unfolding listen_gnb_def listen_enb_def
  by (intro typed_lift ty.modify; simp add: put_n3_def typed_updates typed_node_steps del: update_gnb_simps update_enb_simps)+

lemma typed_bring_up [typed_rules]: "ty.obeys (bring_up_gnb E req a k)" "ty.obeys (bring_up_enb E req' d a k)"
  unfolding bring_up_gnb_def bring_up_enb_def
  by (intro ty.rules ty.choice typed_rules typed_frames(1) [OF obeys_ng_setup] typed_frames(2) [OF obeys_s1_setup])+

lemma typed_teardown:
  assumes "ty.obeys m"
  shows "ty.obeys (teardown_on_error (teardownGNB E k) m)" "ty.obeys (teardown_on_error (teardownENB E k) m)"
proof -
  have t: "store_typed (wStore (teardownGNB E k w))" "store_typed (wStore (teardownENB E k w))" if "store_typed (wStore w)" for w
    using that by (simp_all add: teardownGNB_def teardownENB_def Let_def put_n2_def put_n3_def put_s1_def close_n2_def
        close_n3_def close_s1_def typed_node_steps)
  show "ty.obeys (teardown_on_error (teardownGNB E k) m)" "ty.obeys (teardown_on_error (teardownENB E k) m)"
    using assms t by (auto simp: ty.obeys_def teardown_on_error_def split: prod.split sum.split error.split)
qed

lemma typed_lifecycle [typed_rules]:
  "ty.obeys (handleCreateGNB E b)" "ty.obeys (handleCreateENB E b')" "ty.obeys (handleGetGNB k)" "ty.obeys (handleGetENB k)"
  "ty.obeys (handleDeleteGNB E k)" "ty.obeys (handleDeleteENB E k)"
proof -
  show "ty.obeys (handleCreateGNB E b)" "ty.obeys (handleCreateENB E b')"
    unfolding handleCreateGNB_def handleCreateENB_def Let_def by (intro ty.rules typed_rules typed_teardown)+
  show "ty.obeys (handleGetGNB k)" "ty.obeys (handleGetENB k)"
    unfolding handleGetGNB_def handleGetENB_def by (intro ty.rules typed_rules)+
  show "ty.obeys (handleDeleteGNB E k)"
    unfolding handleDeleteGNB_def
    by (intro ty.rules ty.modify; simp add: ty.obeys_def or_http_def case_prod_beta put_n2_def put_n3_def close_n2_def
        close_n3_def typed_node_steps)
  show "ty.obeys (handleDeleteENB E k)"
    unfolding handleDeleteENB_def
    by (intro ty.rules ty.modify; simp add: ty.obeys_def or_http_def case_prod_beta put_s1_def put_n3_def close_s1_def
        close_n3_def typed_node_steps)
qed

section \<open>Migration\<close>

lemma typed_migration_steps:
  assumes "store_typed s"
  shows "ue_typed x \<Longrightarrow> store_typed (MigrateUE k t x r a s)" "ue_typed_EPS y \<Longrightarrow> store_typed (MigrateUE_EPS k t y m e s)"
proof -
  have d: "store_typed (update_gnb k (\<lambda>g. snd (DeleteUE (uID x) g)) s)" "store_typed (update_enb k (\<lambda>g. snd (DeleteUE_EPS (vID y) g)) s)"
    by (intro typed_updates typed_tables assms; assumption)+
  show "ue_typed x \<Longrightarrow> store_typed (MigrateUE k t x r a s)"
    unfolding MigrateUE_migrated by (intro typed_updates typed_tables d) (simp_all add: migrated_def)
  show "ue_typed_EPS y \<Longrightarrow> store_typed (MigrateUE_EPS k t y m e s)"
    unfolding MigrateUE_EPS_def Let_def by (intro typed_updates typed_tables d) (simp_all split: option.split)
qed

lemma typed_migration [typed_rules]: "ty.obeys (handleMigrateGNBUE k u b)" "ty.obeys (handleMigrateENBUE k u b')"
proof -
  have "store_typed (wStore w')" if h: "handleMigrateGNBUE k u b w = (r, w')" and s: "store_typed (wStore w)" for w r w'
    using migrate_gnb_outcome [OF h] s
    by (auto intro!: typed_migration_steps simp: store_typed_def [of "wStore w"] gnb_typed_def)
  then show "ty.obeys (handleMigrateGNBUE k u b)" unfolding ty.obeys_def by (metis prod.collapse)
  have "store_typed (wStore w')" if h: "handleMigrateENBUE k u b' w = (r, w')" and s: "store_typed (wStore w)" for w r w'
    using migrate_enb_outcome [OF h] s
    by (auto intro!: typed_migration_steps simp: store_typed_def [of "wStore w"] enb_typed_def)
  then show "ty.obeys (handleMigrateENBUE k u b')" unfolding ty.obeys_def by (metis prod.collapse)
qed

section \<open>The server\<close>

lemma finish_typed: "ty.obeys h \<Longrightarrow> finish h w = (s, w') \<Longrightarrow> store_typed (wStore w) \<Longrightarrow> store_typed (wStore w')"
  by (auto dest!: finishD dest: ty.obeysD)

lemma serve_typed:
  assumes "serve E q w = (s, w')" "store_typed (wStore w)"
  shows "store_typed (wStore w')"
proof (cases q)
  case (OnGNB q)
  then show ?thesis using assms by (cases q) (auto intro: finish_typed typed_rules)
next
  case (OnENB q)
  then show ?thesis using assms by (cases q) (auto intro: finish_typed typed_rules)
qed

lemma reachable_typed: "api_reachable Es w \<Longrightarrow> store_typed (wStore w)"
proof (induction rule: api_reachable.induct)
  case (start evs)
  then show ?case by (simp add: NewHandler_def New_def store_typed_def)
next
  case (step w w')
  from step(2,3) show ?case by (cases rule: api_step.cases) (auto intro: serve_typed)
qed

text \<open>C8. In every state the server can get into, every UE of every gNB and eNB is well typed: its NAS keys have sixteen
  octets, whichever of creation, key derivation or migration wrote them last, and every session and bearer is
  filed under its own identity.\<close>

theorem server_well_typed:
  assumes "api_reachable Es w"
  shows "(\<forall>k u x. gnb_ue k u w = Some x \<longrightarrow> length (uKnasEnc x) = 16 \<and> length (uKnasInt x) = 16 \<and>
      (\<forall>i s. uPDUSessions x i = Some s \<longrightarrow> psPDUSessionID s = i)) \<and>
    (\<forall>k u x. enb_ue k u w = Some x \<longrightarrow> length (vKnasEnc x) = 16 \<and> length (vKnasInt x) = 16 \<and>
      (\<forall>i b. vBearers x i = Some b \<longrightarrow> ebEBI b = i))"
  using reachable_typed [OF assms]
  by (auto simp: store_typed_def gnb_typed_def enb_typed_def well_typed_def gnb_ue_def enb_ue_def bind_eq_Some_conv)

definition sample_with_ue :: world where
  "sample_with_ue = snd (serve (sample_env sample_pdu) (OnGNB (GCreateUE ''1'' (Inr sample_ue_request))) sample_reached)"

lemma sample_with_ue: "api_reachable {sample_env sample_pdu} sample_with_ue"
  unfolding sample_with_ue_def
  by (rule api_reachable.step [OF sample_reached api_step.request [OF insertI1 prod.collapse [symmetric]]])

lemma sample_reached_fields:
  "\<exists>g. gnbs (wStore sample_reached) ''1'' = Some g \<and> gnextRanUeID g = 0 \<and> gMNC g = ''01''"
  by (simp add: sample_reached_def finish_def handleCreateGNB_def parse_body_def hand_simps sample_gnb_request_def Let_def
    DialNGAP_def dialFramed_def sample_env_def hbind_def register_gnb_def CreateGNB_def NewHandler_def New_def
    bring_up_gnb_def ng_setup_def teardown_on_error_def or_default_def put_n2_def reply_of_def dec_one NewGNBContext_def)

lemma sample_with_ue_registered: "gnb_ue ''1'' ''1'' sample_with_ue \<noteq> None"
proof -
  obtain g where g: "gnbs (wStore sample_reached) ''1'' = Some g" "gnextRanUeID g = 0" "gMNC g = ''01''"
    using sample_reached_fields by blast
  obtain x where x: "NewUEContext toy_crypto \<lparr> newX25519 = (\<lambda>b. Inr 7), uncompressP256 = (\<lambda>b. None), newP256 = (\<lambda>b. Inr 7) \<rparr> ''1'' 1 2
     \<lparr> oSUPI = ''imsi-001010000000009'', oK = ''00'', oOPc = ''00'', oAMF = [], oSQN = [], oSST = 1, oSD = [], oDNN = [],
       oRoutingIndicator = [], oProtectionScheme = [], oPublicKeyID = [], oPublicKeyHex = [], oPDUSessionID = 1,
       oPDUSessionType = 1, oIMEISV = [], oUESecurityCapability = [] \<rparr> = Inr x"
    using sample_context by blast
  have d: "dec_int 1 = ''1''" by code_simp
  show ?thesis using NewUEContext_fields [OF x]
    by (simp add: sample_with_ue_def finish_def handleCreateGNBUE_def find_gnb_def GetGNB_def g parse_body_def hbind_def
        hand_basic http_error_simps hreq_def sample_ue_request_def gnb_op_def AllocateRANUENGAPID_def Let_def CreateUE_def d
        sample_env_def x gnb_ue_def)
qed

theorem server_well_typed_witness:
  "\<exists>x. gnb_ue ''1'' ''1'' sample_with_ue = Some x \<and> length (uKnasEnc x) = 16 \<and> length (uKnasInt x) = 16"
proof -
  obtain x where x: "gnb_ue ''1'' ''1'' sample_with_ue = Some x" using sample_with_ue_registered by blast
  from conjunct1 [OF server_well_typed [OF sample_with_ue], rule_format, OF x] show ?thesis using x by simp
qed

end
