(* ===== verification/Api_Contracts.thy ===== *)
theory Api_Contracts
  imports Api_Typing
begin

text \<open>
  Contracts of single requests that need more than one component: the tunnels of the sessions, a rejected
  authentication challenge, and requests for nodes that do not exist.
\<close>

unbundle bit_operations_syntax

section \<open>Tunnel identifiers\<close>

lemma teid_parts:
  fixes x :: u32 and i :: u8
  shows "drop_bit 8 (push_bit 8 x OR ucast i) = take_bit 24 x" "ucast (push_bit 8 x OR ucast i) = i"
  by (rule bit_word_eqI; auto simp: bit_simps dest: bit_imp_le_length)+

lemma teid_eq:
  fixes x y :: u32 and i j :: u8
  shows "(push_bit 8 x OR ucast i = push_bit 8 y OR ucast j) = (take_bit 24 x = take_bit 24 y \<and> i = j)"
proof
  assume e: "push_bit 8 x OR ucast i = push_bit 8 y OR ucast j"
  then show "take_bit 24 x = take_bit 24 y \<and> i = j" using teid_parts [of x i] teid_parts [of y j] by metis
next
  have "push_bit 8 z = push_bit 8 (take_bit 24 z)" for z :: u32
    by (rule bit_word_eqI) (auto simp: bit_simps)
  then show "take_bit 24 x = take_bit 24 y \<and> i = j \<Longrightarrow> push_bit 8 x OR ucast i = push_bit 8 y OR ucast j" by metis
qed

lemma take_bit_of_int: "(take_bit 24 (of_int a :: u32) = take_bit 24 (of_int b)) = (a mod 2 ^ 24 = b mod 2 ^ 24)"
proof -
  have "uint (take_bit 24 (of_int c :: u32)) = c mod 2 ^ 24" for c
  proof -
    have "uint (take_bit 24 (of_int c :: u32)) = uint (of_int c :: u32) mod 2 ^ 24"
      unfolding unsigned_take_bit_eq by (simp only: take_bit_eq_mod)
    also have "\<dots> = (c mod 2 ^ 32) mod 2 ^ 24" by (simp add: uint_word_of_int)
    also have "\<dots> = c mod 2 ^ 24" by (rule mod_mod_cancel) simp
    finally show ?thesis .
  qed
  then show ?thesis by (metis word_uint_eq_iff)
qed

text \<open>C20. The downlink TEID of a session names the UE and the session, as long as the RAN UE NGAP IDs of the gNB stay
  below \<open>2 ^ 24\<close>: two are equal exactly when the sessions have one identity and the identities of the UEs agree
  in their low 24 bits.  The same holds of the additional bearers of an eNB.\<close>

theorem downlink_teid_identifies:
  "(downlink_teid x i = downlink_teid y j) = (uRANUENGAPID x mod 2 ^ 24 = uRANUENGAPID y mod 2 ^ 24 \<and> i = j) \<and>
   (additional_teid v a = additional_teid z b) = (unat (vENBUES1APID v) mod 2 ^ 24 = unat (vENBUES1APID z) mod 2 ^ 24 \<and> a = b)"
proof -
  have "unat (take_bit 24 v) = unat v mod 2 ^ 24" for v :: u32
    unfolding unsigned_take_bit_eq by (simp only: take_bit_eq_mod)
  then have "(take_bit 24 v = take_bit 24 z) = (unat v mod 2 ^ 24 = unat z mod 2 ^ 24)" for v z :: u32
    by (metis word_unat_eq_iff)
  then show ?thesis unfolding downlink_teid_def additional_teid_def teid_eq take_bit_of_int by blast
qed

section \<open>Reading and writing a UE\<close>

lemma gnb_ue_parts: "gnb_ue k u w = Some x \<Longrightarrow> \<exists>g. gnbs (wStore w) k = Some g \<and> gues g u = Some x"
  by (auto simp: gnb_ue_def bind_eq_Some_conv)

lemma write_back_same: "gnb_ue k u w = Some x \<Longrightarrow> w\<lparr> wStore := update_gnb k (set_ue u x) (wStore w) \<rparr> = w"
proof -
  assume x: "gnb_ue k u w = Some x"
  then obtain g where g: "gnbs (wStore w) k = Some g" "gues g u = Some x" using gnb_ue_parts by blast
  then have "set_ue u x g = g" by (simp add: set_ue_def fun_upd_idem)
  then have "update_gnb k (set_ue u x) (wStore w) = wStore w" using g by (simp add: update_gnb_def fun_upd_idem)
  then show ?thesis by simp
qed

lemma read_ue_hit: "gnb_ue k u w = Some x \<Longrightarrow> read_ue k u w = (Inr x, w)"
  by (simp add: read_ue_def ue_op_def write_back_same)

lemma write_ue_hit:
  "gnb_ue k u w = Some x \<Longrightarrow> write_ue k u f w = (Inr (), w\<lparr> wStore := update_gnb k (set_ue u (f x)) (wStore w) \<rparr>)"
  by (simp add: write_ue_def ue_op_def)

lemma gnb_ue_after_write:
  "gnb_ue k u w = Some x \<Longrightarrow> gnb_ue k u (w\<lparr> wStore := update_gnb k (set_ue u y) (wStore w) \<rparr>) = Some y"
  by (auto simp: gnb_ue_def bind_eq_Some_conv set_ue_def)

lemma http_status: "statusForError (HTTPErr n m) = n"
  by (simp add: statusForError_def)

section \<open>A challenge the UE rejects\<close>

lemma dispatch_authentication:
  "rqMessageType req = ''authentication_response'' \<Longrightarrow>
   dispatch_gnb_ue E k u d gnb b req = with_status (handleGNBAuthenticationResponse E k u d gnb req)"
  by (simp add: dispatch_gnb_ue_def)

text \<open>C17. A UE that is told to answer a challenge which its 5G-AKA rejects, because the MAC is wrong or the sequence
  number is out of range, answers nothing: the request is refused with 500, no octet is sent, no key is kept, and
  the state is exactly what it was.\<close>

theorem rejected_challenge_changes_nothing:
  assumes "gnb_ue k u w = Some ue" "wTransports w k = Some t"
    and "rqMessageType req = ''authentication_response''" "rqRawNASPDU req = None" "rqResStarOverride req = None"
    and "uRAND ue \<noteq> []" "uAUTN ue \<noteq> []"
    and "Compute5GAKA (envAKA E) (uK ue) (uOPc ue) (uSQN ue) (uSUPI ue) (uMCC ue) (uMNC ue) (uRAND ue) (uAUTN ue) = Inl e"
    and "\<forall>p. e \<noteq> Panic p"
  shows "serve E (OnGNB (GUENGAP k u (Inr req))) w = (Refused 500, w)"
proof -
  obtain g where g: "gnbs (wStore w) k = Some g" "gues g u = Some ue" using gnb_ue_parts [OF assms(1)] by blast
  have a: "http_error 500 ''5G-AKA'' (Compute5GAKA (envAKA E) (uK ue) (uOPc ue) (uSQN ue) (uSUPI ue) (uMCC ue) (uMNC ue)
      (uRAND ue) (uAUTN ue)) = Inl (HTTPErr 500 ''5G-AKA'')"
    using assms(8,9) by (cases e) (simp_all add: http_error_simps)
  have "res_star E k u req w = (Inl (HTTPErr 500 ''5G-AKA''), w)"
    using assms(5-7) by (simp add: res_star_def hbind_def read_ue_hit [OF assms(1)] hand_basic a)
  then have "handleGNBAuthenticationResponse E k u d gnb req w = (Inl (HTTPErr 500 ''5G-AKA''), w)" for d gnb
    by (simp add: handleGNBAuthenticationResponse_def raw_or_def assms(4) hbind_def)
  then have "with_status (handleGNBAuthenticationResponse E k u d gnb req) w = (Inl (HTTPErr 500 ''error''), w)" for d gnb
    by (simp add: with_status_def http_status)
  then show ?thesis
    by (simp add: finish_def handleSendGNBUENGAP_def hbind_def find_gnb_ue_hit [OF g] find_n2_def assms(2) parse_body_def
        hand_basic http_error_simps dispatch_authentication [OF assms(3)] reply_of_def http_status)
qed

text \<open>The sample UE with a challenge whose AUTN the toy MILENAGE does not accept.\<close>

definition sample_challenged :: UEContext where
  "sample_challenged = (sample_ue ''1'')\<lparr> uK := ''00'', uOPc := ''00'', uSQN := ''000000000004'', uRAND := [1], uAUTN := replicate 16 0 \<rparr>"

definition sample_challenged_world :: world where
  "sample_challenged_world = (NewHandler (sample_store\<lparr> gnbs := [''1'' \<mapsto> sample_gnb ''1'' [sample_challenged]] \<rparr>) (\<lambda>l. []))
     \<lparr> wTransports := [''1'' \<mapsto> sample_n2] \<rparr>"

theorem rejected_challenge_changes_nothing_witness:
  "serve (sample_env sample_pdu) (OnGNB (GUENGAP ''1'' ''1'' (Inr (no_options\<lparr> rqMessageType := ''authentication_response'' \<rparr>))))
     sample_challenged_world = (Refused 500, sample_challenged_world)"
proof (rule rejected_challenge_changes_nothing [where ue = sample_challenged and t = sample_n2 and e = ErrMACFailure])
  show "gnb_ue ''1'' ''1'' sample_challenged_world = Some sample_challenged"
    by (simp add: gnb_ue_def sample_challenged_world_def NewHandler_def sample_gnb_def NewGNBContext_def sample_challenged_def
        sample_ue_def)
  show "wTransports sample_challenged_world ''1'' = Some sample_n2" by (simp add: sample_challenged_world_def)
  show "Compute5GAKA (envAKA (sample_env sample_pdu)) (uK sample_challenged) (uOPc sample_challenged) (uSQN sample_challenged)
      (uSUPI sample_challenged) (uMCC sample_challenged) (uMNC sample_challenged) (uRAND sample_challenged)
      (uAUTN sample_challenged) = Inl ErrMACFailure"
    by (simp add: sample_env_def sample_challenged_def Compute5GAKA_def toy_hex toy_aka_def del: hex_decode.simps)
qed (simp_all add: no_options_def sample_challenged_def)

section \<open>Accepting a session\<close>

lemma n2_send_ok:
  assumes "wTransports w k = Some t" "\<not> closed t" "envWrite E b 1 (ppid t) = Inr ()"
  shows "n2_send E k b False w = (Inr (), w\<lparr> wTransports := (wTransports w)(k \<mapsto> t\<lparr> conn_sent := conn_sent t @ [(b, 1, ppid t)] \<rparr>) \<rparr>)"
  using assms by (simp add: n2_send_def Send_def)

lemma gnb_ue_transport: "gnb_ue k u (w\<lparr> wTransports := m \<rparr>) = gnb_ue k u w"
  by (simp add: gnb_ue_def)

lemma take_items_static:
  "psDLTeid (fold (take_item v6 sid) items info) = psDLTeid info" "psN3GNBIP (fold (take_item v6 sid) items info) = psN3GNBIP info"
  by (induction items arbitrary: info) (simp_all add: take_item_def)

lemma captured_session:
  "\<exists>c. uPDUSessions (captureTunnel gnb (uint i) d m nas ue) = (uPDUSessions ue)(i \<mapsto> c) \<and> psPDUSessionID c = i \<and>
     psDLTeid c = d \<and> psN3GNBIP c = gN3Addr gnb"
  unfolding captureTunnel_def Let_def
  by (cases nas; simp; intro exI conjI, rule refl; simp add: take_items_id take_items_static)

text \<open>C18. What the gNB announces is what it listens to: when a setup request for a session is accepted on a gNB with a
  user plane, the answer on N2 carries the tunnel endpoint that the session records, its TEID and the N3 address of
  the gNB; the session is filed under the requested identity, and the other sessions are as they were.\<close>

theorem accepted_session_tunnel:
  assumes "gnb_ue k u w = Some ue" "wTransports w k = Some t" "\<not> closed t"
    and "BuildPDUSessionResourceSetupResponse (envNGAP E) \<lparr> srAMFUENGAPID = uAMFUENGAPID ue, srRANUENGAPID = uRANUENGAPID ue,
      srPDUSessionID = uint i, srDLTeid = downlink_teid ue i, srDLIP = gN3Addr gnb \<rparr> = Inr b"
    and "envWrite E b 1 (ppid t) = Inr ()"
  shows "\<exists>w' x s. accept_session E k u gnb True i m nas w = (Inr (), w') \<and> gnb_ue k u w' = Some x \<and>
     uPDUSessions x i = Some s \<and> psPDUSessionID s = i \<and> psDLTeid s = downlink_teid ue i \<and> psN3GNBIP s = gN3Addr gnb \<and>
     (\<forall>j. j \<noteq> i \<longrightarrow> uPDUSessions x j = uPDUSessions ue j) \<and>
     map_option conn_sent (wTransports w' k) = Some (conn_sent t @ [(b, 1, ppid t)])"
proof -
  let ?ue = "if uPDUSessionID ue = 0 then ue\<lparr> uPDUSessionID := i \<rparr> else ue"
  let ?w1 = "w\<lparr> wStore := update_gnb k (set_ue u ?ue) (wStore w) \<rparr>"
  let ?t = "t\<lparr> conn_sent := conn_sent t @ [(b, 1, ppid t)] \<rparr>"
  let ?w2 = "?w1\<lparr> wTransports := (wTransports ?w1)(k \<mapsto> ?t) \<rparr>"
  let ?x = "captureTunnel gnb (uint i) (downlink_teid ue i) m nas ?ue"
  let ?w3 = "?w2\<lparr> wStore := update_gnb k (set_ue u ?x) (wStore ?w2) \<rparr>"
  have u1: "gnb_ue k u ?w1 = Some ?ue" by (rule gnb_ue_after_write [OF assms(1)])
  then have u2: "gnb_ue k u ?w2 = Some ?ue" by (simp only: gnb_ue_transport)
  have u3: "gnb_ue k u ?w3 = Some ?x" by (rule gnb_ue_after_write [OF u2])
  have ids: "uAMFUENGAPID ?ue = uAMFUENGAPID ue" "uRANUENGAPID ?ue = uRANUENGAPID ue" "downlink_teid ?ue i = downlink_teid ue i"
    by (simp_all add: downlink_teid_def)
  have s: "n2_send E k b False ?w1 = (Inr (), ?w2)"
    by (rule n2_send_ok) (use assms(2,3,5) in simp_all)
  have q: "send_quietly E k (Inr b) ?w1 = (Inr (), ?w2)"
    by (simp only: send_quietly_def sum.case hbind_def htry_def s prod.case hand_basic)
  have a: "accept_session E k u gnb True i m nas w = (Inr (), ?w3)"
    by (simp only: accept_session_def Let_def hbind_def write_ue_hit [OF assms(1)] prod.case sum.case read_ue_hit [OF u1] ids
        assms(4) q if_True write_ue_hit [OF u2])
  obtain c where c: "uPDUSessions ?x = (uPDUSessions ue)(i \<mapsto> c)" "psPDUSessionID c = i" "psDLTeid c = downlink_teid ue i"
    "psN3GNBIP c = gN3Addr gnb"
    using captured_session [of gnb i "downlink_teid ue i" m nas ?ue] by (auto split: if_splits)
  show ?thesis
  proof (intro exI conjI)
    show "accept_session E k u gnb True i m nas w = (Inr (), ?w3)" by (rule a)
    show "gnb_ue k u ?w3 = Some ?x" by (rule u3)
    show "uPDUSessions ?x i = Some c" "psPDUSessionID c = i" "psDLTeid c = downlink_teid ue i" "psN3GNBIP c = gN3Addr gnb"
      "\<forall>j. j \<noteq> i \<longrightarrow> uPDUSessions ?x j = uPDUSessions ue j"
      by (simp_all only: c) simp_all
    show "map_option conn_sent (wTransports ?w3 k) = Some (conn_sent t @ [(b, 1, ppid t)])" by simp
  qed
qed

definition sample_n3_gnb :: GNBContext where
  "sample_n3_gnb = (sample_gnb ''1'' [])\<lparr> gN3Addr := ''10.0.0.1'' \<rparr>"

lemma sample_setup_response:
  "\<exists>b. BuildPDUSessionResourceSetupResponse (envNGAP (sample_env sample_pdu)) \<lparr> srAMFUENGAPID = uAMFUENGAPID (sample_ue ''1''),
     srRANUENGAPID = uRANUENGAPID (sample_ue ''1''), srPDUSessionID = uint (1 :: u8),
     srDLTeid = downlink_teid (sample_ue ''1'') 1, srDLIP = gN3Addr sample_n3_gnb \<rparr> = Inr b"
proof -
  have "rok (BuildPDUSessionResourceSetupResponse (ngap_instance sample_pdu) \<lparr> srAMFUENGAPID = uAMFUENGAPID (sample_ue ''1''),
     srRANUENGAPID = uRANUENGAPID (sample_ue ''1''), srPDUSessionID = uint (1 :: u8),
     srDLTeid = downlink_teid (sample_ue ''1'') 1, srDLIP = gN3Addr sample_n3_gnb \<rparr>)"
    by code_simp
  then show ?thesis by (simp add: sample_env_def rok_iff)
qed

theorem accepted_session_tunnel_witness:
  "\<exists>(w' :: world) x s b. accept_session (sample_env sample_pdu) ''1'' ''1'' sample_n3_gnb True 1 (sample_message 1) None sample_world =
     (Inr (), w') \<and> gnb_ue ''1'' ''1'' w' = Some x \<and> uPDUSessions x 1 = Some s \<and>
     psDLTeid s = downlink_teid (sample_ue ''1'') 1 \<and> map_option conn_sent (wTransports w' ''1'') = Some [(b, 1, ngapPPID)]"
proof -
  obtain b where b: "BuildPDUSessionResourceSetupResponse (envNGAP (sample_env sample_pdu)) \<lparr> srAMFUENGAPID = uAMFUENGAPID (sample_ue ''1''),
     srRANUENGAPID = uRANUENGAPID (sample_ue ''1''), srPDUSessionID = uint (1 :: u8),
     srDLTeid = downlink_teid (sample_ue ''1'') 1, srDLIP = gN3Addr sample_n3_gnb \<rparr> = Inr b"
    using sample_setup_response by blast
  have t: "\<not> closed sample_n2" "envWrite (sample_env sample_pdu) b 1 (ppid sample_n2) = Inr ()"
    by (simp_all add: sample_n2_def sample_env_def)
  from accepted_session_tunnel [OF sample_world_ue sample_world_n2 t(1) b t(2), of "sample_message 1" None]
  show ?thesis by (elim exE conjE) (intro exI conjI, assumption+, simp add: sample_n2_def)
qed

section \<open>Requests for nodes that do not exist\<close>

text \<open>The node a request names.\<close>

fun gnb_named :: "gnb_request \<Rightarrow> string option" where
  "gnb_named (GCreate b) = None"
| "gnb_named (GGet k) = Some k" | "gnb_named (GDelete k) = Some k" | "gnb_named (GNGAP k b) = Some k"
| "gnb_named (GAwait k b) = Some k" | "gnb_named (GCreateUE k b) = Some k" | "gnb_named (GGetUE k u) = Some k"
| "gnb_named (GPatchUE k u b) = Some k" | "gnb_named (GDeleteUE k u) = Some k" | "gnb_named (GMigrateUE k u b) = Some k"
| "gnb_named (GUENGAP k u b) = Some k" | "gnb_named (GUEAwait k u b) = Some k" | "gnb_named (GEcho k b) = Some k"
| "gnb_named (GErrorIndication k ms) = Some k" | "gnb_named (GTunnel k u v) = Some k"
| "gnb_named (GUplink k u b) = Some k" | "gnb_named (GDownlink k u b) = Some k"

fun enb_named :: "enb_request \<Rightarrow> string option" where
  "enb_named (ECreate b) = None"
| "enb_named (EGet k) = Some k" | "enb_named (EDelete k) = Some k" | "enb_named (ES1AP k b) = Some k"
| "enb_named (EAwait k b) = Some k" | "enb_named (ECreateUE k b) = Some k" | "enb_named (EGetUE order k u) = Some k"
| "enb_named (EPatchUE k u b) = Some k" | "enb_named (EDeleteUE k u) = Some k" | "enb_named (EMigrateUE k u b) = Some k"
| "enb_named (EUES1AP k u b) = Some k" | "enb_named (EUEAwait k u b) = Some k" | "enb_named (EEcho k b) = Some k"
| "enb_named (EErrorIndication k ms) = Some k" | "enb_named (ETunnel k u v) = Some k"
| "enb_named (EUplink k u b) = Some k" | "enb_named (EDownlink k u b) = Some k"

fun named :: "request \<Rightarrow> string option" where
  "named (OnGNB q) = gnb_named q"
| "named (OnENB q) = enb_named q"

definition absent :: "string \<Rightarrow> world \<Rightarrow> bool" where
  "absent k w = (gnbs (wStore w) k = None \<and> enbs (wStore w) k = None \<and> wGTPU w k = None \<and> wTransports w k = None \<and>
     wS1APTransports w k = None)"

lemma absent_inv: "world_inv w \<Longrightarrow> gnbs (wStore w) k = None \<Longrightarrow> enbs (wStore w) k = None \<Longrightarrow> absent k w"
  by (auto simp: absent_def world_inv_def dom_def subset_iff)

text \<open>Such a request stops at the first lookup, or at its body before that.\<close>

definition stops :: "world \<Rightarrow> (world, 'a) hand \<Rightarrow> bool" where
  "stops w h = (\<exists>e. h w = (Inl e, w))"

lemma stops_bind: "stops w m \<Longrightarrow> stops w (hbind m f)"
  by (auto simp: stops_def hbind_def)

lemma stops_body: "(\<And>x. stops w (f x)) \<Longrightarrow> stops w (hbind (parse_body b) f)"
  by (cases b) (auto simp: stops_def hbind_def parse_body_def hand_basic http_error_def split: error.split)

lemma stops_lookups:
  assumes "absent k w"
  shows "stops w (find_gnb k)" "stops w (find_enb k)" "stops w (find_gnb_ue k u)" "stops w (find_enb_ue k u)" "stops w (find_n3 k)"
    "stops w (gnbGTPU k u i)" "stops w (enbGTPU k u)"
proof -
  show f: "stops w (find_gnb k)" "stops w (find_enb k)"
    using assms by (simp_all add: absent_def stops_def find_gnb_def find_enb_def GetGNB_def GetENB_def http_error_simps)
  show g: "stops w (find_gnb_ue k u)" "stops w (find_enb_ue k u)"
    unfolding find_gnb_ue_def find_enb_ue_def by (rule stops_bind, rule f)+
  show "stops w (find_n3 k)" using assms by (simp add: absent_def stops_def find_n3_def)
  show "stops w (gnbGTPU k u i)" unfolding gnbGTPU_def by (rule stops_bind, rule g)
  show "stops w (enbGTPU k u)" unfolding enbGTPU_def by (rule stops_bind, rule g)
qed

lemma stops_deletes: "absent k w \<Longrightarrow> stops w (handleDeleteGNB E k)" "absent k w \<Longrightarrow> stops w (handleDeleteENB E k)"
  by (auto simp: stops_def absent_def handleDeleteGNB_def handleDeleteENB_def hand_simps or_http_def hbind_def DeleteGNB_def
      DeleteENB_def put_n2_def put_n3_def put_s1_def close_n2_def close_n3_def close_s1_def fun_upd_idem)

lemma finish_stops: "stops w h \<Longrightarrow> finish h w = (s, w') \<Longrightarrow> w' = w \<and> (\<forall>c. s \<noteq> Done c)"
  by (auto simp: stops_def finish_def reply_of_def split: error.splits)

lemmas gnb_handlers = handleGetGNB_def handleSendGNBNGAP_def handleAwaitGNBMessage_def handleCreateGNBUE_def
  handleGetGNBUE_def handlePatchGNBUE_def handleDeleteGNBUE_def handleMigrateGNBUE_def handleSendGNBUENGAP_def
  handleAwaitGNBUEMessage_def handleSendGNBGTPUEcho_def handleAwaitGNBErrorIndication_def handleGetGNBTunnel_def
  handleSendGNBUplink_def handleAwaitGNBDownlink_def

lemmas enb_handlers = handleGetENB_def handleSendENBS1AP_def handleAwaitENBMessage_def handleCreateENBUE_def
  handleGetENBUE_def handlePatchENBUE_def handleDeleteENBUE_def handleMigrateENBUE_def handleSendENBUES1AP_def
  handleAwaitENBUEMessage_def handleSendENBGTPUEcho_def handleAwaitENBErrorIndication_def handleGetENBTunnel_def
  handleSendENBUplink_def handleAwaitENBDownlink_def

lemma absent_gnb_handlers:
  assumes a: "absent k w"
  shows "stops w (handleGetGNB k)"
    "stops w (handleSendGNBNGAP E k b1)"
    "stops w (handleAwaitGNBMessage k b2)"
    "stops w (handleCreateGNBUE E k b3)"
    "stops w (handleGetGNBUE k u)"
    "stops w (handlePatchGNBUE k u b4)"
    "stops w (handleDeleteGNBUE k u)"
    "stops w (handleMigrateGNBUE k u b5)"
    "stops w (handleSendGNBUENGAP E k u b6)"
    "stops w (handleAwaitGNBUEMessage E k u b7)"
    "stops w (handleSendGNBGTPUEcho E k b8)"
    "stops w (handleAwaitGNBErrorIndication k ms)"
    "stops w (handleGetGNBTunnel k u v)"
    "stops w (handleSendGNBUplink E k u b9)"
    "stops w (handleAwaitGNBDownlink k u b10)"
  unfolding gnb_handlers Let_def by ((rule stops_bind stops_body stops_lookups, (rule a)?)+)

lemma absent_enb_handlers:
  assumes a: "absent k w"
  shows "stops w (handleGetENB k)"
    "stops w (handleSendENBS1AP E k b11)"
    "stops w (handleAwaitENBMessage k b12)"
    "stops w (handleCreateENBUE k b13)"
    "stops w (handleGetENBUE order k u)"
    "stops w (handlePatchENBUE k u b14)"
    "stops w (handleDeleteENBUE k u)"
    "stops w (handleMigrateENBUE k u b15)"
    "stops w (handleSendENBUES1AP E k u b16)"
    "stops w (handleAwaitENBUEMessage E k u b17)"
    "stops w (handleSendENBGTPUEcho E k b18)"
    "stops w (handleAwaitENBErrorIndication k ms)"
    "stops w (handleGetENBTunnel k u v)"
    "stops w (handleSendENBUplink E k u b19)"
    "stops w (handleAwaitENBDownlink k u b20)"
  unfolding enb_handlers Let_def by ((rule stops_bind stops_body stops_lookups, (rule a)?)+)

lemma absent_refused:
  assumes a: "absent k w" and n: "named q = Some k" and s: "serve E q w = (s, w')"
  shows "w' = w \<and> (\<forall>c. s \<noteq> Done c)"
proof (cases q)
  case (OnGNB r)
  then show ?thesis using n s
    by (cases r) (auto dest: absent_gnb_handlers [OF a, THEN finish_stops] stops_deletes(1) [OF a, THEN finish_stops])
next
  case (OnENB r)
  then show ?thesis using n s
    by (cases r) (auto dest: absent_enb_handlers [OF a, THEN finish_stops] stops_deletes(2) [OF a, THEN finish_stops])
qed

text \<open>C19. A request that names a node the server does not hold is refused and changes nothing: whatever the request and its
  body, in every reachable state, no message is sent, no message of another node is consumed, and no association or
  endpoint is opened or closed.\<close>

theorem unknown_node_refused:
  assumes "api_reachable Es w" and "named q = Some k" and "gnbs (wStore w) k = None" and "enbs (wStore w) k = None"
    and "serve E q w = (s, w')"
  shows "w' = w \<and> (\<forall>c. s \<noteq> Done c)"
  by (rule absent_refused [OF absent_inv [OF reachable_inv [OF assms(1)] assms(3,4)] assms(2,5)])

theorem unknown_node_refused_witness:
  "\<exists>s. serve (sample_env sample_pdu) (OnGNB (GDelete ''7'')) sample_reached = (s, sample_reached) \<and> s \<noteq> Done 204"
proof -
  obtain s w' where e: "serve (sample_env sample_pdu) (OnGNB (GDelete ''7'')) sample_reached = (s, w')" by fastforce
  have "gnbs (wStore sample_reached) ''7'' = None" "enbs (wStore sample_reached) ''7'' = None"
    by (simp_all add: sample_reached_def finish_def handleCreateGNB_def parse_body_def hand_simps sample_gnb_request_def Let_def
      DialNGAP_def dialFramed_def sample_env_def hbind_def register_gnb_def CreateGNB_def NewHandler_def New_def
      bring_up_gnb_def ng_setup_def teardown_on_error_def or_default_def put_n2_def reply_of_def dec_one)
  from unknown_node_refused [OF sample_reached _ this e] e show ?thesis by simp
qed

section \<open>Deleting a node through the other interface\<close>

text \<open>C22. The two delete handlers close the node's GTP-U endpoint before they look the node up, and both kinds of node keep their
  endpoint in one table: deleting an eNB's identifier among the gNBs is answered 404, and takes the eNB off the user
  plane.  The eNB itself, its UEs and its S1AP association stay.\<close>

theorem DeleteGNB_of_eNB:
  assumes "api_reachable Es w" and "enbs (wStore w) k = Some e" and "serve E (OnGNB (GDelete k)) w = (s, w')"
  shows "s = Refused 404 \<and> wStore w' = wStore w \<and> wS1APTransports w' = wS1APTransports w \<and> wGTPU w' k = None"
proof -
  have i: "world_inv w" by (rule reachable_inv [OF assms(1)])
  then have n: "gnbs (wStore w) k = None" using assms(2) by (auto simp: world_inv_def store_inv_def)
  then have "wTransports w k = None" using i by (auto simp: world_inv_def dom_def subset_iff)
  then show ?thesis using assms(3) n
    by (auto simp: finish_def handleDeleteGNB_def hand_simps or_http_def hbind_def DeleteGNB_def put_n2_def put_n3_def
      close_n2_def close_n3_def reply_of_def http_status fun_upd_idem split: option.splits)
qed

definition sample_enb_env :: "(nat, nat) api_env" where
  "sample_enb_env = (sample_env sample_pdu)\<lparr> envListenUDP := (\<lambda>ip. Inr [10, 0, 0, 1]) \<rparr>"

definition sample_enb_request :: CreateENBRequest where
  "sample_enb_request = \<lparr> ce_MMEAddress = ''10.0.0.9'', ce_ENBS1Address = [], ce_MCC = ''001'', ce_MNC = ''01'', ce_TAC = [],
     ce_ENBID = ''00001'', ce_ENBIDBitLength = 20, ce_Name = ''enb'', ce_DefaultPagingDRX = None, ce_RawS1APPDU = Some [],
     ce_WaitFor = [], ce_TimeoutMs = 0, ce_SkipS1Setup = True, ce_EnableGTPU = True, ce_ENBN3Address = [] \<rparr>"

definition sample_with_enb :: world where
  "sample_with_enb = snd (serve sample_enb_env (OnENB (ECreate (Inr sample_enb_request))) (NewHandler New (\<lambda>l. [])))"

lemma sample_with_enb: "api_reachable {sample_enb_env} sample_with_enb"
  unfolding sample_with_enb_def
  by (rule api_reachable.step [OF api_reachable.start api_step.request [OF insertI1 prod.collapse [symmetric]]])

lemma sample_enb_body:
  "check_enb_tac sample_enb_request = Inr ()" "encodeS1SetupAttempt L sample_enb_request = Inr []"
  by (simp_all add: check_enb_tac_def encodeS1SetupAttempt_def sample_enb_request_def rmsg_def)

lemma sample_enb_fields:
  "ce_MMEAddress sample_enb_request = ''10.0.0.9''" "ce_SkipS1Setup sample_enb_request" "ce_EnableGTPU sample_enb_request"
  by (simp_all add: sample_enb_request_def)

lemma sample_with_enb_up: "enbs (wStore sample_with_enb) ''1'' \<noteq> None \<and> wGTPU sample_with_enb ''1'' \<noteq> None"
  by (simp add: sample_with_enb_def finish_def handleCreateENB_def parse_body_def hand_simps sample_enb_body sample_enb_fields
    Let_def sample_enb_env_def DialS1AP_def dialFramed_def sample_env_def hbind_def register_enb_def CreateENB_def NewHandler_def
    New_def bring_up_enb_def s1_setup_def teardown_on_error_def put_s1_def put_n3_def reply_of_def dec_one listen_enb_def Listen_def NewENBContext_def)

theorem DeleteGNB_of_eNB_witness:
  "\<exists>s w'. serve sample_enb_env (OnGNB (GDelete ''1'')) sample_with_enb = (s, w') \<and> s = Refused 404 \<and>
     wGTPU sample_with_enb ''1'' \<noteq> None \<and> wGTPU (w' :: world) ''1'' = None"
proof -
  obtain s w' where e: "serve sample_enb_env (OnGNB (GDelete ''1'')) sample_with_enb = (s, w')" by fastforce
  obtain x where "enbs (wStore sample_with_enb) ''1'' = Some x" using sample_with_enb_up by blast
  from DeleteGNB_of_eNB [OF sample_with_enb this e] show ?thesis using e sample_with_enb_up by blast
qed

end
