(* ===== verification/Api_Router.thy ===== *)
theory Api_Router
  imports Api_Server
begin

text \<open>
  The router of \<open>internal/api/router.go\<close>: the table of routes, one line for each line of \<open>NewRouter\<close>, and the choice
  of a route that \<open>http.ServeMux\<close> makes.  A path comes as its decoded segments, as the library passes it on, and a
  body as bytes; \<open>json_lib\<close> holds what \<open>encoding/json\<close> decodes them to, one field for each type of body.  The
  endpoints that drop the decoder's error (\<open>_ = json.NewDecoder(...)\<close>) use whatever has been decoded.
\<close>

section \<open>Requests of HTTP\<close>

record http_request =
  hMethod :: string
  hPath :: "string list"
  hQuery :: "string \<Rightarrow> string"
  hBody :: bytes

record json_lib =
  jCreateGNB :: "bytes \<Rightarrow> CreateGNBRequest result"
  jSendGNBNGAP :: "bytes \<Rightarrow> SendGNBNGAPRequest result"
  jAwait :: "bytes \<Rightarrow> AwaitRequest result"
  jCreateGNBUE :: "bytes \<Rightarrow> CreateGNBUERequest result"
  jPatchGNBUE :: "bytes \<Rightarrow> PatchGNBUERequest result"
  jMigrateGNBUE :: "bytes \<Rightarrow> MigrateGNBUERequest result"
  jSendGNBUENGAP :: "bytes \<Rightarrow> SendGNBUENGAPRequest result"
  jGNBEcho :: "bytes \<Rightarrow> GTPUEchoRequest"
  jTimeout :: "bytes \<Rightarrow> int"
  jGNBUplink :: "bytes \<Rightarrow> GNBUplinkRequest result"
  jGNBDownlink :: "bytes \<Rightarrow> GNBAwaitDownlinkRequest result"
  jCreateENB :: "bytes \<Rightarrow> CreateENBRequest result"
  jSendENBS1AP :: "bytes \<Rightarrow> SendENBS1APRequest result"
  jCreateENBUE :: "bytes \<Rightarrow> CreateENBUERequest result"
  jPatchENBUE :: "bytes \<Rightarrow> PatchENBUERequest result"
  jMigrateENBUE :: "bytes \<Rightarrow> MigrateENBUERequest result"
  jSendENBUES1AP :: "bytes \<Rightarrow> SendENBUES1APRequest result"
  jENBEcho :: "bytes \<Rightarrow> GTPUEchoRequest"
  jENBUplink :: "bytes \<Rightarrow> ENBUplinkRequest result"
  jENBDownlink :: "bytes \<Rightarrow> ENBAwaitDownlinkRequest"

section \<open>The table\<close>

datatype segment = Lit string | Wild

type_synonym route = "string \<times> segment list \<times> (string list \<Rightarrow> http_request \<Rightarrow> request)"

definition gnb_routes :: "json_lib \<Rightarrow> route list" where
  "gnb_routes J =
   [(''POST'', [Lit ''gnb''], \<lambda>v r. OnGNB (GCreate (jCreateGNB J (hBody r)))),
    (''GET'', [Lit ''gnb'', Wild], \<lambda>v r. OnGNB (GGet (v ! 0))),
    (''DELETE'', [Lit ''gnb'', Wild], \<lambda>v r. OnGNB (GDelete (v ! 0))),
    (''POST'', [Lit ''gnb'', Wild, Lit ''ngap''], \<lambda>v r. OnGNB (GNGAP (v ! 0) (jSendGNBNGAP J (hBody r)))),
    (''POST'', [Lit ''gnb'', Wild, Lit ''await''], \<lambda>v r. OnGNB (GAwait (v ! 0) (jAwait J (hBody r)))),
    (''POST'', [Lit ''gnb'', Wild, Lit ''ue''], \<lambda>v r. OnGNB (GCreateUE (v ! 0) (jCreateGNBUE J (hBody r)))),
    (''GET'', [Lit ''gnb'', Wild, Lit ''ue'', Wild], \<lambda>v r. OnGNB (GGetUE (v ! 0) (v ! 1))),
    (''PATCH'', [Lit ''gnb'', Wild, Lit ''ue'', Wild], \<lambda>v r. OnGNB (GPatchUE (v ! 0) (v ! 1) (jPatchGNBUE J (hBody r)))),
    (''DELETE'', [Lit ''gnb'', Wild, Lit ''ue'', Wild], \<lambda>v r. OnGNB (GDeleteUE (v ! 0) (v ! 1))),
    (''POST'', [Lit ''gnb'', Wild, Lit ''ue'', Wild, Lit ''migrate''], \<lambda>v r. OnGNB (GMigrateUE (v ! 0) (v ! 1) (jMigrateGNBUE J (hBody r)))),
    (''POST'', [Lit ''gnb'', Wild, Lit ''ue'', Wild, Lit ''ngap''], \<lambda>v r. OnGNB (GUENGAP (v ! 0) (v ! 1) (jSendGNBUENGAP J (hBody r)))),
    (''POST'', [Lit ''gnb'', Wild, Lit ''ue'', Wild, Lit ''await''], \<lambda>v r. OnGNB (GUEAwait (v ! 0) (v ! 1) (jAwait J (hBody r)))),
    (''POST'', [Lit ''gnb'', Wild, Lit ''gtpu'', Lit ''echo''], \<lambda>v r. OnGNB (GEcho (v ! 0) (jGNBEcho J (hBody r)))),
    (''POST'', [Lit ''gnb'', Wild, Lit ''gtpu'', Lit ''error-indication'', Lit ''await''], \<lambda>v r. OnGNB (GErrorIndication (v ! 0) (jTimeout J (hBody r)))),
    (''GET'', [Lit ''gnb'', Wild, Lit ''ue'', Wild, Lit ''tunnel''], \<lambda>v r. OnGNB (GTunnel (v ! 0) (v ! 1) (hQuery r ''pdu_session_id''))),
    (''POST'', [Lit ''gnb'', Wild, Lit ''ue'', Wild, Lit ''uplink''], \<lambda>v r. OnGNB (GUplink (v ! 0) (v ! 1) (jGNBUplink J (hBody r)))),
    (''POST'', [Lit ''gnb'', Wild, Lit ''ue'', Wild, Lit ''downlink'', Lit ''await''], \<lambda>v r. OnGNB (GDownlink (v ! 0) (v ! 1) (jGNBDownlink J (hBody r))))]"

text \<open>\<open>order\<close> is the order in which the language happens to range over the map of bearers.\<close>

definition enb_routes :: "json_lib \<Rightarrow> u8 list \<Rightarrow> route list" where
  "enb_routes J order =
   [(''POST'', [Lit ''enb''], \<lambda>v r. OnENB (ECreate (jCreateENB J (hBody r)))),
    (''GET'', [Lit ''enb'', Wild], \<lambda>v r. OnENB (EGet (v ! 0))),
    (''DELETE'', [Lit ''enb'', Wild], \<lambda>v r. OnENB (EDelete (v ! 0))),
    (''POST'', [Lit ''enb'', Wild, Lit ''ue''], \<lambda>v r. OnENB (ECreateUE (v ! 0) (jCreateENBUE J (hBody r)))),
    (''GET'', [Lit ''enb'', Wild, Lit ''ue'', Wild], \<lambda>v r. OnENB (EGetUE order (v ! 0) (v ! 1))),
    (''PATCH'', [Lit ''enb'', Wild, Lit ''ue'', Wild], \<lambda>v r. OnENB (EPatchUE (v ! 0) (v ! 1) (jPatchENBUE J (hBody r)))),
    (''DELETE'', [Lit ''enb'', Wild, Lit ''ue'', Wild], \<lambda>v r. OnENB (EDeleteUE (v ! 0) (v ! 1))),
    (''GET'', [Lit ''enb'', Wild, Lit ''ue'', Wild, Lit ''tunnel''], \<lambda>v r. OnENB (ETunnel (v ! 0) (v ! 1) (hQuery r ''ebi''))),
    (''POST'', [Lit ''enb'', Wild, Lit ''ue'', Wild, Lit ''s1ap''], \<lambda>v r. OnENB (EUES1AP (v ! 0) (v ! 1) (jSendENBUES1AP J (hBody r)))),
    (''POST'', [Lit ''enb'', Wild, Lit ''ue'', Wild, Lit ''migrate''], \<lambda>v r. OnENB (EMigrateUE (v ! 0) (v ! 1) (jMigrateENBUE J (hBody r)))),
    (''POST'', [Lit ''enb'', Wild, Lit ''s1ap''], \<lambda>v r. OnENB (ES1AP (v ! 0) (jSendENBS1AP J (hBody r)))),
    (''POST'', [Lit ''enb'', Wild, Lit ''await''], \<lambda>v r. OnENB (EAwait (v ! 0) (jAwait J (hBody r)))),
    (''POST'', [Lit ''enb'', Wild, Lit ''ue'', Wild, Lit ''await''], \<lambda>v r. OnENB (EUEAwait (v ! 0) (v ! 1) (jAwait J (hBody r)))),
    (''POST'', [Lit ''enb'', Wild, Lit ''ue'', Wild, Lit ''uplink''], \<lambda>v r. OnENB (EUplink (v ! 0) (v ! 1) (jENBUplink J (hBody r)))),
    (''POST'', [Lit ''enb'', Wild, Lit ''ue'', Wild, Lit ''downlink'', Lit ''await''], \<lambda>v r. OnENB (EDownlink (v ! 0) (v ! 1) (jENBDownlink J (hBody r)))),
    (''POST'', [Lit ''enb'', Wild, Lit ''gtpu'', Lit ''echo''], \<lambda>v r. OnENB (EEcho (v ! 0) (jENBEcho J (hBody r)))),
    (''POST'', [Lit ''enb'', Wild, Lit ''gtpu'', Lit ''error-indication'', Lit ''await''], \<lambda>v r. OnENB (EErrorIndication (v ! 0) (jTimeout J (hBody r))))]"

definition NewRouter :: "json_lib \<Rightarrow> u8 list \<Rightarrow> route list" where
  "NewRouter J order = enb_routes J order @ gnb_routes J"

section \<open>The choice of a route\<close>

text \<open>The values of the wildcards, if the path is an instance of the pattern.\<close>

fun path_values :: "segment list \<Rightarrow> string list \<Rightarrow> string list option" where
  "path_values [] [] = Some []"
| "path_values (Lit a # ps) (s # ss) = (if s = a then path_values ps ss else None)"
| "path_values (Wild # ps) (s # ss) = map_option ((#) s) (path_values ps ss)"
| "path_values _ _ = None"

text \<open>A route for \<open>GET\<close> also serves \<open>HEAD\<close>.\<close>

definition serves_method :: "string \<Rightarrow> string \<Rightarrow> bool" where
  "serves_method route m = (m = route \<or> (route = ''GET'' \<and> m = ''HEAD''))"

definition route_matches :: "http_request \<Rightarrow> route \<Rightarrow> bool" where
  "route_matches r rt = (case rt of (m, ps, h) \<Rightarrow> serves_method m (hMethod r) \<and> path_values ps (hPath r) \<noteq> None)"

definition find_route :: "route list \<Rightarrow> http_request \<Rightarrow> request option" where
  "find_route rts r = (case List.find (route_matches r) rts of None \<Rightarrow> None
     | Some (m, ps, h) \<Rightarrow> map_option (\<lambda>v. h v r) (path_values ps (hPath r)))"

text \<open>The document at \<open>/openapi.yaml\<close>; and what the library answers where no route matches: 405 if one would have
  with another method, 404 otherwise.\<close>

definition serve_http ::
  "json_lib \<Rightarrow> u8 list \<Rightarrow> ('priv, 'pub) api_env \<Rightarrow> http_request \<Rightarrow> world \<Rightarrow> reply \<times> world" where
  "serve_http J order E r w =
     (if serves_method ''GET'' (hMethod r) \<and> hPath r = [''openapi.yaml''] then (Done 200, w)
      else case find_route (NewRouter J order) r of
        Some q \<Rightarrow> serve E q w
      | None \<Rightarrow> (Refused (if hPath r = [''openapi.yaml''] \<or>
                           (\<exists>rt \<in> set (NewRouter J order). path_values (fst (snd rt)) (hPath r) \<noteq> None)
                         then 405 else 404), w))"

section \<open>One route for a request\<close>

text \<open>Two patterns conflict if some path is an instance of both.\<close>

fun overlap :: "segment list \<Rightarrow> segment list \<Rightarrow> bool" where
  "overlap [] [] = True"
| "overlap (Lit a # ps) (Lit b # qs) = (a = b \<and> overlap ps qs)"
| "overlap (p # ps) (q # qs) = overlap ps qs"
| "overlap _ _ = False"

fun conflict_free :: "(string \<times> segment list) list \<Rightarrow> bool" where
  "conflict_free [] = True"
| "conflict_free ((m, ps) # rts) = (list_all (\<lambda>(n, qs). m = n \<longrightarrow> \<not> overlap ps qs) rts \<and> conflict_free rts)"

lemma overlap_common: "path_values ps p \<noteq> None \<Longrightarrow> path_values qs p \<noteq> None \<Longrightarrow> overlap ps qs"
proof (induction ps p arbitrary: qs rule: path_values.induct)
  case 1
  then show ?case by (cases qs) simp_all
next
  case (2 a ps s ss)
  show ?case
  proof (cases qs)
    case (Cons q qs)
    then show ?thesis using 2 by (cases q) (auto split: if_splits)
  qed (use 2 in simp)
next
  case (3 ps s ss)
  show ?case
  proof (cases qs)
    case (Cons q qs)
    then show ?thesis using 3 by (cases q) (auto split: if_splits)
  qed (use 3 in simp)
qed simp_all

definition patterns :: "route list \<Rightarrow> (string \<times> segment list) list" where
  "patterns rts = map (\<lambda>(m, ps, h). (m, ps)) rts"

lemma router_patterns: "conflict_free (patterns (NewRouter J order))"
proof -
  have p: "patterns (NewRouter J order) = patterns (NewRouter undefined [])"
    by (simp add: patterns_def NewRouter_def gnb_routes_def enb_routes_def)
  have "conflict_free (patterns (NewRouter undefined []))" unfolding patterns_def NewRouter_def gnb_routes_def enb_routes_def
    by simp
  then show ?thesis unfolding p .
qed

lemma router_methods: "m \<in> fst ` set (NewRouter J order) \<Longrightarrow> m \<in> {''GET'', ''POST'', ''PATCH'', ''DELETE''}"
  by (auto simp: NewRouter_def gnb_routes_def enb_routes_def)

lemma one_method:
  "serves_method m x \<Longrightarrow> serves_method n x \<Longrightarrow> m \<in> {''GET'', ''POST'', ''PATCH'', ''DELETE''} \<Longrightarrow>
     n \<in> {''GET'', ''POST'', ''PATCH'', ''DELETE''} \<Longrightarrow> m = n"
  by (auto simp: serves_method_def)

lemma at_most_one:
  assumes "conflict_free (patterns rts)" "fst ` set rts \<subseteq> {''GET'', ''POST'', ''PATCH'', ''DELETE''}"
  shows "length (filter (route_matches r) rts) \<le> 1"
  using assms
proof (induction rts)
  case (Cons rt rts)
  obtain m ps h where rt: "rt = (m, ps, h)" by (cases rt)
  show ?case
  proof (cases "route_matches r rt")
    case True
    have "\<not> route_matches r x" if "x \<in> set rts" for x
    proof
      assume x: "route_matches r x"
      obtain n qs k where e: "x = (n, qs, k)" by (cases x)
      have "m = n"
        using True x Cons.prems(2) that unfolding rt e route_matches_def by (intro one_method [of m "hMethod r" n]) auto
      moreover have "overlap ps qs" using True x unfolding rt e route_matches_def by (auto intro: overlap_common)
      ultimately show False using Cons.prems(1) that unfolding rt e patterns_def by (fastforce simp: list_all_iff)
    qed
    then show ?thesis using True by (simp add: filter_False)
  next
    case False
    then show ?thesis using Cons by (auto simp: rt patterns_def)
  qed
qed simp


text \<open>Every HTTP request is a step of the server or changes nothing, so what holds in the reachable states holds
  after any sequence of them.\<close>

lemma serve_http_step:
  "E \<in> Es \<Longrightarrow> serve_http J order E r w = (s, w') \<Longrightarrow> w' = w \<or> api_step Es w w'"
  by (auto simp: serve_http_def split: if_splits option.splits intro: api_step.request)

section \<open>Start-up\<close>

text \<open>\<open>main\<close> builds an empty store, the handler and the router, and serves the requests as they come, each with the system
  calls it meets.  Parsing the address and writing the log are left out.\<close>

fun ListenAndServe ::
  "json_lib \<Rightarrow> u8 list \<Rightarrow> (('priv, 'pub) api_env \<times> http_request) list \<Rightarrow> world \<Rightarrow> reply list \<times> world" where
  "ListenAndServe J order [] w = ([], w)"
| "ListenAndServe J order ((E, r) # rs) w =
     (case serve_http J order E r w of (s, w1) \<Rightarrow>
      case ListenAndServe J order rs w1 of (ss, w2) \<Rightarrow> (s # ss, w2))"

definition start_server ::
  "json_lib \<Rightarrow> u8 list \<Rightarrow> (link \<Rightarrow> net_event list) \<Rightarrow> (('priv, 'pub) api_env \<times> http_request) list \<Rightarrow> reply list \<times> world" where
  "start_server J order evs rs =
     (let s = New;
          h = NewHandler s evs
      in ListenAndServe J order rs h)"

lemma ListenAndServe_reachable:
  "api_reachable Es w \<Longrightarrow> \<forall>(E, r) \<in> set rs. E \<in> Es \<Longrightarrow> ListenAndServe J order rs w = (ss, w') \<Longrightarrow>
   api_reachable Es w' \<and> length ss = length rs"
proof (induction rs arbitrary: w ss w')
  case (Cons x rs)
  obtain E r where x: "x = (E, r)" by fastforce
  obtain s w1 where s: "serve_http J order E r w = (s, w1)" by fastforce
  obtain ss1 w2 where l: "ListenAndServe J order rs w1 = (ss1, w2)" by fastforce
  have "E \<in> Es" using Cons.prems(2) x by simp
  then have "api_reachable Es w1" using serve_http_step [OF _ s] Cons.prems(1) by (auto intro: api_reachable.step)
  then have "api_reachable Es w2 \<and> length ss1 = length rs" by (rule Cons.IH [OF _ _ l]) (use Cons.prems(2) in simp)
  then show ?case using Cons.prems(3) x s l by auto
qed simp

text \<open>The server answers every request of a sequence, and the state after it is one of the reachable states, about
  which the theorems on the server speak.\<close>

lemma start_server_reachable:
  "start_server J order evs rs = (ss, w) \<Longrightarrow> api_reachable (fst ` set rs) w \<and> length ss = length rs"
  unfolding start_server_def Let_def
  by (rule ListenAndServe_reachable [OF api_reachable.start]) (auto simp: image_iff intro: rev_bexI)

end
